(* ===== verification/Prelude.thy ===== *)
theory Prelude
  imports Complex_Main "HOL-Library.Log_Nat"
begin

text \<open>
  Shared vocabulary of the development: the collections the component proofs draw on, and
  generic lemmas on tables kept as lists of rows (the shape every database table has in the
  model): lookup of the first matching row, update of the rows that match, insertion of a
  new row.
\<close>

section \<open>Collections\<close>

named_theorems keeps_intros
  \<open>preservation rules: an effectful operation keeps a predicate on the state\<close>

named_theorems effect_defs
  \<open>definitions of the primitive effects, for symbolic evaluation of an operation\<close>

named_theorems js_eval
  \<open>equations that evaluate JavaScript numbers on literals\<close>

section \<open>Tables as lists of rows\<close>

abbreviation tally :: "('a \<Rightarrow> bool) \<Rightarrow> 'a list \<Rightarrow> nat" where
  "tally p xs \<equiv> length (filter p xs)"

text \<open>Prisma's \<open>findFirst\<close>/\<open>findUnique\<close>: the first row that matches.\<close>

definition find_row :: "('r \<Rightarrow> bool) \<Rightarrow> 'r list \<Rightarrow> 'r option" where
  "find_row p t = find p t"

text \<open>Prisma's \<open>updateMany\<close>: apply \<open>f\<close> to every row that matches.\<close>

definition update_rows :: "('r \<Rightarrow> bool) \<Rightarrow> ('r \<Rightarrow> 'r) \<Rightarrow> 'r list \<Rightarrow> 'r list" where
  "update_rows p f t = map (\<lambda>r. if p r then f r else r) t"

lemma find_row_Some: "find_row p t = Some r \<Longrightarrow> r \<in> set t \<and> p r"
  by (auto simp: find_row_def find_Some_iff)

lemma find_row_None: "find_row p t = None \<longleftrightarrow> (\<forall>r\<in>set t. \<not> p r)"
  by (auto simp: find_row_def find_None_iff)

lemma find_row_Nil [simp]: "find_row p [] = None"
  by (simp add: find_row_def)

lemma find_row_Cons [simp]:
  "find_row p (r # t) = (if p r then Some r else find_row p t)"
  by (simp add: find_row_def)

lemma update_rows_Nil [simp]: "update_rows p f [] = []"
  by (simp add: update_rows_def)

lemma update_rows_Cons [simp]:
  "update_rows p f (r # t) = (if p r then f r else r) # update_rows p f t"
  by (simp add: update_rows_def)

lemma length_update_rows [simp]: "length (update_rows p f t) = length t"
  by (simp add: update_rows_def)

lemma set_update_rows:
  "set (update_rows p f t) = (\<lambda>r. if p r then f r else r) ` set t"
  by (simp add: update_rows_def)

lemma update_rows_no_match: "(\<And>r. r \<in> set t \<Longrightarrow> \<not> p r) \<Longrightarrow> update_rows p f t = t"
  by (simp add: update_rows_def map_idI)

lemma map_update_rows_key:
  "(\<And>r. key (f r) = key r) \<Longrightarrow> map key (update_rows p f t) = map key t"
  by (simp add: update_rows_def)

lemma update_rows_cong:
  "(\<And>r. r \<in> set t \<Longrightarrow> p r = q r) \<Longrightarrow> update_rows p f t = update_rows q f t"
  by (simp add: update_rows_def)

lemma find_row_update_rows_same:
  assumes "find_row p t = Some r" and "\<And>s. p (f s) = p s"
  shows "find_row p (update_rows p f t) = Some (f r)"
  using assms by (induction t) (auto split: if_splits)

lemma find_row_update_rows_other:
  assumes "\<And>s. s \<in> set t \<Longrightarrow> p s \<Longrightarrow> \<not> q s" and "\<And>s. q s \<Longrightarrow> s \<in> set t \<Longrightarrow> \<not> p (f s)"
  shows "find_row p (update_rows q f t) = find_row p t"
  using assms by (induction t) auto

text \<open>Prisma's \<open>orderBy: key desc\<close> with \<open>findFirst\<close>: a matching row with the largest key.\<close>

fun latest_row :: "('r \<Rightarrow> int) \<Rightarrow> ('r \<Rightarrow> bool) \<Rightarrow> 'r list \<Rightarrow> 'r option" where
  "latest_row key p [] = None"
| "latest_row key p (r # t) =
     (case latest_row key p t of
        None \<Rightarrow> if p r then Some r else None
      | Some s \<Rightarrow> if p r \<and> key s < key r then Some r else Some s)"

lemma latest_row_Some:
  "latest_row key p t = Some r \<Longrightarrow> r \<in> set t \<and> p r \<and> (\<forall>s\<in>set t. p s \<longrightarrow> key s \<le> key r)"
proof (induction t arbitrary: r)
  case Nil
  then show ?case by simp
next
  case (Cons x t)
  show ?case
  proof (cases "latest_row key p t")
    case None
    have "\<forall>s\<in>set t. \<not> p s"
      using None by (induction t) (auto split: option.splits if_splits)
    with None Cons.prems show ?thesis by (auto split: if_splits)
  next
    case (Some s)
    with Cons.IH [OF Some] Cons.prems show ?thesis
      by (auto split: if_splits)
  qed
qed

lemma latest_row_None: "latest_row key p t = None \<longleftrightarrow> (\<forall>r\<in>set t. \<not> p r)"
  by (induction t) (auto split: option.splits)

section \<open>Arrays: the first element that matches\<close>

text \<open>
  \<open>xs.find(p)\<close> followed by a mutation of the found object, and \<open>findIndex\<close> followed by
  \<open>splice(i, 1)\<close>: both act on the first match and leave an array without a match as it is.
\<close>

fun upd_first :: "('a \<Rightarrow> bool) \<Rightarrow> ('a \<Rightarrow> 'a) \<Rightarrow> 'a list \<Rightarrow> 'a list" where
  "upd_first p f [] = []"
| "upd_first p f (x # xs) = (if p x then f x # xs else x # upd_first p f xs)"

fun del_first :: "('a \<Rightarrow> bool) \<Rightarrow> 'a list \<Rightarrow> 'a list" where
  "del_first p [] = []"
| "del_first p (x # xs) = (if p x then xs else x # del_first p xs)"

lemma map_upd_first: "(\<And>x. key (f x) = key x) \<Longrightarrow> map key (upd_first p f xs) = map key xs"
  by (induction xs) auto

lemma set_del_first: "set (del_first p xs) \<subseteq> set xs"
  by (induction xs) auto

lemma distinct_map_del_first: "distinct (map key xs) \<Longrightarrow> distinct (map key (del_first p xs))"
proof (induction xs)
  case Nil
  then show ?case by simp
next
  case (Cons x xs)
  have "key x \<notin> key ` set (del_first p xs)"
    using Cons.prems set_del_first [of p xs] by auto
  with Cons show ?case by simp
qed

text \<open>With distinct keys nothing with the deleted key remains, and the rest does.\<close>

lemma set_del_first_key:
  "distinct (map key xs) \<Longrightarrow> set (del_first (\<lambda>x. key x = k) xs) = {x \<in> set xs. key x \<noteq> k}"
  by (induction xs) (auto simp: image_iff)

lemma find_del_first_key:
  "distinct (map key xs) \<Longrightarrow> find (\<lambda>x. key x = k) (del_first (\<lambda>x. key x = k) xs) = None"
  by (simp add: find_None_iff set_del_first_key)

lemma find_upd_first:
  "find p xs = Some x \<Longrightarrow> p (f x) \<Longrightarrow> find p (upd_first p f xs) = Some (f x)"
  by (induction xs) (auto split: if_splits)

lemma set_upd_first: "set (upd_first p f xs) \<subseteq> set xs \<union> f ` {x \<in> set xs. p x}"
  by (induction xs) auto

lemma set_upd_first_insert:
  "find p xs = Some x \<Longrightarrow> set (upd_first p f xs) \<subseteq> insert (f x) (set xs)"
  by (induction xs) (auto split: if_splits)

lemma set_upd_first_found: "find p xs = Some x \<Longrightarrow> f x \<in> set (upd_first p f xs)"
  by (induction xs) (auto split: if_splits)

end
