(* ===== verification/JsNumber.thy ===== *)
theory JsNumber
  imports Prelude
begin

text \<open>
  JavaScript's \<open>number\<close>: IEEE-754 binary64 values, with exact rational arithmetic rounded
  to nearest, ties to even, after every operation, overflow to the infinities, and NaN. The
  two zeros are identified (the modelled code never divides by a negative zero and never
  prints one). \<open>Fin r\<close> is meant for representable \<open>r\<close>; the theorems hold for every \<open>r\<close>.
\<close>

section \<open>Rounding to 53 significant bits\<close>

definition floorlog2 :: "rat \<Rightarrow> int" where
  "floorlog2 r = (if 1 \<le> r then bitlen \<lfloor>r\<rfloor> - 1 else - bitlen (\<lceil>1 / r\<rceil> - 1))"

text \<open>Round to the nearest integer, ties to the even one.\<close>

definition round_frac :: "int \<Rightarrow> rat \<Rightarrow> int" where
  "round_frac f d =
     (if d < 1 / 2 then f
      else if 1 / 2 < d then f + 1
      else if even f then f else f + 1)"

definition round_half_even :: "rat \<Rightarrow> int" where
  "round_half_even x = round_frac \<lfloor>x\<rfloor> (x - of_int \<lfloor>x\<rfloor>)"

definition ulp_exp :: "rat \<Rightarrow> int" where
  "ulp_exp r = max (- 1074) (floorlog2 r - 52)"

text \<open>Rounding to a multiple of \<open>2 powi e\<close>.\<close>

definition round_at :: "int \<Rightarrow> rat \<Rightarrow> rat" where
  "round_at e r = of_int (round_half_even (r / 2 powi e)) * 2 powi e"

definition round_pos :: "rat \<Rightarrow> rat" where
  "round_pos r = round_at (ulp_exp r) r"

definition round64 :: "rat \<Rightarrow> rat" where
  "round64 r = (if r = 0 then 0 else if r < 0 then - round_pos (- r) else round_pos r)"

lemma two_powi_int: "0 \<le> k \<Longrightarrow> (2::rat) powi k = of_int (2 ^ nat k)"
  by (simp add: power_int_def)

lemma two_powi_diff_int: "e \<le> k \<Longrightarrow> of_int (2 ^ nat (k - e)) = (2::rat) powi k / 2 powi e"
  using two_powi_int [of "k - e"] by (simp add: power_int_diff)

lemma bitlen_one [simp]: "bitlen 1 = 1"
  by (subst compute_bitlen) simp

lemma bitlen_Bit0 [js_eval]: "bitlen (numeral (Num.Bit0 w)) = bitlen (numeral w) + 1"
  by (subst compute_bitlen) (simp add: div_mult_self1_is_m)

lemma bitlen_Bit1 [js_eval]: "bitlen (numeral (Num.Bit1 w)) = bitlen (numeral w) + 1"
  by (subst compute_bitlen) simp

lemma two_powi_pos [simp]: "0 < (2::rat) powi k"
  by simp

lemma two_powi_mono: "j \<le> k \<Longrightarrow> (2::rat) powi j \<le> 2 powi k"
  by (rule power_int_increasing) auto

lemma floorlog2_bounds_ge_1:
  assumes "1 \<le> r"
  shows "2 powi floorlog2 r \<le> r \<and> r < 2 powi (floorlog2 r + 1)"
proof -
  define b where "b = bitlen \<lfloor>r\<rfloor>"
  have n: "0 < \<lfloor>r\<rfloor>" using assms by linarith
  have b: "1 \<le> b" unfolding b_def using n by (auto simp: bitlen_alt_def)
  have lo: "2 ^ nat (b - 1) \<le> \<lfloor>r\<rfloor>" and hi: "\<lfloor>r\<rfloor> < 2 ^ nat b"
    using bitlen_bounds [OF n] by (auto simp: b_def)
  have fl: "floorlog2 r = b - 1" using assms by (simp add: floorlog2_def b_def)
  have "(2::rat) powi (b - 1) = of_int (2 ^ nat (b - 1))" using b by (simp add: two_powi_int)
  also have "\<dots> \<le> of_int \<lfloor>r\<rfloor>" using lo by (simp only: of_int_le_iff)
  also have "\<dots> \<le> r" by simp
  finally have 1: "2 powi (b - 1) \<le> r" .
  have "\<lfloor>r\<rfloor> + 1 \<le> 2 ^ nat b" using hi by simp
  then have "of_int (\<lfloor>r\<rfloor> + 1) \<le> (of_int (2 ^ nat b) :: rat)" by (simp only: of_int_le_iff)
  moreover have "r < of_int (\<lfloor>r\<rfloor> + 1)" using floor_correct [of r] by simp
  ultimately have "r < of_int (2 ^ nat b)" by (rule less_le_trans [rotated])
  with b have "r < 2 powi b" by (simp add: two_powi_int)
  with 1 show ?thesis by (simp add: fl)
qed

lemma floorlog2_bounds_lt_1:
  assumes "0 < r" "r < 1"
  shows "2 powi floorlog2 r \<le> r \<and> r < 2 powi (floorlog2 r + 1)"
proof -
  define m where "m = \<lceil>1 / r\<rceil>"
  define b where "b = bitlen (m - 1)"
  have inv: "1 < 1 / r" using assms by simp
  then have m: "0 < m - 1" unfolding m_def by linarith
  have b: "1 \<le> b" unfolding b_def using m by (auto simp: bitlen_alt_def)
  have lo: "2 ^ nat (b - 1) \<le> m - 1" and hi: "m \<le> 2 ^ nat b"
    using bitlen_bounds [OF m] by (auto simp: b_def)
  have fl: "floorlog2 r = - b" using assms by (simp add: floorlog2_def b_def m_def)
  have "1 / r \<le> of_int m" by (simp add: m_def)
  also have "\<dots> \<le> of_int (2 ^ nat b)" using hi by (simp only: of_int_le_iff)
  also have "\<dots> = 2 powi b" using b by (simp add: two_powi_int)
  finally have "1 / 2 powi b \<le> r" using assms(1) by (simp add: field_simps)
  then have 1: "2 powi (- b) \<le> r" by (simp add: power_int_minus inverse_eq_divide)
  have "of_int (2 ^ nat (b - 1)) \<le> (of_int (m - 1) :: rat)" using lo by (simp only: of_int_le_iff)
  also have "(of_int (m - 1) :: rat) < 1 / r"
    unfolding m_def using ceiling_correct [of "1 / r"] by simp
  finally have "2 powi (b - 1) < 1 / r" using b by (simp add: two_powi_int)
  then have "r < 1 / 2 powi (b - 1)" using assms(1) by (simp add: field_simps)
  also have "1 / (2::rat) powi (b - 1) = 2 powi (- b + 1)"
    by (simp add: power_int_minus inverse_eq_divide [symmetric] power_int_diff power_int_add)
  finally show ?thesis using 1 by (simp add: fl)
qed

lemma floorlog2_bounds:
  "0 < r \<Longrightarrow> 2 powi floorlog2 r \<le> r \<and> r < 2 powi (floorlog2 r + 1)"
  using floorlog2_bounds_ge_1 floorlog2_bounds_lt_1 by (cases "1 \<le> r") auto

lemma floorlog2_mono:
  assumes "0 < r" "r \<le> s"
  shows "floorlog2 r \<le> floorlog2 s"
proof (rule ccontr)
  assume "\<not> ?thesis"
  then have "(2::rat) powi (floorlog2 s + 1) \<le> 2 powi floorlog2 r"
    by (intro two_powi_mono) simp
  moreover have "s < 2 powi (floorlog2 s + 1)" "2 powi floorlog2 r \<le> r"
    using assms floorlog2_bounds [of s] floorlog2_bounds [of r] by auto
  ultimately show False using assms(2) by linarith
qed

section \<open>Facts about rounding\<close>

lemma round_half_even_of_int [simp]: "round_half_even (of_int k) = k"
  by (simp add: round_half_even_def round_frac_def)

lemma round_half_even_ge_floor: "\<lfloor>x\<rfloor> \<le> round_half_even x"
  by (simp add: round_half_even_def round_frac_def)

lemma round_half_even_le_floor1: "round_half_even x \<le> \<lfloor>x\<rfloor> + 1"
  by (simp add: round_half_even_def round_frac_def)

lemma round_half_even_mono:
  assumes "x \<le> y"
  shows "round_half_even x \<le> round_half_even y"
proof (cases "\<lfloor>x\<rfloor> = \<lfloor>y\<rfloor>")
  case True
  with assms show ?thesis by (auto simp: round_half_even_def round_frac_def)
next
  case False
  with assms have "\<lfloor>x\<rfloor> + 1 \<le> \<lfloor>y\<rfloor>" using floor_mono [OF assms] by simp
  with round_half_even_le_floor1 [of x] round_half_even_ge_floor [of y] show ?thesis
    by linarith
qed

lemma round_half_even_ge_int: "of_int k \<le> x \<Longrightarrow> k \<le> round_half_even x"
  using round_half_even_mono [of "of_int k" x] by simp

lemma round_half_even_le_int: "x \<le> of_int k \<Longrightarrow> round_half_even x \<le> k"
  using round_half_even_mono [of x "of_int k"] by simp

lemma round_pos_nonneg: "0 \<le> r \<Longrightarrow> 0 \<le> round_pos r"
  unfolding round_pos_def round_at_def
  by (intro mult_nonneg_nonneg) (simp_all add: round_half_even_ge_int)

text \<open>Within a binade the rounded value stays between the binade's two powers of two.\<close>

lemma round_pos_le_pow:
  assumes "0 < r" "r \<le> 2 powi k" "ulp_exp r \<le> k"
  shows "round_pos r \<le> 2 powi k"
proof -
  let ?e = "ulp_exp r"
  have "r / 2 powi ?e \<le> 2 powi k / 2 powi ?e"
    using assms(2) by (simp add: divide_right_mono)
  also have "\<dots> = 2 powi (k - ?e)" by (simp add: power_int_diff)
  also have "\<dots> = of_int (2 ^ nat (k - ?e))" using assms(3) by (simp add: two_powi_int)
  finally have "round_half_even (r / 2 powi ?e) \<le> 2 ^ nat (k - ?e)"
    by (rule round_half_even_le_int)
  then have "of_int (round_half_even (r / 2 powi ?e)) \<le> (of_int (2 ^ nat (k - ?e)) :: rat)"
    by (simp only: of_int_le_iff)
  also have "\<dots> = 2 powi k / 2 powi ?e"
    using assms(3) by (rule two_powi_diff_int)
  finally show ?thesis by (simp add: round_pos_def round_at_def field_simps)
qed

lemma round_pos_ge_pow:
  assumes "0 < r" "2 powi k \<le> r" "ulp_exp r \<le> k"
  shows "2 powi k \<le> round_pos r"
proof -
  let ?e = "ulp_exp r"
  have "of_int (2 ^ nat (k - ?e)) = (2 powi (k - ?e) :: rat)"
    using assms(3) by (simp add: two_powi_int)
  also have "\<dots> = 2 powi k / 2 powi ?e" by (simp add: power_int_diff)
  also have "\<dots> \<le> r / 2 powi ?e" using assms(2) by (simp add: divide_right_mono)
  finally have "2 ^ nat (k - ?e) \<le> round_half_even (r / 2 powi ?e)"
    by (rule round_half_even_ge_int)
  then have "(of_int (2 ^ nat (k - ?e)) :: rat) \<le> of_int (round_half_even (r / 2 powi ?e))"
    by (simp only: of_int_le_iff)
  moreover have "(of_int (2 ^ nat (k - ?e)) :: rat) = 2 powi k / 2 powi ?e"
    using assms(3) by (rule two_powi_diff_int)
  ultimately have "2 powi k / 2 powi ?e \<le> (of_int (round_half_even (r / 2 powi ?e)) :: rat)"
    by (simp only:)
  then show ?thesis by (simp add: round_pos_def round_at_def field_simps)
qed

lemma round_pos_mono:
  assumes "0 < r" "r \<le> s"
  shows "round_pos r \<le> round_pos s"
proof (cases "ulp_exp r = ulp_exp s")
  case True
  have "round_half_even (r / 2 powi ulp_exp r) \<le> round_half_even (s / 2 powi ulp_exp r)"
    using assms by (intro round_half_even_mono divide_right_mono) auto
  then show ?thesis by (simp add: round_pos_def round_at_def True [symmetric])
next
  case False
  let ?k = "floorlog2 s"
  have fl: "floorlog2 r \<le> ?k" using assms by (rule floorlog2_mono)
  with False have k: "floorlog2 r < ?k" "ulp_exp s = ?k - 52"
    by (auto simp: ulp_exp_def max_def split: if_splits)
  have "r < 2 powi (floorlog2 r + 1)" using assms floorlog2_bounds by auto
  also have "\<dots> \<le> 2 powi ?k" using k by (intro two_powi_mono) simp
  finally have "r \<le> 2 powi ?k" by simp
  moreover have "ulp_exp r \<le> ?k"
  proof -
    have "- 1074 \<le> ?k - 52" using k(2) by (simp add: ulp_exp_def)
    with k show ?thesis by (simp add: ulp_exp_def)
  qed
  ultimately have "round_pos r \<le> 2 powi ?k" using assms by (intro round_pos_le_pow) auto
  also have "\<dots> \<le> round_pos s"
    using assms k floorlog2_bounds [of s] by (intro round_pos_ge_pow) auto
  finally show ?thesis .
qed

theorem round64_mono: "r \<le> s \<Longrightarrow> round64 r \<le> round64 s"
proof -
  assume le: "r \<le> s"
  consider "0 < r" | "s < 0" | "r \<le> 0" "0 \<le> s" by linarith
  then show ?thesis
  proof cases
    case 1
    with le show ?thesis by (simp add: round64_def round_pos_mono)
  next
    case 2
    with le have "round_pos (- s) \<le> round_pos (- r)" by (intro round_pos_mono) auto
    with 2 le show ?thesis by (simp add: round64_def)
  next
    case 3
    have "round64 r \<le> 0" using 3 round_pos_nonneg [of "- r"] by (simp add: round64_def)
    moreover have "0 \<le> round64 s" using 3 round_pos_nonneg [of s] by (simp add: round64_def)
    ultimately show ?thesis by linarith
  qed
qed

lemma round64_0 [simp]: "round64 0 = 0"
  by (simp add: round64_def)

lemma round64_minus [simp]: "round64 (- r) = - round64 r"
  by (auto simp: round64_def)

lemma round64_nonneg: "0 \<le> r \<Longrightarrow> 0 \<le> round64 r"
  using round64_mono [of 0 r] by simp

lemma round64_nonpos: "r \<le> 0 \<Longrightarrow> round64 r \<le> 0"
  using round64_mono [of r 0] by simp

text \<open>Integers of magnitude up to \<open>2 ^ 53\<close> are exact.\<close>

lemma round_pos_of_int:
  assumes "0 < n" "n \<le> 2 ^ 53"
  shows "round_pos (of_int n) = of_int n"
proof (cases "n = 2 ^ 53")
  case True
  have "floorlog2 (of_int n) = 53" by (simp add: True floorlog2_def js_eval)
  then have e: "ulp_exp (of_int n) = 1" by (simp add: ulp_exp_def)
  have "(of_int n :: rat) / 2 powi 1 = of_int (2 ^ 52)" by (simp add: True)
  then have "round_half_even ((of_int n :: rat) / 2 powi 1) = 2 ^ 52"
    by (metis round_half_even_of_int)
  then show ?thesis unfolding round_pos_def round_at_def e by (simp add: True)
next
  case False
  define b where "b = bitlen n"
  have b: "1 \<le> b" "b \<le> 53"
    using assms False bitlen_le_iff_power [of n 53] by (auto simp: b_def bitlen_alt_def)
  have "floorlog2 (of_int n) = b - 1" using assms by (simp add: floorlog2_def b_def)
  with b have e: "ulp_exp (of_int n) = b - 53" by (simp add: ulp_exp_def)
  have "(of_int n :: rat) / 2 powi (b - 53) = of_int n * 2 powi (53 - b)"
    by (simp add: power_int_diff field_simps)
  also have "\<dots> = of_int (n * 2 ^ nat (53 - b))" using b by (simp add: two_powi_int)
  finally have "round_half_even ((of_int n :: rat) / 2 powi (b - 53)) = n * 2 ^ nat (53 - b)"
    by (metis round_half_even_of_int)
  then have "round_pos (of_int n) = of_int (n * 2 ^ nat (53 - b)) * 2 powi (b - 53)"
    by (simp add: round_pos_def round_at_def e)
  also have "\<dots> = of_int n * (2 powi (53 - b) * 2 powi (b - 53))"
    using b by (simp add: two_powi_int)
  also have "(2::rat) powi (53 - b) * 2 powi (b - 53) = 1"
    by (simp add: power_int_add [symmetric])
  finally show ?thesis by simp
qed

theorem round64_of_int: "\<bar>n\<bar> \<le> 2 ^ 53 \<Longrightarrow> round64 (of_int n) = of_int n"
  using round_pos_of_int [of n] round_pos_of_int [of "- n"]
  by (auto simp: round64_def abs_if split: if_splits)

section \<open>Numbers and their operations\<close>

datatype jsnum = NaN | PInf | NInf | Fin rat

text \<open>The largest finite binary64 value, \<open>2 ^ 1024 - 2 ^ 971\<close>.\<close>

definition max_finite :: rat where
  "max_finite = 179769313486231570814527423731704356798070567525844996598917476803157260780028538760589558632766878171540458953514382464234321326889464182768467546703537516986049910576551282076245490090389328944075868508455133942304583236903222948165808559332123347764797926204144723168738177180919299881250404026184124858368"

text \<open>The number nearest to an exact result, with overflow to the infinities.\<close>

definition clamp_num :: "rat \<Rightarrow> jsnum" where
  "clamp_num q = (if max_finite < q then PInf else if q < - max_finite then NInf else Fin q)"

definition mk_num :: "rat \<Rightarrow> jsnum" where
  "mk_num r = clamp_num (round64 r)"

text \<open>A numeric literal of the source, e.g. \<open>0.1\<close> is \<open>js (1 / 10)\<close>.\<close>

abbreviation js :: "rat \<Rightarrow> jsnum" where
  "js r \<equiv> mk_num r"

fun is_finite :: "jsnum \<Rightarrow> bool" where
  "is_finite (Fin _) = True"
| "is_finite _ = False"

fun jneg :: "jsnum \<Rightarrow> jsnum" where
  "jneg NaN = NaN"
| "jneg PInf = NInf"
| "jneg NInf = PInf"
| "jneg (Fin r) = Fin (- r)"

fun jabs :: "jsnum \<Rightarrow> jsnum" where
  "jabs NaN = NaN"
| "jabs PInf = PInf"
| "jabs NInf = PInf"
| "jabs (Fin r) = Fin \<bar>r\<bar>"

fun jadd :: "jsnum \<Rightarrow> jsnum \<Rightarrow> jsnum" where
  "jadd (Fin a) (Fin b) = mk_num (a + b)"
| "jadd NaN _ = NaN"
| "jadd _ NaN = NaN"
| "jadd PInf NInf = NaN"
| "jadd NInf PInf = NaN"
| "jadd PInf _ = PInf"
| "jadd NInf _ = NInf"
| "jadd _ PInf = PInf"
| "jadd _ NInf = NInf"

definition jsub :: "jsnum \<Rightarrow> jsnum \<Rightarrow> jsnum" where
  "jsub a b = jadd a (jneg b)"

text \<open>An infinity with the sign of a rational; \<open>0 * infinity\<close> is NaN.\<close>

definition inf_times :: "rat \<Rightarrow> jsnum" where
  "inf_times r = (if r = 0 then NaN else if 0 < r then PInf else NInf)"

fun jmul :: "jsnum \<Rightarrow> jsnum \<Rightarrow> jsnum" where
  "jmul (Fin a) (Fin b) = mk_num (a * b)"
| "jmul NaN _ = NaN"
| "jmul _ NaN = NaN"
| "jmul PInf (Fin b) = inf_times b"
| "jmul NInf (Fin b) = inf_times (- b)"
| "jmul (Fin a) PInf = inf_times a"
| "jmul (Fin a) NInf = inf_times (- a)"
| "jmul PInf PInf = PInf"
| "jmul PInf NInf = NInf"
| "jmul NInf PInf = NInf"
| "jmul NInf NInf = PInf"

fun jdiv :: "jsnum \<Rightarrow> jsnum \<Rightarrow> jsnum" where
  "jdiv (Fin a) (Fin b) = (if b = 0 then inf_times a else mk_num (a / b))"
| "jdiv NaN _ = NaN"
| "jdiv _ NaN = NaN"
| "jdiv PInf (Fin b) = (if b < 0 then NInf else PInf)"
| "jdiv NInf (Fin b) = (if b < 0 then PInf else NInf)"
| "jdiv (Fin _) _ = Fin 0"
| "jdiv _ _ = NaN"

text \<open>\<open>Math.floor\<close>, \<open>Math.ceil\<close>, \<open>Math.round\<close> (half up), \<open>Math.max\<close>, \<open>Math.min\<close>.\<close>

fun jfloor :: "jsnum \<Rightarrow> jsnum" where
  "jfloor (Fin r) = Fin (of_int \<lfloor>r\<rfloor>)"
| "jfloor x = x"

fun jceil :: "jsnum \<Rightarrow> jsnum" where
  "jceil (Fin r) = Fin (of_int \<lceil>r\<rceil>)"
| "jceil x = x"

fun jround :: "jsnum \<Rightarrow> jsnum" where
  "jround (Fin r) = Fin (of_int \<lfloor>r + 1 / 2\<rfloor>)"
| "jround x = x"

text \<open>Comparisons: every one involving NaN is false.\<close>

fun jlt :: "jsnum \<Rightarrow> jsnum \<Rightarrow> bool" where
  "jlt (Fin a) (Fin b) = (a < b)"
| "jlt NaN _ = False"
| "jlt _ NaN = False"
| "jlt PInf _ = False"
| "jlt _ NInf = False"
| "jlt _ _ = True"

fun jle :: "jsnum \<Rightarrow> jsnum \<Rightarrow> bool" where
  "jle (Fin a) (Fin b) = (a \<le> b)"
| "jle NaN _ = False"
| "jle _ NaN = False"
| "jle NInf _ = True"
| "jle _ PInf = True"
| "jle _ _ = False"

abbreviation jgt :: "jsnum \<Rightarrow> jsnum \<Rightarrow> bool" where
  "jgt a b \<equiv> jlt b a"

abbreviation jge :: "jsnum \<Rightarrow> jsnum \<Rightarrow> bool" where
  "jge a b \<equiv> jle b a"

definition jmax :: "jsnum \<Rightarrow> jsnum \<Rightarrow> jsnum" where
  "jmax a b = (if a = NaN \<or> b = NaN then NaN else if jlt a b then b else a)"

definition jmin :: "jsnum \<Rightarrow> jsnum \<Rightarrow> jsnum" where
  "jmin a b = (if a = NaN \<or> b = NaN then NaN else if jlt b a then b else a)"

abbreviation j0 :: jsnum where
  "j0 \<equiv> Fin 0"

abbreviation j1 :: jsnum where
  "j1 \<equiv> Fin 1"

text \<open>A count (an array's length, a constant) as a number: exact below \<open>2 ^ 53\<close>.\<close>

definition of_count :: "int \<Rightarrow> jsnum" where
  "of_count n = mk_num (of_int n)"

section \<open>Order facts\<close>

lemma jlt_trans: "jlt a b \<Longrightarrow> jlt b c \<Longrightarrow> jlt a c"
  by (cases a; cases b; cases c) auto

lemma jle_trans: "jle a b \<Longrightarrow> jle b c \<Longrightarrow> jle a c"
  by (cases a; cases b; cases c) auto

lemma jle_jlt_trans: "jle a b \<Longrightarrow> jlt b c \<Longrightarrow> jlt a c"
  by (cases a; cases b; cases c) auto

lemma jlt_jle_trans: "jlt a b \<Longrightarrow> jle b c \<Longrightarrow> jlt a c"
  by (cases a; cases b; cases c) auto

lemma jlt_imp_jle: "jlt a b \<Longrightarrow> jle a b"
  by (cases a; cases b) auto

lemma jle_refl: "a \<noteq> NaN \<Longrightarrow> jle a a"
  by (cases a) auto

lemma not_jlt_iff: "a \<noteq> NaN \<Longrightarrow> b \<noteq> NaN \<Longrightarrow> \<not> jlt a b \<longleftrightarrow> jle b a"
  by (cases a; cases b) auto

lemma jle_antisym: "jle a b \<Longrightarrow> jle b a \<Longrightarrow> a = b"
  by (cases a; cases b) auto

lemma jlt_not_NaN: "jlt a b \<Longrightarrow> a \<noteq> NaN \<and> b \<noteq> NaN"
  by (cases a; cases b) auto

lemma jle_not_NaN: "jle a b \<Longrightarrow> a \<noteq> NaN \<and> b \<noteq> NaN"
  by (cases a; cases b) auto

lemma jlt_irrefl [simp]: "\<not> jlt a a"
  by (cases a) auto

lemma jmax_ge1: "jmax a b \<noteq> NaN \<Longrightarrow> jle a (jmax a b)"
  by (cases a; cases b) (auto simp: jmax_def)

lemma jmax_ge2: "jmax a b \<noteq> NaN \<Longrightarrow> jle b (jmax a b)"
  by (cases a; cases b) (auto simp: jmax_def)

lemma jmax_eq_NaN: "jmax a b = NaN \<longleftrightarrow> a = NaN \<or> b = NaN"
  by (auto simp: jmax_def)

lemma jmax_cases: "a \<noteq> NaN \<Longrightarrow> b \<noteq> NaN \<Longrightarrow> jmax a b = a \<or> jmax a b = b"
  by (auto simp: jmax_def)

lemma is_finite_iff: "is_finite x \<longleftrightarrow> (\<exists>r. x = Fin r)"
  by (cases x) auto

lemma mk_num_not_NaN [simp]: "mk_num r \<noteq> NaN"
  by (simp add: mk_num_def clamp_num_def)

lemma mk_num_mono: "r \<le> s \<Longrightarrow> jle (mk_num r) (mk_num s)"
  using round64_mono [of r s] by (auto simp: mk_num_def clamp_num_def)

lemma mk_num_nonneg: "0 \<le> r \<Longrightarrow> jle j0 (mk_num r)"
  using round64_nonneg [of r] by (auto simp: mk_num_def clamp_num_def max_finite_def)

lemma mk_num_of_int: "\<bar>n\<bar> \<le> 2 ^ 53 \<Longrightarrow> mk_num (of_int n) = Fin (of_int n)"
proof -
  assume n: "\<bar>n\<bar> \<le> 2 ^ 53"
  then have "\<bar>of_int n :: rat\<bar> \<le> of_int (2 ^ 53)" by (simp only: of_int_abs [symmetric] of_int_le_iff)
  then show ?thesis using round64_of_int [OF n] by (auto simp: mk_num_def clamp_num_def max_finite_def)
qed

lemma of_count_exact: "\<bar>n\<bar> \<le> 2 ^ 53 \<Longrightarrow> of_count n = Fin (of_int n)"
  by (simp add: of_count_def mk_num_of_int)

lemma jfloor_mono: "jle a b \<Longrightarrow> jle (jfloor a) (jfloor b)"
  by (cases a; cases b) (auto simp: floor_mono)

lemma jfloor_le: "a \<noteq> NaN \<Longrightarrow> jle (jfloor a) a"
  by (cases a) auto

lemma jle_NInf [simp]: "jle NInf x \<longleftrightarrow> x \<noteq> NaN"
  by (cases x) auto

lemma jle_PInf [simp]: "jle x PInf \<longleftrightarrow> x \<noteq> NaN"
  by (cases x) auto

text \<open>Multiplication and division by a positive factor keep the order.\<close>

lemma jmul_mono_pos:
  "jle (Fin a) (Fin b) \<Longrightarrow> 0 \<le> c \<Longrightarrow> jle (jmul (Fin a) (Fin c)) (jmul (Fin b) (Fin c))"
  by (simp add: mk_num_mono mult_right_mono)

lemma jdiv_mono_pos:
  assumes "jle a b" "0 < c"
  shows "jle (jdiv a (Fin c)) (jdiv b (Fin c))"
  using assms by (cases a; cases b) (auto simp: mk_num_mono divide_right_mono)

section \<open>Evaluation on literals\<close>


lemma floor_rat_numerals [js_eval]:
  "\<lfloor>(numeral k :: rat) / numeral l\<rfloor> = numeral k div numeral l"
  "\<lfloor>(- numeral k :: rat) / numeral l\<rfloor> = - numeral k div numeral l"
  "\<lfloor>(1 :: rat) / numeral l\<rfloor> = 1 div numeral l"
  "\<lfloor>(- 1 :: rat) / numeral l\<rfloor> = - 1 div numeral l"
  using floor_divide_of_int_eq [of "numeral k" "numeral l", where ?'a = rat]
    floor_divide_of_int_eq [of "- numeral k" "numeral l", where ?'a = rat]
    floor_divide_of_int_eq [of 1 "numeral l", where ?'a = rat]
    floor_divide_of_int_eq [of "- 1" "numeral l", where ?'a = rat]
  by simp_all

lemma floor_rat_neg_quotient [js_eval]:
  "\<lfloor>- ((numeral k :: rat) / numeral l)\<rfloor> = - numeral k div numeral l"
  "\<lfloor>- ((1 :: rat) / numeral l)\<rfloor> = - 1 div numeral l"
  using floor_rat_numerals(2) [of k l] floor_rat_numerals(4) [of l] by simp_all

lemma ceiling_rat_numerals [js_eval]:
  "\<lceil>(numeral k :: rat) / numeral l\<rceil> = - (- numeral k div numeral l)"
  by (simp add: ceiling_def floor_rat_numerals floor_rat_neg_quotient)

text \<open>Arithmetic on integers within the 53-bit range is exact.\<close>

lemma jmul_exact: "\<bar>a * b\<bar> \<le> 2 ^ 53 \<Longrightarrow> jmul (Fin (of_int a)) (Fin (of_int b)) = Fin (of_int (a * b))"
  using mk_num_of_int [of "a * b"] by simp

lemma jadd_exact: "\<bar>a + b\<bar> \<le> 2 ^ 53 \<Longrightarrow> jadd (Fin (of_int a)) (Fin (of_int b)) = Fin (of_int (a + b))"
  using mk_num_of_int [of "a + b"] by simp

lemma jsub_exact: "\<bar>a - b\<bar> \<le> 2 ^ 53 \<Longrightarrow> jsub (Fin (of_int a)) (Fin (of_int b)) = Fin (of_int (a - b))"
  using mk_num_of_int [of "a - b"] by (simp add: jsub_def)

lemmas rounding_defs =
  mk_num_def clamp_num_def round64_def round_pos_def round_at_def ulp_exp_def floorlog2_def
  round_half_even_def round_frac_def

declare rounding_defs [js_eval] max_finite_def [js_eval] of_count_def [js_eval]
  jsub_def [js_eval] jmax_def [js_eval] jmin_def [js_eval] inf_times_def [js_eval]

end
