(* ===== verification/KvUtil.thy ===== *)
theory KvUtil
  imports JsNumber
begin

text \<open>
  \<open>common/kv.util.ts\<close>: readers of the key-value table that accept both encodings found in
  its \<open>value\<close> column, the raw text and the JSON-encoded one the panel writes. What the code
  takes from the language is modelled as far as it is used: \<open>JSON.parse\<close> on texts that are
  string literals (any other text, valid JSON or not, makes \<open>unwrapKv\<close> return its argument)
  and \<open>Number(text)\<close>. Strings are sequences of code units below 256; a \<open>\u\<close> escape of a
  larger unit is read as the unit 255.
\<close>

section \<open>JSON string literals\<close>

definition json_ws :: "char \<Rightarrow> bool" where
  "json_ws c \<longleftrightarrow> c \<in> {CHR '' '', CHR 0x09, CHR 0x0A, CHR 0x0D}"

definition hex_digit :: "char \<Rightarrow> nat option" where
  "hex_digit c =
     (let n = of_char c :: nat
      in if 48 \<le> n \<and> n \<le> 57 then Some (n - 48)
         else if 65 \<le> n \<and> n \<le> 70 then Some (n - 55)
         else if 97 \<le> n \<and> n \<le> 102 then Some (n - 87)
         else None)"

fun hex_value :: "nat \<Rightarrow> string \<Rightarrow> nat option" where
  "hex_value acc [] = Some acc"
| "hex_value acc (c # cs) =
     (case hex_digit c of None \<Rightarrow> None | Some d \<Rightarrow> hex_value (16 * acc + d) cs)"

text \<open>The character a one-letter escape stands for.\<close>

definition simple_escape :: "char \<Rightarrow> char option" where
  "simple_escape c =
     (if c \<in> {CHR 0x22, CHR 0x5C, CHR 0x2F} then Some c
      else if c = CHR ''b'' then Some (CHR 0x08)
      else if c = CHR ''f'' then Some (CHR 0x0C)
      else if c = CHR ''n'' then Some (CHR 0x0A)
      else if c = CHR ''r'' then Some (CHR 0x0D)
      else if c = CHR ''t'' then Some (CHR 0x09)
      else None)"

text \<open>
  The characters after an opening quote: the decoded text when the literal closes and only
  white space follows, None otherwise.
\<close>

fun json_chars :: "string \<Rightarrow> string option" where
  "json_chars [] = None"
| "json_chars (c # cs) =
     (if c = CHR 0x22 then (if list_all json_ws cs then Some [] else None)
      else if c = CHR 0x5C then
        (case cs of
           [] \<Rightarrow> None
         | e # cs' \<Rightarrow>
             if e = CHR ''u'' then
               (case cs' of
                  h1 # h2 # h3 # h4 # rest \<Rightarrow>
                    (case hex_value 0 [h1, h2, h3, h4] of
                       None \<Rightarrow> None
                     | Some n \<Rightarrow> map_option (\<lambda>s. char_of (min n 255) # s) (json_chars rest))
                | _ \<Rightarrow> None)
             else
               (case simple_escape e of
                  None \<Rightarrow> None
                | Some d \<Rightarrow> map_option (\<lambda>s. d # s) (json_chars cs')))
      else if (of_char c :: nat) < 32 then None
      else map_option (\<lambda>s. c # s) (json_chars cs))"

definition json_string :: "string \<Rightarrow> string option" where
  "json_string v =
     (case dropWhile json_ws v of
        c # cs \<Rightarrow> if c = CHR 0x22 then json_chars cs else None
      | [] \<Rightarrow> None)"

section \<open>Number of a text\<close>

definition js_ws :: "char \<Rightarrow> bool" where
  "js_ws c \<longleftrightarrow> c \<in> {CHR '' '', CHR 0x09, CHR 0x0A, CHR 0x0B, CHR 0x0C, CHR 0x0D, CHR 0xA0}"

definition js_trim :: "string \<Rightarrow> string" where
  "js_trim s = rev (dropWhile js_ws (rev (dropWhile js_ws s)))"

text \<open>The value of a digit in a radix up to 16.\<close>

definition digit_in :: "nat \<Rightarrow> char \<Rightarrow> int option" where
  "digit_in radix c =
     (case hex_digit c of None \<Rightarrow> None | Some d \<Rightarrow> if d < radix then Some (int d) else None)"

definition is_digit :: "char \<Rightarrow> bool" where
  "is_digit c \<longleftrightarrow> digit_in 10 c \<noteq> None"

fun digits_value :: "nat \<Rightarrow> int \<Rightarrow> string \<Rightarrow> int option" where
  "digits_value radix acc [] = Some acc"
| "digits_value radix acc (c # cs) =
     (case digit_in radix c of
        None \<Rightarrow> None
      | Some d \<Rightarrow> digits_value radix (int radix * acc + d) cs)"

definition radix_literal :: "nat \<Rightarrow> string \<Rightarrow> jsnum" where
  "radix_literal radix ds =
     (if ds = [] then NaN
      else case digits_value radix 0 ds of None \<Rightarrow> NaN | Some n \<Rightarrow> mk_num (of_int n))"

text \<open>The exponent part: nothing, or \<open>e\<close> with an optional sign and at least one digit.\<close>

definition exponent_part :: "string \<Rightarrow> int option" where
  "exponent_part s =
     (case s of
        [] \<Rightarrow> Some 0
      | c # cs \<Rightarrow>
          if c \<in> {CHR ''e'', CHR ''E''} then
            (let (sg, ds) = (case cs of
                 d # ds \<Rightarrow> if d = CHR ''-'' then (- 1, ds)
                           else if d = CHR ''+'' then (1, ds) else (1, cs)
               | [] \<Rightarrow> (1, []))
             in if ds = [] then None else map_option (\<lambda>n. sg * n) (digits_value 10 0 ds))
          else None)"

definition unsigned_decimal :: "string \<Rightarrow> rat option" where
  "unsigned_decimal s =
     (let ip = takeWhile is_digit s; r1 = dropWhile is_digit s;
          (fp, r2) = (case r1 of
             c # cs \<Rightarrow> if c = CHR ''.'' then (takeWhile is_digit cs, dropWhile is_digit cs)
                       else ([], r1)
           | [] \<Rightarrow> ([], []))
      in if ip = [] \<and> fp = [] then None
         else case (digits_value 10 0 (ip @ fp), exponent_part r2) of
                (Some n, Some e) \<Rightarrow> Some (of_int n * 10 powi (e - int (length fp)))
              | _ \<Rightarrow> None)"

definition signed_literal :: "int \<Rightarrow> string \<Rightarrow> jsnum" where
  "signed_literal sg s =
     (if s = ''Infinity'' then (if sg < 0 then NInf else PInf)
      else case unsigned_decimal s of None \<Rightarrow> NaN | Some r \<Rightarrow> mk_num (of_int sg * r))"

definition js_number :: "string \<Rightarrow> jsnum" where
  "js_number v =
     (case js_trim v of
        [] \<Rightarrow> Fin 0
      | c # cs \<Rightarrow>
          if c = CHR ''0'' \<and> cs \<noteq> [] \<and> hd cs \<in> {CHR ''x'', CHR ''X''} then radix_literal 16 (tl cs)
          else if c = CHR ''0'' \<and> cs \<noteq> [] \<and> hd cs \<in> {CHR ''o'', CHR ''O''} then radix_literal 8 (tl cs)
          else if c = CHR ''0'' \<and> cs \<noteq> [] \<and> hd cs \<in> {CHR ''b'', CHR ''B''} then radix_literal 2 (tl cs)
          else if c = CHR ''-'' then signed_literal (- 1) cs
          else if c = CHR ''+'' then signed_literal 1 cs
          else signed_literal 1 (c # cs))"

section \<open>The readers\<close>

definition unwrapKv :: "string option \<Rightarrow> string option" where
  "unwrapKv v =
     (case v of
        None \<Rightarrow> None
      | Some s \<Rightarrow> (case json_string s of Some t \<Rightarrow> Some t | None \<Rightarrow> Some s))"

definition kvStr :: "string option \<Rightarrow> string option" where
  "kvStr v = unwrapKv v"

definition kvBool :: "string option \<Rightarrow> bool \<Rightarrow> bool" where
  "kvBool v fallback =
     (if v = None then fallback
      else if unwrapKv v = Some ''true'' then True
      else if unwrapKv v = Some ''false'' then False
      else fallback)"

definition kvNum :: "string option \<Rightarrow> jsnum \<Rightarrow> jsnum" where
  "kvNum v fallback =
     (case unwrapKv v of
        None \<Rightarrow> fallback
      | Some s \<Rightarrow> (let n = js_number s in if is_finite n then n else fallback))"

section \<open>Properties\<close>

text \<open>A number read from the table is finite whenever the fallback is.\<close>

lemma kvNum_finite: "is_finite fallback \<Longrightarrow> is_finite (kvNum v fallback)"
  by (auto simp: kvNum_def Let_def split: option.splits)

lemma kvNum_None [simp]: "kvNum None d = d"
  by (simp add: kvNum_def unwrapKv_def)

lemma kvBool_None [simp]: "kvBool None d = d"
  by (simp add: kvBool_def)

lemma kvStr_None [simp]: "kvStr None = None"
  by (simp add: kvStr_def unwrapKv_def)

text \<open>Plain text: no quote, backslash or control character; the panel writes it in quotes.\<close>

definition plain_char :: "char \<Rightarrow> bool" where
  "plain_char c \<longleftrightarrow> c \<noteq> CHR 0x22 \<and> c \<noteq> CHR 0x5C \<and> 32 \<le> (of_char c :: nat)"

definition json_quote :: "string \<Rightarrow> string" where
  "json_quote s = CHR 0x22 # s @ [CHR 0x22]"

lemma json_chars_plain: "list_all plain_char s \<Longrightarrow> json_chars (s @ [CHR 0x22]) = Some s"
  by (induction s) (auto simp: plain_char_def not_le [symmetric])

lemma json_string_quote: "list_all plain_char s \<Longrightarrow> json_string (json_quote s) = Some s"
  by (simp add: json_string_def json_quote_def json_ws_def json_chars_plain)

text \<open>A text that does not begin with a quote (after white space) is left as it is.\<close>

lemma json_string_unquoted:
  "s = c # cs \<Longrightarrow> \<not> json_ws c \<Longrightarrow> c \<noteq> CHR 0x22 \<Longrightarrow> json_string s = None"
  by (simp add: json_string_def)

lemma unwrapKv_quote: "list_all plain_char s \<Longrightarrow> unwrapKv (Some (json_quote s)) = Some s"
  by (simp add: unwrapKv_def json_string_quote)

lemma kvNum_panel: "list_all plain_char s \<Longrightarrow> json_string s = None \<Longrightarrow>
    kvNum (Some (json_quote s)) d = kvNum (Some s) d"
  by (simp add: kvNum_def unwrapKv_quote unwrapKv_def [of "Some s"])

lemma kvBool_panel: "list_all plain_char s \<Longrightarrow> json_string s = None \<Longrightarrow>
    kvBool (Some (json_quote s)) d = kvBool (Some s) d"
  by (simp add: kvBool_def unwrapKv_quote unwrapKv_def [of "Some s"])

lemma kvStr_panel: "list_all plain_char s \<Longrightarrow> json_string s = None \<Longrightarrow>
    kvStr (Some (json_quote s)) = kvStr (Some s)"
  by (simp add: kvStr_def unwrapKv_quote unwrapKv_def [of "Some s"])

end
