(* ===== verification/Effects.thy ===== *)
theory Effects
  imports Prelude
begin

text \<open>
  The effect monad of the model: an asynchronous function of the code is a function from the
  state of the world to a result (an exception or a value) and the state it leaves behind. An
  exception keeps the state changes made before it was thrown, as in JavaScript. \<open>await\<close> is
  sequencing (\<open>const x = await m; ...\<close>), \<open>attempt\<close> is \<open>try { } catch (err) { }\<close>, \<open>for_each\<close>
  is a \<open>for ... of\<close> loop whose body is awaited.

  The second half is the interface every component proof uses: the locale \<open>evolution\<close>, a
  reflexive and transitive relation on states that each primitive step respects, hence every
  program built from them. Safety properties of the services (a kill switch that nothing
  clears, a broker that no recovery code sends an order to) are instances.
\<close>

section \<open>The monad\<close>

text \<open>
  \<open>UniqueViolation\<close> is Prisma's error code P2002, the only code the services inspect
  (\<open>isPrismaUniqueViolation\<close>); every other exception is \<open>Exn\<close> with \<open>String(err)\<close>.
\<close>

datatype exn = Exn string | UniqueViolation

type_synonym ('w, 'a) io = "'w \<Rightarrow> (exn + 'a) \<times> 'w"

definition ret :: "'a \<Rightarrow> ('w, 'a) io" where
  "ret x = (\<lambda>w. (Inr x, w))"

definition throw :: "exn \<Rightarrow> ('w, 'a) io" where
  "throw e = (\<lambda>w. (Inl e, w))"

definition await :: "('w, 'a) io \<Rightarrow> ('a \<Rightarrow> ('w, 'b) io) \<Rightarrow> ('w, 'b) io" where
  "await m f = (\<lambda>w. case m w of (Inl e, w') \<Rightarrow> (Inl e, w') | (Inr x, w') \<Rightarrow> f x w')"

definition attempt :: "('w, 'a) io \<Rightarrow> (exn \<Rightarrow> ('w, 'a) io) \<Rightarrow> ('w, 'a) io" where
  "attempt m h = (\<lambda>w. case m w of (Inl e, w') \<Rightarrow> h e w' | (Inr x, w') \<Rightarrow> (Inr x, w'))"

definition gets :: "('w \<Rightarrow> 'a) \<Rightarrow> ('w, 'a) io" where
  "gets f = (\<lambda>w. (Inr (f w), w))"

definition modify :: "('w \<Rightarrow> 'w) \<Rightarrow> ('w, unit) io" where
  "modify f = (\<lambda>w. (Inr (), f w))"

definition lift_result :: "exn + 'a \<Rightarrow> ('w, 'a) io" where
  "lift_result r = (\<lambda>w. (r, w))"

text \<open>\<open>try { m } finally { g }\<close> for a clean-up that cannot fail.\<close>

definition ensure :: "('w, 'a) io \<Rightarrow> ('w \<Rightarrow> 'w) \<Rightarrow> ('w, 'a) io" where
  "ensure m g = (\<lambda>w. case m w of (r, w') \<Rightarrow> (r, g w'))"

primrec for_each :: "('x \<Rightarrow> ('w, unit) io) \<Rightarrow> 'x list \<Rightarrow> ('w, unit) io" where
  "for_each f [] = ret ()"
| "for_each f (x # xs) = await (f x) (\<lambda>_. for_each f xs)"

lemmas effect_prims = ret_def throw_def await_def attempt_def gets_def modify_def lift_result_def

declare effect_prims [effect_defs]

lemma ensure_run: "ensure m g w = (fst (m w), g (snd (m w)))"
  by (simp add: ensure_def split: prod.splits)

text \<open>The monad laws, and what each primitive returns.\<close>

lemma await_ret [simp]: "await (ret x) f = f x"
  by (simp add: await_def ret_def)

lemma await_throw [simp]: "await (throw e) f = throw e"
  by (simp add: await_def throw_def)

lemma await_assoc: "await (await m f) g = await m (\<lambda>x. await (f x) g)"
  by (rule ext) (simp add: await_def split: prod.splits sum.splits)

lemma await_run:
  "await m f w = (case fst (m w) of Inl e \<Rightarrow> (Inl e, snd (m w)) | Inr x \<Rightarrow> f x (snd (m w)))"
  by (simp add: await_def split: prod.splits sum.splits)

lemma attempt_run:
  "attempt m h w = (case fst (m w) of Inl e \<Rightarrow> h e (snd (m w)) | Inr x \<Rightarrow> (Inr x, snd (m w)))"
  by (simp add: attempt_def split: prod.splits sum.splits)

section \<open>Never throwing\<close>

definition never_throws :: "('w, 'a) io \<Rightarrow> bool" where
  "never_throws m \<longleftrightarrow> (\<forall>w e. fst (m w) \<noteq> Inl e)"

lemma never_throws_ret [intro, simp]: "never_throws (ret x)"
  by (simp add: never_throws_def ret_def)

lemma never_throws_modify [intro, simp]: "never_throws (modify f)"
  by (simp add: never_throws_def modify_def)

lemma never_throws_gets [intro, simp]: "never_throws (gets f)"
  by (simp add: never_throws_def gets_def)

lemma never_throws_await [intro]:
  "never_throws m \<Longrightarrow> (\<And>x. never_throws (f x)) \<Longrightarrow> never_throws (await m f)"
  by (simp add: never_throws_def await_run split: sum.splits)

lemma never_throws_attempt [intro]: "(\<And>e. never_throws (h e)) \<Longrightarrow> never_throws (attempt m h)"
  by (simp add: never_throws_def attempt_run split: sum.splits)

lemma never_throws_for_each [intro]: "(\<And>x. never_throws (f x)) \<Longrightarrow> never_throws (for_each f xs)"
  by (induction xs) auto

section \<open>Evolution: what every step respects\<close>

definition evolves :: "('w \<Rightarrow> 'w \<Rightarrow> bool) \<Rightarrow> ('w, 'a) io \<Rightarrow> bool" where
  "evolves R m \<longleftrightarrow> (\<forall>w. R w (snd (m w)))"

lemma evolvesD: "evolves R m \<Longrightarrow> R w (snd (m w))"
  by (simp add: evolves_def)

lemma evolves_weaken: "evolves R m \<Longrightarrow> (\<And>u v. R u v \<Longrightarrow> S u v) \<Longrightarrow> evolves S m"
  by (simp add: evolves_def)

lemma evolves_modify: "(\<And>w. R w (f w)) \<Longrightarrow> evolves R (modify f)"
  by (simp add: evolves_def modify_def)

lemma evolves_if: "(c \<Longrightarrow> evolves R a) \<Longrightarrow> (\<not> c \<Longrightarrow> evolves R b) \<Longrightarrow> evolves R (if c then a else b)"
  by simp

lemma evolves_case_option:
  "(x = None \<Longrightarrow> evolves R a) \<Longrightarrow> (\<And>y. x = Some y \<Longrightarrow> evolves R (b y)) \<Longrightarrow>
   evolves R (case x of None \<Rightarrow> a | Some y \<Rightarrow> b y)"
  by (simp split: option.splits)

lemma evolves_case_sum:
  "(\<And>y. x = Inl y \<Longrightarrow> evolves R (a y)) \<Longrightarrow> (\<And>y. x = Inr y \<Longrightarrow> evolves R (b y)) \<Longrightarrow>
   evolves R (case x of Inl y \<Rightarrow> a y | Inr y \<Rightarrow> b y)"
  by (simp split: sum.splits)

lemma evolves_case_prod:
  "(\<And>y z. x = (y, z) \<Longrightarrow> evolves R (a y z)) \<Longrightarrow> evolves R (case x of (y, z) \<Rightarrow> a y z)"
  by (simp split: prod.splits)

lemma evolves_let: "(\<And>y. y = x \<Longrightarrow> evolves R (f y)) \<Longrightarrow> evolves R (let y = x in f y)"
  by simp

lemmas evolves_splits =
  evolves_if evolves_case_option evolves_case_sum evolves_case_prod evolves_let

locale evolution =
  fixes R :: "'w \<Rightarrow> 'w \<Rightarrow> bool"
  assumes refl: "R w w"
    and trans: "R u v \<Longrightarrow> R v w \<Longrightarrow> R u w"
begin

lemma ev_ret: "evolves R (ret x)"
  by (simp add: evolves_def ret_def refl)

lemma ev_throw: "evolves R (throw e)"
  by (simp add: evolves_def throw_def refl)

lemma ev_gets: "evolves R (gets f)"
  by (simp add: evolves_def gets_def refl)

lemma ev_lift_result: "evolves R (lift_result r)"
  by (simp add: evolves_def lift_result_def refl)

lemma ev_await: "evolves R m \<Longrightarrow> (\<And>x. evolves R (f x)) \<Longrightarrow> evolves R (await m f)"
  unfolding evolves_def await_run by (auto split: sum.splits intro: trans)

lemma ev_attempt: "evolves R m \<Longrightarrow> (\<And>e. evolves R (h e)) \<Longrightarrow> evolves R (attempt m h)"
  unfolding evolves_def attempt_run by (auto split: sum.splits intro: trans)

lemma ev_ensure: "evolves R m \<Longrightarrow> (\<And>w. R w (g w)) \<Longrightarrow> evolves R (ensure m g)"
  unfolding evolves_def ensure_def by (auto split: prod.splits intro: trans)

lemma ev_for_each: "(\<And>x. evolves R (f x)) \<Longrightarrow> evolves R (for_each f xs)"
  by (induction xs) (auto intro: ev_ret ev_await)

lemmas ev_rules =
  ev_ret ev_throw ev_gets ev_lift_result ev_await ev_attempt ev_ensure ev_for_each

end

text \<open>A predicate that is kept is the evolution "if it held before, it holds after".\<close>

definition keeps :: "('w \<Rightarrow> bool) \<Rightarrow> ('w, 'a) io \<Rightarrow> bool" where
  "keeps P = evolves (\<lambda>w w'. P w \<longrightarrow> P w')"

interpretation keeping: evolution "\<lambda>w w'. P w \<longrightarrow> P w'" for P :: "'w \<Rightarrow> bool"
  by unfold_locales auto

lemmas keeps_rules =
  keeping.ev_ret [folded keeps_def] keeping.ev_throw [folded keeps_def]
  keeping.ev_gets [folded keeps_def] keeping.ev_lift_result [folded keeps_def]
  keeping.ev_await [folded keeps_def] keeping.ev_attempt [folded keeps_def]
  keeping.ev_for_each [folded keeps_def]

lemma keeps_iff: "keeps P m \<longleftrightarrow> (\<forall>w. P w \<longrightarrow> P (snd (m w)))"
  by (simp add: keeps_def evolves_def)

lemma keepsD: "keeps P m \<Longrightarrow> P w \<Longrightarrow> P (snd (m w))"
  by (simp add: keeps_iff)

section \<open>Invariants with results\<close>

text \<open>
  \<open>yields P m Q\<close>: started where \<open>P\<close> holds, \<open>m\<close> leaves \<open>P\<close>, however it ends, and a value it
  returns satisfies \<open>Q\<close>. The rules mirror the constructs of the monad.
\<close>

definition yields :: "('w \<Rightarrow> bool) \<Rightarrow> ('w, 'a) io \<Rightarrow> ('a \<Rightarrow> bool) \<Rightarrow> bool" where
  "yields P m Q \<longleftrightarrow> (\<forall>w. P w \<longrightarrow> P (snd (m w)) \<and> (\<forall>x. fst (m w) = Inr x \<longrightarrow> Q x))"

lemma yieldsD: "yields P m Q \<Longrightarrow> P w \<Longrightarrow> P (snd (m w))"
  by (simp add: yields_def)

lemma yields_ret: "Q x \<Longrightarrow> yields P (ret x) Q"
  by (simp add: yields_def ret_def)

lemma yields_throw: "yields P (throw e) Q"
  by (simp add: yields_def throw_def)

lemma yields_gets: "(\<And>w. P w \<Longrightarrow> Q (f w)) \<Longrightarrow> yields P (gets f) Q"
  by (simp add: yields_def gets_def)

lemma yields_modify: "(\<And>w. P w \<Longrightarrow> P (f w)) \<Longrightarrow> Q () \<Longrightarrow> yields P (modify f) Q"
  by (simp add: yields_def modify_def)

lemma yields_lift_result: "(\<And>x. r = Inr x \<Longrightarrow> Q x) \<Longrightarrow> yields P (lift_result r) Q"
  by (simp add: yields_def lift_result_def)

lemma yields_await: "yields P m Q \<Longrightarrow> (\<And>x. Q x \<Longrightarrow> yields P (f x) S) \<Longrightarrow> yields P (await m f) S"
  unfolding yields_def await_run by (auto split: sum.splits)

lemma yields_attempt: "yields P m Q \<Longrightarrow> (\<And>e. yields P (h e) Q) \<Longrightarrow> yields P (attempt m h) Q"
  unfolding yields_def attempt_run by (auto split: sum.splits)

lemma yields_ensure: "yields P m Q \<Longrightarrow> (\<And>w. P w \<Longrightarrow> P (g w)) \<Longrightarrow> yields P (ensure m g) Q"
  unfolding yields_def ensure_def by (auto split: prod.splits)

lemma yields_if:
  "(c \<Longrightarrow> yields P a Q) \<Longrightarrow> (\<not> c \<Longrightarrow> yields P b Q) \<Longrightarrow> yields P (if c then a else b) Q"
  by simp

lemma yields_let: "(\<And>y. y = x \<Longrightarrow> yields P (f y) Q) \<Longrightarrow> yields P (let y = x in f y) Q"
  by simp

lemma yields_weaken: "yields P m Q \<Longrightarrow> (\<And>x. Q x \<Longrightarrow> S x) \<Longrightarrow> yields P m S"
  by (auto simp: yields_def)

lemmas yields_rules =
  yields_throw yields_gets yields_modify yields_lift_result yields_if yields_let yields_ensure

end
