(* ===== verification/World.thy ===== *)
theory World
  imports KvUtil Effects
begin

text \<open>
  The state all services share: the database tables of \<open>prisma/schema.prisma\<close> they read and
  write, the in-memory fields of the service objects, and a trace of the calls made to the
  broker. What is outside the repository is the field \<open>w_env\<close>, a parameter of the model: the
  answers of the broker and of the market-data provider, the clock, fresh identifiers, and
  which database calls fail. Every effect advances \<open>w_calls\<close>, and each answer depends on it,
  so two calls with the same arguments may be answered differently.

  Prisma's client calls act on the tables as documented: \<open>findFirst\<close> and \<open>findMany\<close> select
  rows, \<open>create\<close> checks the foreign key and the unique constraints, \<open>update\<close> fails when no row
  has the key, \<open>updateMany\<close> returns the number of rows it changed, a \<open>$transaction\<close> whose body
  throws or whose commit fails leaves the tables unchanged. Any call may fail instead, leaving
  the tables as they were.
\<close>

section \<open>Rows\<close>

text \<open>
  The human-readable texts of the services (\<open>reject_reason\<close>, the \<open>error\<close> of a result) are
  values of \<open>msg\<close>, one constructor for each template, with the values it interpolates.
\<close>

datatype msg =
  NoteText string
| NoteExn exn
| NoteMtmUnavailable
| NoteLossLimit string jsnum jsnum
| NoteDrawdown jsnum jsnum
| NoteMaxOpen jsnum jsnum
| NoteQuoteUnavailable exn
| NoteInvalidFillPrice jsnum
| NoteInvalidQuote jsnum
| NoteRealStateUnavailable
| NoteExitRoutingUnknown
| NoteExitQtyUnknown
| NoteNoBrokerPosition string
| NoteHalted
| NoteBrokerNotConfigured
| NoteRealShortDisabled
| NoteWalkForward msg
| NoteNoAppliedStrategy
| NoteStrategyLookupFailed string
| NoteStrategyMissing string
| NoteVerdict "string option"
| NoteNoCheckedAt
| NoteVerdictStale int jsnum
| NoteNonFiniteState
| NoteBadQty jsnum
| NoteNotional jsnum jsnum
| NoteSubmissionFailed
| NoteConfirmedAbsent nat string
| NoteBrokerOrder string
| NoteHold
| NoteExitSkipped string
| NoteDuplicate string string string string

text \<open>The JSON documents written to \<open>TradeIntent.result_json\<close>, one constructor per shape.\<close>

datatype result_doc =
  RHold
| RReason msg
| RError msg
| RErrorDetail msg exn
| RNotional msg jsnum jsnum jsnum jsnum
| ROrderError msg jsnum string string
| RSubmitted jsnum string string string string
| RPaperFill jsnum jsnum "jsnum option" jsnum jsnum

record trade_intent =
  ti_id :: string
  ti_cycle_id :: "string option"
  ti_symbol :: string
  ti_action :: string
  ti_confidence :: jsnum
  ti_rationale :: string
  ti_timeframe :: string
  ti_mode :: string
  ti_status :: string
  ti_created_at :: int
  ti_decided_at :: "int option"
  ti_decided_by :: "string option"
  ti_reject_reason :: "msg option"
  ti_fill_price :: "jsnum option"
  ti_quantity :: "jsnum option"
  ti_realized_pnl :: "jsnum option"
  ti_result :: "result_doc option"

record real_order =
  ro_id :: string
  ro_trade_intent_id :: string
  ro_broker_plugin_id :: string
  ro_client_order_id :: string
  ro_broker_order_id :: "string option"
  ro_symbol :: string
  ro_side :: string
  ro_order_type :: string
  ro_requested_qty :: jsnum
  ro_limit_price :: "jsnum option"
  ro_status :: string
  ro_filled_qty :: jsnum
  ro_filled_avg_price :: "jsnum option"
  ro_submitted_at :: "int option"
  ro_filled_at :: "int option"
  ro_last_reconciled_at :: "int option"
  ro_error :: "msg option"
  ro_created_at :: int

record real_position =
  rp_symbol :: string
  rp_broker_plugin_id :: string
  rp_qty :: jsnum
  rp_avg_entry :: jsnum
  rp_market_value :: jsnum
  rp_unrealized_pnl :: jsnum
  rp_side :: string

text \<open>A position and a portfolio as the provider gateway reports them.\<close>

record broker_position =
  bp_symbol :: string
  bp_qty :: jsnum
  bp_avg_entry :: jsnum
  bp_market_value :: jsnum
  bp_unrealized_pnl :: jsnum
  bp_side :: string

record portfolio =
  po_equity :: jsnum
  po_cash :: jsnum
  po_buying_power :: jsnum
  po_positions :: "broker_position list"
  po_total_pnl :: jsnum

text \<open>\<open>raw\<close> is kept as far as it is read: its \<open>reject_reason\<close> when that is a string.\<close>

record order_status =
  os_broker_order_id :: string
  os_status :: string
  os_filled_qty :: jsnum
  os_filled_avg_price :: "jsnum option"
  os_reject_reason :: "string option"

record order_request =
  oq_symbol :: string
  oq_qty :: jsnum
  oq_side :: string
  oq_type :: string
  oq_client_order_id :: string
  oq_limit_price :: "jsnum option"

record nav_snapshot =
  nv_ts :: int
  nv_broker_plugin_id :: string
  nv_equity :: jsnum
  nv_cash :: jsnum
  nv_buying_power :: jsnum
  nv_positions :: "broker_position list"
  nv_total_pnl :: jsnum
  nv_hwm :: jsnum
  nv_source :: string

record strategy =
  st_id :: string
  st_verdict :: "string option"
  st_checked_at :: "int option"
  st_name :: string
  st_description :: "string option"
  st_config :: string
  st_active :: bool
  st_mode :: string
  st_created_at :: int

datatype alert_message =
  AmHalted nat exn
| AmDrift string jsnum
| AmStaleCancel string string jsnum

record alert =
  al_type :: string
  al_severity :: string
  al_symbol :: "string option"
  al_message :: alert_message
  al_resolved :: bool

datatype audit_event =
  AuLossBreaker string msg
| AuDemotion string msg

record gposition =
  gp_symbol :: string
  gp_quantity :: jsnum
  gp_avg_price :: jsnum

text \<open>
  The account state of the governed execution core and of the paper portfolio. A period key
  \<open>YYYY-MM-DD\<close> is the number of the UTC day it names, counted from 1970-01-01.
\<close>

record account =
  ac_equity :: jsnum
  ac_cash :: jsnum
  ac_positions :: "gposition list"
  ac_hwm :: "jsnum option"
  ac_day_key :: "int option"
  ac_day_start_equity :: "jsnum option"
  ac_week_key :: "int option"
  ac_week_start_equity :: "jsnum option"
  ac_max_equity :: "jsnum option"
  ac_max_drawdown_pct :: "jsnum option"
  ac_initial_equity :: "jsnum option"

end
