(* ===== verification/WorldState.thy ===== *)
theory WorldState
  imports World
begin

text \<open>
  The world: tables, in-memory service fields, broker trace and environment; the primitive
  effects on them.
\<close>

section \<open>The environment and the world\<close>

text \<open>
  Answers from outside, indexed by the number of effects performed so far. A quote may be
  absent (\<open>null\<close>); \<open>env_place\<close> answers with the \<open>id\<close> of the response when it is a string.
\<close>

record env =
  env_quote :: "nat \<Rightarrow> string \<Rightarrow> exn + jsnum option"
  env_portfolio :: "nat \<Rightarrow> string \<Rightarrow> exn + portfolio"
  env_order_by_client :: "nat \<Rightarrow> string \<Rightarrow> string \<Rightarrow> exn + order_status option"
  env_order_status :: "nat \<Rightarrow> string \<Rightarrow> string \<Rightarrow> exn + order_status"
  env_place :: "nat \<Rightarrow> string \<Rightarrow> order_request \<Rightarrow> exn + string option"
  env_cancel :: "nat \<Rightarrow> string \<Rightarrow> string \<Rightarrow> exn + unit"
  env_db_fault :: "nat \<Rightarrow> exn option"
  env_now :: "nat \<Rightarrow> int"
  env_uuid :: "nat \<Rightarrow> string"
  env_has_audit :: bool

datatype broker_event =
  EvPlace string order_request
| EvLookupClient string string
| EvLookupStatus string string
| EvCancel string string
| EvPortfolio string
| EvQuote string

text \<open>The persisted state of the reconciliation circuit breaker (JSON under one key).\<close>

record breaker =
  cb_state :: string
  cb_failures :: nat
  cb_last_failure_at :: "int option"
  cb_last_success_at :: "int option"
  cb_reason :: "exn option"

record world =
  w_env :: env
  w_calls :: nat
  w_config :: "string \<Rightarrow> string option"
  w_breaker :: "breaker option"
  w_intents :: "trade_intent list"
  w_orders :: "real_order list"
  w_positions :: "real_position list"
  w_navs :: "nav_snapshot list"
  w_portfolios :: "string \<Rightarrow> account option"
  w_strategies :: "strategy list"
  w_alerts :: "alert list"
  w_audit :: "audit_event list"
  w_trace :: "broker_event list"
  w_fail_times :: "int list"
  w_absent :: "string \<Rightarrow> nat option"
  w_tick_running :: bool
  w_last_sync :: "int option"

type_synonym 'a app = "(world, 'a) io"

section \<open>Calls to the outside\<close>

definition tock :: "world \<Rightarrow> world" where
  "tock w = w\<lparr>w_calls := Suc (w_calls w)\<rparr>"

definition note_event :: "broker_event \<Rightarrow> world \<Rightarrow> world" where
  "note_event ev w = w\<lparr>w_calls := Suc (w_calls w), w_trace := w_trace w @ [ev]\<rparr>"

definition now :: "int app" where
  "now = (\<lambda>w. (Inr (env_now (w_env w) (w_calls w)), tock w))"

definition fresh_uuid :: "string app" where
  "fresh_uuid = (\<lambda>w. (Inr (env_uuid (w_env w) (w_calls w)), tock w))"

definition get_quote :: "string \<Rightarrow> jsnum option app" where
  "get_quote symb = (\<lambda>w. (env_quote (w_env w) (w_calls w) symb, note_event (EvQuote symb) w))"

definition get_portfolio :: "string \<Rightarrow> portfolio app" where
  "get_portfolio b = (\<lambda>w. (env_portfolio (w_env w) (w_calls w) b, note_event (EvPortfolio b) w))"

definition get_order_by_client :: "string \<Rightarrow> string \<Rightarrow> order_status option app" where
  "get_order_by_client b c =
     (\<lambda>w. (env_order_by_client (w_env w) (w_calls w) b c, note_event (EvLookupClient b c) w))"

definition get_order_status :: "string \<Rightarrow> string \<Rightarrow> order_status app" where
  "get_order_status b i =
     (\<lambda>w. (env_order_status (w_env w) (w_calls w) b i, note_event (EvLookupStatus b i) w))"

definition place_order :: "string \<Rightarrow> order_request \<Rightarrow> string option app" where
  "place_order b q = (\<lambda>w. (env_place (w_env w) (w_calls w) b q, note_event (EvPlace b q) w))"

definition cancel_order :: "string \<Rightarrow> string \<Rightarrow> unit app" where
  "cancel_order b i = (\<lambda>w. (env_cancel (w_env w) (w_calls w) b i, note_event (EvCancel b i) w))"

section \<open>Database calls\<close>

definition db_read :: "(world \<Rightarrow> 'a) \<Rightarrow> 'a app" where
  "db_read f = (\<lambda>w. case env_db_fault (w_env w) (w_calls w) of
      Some e \<Rightarrow> (Inl e, tock w) | None \<Rightarrow> (Inr (f w), tock w))"

definition db_write :: "(world \<Rightarrow> exn + 'a \<times> world) \<Rightarrow> 'a app" where
  "db_write f = (\<lambda>w. case env_db_fault (w_env w) (w_calls w) of
      Some e \<Rightarrow> (Inl e, tock w)
    | None \<Rightarrow> (case f w of Inl e \<Rightarrow> (Inl e, tock w) | Inr (x, w') \<Rightarrow> (Inr x, tock w')))"

text \<open>The tables as they were, everything else as it is now.\<close>

definition rollback :: "world \<Rightarrow> world \<Rightarrow> world" where
  "rollback w w' = w'\<lparr>w_config := w_config w, w_breaker := w_breaker w, w_intents := w_intents w,
     w_orders := w_orders w, w_positions := w_positions w, w_navs := w_navs w,
     w_portfolios := w_portfolios w, w_strategies := w_strategies w, w_alerts := w_alerts w,
     w_audit := w_audit w\<rparr>"

definition transaction :: "'a app \<Rightarrow> 'a app" where
  "transaction m = (\<lambda>w. case m w of
      (Inl e, w') \<Rightarrow> (Inl e, rollback w w')
    | (Inr x, w') \<Rightarrow> (case env_db_fault (w_env w') (w_calls w') of
         Some e \<Rightarrow> (Inl e, tock (rollback w w'))
       | None \<Rightarrow> (Inr x, tock w')))"

text \<open>The error of an \<open>update\<close> with no matching row, and of a dangling foreign key.\<close>

definition not_found :: exn where
  "not_found = Exn ''P2025''"

definition foreign_key :: exn where
  "foreign_key = Exn ''P2003''"

subsection \<open>Key-value table\<close>

definition kv_get :: "string \<Rightarrow> string option app" where
  "kv_get k = db_read (\<lambda>w. w_config w k)"

definition kv_set :: "string \<Rightarrow> string \<Rightarrow> unit app" where
  "kv_set k v = db_write (\<lambda>w. Inr ((), w\<lparr>w_config := (w_config w)(k := Some v)\<rparr>))"

definition kv_delete :: "string \<Rightarrow> unit app" where
  "kv_delete k =
     attempt (db_write (\<lambda>w. Inr ((), w\<lparr>w_config := (w_config w)(k := None)\<rparr>))) (\<lambda>_. ret ())"

text \<open>A read whose failure counts as an absent key: \<open>try { ... } catch { raw = null }\<close>.\<close>

definition kv_get_soft :: "string \<Rightarrow> string option app" where
  "kv_get_soft k = attempt (kv_get k) (\<lambda>_. ret None)"

text \<open>\<open>Promise.all\<close> over \<open>kv.get\<close>: the values read, or the first failure.\<close>

primrec kv_get_all :: "string list \<Rightarrow> (string \<Rightarrow> string option) app" where
  "kv_get_all [] = ret (\<lambda>_. None)"
| "kv_get_all (k # ks) =
     await (kv_get k) (\<lambda>v. await (kv_get_all ks) (\<lambda>m. ret (m(k := v))))"

subsection \<open>Real orders\<close>

text \<open>
  A row is active when its status is outside the terminal list of migration 0017; the partial
  unique index allows one active row per trade intent, and \<open>client_order_id\<close> is unique.
\<close>

definition index_terminal :: "string list" where
  "index_terminal =
     [''filled'', ''canceled'', ''rejected'', ''expired'', ''submit_failed'', ''confirmed_absent'']"

definition active_order :: "real_order \<Rightarrow> bool" where
  "active_order r \<longleftrightarrow> ro_status r \<notin> set index_terminal"

definition orders_ok :: "real_order list \<Rightarrow> bool" where
  "orders_ok t \<longleftrightarrow>
     distinct (map ro_id t) \<and> distinct (map ro_client_order_id t) \<and>
     distinct (map ro_trade_intent_id (filter active_order t))"

definition put_orders :: "real_order list \<Rightarrow> 'a \<Rightarrow> world \<Rightarrow> exn + 'a \<times> world" where
  "put_orders t x w = (if orders_ok t then Inr (x, w\<lparr>w_orders := t\<rparr>) else Inl UniqueViolation)"

definition order_create :: "real_order \<Rightarrow> real_order app" where
  "order_create r = db_write (\<lambda>w.
     if ro_trade_intent_id r \<notin> ti_id ` set (w_intents w) then Inl foreign_key
     else put_orders (w_orders w @ [r]) r w)"

definition order_find :: "(real_order \<Rightarrow> bool) \<Rightarrow> real_order option app" where
  "order_find p = db_read (\<lambda>w. find_row p (w_orders w))"

definition order_find_latest :: "(real_order \<Rightarrow> bool) \<Rightarrow> real_order option app" where
  "order_find_latest p = db_read (\<lambda>w. latest_row ro_created_at p (w_orders w))"

definition order_find_many :: "(real_order \<Rightarrow> bool) \<Rightarrow> real_order list app" where
  "order_find_many p = db_read (\<lambda>w. filter p (w_orders w))"

definition has_id :: "string \<Rightarrow> real_order \<Rightarrow> bool" where
  "has_id i r \<longleftrightarrow> ro_id r = i"

definition order_update :: "string \<Rightarrow> (real_order \<Rightarrow> real_order) \<Rightarrow> real_order app" where
  "order_update i f = db_write (\<lambda>w.
     case find_row (has_id i) (w_orders w) of
       None \<Rightarrow> Inl not_found
     | Some r \<Rightarrow> put_orders (update_rows (has_id i) f (w_orders w)) (f r) w)"

definition order_update_many :: "(real_order \<Rightarrow> bool) \<Rightarrow> (real_order \<Rightarrow> real_order) \<Rightarrow> nat app" where
  "order_update_many p f = db_write (\<lambda>w.
     put_orders (update_rows p f (w_orders w)) (length (filter p (w_orders w))) w)"

subsection \<open>Trade intents\<close>

definition has_ti :: "string \<Rightarrow> trade_intent \<Rightarrow> bool" where
  "has_ti i r \<longleftrightarrow> ti_id r = i"

definition intent_find :: "(trade_intent \<Rightarrow> bool) \<Rightarrow> trade_intent option app" where
  "intent_find p = db_read (\<lambda>w. find_row p (w_intents w))"

definition intent_create :: "trade_intent \<Rightarrow> trade_intent app" where
  "intent_create r = db_write (\<lambda>w.
     if ti_id r \<in> ti_id ` set (w_intents w) then Inl UniqueViolation
     else Inr (r, w\<lparr>w_intents := w_intents w @ [r]\<rparr>))"

definition intent_update :: "string \<Rightarrow> (trade_intent \<Rightarrow> trade_intent) \<Rightarrow> trade_intent app" where
  "intent_update i f = db_write (\<lambda>w.
     case find_row (has_ti i) (w_intents w) of
       None \<Rightarrow> Inl not_found
     | Some r \<Rightarrow> Inr (f r, w\<lparr>w_intents := update_rows (has_ti i) f (w_intents w)\<rparr>))"

subsection \<open>Alerts, audit, portfolios\<close>

definition alerts_create :: "alert \<Rightarrow> unit app" where
  "alerts_create a = db_write (\<lambda>w. Inr ((), w\<lparr>w_alerts := w_alerts w @ [a]\<rparr>))"

definition alerts_active :: "alert list app" where
  "alerts_active = db_read (\<lambda>w. filter (\<lambda>a. \<not> al_resolved a) (w_alerts w))"

definition audit_log :: "audit_event \<Rightarrow> unit app" where
  "audit_log ev = db_write (\<lambda>w. Inr ((), w\<lparr>w_audit := w_audit w @ [ev]\<rparr>))"

definition portfolio_find :: "string \<Rightarrow> account option app" where
  "portfolio_find n = db_read (\<lambda>w. w_portfolios w n)"

definition portfolio_upsert :: "string \<Rightarrow> account \<Rightarrow> unit app" where
  "portfolio_upsert n a =
     db_write (\<lambda>w. Inr ((), w\<lparr>w_portfolios := (w_portfolios w)(n := Some a)\<rparr>))"

end
