(* ===== verification/GovernedExec.thy ===== *)
theory GovernedExec
  imports WorldState
begin

text \<open>
  \<open>execution/governed-account-state.ts\<close> and \<open>execution/governed-paper-execution.service.ts\<close>:
  the execution core shared by the live paper account and the pretest portfolios. Entry gates
  (mark to market, loss breaker, drawdown halt, position count), sizing ceilings, fills and
  the partial rebalance. Quotes of \<open>markToMarket\<close>, requested together by the code, are
  summed in the order of the positions.
\<close>

section \<open>Types\<close>

record risk_policy =
  rk_max_position_pct :: jsnum
  rk_max_open_positions :: jsnum
  rk_max_drawdown_halt_pct :: jsnum
  rk_max_short_notional_pct :: jsnum
  rk_loss_breaker :: bool
  rk_max_daily_loss_pct :: jsnum
  rk_max_weekly_loss_pct :: jsnum

record fill_policy =
  fp_sizing_pct :: jsnum
  fp_max_position_pct :: jsnum
  fp_max_short_notional_pct :: jsnum
  fp_slippage_pct :: "jsnum option"
  fp_commission_pct :: "jsnum option"

record gate_result =
  gr_pass :: bool
  gr_reason :: "msg option"
  gr_state :: account
  gr_baseline_changed :: bool

record fill_result =
  fr_quantity :: jsnum
  fr_realized_pnl :: "jsnum option"
  fr_state :: account
  fr_no_position :: bool

record exec_result =
  xr_pass :: bool
  xr_reason :: "msg option"
  xr_quantity :: jsnum
  xr_realized_pnl :: "jsnum option"
  xr_state :: account
  xr_baseline_changed :: bool

text \<open>\<open>state.hwm ?? state.equity\<close>.\<close>

definition base_hwm :: "account \<Rightarrow> jsnum" where
  "base_hwm a = (case ac_hwm a of Some h \<Rightarrow> h | None \<Rightarrow> ac_equity a)"

definition position_of :: "string \<Rightarrow> account \<Rightarrow> gposition option" where
  "position_of symb a = find (\<lambda>p. gp_symbol p = symb) (ac_positions a)"

section \<open>Drawdown and mark to market\<close>

text \<open>The percentage below a high-water mark, zero when the mark is not positive.\<close>

definition drawdown_pct :: "jsnum \<Rightarrow> jsnum \<Rightarrow> jsnum" where
  "drawdown_pct hwm equity =
     (if jgt hwm j0 then jmax j0 (jmul (jdiv (jsub hwm equity) hwm) (Fin 100)) else j0)"

definition computeDrawdownPct :: "account \<Rightarrow> jsnum" where
  "computeDrawdownPct a = drawdown_pct (base_hwm a) (ac_equity a)"

text \<open>The value of the positions at current prices, None as soon as one cannot be priced.\<close>

fun price_positions :: "gposition list \<Rightarrow> bool \<times> jsnum \<Rightarrow> (bool \<times> jsnum) app" where
  "price_positions [] acc = ret acc"
| "price_positions (p # ps) (ok, tot) =
     await
       (attempt
         (await (get_quote (gp_symbol p)) (\<lambda>q. ret (case q of
            None \<Rightarrow> (False, tot)
          | Some px \<Rightarrow>
              if \<not> is_finite px \<or> jle px j0 then (False, tot)
              else (ok, jadd tot (jmul px (gp_quantity p))))))
         (\<lambda>_. ret (False, tot)))
       (\<lambda>acc. price_positions ps acc)"

text \<open>The result: equity, high-water mark, and whether every position was priced.\<close>

definition markToMarket :: "account \<Rightarrow> (jsnum \<times> jsnum \<times> bool) app" where
  "markToMarket a =
     (if ac_positions a = [] then ret (ac_equity a, jmax (base_hwm a) (ac_equity a), True)
      else await (price_positions (ac_positions a) (True, j0)) (\<lambda>(ok, tot).
        if \<not> ok then ret (ac_equity a, base_hwm a, False)
        else (let equity = jadd (ac_cash a) tot
              in ret (equity, jmax (base_hwm a) equity, True))))"

section \<open>Calendar periods\<close>

text \<open>Milliseconds since 1970-01-01 (a Thursday) to the UTC day, and to that week's Monday.\<close>

definition dayKey :: "int \<Rightarrow> int" where
  "dayKey t = t div 86400000"

definition weekKey :: "int \<Rightarrow> int" where
  "weekKey t = (let d = t div 86400000; day = (d + 4) mod 7 in d - (day + 6) mod 7)"

definition syncPeriodBaselines :: "account \<Rightarrow> jsnum \<Rightarrow> int \<Rightarrow> account \<times> bool" where
  "syncPeriodBaselines a mtm t =
     (let dayChanged = ac_day_key a \<noteq> Some (dayKey t);
          weekChanged = ac_week_key a \<noteq> Some (weekKey t)
      in if \<not> dayChanged \<and> \<not> weekChanged then (a, False)
         else (a\<lparr>ac_day_key := Some (dayKey t),
                 ac_day_start_equity := (if dayChanged then Some mtm else ac_day_start_equity a),
                 ac_week_key := Some (weekKey t),
                 ac_week_start_equity := (if weekChanged then Some mtm else ac_week_start_equity a)\<rparr>,
               True))"

text \<open>None: the limit is not reached (or there is no baseline yet).\<close>

definition checkPeriodLossLimit ::
  "jsnum option \<Rightarrow> jsnum \<Rightarrow> jsnum \<Rightarrow> string \<Rightarrow> msg option" where
  "checkPeriodLossLimit start current maxLoss label =
     (case start of
        None \<Rightarrow> None
      | Some s \<Rightarrow>
          if jle s j0 then None
          else (let lossPct = jdiv (jsub s current) s
                in if jge lossPct maxLoss then Some (NoteLossLimit label lossPct maxLoss) else None))"

definition auditLossBreakerTrip :: "string \<Rightarrow> msg \<Rightarrow> unit app" where
  "auditLossBreakerTrip period reason =
     await (gets (\<lambda>w. env_has_audit (w_env w))) (\<lambda>present.
       if \<not> present then ret ()
       else attempt (audit_log (AuLossBreaker period reason)) (\<lambda>_. ret ()))"

section \<open>Entry gate\<close>

definition reject_gate :: "msg \<Rightarrow> account \<Rightarrow> bool \<Rightarrow> gate_result" where
  "reject_gate reason a changed =
     \<lparr>gr_pass = False, gr_reason = Some reason, gr_state = a, gr_baseline_changed = changed\<rparr>"

text \<open>The loss breaker: the label and reason of the first period limit that is reached.\<close>

definition loss_breaker :: "risk_policy \<Rightarrow> account \<Rightarrow> jsnum \<Rightarrow> (string \<times> msg) option" where
  "loss_breaker pol a equity =
     (if \<not> rk_loss_breaker pol then None
      else case checkPeriodLossLimit (ac_day_start_equity a) equity (rk_max_daily_loss_pct pol) ''daily'' of
             Some r \<Rightarrow> Some (''daily'', r)
           | None \<Rightarrow>
               map_option (Pair ''weekly'')
                 (checkPeriodLossLimit (ac_week_start_equity a) equity (rk_max_weekly_loss_pct pol) ''weekly''))"

text \<open>Drawdown halt, then the ceiling on open positions.\<close>

definition gate_limits :: "risk_policy \<Rightarrow> account \<Rightarrow> msg option" where
  "gate_limits pol a =
     (let drawdown = computeDrawdownPct a; n = of_count (int (length (ac_positions a)))
      in if jge drawdown (rk_max_drawdown_halt_pct pol)
         then Some (NoteDrawdown drawdown (rk_max_drawdown_halt_pct pol))
         else if jge n (rk_max_open_positions pol)
         then Some (NoteMaxOpen n (rk_max_open_positions pol))
         else None)"

definition evaluateEntryGate :: "account \<Rightarrow> risk_policy \<Rightarrow> gate_result app" where
  "evaluateEntryGate a pol =
     await (markToMarket a) (\<lambda>(equity, hwm, ok).
       if \<not> ok then ret (reject_gate NoteMtmUnavailable a False)
       else await now (\<lambda>t.
         let (synced, changed) = syncPeriodBaselines a equity t
         in case loss_breaker pol synced equity of
              Some (period, reason) \<Rightarrow>
                await (auditLossBreakerTrip period reason)
                  (\<lambda>_. ret (reject_gate reason synced changed))
            | None \<Rightarrow>
                (let fresh = synced\<lparr>ac_equity := equity, ac_hwm := Some hwm\<rparr>
                 in case gate_limits pol fresh of
                      Some reason \<Rightarrow> ret (reject_gate reason fresh changed)
                    | None \<Rightarrow> ret \<lparr>gr_pass = True, gr_reason = None, gr_state = fresh,
                                   gr_baseline_changed = changed\<rparr>)))"

section \<open>Sizing ceilings\<close>

definition ceiling_qty :: "jsnum \<Rightarrow> jsnum \<Rightarrow> jsnum \<Rightarrow> jsnum" where
  "ceiling_qty equity price pct = jfloor (jdiv (jmul equity pct) price)"

definition clampToPositionCeiling :: "jsnum \<Rightarrow> jsnum \<Rightarrow> jsnum \<Rightarrow> jsnum \<Rightarrow> jsnum" where
  "clampToPositionCeiling qty equity price maxPositionPct =
     (if jle qty j0 then qty
      else (let maxQty = ceiling_qty equity price maxPositionPct
            in if jgt qty maxQty then maxQty else qty))"

definition clampToShortNotionalCeiling :: "jsnum \<Rightarrow> jsnum \<Rightarrow> jsnum \<Rightarrow> jsnum \<Rightarrow> jsnum" where
  "clampToShortNotionalCeiling qty equity price maxShortNotionalPct =
     (if jle qty j0 then qty
      else (let maxQty = ceiling_qty equity price maxShortNotionalPct
            in if jgt qty maxQty then maxQty else qty))"

definition positionsValue :: "gposition list \<Rightarrow> jsnum \<Rightarrow> string \<Rightarrow> jsnum" where
  "positionsValue ps fillPrice tradedSymbol =
     foldl (\<lambda>acc p. jadd acc (jmul (if gp_symbol p = tradedSymbol then fillPrice else gp_avg_price p)
                                    (gp_quantity p))) j0 ps"

section \<open>Fills\<close>

text \<open>\<open>newState.hwm = Math.max(baseHwm, newState.equity)\<close>, with or without a new equity.\<close>

definition bump_hwm :: "jsnum \<Rightarrow> account \<Rightarrow> account" where
  "bump_hwm hwm a = a\<lparr>ac_hwm := Some (jmax hwm (ac_equity a))\<rparr>"

definition revalue :: "jsnum \<Rightarrow> jsnum \<Rightarrow> string \<Rightarrow> account \<Rightarrow> account" where
  "revalue hwm price symb a =
     bump_hwm hwm (a\<lparr>ac_equity := jadd (ac_cash a) (positionsValue (ac_positions a) price symb)\<rparr>)"

definition no_fill :: "jsnum \<Rightarrow> account \<Rightarrow> fill_result" where
  "no_fill hwm a =
     \<lparr>fr_quantity = j0, fr_realized_pnl = None, fr_state = bump_hwm hwm a, fr_no_position = False\<rparr>"

text \<open>The first position of a symbol grows to \<open>f\<close> of itself, or a new one is appended.\<close>

definition merge_position ::
  "string \<Rightarrow> (gposition \<Rightarrow> gposition) \<Rightarrow> gposition \<Rightarrow> account \<Rightarrow> account" where
  "merge_position symb f new a =
     (case position_of symb a of
        Some _ \<Rightarrow> a\<lparr>ac_positions := upd_first (\<lambda>p. gp_symbol p = symb) f (ac_positions a)\<rparr>
      | None \<Rightarrow> a\<lparr>ac_positions := ac_positions a @ [new]\<rparr>)"

text \<open>The quantity-weighted mean \<open>(avg * held + basis * qty) / total\<close>.\<close>

definition mean_price :: "jsnum \<Rightarrow> jsnum \<Rightarrow> jsnum \<Rightarrow> jsnum \<Rightarrow> jsnum \<Rightarrow> jsnum" where
  "mean_price avg held basis qty tot = jdiv (jadd (jmul avg held) (jmul basis qty)) tot"

definition grow_long :: "jsnum \<Rightarrow> jsnum \<Rightarrow> gposition \<Rightarrow> gposition" where
  "grow_long basis qty p =
     (let totalQty = jadd (gp_quantity p) qty
      in p\<lparr>gp_avg_price := mean_price (gp_avg_price p) (gp_quantity p) basis qty totalQty,
           gp_quantity := totalQty\<rparr>)"

definition grow_short :: "jsnum \<Rightarrow> jsnum \<Rightarrow> gposition \<Rightarrow> gposition" where
  "grow_short basis qty p =
     (let existingAbs = jabs (gp_quantity p); totalQty = jadd existingAbs qty
      in p\<lparr>gp_avg_price := mean_price (gp_avg_price p) existingAbs basis qty totalQty,
           gp_quantity := jneg totalQty\<rparr>)"

definition position_qty :: "string \<Rightarrow> account \<Rightarrow> jsnum" where
  "position_qty symb a = (case position_of symb a of Some p \<Rightarrow> gp_quantity p | None \<Rightarrow> j0)"

text \<open>\<open>floor(cash * sizing / (price * (1 + commission)))\<close>, zero for a non-positive price.\<close>

definition budget_qty :: "jsnum \<Rightarrow> jsnum \<Rightarrow> jsnum \<Rightarrow> jsnum \<Rightarrow> jsnum" where
  "budget_qty cash sizingPct fillPrice commissionPct =
     (let budget = jmul cash sizingPct; costPerShare = jmul fillPrice (jadd j1 commissionPct)
      in if jgt costPerShare j0 then jfloor (jdiv budget costPerShare) else j0)"

definition executeLong ::
  "string \<Rightarrow> jsnum \<Rightarrow> account \<Rightarrow> jsnum \<Rightarrow> jsnum \<Rightarrow> jsnum \<Rightarrow> jsnum \<Rightarrow> jsnum \<Rightarrow> fill_result" where
  "executeLong symb fillPrice a baseHwm sizingPct maxPositionPct baseEquity commissionPct =
     (if jlt (position_qty symb a) j0 then no_fill baseHwm a
      else
        (let quantity = clampToPositionCeiling (budget_qty (ac_cash a) sizingPct fillPrice commissionPct)
                          baseEquity fillPrice maxPositionPct
         in if jle quantity j0 then no_fill baseHwm a
            else
              (let notional = jmul fillPrice quantity;
                   commission = jmul notional commissionPct;
                   basis = jdiv (jadd notional commission) quantity;
                   paid = a\<lparr>ac_cash := jsub (ac_cash a) (jadd notional commission)\<rparr>;
                   held = merge_position symb (grow_long basis quantity)
                            \<lparr>gp_symbol = symb, gp_quantity = quantity, gp_avg_price = basis\<rparr> paid
               in \<lparr>fr_quantity = quantity, fr_realized_pnl = None,
                   fr_state = revalue baseHwm fillPrice symb held, fr_no_position = False\<rparr>)))"

definition executeShort ::
  "string \<Rightarrow> jsnum \<Rightarrow> account \<Rightarrow> jsnum \<Rightarrow> jsnum \<Rightarrow> jsnum \<Rightarrow> jsnum \<Rightarrow> jsnum \<Rightarrow> jsnum \<Rightarrow> fill_result" where
  "executeShort symb fillPrice a baseHwm sizingPct maxPositionPct maxShortNotionalPct baseEquity
       commissionPct =
     (if jgt (position_qty symb a) j0 then no_fill baseHwm a
      else
        (let sized = clampToPositionCeiling (budget_qty (ac_cash a) sizingPct fillPrice commissionPct)
                       baseEquity fillPrice maxPositionPct;
             quantity = clampToShortNotionalCeiling sized baseEquity fillPrice maxShortNotionalPct
         in if jle quantity j0 then no_fill baseHwm a
            else
              (let notional = jmul fillPrice quantity;
                   commission = jmul notional commissionPct;
                   netProceeds = jsub notional commission;
                   basis = jdiv netProceeds quantity;
                   paid = a\<lparr>ac_cash := jadd (ac_cash a) netProceeds\<rparr>;
                   held = merge_position symb (grow_short basis quantity)
                            \<lparr>gp_symbol = symb, gp_quantity = jneg quantity, gp_avg_price = basis\<rparr> paid
               in \<lparr>fr_quantity = quantity, fr_realized_pnl = None,
                   fr_state = revalue baseHwm fillPrice symb held, fr_no_position = False\<rparr>)))"

definition executeExit :: "string \<Rightarrow> jsnum \<Rightarrow> account \<Rightarrow> jsnum \<Rightarrow> jsnum \<Rightarrow> fill_result" where
  "executeExit symb fillPrice a baseHwm commissionPct =
     (case position_of symb a of
        None \<Rightarrow> (no_fill baseHwm a)\<lparr>fr_no_position := True\<rparr>
      | Some pos \<Rightarrow>
          (let quantity = gp_quantity pos;
               proceeds = jmul fillPrice quantity;
               commission = jmul (jabs proceeds) commissionPct;
               pnl = jsub (jmul (jsub fillPrice (gp_avg_price pos)) quantity) commission;
               closed = a\<lparr>ac_cash := jadd (ac_cash a) (jsub proceeds commission),
                          ac_positions := del_first (\<lambda>p. gp_symbol p = symb) (ac_positions a)\<rparr>
           in \<lparr>fr_quantity = quantity, fr_realized_pnl = Some pnl,
               fr_state = revalue baseHwm fillPrice symb closed, fr_no_position = False\<rparr>))"

definition executeFill ::
  "string \<Rightarrow> string \<Rightarrow> jsnum \<Rightarrow> account \<Rightarrow> jsnum \<Rightarrow> jsnum \<Rightarrow> jsnum \<Rightarrow> jsnum \<Rightarrow> fill_result" where
  "executeFill action symb fillPrice a sizingPct maxPositionPct maxShortNotionalPct commissionPct =
     (if action = ''long'' then
        executeLong symb fillPrice a (base_hwm a) sizingPct maxPositionPct (ac_equity a) commissionPct
      else if action = ''short'' then
        executeShort symb fillPrice a (base_hwm a) sizingPct maxPositionPct maxShortNotionalPct
          (ac_equity a) commissionPct
      else if action = ''exit'' then executeExit symb fillPrice a (base_hwm a) commissionPct
      else no_fill (base_hwm a) a)"

section \<open>Evaluate and execute\<close>

definition refuse :: "msg \<Rightarrow> account \<Rightarrow> bool \<Rightarrow> exec_result" where
  "refuse reason a changed =
     \<lparr>xr_pass = False, xr_reason = Some reason, xr_quantity = j0, xr_realized_pnl = None,
      xr_state = a, xr_baseline_changed = changed\<rparr>"

definition or_zero :: "jsnum option \<Rightarrow> jsnum" where
  "or_zero x = (case x of Some v \<Rightarrow> v | None \<Rightarrow> j0)"

text \<open>Buy-side executions fill higher, sell-side executions lower.\<close>

definition slipped_price :: "string \<Rightarrow> string \<Rightarrow> account \<Rightarrow> jsnum \<Rightarrow> jsnum \<Rightarrow> jsnum" where
  "slipped_price action symb a px slip =
     (if action = ''long'' \<or> (action = ''exit'' \<and> jlt (position_qty symb a) j0)
      then jmul px (jadd j1 slip) else jmul px (jsub j1 slip))"

text \<open>The quote of a fill: reading \<open>last\<close> of an absent quote throws.\<close>

definition quote_last :: "string \<Rightarrow> jsnum app" where
  "quote_last symb =
     await (get_quote symb) (\<lambda>q. case q of None \<Rightarrow> throw (Exn ''TypeError'') | Some px \<Rightarrow> ret px)"

definition fill_at_quote ::
  "string \<Rightarrow> string \<Rightarrow> account \<Rightarrow> bool \<Rightarrow> fill_policy \<Rightarrow> exec_result app" where
  "fill_at_quote action symb a changed fp =
     await (attempt (await (quote_last symb) (\<lambda>px. ret (Inr px))) (\<lambda>e. ret (Inl e))) (\<lambda>q.
       case q of
         Inl e \<Rightarrow> ret (refuse (NoteQuoteUnavailable e) a changed)
       | Inr px \<Rightarrow>
           if \<not> is_finite px \<or> jle px j0 then ret (refuse (NoteInvalidFillPrice px) a changed)
           else
             (let price = slipped_price action symb a px (or_zero (fp_slippage_pct fp));
                  fr = executeFill action symb price a (fp_sizing_pct fp) (fp_max_position_pct fp)
                         (fp_max_short_notional_pct fp) (or_zero (fp_commission_pct fp))
              in ret \<lparr>xr_pass = True, xr_reason = None, xr_quantity = fr_quantity fr,
                      xr_realized_pnl = fr_realized_pnl fr, xr_state = fr_state fr,
                      xr_baseline_changed = changed\<rparr>))"

definition evaluateAndExecuteEntry ::
  "string \<Rightarrow> string \<Rightarrow> account \<Rightarrow> risk_policy \<Rightarrow> fill_policy \<Rightarrow> exec_result app" where
  "evaluateAndExecuteEntry action symb a rp fp =
     (if action = ''hold'' then
        ret \<lparr>xr_pass = True, xr_reason = None, xr_quantity = j0, xr_realized_pnl = None,
             xr_state = bump_hwm (base_hwm a) a, xr_baseline_changed = False\<rparr>
      else if action = ''long'' \<or> action = ''short'' then
        await (evaluateEntryGate a rp) (\<lambda>gate.
          if \<not> gr_pass gate then
            ret \<lparr>xr_pass = False, xr_reason = gr_reason gate, xr_quantity = j0,
                 xr_realized_pnl = None, xr_state = gr_state gate,
                 xr_baseline_changed = gr_baseline_changed gate\<rparr>
          else fill_at_quote action symb (gr_state gate) (gr_baseline_changed gate) fp)
      else fill_at_quote action symb a False fp)"

section \<open>Partial rebalance\<close>

definition rebalance_buy ::
  "string \<Rightarrow> jsnum \<Rightarrow> jsnum \<Rightarrow> account \<Rightarrow> jsnum \<Rightarrow> account \<times> jsnum option" where
  "rebalance_buy symb quantity price a commissionPct =
     (let notional = jmul price quantity;
          commission = jmul notional commissionPct;
          totalCost = jadd notional commission
      in if jgt totalCost (ac_cash a) then (a, None)
         else
           (let basis = jdiv totalCost quantity;
                held = merge_position symb (grow_long basis quantity)
                         \<lparr>gp_symbol = symb, gp_quantity = quantity, gp_avg_price = basis\<rparr>
                         (a\<lparr>ac_cash := jsub (ac_cash a) totalCost\<rparr>)
            in (revalue (base_hwm a) price symb held, None)))"

definition rebalance_sell ::
  "string \<Rightarrow> jsnum \<Rightarrow> jsnum \<Rightarrow> account \<Rightarrow> jsnum \<Rightarrow> account \<times> jsnum option" where
  "rebalance_sell symb quantity price a commissionPct =
     (case position_of symb a of
        None \<Rightarrow> (a, None)
      | Some pos \<Rightarrow>
          if jle (gp_quantity pos) j0 then (a, None)
          else
            (let qty = jmin quantity (gp_quantity pos);
                 proceeds = jmul price qty;
                 commission = jmul proceeds commissionPct;
                 pnl = jsub (jmul (jsub price (gp_avg_price pos)) qty) commission;
                 rest = jsub (gp_quantity pos) qty;
                 ps = (if jle rest j0 then del_first (\<lambda>p. gp_symbol p = symb) (ac_positions a)
                       else upd_first (\<lambda>p. gp_symbol p = symb) (\<lambda>p. p\<lparr>gp_quantity := rest\<rparr>)
                              (ac_positions a))
             in (revalue (base_hwm a) price symb
                   (a\<lparr>ac_cash := jadd (ac_cash a) (jsub proceeds commission), ac_positions := ps\<rparr>),
                 Some pnl)))"

definition applyRebalanceTrade ::
  "string \<Rightarrow> string \<Rightarrow> jsnum \<Rightarrow> jsnum \<Rightarrow> account \<Rightarrow> jsnum \<Rightarrow> account \<times> jsnum option" where
  "applyRebalanceTrade direction symb quantity price a commissionPct =
     (if jle quantity j0 \<or> jle price j0 then (a, None)
      else if direction = ''buy'' then rebalance_buy symb quantity price a commissionPct
      else rebalance_sell symb quantity price a commissionPct)"

end
