(* ===== verification/BrokerStatus.thy ===== *)
theory BrokerStatus
  imports WorldState
begin

text \<open>
  \<open>common/broker-status.util.ts\<close>: the one mapping from a broker's raw order status to the
  platform's vocabulary, and its split into open (polled again) and terminal statuses.
\<close>

section \<open>The vocabulary\<close>

definition OPEN_STATUSES :: "string list" where
  "OPEN_STATUSES = [''accepted'', ''partially_filled'']"

definition TERMINAL_STATUSES :: "string list" where
  "TERMINAL_STATUSES = [''filled'', ''canceled'', ''rejected'', ''expired'']"

definition normalizeBrokerStatus :: "string \<Rightarrow> string" where
  "normalizeBrokerStatus raw =
     (if raw \<in> {''new'', ''pending_new'', ''accepted'', ''accepted_for_bidding'',
                ''pending_replace'', ''replaced'', ''held'', ''suspended''} then ''accepted''
      else if raw = ''partially_filled'' then ''partially_filled''
      else if raw = ''filled'' then ''filled''
      else if raw \<in> {''canceled'', ''pending_cancel''} then ''canceled''
      else if raw = ''rejected'' then ''rejected''
      else if raw \<in> {''expired'', ''done_for_day''} then ''expired''
      else ''accepted'')"

definition isTerminalStatus :: "string \<Rightarrow> bool" where
  "isTerminalStatus status \<longleftrightarrow> List.member TERMINAL_STATUSES status"

section \<open>The interface the order services rely on\<close>

text \<open>
  What \<open>RealOrderService\<close> and the reconciliation loop need from the mapping: every raw status
  lands in the open or the terminal list, the lists do not overlap, and a canonical status is
  mapped to itself, so that reading a row's own status back never moves it.
\<close>

locale status_vocabulary =
  fixes norm :: "string \<Rightarrow> string" and open_list :: "string list" and terminal_list :: "string list"
  assumes norm_total: "norm raw \<in> set open_list \<union> set terminal_list"
    and disjoint: "set open_list \<inter> set terminal_list = {}"
    and norm_canonical: "s \<in> set open_list \<union> set terminal_list \<Longrightarrow> norm s = s"
begin

lemma open_iff_not_terminal: "norm raw \<in> set open_list \<longleftrightarrow> norm raw \<notin> set terminal_list"
  using norm_total disjoint by blast

lemma norm_idem: "norm (norm raw) = norm raw"
  using norm_total by (rule norm_canonical)

text \<open>Replacing a terminal status by an open one always yields an open status.\<close>

lemma downgrade_open:
  "s \<in> set open_list \<Longrightarrow> (if norm raw \<in> set terminal_list then s else norm raw) \<in> set open_list"
  using open_iff_not_terminal by auto

end

lemma normalize_range:
  "normalizeBrokerStatus raw \<in> set OPEN_STATUSES \<union> set TERMINAL_STATUSES"
  by (simp add: normalizeBrokerStatus_def OPEN_STATUSES_def TERMINAL_STATUSES_def)

lemma normalize_canonical:
  "list_all (\<lambda>s. normalizeBrokerStatus s = s) (OPEN_STATUSES @ TERMINAL_STATUSES)"
  by (simp add: normalizeBrokerStatus_def OPEN_STATUSES_def TERMINAL_STATUSES_def)

interpretation broker_vocab:
  status_vocabulary normalizeBrokerStatus OPEN_STATUSES TERMINAL_STATUSES
proof
  show "normalizeBrokerStatus raw \<in> set OPEN_STATUSES \<union> set TERMINAL_STATUSES" for raw
    by (rule normalize_range)
  show "set OPEN_STATUSES \<inter> set TERMINAL_STATUSES = {}"
    by (simp add: OPEN_STATUSES_def TERMINAL_STATUSES_def)
  show "normalizeBrokerStatus s = s" if "s \<in> set OPEN_STATUSES \<union> set TERMINAL_STATUSES" for s
    using that normalize_canonical unfolding list_all_iff set_append by blast
qed

lemma isTerminalStatus_iff: "isTerminalStatus s \<longleftrightarrow> s \<in> set TERMINAL_STATUSES"
  by (simp add: isTerminalStatus_def)

end
