(* ===== verification/WorldFacts.thy ===== *)
theory WorldFacts
  imports WorldState
begin

text \<open>
  How the primitive effects move the world, as the interface \<open>world_evolution\<close>: a relation
  that time passing and a rollback respect. Each rule for a writing primitive asks only for
  the update of the table it writes, so a component proof supplies the tables its relation
  watches and nothing else.
\<close>

section \<open>Field updates and the primitive state changes\<close>

lemma tock_simps [simp]:
  "w_env (tock w) = w_env w" "w_config (tock w) = w_config w" "w_breaker (tock w) = w_breaker w"
  "w_intents (tock w) = w_intents w" "w_orders (tock w) = w_orders w"
  "w_positions (tock w) = w_positions w" "w_navs (tock w) = w_navs w"
  "w_portfolios (tock w) = w_portfolios w" "w_strategies (tock w) = w_strategies w"
  "w_alerts (tock w) = w_alerts w" "w_audit (tock w) = w_audit w" "w_trace (tock w) = w_trace w"
  "w_fail_times (tock w) = w_fail_times w" "w_absent (tock w) = w_absent w"
  "w_tick_running (tock w) = w_tick_running w" "w_last_sync (tock w) = w_last_sync w"
  "w_calls (tock w) = Suc (w_calls w)"
  by (simp_all add: tock_def)

lemma note_event_simps [simp]:
  "w_env (note_event e w) = w_env w" "w_config (note_event e w) = w_config w"
  "w_breaker (note_event e w) = w_breaker w" "w_intents (note_event e w) = w_intents w"
  "w_orders (note_event e w) = w_orders w" "w_positions (note_event e w) = w_positions w"
  "w_navs (note_event e w) = w_navs w" "w_portfolios (note_event e w) = w_portfolios w"
  "w_strategies (note_event e w) = w_strategies w" "w_alerts (note_event e w) = w_alerts w"
  "w_audit (note_event e w) = w_audit w" "w_trace (note_event e w) = w_trace w @ [e]"
  "w_fail_times (note_event e w) = w_fail_times w" "w_absent (note_event e w) = w_absent w"
  "w_tick_running (note_event e w) = w_tick_running w" "w_last_sync (note_event e w) = w_last_sync w"
  "w_calls (note_event e w) = Suc (w_calls w)"
  by (simp_all add: note_event_def)

lemma rollback_simps [simp]:
  "w_env (rollback w v) = w_env v" "w_config (rollback w v) = w_config w"
  "w_breaker (rollback w v) = w_breaker w" "w_intents (rollback w v) = w_intents w"
  "w_orders (rollback w v) = w_orders w" "w_positions (rollback w v) = w_positions w"
  "w_navs (rollback w v) = w_navs w" "w_portfolios (rollback w v) = w_portfolios w"
  "w_strategies (rollback w v) = w_strategies w" "w_alerts (rollback w v) = w_alerts w"
  "w_audit (rollback w v) = w_audit w" "w_trace (rollback w v) = w_trace v"
  "w_fail_times (rollback w v) = w_fail_times v" "w_absent (rollback w v) = w_absent v"
  "w_tick_running (rollback w v) = w_tick_running v" "w_last_sync (rollback w v) = w_last_sync v"
  "w_calls (rollback w v) = w_calls v"
  by (simp_all add: rollback_def)

lemmas broker_call_defs =
  get_quote_def get_portfolio_def get_order_by_client_def get_order_status_def place_order_def
  cancel_order_def

section \<open>Relations that survive time and rollback\<close>

locale timed_evolution = evolution R for R :: "world \<Rightarrow> world \<Rightarrow> bool" +
  assumes tock: "R w (tock w)"
begin

lemma ev_now: "evolves R now"
  by (simp add: evolves_def now_def tock)

lemma ev_uuid: "evolves R fresh_uuid"
  by (simp add: evolves_def fresh_uuid_def tock)

lemma ev_db_read: "evolves R (db_read f)"
  by (simp add: evolves_def db_read_def tock split: option.splits)

lemma ev_db_write:
  "(\<And>w x w'. f w = Inr (x, w') \<Longrightarrow> R w w') \<Longrightarrow> evolves R (db_write f)"
  unfolding evolves_def db_write_def
  by (auto split: option.splits sum.splits intro: tock dest: trans [OF _ tock])

lemma ev_reads:
  "evolves R (kv_get k)" "evolves R (order_find p)" "evolves R (order_find_latest p)"
  "evolves R (order_find_many p)" "evolves R (intent_find q)" "evolves R alerts_active"
  "evolves R (portfolio_find n)"
  by (simp_all add: kv_get_def order_find_def order_find_latest_def order_find_many_def
      intent_find_def alerts_active_def portfolio_find_def ev_db_read)

lemma ev_kv_get_soft: "evolves R (kv_get_soft k)"
  unfolding kv_get_soft_def by (intro ev_attempt ev_reads ev_ret)

lemma ev_broker:
  assumes "\<And>w e. R w (note_event e w)"
  shows "evolves R (get_quote s)" "evolves R (get_portfolio b)" "evolves R (get_order_by_client b c)"
    "evolves R (get_order_status b i)" "evolves R (place_order b q)" "evolves R (cancel_order b i)"
  using assms by (simp_all add: evolves_def broker_call_defs)

text \<open>Broker calls other than a placement, for relations that watch placements only.\<close>

lemma ev_broker_queries:
  assumes "\<And>w e. (\<And>b q. e \<noteq> EvPlace b q) \<Longrightarrow> R w (note_event e w)"
  shows "evolves R (get_quote s)" "evolves R (get_portfolio b)" "evolves R (get_order_by_client b c)"
    "evolves R (get_order_status b i)" "evolves R (cancel_order b i)"
  using assms by (simp_all add: evolves_def broker_call_defs)

lemma ev_kv_set: "(\<And>w c. R w (w\<lparr>w_config := c\<rparr>)) \<Longrightarrow> evolves R (kv_set k v)"
  unfolding kv_set_def by (rule ev_db_write) auto

lemma ev_kv_delete: "(\<And>w c. R w (w\<lparr>w_config := c\<rparr>)) \<Longrightarrow> evolves R (kv_delete k)"
  unfolding kv_delete_def by (intro ev_attempt ev_db_write ev_ret) auto

lemma put_ordersD: "put_orders t x w = Inr (y, w') \<Longrightarrow> orders_ok t \<and> y = x \<and> w' = w\<lparr>w_orders := t\<rparr>"
  by (simp add: put_orders_def split: if_splits)

lemma ev_order_writes:
  assumes "\<And>w t. orders_ok t \<Longrightarrow> R w (w\<lparr>w_orders := t\<rparr>)"
  shows "evolves R (order_create r)" "evolves R (order_update i f)" "evolves R (order_update_many p f)"
proof -
  show "evolves R (order_create r)"
    unfolding order_create_def
    by (rule ev_db_write) (auto dest!: put_ordersD intro: assms split: if_splits)
  show "evolves R (order_update i f)"
    unfolding order_update_def
    by (rule ev_db_write) (auto dest!: put_ordersD intro: assms split: option.splits)
  show "evolves R (order_update_many p f)"
    unfolding order_update_many_def
    by (rule ev_db_write) (auto dest!: put_ordersD intro: assms)
qed

lemma ev_intent_writes:
  assumes "\<And>w t. R w (w\<lparr>w_intents := t\<rparr>)"
  shows "evolves R (intent_create r)" "evolves R (intent_update i f)"
  unfolding intent_create_def intent_update_def
  by (rule ev_db_write, auto intro: assms split: if_splits option.splits)+

lemma ev_log_writes:
  assumes "\<And>w t. R w (w\<lparr>w_alerts := t\<rparr>)" "\<And>w t. R w (w\<lparr>w_audit := t\<rparr>)"
  shows "evolves R (alerts_create a)" "evolves R (audit_log e)"
  unfolding alerts_create_def audit_log_def
  by (rule ev_db_write, auto intro: assms)+

lemma ev_portfolio_upsert: "(\<And>w t. R w (w\<lparr>w_portfolios := t\<rparr>)) \<Longrightarrow> evolves R (portfolio_upsert n a)"
  unfolding portfolio_upsert_def by (rule ev_db_write) auto

lemmas ev_pure = ev_rules ev_now ev_uuid ev_reads ev_kv_get_soft ev_db_read evolves_splits

end

text \<open>Relations that a transaction's rollback of the tables respects as well.\<close>

locale world_evolution = timed_evolution R for R :: "world \<Rightarrow> world \<Rightarrow> bool" +
  assumes undo: "R u v \<Longrightarrow> R u (rollback u v)"
begin

lemma ev_transaction:
  assumes "evolves R m"
  shows "evolves R (transaction m)"
  unfolding evolves_def
proof
  fix w
  have m: "R w (snd (m w))" using assms by (simp add: evolves_def)
  show "R w (snd (transaction m w))"
  proof (cases "m w")
    case (Pair r w')
    with m have "R w w'" "R w (rollback w w')" by (auto intro: undo)
    with Pair show ?thesis
      by (cases r) (auto simp: transaction_def split: option.splits intro: trans tock)
  qed
qed

end

section \<open>The environment never changes\<close>

interpretation same_env: world_evolution "\<lambda>w w'. w_env w' = w_env w"
  by unfold_locales auto

lemmas same_env_rules =
  same_env.ev_pure same_env.ev_broker [simplified] same_env.ev_kv_set [simplified]
  same_env.ev_kv_delete [simplified] same_env.ev_order_writes [simplified]
  same_env.ev_intent_writes [simplified] same_env.ev_log_writes [simplified]
  same_env.ev_portfolio_upsert [simplified]

section \<open>Order placements\<close>

text \<open>The orders sent to a broker, in order.\<close>

fun placement :: "broker_event \<Rightarrow> (string \<times> order_request) option" where
  "placement (EvPlace b q) = Some (b, q)"
| "placement _ = None"

definition placements :: "world \<Rightarrow> (string \<times> order_request) list" where
  "placements w = List.map_filter placement (w_trace w)"

lemma placement_None: "(\<And>b q. e \<noteq> EvPlace b q) \<Longrightarrow> placement e = None"
  by (cases e) auto

lemma placements_simps [simp]:
  "placements (tock w) = placements w" "placements (rollback u w) = placements w"
  "placements (note_event e w) =
     placements w @ (case placement e of None \<Rightarrow> [] | Some x \<Rightarrow> [x])"
  by (auto simp: placements_def List.map_filter_def split: option.splits)

text \<open>The evolution "no order was sent".\<close>

definition no_new_placement :: "world \<Rightarrow> world \<Rightarrow> bool" where
  "no_new_placement w w' \<longleftrightarrow> placements w' = placements w"

interpretation no_placement: world_evolution no_new_placement
  by unfold_locales (auto simp: no_new_placement_def)

lemma no_new_placement_frame [simp]:
  "no_new_placement w (w\<lparr>w_config := c\<rparr>)" "no_new_placement w (w\<lparr>w_orders := t\<rparr>)"
  "no_new_placement w (w\<lparr>w_intents := i\<rparr>)" "no_new_placement w (w\<lparr>w_alerts := al\<rparr>)"
  "no_new_placement w (w\<lparr>w_audit := au\<rparr>)" "no_new_placement w (w\<lparr>w_portfolios := p\<rparr>)"
  "no_new_placement w (w\<lparr>w_breaker := b\<rparr>)" "no_new_placement w (w\<lparr>w_positions := ps\<rparr>)"
  "no_new_placement w (w\<lparr>w_navs := ns\<rparr>)" "no_new_placement w (w\<lparr>w_fail_times := ft\<rparr>)"
  "no_new_placement w (w\<lparr>w_absent := ab\<rparr>)" "no_new_placement w (w\<lparr>w_tick_running := tr\<rparr>)"
  "no_new_placement w (w\<lparr>w_last_sync := ls\<rparr>)"
  by (simp_all add: no_new_placement_def placements_def)

lemma no_new_placement_event: "(\<And>b q. e \<noteq> EvPlace b q) \<Longrightarrow> no_new_placement w (note_event e w)"
  by (simp add: no_new_placement_def placement_None)

lemmas no_placement_rules =
  no_placement.ev_pure no_placement.ev_broker_queries [OF no_new_placement_event, simplified]
  no_placement.ev_kv_set [simplified] no_placement.ev_kv_delete [simplified]
  no_placement.ev_order_writes [simplified] no_placement.ev_intent_writes [simplified]
  no_placement.ev_log_writes [simplified] no_placement.ev_portfolio_upsert [simplified]

end
