(* ===== verification/HaltSwitch.thy ===== *)
theory HaltSwitch
  imports WorldFacts
begin

text \<open>
  \<open>common/real-execution-halt.util.ts\<close>: the platform's kill switch for new real-money
  entries, two keys of the key-value table. \<open>haltRealExecution\<close> is called from the order
  service and from the reconciliation loop; the operator's \<open>clearRealExecutionHalt\<close>
  clears it, and the services that write arbitrary keys can (\<open>StrategyStore\<close>).
\<close>

section \<open>The switch\<close>

definition REAL_EXECUTION_HALTED_KEY :: string where
  "REAL_EXECUTION_HALTED_KEY = ''real_execution.halted''"

definition REAL_EXECUTION_HALT_REASON_KEY :: string where
  "REAL_EXECUTION_HALT_REASON_KEY = ''real_execution.halt_reason''"

record halt_status =
  hs_halted :: bool
  hs_reason :: "string option"

definition isRealExecutionHalted :: "bool app" where
  "isRealExecutionHalted =
     await (kv_get REAL_EXECUTION_HALTED_KEY) (\<lambda>raw. ret (kvBool raw False))"

definition haltRealExecution :: "string \<Rightarrow> unit app" where
  "haltRealExecution reason =
     await (kv_set REAL_EXECUTION_HALTED_KEY ''true'') (\<lambda>_.
     kv_set REAL_EXECUTION_HALT_REASON_KEY reason)"

definition clearRealExecutionHalt :: "unit app" where
  "clearRealExecutionHalt =
     await (kv_set REAL_EXECUTION_HALTED_KEY ''false'') (\<lambda>_.
     kv_delete REAL_EXECUTION_HALT_REASON_KEY)"

definition getRealExecutionHaltStatus :: "halt_status app" where
  "getRealExecutionHaltStatus =
     await (kv_get REAL_EXECUTION_HALTED_KEY) (\<lambda>rawHalted.
     await (kv_get REAL_EXECUTION_HALT_REASON_KEY) (\<lambda>rawReason.
     let halted = kvBool rawHalted False
     in ret \<lparr>hs_halted = halted, hs_reason = (if halted then rawReason else None)\<rparr>))"

section \<open>The state of the switch\<close>

text \<open>What \<open>isRealExecutionHalted\<close> would answer on the stored keys.\<close>

definition switch_on :: "(string \<Rightarrow> string option) \<Rightarrow> bool" where
  "switch_on c \<longleftrightarrow> kvBool (c REAL_EXECUTION_HALTED_KEY) False"

definition halted :: "world \<Rightarrow> bool" where
  "halted w \<longleftrightarrow> switch_on (w_config w)"

lemma kvBool_literals [simp]: "kvBool (Some ''true'') d = True" "kvBool (Some ''false'') d = False"
  by (simp_all add: kvBool_def unwrapKv_def json_string_def json_ws_def)

lemma halt_keys_distinct [simp]: "REAL_EXECUTION_HALT_REASON_KEY \<noteq> REAL_EXECUTION_HALTED_KEY"
  "REAL_EXECUTION_HALTED_KEY \<noteq> REAL_EXECUTION_HALT_REASON_KEY"
  by (simp_all add: REAL_EXECUTION_HALTED_KEY_def REAL_EXECUTION_HALT_REASON_KEY_def)

lemma halted_frame [simp]:
  "halted (tock w) = halted w" "halted (note_event e w) = halted w"
  "halted (w\<lparr>w_orders := t\<rparr>) = halted w" "halted (w\<lparr>w_intents := i\<rparr>) = halted w"
  "halted (w\<lparr>w_alerts := al\<rparr>) = halted w" "halted (w\<lparr>w_audit := au\<rparr>) = halted w"
  "halted (w\<lparr>w_portfolios := p\<rparr>) = halted w" "halted (w\<lparr>w_breaker := b\<rparr>) = halted w"
  "halted (w\<lparr>w_positions := ps\<rparr>) = halted w" "halted (w\<lparr>w_navs := ns\<rparr>) = halted w"
  "halted (w\<lparr>w_fail_times := ft\<rparr>) = halted w" "halted (w\<lparr>w_absent := ab\<rparr>) = halted w"
  "halted (w\<lparr>w_tick_running := tr\<rparr>) = halted w" "halted (w\<lparr>w_last_sync := ls\<rparr>) = halted w"
  by (simp_all add: halted_def)

section \<open>A switch that stays on\<close>

text \<open>
  The contract of a latch on the key-value table, independent of its encoding: writes to keys
  other than its own leave it alone, and setting the key to the trip value turns it on. Every
  program built from such writes leaves the latch on once it is on.
\<close>

locale latch =
  fixes on :: "(string \<Rightarrow> string option) \<Rightarrow> bool" and key :: string and trip :: string
  assumes others: "k \<noteq> key \<Longrightarrow> on (c(k := v)) = on c"
    and trips: "on (c(key := Some trip))"
begin

lemma stays_on: "on c \<Longrightarrow> k \<noteq> key \<or> v = Some trip \<Longrightarrow> on (c(k := v))"
  using others trips by (cases "k = key") auto

lemma evolves_set:
  "k \<noteq> key \<or> v = trip \<Longrightarrow> evolves (\<lambda>w w'. on (w_config w) \<longrightarrow> on (w_config w')) (kv_set k v)"
  unfolding evolves_def kv_set_def db_write_def
  by (auto split: option.splits intro: stays_on)

lemma evolves_delete:
  "k \<noteq> key \<Longrightarrow> evolves (\<lambda>w w'. on (w_config w) \<longrightarrow> on (w_config w')) (kv_delete k)"
  unfolding evolves_def kv_delete_def attempt_run db_write_def
  by (auto split: option.splits sum.splits intro: stays_on simp: ret_def)

end

interpretation halt_latch: latch switch_on REAL_EXECUTION_HALTED_KEY "''true''"
  by unfold_locales (auto simp: switch_on_def)

text \<open>The evolution "a tripped switch stays tripped".\<close>

definition stays_halted :: "world \<Rightarrow> world \<Rightarrow> bool" where
  "stays_halted w w' \<longleftrightarrow> (halted w \<longrightarrow> halted w')"

interpretation halting: evolution stays_halted
  by unfold_locales (auto simp: stays_halted_def)

lemma stays_halted_simps [simp]:
  "stays_halted w (tock w)" "stays_halted w (note_event e w)"
  "stays_halted w (w\<lparr>w_orders := t\<rparr>)" "stays_halted w (w\<lparr>w_intents := i\<rparr>)"
  "stays_halted w (w\<lparr>w_alerts := al\<rparr>)" "stays_halted w (w\<lparr>w_audit := au\<rparr>)"
  "stays_halted w (w\<lparr>w_portfolios := p\<rparr>)" "stays_halted w (w\<lparr>w_breaker := b\<rparr>)"
  "stays_halted w (w\<lparr>w_positions := ps\<rparr>)" "stays_halted w (w\<lparr>w_navs := ns\<rparr>)"
  "stays_halted w (w\<lparr>w_fail_times := ft\<rparr>)" "stays_halted w (w\<lparr>w_absent := ab\<rparr>)"
  "stays_halted w (w\<lparr>w_tick_running := tr\<rparr>)" "stays_halted w (w\<lparr>w_last_sync := ls\<rparr>)"
  by (simp_all add: stays_halted_def)

text \<open>A rolled-back transaction restores the keys of the state it started from.\<close>

interpretation halting: world_evolution stays_halted
proof
  show "stays_halted w (tock w)" for w by simp
  show "stays_halted u (rollback u v)" for u v by (simp add: stays_halted_def halted_def)
qed

lemma halting_set: "k \<noteq> REAL_EXECUTION_HALTED_KEY \<or> v = ''true'' \<Longrightarrow> evolves stays_halted (kv_set k v)"
  using halt_latch.evolves_set [of k v]
  by (simp add: evolves_def stays_halted_def halted_def)

lemma halting_delete: "k \<noteq> REAL_EXECUTION_HALTED_KEY \<Longrightarrow> evolves stays_halted (kv_delete k)"
  using halt_latch.evolves_delete [of k] by (simp add: evolves_def stays_halted_def halted_def)

lemma halting_halt: "evolves stays_halted (haltRealExecution reason)"
  unfolding haltRealExecution_def by (intro halting.ev_await halting_set) auto

lemmas halting_rules =
  halting.ev_pure halting.ev_broker [OF stays_halted_simps(2)] halting_halt
  halting.ev_order_writes [OF stays_halted_simps(3)]
  halting.ev_intent_writes [OF stays_halted_simps(4)]
  halting.ev_log_writes [OF stays_halted_simps(5) stays_halted_simps(6)]
  halting.ev_portfolio_upsert [OF stays_halted_simps(7)]

text \<open>The halt writes only configuration keys.\<close>

lemma same_env_halt: "evolves (\<lambda>w w'. w_env w' = w_env w) (haltRealExecution reason)"
  unfolding haltRealExecution_def by (intro same_env_rules)

lemma no_placement_halt: "evolves no_new_placement (haltRealExecution reason)"
  unfolding haltRealExecution_def by (intro no_placement_rules)

text \<open>
  After a call that returns, the switch is on and answers so; the reason is the latest one.
\<close>

lemma haltRealExecution_trips:
  "fst (haltRealExecution reason w) = Inr () \<Longrightarrow>
   halted (snd (haltRealExecution reason w)) \<and>
   w_config (snd (haltRealExecution reason w)) REAL_EXECUTION_HALT_REASON_KEY = Some reason"
  by (simp add: haltRealExecution_def kv_set_def await_run db_write_def halted_def switch_on_def
      split: option.splits)

end
