(* ===== verification/RealOrder.thy ===== *)
theory RealOrder
  imports BrokerStatus HaltSwitch
begin

text \<open>
  \<open>real-order/real-order.service.ts\<close>: the life of a real-money order before reconciliation.
  A row is committed as \<open>pending_submit\<close> before the broker hears of the order; after a crash
  or a failed submission \<open>recoverInflight\<close> asks the broker what it knows and never sends the
  order again. The in-memory fields \<open>submitFailureTimestamps\<close> and \<open>confirmedAbsentCounts\<close> are
  \<open>w_fail_times\<close> and \<open>w_absent\<close> of the world.
\<close>

section \<open>Constants\<close>

definition RECOVERABLE_STATUSES :: "string list" where
  "RECOVERABLE_STATUSES = [''pending_submit'', ''submit_failed'']"

definition ORDER_TERMINAL_STATUSES :: "string list" where
  "ORDER_TERMINAL_STATUSES =
     [''filled'', ''canceled'', ''rejected'', ''expired'', ''submit_failed'', ''confirmed_absent'']"

definition SUBMIT_FAILURE_THRESHOLD :: nat where
  "SUBMIT_FAILURE_THRESHOLD = 3"

definition SUBMIT_FAILURE_WINDOW_MS :: int where
  "SUBMIT_FAILURE_WINDOW_MS = 5 * 60000"

definition CONFIRMED_ABSENT_ESCALATION_THRESHOLD :: nat where
  "CONFIRMED_ABSENT_ESCALATION_THRESHOLD = 3"

record submit_args =
  sa_intent :: string
  sa_broker :: string
  sa_symbol :: string
  sa_side :: string
  sa_qty :: jsnum
  sa_order_type :: "string option"
  sa_limit_price :: "jsnum option"

section \<open>Submission\<close>

definition generateClientOrderId :: "string \<Rightarrow> string app" where
  "generateClientOrderId tradeIntentId =
     await fresh_uuid (\<lambda>u. ret (''nt-'' @ take 8 tradeIntentId @ ''-'' @ take 8 u))"

definition live_order :: "real_order \<Rightarrow> bool" where
  "live_order r \<longleftrightarrow> \<not> List.member ORDER_TERMINAL_STATUSES (ro_status r)"

definition findActiveOrderForIntent :: "string \<Rightarrow> real_order option app" where
  "findActiveOrderForIntent tradeIntentId =
     order_find (\<lambda>r. ro_trade_intent_id r = tradeIntentId \<and> live_order r)"

definition findActiveOrderForSymbol :: "string \<Rightarrow> string \<Rightarrow> string \<Rightarrow> real_order option app" where
  "findActiveOrderForSymbol symb brokerPluginId side =
     order_find_latest (\<lambda>r. ro_symbol r = symb \<and> ro_broker_plugin_id r = brokerPluginId \<and>
       ro_side r = side \<and> live_order r)"

text \<open>The row \<open>create\<close> writes, with the schema's defaults for the columns it leaves out.\<close>

definition new_order_row :: "string \<Rightarrow> int \<Rightarrow> string \<Rightarrow> submit_args \<Rightarrow> real_order" where
  "new_order_row rid created clientOrderId args =
     \<lparr>ro_id = rid, ro_trade_intent_id = sa_intent args, ro_broker_plugin_id = sa_broker args,
      ro_client_order_id = clientOrderId, ro_broker_order_id = None, ro_symbol = sa_symbol args,
      ro_side = sa_side args,
      ro_order_type = (case sa_order_type args of Some t \<Rightarrow> t | None \<Rightarrow> ''market''),
      ro_requested_qty = sa_qty args, ro_limit_price = sa_limit_price args,
      ro_status = ''pending_submit'', ro_filled_qty = j0, ro_filled_avg_price = None,
      ro_submitted_at = None, ro_filled_at = None, ro_last_reconciled_at = None, ro_error = None,
      ro_created_at = created\<rparr>"

definition submit_request :: "string \<Rightarrow> submit_args \<Rightarrow> order_request" where
  "submit_request clientOrderId args =
     \<lparr>oq_symbol = sa_symbol args, oq_qty = sa_qty args,
      oq_side = (if sa_side args = ''sell'' then ''sell'' else ''buy''),
      oq_type = (if sa_order_type args = Some ''limit'' then ''limit'' else ''market''),
      oq_client_order_id = clientOrderId, oq_limit_price = sa_limit_price args\<rparr>"

definition recordSubmitFailureAndMaybeHalt :: "unit app" where
  "recordSubmitFailureAndMaybeHalt =
     await now (\<lambda>t.
     await (modify (\<lambda>w. w\<lparr>w_fail_times :=
         filter (\<lambda>s. t - s \<le> SUBMIT_FAILURE_WINDOW_MS) (w_fail_times w) @ [t]\<rparr>)) (\<lambda>_.
     await (gets w_fail_times) (\<lambda>times.
     if length times < SUBMIT_FAILURE_THRESHOLD then ret ()
     else attempt (haltRealExecution ''repeated real order submit failures'') (\<lambda>_. ret ()))))"

definition mark_submitted :: "string option \<Rightarrow> int \<Rightarrow> real_order \<Rightarrow> real_order" where
  "mark_submitted brokerOrderId t r =
     r\<lparr>ro_status := ''submitted'', ro_broker_order_id := brokerOrderId, ro_submitted_at := Some t\<rparr>"

definition mark_submit_failed :: "exn \<Rightarrow> real_order \<Rightarrow> real_order" where
  "mark_submit_failed err r = r\<lparr>ro_status := ''submit_failed'', ro_error := Some (NoteExn err)\<rparr>"

definition record_success :: "string option \<Rightarrow> real_order \<Rightarrow> real_order app" where
  "record_success brokerOrderId row =
     await (modify (\<lambda>w. w\<lparr>w_fail_times := []\<rparr>)) (\<lambda>_.
     attempt (await now (\<lambda>t. order_update (ro_id row) (mark_submitted brokerOrderId t)))
       (\<lambda>_. ret row))"

definition record_failure :: "exn \<Rightarrow> real_order \<Rightarrow> real_order app" where
  "record_failure err row =
     await recordSubmitFailureAndMaybeHalt (\<lambda>_.
     attempt (order_update (ro_id row) (mark_submit_failed err)) (\<lambda>_. ret row))"

text \<open>The \<open>try\<close> around \<open>placeOrder\<close>: its own status write is guarded inside.\<close>

definition place_and_record :: "submit_args \<Rightarrow> real_order \<Rightarrow> real_order app" where
  "place_and_record args row =
     attempt
       (await (place_order (sa_broker args) (submit_request (ro_client_order_id row) args))
          (\<lambda>brokerOrderId. record_success brokerOrderId row))
       (\<lambda>err. record_failure err row)"

definition create_order_row :: "submit_args \<Rightarrow> (real_order + real_order) app" where
  "create_order_row args =
     await (generateClientOrderId (sa_intent args)) (\<lambda>clientOrderId.
     attempt
       (await fresh_uuid (\<lambda>rid. await now (\<lambda>created.
        await (order_create (new_order_row rid created clientOrderId args)) (\<lambda>row. ret (Inr row)))))
       (\<lambda>err.
        if err = UniqueViolation then
          await (findActiveOrderForIntent (sa_intent args)) (\<lambda>raceWinner.
          case raceWinner of Some w \<Rightarrow> ret (Inl w) | None \<Rightarrow> throw err)
        else throw err))"

definition submit :: "submit_args \<Rightarrow> real_order app" where
  "submit args =
     await (findActiveOrderForIntent (sa_intent args)) (\<lambda>existingActive.
     case existingActive of
       Some r \<Rightarrow> ret r
     | None \<Rightarrow>
         await (findActiveOrderForSymbol (sa_symbol args) (sa_broker args) (sa_side args))
           (\<lambda>existingActiveForSymbol.
         case existingActiveForSymbol of
           Some r \<Rightarrow> ret r
         | None \<Rightarrow>
             await (create_order_row args) (\<lambda>created.
             case created of
               Inl raceWinner \<Rightarrow> ret raceWinner
             | Inr row \<Rightarrow> place_and_record args row)))"

section \<open>Recovery\<close>

definition mark_confirmed_absent :: "nat \<Rightarrow> real_order \<Rightarrow> real_order" where
  "mark_confirmed_absent count r =
     r\<lparr>ro_status := ''confirmed_absent'',
       ro_error := Some (NoteConfirmedAbsent count (ro_client_order_id r))\<rparr>"

definition set_absent :: "string \<Rightarrow> nat option \<Rightarrow> unit app" where
  "set_absent rid n = modify (\<lambda>w. w\<lparr>w_absent := (w_absent w)(rid := n)\<rparr>)"

definition handleConfirmedAbsent :: "real_order \<Rightarrow> unit app" where
  "handleConfirmedAbsent row =
     await (gets (\<lambda>w. (case w_absent w (ro_id row) of Some n \<Rightarrow> n | None \<Rightarrow> 0) + 1)) (\<lambda>count.
     if count < CONFIRMED_ABSENT_ESCALATION_THRESHOLD then set_absent (ro_id row) (Some count)
     else
       await (set_absent (ro_id row) None) (\<lambda>_.
       attempt
         (await (order_update (ro_id row) (mark_confirmed_absent count)) (\<lambda>_. ret ()))
         (\<lambda>_. ret ())))"

definition pollable_status :: "string \<Rightarrow> string" where
  "pollable_status raw =
     (let canonical = normalizeBrokerStatus raw
      in if List.member TERMINAL_STATUSES canonical then ''accepted'' else canonical)"

definition mark_recovered :: "order_status \<Rightarrow> int \<Rightarrow> real_order \<Rightarrow> real_order" where
  "mark_recovered o' t r =
     r\<lparr>ro_broker_order_id := Some (os_broker_order_id o'), ro_status := pollable_status (os_status o'),
       ro_last_reconciled_at := Some t\<rparr>"

definition recoverRow :: "real_order \<Rightarrow> unit app" where
  "recoverRow row =
     await (attempt
        (await (get_order_by_client (ro_broker_plugin_id row) (ro_client_order_id row))
           (\<lambda>b. ret (Some b)))
        (\<lambda>_. await (set_absent (ro_id row) None) (\<lambda>_. ret None))) (\<lambda>answer.
     case answer of
       None \<Rightarrow> ret ()
     | Some None \<Rightarrow> handleConfirmedAbsent row
     | Some (Some brokerOrder) \<Rightarrow>
         await (set_absent (ro_id row) None) (\<lambda>_.
         await now (\<lambda>t.
         await (order_update (ro_id row) (mark_recovered brokerOrder t)) (\<lambda>_. ret ()))))"

definition recoverable :: "real_order \<Rightarrow> bool" where
  "recoverable r \<longleftrightarrow> List.member RECOVERABLE_STATUSES (ro_status r)"

definition recoverInflight :: "unit app" where
  "recoverInflight = await (order_find_many recoverable) (\<lambda>rows. for_each recoverRow rows)"

definition onModuleInit :: "unit app" where
  "onModuleInit = attempt recoverInflight (\<lambda>_. ret ())"

end
