(* ===== verification/Reconciliation.thy ===== *)
theory Reconciliation
  imports RealOrder
begin

text \<open>
  \<open>real-reconciliation/real-broker-reconciliation.service.ts\<close>: the loop that brings real orders
  and the cached portfolio to the broker's truth. One tick syncs the portfolio (at most once a
  minute), recovers rows in flight, asks the broker to cancel stale orders, and reconciles every
  open row; a circuit breaker kept in the database stops the ticks after three failures and
  trips the kill switch.

  The persisted breaker (JSON under one key) is \<open>w_breaker\<close>; the text of a failure is kept as
  the exception, uncut. The timer itself, \<open>setInterval\<close>, is outside the model: a tick is one
  call.
\<close>

section \<open>Constants\<close>

definition RECON_TERMINAL_STATUSES :: "string list" where
  "RECON_TERMINAL_STATUSES = [''filled'', ''canceled'', ''rejected'', ''expired'']"

definition RECON_OPEN_STATUSES :: "string list" where
  "RECON_OPEN_STATUSES = [''submitted'', ''accepted'', ''partially_filled'']"

definition FAST_POLL_DELAYS_MS :: "int list" where
  "FAST_POLL_DELAYS_MS = [2000, 4000, 8000, 16000]"

definition RECONCILE_INTERVAL_KEY :: string where
  "RECONCILE_INTERVAL_KEY = ''execution.real_reconciliation_interval_ms''"

definition DEFAULT_RECONCILE_INTERVAL_MS :: jsnum where
  "DEFAULT_RECONCILE_INTERVAL_MS = Fin 15000"

definition MIN_RECONCILE_INTERVAL_MS :: jsnum where
  "MIN_RECONCILE_INTERVAL_MS = Fin 5000"

definition STALE_ORDER_TIMEOUT_KEY :: string where
  "STALE_ORDER_TIMEOUT_KEY = ''execution.real_order_stale_timeout_ms''"

definition DEFAULT_STALE_ORDER_TIMEOUT_MS :: jsnum where
  "DEFAULT_STALE_ORDER_TIMEOUT_MS = Fin (30 * 60000)"

definition CB_MAX_FAILURES :: nat where
  "CB_MAX_FAILURES = 3"

definition CB_HALF_OPEN_MS :: int where
  "CB_HALF_OPEN_MS = 5 * 60000"

definition BROKER_PLUGIN_ID_KEY :: string where
  "BROKER_PLUGIN_ID_KEY = ''execution.broker_plugin_id''"

definition PORTFOLIO_SYNC_THROTTLE_MS :: int where
  "PORTFOLIO_SYNC_THROTTLE_MS = 60000"

definition CLOSED_CB :: breaker where
  "CLOSED_CB = \<lparr>cb_state = ''closed'', cb_failures = 0, cb_last_failure_at = None,
     cb_last_success_at = None, cb_reason = None\<rparr>"

text \<open>A string option used as a condition: \<open>null\<close> and the empty string are false.\<close>

definition truthy :: "string option \<Rightarrow> string option" where
  "truthy v = (case v of Some s \<Rightarrow> if s = '''' then None else Some s | None \<Rightarrow> None)"

section \<open>One order\<close>

definition touch :: "string option \<Rightarrow> int \<Rightarrow> real_order \<Rightarrow> real_order" where
  "touch backfill t r =
     (case truthy backfill of
        None \<Rightarrow> r\<lparr>ro_last_reconciled_at := Some t\<rparr>
      | Some b \<Rightarrow> r\<lparr>ro_last_reconciled_at := Some t, ro_broker_order_id := Some b\<rparr>)"

definition touchLastReconciledAt :: "string \<Rightarrow> string option \<Rightarrow> unit app" where
  "touchLastReconciledAt realOrderId backfill =
     attempt
       (await now (\<lambda>t. await (order_update realOrderId (touch backfill t)) (\<lambda>_. ret ())))
       (\<lambda>_. ret ())"

definition isValidFillEvidence :: "order_status \<Rightarrow> bool" where
  "isValidFillEvidence o' \<longleftrightarrow>
     is_finite (os_filled_qty o') \<and> jgt (os_filled_qty o') j0 \<and>
     (case os_filled_avg_price o' of None \<Rightarrow> False | Some p \<Rightarrow> is_finite p \<and> jgt p j0)"

definition extractRejectReason :: "order_status \<Rightarrow> msg" where
  "extractRejectReason o' =
     (case truthy (os_reject_reason o') of
        Some reason \<Rightarrow> NoteText reason | None \<Rightarrow> NoteBrokerOrder (os_status o'))"

definition mark_filled :: "order_status \<Rightarrow> int \<Rightarrow> real_order \<Rightarrow> real_order" where
  "mark_filled o' t r =
     r\<lparr>ro_status := ''filled'', ro_broker_order_id := Some (os_broker_order_id o'),
       ro_filled_qty := os_filled_qty o', ro_filled_avg_price := os_filled_avg_price o',
       ro_filled_at := Some t, ro_last_reconciled_at := Some t\<rparr>"

definition mark_partial :: "order_status \<Rightarrow> int \<Rightarrow> real_order \<Rightarrow> real_order" where
  "mark_partial o' t r =
     r\<lparr>ro_status := ''partially_filled'', ro_filled_qty := os_filled_qty o',
       ro_filled_avg_price := os_filled_avg_price o', ro_last_reconciled_at := Some t\<rparr>"

definition mark_stopped :: "string \<Rightarrow> order_status \<Rightarrow> int \<Rightarrow> real_order \<Rightarrow> real_order" where
  "mark_stopped canonical o' t r =
     r\<lparr>ro_status := canonical, ro_broker_order_id := Some (os_broker_order_id o'),
       ro_filled_qty := os_filled_qty o', ro_filled_avg_price := os_filled_avg_price o',
       ro_last_reconciled_at := Some t\<rparr>"

definition mark_executed :: "order_status \<Rightarrow> trade_intent \<Rightarrow> trade_intent" where
  "mark_executed o' i =
     i\<lparr>ti_status := ''executed'', ti_fill_price := os_filled_avg_price o',
       ti_quantity := Some (os_filled_qty o')\<rparr>"

definition mark_failed :: "msg \<Rightarrow> trade_intent \<Rightarrow> trade_intent" where
  "mark_failed reason i = i\<lparr>ti_status := ''failed'', ti_reject_reason := Some reason\<rparr>"

text \<open>The compare-and-set of a status write: the row still has the status this call read.\<close>

definition unmoved :: "real_order \<Rightarrow> real_order \<Rightarrow> bool" where
  "unmoved row r \<longleftrightarrow> ro_id r = ro_id row \<and> ro_status r = ro_status row"

definition settle ::
  "real_order \<Rightarrow> (real_order \<Rightarrow> real_order) \<Rightarrow> (trade_intent \<Rightarrow> trade_intent) \<Rightarrow> unit app" where
  "settle row f g =
     transaction
       (await (order_update_many (unmoved row) f) (\<lambda>count.
        if count = 0 then ret ()
        else await (intent_update (ro_trade_intent_id row) g) (\<lambda>_. ret ())))"

definition applyBrokerOrder :: "real_order \<Rightarrow> order_status \<Rightarrow> unit app" where
  "applyBrokerOrder row brokerOrder =
     await now (\<lambda>t.
     let canonical = normalizeBrokerStatus (os_status brokerOrder);
         valid = isValidFillEvidence brokerOrder
     in if canonical = ''filled'' \<and> \<not> valid then touchLastReconciledAt (ro_id row) None
        else if canonical = ''filled'' \<and> valid then
          settle row (mark_filled brokerOrder t) (mark_executed brokerOrder)
        else if canonical = ''partially_filled'' then
          await (order_update_many (unmoved row) (mark_partial brokerOrder t)) (\<lambda>_. ret ())
        else if canonical = ''rejected'' \<or> canonical = ''canceled'' \<or> canonical = ''expired'' then
          settle row (mark_stopped canonical brokerOrder t)
            (if valid then mark_executed brokerOrder
             else mark_failed (extractRejectReason brokerOrder))
        else touchLastReconciledAt (ro_id row)
               (if truthy (ro_broker_order_id row) \<noteq> None then None
                else Some (os_broker_order_id brokerOrder)))"

definition query_broker :: "real_order \<Rightarrow> order_status option app" where
  "query_broker row =
     (case truthy (ro_broker_order_id row) of
        Some b \<Rightarrow> await (get_order_status (ro_broker_plugin_id row) b) (\<lambda>o'. ret (Some o'))
      | None \<Rightarrow> get_order_by_client (ro_broker_plugin_id row) (ro_client_order_id row))"

definition reconcile_row :: "real_order \<Rightarrow> unit app" where
  "reconcile_row row =
     await (attempt (await (query_broker row) (\<lambda>b. ret (Some b))) (\<lambda>_. ret None)) (\<lambda>answer.
     case answer of
       None \<Rightarrow> touchLastReconciledAt (ro_id row) None
     | Some None \<Rightarrow> touchLastReconciledAt (ro_id row) None
     | Some (Some brokerOrder) \<Rightarrow> applyBrokerOrder row brokerOrder)"

definition reconcileOrder :: "string \<Rightarrow> unit app" where
  "reconcileOrder realOrderId =
     await (order_find (has_id realOrderId)) (\<lambda>found.
     case found of
       None \<Rightarrow> ret ()
     | Some row \<Rightarrow>
         if List.member RECON_TERMINAL_STATUSES (ro_status row) then ret () else reconcile_row row)"

section \<open>Bursts and sweeps\<close>

definition delay :: "int \<Rightarrow> unit app" where
  "delay ms = modify tock"

text \<open>\<open>continue\<close> after a failed attempt, \<open>return\<close> once the row is terminal.\<close>

fun poll_loop :: "string \<Rightarrow> int list \<Rightarrow> unit app" where
  "poll_loop realOrderId [] = ret ()"
| "poll_loop realOrderId (delayMs # rest) =
     await (delay delayMs) (\<lambda>_.
     await (attempt (await (reconcileOrder realOrderId) (\<lambda>_. ret True)) (\<lambda>_. ret False)) (\<lambda>ok.
     if \<not> ok then poll_loop realOrderId rest
     else
       await (order_find (has_id realOrderId)) (\<lambda>found.
       case found of
         Some row \<Rightarrow>
           if List.member RECON_TERMINAL_STATUSES (ro_status row) then ret ()
           else poll_loop realOrderId rest
       | None \<Rightarrow> poll_loop realOrderId rest)))"

definition fastPollOrder :: "string \<Rightarrow> unit app" where
  "fastPollOrder realOrderId =
     attempt (poll_loop realOrderId FAST_POLL_DELAYS_MS) (\<lambda>_. ret ())"

definition readStaleTimeoutMs :: "jsnum app" where
  "readStaleTimeoutMs =
     await (kv_get_soft STALE_ORDER_TIMEOUT_KEY) (\<lambda>raw.
     ret (kvNum raw DEFAULT_STALE_ORDER_TIMEOUT_MS))"

text \<open>
  \<open>new Date(x)\<close>: the integral part of a finite number of at most 8.64e15 milliseconds; any
  other date is invalid and Prisma refuses it as a filter.
\<close>

definition date_of_number :: "jsnum \<Rightarrow> int option" where
  "date_of_number x =
     (case x of
        Fin r \<Rightarrow> if \<bar>r\<bar> \<le> 8640000000000000
                 then Some (if r < 0 then \<lceil>r\<rceil> else \<lfloor>r\<rfloor>) else None
      | _ \<Rightarrow> None)"

definition open_order :: "real_order \<Rightarrow> bool" where
  "open_order r \<longleftrightarrow> List.member RECON_OPEN_STATUSES (ro_status r)"

definition stale_order :: "int \<Rightarrow> real_order \<Rightarrow> bool" where
  "stale_order cutoff r \<longleftrightarrow>
     open_order r \<and> (case ro_submitted_at r of Some t \<Rightarrow> t < cutoff | None \<Rightarrow> False)"

definition cancel_stale_row :: "jsnum \<Rightarrow> real_order \<Rightarrow> unit app" where
  "cancel_stale_row timeoutMs row =
     (case truthy (ro_broker_order_id row) of
        None \<Rightarrow> ret ()
      | Some b \<Rightarrow>
          attempt
            (await (cancel_order (ro_broker_plugin_id row) b) (\<lambda>_.
             attempt
               (alerts_create \<lparr>al_type = ''CUSTOM'', al_severity = ''HIGH'',
                  al_symbol = Some (ro_symbol row),
                  al_message = AmStaleCancel (ro_id row) (ro_symbol row) (jdiv timeoutMs (Fin 60000)),
                  al_resolved = False\<rparr>)
               (\<lambda>_. ret ())))
            (\<lambda>_. ret ()))"

definition cancelStaleOpenOrders :: "unit app" where
  "cancelStaleOpenOrders =
     await readStaleTimeoutMs (\<lambda>timeoutMs.
     await now (\<lambda>t.
     case date_of_number (jsub (of_count t) timeoutMs) of
       None \<Rightarrow> throw (Exn ''Invalid Date'')
     | Some cutoff \<Rightarrow>
         await (order_find_many (stale_order cutoff)) (\<lambda>staleRows.
         for_each (cancel_stale_row timeoutMs) staleRows)))"

definition reconcileAllOpenOrders :: "unit app" where
  "reconcileAllOpenOrders =
     await (attempt recoverInflight (\<lambda>_. ret ())) (\<lambda>_.
     await (attempt cancelStaleOpenOrders (\<lambda>_. ret ())) (\<lambda>_.
     await (order_find_many open_order) (\<lambda>rows.
     for_each (\<lambda>row. attempt (reconcileOrder (ro_id row)) (\<lambda>_. ret ())) rows)))"

section \<open>The circuit breaker\<close>

definition getCircuitBreaker :: "breaker app" where
  "getCircuitBreaker =
     await (attempt (db_read w_breaker) (\<lambda>_. ret None)) (\<lambda>raw.
     case raw of None \<Rightarrow> ret CLOSED_CB | Some cb \<Rightarrow> ret cb)"

definition saveCb :: "breaker \<Rightarrow> unit app" where
  "saveCb cb = db_write (\<lambda>w. Inr ((), w\<lparr>w_breaker := Some cb\<rparr>))"

definition handleTickFailure :: "exn \<Rightarrow> breaker \<Rightarrow> unit app" where
  "handleTickFailure err cb =
     (let failures = cb_failures cb + 1;
          tripped = (CB_MAX_FAILURES \<le> failures \<or> cb_state cb = ''half_open'')
      in await now (\<lambda>t.
         await (saveCb \<lparr>cb_state = (if tripped then ''open'' else ''closed''), cb_failures = failures,
                  cb_last_failure_at = Some t, cb_last_success_at = cb_last_success_at cb,
                  cb_reason = Some err\<rparr>) (\<lambda>_.
         if tripped \<and> cb_state cb \<noteq> ''open'' then
           await (attempt
             (alerts_create \<lparr>al_type = ''RECONCILIATION_HALTED'', al_severity = ''CRITICAL'',
                al_symbol = None, al_message = AmHalted failures err, al_resolved = False\<rparr>)
             (\<lambda>_. ret ())) (\<lambda>_.
           attempt (haltRealExecution ''reconciliation circuit breaker open'') (\<lambda>_. ret ()))
         else ret ())))"

definition readIntervalMs :: "jsnum app" where
  "readIntervalMs =
     await (kv_get_soft RECONCILE_INTERVAL_KEY) (\<lambda>raw.
     let ms = kvNum raw DEFAULT_RECONCILE_INTERVAL_MS
     in ret (if \<not> is_finite ms \<or> jlt ms MIN_RECONCILE_INTERVAL_MS
             then MIN_RECONCILE_INTERVAL_MS else ms))"

section \<open>Positions, net asset value, drift\<close>

definition positions_delete_others :: "string \<Rightarrow> string list \<Rightarrow> unit app" where
  "positions_delete_others b symbols = db_write (\<lambda>w. Inr ((),
     w\<lparr>w_positions := filter (\<lambda>p. \<not> (rp_broker_plugin_id p = b \<and> rp_symbol p \<notin> set symbols))
        (w_positions w)\<rparr>))"

definition cached_position :: "string \<Rightarrow> broker_position \<Rightarrow> real_position" where
  "cached_position b p =
     \<lparr>rp_symbol = bp_symbol p, rp_broker_plugin_id = b, rp_qty = bp_qty p,
      rp_avg_entry = bp_avg_entry p, rp_market_value = bp_market_value p,
      rp_unrealized_pnl = bp_unrealized_pnl p, rp_side = bp_side p\<rparr>"

definition put_position :: "real_position \<Rightarrow> real_position list \<Rightarrow> real_position list" where
  "put_position p t =
     (if rp_symbol p \<in> rp_symbol ` set t
      then update_rows (\<lambda>q. rp_symbol q = rp_symbol p) (\<lambda>_. p) t else t @ [p])"

definition position_upsert :: "real_position \<Rightarrow> unit app" where
  "position_upsert p = db_write (\<lambda>w. Inr ((), w\<lparr>w_positions := put_position p (w_positions w)\<rparr>))"

definition nav_latest :: "string \<Rightarrow> nav_snapshot option app" where
  "nav_latest b = db_read (\<lambda>w. latest_row nv_ts (\<lambda>s. nv_broker_plugin_id s = b) (w_navs w))"

definition nav_create :: "nav_snapshot \<Rightarrow> unit app" where
  "nav_create s = db_write (\<lambda>w. Inr ((), w\<lparr>w_navs := w_navs w @ [s]\<rparr>))"

definition next_hwm :: "nav_snapshot option \<Rightarrow> jsnum \<Rightarrow> jsnum" where
  "next_hwm prevSnapshot equity =
     jmax (case prevSnapshot of Some s \<Rightarrow> nv_hwm s | None \<Rightarrow> equity) equity"

definition store_portfolio :: "string \<Rightarrow> string \<Rightarrow> portfolio \<Rightarrow> unit app" where
  "store_portfolio brokerPluginId source p =
     transaction
       (await (positions_delete_others brokerPluginId (map bp_symbol (po_positions p))) (\<lambda>_.
        await (for_each (\<lambda>q. position_upsert (cached_position brokerPluginId q)) (po_positions p)) (\<lambda>_.
        await (nav_latest brokerPluginId) (\<lambda>prevSnapshot.
        await now (\<lambda>t.
        nav_create \<lparr>nv_ts = t, nv_broker_plugin_id = brokerPluginId, nv_equity = po_equity p,
          nv_cash = po_cash p, nv_buying_power = po_buying_power p, nv_positions = po_positions p,
          nv_total_pnl = po_total_pnl p, nv_hwm = next_hwm prevSnapshot (po_equity p),
          nv_source = source\<rparr>)))))"

definition explains :: "string \<Rightarrow> string \<Rightarrow> real_order \<Rightarrow> bool" where
  "explains brokerPluginId symb r \<longleftrightarrow>
     ro_symbol r = symb \<and> ro_broker_plugin_id r = brokerPluginId \<and> jgt (ro_filled_qty r) j0"

definition drift_alert :: "alert list \<Rightarrow> broker_position \<Rightarrow> unit app" where
  "drift_alert activeAlerts pos =
     (if list_ex (\<lambda>a. al_type a = ''BROKER_DRIFT'' \<and> al_symbol a = Some (bp_symbol pos)) activeAlerts
      then ret ()
      else attempt
        (alerts_create \<lparr>al_type = ''BROKER_DRIFT'', al_severity = ''CRITICAL'',
           al_symbol = Some (bp_symbol pos), al_message = AmDrift (bp_symbol pos) (bp_qty pos),
           al_resolved = False\<rparr>)
        (\<lambda>_. ret ()))"

primrec drift_loop ::
  "alert list \<Rightarrow> string \<Rightarrow> string list \<Rightarrow> broker_position list \<Rightarrow> string list app" where
  "drift_loop activeAlerts brokerPluginId drifted [] = ret drifted"
| "drift_loop activeAlerts brokerPluginId drifted (pos # rest) =
     await (order_find (explains brokerPluginId (bp_symbol pos))) (\<lambda>explained.
     if explained \<noteq> None then drift_loop activeAlerts brokerPluginId drifted rest
     else
       await (drift_alert activeAlerts pos) (\<lambda>_.
       drift_loop activeAlerts brokerPluginId (drifted @ [bp_symbol pos]) rest))"

definition detectDrift :: "broker_position list \<Rightarrow> string \<Rightarrow> string list app" where
  "detectDrift brokerPositions brokerPluginId =
     (if brokerPositions = [] then ret []
      else
        await alerts_active (\<lambda>activeAlerts.
        await (drift_loop activeAlerts brokerPluginId [] brokerPositions) (\<lambda>drifted.
        await (if drifted = [] then ret ()
               else attempt (haltRealExecution ''broker position drift detected'') (\<lambda>_. ret ())) (\<lambda>_.
        ret drifted))))"

definition syncPortfolio :: "string \<Rightarrow> string \<Rightarrow> string list app" where
  "syncPortfolio brokerPluginId source =
     await (attempt (await (get_portfolio brokerPluginId) (\<lambda>p. ret (Some p))) (\<lambda>_. ret None)) (\<lambda>answer.
     case answer of
       None \<Rightarrow> ret []
     | Some p \<Rightarrow>
         await (store_portfolio brokerPluginId source p) (\<lambda>_.
         detectDrift (po_positions p) brokerPluginId))"

section \<open>Adoption of a broker position\<close>

definition adopted_intent :: "string \<Rightarrow> int \<Rightarrow> string option \<Rightarrow> broker_position \<Rightarrow> trade_intent" where
  "adopted_intent iid created note pos =
     \<lparr>ti_id = iid, ti_cycle_id = None, ti_symbol = bp_symbol pos,
      ti_action = (if bp_side pos = ''short'' then ''short'' else ''long''), ti_confidence = Fin 1,
      ti_rationale = ''Adopted pre-existing broker position ('' @ bp_symbol pos @ '')'' @
        (case truthy note of Some n \<Rightarrow> '': '' @ n | None \<Rightarrow> ''''),
      ti_timeframe = ''1d'', ti_mode = ''real'', ti_status = ''executed'', ti_created_at = created,
      ti_decided_at = None, ti_decided_by = None, ti_reject_reason = None,
      ti_fill_price = Some (bp_avg_entry pos), ti_quantity = Some (jabs (bp_qty pos)),
      ti_realized_pnl = None, ti_result = None\<rparr>"

definition adopted_order ::
  "string \<Rightarrow> string \<Rightarrow> int \<Rightarrow> string \<Rightarrow> string \<Rightarrow> int \<Rightarrow> broker_position \<Rightarrow> real_order" where
  "adopted_order rid iid created brokerPluginId clientOrderId t pos =
     \<lparr>ro_id = rid, ro_trade_intent_id = iid, ro_broker_plugin_id = brokerPluginId,
      ro_client_order_id = clientOrderId, ro_broker_order_id = None, ro_symbol = bp_symbol pos,
      ro_side = (if bp_side pos = ''short'' then ''sell'' else ''buy''), ro_order_type = ''market'',
      ro_requested_qty = jabs (bp_qty pos), ro_limit_price = None, ro_status = ''filled'',
      ro_filled_qty = jabs (bp_qty pos), ro_filled_avg_price = Some (bp_avg_entry pos),
      ro_submitted_at = Some t, ro_filled_at = Some t, ro_last_reconciled_at = Some t,
      ro_error = None, ro_created_at = created\<rparr>"

definition write_adoption ::
  "string option \<Rightarrow> string \<Rightarrow> string \<Rightarrow> int \<Rightarrow> broker_position \<Rightarrow> real_order app" where
  "write_adoption note brokerPluginId clientOrderId t pos =
     transaction
       (await fresh_uuid (\<lambda>iid. await now (\<lambda>c1.
        await (intent_create (adopted_intent iid c1 note pos)) (\<lambda>intent.
        await fresh_uuid (\<lambda>rid. await now (\<lambda>c2.
        order_create (adopted_order rid (ti_id intent) c2 brokerPluginId clientOrderId t pos)))))))"

definition adoptBrokerPosition ::
  "string \<Rightarrow> string \<Rightarrow> string option \<Rightarrow> (real_order \<times> string list) app" where
  "adoptBrokerPosition symb brokerPluginId note =
     await (get_portfolio brokerPluginId) (\<lambda>p.
     case find (\<lambda>q. bp_symbol q = symb) (po_positions p) of
       None \<Rightarrow> throw (Exn ''adoptBrokerPosition: refusing to fabricate a position'')
     | Some pos \<Rightarrow>
         await now (\<lambda>t. await fresh_uuid (\<lambda>u.
         await (write_adoption note brokerPluginId (''adopted-'' @ u) t pos) (\<lambda>adopted.
         await (syncPortfolio brokerPluginId ''poll'') (\<lambda>driftedSymbols.
         ret (adopted, driftedSymbols))))))"

section \<open>Ticks\<close>

definition resolveBrokerPluginId :: "string app" where
  "resolveBrokerPluginId =
     await (kv_get_soft BROKER_PLUGIN_ID_KEY) (\<lambda>raw.
     ret (js_trim (case kvStr raw of Some s \<Rightarrow> s | None \<Rightarrow> '''')))"

definition syncPortfolioAtStartup :: "unit app" where
  "syncPortfolioAtStartup =
     await resolveBrokerPluginId (\<lambda>b.
     if b = '''' then ret ()
     else
       await now (\<lambda>t. await (modify (\<lambda>w. w\<lparr>w_last_sync := Some t\<rparr>)) (\<lambda>_.
       attempt (await (syncPortfolio b ''startup_reconcile'') (\<lambda>_. ret ())) (\<lambda>_. ret ()))))"

definition maybeSyncPortfolioOnTick :: "unit app" where
  "maybeSyncPortfolioOnTick =
     await resolveBrokerPluginId (\<lambda>b.
     if b = '''' then ret ()
     else
       await now (\<lambda>t. await (gets w_last_sync) (\<lambda>lastSync.
       if (case lastSync of Some s \<Rightarrow> t - s < PORTFOLIO_SYNC_THROTTLE_MS | None \<Rightarrow> False) then ret ()
       else
         await (modify (\<lambda>w. w\<lparr>w_last_sync := Some t\<rparr>)) (\<lambda>_.
         attempt (await (syncPortfolio b ''poll'') (\<lambda>_. ret ())) (\<lambda>_. ret ())))))"

text \<open>The guarded part of a tick, between setting \<open>tickRunning\<close> and \<open>finally\<close>.\<close>

definition run_tick :: "breaker \<Rightarrow> unit app" where
  "run_tick cb =
     await (modify (\<lambda>w. w\<lparr>w_tick_running := True\<rparr>)) (\<lambda>_.
     ensure
       (attempt
         (await reconcileAllOpenOrders (\<lambda>_. await now (\<lambda>t.
          saveCb \<lparr>cb_state = ''closed'', cb_failures = 0, cb_last_failure_at = cb_last_failure_at cb,
            cb_last_success_at = Some t, cb_reason = None\<rparr>)))
         (\<lambda>err. handleTickFailure err cb))
       (\<lambda>w. w\<lparr>w_tick_running := False\<rparr>))"

text \<open>The breaker's decision: \<open>None\<close> skips the tick, \<open>Some cb\<close> runs it under \<open>cb\<close>.\<close>

definition admit_tick :: "breaker option app" where
  "admit_tick =
     await getCircuitBreaker (\<lambda>cb.
     if cb_state cb = ''open'' then
       await now (\<lambda>t.
       if t < (case cb_last_failure_at cb of Some s \<Rightarrow> s | None \<Rightarrow> 0) + CB_HALF_OPEN_MS then ret None
       else
         (let probe = cb\<lparr>cb_state := ''half_open''\<rparr>
          in await (saveCb probe) (\<lambda>_. ret (Some probe))))
     else ret (Some cb))"

definition tick :: "unit app" where
  "tick =
     await maybeSyncPortfolioOnTick (\<lambda>_.
     await (gets w_tick_running) (\<lambda>running.
     if running then ret ()
     else
       await admit_tick (\<lambda>admitted.
       case admitted of None \<Rightarrow> ret () | Some cb \<Rightarrow> run_tick cb)))"

text \<open>\<open>onModuleInit\<close> returns the interval it starts the timer with.\<close>

definition startReconciliation :: "jsnum app" where
  "startReconciliation =
     await syncPortfolioAtStartup (\<lambda>_. await tick (\<lambda>_. readIntervalMs))"

end
