(* ===== verification/TradeIntent.thy ===== *)
theory TradeIntent
  imports GovernedExec Reconciliation
begin

text \<open>
  \<open>trade-intent/trade-intent.service.ts\<close>: from the LLM's decision to a paper fill or a real
  order. A recorded intent is processed autonomously or waits for a human; both paths resolve
  the execution mode, pass the risk gate of the account that holds the money, and execute.

  The background fast poll that \<open>_executeReal\<close> starts without awaiting it is returned as the
  order id to poll, the second component of the result of \<open>autoProcess\<close> and \<open>approve\<close>; its
  first step is a wait of two seconds, so it runs after the calls that return here. A
  \<open>failedUpdate\<close>, built in one function and awaited by its caller at once, is performed where
  it is built.
\<close>

section \<open>Types and constants\<close>

definition VALID_ACTIONS :: "string list" where
  "VALID_ACTIONS = [''long'', ''short'', ''exit'', ''hold'']"

record real_account =
  ra_equity :: jsnum
  ra_hwm :: jsnum
  ra_buying_power :: jsnum
  ra_open_positions :: nat

record execution_policy =
  xp_autonomous :: bool
  xp_max_position_pct :: jsnum
  xp_max_open_positions :: jsnum
  xp_max_drawdown_halt_pct :: jsnum
  xp_real :: bool
  xp_broker_plugin_id :: string
  xp_max_order_notional :: jsnum
  xp_max_short_notional_pct :: jsnum
  xp_allow_real_short :: bool
  xp_loss_breaker :: bool
  xp_max_daily_loss_pct :: jsnum
  xp_max_weekly_loss_pct :: jsnum

definition DEFAULT_EXECUTION_POLICY :: execution_policy where
  "DEFAULT_EXECUTION_POLICY =
     \<lparr>xp_autonomous = True, xp_max_position_pct = js (1 / 10), xp_max_open_positions = Fin 10,
      xp_max_drawdown_halt_pct = Fin 25, xp_real = False, xp_broker_plugin_id = '''',
      xp_max_order_notional = Fin 1000, xp_max_short_notional_pct = js (1 / 10),
      xp_allow_real_short = False, xp_loss_breaker = True, xp_max_daily_loss_pct = js (3 / 100),
      xp_max_weekly_loss_pct = js (6 / 100)\<rparr>"

definition PAPER_PORTFOLIO_INITIAL_CAPITAL :: jsnum where
  "PAPER_PORTFOLIO_INITIAL_CAPITAL = Fin 10000"

definition PAPER_PORTFOLIO_NAME :: string where
  "PAPER_PORTFOLIO_NAME = ''paper''"

definition DEFAULT_WALK_FORWARD_MAX_AGE_DAYS :: jsnum where
  "DEFAULT_WALK_FORWARD_MAX_AGE_DAYS = Fin 30"

definition REQUIRED_WALK_FORWARD_VERDICT :: string where
  "REQUIRED_WALK_FORWARD_VERDICT = ''ROBUSTO''"

definition DEFAULT_REAL_STATE_MAX_AGE_MS :: jsnum where
  "DEFAULT_REAL_STATE_MAX_AGE_MS = Fin 300000"

definition SIZING_PCT :: jsnum where
  "SIZING_PCT = js (5 / 100)"

text \<open>An intent as returned, and the order whose fast poll was started, if any.\<close>

type_synonym outcome = "trade_intent \<times> string option"

section \<open>Policy\<close>

definition fraction_or :: "jsnum \<Rightarrow> jsnum \<Rightarrow> jsnum" where
  "fraction_or d x = (if jle x j0 \<or> jgt x j1 then d else x)"

text \<open>The policy of the raw values of its twelve keys.\<close>

definition policy_from :: "(string \<Rightarrow> string option) \<Rightarrow> execution_policy" where
  "policy_from raw =
     (let d = DEFAULT_EXECUTION_POLICY;
          openPos = jround (kvNum (raw ''execution.max_open_positions'') (xp_max_open_positions d));
          halt = kvNum (raw ''execution.max_drawdown_halt_pct'') (xp_max_drawdown_halt_pct d);
          notional = kvNum (raw ''execution.max_order_notional'') (xp_max_order_notional d)
      in
        \<lparr>xp_autonomous = kvBool (raw ''execution.autonomous'') (xp_autonomous d),
         xp_max_position_pct = fraction_or (xp_max_position_pct d)
           (kvNum (raw ''execution.max_position_pct'') (xp_max_position_pct d)),
         xp_max_open_positions = (if jlt openPos j1 then j1 else openPos),
         xp_max_drawdown_halt_pct =
           (if jle halt j0 \<or> jgt halt (Fin 100) then xp_max_drawdown_halt_pct d else halt),
         xp_real = kvBool (raw ''execution.real'') (xp_real d),
         xp_broker_plugin_id =
           js_trim (case kvStr (raw ''execution.broker_plugin_id'') of Some s \<Rightarrow> s | None \<Rightarrow> []),
         xp_max_order_notional = (if jle notional j0 then xp_max_order_notional d else notional),
         xp_max_short_notional_pct = fraction_or (xp_max_short_notional_pct d)
           (kvNum (raw ''execution.max_short_notional_pct'') (xp_max_short_notional_pct d)),
         xp_allow_real_short = kvBool (raw ''execution.allow_real_short'') (xp_allow_real_short d),
         xp_loss_breaker =
           kvBool (raw ''execution.loss_circuit_breaker_enabled'') (xp_loss_breaker d),
         xp_max_daily_loss_pct = fraction_or (xp_max_daily_loss_pct d)
           (kvNum (raw ''execution.max_daily_loss_pct'') (xp_max_daily_loss_pct d)),
         xp_max_weekly_loss_pct = fraction_or (xp_max_weekly_loss_pct d)
           (kvNum (raw ''execution.max_weekly_loss_pct'') (xp_max_weekly_loss_pct d))\<rparr>)"

definition POLICY_KEYS :: "string list" where
  "POLICY_KEYS =
     [''execution.autonomous'', ''execution.max_position_pct'', ''execution.max_open_positions'',
      ''execution.max_drawdown_halt_pct'', ''execution.real'', ''execution.broker_plugin_id'',
      ''execution.max_order_notional'', ''execution.max_short_notional_pct'',
      ''execution.allow_real_short'', ''execution.loss_circuit_breaker_enabled'',
      ''execution.max_daily_loss_pct'', ''execution.max_weekly_loss_pct'']"

definition readExecutionPolicy :: "execution_policy app" where
  "readExecutionPolicy = await (kv_get_all POLICY_KEYS) (\<lambda>raw. ret (policy_from raw))"

text \<open>A partial update; \<open>undefined\<close> is None. \<open>str\<close> is JavaScript's \<open>String\<close> on numbers.\<close>

record policy_patch =
  pp_autonomous :: "bool option"
  pp_real :: "bool option"
  pp_broker_plugin_id :: "string option"
  pp_max_position_pct :: "jsnum option"
  pp_max_open_positions :: "jsnum option"
  pp_max_drawdown_halt_pct :: "jsnum option"
  pp_max_order_notional :: "jsnum option"
  pp_max_short_notional_pct :: "jsnum option"
  pp_allow_real_short :: "bool option"
  pp_loss_breaker :: "bool option"
  pp_max_daily_loss_pct :: "jsnum option"
  pp_max_weekly_loss_pct :: "jsnum option"

definition bool_str :: "bool \<Rightarrow> string" where
  "bool_str b = (if b then ''true'' else ''false'')"

definition put_setting :: "string \<Rightarrow> ('a \<Rightarrow> string) \<Rightarrow> 'a option \<Rightarrow> unit app" where
  "put_setting k f v = (case v of None \<Rightarrow> ret () | Some x \<Rightarrow> kv_set k (f x))"

definition setPolicy :: "(jsnum \<Rightarrow> string) \<Rightarrow> policy_patch \<Rightarrow> execution_policy app" where
  "setPolicy str patch =
     await (put_setting ''execution.autonomous'' bool_str (pp_autonomous patch)) (\<lambda>_.
     await (put_setting ''execution.real'' bool_str (pp_real patch)) (\<lambda>_.
     await (put_setting ''execution.broker_plugin_id'' id (pp_broker_plugin_id patch)) (\<lambda>_.
     await (put_setting ''execution.max_position_pct'' str (pp_max_position_pct patch)) (\<lambda>_.
     await (put_setting ''execution.max_open_positions'' str (pp_max_open_positions patch)) (\<lambda>_.
     await (put_setting ''execution.max_drawdown_halt_pct'' str (pp_max_drawdown_halt_pct patch)) (\<lambda>_.
     await (put_setting ''execution.max_order_notional'' str (pp_max_order_notional patch)) (\<lambda>_.
     await (put_setting ''execution.max_short_notional_pct'' str (pp_max_short_notional_pct patch)) (\<lambda>_.
     await (put_setting ''execution.allow_real_short'' bool_str (pp_allow_real_short patch)) (\<lambda>_.
     await (put_setting ''execution.loss_circuit_breaker_enabled'' bool_str (pp_loss_breaker patch)) (\<lambda>_.
     await (put_setting ''execution.max_daily_loss_pct'' str (pp_max_daily_loss_pct patch)) (\<lambda>_.
     await (put_setting ''execution.max_weekly_loss_pct'' str (pp_max_weekly_loss_pct patch)) (\<lambda>_.
     readExecutionPolicy))))))))))))"

section \<open>Decisions on an intent\<close>

definition decided :: "string \<Rightarrow> int \<Rightarrow> string \<Rightarrow> trade_intent \<Rightarrow> trade_intent" where
  "decided status t by' i =
     i\<lparr>ti_status := status, ti_decided_at := Some t, ti_decided_by := Some by'\<rparr>"

definition decide :: "string \<Rightarrow> string \<Rightarrow> string \<Rightarrow> (trade_intent \<Rightarrow> trade_intent) \<Rightarrow> trade_intent app" where
  "decide iid status by' f =
     await now (\<lambda>t. intent_update iid (\<lambda>i. f (decided status t by' i)))"

definition fail_with :: "string \<Rightarrow> string \<Rightarrow> result_doc \<Rightarrow> trade_intent app" where
  "fail_with iid by' doc = decide iid ''failed'' by' (\<lambda>i. i\<lparr>ti_result := Some doc\<rparr>)"

definition execute_hold :: "string \<Rightarrow> string \<Rightarrow> trade_intent app" where
  "execute_hold iid by' =
     decide iid ''executed'' by' (\<lambda>i. i\<lparr>ti_quantity := Some j0, ti_result := Some RHold\<rparr>)"

definition reject_with :: "string \<Rightarrow> string \<Rightarrow> msg option \<Rightarrow> trade_intent app" where
  "reject_with iid by' reason = decide iid ''rejected'' by' (\<lambda>i. i\<lparr>ti_reject_reason := reason\<rparr>)"

text \<open>The intent a decision starts from: it exists and is pending.\<close>

definition pending_intent :: "string \<Rightarrow> trade_intent app" where
  "pending_intent iid =
     await (intent_find (has_ti iid)) (\<lambda>found.
     case found of
       None \<Rightarrow> throw (Exn (''TradeIntent '' @ iid @ '' not found''))
     | Some intent \<Rightarrow>
         if ti_status intent \<noteq> ''pending''
         then throw (Exn (''TradeIntent '' @ iid @ '' is not pending (current status: '' @ ti_status intent @ '')''))
         else ret intent)"

definition reject :: "string \<Rightarrow> string \<Rightarrow> string \<Rightarrow> trade_intent app" where
  "reject iid decided_by reason =
     await (pending_intent iid) (\<lambda>_. reject_with iid decided_by (Some (NoteText reason)))"

definition list_intents :: "string option \<Rightarrow> trade_intent list app" where
  "list_intents status =
     db_read (\<lambda>w. sort_key (\<lambda>i. - ti_created_at i)
       (filter (\<lambda>i. case truthy status of None \<Rightarrow> True | Some s \<Rightarrow> ti_status i = s) (w_intents w)))"

section \<open>Walk-forward gate\<close>

text \<open>\<open>days * 86_400_000\<close>, days clamped to one day and ten years.\<close>

definition readWalkForwardMaxAgeDays :: "jsnum app" where
  "readWalkForwardMaxAgeDays =
     await (kv_get_soft ''execution.walk_forward_max_age_days'') (\<lambda>raw.
     let days = kvNum raw DEFAULT_WALK_FORWARD_MAX_AGE_DAYS;
         low = (if \<not> is_finite days \<or> jlt days (Fin 1) then Fin 1 else days)
     in ret (if jgt low (Fin 3650) then Fin 3650 else low))"

definition strategy_find :: "string \<Rightarrow> strategy option app" where
  "strategy_find sid = db_read (\<lambda>w. find_row (\<lambda>s. st_id s = sid) (w_strategies w))"

text \<open>None: the gate passes; otherwise the reason.\<close>

definition verdict_age :: "int \<Rightarrow> msg option app" where
  "verdict_age checked =
     await readWalkForwardMaxAgeDays (\<lambda>maxAgeDays.
     await now (\<lambda>t.
     let ageMs = t - checked
     in ret (if jgt (of_count ageMs) (jmul maxAgeDays (Fin 86400000))
             then Some (NoteVerdictStale (ageMs div 86400000) maxAgeDays) else None)))"

definition checkWalkForwardGate :: "msg option app" where
  "checkWalkForwardGate =
     await (kv_get_soft ''strategy.applied'') (\<lambda>raw.
     case truthy (kvStr raw) of
       None \<Rightarrow> ret (Some NoteNoAppliedStrategy)
     | Some sid \<Rightarrow>
         await (attempt (await (strategy_find sid) (\<lambda>r. ret (Some r))) (\<lambda>_. ret None)) (\<lambda>answer.
         case answer of
           None \<Rightarrow> ret (Some (NoteStrategyLookupFailed sid))
         | Some None \<Rightarrow> ret (Some (NoteStrategyMissing sid))
         | Some (Some row) \<Rightarrow>
             if st_verdict row \<noteq> Some REQUIRED_WALK_FORWARD_VERDICT
             then ret (Some (NoteVerdict (st_verdict row)))
             else
               (case st_checked_at row of
                  None \<Rightarrow> ret (Some NoteNoCheckedAt)
                | Some checked \<Rightarrow> verdict_age checked)))"

definition auditDemotion :: "string \<Rightarrow> msg \<Rightarrow> unit app" where
  "auditDemotion iid reason =
     await (gets (\<lambda>w. env_has_audit (w_env w))) (\<lambda>present.
     if \<not> present then ret ()
     else attempt (audit_log (AuDemotion iid reason)) (\<lambda>_. ret ()))"

section \<open>Mode\<close>

datatype mode = Paper | Real

definition effectiveMode :: "execution_policy \<Rightarrow> string \<Rightarrow> string \<Rightarrow> mode app" where
  "effectiveMode policy iid action =
     (if \<not> (xp_real policy \<and> xp_broker_plugin_id policy \<noteq> '''') then ret Paper
      else if action = ''exit'' \<or> action = ''hold'' then ret Real
      else
        await checkWalkForwardGate (\<lambda>gate.
        case gate of
          Some reason \<Rightarrow> await (auditDemotion iid reason) (\<lambda>_. ret Paper)
        | None \<Rightarrow>
            if action = ''short'' \<and> \<not> xp_allow_real_short policy then
              await (auditDemotion iid NoteRealShortDisabled) (\<lambda>_. ret Paper)
            else ret Real))"

definition broker_position_of :: "string \<Rightarrow> portfolio \<Rightarrow> broker_position option" where
  "broker_position_of symb p = find (\<lambda>q. bp_symbol q = symb) (po_positions p)"

definition soft_portfolio :: "string \<Rightarrow> (exn + portfolio) app" where
  "soft_portfolio b =
     attempt (await (get_portfolio b) (\<lambda>p. ret (Inr p))) (\<lambda>e. ret (Inl e))"

definition resolveExitRouting ::
  "string \<Rightarrow> string \<Rightarrow> string \<Rightarrow> string \<Rightarrow> (trade_intent + mode) app" where
  "resolveExitRouting iid symb brokerPluginId decided_by =
     await (soft_portfolio brokerPluginId) (\<lambda>answer.
     case answer of
       Inl err \<Rightarrow>
         await (fail_with iid decided_by (RErrorDetail NoteExitRoutingUnknown err)) (\<lambda>row. ret (Inl row))
     | Inr p \<Rightarrow>
         (case broker_position_of symb p of
            Some pos \<Rightarrow> if jgt (jabs (bp_qty pos)) j0 then ret (Inr Real) else ret (Inr Paper)
          | None \<Rightarrow> ret (Inr Paper)))"

definition resolveMode ::
  "execution_policy \<Rightarrow> string \<Rightarrow> string \<Rightarrow> string \<Rightarrow> string \<Rightarrow> (trade_intent + mode) app" where
  "resolveMode policy iid symb action decided_by =
     (if action = ''exit'' \<and> xp_broker_plugin_id policy \<noteq> '''' then
        resolveExitRouting iid symb (xp_broker_plugin_id policy) decided_by
      else await (effectiveMode policy iid action) (\<lambda>m. ret (Inr m)))"

section \<open>Real account state\<close>

definition readRealStateMaxAgeMs :: "jsnum app" where
  "readRealStateMaxAgeMs =
     await (kv_get_soft ''execution.real_state_max_age_ms'') (\<lambda>raw.
     let ms = kvNum raw DEFAULT_REAL_STATE_MAX_AGE_MS;
         low = (if \<not> is_finite ms \<or> jlt ms (Fin 30000) then Fin 30000 else ms)
     in ret (if jgt low (Fin 3600000) then Fin 3600000 else low))"

definition getRealAccountState :: "string \<Rightarrow> real_account option app" where
  "getRealAccountState brokerPluginId =
     await (nav_latest brokerPluginId) (\<lambda>found.
     case found of
       None \<Rightarrow> ret None
     | Some snapshot \<Rightarrow>
         await now (\<lambda>t.
         await readRealStateMaxAgeMs (\<lambda>maxAgeMs.
         if jgt (of_count (t - nv_ts snapshot)) maxAgeMs then ret None
         else
           await (db_read (\<lambda>w. length (filter (\<lambda>p. rp_broker_plugin_id p = brokerPluginId) (w_positions w))))
             (\<lambda>n. ret (Some
               \<lparr>ra_equity = nv_equity snapshot, ra_hwm = nv_hwm snapshot,
                ra_buying_power = nv_buying_power snapshot, ra_open_positions = n\<rparr>)))))"

section \<open>Entry risk gate\<close>

datatype risk_state = PaperState account | RealState real_account

definition risk_drawdown :: "risk_state \<Rightarrow> jsnum" where
  "risk_drawdown s =
     (case s of
        RealState r \<Rightarrow> drawdown_pct (ra_hwm r) (ra_equity r)
      | PaperState a \<Rightarrow> drawdown_pct (base_hwm a) (ac_equity a))"

definition risk_positions :: "risk_state \<Rightarrow> jsnum" where
  "risk_positions s =
     (case s of
        RealState r \<Rightarrow> of_count (int (ra_open_positions r))
      | PaperState a \<Rightarrow> of_count (int (length (ac_positions a))))"

text \<open>None: the gate passes.\<close>

definition passesAutoRisk :: "risk_state \<Rightarrow> execution_policy \<Rightarrow> msg option" where
  "passesAutoRisk s policy =
     (if jge (risk_drawdown s) (xp_max_drawdown_halt_pct policy)
      then Some (NoteDrawdown (risk_drawdown s) (xp_max_drawdown_halt_pct policy))
      else if jge (risk_positions s) (xp_max_open_positions policy)
      then Some (NoteMaxOpen (risk_positions s) (xp_max_open_positions policy))
      else None)"

definition to_risk_policy :: "execution_policy \<Rightarrow> risk_policy" where
  "to_risk_policy p =
     \<lparr>rk_max_position_pct = xp_max_position_pct p, rk_max_open_positions = xp_max_open_positions p,
      rk_max_drawdown_halt_pct = xp_max_drawdown_halt_pct p,
      rk_max_short_notional_pct = xp_max_short_notional_pct p, rk_loss_breaker = xp_loss_breaker p,
      rk_max_daily_loss_pct = xp_max_daily_loss_pct p,
      rk_max_weekly_loss_pct = xp_max_weekly_loss_pct p\<rparr>"

text \<open>
  The reason, whether the gate passes, and the paper state to carry on with. Real mode without
  a real account would read a property of \<open>null\<close>.
\<close>

definition evaluateEntryRiskGate ::
  "mode \<Rightarrow> real_account option \<Rightarrow> account \<Rightarrow> execution_policy \<Rightarrow> (msg option \<times> bool \<times> account) app" where
  "evaluateEntryRiskGate m realState paperState policy =
     (case m of
        Real \<Rightarrow>
          (case realState of
             None \<Rightarrow> throw (Exn ''TypeError'')
           | Some r \<Rightarrow>
               (let verdict = passesAutoRisk (RealState r) policy
                in ret (verdict, verdict = None, paperState)))
      | Paper \<Rightarrow>
          await (evaluateEntryGate paperState (to_risk_policy policy)) (\<lambda>gate.
          await (if \<not> gr_pass gate \<and> gr_baseline_changed gate
                 then portfolio_upsert PAPER_PORTFOLIO_NAME (gr_state gate) else ret ()) (\<lambda>_.
          ret (gr_reason gate, gr_pass gate, gr_state gate))))"

section \<open>Real execution\<close>

definition realPositionCeiling :: "jsnum \<Rightarrow> jsnum \<Rightarrow> jsnum \<Rightarrow> jsnum \<Rightarrow> jsnum" where
  "realPositionCeiling qty equity price maxPositionPct =
     (if jle qty j0 then qty
      else (let maxQty = jfloor (jdiv (jmul equity maxPositionPct) price)
            in if jgt qty maxQty then maxQty else qty))"

definition realShortCeiling :: "jsnum \<Rightarrow> jsnum \<Rightarrow> jsnum \<Rightarrow> jsnum \<Rightarrow> jsnum" where
  "realShortCeiling qty equity price maxShortNotionalPct =
     (if jle qty j0 then qty
      else (let maxQty = jfloor (jdiv (jmul equity maxShortNotionalPct) price)
            in if jgt qty maxQty then maxQty else qty))"

definition resolveRealExitQty :: "string \<Rightarrow> string \<Rightarrow> string \<Rightarrow> string \<Rightarrow> (trade_intent + jsnum) app" where
  "resolveRealExitQty iid symb brokerPluginId decided_by =
     await (soft_portfolio brokerPluginId) (\<lambda>answer.
     case answer of
       Inl err \<Rightarrow>
         await (fail_with iid decided_by (RErrorDetail NoteExitQtyUnknown err)) (\<lambda>row. ret (Inl row))
     | Inr p \<Rightarrow>
         (case broker_position_of symb p of
            None \<Rightarrow>
              await (fail_with iid decided_by (RError (NoteNoBrokerPosition symb))) (\<lambda>row. ret (Inl row))
          | Some pos \<Rightarrow>
              if jle (jabs (bp_qty pos)) j0 then
                await (fail_with iid decided_by (RError (NoteNoBrokerPosition symb))) (\<lambda>row. ret (Inl row))
              else ret (Inr (jabs (bp_qty pos)))))"

text \<open>\<open>stop\<close>: fail the intent with a reason; the guards run in order.\<close>

definition stop :: "string \<Rightarrow> string \<Rightarrow> msg \<Rightarrow> trade_intent option app" where
  "stop iid by' reason = await (fail_with iid by' (RError reason)) (\<lambda>row. ret (Some row))"

definition opens_risk :: "string \<Rightarrow> bool" where
  "opens_risk action \<longleftrightarrow> action \<noteq> ''exit'' \<and> action \<noteq> ''hold''"

definition is_entry :: "string \<Rightarrow> bool" where
  "is_entry action \<longleftrightarrow> action = ''long'' \<or> action = ''short''"

definition checkExecuteRealPreconditions ::
  "string \<Rightarrow> execution_policy \<Rightarrow> string \<Rightarrow> real_account option \<Rightarrow> string \<Rightarrow> trade_intent option app" where
  "checkExecuteRealPreconditions iid policy action realState decided_by =
     await (if opens_risk action then isRealExecutionHalted else ret False) (\<lambda>halted.
     if halted then stop iid decided_by NoteHalted
     else if xp_broker_plugin_id policy = '''' then stop iid decided_by NoteBrokerNotConfigured
     else if is_entry action \<and> realState = None then stop iid decided_by NoteRealStateUnavailable
     else if action = ''short'' \<and> \<not> xp_allow_real_short policy then
       stop iid decided_by NoteRealShortDisabled
     else if opens_risk action then
       await checkWalkForwardGate (\<lambda>gate.
       case gate of
         Some reason \<Rightarrow> stop iid decided_by (NoteWalkForward reason)
       | None \<Rightarrow> ret None)
     else ret None)"

text \<open>The quantity of a real entry, from the account, the price and the policy.\<close>

definition real_entry_qty ::
  "string \<Rightarrow> execution_policy \<Rightarrow> real_account \<Rightarrow> jsnum \<Rightarrow> jsnum \<Rightarrow> jsnum" where
  "real_entry_qty action policy r price sizingPct =
     (let sized = realPositionCeiling (jfloor (jdiv (jmul (ra_equity r) sizingPct) price))
                    (ra_equity r) price (xp_max_position_pct policy);
          shorted = (if action = ''short''
                     then realShortCeiling sized (ra_equity r) price (xp_max_short_notional_pct policy)
                     else sized);
          buyingPowerMaxQty = jfloor (jdiv (ra_buying_power r) price)
      in if jgt shorted buyingPowerMaxQty then buyingPowerMaxQty else shorted)"

definition resolveRealSideAndQty ::
  "string \<Rightarrow> string \<Rightarrow> string \<Rightarrow> execution_policy \<Rightarrow> real_account option \<Rightarrow> jsnum \<Rightarrow> jsnum \<Rightarrow> string \<Rightarrow>
   (trade_intent + string \<times> jsnum) app" where
  "resolveRealSideAndQty iid symb action policy realState price sizingPct decided_by =
     (if action = ''exit'' then
        await (resolveRealExitQty iid symb (xp_broker_plugin_id policy) decided_by) (\<lambda>exitQty.
        case exitQty of Inl row \<Rightarrow> ret (Inl row) | Inr qty \<Rightarrow> ret (Inr (''sell'', qty)))
      else
        (case realState of
           None \<Rightarrow>
             await (fail_with iid decided_by (RError NoteRealStateUnavailable)) (\<lambda>row. ret (Inl row))
         | Some r \<Rightarrow>
             if \<not> is_finite (ra_equity r) \<or> \<not> is_finite (ra_buying_power r) then
               await (fail_with iid decided_by (RError NoteNonFiniteState)) (\<lambda>row. ret (Inl row))
             else ret (Inr (if action = ''long'' then ''buy'' else ''sell'',
                            real_entry_qty action policy r price sizingPct))))"

definition order_args :: "string \<Rightarrow> execution_policy \<Rightarrow> string \<Rightarrow> string \<Rightarrow> jsnum \<Rightarrow> submit_args" where
  "order_args iid policy symb side qty =
     \<lparr>sa_intent = iid, sa_broker = xp_broker_plugin_id policy, sa_symbol = symb, sa_side = side,
      sa_qty = qty, sa_order_type = None, sa_limit_price = None\<rparr>"

definition submit_real ::
  "string \<Rightarrow> execution_policy \<Rightarrow> string \<Rightarrow> string \<Rightarrow> jsnum \<Rightarrow> string \<Rightarrow> outcome app" where
  "submit_real iid policy symb side qty decided_by =
     await (attempt (await (submit (order_args iid policy symb side qty)) (\<lambda>r. ret (Inr r)))
              (\<lambda>err. ret (Inl err))) (\<lambda>answer.
     case answer of
       Inl err \<Rightarrow>
         await (fail_with iid decided_by (ROrderError (NoteExn err) qty side symb)) (\<lambda>row. ret (row, None))
     | Inr realOrder \<Rightarrow>
         if ro_status realOrder = ''submit_failed'' then
           await (fail_with iid decided_by
             (ROrderError (case ro_error realOrder of Some e \<Rightarrow> e | None \<Rightarrow> NoteSubmissionFailed)
                qty side symb)) (\<lambda>row. ret (row, None))
         else
           await (decide iid ''real_pending'' decided_by
             (\<lambda>i. i\<lparr>ti_result := Some (RSubmitted qty side (xp_broker_plugin_id policy)
                       (ro_id realOrder) (ro_status realOrder))\<rparr>)) (\<lambda>row.
           ret (row, Some (ro_id realOrder))))"

text \<open>The quote of a real order: an error, or a price, which is then checked.\<close>

definition quote_problem :: "exn + jsnum \<Rightarrow> msg option" where
  "quote_problem q =
     (case q of
        Inl e \<Rightarrow> Some (NoteExn e)
      | Inr px \<Rightarrow> if \<not> is_finite px \<or> jle px j0 then Some (NoteInvalidQuote px) else None)"

definition place_real ::
  "string \<Rightarrow> trade_intent \<Rightarrow> execution_policy \<Rightarrow> real_account option \<Rightarrow> string \<Rightarrow> jsnum \<Rightarrow> jsnum \<Rightarrow> outcome app" where
  "place_real iid intent policy realState decided_by sizingPct price =
     await (resolveRealSideAndQty iid (ti_symbol intent) (ti_action intent) policy realState price
              sizingPct decided_by) (\<lambda>resolved.
     case resolved of
       Inl row \<Rightarrow> ret (row, None)
     | Inr (side, qty) \<Rightarrow>
         if jle qty j0 then
           await (fail_with iid decided_by (RError (NoteBadQty qty))) (\<lambda>row. ret (row, None))
         else if ti_action intent \<noteq> ''exit'' \<and> jgt (jmul qty price) (xp_max_order_notional policy) then
           await (fail_with iid decided_by
             (RNotional (NoteNotional (jmul qty price) (xp_max_order_notional policy)) qty price
                (jmul qty price) (xp_max_order_notional policy))) (\<lambda>row. ret (row, None))
         else submit_real iid policy (ti_symbol intent) side qty decided_by)"

definition executeReal ::
  "string \<Rightarrow> trade_intent \<Rightarrow> execution_policy \<Rightarrow> real_account option \<Rightarrow> string \<Rightarrow> jsnum \<Rightarrow> outcome app" where
  "executeReal iid intent policy realState decided_by sizingPct =
     await (checkExecuteRealPreconditions iid policy (ti_action intent) realState decided_by)
       (\<lambda>failedUpdate.
     case failedUpdate of
       Some row \<Rightarrow> ret (row, None)
     | None \<Rightarrow>
         await (attempt (await (quote_last (ti_symbol intent)) (\<lambda>px. ret (Inr px))) (\<lambda>e. ret (Inl e)))
           (\<lambda>q.
         if quote_problem q \<noteq> None \<and> is_entry (ti_action intent) then
           await (fail_with iid decided_by (RError (the (quote_problem q)))) (\<lambda>row. ret (row, None))
         else if ti_action intent = ''hold'' then
           await (execute_hold iid decided_by) (\<lambda>row. ret (row, None))
         else place_real iid intent policy realState decided_by sizingPct
                (case q of Inl _ \<Rightarrow> NaN | Inr px \<Rightarrow> px)))"

section \<open>Paper execution\<close>

definition runPaperExecution ::
  "string \<Rightarrow> string \<Rightarrow> string \<Rightarrow> account \<Rightarrow> string \<Rightarrow> jsnum \<Rightarrow> jsnum \<Rightarrow> jsnum \<Rightarrow> trade_intent app" where
  "runPaperExecution iid symb action state decided_by sizingPct maxPositionPct maxShortNotionalPct =
     await (attempt (await (quote_last symb) (\<lambda>px. ret (Inr px))) (\<lambda>e. ret (Inl e))) (\<lambda>q.
     case q of
       Inl err \<Rightarrow> fail_with iid decided_by (RError (NoteExn err))
     | Inr fillPrice \<Rightarrow>
         if \<not> is_finite fillPrice \<or> jle fillPrice j0 then
           fail_with iid decided_by (RError (NoteInvalidFillPrice fillPrice))
         else
           (let fr = executeFill action symb fillPrice state sizingPct maxPositionPct
                       maxShortNotionalPct j0;
                newState = fr_state fr
            in await (portfolio_upsert PAPER_PORTFOLIO_NAME newState) (\<lambda>_.
               if action = ''exit'' \<and> fr_no_position fr then
                 decide iid ''skipped'' decided_by (\<lambda>i. i\<lparr>ti_result := Some (RReason (NoteExitSkipped symb))\<rparr>)
               else
                 decide iid ''executed'' decided_by (\<lambda>i. i\<lparr>
                   ti_fill_price := Some fillPrice, ti_quantity := Some (fr_quantity fr),
                   ti_realized_pnl := fr_realized_pnl fr,
                   ti_result := Some (RPaperFill fillPrice (fr_quantity fr) (fr_realized_pnl fr)
                     (ac_equity newState) (ac_cash newState))\<rparr>))))"

section \<open>The two paths of a pending intent\<close>

definition initial_paper_state :: account where
  "initial_paper_state =
     \<lparr>ac_equity = PAPER_PORTFOLIO_INITIAL_CAPITAL, ac_cash = PAPER_PORTFOLIO_INITIAL_CAPITAL,
      ac_positions = [], ac_hwm = None, ac_day_key = None, ac_day_start_equity = None,
      ac_week_key = None, ac_week_start_equity = None, ac_max_equity = None,
      ac_max_drawdown_pct = None, ac_initial_equity = None\<rparr>"

definition load_paper_state :: "account app" where
  "load_paper_state =
     await (portfolio_find PAPER_PORTFOLIO_NAME) (\<lambda>row.
     ret (case row of Some a \<Rightarrow> a | None \<Rightarrow> initial_paper_state))"

text \<open>The execution after the gate, in the mode that was resolved.\<close>

definition execute_in ::
  "mode \<Rightarrow> trade_intent \<Rightarrow> execution_policy \<Rightarrow> real_account option \<Rightarrow> account \<Rightarrow> string \<Rightarrow> jsnum \<Rightarrow> outcome app" where
  "execute_in m intent policy realState state decided_by sizingPct =
     (case m of
        Real \<Rightarrow> executeReal (ti_id intent) intent policy realState decided_by sizingPct
      | Paper \<Rightarrow>
          await (runPaperExecution (ti_id intent) (ti_symbol intent) (ti_action intent) state decided_by
                   sizingPct (xp_max_position_pct policy) (xp_max_short_notional_pct policy))
            (\<lambda>row. ret (row, None)))"

text \<open>
  The body \<open>autoProcess\<close> and \<open>approve\<close> share; they differ in who decides and in the sizing.
\<close>

definition process_intent ::
  "trade_intent \<Rightarrow> execution_policy \<Rightarrow> string \<Rightarrow> jsnum \<Rightarrow> outcome app" where
  "process_intent intent policy decided_by sizingPct =
     (let iid = ti_id intent; action = ti_action intent in
      await (resolveMode policy iid (ti_symbol intent) action decided_by) (\<lambda>modeResult.
      case modeResult of
        Inl row \<Rightarrow> ret (row, None)
      | Inr m \<Rightarrow>
          await load_paper_state (\<lambda>paperState.
          if action = ''hold'' then await (execute_hold iid decided_by) (\<lambda>row. ret (row, None))
          else
            await (if m = Real then getRealAccountState (xp_broker_plugin_id policy) else ret None)
              (\<lambda>realState.
            if m = Real \<and> is_entry action \<and> realState = None then
              await (fail_with iid decided_by (RError NoteRealStateUnavailable)) (\<lambda>row. ret (row, None))
            else if is_entry action then
              await (evaluateEntryRiskGate m realState paperState policy) (\<lambda>(reason, pass, state).
              if \<not> pass then await (reject_with iid decided_by reason) (\<lambda>row. ret (row, None))
              else execute_in m intent policy realState state decided_by sizingPct)
            else execute_in m intent policy realState paperState decided_by sizingPct))))"

definition autoProcess :: "string \<Rightarrow> outcome app" where
  "autoProcess iid =
     await (pending_intent iid) (\<lambda>intent.
     await readExecutionPolicy (\<lambda>policy.
     process_intent intent policy ''autonomous'' (xp_max_position_pct policy)))"

definition approve :: "string \<Rightarrow> string \<Rightarrow> outcome app" where
  "approve iid decided_by =
     await (pending_intent iid) (\<lambda>intent.
     await readExecutionPolicy (\<lambda>policy.
     process_intent intent policy decided_by SIZING_PCT))"

section \<open>Recording\<close>

record intent_dto =
  dt_cycle_id :: "string option"
  dt_symbol :: string
  dt_action :: string
  dt_confidence :: jsnum
  dt_rationale :: string
  dt_timeframe :: "string option"

definition new_intent :: "string \<Rightarrow> int \<Rightarrow> intent_dto \<Rightarrow> trade_intent" where
  "new_intent iid created dto =
     \<lparr>ti_id = iid, ti_cycle_id = dt_cycle_id dto, ti_symbol = dt_symbol dto,
      ti_action = dt_action dto, ti_confidence = dt_confidence dto, ti_rationale = dt_rationale dto,
      ti_timeframe = (case dt_timeframe dto of Some t \<Rightarrow> t | None \<Rightarrow> ''1d''), ti_mode = ''paper'',
      ti_status = ''pending'', ti_created_at = created, ti_decided_at = None, ti_decided_by = None,
      ti_reject_reason = None, ti_fill_price = None, ti_quantity = None, ti_realized_pnl = None,
      ti_result = None\<rparr>"

definition find_prior :: "intent_dto \<Rightarrow> (string \<times> trade_intent) option app" where
  "find_prior dto =
     (case truthy (dt_cycle_id dto) of
        None \<Rightarrow> ret None
      | Some cycle \<Rightarrow>
          await (db_read (\<lambda>w. latest_row (\<lambda>i. - ti_created_at i)
            (\<lambda>i. ti_cycle_id i = Some cycle \<and> ti_symbol i = dt_symbol dto \<and> ti_action i = dt_action dto)
            (w_intents w))) (\<lambda>prior. ret (map_option (Pair cycle) prior)))"

definition mark_duplicate :: "intent_dto \<Rightarrow> string \<Rightarrow> trade_intent \<Rightarrow> int \<Rightarrow> trade_intent \<Rightarrow> trade_intent" where
  "mark_duplicate dto cycle prior t i =
     i\<lparr>ti_status := ''duplicate'', ti_decided_at := Some t, ti_decided_by := Some ''autonomous'',
       ti_result := Some (RReason (NoteDuplicate (dt_action dto) (dt_symbol dto) cycle (ti_id prior)))\<rparr>"

definition recordIntent :: "intent_dto \<Rightarrow> outcome app" where
  "recordIntent dto =
     (if \<not> List.member VALID_ACTIONS (dt_action dto) then throw (Exn (''Invalid action '' @ dt_action dto))
      else if \<not> is_finite (dt_confidence dto) \<or> jlt (dt_confidence dto) j0 \<or> jgt (dt_confidence dto) j1
      then throw (Exn ''Invalid confidence'')
      else
        await (find_prior dto) (\<lambda>priorInCycle.
        case priorInCycle of
          Some (cycle, prior) \<Rightarrow>
            await now (\<lambda>t. await fresh_uuid (\<lambda>iid. await now (\<lambda>created.
            await (intent_create (mark_duplicate dto cycle prior t (new_intent iid created dto)))
              (\<lambda>row. ret (row, None)))))
        | None \<Rightarrow>
            await fresh_uuid (\<lambda>iid. await now (\<lambda>created.
            await (intent_create (new_intent iid created dto)) (\<lambda>row.
            await readExecutionPolicy (\<lambda>policy.
            if xp_autonomous policy then autoProcess (ti_id row) else ret (row, None)))))))"

text \<open>The fast poll left running by an outcome.\<close>

definition background :: "outcome \<Rightarrow> unit app" where
  "background r = (case snd r of None \<Rightarrow> ret () | Some orderId \<Rightarrow> fastPollOrder orderId)"

end
