(* ===== verification/Samples.thy ===== *)
theory Samples
  imports TradeIntent
begin

text \<open>
  Concrete states on which the properties are applied: a paper account, a broker that holds a
  short position, a database with a vetted strategy and a fresh snapshot, and an environment
  whose answers are constant. They evaluate with \<open>code_simp\<close>.
\<close>

section \<open>A paper account\<close>

definition sample_account :: account where
  "sample_account =
     \<lparr>ac_equity = Fin 10000, ac_cash = Fin 9000,
      ac_positions = [\<lparr>gp_symbol = ''AAPL'', gp_quantity = Fin 10, gp_avg_price = Fin 100\<rparr>],
      ac_hwm = Some (Fin 12000), ac_day_key = None, ac_day_start_equity = None, ac_week_key = None,
      ac_week_start_equity = None, ac_max_equity = None, ac_max_drawdown_pct = None,
      ac_initial_equity = None\<rparr>"

definition sample_risk :: risk_policy where
  "sample_risk =
     \<lparr>rk_max_position_pct = Fin 1, rk_max_open_positions = Fin 10, rk_max_drawdown_halt_pct = Fin 25,
      rk_max_short_notional_pct = Fin 1, rk_loss_breaker = True, rk_max_daily_loss_pct = Fin 1,
      rk_max_weekly_loss_pct = Fin 1\<rparr>"

definition sample_fill :: fill_policy where
  "sample_fill =
     \<lparr>fp_sizing_pct = Fin 1, fp_max_position_pct = Fin 1, fp_max_short_notional_pct = Fin 1,
      fp_slippage_pct = None, fp_commission_pct = None\<rparr>"

section \<open>Answers from outside\<close>

definition sample_portfolio :: portfolio where
  "sample_portfolio =
     \<lparr>po_equity = Fin 10000, po_cash = Fin 9000, po_buying_power = Fin 9000,
      po_positions =
        [\<lparr>bp_symbol = ''AAPL'', bp_qty = Fin (- 5), bp_avg_entry = Fin 200, bp_market_value = Fin 500,
          bp_unrealized_pnl = Fin 500, bp_side = ''short''\<rparr>], po_total_pnl = Fin 500\<rparr>"

definition sample_status :: order_status where
  "sample_status =
     \<lparr>os_broker_order_id = ''b1'', os_status = ''filled'', os_filled_qty = Fin 5,
      os_filled_avg_price = Some (Fin 100), os_reject_reason = None\<rparr>"

definition sample_env :: env where
  "sample_env =
     \<lparr>env_quote = \<lambda>_ _. Inr (Some (Fin 100)), env_portfolio = \<lambda>_ _. Inr sample_portfolio,
      env_order_by_client = \<lambda>_ _ _. Inr None, env_order_status = \<lambda>_ _ _. Inr sample_status,
      env_place = \<lambda>_ _ _. Inr (Some ''b1''), env_cancel = \<lambda>_ _ _. Inr (), env_db_fault = \<lambda>_. None,
      env_now = \<lambda>n. 1000000 + int n, env_uuid = \<lambda>n. replicate n (CHR ''u''), env_has_audit = False\<rparr>"

definition refusing_env :: env where
  "refusing_env = sample_env\<lparr>env_place := \<lambda>_ _ _. Inl (Exn ''refused'')\<rparr>"

definition blind_env :: env where
  "blind_env = sample_env\<lparr>env_quote := \<lambda>_ _. Inr None\<rparr>"

section \<open>Rows\<close>

definition sample_intent :: "string \<Rightarrow> trade_intent" where
  "sample_intent a =
     \<lparr>ti_id = ''i1'', ti_cycle_id = None, ti_symbol = ''AAPL'', ti_action = a, ti_confidence = Fin 1,
      ti_rationale = '''', ti_timeframe = ''1d'', ti_mode = ''paper'', ti_status = ''pending'',
      ti_created_at = 0, ti_decided_at = None, ti_decided_by = None, ti_reject_reason = None,
      ti_fill_price = None, ti_quantity = None, ti_realized_pnl = None, ti_result = None\<rparr>"

definition sample_order :: "string \<Rightarrow> real_order" where
  "sample_order status =
     \<lparr>ro_id = ''o1'', ro_trade_intent_id = ''i1'', ro_broker_plugin_id = ''alpaca'',
      ro_client_order_id = ''c1'', ro_broker_order_id = Some ''b1'', ro_symbol = ''AAPL'',
      ro_side = ''buy'', ro_order_type = ''market'', ro_requested_qty = Fin 5, ro_limit_price = None,
      ro_status = status, ro_filled_qty = Fin 0, ro_filled_avg_price = None,
      ro_submitted_at = Some 0, ro_filled_at = None, ro_last_reconciled_at = None, ro_error = None,
      ro_created_at = 0\<rparr>"

definition sample_nav :: nav_snapshot where
  "sample_nav =
     \<lparr>nv_ts = 999000, nv_broker_plugin_id = ''alpaca'', nv_equity = Fin 10000, nv_cash = Fin 9000,
      nv_buying_power = Fin 9000, nv_positions = [], nv_total_pnl = Fin 0, nv_hwm = Fin 10000,
      nv_source = ''poll''\<rparr>"

definition sample_strategy :: strategy where
  "sample_strategy = \<lparr>st_id = ''s1'', st_verdict = Some ''ROBUSTO'', st_checked_at = Some 999000,
     st_name = ''momentum'', st_description = None, st_config = ''{}'', st_active = True,
     st_mode = ''live'', st_created_at = 0\<rparr>"

definition sample_policy :: execution_policy where
  "sample_policy = DEFAULT_EXECUTION_POLICY\<lparr>xp_real := True, xp_broker_plugin_id := ''alpaca''\<rparr>"

definition sample_world :: "trade_intent list \<Rightarrow> real_order list \<Rightarrow> world" where
  "sample_world intents orders =
     \<lparr>w_env = sample_env, w_calls = 0, w_config = (\<lambda>_. None)(''strategy.applied'' := Some ''s1''),
      w_breaker = None, w_intents = intents, w_orders = orders, w_positions = [],
      w_navs = [sample_nav], w_portfolios = \<lambda>_. None, w_strategies = [sample_strategy],
      w_alerts = [], w_audit = [], w_trace = [], w_fail_times = [], w_absent = \<lambda>_. None,
      w_tick_running = False, w_last_sync = None\<rparr>"

text \<open>The same, configured for real execution.\<close>

definition sample_live :: "string \<Rightarrow> world" where
  "sample_live a = (sample_world [sample_intent a] [])\<lparr>w_config := (\<lambda>_. None)
     (''strategy.applied'' := Some ''s1'', ''execution.real'' := Some ''true'',
      ''execution.broker_plugin_id'' := Some ''alpaca'')\<rparr>"

definition sample_args :: submit_args where
  "sample_args =
     \<lparr>sa_intent = ''i1'', sa_broker = ''alpaca'', sa_symbol = ''AAPL'', sa_side = ''buy'',
      sa_qty = Fin 5, sa_order_type = None, sa_limit_price = None\<rparr>"

end
