(* ===== verification/GovernedFacts.thy ===== *)
theory GovernedFacts
  imports GovernedExec WorldFacts
begin

text \<open>
  Facts about the governed execution core: sizing ceilings, signs of positions, high-water
  marks, closeability, the entry gate's verdict, and conservation of money where the
  arithmetic is exact.
\<close>

section \<open>Ceilings\<close>

text \<open>
  The contract both ceilings share: the result never exceeds the requested quantity, never
  exceeds the ceiling once it is positive, and a non-positive request passes through.
\<close>

locale quantity_ceiling =
  fixes clamp :: "jsnum \<Rightarrow> jsnum \<Rightarrow> jsnum \<Rightarrow> jsnum \<Rightarrow> jsnum"
  assumes clamp_le_request: "qty \<noteq> NaN \<Longrightarrow> jle (clamp qty equity price pct) qty"
    and clamp_le_ceiling: "jgt (clamp qty equity price pct) j0 \<Longrightarrow> ceiling_qty equity price pct \<noteq> NaN \<Longrightarrow>
      jle (clamp qty equity price pct) (ceiling_qty equity price pct)"
    and clamp_choice: "clamp qty equity price pct = qty \<or>
      clamp qty equity price pct = ceiling_qty equity price pct"
begin

lemma clamp_pos_request: "jgt (clamp qty equity price pct) j0 \<Longrightarrow> qty \<noteq> NaN \<Longrightarrow> jgt qty j0"
  using clamp_le_request by (rule jlt_jle_trans [rotated]) auto

end

lemma ceiling_rule:
  assumes "c = (if jle qty j0 then qty else let m = ceiling_qty e p pct in if jgt qty m then m else qty)"
  shows "(qty \<noteq> NaN \<longrightarrow> jle c qty) \<and>
    (jgt c j0 \<longrightarrow> ceiling_qty e p pct \<noteq> NaN \<longrightarrow> jle c (ceiling_qty e p pct)) \<and>
    (c = qty \<or> c = ceiling_qty e p pct)"
proof (cases "jle qty j0 \<or> \<not> jgt qty (ceiling_qty e p pct)")
  case True
  then have c: "c = qty" using assms by (auto simp: Let_def)
  have "jgt qty j0 \<Longrightarrow> ceiling_qty e p pct \<noteq> NaN \<Longrightarrow> jle qty (ceiling_qty e p pct)"
    using True not_jlt_iff [of "ceiling_qty e p pct" qty] jlt_not_NaN [of j0 qty]
      jle_jlt_trans [of qty j0 qty] by auto
  with c show ?thesis by (auto simp: jle_refl)
next
  case False
  then have "c = ceiling_qty e p pct" using assms by (auto simp: Let_def)
  with False show ?thesis by (auto simp: jle_refl jlt_imp_jle)
qed

interpretation position_ceiling: quantity_ceiling clampToPositionCeiling
  using ceiling_rule [OF clampToPositionCeiling_def] by unfold_locales blast+

interpretation short_ceiling: quantity_ceiling clampToShortNotionalCeiling
  using ceiling_rule [OF clampToShortNotionalCeiling_def] by unfold_locales blast+

section \<open>Account shape\<close>

text \<open>One position per symbol: what the code's \<open>find\<close> by symbol relies on.\<close>

definition one_per_symbol :: "account \<Rightarrow> bool" where
  "one_per_symbol a \<longleftrightarrow> distinct (map gp_symbol (ac_positions a))"

lemma bump_hwm_frame [simp]:
  "ac_positions (bump_hwm h a) = ac_positions a" "ac_cash (bump_hwm h a) = ac_cash a"
  "ac_equity (bump_hwm h a) = ac_equity a" "ac_hwm (bump_hwm h a) = Some (jmax h (ac_equity a))"
  by (simp_all add: bump_hwm_def)

lemma revalue_frame [simp]:
  "ac_positions (revalue h px s a) = ac_positions a" "ac_cash (revalue h px s a) = ac_cash a"
  "ac_equity (revalue h px s a) = jadd (ac_cash a) (positionsValue (ac_positions a) px s)"
  "ac_hwm (revalue h px s a) = Some (jmax h (ac_equity (revalue h px s a)))"
  by (simp_all add: revalue_def)

lemma no_fill_frame [simp]:
  "fr_state (no_fill h a) = bump_hwm h a" "fr_quantity (no_fill h a) = j0"
  by (simp_all add: no_fill_def)

lemma position_of_cong: "ac_positions a = ac_positions b \<Longrightarrow> position_of s a = position_of s b"
  by (simp add: position_of_def)

lemma position_qty_cong: "ac_positions a = ac_positions b \<Longrightarrow> position_qty s a = position_qty s b"
  by (simp add: position_qty_def position_of_def)

lemma position_of_frame [simp]:
  "position_of s (bump_hwm h a) = position_of s a" "position_of s (revalue h px t a) = position_of s a"
  "position_qty s (bump_hwm h a) = position_qty s a" "position_qty s (revalue h px t a) = position_qty s a"
  by (simp_all add: position_of_def position_qty_def)

lemma merge_position_frame [simp]:
  "ac_cash (merge_position s f n a) = ac_cash a" "ac_equity (merge_position s f n a) = ac_equity a"
  "ac_hwm (merge_position s f n a) = ac_hwm a"
  by (simp_all add: merge_position_def split: option.splits)

lemma find_append_None: "find p xs = None \<Longrightarrow> find p (xs @ [x]) = (if p x then Some x else None)"
  by (induction xs) (auto split: if_splits)

text \<open>After merging, the symbol's position is the grown one or the new one.\<close>

lemma position_of_merge:
  assumes "\<And>p. gp_symbol (f p) = gp_symbol p" "gp_symbol n = s"
  shows "position_of s (merge_position s f n a) =
    Some (case position_of s a of Some p \<Rightarrow> f p | None \<Rightarrow> n)"
proof (cases "position_of s a")
  case None
  then show ?thesis using assms(2) by (simp add: merge_position_def position_of_def find_append_None)
next
  case (Some p)
  then have "gp_symbol p = s" by (auto simp: position_of_def find_Some_iff)
  with Some assms(1) show ?thesis
    by (simp add: merge_position_def position_of_def find_upd_first [where f = f])
qed

lemma one_per_symbol_merge:
  assumes "\<And>p. gp_symbol (f p) = gp_symbol p" "gp_symbol n = s" "one_per_symbol a"
  shows "one_per_symbol (merge_position s f n a)"
  using assms
  by (auto simp: merge_position_def one_per_symbol_def position_of_def map_upd_first find_None_iff
      split: option.splits)

lemma grow_symbol [simp]:
  "gp_symbol (grow_long b q p) = gp_symbol p" "gp_symbol (grow_short b q p) = gp_symbol p"
  by (simp_all add: grow_long_def grow_short_def Let_def)

lemma one_per_symbol_frame [simp]:
  "one_per_symbol (bump_hwm h a) = one_per_symbol a"
  "one_per_symbol (revalue h px s a) = one_per_symbol a"
  "one_per_symbol (a\<lparr>ac_cash := c\<rparr>) = one_per_symbol a"
  by (simp_all add: one_per_symbol_def)

lemma one_per_symbol_long: "one_per_symbol a \<Longrightarrow>
    one_per_symbol (fr_state (executeLong s px a h sz mp e c))"
  by (simp add: executeLong_def Let_def one_per_symbol_merge)

lemma one_per_symbol_short: "one_per_symbol a \<Longrightarrow>
    one_per_symbol (fr_state (executeShort s px a h sz mp ms e c))"
  by (simp add: executeShort_def Let_def one_per_symbol_merge)

lemma one_per_symbol_exit: "one_per_symbol a \<Longrightarrow> one_per_symbol (fr_state (executeExit s px a h c))"
  by (auto simp: executeExit_def Let_def one_per_symbol_def distinct_map_del_first
      split: option.splits)

lemmas one_per_symbol_ops = one_per_symbol_long one_per_symbol_short one_per_symbol_exit

text \<open>the fill of any action keeps one position per symbol.\<close>

theorem executeFill_one_per_symbol:
  "one_per_symbol a \<Longrightarrow> one_per_symbol (fr_state (executeFill action s px a sz mp ms c))"
  by (simp add: executeFill_def one_per_symbol_ops)

section \<open>Exits\<close>

lemma exit_closes:
  assumes "one_per_symbol a"
  shows "position_of s (fr_state (executeExit s px a h c)) = None"
  using assms
  by (auto simp: executeExit_def Let_def position_of_def one_per_symbol_def find_del_first_key
      split: option.splits)

lemma exit_keeps_others:
  assumes "one_per_symbol a"
  shows "set (ac_positions (fr_state (executeExit s px a h c))) =
    {p \<in> set (ac_positions a). gp_symbol p \<noteq> s}"
  using assms
  by (auto simp: executeExit_def Let_def position_of_def one_per_symbol_def set_del_first_key
      find_None_iff split: option.splits)

lemma exit_no_position: "fr_no_position (executeExit s px a h c) \<longleftrightarrow> position_of s a = None"
  by (simp add: executeExit_def Let_def no_fill_def split: option.splits)

lemma executeFill_exit:
  "executeFill ''exit'' s px a sz mp ms c = executeExit s px a (base_hwm a) c"
  by (simp add: executeFill_def)

text \<open>
  an exit closes the whole position of its symbol and no other; it records "nothing to
  close" exactly when there was none.
\<close>

theorem executeFill_exit_closes:
  assumes "one_per_symbol a"
  shows "set (ac_positions (fr_state (executeFill ''exit'' s px a sz mp ms c))) =
           {p \<in> set (ac_positions a). gp_symbol p \<noteq> s} \<and>
         (fr_no_position (executeFill ''exit'' s px a sz mp ms c) \<longleftrightarrow> position_of s a = None)"
  using exit_keeps_others [OF assms] exit_no_position by (simp add: executeFill_exit)

section \<open>High-water mark\<close>

definition marked :: "jsnum \<Rightarrow> account \<Rightarrow> bool" where
  "marked h a \<longleftrightarrow> ac_hwm a = Some (jmax h (ac_equity a))"

lemma marked_ops:
  "marked h (bump_hwm h a)" "marked h (revalue h px s a)" "marked h (fr_state (no_fill h a))"
  by (simp_all add: marked_def bump_hwm_def revalue_def no_fill_def)

lemma marked_long: "marked h (fr_state (executeLong s px a h sz mp e c))"
  by (simp add: executeLong_def Let_def marked_ops)

lemma marked_short: "marked h (fr_state (executeShort s px a h sz mp ms e c))"
  by (simp add: executeShort_def Let_def marked_ops)

lemma marked_exit: "marked h (fr_state (executeExit s px a h c))"
  by (simp add: executeExit_def Let_def no_fill_def marked_ops split: option.splits)

lemma executeFill_marked: "marked (base_hwm a) (fr_state (executeFill action s px a sz mp ms c))"
  by (simp add: executeFill_def marked_long marked_short marked_exit marked_ops)

text \<open>a fill never lowers the high-water mark, which stays at or above the new equity.\<close>

theorem executeFill_hwm_monotone:
  fixes action s px a sz mp ms c
  defines "n \<equiv> fr_state (executeFill action s px a sz mp ms c)"
  assumes "base_hwm a \<noteq> NaN" "ac_equity n \<noteq> NaN"
  shows "jle (base_hwm a) (base_hwm n) \<and> jle (ac_equity n) (base_hwm n)"
proof -
  have "base_hwm n = jmax (base_hwm a) (ac_equity n)"
    using executeFill_marked unfolding n_def by (simp add: marked_def base_hwm_def)
  with assms(2,3) show ?thesis using jmax_ge1 jmax_ge2 jmax_eq_NaN by metis
qed

section \<open>Signs of positions\<close>

lemma mk_num_ge_1: "1 \<le> r \<Longrightarrow> jle j1 (mk_num r)"
  using mk_num_mono [of 1 r] mk_num_of_int [of 1] by simp

lemma floored_pos: "jfloor x = q \<Longrightarrow> jlt j0 q \<Longrightarrow> jle j1 q"
  by (cases x) auto

lemma budget_qty_floored: "\<exists>x. budget_qty cash sz px c = jfloor x"
proof (cases "jgt (jmul px (jadd j1 c)) j0")
  case True
  then show ?thesis unfolding budget_qty_def Let_def by auto
next
  case False
  then have "budget_qty cash sz px c = jfloor j0" by (simp add: budget_qty_def Let_def)
  then show ?thesis by blast
qed

lemma position_clamp_floored: "\<exists>x. clampToPositionCeiling (jfloor y) e px pct = jfloor x"
  using position_ceiling.clamp_choice [of "jfloor y" e px pct] unfolding ceiling_qty_def by metis

lemma short_clamp_floored: "\<exists>x. clampToShortNotionalCeiling (jfloor y) e px pct = jfloor x"
  using short_ceiling.clamp_choice [of "jfloor y" e px pct] unfolding ceiling_qty_def by metis

lemma long_qty_floored:
  "\<exists>x. clampToPositionCeiling (budget_qty cash sz px c) e px pct = jfloor x"
  using budget_qty_floored [of cash sz px c] position_clamp_floored by metis

lemma short_qty_floored:
  "\<exists>x. clampToShortNotionalCeiling (clampToPositionCeiling (budget_qty cash sz px c) e px pct) e px ms
     = jfloor x"
  using long_qty_floored [of cash sz px c e pct] short_clamp_floored by metis

lemma jadd_pos: "jle j0 a \<Longrightarrow> jle j1 q \<Longrightarrow> jlt j0 (jadd a q)"
proof (cases a; cases q)
  fix r s
  assume "jle j0 a" "jle j1 q" "a = Fin r" "q = Fin s"
  then have "jle j1 (jadd a q)" by (simp add: mk_num_ge_1)
  then show ?thesis by (rule jlt_jle_trans [rotated]) simp
qed auto

text \<open>Long fills: the quantity, and the symbol's position afterwards.\<close>

lemma long_position_after:
  fixes s px a h sz mp e c
  defines "r \<equiv> executeLong s px a h sz mp e c"
  assumes pos: "jgt (fr_quantity r) j0"
  shows "position_qty s (fr_state r) = (case position_of s a of
           Some p \<Rightarrow> jadd (gp_quantity p) (fr_quantity r) | None \<Rightarrow> fr_quantity r)"
  using pos unfolding r_def
  by (auto simp: executeLong_def Let_def position_qty_def position_of_merge grow_long_def
      position_of_cong [of "a\<lparr>ac_cash := _\<rparr>" a] split: if_splits option.splits)

lemma short_position_after:
  fixes s px a h sz mp ms e c
  defines "r \<equiv> executeShort s px a h sz mp ms e c"
  assumes pos: "jgt (fr_quantity r) j0"
  shows "position_qty s (fr_state r) = jneg (case position_of s a of
           Some p \<Rightarrow> jadd (jabs (gp_quantity p)) (fr_quantity r) | None \<Rightarrow> fr_quantity r)"
  using pos unfolding r_def
  by (auto simp: executeShort_def Let_def position_qty_def position_of_merge grow_short_def
      position_of_cong [of "a\<lparr>ac_cash := _\<rparr>" a] split: if_splits option.splits)

lemma executeLong_qty_cases:
  "executeLong s px a h sz mp e c = no_fill h a \<or>
   (\<not> jlt (position_qty s a) j0 \<and>
    fr_quantity (executeLong s px a h sz mp e c) =
      clampToPositionCeiling (budget_qty (ac_cash a) sz px c) e px mp \<and>
    \<not> jle (fr_quantity (executeLong s px a h sz mp e c)) j0)"
  by (simp add: executeLong_def Let_def)

lemma executeShort_qty_cases:
  "executeShort s px a h sz mp ms e c = no_fill h a \<or>
   (\<not> jgt (position_qty s a) j0 \<and>
    fr_quantity (executeShort s px a h sz mp ms e c) =
      clampToShortNotionalCeiling
        (clampToPositionCeiling (budget_qty (ac_cash a) sz px c) e px mp) e px ms \<and>
    \<not> jle (fr_quantity (executeShort s px a h sz mp ms e c)) j0)"
  by (simp add: executeShort_def Let_def)

lemma long_positive_after:
  fixes s px a h sz mp e c
  defines "r \<equiv> executeLong s px a h sz mp e c"
  assumes q: "jgt (fr_quantity r) j0" and old: "position_qty s a \<noteq> NaN"
  shows "jge (position_qty s a) j0 \<and> jgt (position_qty s (fr_state r)) j0"
proof -
  have nf: "r \<noteq> no_fill h a" using q by auto
  then have old_pos: "jge (position_qty s a) j0"
    using executeLong_qty_cases [of s px a h sz mp e c] old not_jlt_iff [of _ j0]
    unfolding r_def by auto
  have "\<exists>x. fr_quantity r = jfloor x"
    using nf executeLong_qty_cases [of s px a h sz mp e c] long_qty_floored
    unfolding r_def by metis
  then have "jle j1 (fr_quantity r)" using q floored_pos by metis
  with old_pos q show ?thesis
    using long_position_after [OF q [unfolded r_def]] jadd_pos
    unfolding r_def by (auto simp: position_qty_def split: option.splits)
qed

lemma jabs_nonneg: "x \<noteq> NaN \<Longrightarrow> jle j0 (jabs x)"
  by (cases x) auto

lemma jneg_pos: "jlt j0 x \<Longrightarrow> jlt (jneg x) j0"
  by (cases x) auto

lemma short_negative_after:
  fixes s px a h sz mp ms e c
  defines "r \<equiv> executeShort s px a h sz mp ms e c"
  assumes q: "jgt (fr_quantity r) j0" and old: "position_qty s a \<noteq> NaN"
  shows "jle (position_qty s a) j0 \<and> jlt (position_qty s (fr_state r)) j0"
proof -
  have nf: "r \<noteq> no_fill h a" using q by auto
  then have old_neg: "jle (position_qty s a) j0"
    using executeShort_qty_cases [of s px a h sz mp ms e c] old not_jlt_iff [of j0 "position_qty s a"]
    unfolding r_def by auto
  have "\<exists>x. fr_quantity r = jfloor x"
    using nf executeShort_qty_cases [of s px a h sz mp ms e c] short_qty_floored
    unfolding r_def by metis
  then have q1: "jle j1 (fr_quantity r)" using q floored_pos by metis
  have "jlt j0 (case position_of s a of
      Some p \<Rightarrow> jadd (jabs (gp_quantity p)) (fr_quantity r) | None \<Rightarrow> fr_quantity r)"
    using q q1 old jadd_pos jabs_nonneg
    by (auto simp: position_qty_def split: option.splits)
  with old_neg show ?thesis
    using short_position_after [OF q [unfolded r_def]] jneg_pos unfolding r_def by simp
qed

lemma executeFill_long:
  "executeFill ''long'' s px a sz mp ms c = executeLong s px a (base_hwm a) sz mp (ac_equity a) c"
  by (simp add: executeFill_def)

lemma executeFill_short:
  "executeFill ''short'' s px a sz mp ms c =
     executeShort s px a (base_hwm a) sz mp ms (ac_equity a) c"
  by (simp add: executeFill_def)

text \<open>a fill never crosses zero: a long that fills had no short to sit on and leaves a long
  position, a short that fills had no long and leaves a short position.
\<close>

theorem executeFill_never_crosses:
  assumes "position_qty s a \<noteq> NaN"
  shows "(jgt (fr_quantity (executeFill ''long'' s px a sz mp ms c)) j0 \<longrightarrow>
            jge (position_qty s a) j0 \<and>
            jgt (position_qty s (fr_state (executeFill ''long'' s px a sz mp ms c))) j0) \<and>
         (jgt (fr_quantity (executeFill ''short'' s px a sz mp ms c)) j0 \<longrightarrow>
            jle (position_qty s a) j0 \<and>
            jlt (position_qty s (fr_state (executeFill ''short'' s px a sz mp ms c))) j0)"
  using long_positive_after [OF _ assms] short_negative_after [OF _ assms]
  by (simp add: executeFill_long executeFill_short)

text \<open>
  C38: no entry fills more than its ceilings allow for the account's equity: the position
  ceiling for both directions, and the short-notional ceiling for shorts.
\<close>

theorem executeFill_within_ceilings:
  assumes "ceiling_qty (ac_equity a) px mp \<noteq> NaN" "ceiling_qty (ac_equity a) px ms \<noteq> NaN"
    "budget_qty (ac_cash a) sz px c \<noteq> NaN"
  shows "(jgt (fr_quantity (executeFill ''long'' s px a sz mp ms c)) j0 \<longrightarrow>
            jle (fr_quantity (executeFill ''long'' s px a sz mp ms c))
                (ceiling_qty (ac_equity a) px mp)) \<and>
         (jgt (fr_quantity (executeFill ''short'' s px a sz mp ms c)) j0 \<longrightarrow>
            jle (fr_quantity (executeFill ''short'' s px a sz mp ms c))
                (jmin (ceiling_qty (ac_equity a) px mp) (ceiling_qty (ac_equity a) px ms)))"
proof (intro conjI impI)
  let ?L = "executeLong s px a (base_hwm a) sz mp (ac_equity a) c"
  assume "jgt (fr_quantity (executeFill ''long'' s px a sz mp ms c)) j0"
  then have q: "jgt (fr_quantity ?L) j0" by (simp add: executeFill_long)
  then have "?L \<noteq> no_fill (base_hwm a) a" by auto
  then show "jle (fr_quantity (executeFill ''long'' s px a sz mp ms c)) (ceiling_qty (ac_equity a) px mp)"
    using executeLong_qty_cases q position_ceiling.clamp_le_ceiling assms(1)
    unfolding executeFill_long by metis
next
  let ?S = "executeShort s px a (base_hwm a) sz mp ms (ac_equity a) c"
  let ?m = "clampToPositionCeiling (budget_qty (ac_cash a) sz px c) (ac_equity a) px mp"
  assume "jgt (fr_quantity (executeFill ''short'' s px a sz mp ms c)) j0"
  then have q: "jgt (fr_quantity ?S) j0" by (simp add: executeFill_short)
  then have "?S \<noteq> no_fill (base_hwm a) a" by auto
  then have S: "fr_quantity ?S = clampToShortNotionalCeiling ?m (ac_equity a) px ms"
    using executeShort_qty_cases by metis
  have m: "?m \<noteq> NaN" using position_ceiling.clamp_choice assms(1,3) by metis
  have "jle (fr_quantity ?S) (ceiling_qty (ac_equity a) px ms)"
    using q S assms(2) short_ceiling.clamp_le_ceiling by metis
  moreover have "jle (fr_quantity ?S) ?m" using S m short_ceiling.clamp_le_request by metis
  moreover have "jle ?m (ceiling_qty (ac_equity a) px mp)"
    using q S m assms(1) short_ceiling.clamp_pos_request position_ceiling.clamp_le_ceiling by metis
  ultimately show "jle (fr_quantity (executeFill ''short'' s px a sz mp ms c))
      (jmin (ceiling_qty (ac_equity a) px mp) (ceiling_qty (ac_equity a) px ms))"
    using assms(1,2) jle_trans unfolding executeFill_short by (auto simp: jmin_def)
qed

section \<open>Mark to market\<close>

text \<open>A provider that cannot price a symbol: no answer, no quote, or a price that is no price.\<close>

definition unpriceable :: "env \<Rightarrow> string \<Rightarrow> bool" where
  "unpriceable en s \<longleftrightarrow> (\<forall>n. case env_quote en n s of
      Inl _ \<Rightarrow> True | Inr None \<Rightarrow> True | Inr (Some px) \<Rightarrow> \<not> is_finite px \<or> jle px j0)"

text \<open>One position priced: what the callback passed to \<open>positions.map\<close> does to the running total.\<close>

definition price_one :: "exn + jsnum option \<Rightarrow> gposition \<Rightarrow> bool \<times> jsnum \<Rightarrow> bool \<times> jsnum" where
  "price_one q p acc = (case q of
      Inl _ \<Rightarrow> (False, snd acc) | Inr None \<Rightarrow> (False, snd acc)
    | Inr (Some px) \<Rightarrow> if \<not> is_finite px \<or> jle px j0 then (False, snd acc)
        else (fst acc, jadd (snd acc) (jmul px (gp_quantity p))))"

lemma price_positions_step:
  "price_positions (p # ps) acc w =
     price_positions ps (price_one (env_quote (w_env w) (w_calls w) (gp_symbol p)) p acc)
       (note_event (EvQuote (gp_symbol p)) w)"
  by (cases acc) (auto simp: price_one_def await_def attempt_def get_quote_def ret_def
      split: sum.splits option.splits)

lemma price_one_failed: "\<not> fst acc \<Longrightarrow> \<not> fst (price_one q p acc)"
  by (auto simp: price_one_def split: sum.splits option.splits)

lemma price_positions_returns:
  "\<exists>b t w'. price_positions ps acc w = (Inr (b, t), w') \<and> w_env w' = w_env w"
proof (induction ps arbitrary: acc w)
  case Nil
  then show ?case by (cases acc) (simp add: ret_def)
next
  case (Cons p ps)
  then show ?case unfolding price_positions_step by (metis note_event_simps(1))
qed

lemma price_positions_failed:
  "\<not> fst acc \<Longrightarrow> fst (price_positions ps acc w) = Inr (b, u) \<Longrightarrow> \<not> b"
proof (induction ps arbitrary: acc w)
  case Nil
  then show ?case by (cases acc) (simp add: ret_def)
next
  case (Cons p ps)
  then show ?case unfolding price_positions_step using price_one_failed by blast
qed

lemma price_positions_unpriceable:
  assumes "p \<in> set ps" "unpriceable (w_env w) (gp_symbol p)"
  shows "fst (price_positions ps acc w) = Inr (b, u) \<Longrightarrow> \<not> b"
  using assms
proof (induction ps arbitrary: acc w)
  case Nil
  then show ?case by simp
next
  case (Cons q ps)
  show ?case
  proof (cases "p = q")
    case True
    with Cons.prems(3) have "\<not> fst (price_one (env_quote (w_env w) (w_calls w) (gp_symbol q)) q acc)"
      unfolding unpriceable_def price_one_def by (force split: sum.splits option.splits)
    with Cons.prems(1) price_positions_failed show ?thesis unfolding price_positions_step by blast
  next
    case False
    from Cons.prems(1) show ?thesis
      unfolding price_positions_step
      by (rule Cons.IH) (use Cons.prems(2,3) False in auto)
  qed
qed

lemma markToMarket_returns: "\<exists>eq h ok w'. markToMarket a w = (Inr (eq, h, ok), w') \<and> w_env w' = w_env w"
  using price_positions_returns [of "ac_positions a" "(True, j0)" w]
  by (auto simp: markToMarket_def await_def ret_def Let_def)

lemma markToMarket_unpriceable:
  assumes "p \<in> set (ac_positions a)" "unpriceable (w_env w) (gp_symbol p)"
  shows "fst (markToMarket a w) = Inr (eq, h, ok) \<Longrightarrow> \<not> ok"
proof -
  assume r: "fst (markToMarket a w) = Inr (eq, h, ok)"
  obtain b t w' where pp: "price_positions (ac_positions a) (True, j0) w = (Inr (b, t), w')"
    using price_positions_returns by blast
  then have "\<not> b" using price_positions_unpriceable [OF assms] by (metis fst_conv)
  moreover have "ac_positions a \<noteq> []" using assms(1) by auto
  ultimately show "\<not> ok" using r pp by (simp add: markToMarket_def await_def ret_def)
qed

section \<open>Entry gate\<close>

text \<open>the gate fails closed: when one open position cannot be priced no entry passes, the
  account is handed back unchanged and no baseline moves.
\<close>

theorem evaluateEntryGate_fails_closed:
  assumes "p \<in> set (ac_positions a)" "unpriceable (w_env w) (gp_symbol p)"
  shows "fst (evaluateEntryGate a pol w) = Inr (reject_gate NoteMtmUnavailable a False)"
proof -
  obtain eq h ok w' where m: "markToMarket a w = (Inr (eq, h, ok), w')"
    using markToMarket_returns by blast
  then have "\<not> ok" using markToMarket_unpriceable [OF assms] by (metis fst_conv)
  with m show ?thesis by (simp add: evaluateEntryGate_def await_def ret_def)
qed

lemma auditLossBreakerTrip_returns: "\<exists>w'. auditLossBreakerTrip period r w = (Inr (), w')"
  by (auto simp: auditLossBreakerTrip_def await_def attempt_def gets_def ret_def
      split: sum.splits prod.splits)

lemma sync_positions [simp]: "ac_positions (fst (syncPeriodBaselines a m t)) = ac_positions a"
  by (simp add: syncPeriodBaselines_def Let_def)

text \<open>What the gate answers once the positions are priced, as a function of equity and time.\<close>

definition gate_verdict :: "account \<Rightarrow> risk_policy \<Rightarrow> jsnum \<Rightarrow> jsnum \<Rightarrow> int \<Rightarrow> gate_result" where
  "gate_verdict a pol equity hwm t =
     (let (synced, changed) = syncPeriodBaselines a equity t
      in case loss_breaker pol synced equity of
           Some (_, reason) \<Rightarrow> reject_gate reason synced changed
         | None \<Rightarrow>
             (let fresh = synced\<lparr>ac_equity := equity, ac_hwm := Some hwm\<rparr>
              in case gate_limits pol fresh of
                   Some reason \<Rightarrow> reject_gate reason fresh changed
                 | None \<Rightarrow> \<lparr>gr_pass = True, gr_reason = None, gr_state = fresh,
                            gr_baseline_changed = changed\<rparr>))"

lemma evaluateEntryGate_verdict:
  assumes "markToMarket a w = (Inr (equity, hwm, True), w')"
  shows "fst (evaluateEntryGate a pol w) =
    Inr (gate_verdict a pol equity hwm (env_now (w_env w') (w_calls w')))"
proof -
  obtain synced changed where
    s: "syncPeriodBaselines a equity (env_now (w_env w') (w_calls w')) = (synced, changed)"
    by fastforce
  have trip: "\<exists>w''. auditLossBreakerTrip p r v = (Inr (), w'')" for p r v
    by (rule auditLossBreakerTrip_returns)
  show ?thesis
  proof (cases "loss_breaker pol synced equity")
    case None
    then show ?thesis
      by (simp add: assms evaluateEntryGate_def gate_verdict_def await_def now_def s ret_def Let_def
          split: option.splits)
  next
    case (Some pr)
    obtain p r where "pr = (p, r)" by (cases pr)
    moreover obtain w'' where "auditLossBreakerTrip p r (tock w') = (Inr (), w'')" using trip by blast
    ultimately show ?thesis using Some
      by (simp add: assms evaluateEntryGate_def gate_verdict_def await_def now_def s ret_def)
  qed
qed

lemma gate_verdict_pass:
  assumes "gr_pass (gate_verdict a pol equity hwm t)"
  shows "ac_positions (gr_state (gate_verdict a pol equity hwm t)) = ac_positions a \<and>
    ac_equity (gr_state (gate_verdict a pol equity hwm t)) = equity \<and>
    loss_breaker pol (gr_state (gate_verdict a pol equity hwm t)) equity = None \<and>
    gate_limits pol (gr_state (gate_verdict a pol equity hwm t)) = None"
proof -
  obtain synced changed where s: "syncPeriodBaselines a equity t = (synced, changed)" by fastforce
  then have ps: "ac_positions synced = ac_positions a" by (metis fst_conv sync_positions)
  show ?thesis using assms ps
    by (auto simp: gate_verdict_def s reject_gate_def Let_def loss_breaker_def
        split: option.splits prod.splits)
qed

lemma evaluateEntryGate_cases:
  "(\<exists>eq h w'. markToMarket a w = (Inr (eq, h, False), w') \<and>
      fst (evaluateEntryGate a pol w) = Inr (reject_gate NoteMtmUnavailable a False)) \<or>
   (\<exists>eq h w' t. markToMarket a w = (Inr (eq, h, True), w') \<and>
      fst (evaluateEntryGate a pol w) = Inr (gate_verdict a pol eq h t))"
proof -
  obtain eq h ok w' where m: "markToMarket a w = (Inr (eq, h, ok), w')"
    using markToMarket_returns by blast
  show ?thesis
  proof (cases ok)
    case True
    with m have m': "markToMarket a w = (Inr (eq, h, True), w')" by simp
    show ?thesis using evaluateEntryGate_verdict [OF m', of pol] m' by blast
  next
    case False
    with m show ?thesis by (simp add: evaluateEntryGate_def await_def ret_def)
  qed
qed

text \<open>an entry passes only below every limit: drawdown below the halt, fewer open positions
  than the maximum, and with the breaker on, the day's and the week's loss below theirs, all
  judged on the marked-to-market equity, with the positions untouched.
\<close>

theorem evaluateEntryGate_pass_limits:
  assumes "fst (evaluateEntryGate a pol w) = Inr g" "gr_pass g"
  shows "\<not> jge (computeDrawdownPct (gr_state g)) (rk_max_drawdown_halt_pct pol) \<and>
         \<not> jge (of_count (int (length (ac_positions a)))) (rk_max_open_positions pol) \<and>
         (rk_loss_breaker pol \<longrightarrow>
            checkPeriodLossLimit (ac_day_start_equity (gr_state g)) (ac_equity (gr_state g))
              (rk_max_daily_loss_pct pol) ''daily'' = None \<and>
            checkPeriodLossLimit (ac_week_start_equity (gr_state g)) (ac_equity (gr_state g))
              (rk_max_weekly_loss_pct pol) ''weekly'' = None) \<and>
         (\<exists>h w'. markToMarket a w = (Inr (ac_equity (gr_state g), h, True), w')) \<and>
         ac_positions (gr_state g) = ac_positions a"
proof -
  obtain eq h w' t where m: "markToMarket a w = (Inr (eq, h, True), w')"
    and g: "g = gate_verdict a pol eq h t"
    using evaluateEntryGate_cases [of a w pol] assms by (auto simp: reject_gate_def)
  note p = gate_verdict_pass [OF assms(2) [unfolded g], folded g]
  have lim: "gate_limits pol (gr_state g) = None" using p by simp
  have "loss_breaker pol (gr_state g) (ac_equity (gr_state g)) = None" using p by simp
  then show ?thesis using lim m p
    by (auto simp: gate_limits_def loss_breaker_def Let_def split: if_splits option.splits)
qed

section \<open>Closeability\<close>

text \<open>closing is always reachable: whatever the risk policy (halted, drawn down, at its
  position count), an exit with a usable quote passes and leaves no position of its symbol.
\<close>

theorem evaluateAndExecuteEntry_exit_closes:
  assumes "one_per_symbol a" "env_quote (w_env w) (w_calls w) s = Inr (Some (Fin px))" "0 < px"
  shows "\<exists>r w'. evaluateAndExecuteEntry ''exit'' s a rp fp w = (Inr r, w') \<and> xr_pass r \<and>
    set (ac_positions (xr_state r)) = {p \<in> set (ac_positions a). gp_symbol p \<noteq> s}"
  using assms exit_keeps_others [OF assms(1)]
  by (simp add: evaluateAndExecuteEntry_def fill_at_quote_def quote_last_def await_def attempt_def
      get_quote_def ret_def Let_def executeFill_exit)

section \<open>Conservation of money\<close>

text \<open>
  Where every amount is an integer and the sums stay within \<open>2 ^ 53\<close>, binary64 arithmetic is
  exact, and a commission-free fill moves money between cash and the position without creating
  or destroying any. \<open>units\<close> reads such a number; \<open>worth\<close> is a position at the fill price.
\<close>

definition units :: "jsnum \<Rightarrow> int" where
  "units x = (case x of Fin r \<Rightarrow> \<lfloor>r\<rfloor> | _ \<Rightarrow> 0)"

definition integral :: "jsnum \<Rightarrow> bool" where
  "integral x \<longleftrightarrow> x = Fin (of_int (units x))"

definition mark_price :: "jsnum \<Rightarrow> string \<Rightarrow> gposition \<Rightarrow> jsnum" where
  "mark_price px s p = (if gp_symbol p = s then px else gp_avg_price p)"

definition worth :: "jsnum \<Rightarrow> string \<Rightarrow> gposition \<Rightarrow> int" where
  "worth px s p = units (mark_price px s p) * units (gp_quantity p)"

definition integral_positions :: "jsnum \<Rightarrow> string \<Rightarrow> gposition list \<Rightarrow> bool" where
  "integral_positions px s ps \<longleftrightarrow>
     (\<forall>p\<in>set ps. integral (mark_price px s p) \<and> integral (gp_quantity p))"

definition gross :: "jsnum \<Rightarrow> string \<Rightarrow> gposition list \<Rightarrow> int" where
  "gross px s ps = (\<Sum>p\<leftarrow>ps. \<bar>worth px s p\<bar>)"

definition net_worth :: "jsnum \<Rightarrow> string \<Rightarrow> account \<Rightarrow> int" where
  "net_worth px s a = units (ac_cash a) + (\<Sum>p\<leftarrow>ac_positions a. worth px s p)"

lemma units_Fin [simp]: "units (Fin (of_int n)) = n"
  by (simp add: units_def)

lemma integral_Fin [simp]: "integral (Fin (of_int n))"
  by (simp add: integral_def)

lemma integralE: "integral x \<Longrightarrow> (\<And>n. x = Fin (of_int n) \<Longrightarrow> units x = n \<Longrightarrow> thesis) \<Longrightarrow> thesis"
  by (auto simp: integral_def)

lemma gross_nonneg: "0 \<le> gross px s ps"
  by (induction ps) (auto simp: gross_def)

lemma abs_sum_le_gross: "\<bar>\<Sum>p\<leftarrow>ps. worth px s p\<bar> \<le> gross px s ps"
  by (induction ps) (auto simp: gross_def)

lemma positionsValue_exact_from:
  assumes "integral_positions px s ps" "\<bar>acc\<bar> + gross px s ps \<le> 2 ^ 53"
  shows "foldl (\<lambda>acc p. jadd acc (jmul (if gp_symbol p = s then px else gp_avg_price p)
      (gp_quantity p))) (Fin (of_int acc)) ps = Fin (of_int (acc + (\<Sum>p\<leftarrow>ps. worth px s p)))"
  using assms
proof (induction ps arbitrary: acc)
  case Nil
  then show ?case by simp
next
  case (Cons p ps)
  have m: "integral (mark_price px s p)" "integral (gp_quantity p)"
    and ps: "integral_positions px s ps"
    using Cons.prems(1) by (auto simp: integral_positions_def)
  have g: "gross px s (p # ps) = \<bar>worth px s p\<bar> + gross px s ps" by (simp add: gross_def)
  then have bound: "\<bar>worth px s p\<bar> \<le> 2 ^ 53" "\<bar>acc + worth px s p\<bar> + gross px s ps \<le> 2 ^ 53"
    using Cons.prems(2) gross_nonneg [of px s ps] by linarith+
  then have "\<bar>acc + worth px s p\<bar> \<le> 2 ^ 53" using gross_nonneg [of px s ps] by linarith
  moreover have "jmul (if gp_symbol p = s then px else gp_avg_price p) (gp_quantity p)
      = Fin (of_int (worth px s p))"
    using m bound(1) jmul_exact unfolding mark_price_def [symmetric] worth_def
    by (metis integral_def)
  ultimately have "jadd (Fin (of_int acc)) (jmul (if gp_symbol p = s then px else gp_avg_price p)
      (gp_quantity p)) = Fin (of_int (acc + worth px s p))"
    using jadd_exact by simp
  then show ?case using Cons.IH [OF ps bound(2)] by (simp add: add.assoc)
qed

lemma positionsValue_exact:
  assumes "integral_positions px s ps" "gross px s ps \<le> 2 ^ 53"
  shows "positionsValue ps px s = Fin (of_int (\<Sum>p\<leftarrow>ps. worth px s p))"
  using positionsValue_exact_from [of px s ps 0] assms by (simp add: positionsValue_def)

text \<open>Revaluing an account whose amounts are integers gives its net worth.\<close>

lemma revalue_exact:
  assumes "integral (ac_cash a)" "integral_positions px s (ac_positions a)"
    "\<bar>units (ac_cash a)\<bar> + gross px s (ac_positions a) \<le> 2 ^ 53"
  shows "ac_equity (revalue h px s a) = Fin (of_int (net_worth px s a))"
proof -
  let ?W = "\<Sum>p\<leftarrow>ac_positions a. worth px s p"
  have "gross px s (ac_positions a) \<le> 2 ^ 53" using assms(3) by linarith
  then have pv: "positionsValue (ac_positions a) px s = Fin (of_int ?W)"
    using assms(2) by (intro positionsValue_exact)
  have "\<bar>units (ac_cash a) + ?W\<bar> \<le> 2 ^ 53"
    using assms(3) abs_sum_le_gross [of px s "ac_positions a"] by linarith
  then have "jadd (Fin (of_int (units (ac_cash a)))) (Fin (of_int ?W)) = Fin (of_int (units (ac_cash a) + ?W))"
    by (rule jadd_exact)
  moreover have "ac_cash a = Fin (of_int (units (ac_cash a)))" using assms(1) by (simp add: integral_def)
  ultimately show ?thesis using pv by (simp add: net_worth_def)
qed

lemma sum_upd_first:
  fixes g :: "'a \<Rightarrow> int"
  shows "find p xs = Some x \<Longrightarrow> (\<Sum>y\<leftarrow>upd_first p f xs. g y) = (\<Sum>y\<leftarrow>xs. g y) - g x + g (f x)"
  by (induction xs) (auto split: if_splits)

lemma sum_del_first:
  fixes g :: "'a \<Rightarrow> int"
  shows "find p xs = Some x \<Longrightarrow> (\<Sum>y\<leftarrow>del_first p xs. g y) = (\<Sum>y\<leftarrow>xs. g y) - g x"
  by (induction xs) (auto split: if_splits)

lemma position_of_Some: "position_of s a = Some p \<Longrightarrow> p \<in> set (ac_positions a) \<and> gp_symbol p = s"
  by (auto simp: position_of_def find_Some_iff)

lemma member_le_gross: "p \<in> set ps \<Longrightarrow> \<bar>worth px s p\<bar> \<le> gross px s ps"
proof (induction ps)
  case Nil
  then show ?case by simp
next
  case (Cons q ps)
  then show ?case using gross_nonneg [of px s ps] by (auto simp: gross_def)
qed

text \<open>
  Merging a trade of \<open>d\<close> units into the symbol's position changes the positions' worth by
  the price times \<open>d\<close>.
\<close>

lemma merge_worth:
  assumes f: "\<And>p. position_of s a = Some p \<Longrightarrow> gp_symbol (f p) = s \<and>
      gp_quantity (f p) = Fin (of_int (units (gp_quantity p) + d))"
    and n: "gp_symbol n = s" "gp_quantity n = Fin (of_int d)"
    and px: "integral px" and ps: "integral_positions px s (ac_positions a)"
  defines "m \<equiv> merge_position s f n a"
  shows "integral_positions px s (ac_positions m) \<and>
    (\<Sum>p\<leftarrow>ac_positions m. worth px s p) = (\<Sum>p\<leftarrow>ac_positions a. worth px s p) + units px * d \<and>
    gross px s (ac_positions m) \<le> gross px s (ac_positions a) + \<bar>units px * d\<bar>"
proof (cases "position_of s a")
  case None
  have "worth px s n = units px * d" using n by (simp add: worth_def mark_price_def)
  with None n px ps show ?thesis
    by (auto simp: m_def merge_position_def integral_positions_def mark_price_def gross_def)
next
  case (Some p)
  note fp = f [OF Some]
  have p: "find (\<lambda>q. gp_symbol q = s) (ac_positions a) = Some p" "gp_symbol p = s"
    using Some position_of_Some [OF Some] by (auto simp: position_of_def)
  have m: "ac_positions m = upd_first (\<lambda>q. gp_symbol q = s) f (ac_positions a)"
    using Some by (simp add: m_def merge_position_def)
  have only: "set (ac_positions m) \<subseteq> insert (f p) (set (ac_positions a))"
    unfolding m by (rule set_upd_first_insert [OF p(1)])
  have int: "integral_positions px s (ac_positions m)"
    unfolding integral_positions_def
  proof
    fix q assume "q \<in> set (ac_positions m)"
    then consider "q = f p" | "q \<in> set (ac_positions a)" using only by blast
    then show "integral (mark_price px s q) \<and> integral (gp_quantity q)"
    proof cases
      case 1
      then show ?thesis using fp px by (simp add: mark_price_def del: of_int_add)
    next
      case 2
      then show ?thesis using ps by (simp add: integral_positions_def)
    qed
  qed
  have w: "worth px s (f p) = worth px s p + units px * d"
    using fp p(2) by (simp add: worth_def mark_price_def distrib_left del: of_int_add)
  have "(\<Sum>p\<leftarrow>ac_positions m. worth px s p) = (\<Sum>p\<leftarrow>ac_positions a. worth px s p) + units px * d"
    unfolding m using sum_upd_first [OF p(1), of "worth px s" f] w by simp
  moreover have "gross px s (ac_positions m) = gross px s (ac_positions a) - \<bar>worth px s p\<bar> + \<bar>worth px s (f p)\<bar>"
    unfolding m gross_def by (rule sum_upd_first [OF p(1)])
  ultimately show ?thesis using int w by linarith
qed

lemma merge_conserves:
  assumes f: "\<And>p. position_of s a = Some p \<Longrightarrow> gp_symbol (f p) = s \<and>
      gp_quantity (f p) = Fin (of_int (units (gp_quantity p) + d))"
    and n: "gp_symbol n = s" "gp_quantity n = Fin (of_int d)"
    and px: "integral px" and ps: "integral_positions px s (ac_positions a)"
    and cash: "integral (ac_cash a)"
    and bound: "\<bar>units (ac_cash a)\<bar> + gross px s (ac_positions a) + 2 * \<bar>units px * d\<bar> \<le> 2 ^ 53"
    and c: "c = Fin (of_int (units (ac_cash a) - units px * d))"
  shows "ac_equity (revalue h px s (merge_position s f n (a\<lparr>ac_cash := c\<rparr>))) =
    Fin (of_int (net_worth px s a))"
proof -
  let ?b = "a\<lparr>ac_cash := c\<rparr>" let ?m = "merge_position s f n ?b"
  have pos: "position_of s ?b = position_of s a" by (rule position_of_cong) simp
  have ps': "integral_positions px s (ac_positions ?b)" using ps by simp
  have M: "integral_positions px s (ac_positions ?m) \<and>
      (\<Sum>p\<leftarrow>ac_positions ?m. worth px s p) = (\<Sum>p\<leftarrow>ac_positions ?b. worth px s p) + units px * d \<and>
      gross px s (ac_positions ?m) \<le> gross px s (ac_positions ?b) + \<bar>units px * d\<bar>"
    by (rule merge_worth [OF f n px ps']) (simp only: pos)
  have "ac_cash ?m = Fin (of_int (units (ac_cash a) - units px * d))" using c by simp
  then have u: "units (ac_cash ?m) = units (ac_cash a) - units px * d" "integral (ac_cash ?m)"
    by (simp_all only: units_Fin integral_Fin)
  have "gross px s (ac_positions ?b) = gross px s (ac_positions a)" by simp
  then have "\<bar>units (ac_cash ?m)\<bar> + gross px s (ac_positions ?m) \<le> 2 ^ 53"
    using M bound u(1) by linarith
  then have "ac_equity (revalue h px s ?m) = Fin (of_int (net_worth px s ?m))"
    using M u(2) by (intro revalue_exact) auto
  also have "net_worth px s ?m = net_worth px s a" using M u(1) by (simp add: net_worth_def)
  finally show ?thesis .
qed

lemma jadd_0: "\<bar>n\<bar> \<le> 2 ^ 53 \<Longrightarrow> jadd (Fin (of_int n)) j0 = Fin (of_int n)"
  using jadd_exact [of n 0] by simp

lemma jsub_0: "\<bar>n\<bar> \<le> 2 ^ 53 \<Longrightarrow> jsub (Fin (of_int n)) j0 = Fin (of_int n)"
  using jsub_exact [of n 0] by simp

lemma jmul_0 [simp]: "jmul (Fin r) j0 = j0"
  using mk_num_of_int [of 0] by simp

text \<open>A held quantity fits with a new one when the price is at least one unit.\<close>

lemma held_quantity_bound:
  assumes "position_of s a = Some p" "1 \<le> units px"
    "gross px s (ac_positions a) + \<bar>units px * d\<bar> \<le> B"
  shows "\<bar>units (gp_quantity p) + d\<bar> \<le> B"
proof -
  have "\<bar>units (gp_quantity p)\<bar> \<le> \<bar>units px * units (gp_quantity p)\<bar>"
    using assms(2) by (simp add: abs_mult mult_le_cancel_right1)
  also have "units px * units (gp_quantity p) = worth px s p"
    using position_of_Some [OF assms(1)] by (simp add: worth_def mark_price_def)
  also have "\<bar>worth px s p\<bar> \<le> gross px s (ac_positions a)"
    using position_of_Some [OF assms(1)] by (intro member_le_gross) simp
  finally have "\<bar>units (gp_quantity p)\<bar> \<le> gross px s (ac_positions a)" .
  moreover have "\<bar>d\<bar> \<le> \<bar>units px * d\<bar>" using assms(2) by (simp add: abs_mult mult_le_cancel_right1)
  ultimately show ?thesis using assms(3) by linarith
qed

text \<open>The two opening fills, as one merge each.\<close>

lemma executeLong_result:
  defines "res \<equiv> \<lambda>s px a h sz mp e c. executeLong s px a h sz mp e c"
  assumes "\<not> jle (fr_quantity (res s px a h sz mp e c)) j0"
  shows "\<exists>b. fr_state (res s px a h sz mp e c) = (let q = fr_quantity (res s px a h sz mp e c) in
    revalue h px s (merge_position s (grow_long b q)
      \<lparr>gp_symbol = s, gp_quantity = q, gp_avg_price = b\<rparr>
      (a\<lparr>ac_cash := jsub (ac_cash a) (jadd (jmul px q) (jmul (jmul px q) c))\<rparr>)))"
  using assms(2) unfolding res_def executeLong_def Let_def by (auto split: if_splits)

lemma executeShort_result:
  defines "res \<equiv> \<lambda>s px a h sz mp ms e c. executeShort s px a h sz mp ms e c"
  assumes "\<not> jle (fr_quantity (res s px a h sz mp ms e c)) j0"
  shows "\<exists>b. fr_state (res s px a h sz mp ms e c) = (let q = fr_quantity (res s px a h sz mp ms e c) in
    revalue h px s (merge_position s (grow_short b q)
      \<lparr>gp_symbol = s, gp_quantity = jneg q, gp_avg_price = b\<rparr>
      (a\<lparr>ac_cash := jadd (ac_cash a) (jsub (jmul px q) (jmul (jmul px q) c))\<rparr>)))"
  using assms(2) unfolding res_def executeShort_def Let_def by (auto split: if_splits)

text \<open>
  An account whose amounts are whole numbers, far enough from the 53-bit limit, before a fill
  of \<open>q\<close> units at price \<open>px\<close>.
\<close>

definition whole_fill :: "jsnum \<Rightarrow> string \<Rightarrow> account \<Rightarrow> int \<Rightarrow> bool" where
  "whole_fill px s a q \<longleftrightarrow>
     integral px \<and> 1 \<le> units px \<and> integral (ac_cash a) \<and>
     integral_positions px s (ac_positions a) \<and>
     \<bar>units (ac_cash a)\<bar> + gross px s (ac_positions a) + 2 * \<bar>units px * q\<bar> \<le> 2 ^ 53"

lemma whole_fill_arith:
  assumes "whole_fill px s a q"
  shows "jmul px (Fin (of_int q)) = Fin (of_int (units px * q))"
    "jadd (Fin (of_int (units px * q))) j0 = Fin (of_int (units px * q))"
    "jsub (Fin (of_int (units px * q))) j0 = Fin (of_int (units px * q))"
    "jsub (ac_cash a) (Fin (of_int (units px * q))) = Fin (of_int (units (ac_cash a) - units px * q))"
    "jadd (ac_cash a) (Fin (of_int (units px * q))) = Fin (of_int (units (ac_cash a) + units px * q))"
proof -
  have g: "0 \<le> gross px s (ac_positions a)" by (rule gross_nonneg)
  have b: "\<bar>units (ac_cash a)\<bar> + gross px s (ac_positions a) + 2 * \<bar>units px * q\<bar> \<le> 2 ^ 53"
    and px: "px = Fin (of_int (units px))" and cash: "ac_cash a = Fin (of_int (units (ac_cash a)))"
    using assms by (simp_all add: whole_fill_def integral_def)
  have le: "\<bar>units px * q\<bar> \<le> 2 ^ 53" "\<bar>units (ac_cash a) - units px * q\<bar> \<le> 2 ^ 53"
    "\<bar>units (ac_cash a) + units px * q\<bar> \<le> 2 ^ 53"
    using b g by linarith+
  show "jmul px (Fin (of_int q)) = Fin (of_int (units px * q))"
    by (subst px) (rule jmul_exact [OF le(1)])
  show "jadd (Fin (of_int (units px * q))) j0 = Fin (of_int (units px * q))" by (rule jadd_0 [OF le(1)])
  show "jsub (Fin (of_int (units px * q))) j0 = Fin (of_int (units px * q))" by (rule jsub_0 [OF le(1)])
  show "jsub (ac_cash a) (Fin (of_int (units px * q))) = Fin (of_int (units (ac_cash a) - units px * q))"
    by (subst cash) (rule jsub_exact [OF le(2)])
  show "jadd (ac_cash a) (Fin (of_int (units px * q))) = Fin (of_int (units (ac_cash a) + units px * q))"
    by (subst cash) (rule jadd_exact [OF le(3)])
qed

lemma whole_fill_held:
  assumes "whole_fill px s a q" "position_of s a = Some p" "\<bar>d\<bar> = \<bar>q\<bar>"
  shows "gp_symbol p = s" "gp_quantity p = Fin (of_int (units (gp_quantity p)))"
    "\<bar>units (gp_quantity p) + d\<bar> \<le> 2 ^ 53"
proof -
  show "gp_symbol p = s" using position_of_Some [OF assms(2)] by simp
  show "gp_quantity p = Fin (of_int (units (gp_quantity p)))"
    using position_of_Some [OF assms(2)] assms(1)
    by (simp add: whole_fill_def integral_positions_def integral_def)
  have "\<bar>units px * d\<bar> = \<bar>units px * q\<bar>" using assms(3) by (simp add: abs_mult)
  then show "\<bar>units (gp_quantity p) + d\<bar> \<le> 2 ^ 53"
    using assms(1) by (intro held_quantity_bound [OF assms(2), of px]) (auto simp: whole_fill_def)
qed

lemma jabs_nonpos: "n \<le> 0 \<Longrightarrow> jabs (Fin (of_int n)) = Fin (of_int (- n))"
  by simp

lemma executeLong_conserves:
  fixes s px a h sz mp e
  defines "r \<equiv> executeLong s px a h sz mp e j0"
  assumes filled: "\<not> jle (fr_quantity r) j0" "fr_quantity r = Fin (of_int q)"
    and whole: "whole_fill px s a q"
  shows "ac_equity (fr_state r) = Fin (of_int (net_worth px s a))"
proof -
  note W = whole_fill_arith [OF whole]
  obtain b where r: "fr_state r = revalue h px s (merge_position s (grow_long b (Fin (of_int q)))
      \<lparr>gp_symbol = s, gp_quantity = Fin (of_int q), gp_avg_price = b\<rparr>
      (a\<lparr>ac_cash := Fin (of_int (units (ac_cash a) - units px * q))\<rparr>))"
    using executeLong_result [of s px a h sz mp e j0] filled
    unfolding r_def [symmetric] Let_def filled(2) W(1) jmul_0 W(2) W(4) by blast
  show ?thesis
    unfolding r
  proof (rule merge_conserves)
    fix p assume p: "position_of s a = Some p"
    note H = whole_fill_held [OF whole p refl]
    show "gp_symbol (grow_long b (Fin (of_int q)) p) = s \<and>
        gp_quantity (grow_long b (Fin (of_int q)) p) = Fin (of_int (units (gp_quantity p) + q))"
      using H(1) jadd_exact [OF H(3)] unfolding H(2) [symmetric]
      by (simp add: grow_long_def Let_def del: of_int_add)
  qed (use whole in \<open>simp_all add: whole_fill_def\<close>)
qed

lemma executeShort_conserves:
  fixes s px a h sz mp ms e
  defines "r \<equiv> executeShort s px a h sz mp ms e j0"
  assumes filled: "\<not> jle (fr_quantity r) j0" "fr_quantity r = Fin (of_int q)"
    and whole: "whole_fill px s a q"
  shows "ac_equity (fr_state r) = Fin (of_int (net_worth px s a))"
proof -
  note W = whole_fill_arith [OF whole]
  obtain b where r: "fr_state r = revalue h px s (merge_position s (grow_short b (Fin (of_int q)))
      \<lparr>gp_symbol = s, gp_quantity = jneg (Fin (of_int q)), gp_avg_price = b\<rparr>
      (a\<lparr>ac_cash := Fin (of_int (units (ac_cash a) + units px * q))\<rparr>))"
    using executeShort_result [of s px a h sz mp ms e j0] filled
    unfolding r_def [symmetric] Let_def filled(2) W(1) jmul_0 W(3) W(5) by blast
  have flat: "\<not> jgt (position_qty s a) j0"
    using filled(1) unfolding r_def executeShort_def by (auto split: if_splits)
  show ?thesis
    unfolding r
  proof (rule merge_conserves [where d = "- q"])
    fix p assume p: "position_of s a = Some p"
    note H = whole_fill_held [OF whole p abs_minus_cancel]
    let ?n = "units (gp_quantity p)"
    have "position_qty s a = Fin (of_int ?n)" using p H(2) by (simp add: position_qty_def)
    then have n: "?n \<le> 0" using flat by simp
    have "jabs (gp_quantity p) = Fin (of_int (- ?n))"
      using jabs_nonpos [OF n] H(2) by metis
    moreover have "jadd (Fin (of_int (- ?n))) (Fin (of_int q)) = Fin (of_int (- ?n + q))"
      using H(3) by (intro jadd_exact) linarith
    ultimately have "jneg (jadd (jabs (gp_quantity p)) (Fin (of_int q))) = Fin (of_int (?n + - q))"
      by simp
    then show "gp_symbol (grow_short b (Fin (of_int q)) p) = s \<and>
        gp_quantity (grow_short b (Fin (of_int q)) p) = Fin (of_int (units (gp_quantity p) + - q))"
      using H(1) by (simp add: grow_short_def Let_def del: of_int_add of_int_diff)
  qed (use whole in \<open>simp_all add: whole_fill_def\<close>)
qed

lemma executeExit_conserves:
  assumes p: "position_of s a = Some p" and whole: "whole_fill px s a (units (gp_quantity p))"
  shows "ac_equity (fr_state (executeExit s px a h j0)) = Fin (of_int (net_worth px s a))"
proof -
  define q where "q = units (gp_quantity p)"
  have whole: "whole_fill px s a q" using whole by (simp add: q_def)
  note W = whole_fill_arith [OF whole]
  have pq: "gp_quantity p = Fin (of_int q)"
    using whole_fill_held(2) [OF whole p, of q] by (simp add: q_def)
  have f: "find (\<lambda>q. gp_symbol q = s) (ac_positions a) = Some p" using p by (simp add: position_of_def)
  let ?ps = "del_first (\<lambda>p. gp_symbol p = s) (ac_positions a)"
  let ?m = "a\<lparr>ac_cash := Fin (of_int (units (ac_cash a) + units px * q)), ac_positions := ?ps\<rparr>"
  have r: "fr_state (executeExit s px a h j0) = revalue h px s ?m"
    using p unfolding executeExit_def Let_def
    by (simp only: option.case fill_result.simps pq W(1) jabs.simps jmul_0 W(3) W(5))
  have worth: "worth px s p = units px * q"
    using position_of_Some [OF p] by (simp add: worth_def mark_price_def q_def)
  have sum: "(\<Sum>p\<leftarrow>?ps. worth px s p) = (\<Sum>p\<leftarrow>ac_positions a. worth px s p) - units px * q"
    using sum_del_first [OF f, of "worth px s"] worth by simp
  have gr: "gross px s ?ps \<le> gross px s (ac_positions a)"
    unfolding gross_def using sum_del_first [OF f, of "\<lambda>p. \<bar>worth px s p\<bar>"] by simp
  have int: "integral_positions px s ?ps"
    using whole set_del_first [of "\<lambda>p. gp_symbol p = s" "ac_positions a"]
    unfolding whole_fill_def integral_positions_def by blast
  have "ac_cash ?m = Fin (of_int (units (ac_cash a) + units px * q))" by simp
  then have u: "units (ac_cash ?m) = units (ac_cash a) + units px * q" "integral (ac_cash ?m)"
    by (simp_all only: units_Fin integral_Fin)
  have "\<bar>units (ac_cash ?m)\<bar> + gross px s ?ps \<le> 2 ^ 53"
    using whole gr u(1) unfolding whole_fill_def by linarith
  then have "ac_equity (revalue h px s ?m) = Fin (of_int (net_worth px s ?m))"
    using int u(2) by (intro revalue_exact) simp_all
  then show ?thesis unfolding r using sum u(1) by (simp add: net_worth_def)
qed

text \<open>C21: Filling at a whole price conserves money. The fill price is a whole number of at least 1, the
  cash, the held quantities and the cost prices of the other positions are whole, the commission is 0, the filled
  quantity is a whole number other than 0, and the cash, the gross value of the positions and twice the
  notional of the fill stay together within 2^53. Then a fill of any action (open or add to a long,
  open or add to a short, close) leaves an equity that is exactly the net worth the account had before
  it at the fill price: what leaves the cash enters the positions, to the unit. Without these
  conditions the binary64 arithmetic rounds: at a price of 0.03 the equity can differ by an ulp.\<close>

theorem executeFill_conserves_money:
  assumes "fr_quantity (executeFill action s px a sz mp ms j0) = Fin (of_int q)" "q \<noteq> 0"
    and "whole_fill px s a q"
  shows "ac_equity (fr_state (executeFill action s px a sz mp ms j0)) = Fin (of_int (net_worth px s a))"
proof -
  have pos: "\<not> jle (fr_quantity (executeFill action s px a sz mp ms j0)) j0"
    if "action = ''long'' \<or> action = ''short''"
    using that assms(1,2) unfolding executeFill_def executeLong_def executeShort_def Let_def
    by (auto split: if_splits)
  consider "action = ''long''" | "action = ''short''" | "action = ''exit''"
    using assms(1,2) by (fastforce simp: executeFill_def)
  then show ?thesis
  proof cases
    case 1
    then show ?thesis using assms(1) pos executeLong_conserves [OF _ _ assms(3)]
      by (simp add: executeFill_def)
  next
    case 2
    then show ?thesis using assms(1) pos executeShort_conserves [OF _ _ assms(3)]
      by (simp add: executeFill_def)
  next
    case 3
    then obtain p where p: "position_of s a = Some p" "gp_quantity p = Fin (of_int q)"
      using assms(1,2) by (auto simp: executeFill_def executeExit_def Let_def split: option.splits)
    then show ?thesis using 3 assms(3) executeExit_conserves [OF p(1)] by (simp add: executeFill_def)
  qed
qed

end
