(* ===== verification/OrderTable.thy ===== *)
theory OrderTable
  imports RealOrder
begin

text \<open>
  Facts about the table of real orders that the order service and the reconciliation loop
  share: the partial unique index as an invariant, and row-wise evolutions (what may happen to
  a row while the table only grows at its end).
\<close>

section \<open>Runs without database faults\<close>

definition no_faults :: "world \<Rightarrow> bool" where
  "no_faults w \<longleftrightarrow> (\<forall>n. env_db_fault (w_env w) n = None)"

lemma no_faults_env: "w_env w' = w_env w \<Longrightarrow> no_faults w' = no_faults w"
  by (simp add: no_faults_def)

lemma no_faults_frame [simp]:
  "no_faults (tock w) = no_faults w" "no_faults (note_event e w) = no_faults w"
  "no_faults (w\<lparr>w_orders := t\<rparr>) = no_faults w" "no_faults (w\<lparr>w_fail_times := ft\<rparr>) = no_faults w"
  "no_faults (w\<lparr>w_absent := ab\<rparr>) = no_faults w" "no_faults (w\<lparr>w_config := c\<rparr>) = no_faults w"
  "no_faults (w\<lparr>w_intents := i\<rparr>) = no_faults w"
  by (simp_all add: no_faults_def)

lemma db_read_ok [simp]: "no_faults w \<Longrightarrow> db_read f w = (Inr (f w), tock w)"
  by (simp add: no_faults_def db_read_def)

lemma db_write_ok: "no_faults w \<Longrightarrow> db_write f w =
    (case f w of Inl e \<Rightarrow> (Inl e, tock w) | Inr (x, w') \<Rightarrow> (Inr x, tock w'))"
  by (simp add: no_faults_def db_write_def)

lemma now_run [simp]: "now w = (Inr (env_now (w_env w) (w_calls w)), tock w)"
  by (simp add: now_def)

section \<open>The unique indexes\<close>

text \<open>
  The application's list of terminal statuses is the index's: the guard of \<open>submit\<close> and the
  partial unique index speak about the same rows.
\<close>

lemma live_order_active: "live_order = active_order"
  by (rule ext) (simp add: live_order_def active_order_def ORDER_TERMINAL_STATUSES_def index_terminal_def)

interpretation index_kept: world_evolution "\<lambda>w w'. orders_ok (w_orders w) \<longrightarrow> orders_ok (w_orders w')"
  by unfold_locales auto

lemmas index_rules =
  index_kept.ev_pure index_kept.ev_broker [simplified] index_kept.ev_kv_set [simplified]
  index_kept.ev_kv_delete [simplified] index_kept.ev_order_writes [simplified]
  index_kept.ev_intent_writes [simplified] index_kept.ev_log_writes [simplified]
  index_kept.ev_portfolio_upsert [simplified]

lemma index_halt: "evolves (\<lambda>w w'. orders_ok (w_orders w) \<longrightarrow> orders_ok (w_orders w'))
    (haltRealExecution reason)"
  unfolding haltRealExecution_def by (intro index_rules)

text \<open>Two active rows of one intent are the same row.\<close>

lemma active_unique:
  assumes "orders_ok t" "r \<in> set t" "s \<in> set t" "active_order r" "active_order s"
    "ro_trade_intent_id r = ro_trade_intent_id s"
  shows "r = s"
proof -
  have "inj_on ro_trade_intent_id (set (filter active_order t))"
    using assms(1) by (simp add: orders_ok_def distinct_map)
  then show ?thesis by (rule inj_onD) (use assms in auto)
qed

section \<open>Row-wise evolutions\<close>

definition rows_rel :: "(real_order \<Rightarrow> real_order \<Rightarrow> bool) \<Rightarrow> world \<Rightarrow> world \<Rightarrow> bool" where
  "rows_rel r w w' \<longleftrightarrow> list_all2 r (w_orders w) (take (length (w_orders w)) (w_orders w'))"

text \<open>
  A reflexive and transitive relation on rows gives an evolution of worlds; an update of the
  table respects it when it does so on the rows it selects, and a creation always does.
\<close>

locale row_evolution =
  fixes r :: "real_order \<Rightarrow> real_order \<Rightarrow> bool"
  assumes row_refl: "r x x"
    and row_trans: "r x y \<Longrightarrow> r y z \<Longrightarrow> r x z"
begin

lemma rows_refl: "rows_rel r w w"
  by (simp add: rows_rel_def list_all2_same row_refl)

lemma rows_same: "w_orders w' = w_orders w \<Longrightarrow> rows_rel r w w'"
  by (simp add: rows_rel_def list_all2_same row_refl)

lemma rows_trans:
  assumes "rows_rel r u v" "rows_rel r v w"
  shows "rows_rel r u w"
proof -
  let ?n = "length (w_orders u)"
  have l: "?n \<le> length (w_orders v)"
    using assms(1) by (auto simp: rows_rel_def dest: list_all2_lengthD)
  have "list_all2 r (take ?n (w_orders v)) (take ?n (take (length (w_orders v)) (w_orders w)))"
    using assms(2) unfolding rows_rel_def by (rule list_all2_takeI)
  moreover have "take ?n (take (length (w_orders v)) (w_orders w)) = take ?n (w_orders w)"
    using l by (simp add: min_def)
  ultimately have vw: "list_all2 r (take ?n (w_orders v)) (take ?n (w_orders w))" by simp
  show ?thesis
    unfolding rows_rel_def
  proof (rule list_all2_trans [OF _ _ vw])
    show "list_all2 r (w_orders u) (take ?n (w_orders v))" using assms(1) by (simp add: rows_rel_def)
  qed (rule row_trans)
qed

lemma rows_updated:
  "(\<And>x. p x \<Longrightarrow> r x (f x)) \<Longrightarrow> rows_rel r w (w\<lparr>w_orders := update_rows p f (w_orders w)\<rparr>)"
  by (auto simp: rows_rel_def update_rows_def list_all2_map2 intro: list_all2_refl row_refl)

lemma rows_appended: "rows_rel r w (w\<lparr>w_orders := w_orders w @ ys\<rparr>)"
  by (simp add: rows_rel_def list_all2_same row_refl)

end

sublocale row_evolution \<subseteq> rows: world_evolution "rows_rel r"
proof
  show "rows_rel r w w" for w by (rule rows_refl)
  show "rows_rel r u w" if "rows_rel r u v" "rows_rel r v w" for u v w using that by (rule rows_trans)
  show "rows_rel r w (tock w)" for w by (rule rows_same) simp
  show "rows_rel r u (rollback u v)" for u v by (rule rows_same) simp
qed

context row_evolution begin

lemma ev_row_update:
  assumes "\<And>x. ro_id x = i \<Longrightarrow> r x (f x)"
  shows "evolves (rows_rel r) (order_update i f)"
  unfolding order_update_def
proof (rule rows.ev_db_write)
  fix w x w'
  assume "(case find_row (has_id i) (w_orders w) of None \<Rightarrow> Inl not_found
    | Some y \<Rightarrow> put_orders (update_rows (has_id i) f (w_orders w)) (f y) w) = Inr (x, w')"
  then have "w' = w\<lparr>w_orders := update_rows (has_id i) f (w_orders w)\<rparr>"
    by (auto dest!: rows.put_ordersD split: option.splits)
  moreover have "rows_rel r w (w\<lparr>w_orders := update_rows (has_id i) f (w_orders w)\<rparr>)"
    by (rule rows_updated) (simp add: assms has_id_def)
  ultimately show "rows_rel r w w'" by simp
qed

lemma ev_row_update_many:
  assumes "\<And>x. p x \<Longrightarrow> r x (f x)"
  shows "evolves (rows_rel r) (order_update_many p f)"
  unfolding order_update_many_def
  by (rule rows.ev_db_write) (auto dest!: rows.put_ordersD intro!: rows_updated assms)

lemma ev_row_create: "evolves (rows_rel r) (order_create x)"
  unfolding order_create_def
  by (rule rows.ev_db_write) (auto dest!: rows.put_ordersD intro: rows_appended split: if_splits)

lemma ev_rows_modify: "(\<And>w. w_orders (f w) = w_orders w) \<Longrightarrow> evolves (rows_rel r) (modify f)"
  by (rule evolves_modify) (simp add: rows_same)

lemma rows_frame:
  "rows_rel r w (note_event e w)" "rows_rel r w (w\<lparr>w_config := c\<rparr>)"
  "rows_rel r w (w\<lparr>w_intents := ti\<rparr>)" "rows_rel r w (w\<lparr>w_alerts := al\<rparr>)"
  "rows_rel r w (w\<lparr>w_audit := au\<rparr>)" "rows_rel r w (w\<lparr>w_portfolios := p\<rparr>)"
  by (rule rows_same, simp)+

lemma ev_row_halt: "evolves (rows_rel r) (haltRealExecution reason)"
  unfolding haltRealExecution_def by (intro rows.ev_await rows.ev_kv_set rows_frame)

lemmas row_rules =
  rows.ev_pure ev_row_update ev_row_update_many ev_row_create ev_row_halt ev_rows_modify
  rows.ev_kv_set [OF rows_frame(2)] rows.ev_kv_delete [OF rows_frame(2)]
  rows.ev_broker [OF rows_frame(1)] rows.ev_intent_writes [OF rows_frame(3)]
  rows.ev_log_writes [OF rows_frame(4) rows_frame(5)] rows.ev_portfolio_upsert [OF rows_frame(6)]

end

text \<open>What a row-wise evolution says of a row that was there.\<close>

lemma rows_relD:
  assumes "rows_rel r w w'" "x \<in> set (w_orders w)"
  shows "\<exists>y \<in> set (w_orders w'). r x y"
proof -
  obtain i where i: "i < length (w_orders w)" "x = w_orders w ! i"
    using assms(2) by (auto simp: in_set_conv_nth)
  have all: "list_all2 r (w_orders w) (take (length (w_orders w)) (w_orders w'))"
    using assms(1) by (simp add: rows_rel_def)
  then have "i < length (w_orders w')" using i by (auto dest: list_all2_lengthD)
  moreover have "r x (w_orders w' ! i)" using list_all2_nthD [OF all i(1)] i by simp
  ultimately show ?thesis by auto
qed

text \<open>The identity of a row: what no operation changes.\<close>

definition same_identity :: "real_order \<Rightarrow> real_order \<Rightarrow> bool" where
  "same_identity x y \<longleftrightarrow>
     ro_id y = ro_id x \<and> ro_trade_intent_id y = ro_trade_intent_id x \<and>
     ro_broker_plugin_id y = ro_broker_plugin_id x \<and>
     ro_client_order_id y = ro_client_order_id x \<and> ro_symbol y = ro_symbol x \<and>
     ro_side y = ro_side x \<and> ro_requested_qty y = ro_requested_qty x \<and>
     ro_created_at y = ro_created_at x"

interpretation identity: row_evolution same_identity
  by unfold_locales (auto simp: same_identity_def)

definition same_fills :: "real_order \<Rightarrow> real_order \<Rightarrow> bool" where
  "same_fills x y \<longleftrightarrow> ro_filled_qty y = ro_filled_qty x \<and>
     ro_filled_avg_price y = ro_filled_avg_price x \<and> ro_filled_at y = ro_filled_at x"

end
