(* ===== verification/RealOrderFacts.thy ===== *)
theory RealOrderFacts
  imports OrderTable
begin

text \<open>
  What holds of the order service: what every submission and every recovery respects (as
  interpretations of two locales), crash safety and idempotency of \<open>submit\<close>, the trip of the
  kill switch, and the bounded recovery of rows the broker does not know.
\<close>

section \<open>What recovery and submission respect\<close>

text \<open>An evolution that tolerates the steps of \<open>recoverInflight\<close>.\<close>

locale order_recovery = world_evolution R for R :: "world \<Rightarrow> world \<Rightarrow> bool" +
  assumes absent_counts: "R w (w\<lparr>w_absent := ab\<rparr>)"
    and lookup: "R w (note_event (EvLookupClient b c) w)"
    and give_up: "evolves R (order_update i (mark_confirmed_absent n))"
    and recovered: "evolves R (order_update i (mark_recovered st t))"
begin

lemma ev_set_absent: "evolves R (set_absent i n)"
  unfolding set_absent_def by (intro evolves_modify absent_counts)

lemma ev_get_order_by_client: "evolves R (get_order_by_client b c)"
  by (simp add: evolves_def get_order_by_client_def lookup)

lemma ev_handleConfirmedAbsent: "evolves R (handleConfirmedAbsent row)"
  unfolding handleConfirmedAbsent_def by (intro ev_pure ev_set_absent give_up)

lemma ev_recoverRow: "evolves R (recoverRow row)"
  unfolding recoverRow_def
  by (intro ev_pure ev_set_absent ev_get_order_by_client ev_handleConfirmedAbsent recovered)

lemma ev_recoverInflight: "evolves R recoverInflight"
  unfolding recoverInflight_def by (intro ev_pure ev_recoverRow)

lemma ev_onModuleInit: "evolves R onModuleInit"
  unfolding onModuleInit_def by (intro ev_pure ev_recoverInflight)

end

text \<open>An evolution that tolerates the steps of \<open>submit\<close>.\<close>

locale order_submission = world_evolution R for R :: "world \<Rightarrow> world \<Rightarrow> bool" +
  assumes failure_times: "R w (w\<lparr>w_fail_times := ft\<rparr>)"
    and halts: "evolves R (haltRealExecution reason)"
    and places: "R w (note_event (EvPlace b q) w)"
    and creates: "evolves R (order_create row)"
    and submitted: "evolves R (order_update i (mark_submitted bid t))"
    and failed: "evolves R (order_update i (mark_submit_failed err))"
begin

lemma ev_fail_times: "evolves R (modify (\<lambda>w. w\<lparr>w_fail_times := f w\<rparr>))"
  by (intro evolves_modify failure_times)

lemma ev_place_order: "evolves R (place_order b q)"
  by (simp add: evolves_def place_order_def places)

lemma ev_active_lookups:
  "evolves R (findActiveOrderForIntent i)" "evolves R (findActiveOrderForSymbol s b d)"
  unfolding findActiveOrderForIntent_def findActiveOrderForSymbol_def by (intro ev_pure)+

lemma ev_recordSubmitFailure: "evolves R recordSubmitFailureAndMaybeHalt"
  unfolding recordSubmitFailureAndMaybeHalt_def by (intro ev_pure ev_fail_times halts)

lemma ev_place_and_record: "evolves R (place_and_record args row)"
  unfolding place_and_record_def record_success_def record_failure_def
  by (intro ev_pure ev_place_order ev_fail_times ev_recordSubmitFailure submitted failed)

lemma ev_create_order_row: "evolves R (create_order_row args)"
  unfolding create_order_row_def generateClientOrderId_def
  by (intro ev_pure ev_active_lookups creates)

lemma ev_submit: "evolves R (submit args)"
  unfolding submit_def
  by (intro ev_pure ev_active_lookups ev_create_order_row ev_place_and_record)

end

interpretation same_env: order_recovery "\<lambda>w w'. w_env w' = w_env w"
  by unfold_locales (auto intro: same_env_rules)

interpretation same_env: order_submission "\<lambda>w w'. w_env w' = w_env w"
  by unfold_locales (auto intro: same_env_rules same_env_halt)

interpretation no_placement: order_recovery no_new_placement
  by unfold_locales (auto intro: no_placement_rules no_new_placement_event)

interpretation index_kept:
  order_recovery "\<lambda>w w'. orders_ok (w_orders w) \<longrightarrow> orders_ok (w_orders w')"
  by unfold_locales (auto intro: index_rules)

interpretation index_kept:
  order_submission "\<lambda>w w'. orders_ok (w_orders w) \<longrightarrow> orders_ok (w_orders w')"
  by unfold_locales (auto intro: index_rules index_halt)

interpretation halting: order_recovery stays_halted
  by unfold_locales (auto intro: halting_rules)

interpretation halting: order_submission stays_halted
  by unfold_locales (auto intro: halting_rules)

lemma marks_identity:
  "same_identity x (mark_submitted b t x)" "same_identity x (mark_submit_failed e x)"
  "same_identity x (mark_confirmed_absent n x)" "same_identity x (mark_recovered st t x)"
  by (simp_all add: same_identity_def mark_submitted_def mark_submit_failed_def
      mark_confirmed_absent_def mark_recovered_def)

interpretation identity: order_recovery "rows_rel same_identity"
  by unfold_locales (auto intro: identity.row_rules identity.rows_same marks_identity)

interpretation identity: order_submission "rows_rel same_identity"
  by unfold_locales (auto intro: identity.row_rules identity.rows_same marks_identity)

text \<open>
  What recovery may do to a row: nothing to its fills, and of its status only a move to an
  open one or to \<open>confirmed_absent\<close>.
\<close>

definition recovery_move :: "real_order \<Rightarrow> real_order \<Rightarrow> bool" where
  "recovery_move x y \<longleftrightarrow> same_identity x y \<and> same_fills x y \<and>
     (ro_status y = ro_status x \<or> ro_status y \<in> set OPEN_STATUSES \<or>
      ro_status y = ''confirmed_absent'')"

interpretation recovery: row_evolution recovery_move
  by unfold_locales (auto simp: recovery_move_def same_identity_def same_fills_def)

lemma pollable_status_open: "pollable_status raw \<in> set OPEN_STATUSES"
  using broker_vocab.downgrade_open [of "''accepted''" raw]
  by (simp add: pollable_status_def Let_def OPEN_STATUSES_def)

lemma marks_recovery:
  "recovery_move x (mark_confirmed_absent n x)" "recovery_move x (mark_recovered st t x)"
  using pollable_status_open
  by (simp_all add: recovery_move_def same_identity_def same_fills_def mark_confirmed_absent_def
      mark_recovered_def)

interpretation recovery: order_recovery "rows_rel recovery_move"
  by unfold_locales (auto intro: recovery.row_rules recovery.rows_same marks_recovery)

section \<open>The unique index\<close>

text \<open>Every operation of the order service keeps the table's unique indexes: ids and
  client order ids are distinct and at most one row of an intent is active, whatever the
  broker answers and whichever database calls fail.\<close>

lemma order_service_keeps_index:
  "keeps (\<lambda>w. orders_ok (w_orders w)) (submit args) \<and>
   keeps (\<lambda>w. orders_ok (w_orders w)) recoverInflight \<and>
   keeps (\<lambda>w. orders_ok (w_orders w)) onModuleInit"
  unfolding keeps_def
  using index_kept.ev_submit index_kept.ev_recoverInflight index_kept.ev_onModuleInit by blast

text \<open>C17: Recovery never sends an order: whatever rows are in flight and whatever the broker
  answers, \<open>recoverInflight\<close> adds no placement to the broker's trace, writes no fill column and
  gives a row no status other than an open one (to be polled again) or \<open>confirmed_absent\<close>; a
  tripped kill switch stays tripped. The comment of the method says otherwise on two points: that the
  row of an order the broker has takes its \<open>filled_qty\<close>, and that a row the broker does not know is left
  as it is; the code leaves the fill to the reconciliation and, at the third absence in a row, marks
  the row \<open>confirmed_absent\<close>.\<close>

theorem recoverInflight_safe:
  "placements (snd (recoverInflight w)) = placements w \<and>
   list_all2 recovery_move (w_orders w) (take (length (w_orders w)) (w_orders (snd (recoverInflight w)))) \<and>
   stays_halted w (snd (recoverInflight w))"
  using evolvesD [OF no_placement.ev_recoverInflight, of w]
    evolvesD [OF recovery.ev_recoverInflight, of w] evolvesD [OF halting.ev_recoverInflight, of w]
  by (simp add: no_new_placement_def rows_rel_def)

section \<open>Submission\<close>

lemma no_placement_fail_times: "evolves no_new_placement (modify (\<lambda>w. w\<lparr>w_fail_times := f w\<rparr>))"
  by (intro evolves_modify no_new_placement_frame)

lemma no_placement_record:
  "evolves no_new_placement (record_success b row)" "evolves no_new_placement (record_failure e row)"
  unfolding record_success_def record_failure_def recordSubmitFailureAndMaybeHalt_def
  by (intro no_placement_rules no_placement_fail_times no_placement_halt)+

lemma never_throws_record:
  "never_throws (record_success b row)" "never_throws (record_failure e row)"
  unfolding record_success_def record_failure_def recordSubmitFailureAndMaybeHalt_def
  by (auto intro!: never_throws_await never_throws_attempt simp: now_def never_throws_def await_run
      modify_def gets_def ret_def attempt_run split: sum.splits)

text \<open>The run of the \<open>try\<close> block: one placement, then the branch of its answer.\<close>

lemma place_and_record_run:
  "place_and_record args row w =
     (let q = submit_request (ro_client_order_id row) args;
          w1 = note_event (EvPlace (sa_broker args) q) w
      in case env_place (w_env w) (w_calls w) (sa_broker args) q of
           Inl err \<Rightarrow> record_failure err row w1
         | Inr b \<Rightarrow> record_success b row w1)"
  using never_throws_record(1)
  by (auto simp: place_and_record_def place_order_def attempt_run await_run Let_def never_throws_def
      prod_eq_iff split: sum.splits)

lemma place_and_record_places:
  "placements (snd (place_and_record args row w)) =
     placements w @ [(sa_broker args, submit_request (ro_client_order_id row) args)]"
proof -
  let ?w = "note_event (EvPlace (sa_broker args) (submit_request (ro_client_order_id row) args)) w"
  have "placements (snd (record_failure e row ?w)) = placements ?w"
    "placements (snd (record_success b row ?w)) = placements ?w" for e b
    using no_placement_record by (auto simp: evolves_def no_new_placement_def)
  then show ?thesis by (simp add: place_and_record_run Let_def split: sum.splits)
qed

lemma place_and_record_returns: "\<exists>r. fst (place_and_record args row w) = Inr r"
  using never_throws_record [unfolded never_throws_def]
  by (simp add: place_and_record_run Let_def split: sum.splits) (metis sum.exhaust)

lemma create_order_row_created:
  assumes "create_order_row args w = (Inr (Inr row), w')"
  shows "w_orders w' = w_orders w @ [row] \<and> orders_ok (w_orders w') \<and>
    (\<exists>rid t u. row = new_order_row rid t (''nt-'' @ take 8 (sa_intent args) @ ''-'' @ take 8 u) args) \<and>
    w_trace w' = w_trace w \<and> w_env w' = w_env w \<and> w_fail_times w' = w_fail_times w \<and>
    w_config w' = w_config w"
  using assms
  unfolding create_order_row_def generateClientOrderId_def order_create_def put_orders_def
    findActiveOrderForIntent_def order_find_def db_read_def db_write_def fresh_uuid_def effect_prims
  by (auto split: option.splits sum.splits if_splits prod.splits)

text \<open>What the read-only guards of \<open>submit\<close> say when they let a submission pass.\<close>

definition no_duplicate :: "submit_args \<Rightarrow> world \<Rightarrow> bool" where
  "no_duplicate args w \<longleftrightarrow> (\<forall>r \<in> set (w_orders w). active_order r \<longrightarrow>
     ro_trade_intent_id r \<noteq> sa_intent args \<and>
     \<not> (ro_symbol r = sa_symbol args \<and> ro_broker_plugin_id r = sa_broker args \<and>
        ro_side r = sa_side args))"

text \<open>
  \<open>submit\<close> by cases: a guard or the create step ends it without a placement, or both guards
  found nothing, the row is committed, and the rest is \<open>place_and_record\<close> on that state.
\<close>

lemma submit_cases:
  obtains (quiet) "w_trace (snd (submit args w)) = w_trace w"
    "w_orders (snd (submit args w)) = w_orders w"
  | (placed) row w1 w0 where "no_duplicate args w" "create_order_row args w0 = (Inr (Inr row), w1)"
    "w_orders w0 = w_orders w" "w_trace w0 = w_trace w" "w_env w0 = w_env w"
    "w_fail_times w0 = w_fail_times w" "w_config w0 = w_config w"
    "submit args w = place_and_record args row w1"
proof -
  let ?i = "\<lambda>r. ro_trade_intent_id r = sa_intent args \<and> live_order r"
  let ?s = "\<lambda>r. ro_symbol r = sa_symbol args \<and> ro_broker_plugin_id r = sa_broker args \<and>
       ro_side r = sa_side args \<and> live_order r"
  have early: "w_trace (snd (submit args w)) = w_trace w \<and> w_orders (snd (submit args w)) = w_orders w"
    if "fst (findActiveOrderForIntent (sa_intent args) w) \<noteq> Inr None \<or>
        fst (findActiveOrderForSymbol (sa_symbol args) (sa_broker args) (sa_side args) (tock w)) \<noteq> Inr None"
    using that
    by (auto simp: submit_def findActiveOrderForIntent_def findActiveOrderForSymbol_def order_find_def
        order_find_latest_def db_read_def await_run ret_def split: option.splits sum.splits)
  show thesis
  proof (cases "fst (findActiveOrderForIntent (sa_intent args) w) = Inr None \<and>
      fst (findActiveOrderForSymbol (sa_symbol args) (sa_broker args) (sa_side args) (tock w)) = Inr None")
    case False
    then show thesis using early quiet by blast
  next
    case True
    then have none: "find_row ?i (w_orders w) = None" "latest_row ro_created_at ?s (w_orders w) = None"
      by (auto simp: findActiveOrderForIntent_def findActiveOrderForSymbol_def order_find_def
          order_find_latest_def db_read_def split: option.splits)
    then have dup: "no_duplicate args w"
      by (auto simp: find_row_None latest_row_None no_duplicate_def live_order_active)
    let ?w = "tock (tock w)"
    have run: "submit args w = (case fst (create_order_row args ?w) of
        Inl e \<Rightarrow> (Inl e, snd (create_order_row args ?w))
      | Inr (Inl r) \<Rightarrow> (Inr r, snd (create_order_row args ?w))
      | Inr (Inr row) \<Rightarrow> place_and_record args row (snd (create_order_row args ?w)))"
      using True
      by (auto simp: submit_def findActiveOrderForIntent_def findActiveOrderForSymbol_def
          order_find_def order_find_latest_def db_read_def await_run ret_def
          split: option.splits sum.splits)
    show thesis
    proof (cases "\<exists>row. fst (create_order_row args ?w) = Inr (Inr row)")
      case True
      then obtain row where row: "fst (create_order_row args ?w) = Inr (Inr row)" by blast
      show thesis
        by (rule placed [OF dup, of ?w row "snd (create_order_row args ?w)"])
          (use row run in \<open>simp_all add: prod_eq_iff\<close>)
    next
      case False
      have "w_trace (snd (create_order_row args ?w)) = w_trace w \<and>
          w_orders (snd (create_order_row args ?w)) = w_orders w"
        using False
        unfolding create_order_row_def generateClientOrderId_def order_create_def put_orders_def
          findActiveOrderForIntent_def order_find_def db_read_def db_write_def fresh_uuid_def effect_prims
        by (auto split: option.splits sum.splits if_splits prod.splits)
      then show thesis using False run quiet by (auto split: sum.splits)
    qed
  qed
qed

lemma submit_placement:
  assumes "placements (snd (submit args w)) \<noteq> placements w"
  shows "\<exists>cid. placements (snd (submit args w)) = placements w @ [(sa_broker args, submit_request cid args)]"
proof (cases rule: submit_cases [of args w])
  case quiet
  then show ?thesis using assms by (simp add: placements_def)
next
  case (placed row w1 w0)
  then have "placements w1 = placements w"
    using create_order_row_created [OF placed(2)] by (simp add: placements_def)
  then show ?thesis using placed(8) place_and_record_places [of args row w1] by auto
qed

text \<open>C16: Crash safety and idempotency of \<open>submit\<close>. A submission either sends nothing to the
  broker or sends exactly one order, and then both duplicate guards had passed (no active row of
  the same intent, none of the same symbol, broker and side), and before the placement a
  \<open>pending_submit\<close> row of this intent with the order's own client order id had been committed,
  the unique indexes holding: what remains to run from that committed state is
  \<open>place_and_record\<close>.\<close>

theorem submit_commits_before_placing:
  "placements (snd (submit args w)) = placements w \<or>
   (\<exists>row w1. no_duplicate args w \<and>
      w_orders w1 = w_orders w @ [row] \<and> orders_ok (w_orders w1) \<and> placements w1 = placements w \<and>
      ro_status row = ''pending_submit'' \<and> ro_trade_intent_id row = sa_intent args \<and>
      ro_symbol row = sa_symbol args \<and> ro_side row = sa_side args \<and>
      submit args w = place_and_record args row w1 \<and>
      placements (snd (submit args w)) =
        placements w @ [(sa_broker args, submit_request (ro_client_order_id row) args)])"
proof (cases rule: submit_cases [of args w])
  case quiet
  then show ?thesis by (simp add: placements_def)
next
  case (placed row w1 w0)
  note C = create_order_row_created [OF placed(2)]
  then have p: "placements w1 = placements w" using placed(4) by (simp add: placements_def)
  have "ro_status row = ''pending_submit''" "ro_trade_intent_id row = sa_intent args"
    "ro_symbol row = sa_symbol args" "ro_side row = sa_side args"
    using C by (auto simp: new_order_row_def)
  then show ?thesis
    using C placed(1,3,8) p place_and_record_places [of args row w1] by metis
qed

lemma create_order_row_succeeds:
  assumes "no_faults w" "sa_intent args \<in> ti_id ` set (w_intents w)"
    and "cid = ''nt-'' @ take 8 (sa_intent args) @ ''-'' @ take 8 (env_uuid (w_env w) (w_calls w))"
    and "row = new_order_row (env_uuid (w_env w) (Suc (w_calls w)))
           (env_now (w_env w) (Suc (Suc (w_calls w)))) cid args"
    and "orders_ok (w_orders w @ [row])"
  shows "create_order_row args w =
    (Inr (Inr row), tock ((tock (tock (tock w)))\<lparr>w_orders := w_orders w @ [row]\<rparr>))"
proof -
  have "ro_trade_intent_id row = sa_intent args" using assms(4) by (simp add: new_order_row_def)
  then have "order_create row (tock (tock (tock w))) =
      (Inr row, tock ((tock (tock (tock w)))\<lparr>w_orders := w_orders w @ [row]\<rparr>))"
    using assms(1,2,5) by (simp add: order_create_def put_orders_def db_write_ok)
  then show ?thesis
    unfolding assms(4) assms(3)
    by (simp add: create_order_row_def generateClientOrderId_def attempt_run await_run fresh_uuid_def
        ret_def)
qed

text \<open>A submission is never blocked by an order of the other side. When the database
  answers, the intent exists and the fresh identifiers are unused, \<open>submit\<close> sends its order as
  soon as no active row belongs to the same intent or agrees in symbol, broker and side: an open
  buy never keeps a sell, hence an exit, from reaching the broker.\<close>

theorem submit_reaches_broker:
  assumes "no_faults w" "no_duplicate args w" "orders_ok (w_orders w)"
    and "sa_intent args \<in> ti_id ` set (w_intents w)"
    and "cid = ''nt-'' @ take 8 (sa_intent args) @ ''-'' @ take 8 (env_uuid (w_env w) (w_calls w + 2))"
    and "cid \<notin> ro_client_order_id ` set (w_orders w)"
    and "env_uuid (w_env w) (w_calls w + 3) \<notin> ro_id ` set (w_orders w)"
  shows "placements (snd (submit args w)) =
    placements w @ [(sa_broker args, submit_request cid args)]"
proof -
  let ?row = "new_order_row (env_uuid (w_env w) (w_calls w + 3)) (env_now (w_env w) (w_calls w + 4)) cid args"
  let ?w = "tock (tock w)"
  let ?w1 = "tock ((tock (tock (tock ?w)))\<lparr>w_orders := w_orders ?w @ [?row]\<rparr>)"
  have guards: "find_row (\<lambda>r. ro_trade_intent_id r = sa_intent args \<and> live_order r) (w_orders w) = None"
    "latest_row ro_created_at (\<lambda>r. ro_symbol r = sa_symbol args \<and> ro_broker_plugin_id r = sa_broker args \<and>
       ro_side r = sa_side args \<and> live_order r) (w_orders w) = None"
    using assms(2) by (auto simp: find_row_None latest_row_None no_duplicate_def live_order_active)
  have "orders_ok (w_orders ?w @ [?row])"
    using assms(2,3,6,7) by (auto simp: orders_ok_def new_order_row_def no_duplicate_def)
  then have "create_order_row args ?w = (Inr (Inr ?row), ?w1)"
    using assms(1,4,5) by (intro create_order_row_succeeds) (simp_all add: eval_nat_numeral)
  then have "submit args w = place_and_record args ?row ?w1"
    using assms(1) guards
    by (simp add: submit_def findActiveOrderForIntent_def findActiveOrderForSymbol_def order_find_def
        order_find_latest_def await_run)
  then show ?thesis
    using place_and_record_places [of args ?row ?w1] by (simp add: new_order_row_def placements_def)
qed

text \<open>The outcome of a placement is written as the broker answered. Once the broker has
  accepted, the only change to the table is that the row becomes \<open>submitted\<close> (or stays
  \<open>pending_submit\<close> when that write fails), never \<open>submit_failed\<close>, and the failure streak is
  cleared; once it has refused, the row can only become \<open>submit_failed\<close> with the error, and the
  failure is counted. In both cases \<open>place_and_record\<close> returns a row and does not throw.\<close>

theorem placement_outcome_recorded:
  "(\<exists>r. fst (place_and_record args row w) = Inr r) \<and>
   (case env_place (w_env w) (w_calls w) (sa_broker args)
          (submit_request (ro_client_order_id row) args) of
      Inr b \<Rightarrow> (\<exists>t. w_orders (snd (place_and_record args row w)) \<in>
             {w_orders w, update_rows (has_id (ro_id row)) (mark_submitted b t) (w_orders w)}) \<and>
           w_fail_times (snd (place_and_record args row w)) = []
    | Inl e \<Rightarrow> w_orders (snd (place_and_record args row w)) \<in>
             {w_orders w, update_rows (has_id (ro_id row)) (mark_submit_failed e) (w_orders w)} \<and>
           w_fail_times (snd (place_and_record args row w)) \<noteq> [])"
proof -
  let ?w = "note_event (EvPlace (sa_broker args) (submit_request (ro_client_order_id row) args)) w"
  have ok: "(\<exists>t. w_orders (snd (record_success b row ?w)) \<in>
        {w_orders w, update_rows (has_id (ro_id row)) (mark_submitted b t) (w_orders w)}) \<and>
      w_fail_times (snd (record_success b row ?w)) = []" for b
    by (auto simp: record_success_def await_run attempt_run modify_def order_update_def db_write_def
        put_orders_def ret_def split: option.splits sum.splits)
  have halt: "w_orders (snd (haltRealExecution m v)) = w_orders v \<and>
      w_fail_times (snd (haltRealExecution m v)) = w_fail_times v" for m v
    by (simp add: haltRealExecution_def kv_set_def await_run db_write_def split: option.splits)
  have rec: "w_orders (snd (recordSubmitFailureAndMaybeHalt v)) = w_orders v \<and>
      w_fail_times (snd (recordSubmitFailureAndMaybeHalt v)) \<noteq> []" for v
    by (simp add: recordSubmitFailureAndMaybeHalt_def await_run attempt_run modify_def gets_def ret_def
        halt split: sum.splits)
  have bad: "w_orders (snd (record_failure e row ?w)) \<in>
        {w_orders w, update_rows (has_id (ro_id row)) (mark_submit_failed e) (w_orders w)} \<and>
      w_fail_times (snd (record_failure e row ?w)) \<noteq> []" for e
    using rec [of ?w]
    by (auto simp: record_failure_def await_run attempt_run order_update_def db_write_def
        put_orders_def ret_def split: option.splits sum.splits)
  show ?thesis
    using place_and_record_returns [of args row w] ok bad
    by (simp add: place_and_record_run Let_def split: sum.splits)
qed

text \<open>The failures that count at time \<open>t\<close>, with the new one.\<close>

definition failure_window :: "int \<Rightarrow> int list \<Rightarrow> int list" where
  "failure_window t ts = filter (\<lambda>s. t - s \<le> 300000) ts @ [t]"

text \<open>The kill switch trips exactly when the third consecutive failure falls within five
  minutes. After a refused placement, with the database answering, the switch is on when the
  window of this failure and the recent ones has at least three entries; with fewer, no
  configuration key has been written.\<close>

theorem third_failure_halts:
  assumes "no_faults w"
    and "env_place (w_env w) (w_calls w) (sa_broker args)
      (submit_request (ro_client_order_id row) args) = Inl e"
  shows "let w' = snd (place_and_record args row w);
             ts = failure_window (env_now (w_env w) (w_calls w + 1)) (w_fail_times w)
         in w_fail_times w' = ts \<and>
            (if 3 \<le> length ts then halted w' else w_config w' = w_config w)"
proof -
  let ?w = "note_event (EvPlace (sa_broker args) (submit_request (ro_client_order_id row) args)) w"
  let ?t = "env_now (w_env w) (w_calls w + 1)"
  let ?v = "(tock ?w)\<lparr>w_fail_times := failure_window ?t (w_fail_times w)\<rparr>"
  have upd: "w_config (snd (record_failure e row v)) = w_config (snd (recordSubmitFailureAndMaybeHalt v)) \<and>
      w_fail_times (snd (record_failure e row v)) = w_fail_times (snd (recordSubmitFailureAndMaybeHalt v))" for v
    using never_throws_record
    by (auto simp: record_failure_def await_run attempt_run order_update_def db_write_def
        put_orders_def ret_def split: option.splits sum.splits)
  have run: "snd (recordSubmitFailureAndMaybeHalt ?w) =
      (if length (failure_window ?t (w_fail_times w)) < 3 then ?v
       else snd (haltRealExecution ''repeated real order submit failures'' ?v))"
    by (simp add: recordSubmitFailureAndMaybeHalt_def await_run attempt_run modify_def gets_def ret_def
        failure_window_def SUBMIT_FAILURE_WINDOW_MS_def SUBMIT_FAILURE_THRESHOLD_def split: sum.splits)
  have nf: "no_faults ?v" using assms(1) by simp
  have halt: "halted (snd (haltRealExecution m ?v))"
    "w_fail_times (snd (haltRealExecution m ?v)) = w_fail_times ?v" for m
    using nf
    by (simp_all add: haltRealExecution_def kv_set_def await_run db_write_ok halted_def switch_on_def)
  show ?thesis
    using upd [of ?w] run halt assms(2)
    by (simp add: place_and_record_run Let_def halted_def)
qed

section \<open>Recovery of rows the broker does not know\<close>

text \<open>Ending rows keeps the active rows of the others distinct.\<close>

lemma active_after_ending:
  assumes "\<And>x. \<not> active_order (f x)"
  shows "filter active_order (update_rows p f t) = filter (\<lambda>x. \<not> p x) (filter active_order t)"
  using assms by (induction t) (auto simp: update_rows_def)

lemma distinct_active_update:
  assumes "\<And>x. \<not> active_order (f x)" "distinct (map ro_trade_intent_id (filter active_order t))"
  shows "distinct (map ro_trade_intent_id (filter active_order (update_rows p f t)))"
  unfolding active_after_ending [OF assms(1)] using assms(2) by (rule distinct_map_filter)

text \<open>The broker answers every lookup by client order id with a confirmed absence.\<close>

definition broker_knows_nothing :: "world \<Rightarrow> bool" where
  "broker_knows_nothing w \<longleftrightarrow> (\<forall>n b c. env_order_by_client (w_env w) n b c = Inr None)"

lemma recoverRow_absent:
  assumes "broker_knows_nothing w"
  shows "recoverRow row w = handleConfirmedAbsent row
    (note_event (EvLookupClient (ro_broker_plugin_id row) (ro_client_order_id row)) w)"
  using assms
  by (simp add: recoverRow_def broker_knows_nothing_def get_order_by_client_def await_run attempt_run
      ret_def)

definition absent_count :: "world \<Rightarrow> real_order \<Rightarrow> nat" where
  "absent_count w row = (case w_absent w (ro_id row) of Some n \<Rightarrow> n | None \<Rightarrow> 0)"

text \<open>Recovery of a row the broker does not know is bounded. One confirmed absence raises
  the row's count and leaves the table alone as long as the count stays below three; the third
  consecutive one resets the count and, when the write goes through, gives the row the status
  \<open>confirmed_absent\<close>, which is not recoverable: no later \<open>recoverInflight\<close> selects it.\<close>

theorem confirmed_absent_escalates:
  assumes "broker_knows_nothing w" "no_faults w" "orders_ok (w_orders w)" "row \<in> set (w_orders w)"
    and "w' = snd (recoverRow row w)"
  shows "if absent_count w row < 2
    then w_orders w' = w_orders w \<and> absent_count w' row = absent_count w row + 1
    else absent_count w' row = 0 \<and>
      (\<exists>r \<in> set (w_orders w'). ro_id r = ro_id row \<and> ro_status r = ''confirmed_absent'' \<and> \<not> recoverable r)"
proof -
  let ?v = "note_event (EvLookupClient (ro_broker_plugin_id row) (ro_client_order_id row)) w"
  have run: "w' = snd (handleConfirmedAbsent row ?v)" using assms(1,5) by (simp add: recoverRow_absent)
  show ?thesis
  proof (cases "absent_count w row < 2")
    case True
    then show ?thesis unfolding run
      by (simp add: handleConfirmedAbsent_def await_run gets_def set_absent_def modify_def
          CONFIRMED_ABSENT_ESCALATION_THRESHOLD_def absent_count_def)
  next
    case False
    let ?m = "mark_confirmed_absent (absent_count w row + 1)"
    let ?t = "update_rows (has_id (ro_id row)) ?m (w_orders w)"
    obtain r where r: "find_row (has_id (ro_id row)) (w_orders w) = Some r"
      using assms(4) by (cases "find_row (has_id (ro_id row)) (w_orders w)")
        (auto simp: find_row_None has_id_def)
    have keys: "ro_id (?m x) = ro_id x" "ro_client_order_id (?m x) = ro_client_order_id x"
      "ro_trade_intent_id (?m x) = ro_trade_intent_id x" "\<not> active_order (?m x)" for x
      by (simp_all add: mark_confirmed_absent_def active_order_def index_terminal_def)
    have "orders_ok ?t"
      using assms(3) keys unfolding orders_ok_def
      by (simp add: map_update_rows_key distinct_active_update)
    then have t: "w_orders w' = ?t" "w_absent w' (ro_id row) = None"
      unfolding run using False assms(2) r
      by (simp_all add: handleConfirmedAbsent_def await_run gets_def set_absent_def modify_def
          CONFIRMED_ABSENT_ESCALATION_THRESHOLD_def absent_count_def attempt_run order_update_def
          db_write_ok put_orders_def ret_def)
    have "?m row \<in> set ?t" using assms(4) by (force simp: update_rows_def has_id_def)
    moreover have "ro_status (?m row) = ''confirmed_absent''" "\<not> recoverable (?m row)"
      by (simp_all add: mark_confirmed_absent_def recoverable_def RECOVERABLE_STATUSES_def)
    ultimately show ?thesis using False t keys(1) by (auto simp: absent_count_def)
  qed
qed

end
