(* ===== verification/ReconciliationFacts.thy ===== *)
theory ReconciliationFacts
  imports Reconciliation RealOrderFacts
begin

text \<open>
  What holds of the reconciliation loop: what every step of it respects, the two-sided ledger
  writes and their compare-and-set, the circuit breaker, the portfolio cache and its high-water
  mark, drift and adoption.
\<close>

section \<open>What the loop respects\<close>

text \<open>The part of the loop that touches no order and no intent: portfolio sync and stale orders.\<close>

locale portfolio_sync = world_evolution R for R :: "world \<Rightarrow> world \<Rightarrow> bool" +
  assumes broker_query: "(\<And>b q. e \<noteq> EvPlace b q) \<Longrightarrow> R w (note_event e w)"
    and alerts: "R w (w\<lparr>w_alerts := al\<rparr>)"
    and caches: "R w (w\<lparr>w_positions := ps\<rparr>)" "R w (w\<lparr>w_navs := ns\<rparr>)"
    and last_sync: "R w (w\<lparr>w_last_sync := ls\<rparr>)"
    and halting: "evolves R (haltRealExecution reason)"
begin

lemmas ev_queries = ev_broker_queries [OF broker_query]

lemma ev_alerts_create: "evolves R (alerts_create a)"
  unfolding alerts_create_def by (rule ev_db_write) (auto intro: alerts)

lemma ev_cache_writes:
  "evolves R (positions_delete_others b s)" "evolves R (position_upsert p)" "evolves R (nav_create n)"
  "evolves R (nav_latest b)"
  unfolding positions_delete_others_def position_upsert_def nav_create_def nav_latest_def
  by (rule ev_db_write, auto intro: caches)+ (rule ev_db_read)

lemma ev_store_portfolio: "evolves R (store_portfolio b src p)"
  unfolding store_portfolio_def by (intro ev_transaction ev_pure ev_cache_writes)

lemma ev_drift_alert: "evolves R (drift_alert as pos)"
  unfolding drift_alert_def by (intro ev_pure ev_alerts_create)

lemma ev_drift_loop: "evolves R (drift_loop as b ds ps)"
proof (induction ps arbitrary: ds)
  case Nil
  show ?case by (simp add: ev_ret)
next
  case (Cons p ps)
  show ?case unfolding drift_loop.simps by (intro ev_pure ev_drift_alert Cons.IH)
qed

lemma ev_detectDrift: "evolves R (detectDrift ps b)"
  unfolding detectDrift_def by (intro ev_pure ev_drift_loop halting)

lemma ev_syncPortfolio: "evolves R (syncPortfolio b src)"
  unfolding syncPortfolio_def by (intro ev_pure ev_queries ev_store_portfolio ev_detectDrift)

lemma ev_last_sync: "evolves R (modify (\<lambda>w. w\<lparr>w_last_sync := y\<rparr>))"
  by (intro evolves_modify last_sync)

lemma ev_maybeSync: "evolves R maybeSyncPortfolioOnTick" "evolves R syncPortfolioAtStartup"
  unfolding maybeSyncPortfolioOnTick_def syncPortfolioAtStartup_def resolveBrokerPluginId_def
  by (intro ev_pure ev_last_sync ev_syncPortfolio)+

lemma ev_cancel_stale_row: "evolves R (cancel_stale_row ms row)"
  unfolding cancel_stale_row_def by (intro ev_pure ev_queries ev_alerts_create)

lemma ev_cancelStaleOpenOrders: "evolves R cancelStaleOpenOrders"
  unfolding cancelStaleOpenOrders_def readStaleTimeoutMs_def by (intro ev_pure ev_cancel_stale_row)

end

locale reconciliation = order_recovery R + portfolio_sync R for R :: "world \<Rightarrow> world \<Rightarrow> bool" +
  assumes touching: "evolves R (order_update i (touch b t))"
    and filling: "evolves R (order_update_many (unmoved row) (mark_filled st t))"
    and part_filling: "evolves R (order_update_many (unmoved row) (mark_partial st t))"
    and stopping: "evolves R (order_update_many (unmoved row) (mark_stopped c st t))"
    and intents: "R w (w\<lparr>w_intents := ti\<rparr>)"
    and breakers: "R w (w\<lparr>w_breaker := cb\<rparr>)"
    and running: "R w (w\<lparr>w_tick_running := tr\<rparr>)"
    and adopting: "evolves R (order_create row)"
begin

lemma ev_intent_steps: "evolves R (intent_update i g)" "evolves R (intent_create r)"
  by (intro ev_intent_writes intents)+

lemma ev_touchLastReconciledAt: "evolves R (touchLastReconciledAt i b)"
  unfolding touchLastReconciledAt_def by (intro ev_pure touching)

lemma ev_settle:
  "evolves R (settle row (mark_filled st t) g)" "evolves R (settle row (mark_stopped c st t) g)"
  unfolding settle_def by (intro ev_transaction ev_pure filling stopping ev_intent_steps)+

lemma ev_applyBrokerOrder: "evolves R (applyBrokerOrder row st)"
  unfolding applyBrokerOrder_def Let_def
  by (intro ev_pure ev_touchLastReconciledAt ev_settle part_filling)

lemma ev_query_broker: "evolves R (query_broker row)"
  unfolding query_broker_def by (intro ev_pure ev_queries)

lemma ev_reconcile_row: "evolves R (reconcile_row row)"
  unfolding reconcile_row_def
  by (intro ev_pure ev_query_broker ev_touchLastReconciledAt ev_applyBrokerOrder)

lemma ev_reconcileOrder: "evolves R (reconcileOrder i)"
  unfolding reconcileOrder_def by (intro ev_pure ev_reconcile_row)

lemma ev_delay: "evolves R (delay ms)"
  unfolding delay_def by (intro evolves_modify tock)

lemma ev_poll_loop: "evolves R (poll_loop i ds)"
proof (induction ds)
  case Nil
  show ?case by (simp add: ev_ret)
next
  case (Cons d ds)
  show ?case unfolding poll_loop.simps by (intro ev_pure ev_delay ev_reconcileOrder Cons.IH)
qed

lemma ev_fastPollOrder: "evolves R (fastPollOrder i)"
  unfolding fastPollOrder_def by (intro ev_pure ev_poll_loop)

lemma ev_reconcileAllOpenOrders: "evolves R reconcileAllOpenOrders"
  unfolding reconcileAllOpenOrders_def
  by (intro ev_pure ev_recoverInflight ev_cancelStaleOpenOrders ev_reconcileOrder)

lemma ev_saveCb: "evolves R (saveCb cb)"
  unfolding saveCb_def by (rule ev_db_write) (auto intro: breakers)

lemma ev_handleTickFailure: "evolves R (handleTickFailure err cb)"
  unfolding handleTickFailure_def Let_def by (intro ev_pure ev_saveCb ev_alerts_create halting)

lemma ev_adoptBrokerPosition: "evolves R (adoptBrokerPosition s b note)"
  unfolding adoptBrokerPosition_def write_adoption_def
  by (intro ev_transaction ev_pure ev_queries ev_intent_steps adopting ev_syncPortfolio)

lemma ev_running: "evolves R (modify (\<lambda>w. w\<lparr>w_tick_running := x\<rparr>))"
  by (intro evolves_modify running)

lemma ev_run_tick: "evolves R (run_tick cb)"
  unfolding run_tick_def
  by (intro ev_pure ev_running ev_reconcileAllOpenOrders ev_saveCb ev_handleTickFailure running)

lemma ev_tick: "evolves R tick"
  unfolding tick_def admit_tick_def getCircuitBreaker_def Let_def
  by (intro ev_pure ev_maybeSync ev_saveCb ev_run_tick)

lemma ev_startReconciliation: "evolves R startReconciliation"
  unfolding startReconciliation_def readIntervalMs_def Let_def by (intro ev_pure ev_maybeSync ev_tick)

end

text \<open>The instances: environment, placements, unique index, kill switch, identity of rows.\<close>

interpretation same_env: reconciliation "\<lambda>w w'. w_env w' = w_env w"
  by unfold_locales (auto intro: same_env_rules same_env_halt)

interpretation index_kept:
  reconciliation "\<lambda>w w'. orders_ok (w_orders w) \<longrightarrow> orders_ok (w_orders w')"
  by unfold_locales (auto intro: index_rules index_halt)

interpretation halting: reconciliation stays_halted
  by unfold_locales (auto intro: halting_rules)

interpretation no_placement: reconciliation no_new_placement
  by unfold_locales (auto intro: no_placement_rules no_new_placement_event no_placement_halt)

lemma recon_marks_identity:
  "same_identity x (touch b t x)" "same_identity x (mark_filled st t x)"
  "same_identity x (mark_partial st t x)" "same_identity x (mark_stopped c st t x)"
  by (simp_all add: same_identity_def touch_def mark_filled_def mark_partial_def mark_stopped_def
      split: option.splits)

interpretation identity: reconciliation "rows_rel same_identity"
  by unfold_locales
    (auto intro: identity.row_rules identity.rows_same marks_identity recon_marks_identity)

text \<open>The reconciliation service never sends an order to the broker. Whatever the broker
  answers, whichever database calls fail and whatever the state, a tick, the start-up sequence,
  a fast poll, a portfolio sync and the adoption of a position leave the trace of placements as
  it was.\<close>

lemma reconciliation_never_places:
  "no_new_placement w (snd (tick w)) \<and> no_new_placement w (snd (startReconciliation w)) \<and>
   no_new_placement w (snd (fastPollOrder i w)) \<and> no_new_placement w (snd (syncPortfolio b src w)) \<and>
   no_new_placement w (snd (adoptBrokerPosition s b note w))"
  by (intro conjI evolvesD [OF no_placement.ev_tick] evolvesD [OF no_placement.ev_startReconciliation]
      evolvesD [OF no_placement.ev_fastPollOrder] evolvesD [OF no_placement.ev_syncPortfolio]
      evolvesD [OF no_placement.ev_adoptBrokerPosition])

lemma keeps_halted: "evolves stays_halted m \<Longrightarrow> keeps halted m"
  by (simp add: keeps_def evolves_def stays_halted_def)

lemma clear_turns_off:
  "env_db_fault (w_env w) (w_calls w) = None \<Longrightarrow> \<not> halted (snd (clearRealExecutionHalt w))"
  by (auto simp: clearRealExecutionHalt_def kv_set_def kv_delete_def await_run attempt_run db_write_def
      ret_def halted_def switch_on_def split: option.splits)

text \<open>Only the operator clears the kill switch. Every operation of the order service and of
  the reconciliation service leaves a tripped switch tripped, in particular a successful tick,
  a successful submission and the adoption of a drifted position; the operator's
  \<open>clearRealExecutionHalt\<close> turns it off when the database answers.\<close>

lemma only_operator_clears_halt:
  "keeps halted (submit args) \<and> keeps halted recoverInflight \<and> keeps halted tick \<and>
   keeps halted startReconciliation \<and> keeps halted (fastPollOrder i) \<and>
   keeps halted (syncPortfolio b src) \<and> keeps halted (adoptBrokerPosition s b note) \<and>
   (\<forall>w. env_db_fault (w_env w) (w_calls w) = None \<longrightarrow> \<not> halted (snd (clearRealExecutionHalt w)))"
  by (intro conjI allI impI keeps_halted halting.ev_submit halting.ev_recoverInflight
      halting.ev_tick halting.ev_startReconciliation halting.ev_fastPollOrder
      halting.ev_syncPortfolio halting.ev_adoptBrokerPosition clear_turns_off)

text \<open>The reconciliation service keeps the unique indexes of the order table and never
  changes which order a row is: its id, intent, broker, client order id, symbol, side and
  requested quantity are those it was created with, and rows are never deleted.\<close>

lemma reconciliation_keeps_rows:
  "(orders_ok (w_orders w) \<longrightarrow> orders_ok (w_orders (snd (tick w)))) \<and>
   rows_rel same_identity w (snd (tick w)) \<and>
   (orders_ok (w_orders w) \<longrightarrow> orders_ok (w_orders (snd (adoptBrokerPosition s b note w)))) \<and>
   rows_rel same_identity w (snd (adoptBrokerPosition s b note w))"
  by (intro conjI evolvesD [OF index_kept.ev_tick] evolvesD [OF identity.ev_tick]
      evolvesD [OF index_kept.ev_adoptBrokerPosition] evolvesD [OF identity.ev_adoptBrokerPosition])

section \<open>Both sides of the ledger\<close>

text \<open>A settlement writes the order row and the intent, or neither.\<close>

definition both_sides ::
  "real_order \<Rightarrow> (real_order \<Rightarrow> real_order) \<Rightarrow> (trade_intent \<Rightarrow> trade_intent) \<Rightarrow> world \<Rightarrow> world \<Rightarrow> bool" where
  "both_sides row f g w w' \<longleftrightarrow>
     (\<exists>r \<in> set (w_orders w). unmoved row r) \<and>
     (\<exists>i \<in> set (w_intents w). ti_id i = ro_trade_intent_id row) \<and>
     w_orders w' = update_rows (unmoved row) f (w_orders w) \<and>
     w_intents w' = update_rows (has_ti (ro_trade_intent_id row)) g (w_intents w)"

definition same_ledger :: "world \<Rightarrow> world \<Rightarrow> bool" where
  "same_ledger w w' \<longleftrightarrow> w_orders w' = w_orders w \<and> w_intents w' = w_intents w"

lemma update_many_cases:
  obtains (failed) e where "order_update_many p f w = (Inl e, tock w)"
  | (none) "order_update_many p f w = (Inr 0, tock w)" "\<forall>r \<in> set (w_orders w). \<not> p r"
  | (some) n where "order_update_many p f w =
      (Inr (Suc n), tock (w\<lparr>w_orders := update_rows p f (w_orders w)\<rparr>))" "\<exists>r \<in> set (w_orders w). p r"
proof (cases "env_db_fault (w_env w) (w_calls w)")
  case (Some e)
  then show thesis by (intro failed) (simp add: order_update_many_def db_write_def)
next
  case None
  show thesis
  proof (cases "orders_ok (update_rows p f (w_orders w))")
    case False
    then show thesis
      using None by (intro failed) (simp add: order_update_many_def db_write_def put_orders_def)
  next
    case True
    then have run: "order_update_many p f w = (Inr (length (filter p (w_orders w))),
        tock (w\<lparr>w_orders := update_rows p f (w_orders w)\<rparr>))"
      using None by (simp add: order_update_many_def db_write_def put_orders_def)
    show thesis
    proof (cases "length (filter p (w_orders w))")
      case 0
      then have no: "\<forall>r \<in> set (w_orders w). \<not> p r" by (simp add: filter_empty_conv)
      then have "update_rows p f (w_orders w) = w_orders w" by (intro update_rows_no_match) simp
      then show thesis using run 0 no by (intro none) simp_all
    next
      case (Suc n)
      then have "filter p (w_orders w) \<noteq> []" by auto
      then have "\<exists>r \<in> set (w_orders w). p r" by (simp add: filter_empty_conv)
      then show thesis using run Suc by (intro some) simp_all
    qed
  qed
qed

lemma settle_cases: "same_ledger w (snd (settle row f g w)) \<or> both_sides row f g w (snd (settle row f g w))"
proof (cases rule: update_many_cases [of "unmoved row" f w])
  case (failed e)
  then show ?thesis by (simp add: settle_def transaction_def await_def same_ledger_def)
next
  case none
  then show ?thesis
    by (simp add: settle_def transaction_def await_def ret_def same_ledger_def split: option.splits)
next
  case (some n)
  then show ?thesis
    by (auto simp: settle_def transaction_def await_def ret_def same_ledger_def both_sides_def
        intent_update_def db_write_def has_ti_def dest: find_row_Some
        split: option.splits sum.splits prod.splits)
qed

lemma settle_success:
  assumes "no_faults w" "r \<in> set (w_orders w)" "unmoved row r"
    and "i \<in> set (w_intents w)" "ti_id i = ro_trade_intent_id row"
    and "orders_ok (update_rows (unmoved row) f (w_orders w))"
  shows "both_sides row f g w (snd (settle row f g w))"
proof -
  obtain n where n: "length (filter (unmoved row) (w_orders w)) = Suc n"
    using assms(2,3) by (cases "length (filter (unmoved row) (w_orders w))") (auto simp: filter_empty_conv)
  obtain j where j: "find_row (has_ti (ro_trade_intent_id row)) (w_intents w) = Some j"
    using assms(4,5) by (cases "find_row (has_ti (ro_trade_intent_id row)) (w_intents w)")
      (auto simp: find_row_None has_ti_def)
  have "env_db_fault (w_env w) k = None" for k using assms(1) by (simp add: no_faults_def)
  then have "snd (settle row f g w) = (let v = tock (w\<lparr>w_orders := update_rows (unmoved row) f (w_orders w)\<rparr>)
      in tock (tock (v\<lparr>w_intents := update_rows (has_ti (ro_trade_intent_id row)) g (w_intents w)\<rparr>)))"
    using n j assms(6)
    by (simp add: settle_def transaction_def await_def ret_def order_update_many_def intent_update_def
        db_write_def put_orders_def)
  then show ?thesis using assms(2-5) by (auto simp: both_sides_def)
qed

text \<open>The writes of a reconciliation that leave the intents alone.\<close>

lemma touch_run: "w_intents (snd (touchLastReconciledAt i b w)) = w_intents w \<and>
    (w_orders (snd (touchLastReconciledAt i b w)) = w_orders w \<or>
     (\<exists>t. w_orders (snd (touchLastReconciledAt i b w)) = update_rows (has_id i) (touch b t) (w_orders w)))"
  by (auto simp: touchLastReconciledAt_def attempt_run await_run order_update_def db_write_def
      put_orders_def ret_def split: option.splits sum.splits)

definition bookkeeping_only :: "world \<Rightarrow> world \<Rightarrow> bool" where
  "bookkeeping_only w w' \<longleftrightarrow> w_intents w' = w_intents w \<and>
     list_all2 (\<lambda>x y. same_fills x y \<and> ro_status y = ro_status x) (w_orders w) (w_orders w')"

lemma list_all2_update_rows: "(\<And>x. P x x) \<Longrightarrow> (\<And>x. p x \<Longrightarrow> P x (f x)) \<Longrightarrow> list_all2 P t (update_rows p f t)"
  by (induction t) auto

lemma same_fills_refl [simp]: "same_fills x x"
  by (simp add: same_fills_def)

lemma touch_bookkeeping: "bookkeeping_only w (snd (touchLastReconciledAt i b w))"
proof -
  have "same_fills x (touch b t x) \<and> ro_status (touch b t x) = ro_status x" for t x
    by (simp add: same_fills_def touch_def split: option.splits)
  then show ?thesis
    using touch_run [of i b w]
    by (auto simp: bookkeeping_only_def list_all2_same intro!: list_all2_update_rows)
qed

lemma same_ledger_bookkeeping: "same_ledger w w' \<Longrightarrow> bookkeeping_only w w'"
  by (simp add: same_ledger_def bookkeeping_only_def list_all2_same)

lemma both_sides_tock [simp]: "both_sides row f g (tock w) w' = both_sides row f g w w'"
  by (simp add: both_sides_def)

lemma same_ledger_tock [simp]: "same_ledger (tock w) w' = same_ledger w w'"
  by (simp add: same_ledger_def)

lemma bookkeeping_tock [simp]: "bookkeeping_only (tock w) w' = bookkeeping_only w w'"
  by (simp add: bookkeeping_only_def)

lemma apply_run:
  "applyBrokerOrder row st w = (let t = env_now (w_env w) (w_calls w);
       canonical = normalizeBrokerStatus (os_status st); valid = isValidFillEvidence st
     in (if canonical = ''filled'' \<and> \<not> valid then touchLastReconciledAt (ro_id row) None
         else if canonical = ''filled'' \<and> valid then settle row (mark_filled st t) (mark_executed st)
         else if canonical = ''partially_filled'' then
           await (order_update_many (unmoved row) (mark_partial st t)) (\<lambda>_. ret ())
         else if canonical = ''rejected'' \<or> canonical = ''canceled'' \<or> canonical = ''expired'' then
           settle row (mark_stopped canonical st t)
             (if valid then mark_executed st else mark_failed (extractRejectReason st))
         else touchLastReconciledAt (ro_id row)
               (if truthy (ro_broker_order_id row) \<noteq> None then None
                else Some (os_broker_order_id st))) (tock w))"
  unfolding applyBrokerOrder_def Let_def await_run [of now] now_run by (simp only: fst_conv snd_conv sum.case)

definition partial_write :: "real_order \<Rightarrow> order_status \<Rightarrow> world \<Rightarrow> world \<Rightarrow> bool" where
  "partial_write row st w w' \<longleftrightarrow>
     (\<exists>r \<in> set (w_orders w). unmoved row r) \<and> w_intents w' = w_intents w \<and>
     (\<exists>t. w_orders w' = update_rows (unmoved row) (mark_partial st t) (w_orders w))"

lemma partial_cases:
  "same_ledger w (snd (await (order_update_many (unmoved row) (mark_partial st t)) (\<lambda>_. ret ()) w)) \<or>
   partial_write row st w (snd (await (order_update_many (unmoved row) (mark_partial st t)) (\<lambda>_. ret ()) w))"
  by (cases rule: update_many_cases [of "unmoved row" "mark_partial st t" w])
    (auto simp: await_def ret_def same_ledger_def partial_write_def)

lemma applyBrokerOrder_cases:
  "let w' = snd (applyBrokerOrder row st w); canonical = normalizeBrokerStatus (os_status st);
       valid = isValidFillEvidence st
   in bookkeeping_only w w' \<or>
      (canonical = ''partially_filled'' \<and> partial_write row st w w') \<or>
      (canonical = ''filled'' \<and> valid \<and>
         (\<exists>t. both_sides row (mark_filled st t) (mark_executed st) w w')) \<or>
      (canonical \<in> {''rejected'', ''canceled'', ''expired''} \<and>
         (\<exists>t. both_sides row (mark_stopped canonical st t)
            (if valid then mark_executed st else mark_failed (extractRejectReason st)) w w'))"
proof -
  let ?c = "normalizeBrokerStatus (os_status st)" let ?v = "isValidFillEvidence st"
  let ?t = "env_now (w_env w) (w_calls w)" let ?w = "snd (applyBrokerOrder row st w)"
  note book = same_ledger_bookkeeping
  consider (bad) "?c = ''filled''" "\<not> ?v" | (filled) "?c = ''filled''" "?v"
    | (partial) "?c = ''partially_filled''" | (stopped) "?c \<in> {''rejected'', ''canceled'', ''expired''}"
    | (still_open) "?c \<notin> {''filled'', ''partially_filled'', ''rejected'', ''canceled'', ''expired''}"
    by fastforce
  then show ?thesis
  proof cases
    case bad
    then have "bookkeeping_only w ?w"
      using touch_bookkeeping [of "tock w" "ro_id row" None] by (simp add: apply_run Let_def)
    then show ?thesis by (simp add: Let_def)
  next
    case filled
    then have "same_ledger w ?w \<or> both_sides row (mark_filled st ?t) (mark_executed st) w ?w"
      using settle_cases [of "tock w" row "mark_filled st ?t" "mark_executed st"]
      by (simp add: apply_run Let_def)
    with filled book show ?thesis unfolding Let_def by blast
  next
    case partial
    then have "same_ledger w ?w \<or> partial_write row st w ?w"
      using partial_cases [of "tock w" row st ?t]
      by (simp add: apply_run Let_def partial_write_def)
    with partial book show ?thesis unfolding Let_def by blast
  next
    case stopped
    let ?g = "if ?v then mark_executed st else mark_failed (extractRejectReason st)"
    have "?c \<noteq> ''filled''" "?c \<noteq> ''partially_filled''" using stopped by auto
    then have "same_ledger w ?w \<or> both_sides row (mark_stopped ?c st ?t) ?g w ?w"
      using stopped settle_cases [of "tock w" row "mark_stopped ?c st ?t" ?g]
      by (auto simp: apply_run Let_def)
    with stopped book show ?thesis unfolding Let_def by blast
  next
    case still_open
    then have "bookkeeping_only w ?w"
      using touch_bookkeeping [of "tock w", unfolded bookkeeping_tock] by (simp add: apply_run Let_def)
    then show ?thesis by (simp add: Let_def)
  qed
qed

text \<open>C18: A broker answer reaches both sides of the ledger or neither. Applying it either does
  bookkeeping only (no status, no fill column and no intent changes), or records a partial fill
  on the order while the intent stays as it is, or ends the order and its intent together: as
  filled and executed with the broker's price and quantity, only on finite positive fill
  evidence; as canceled, rejected or expired, and then the intent is executed with what did
  fill when the evidence is valid, and failed otherwise. A status write hits only a row that
  still has the status that was read.\<close>

theorem applyBrokerOrder_both_sides:
  "let w' = snd (applyBrokerOrder row st w); canonical = normalizeBrokerStatus (os_status st);
       valid = isValidFillEvidence st
   in bookkeeping_only w w' \<or>
      (canonical = ''partially_filled'' \<and> partial_write row st w w') \<or>
      (canonical = ''filled'' \<and> valid \<and>
         (\<exists>t. both_sides row (mark_filled st t) (mark_executed st) w w')) \<or>
      (canonical \<in> {''rejected'', ''canceled'', ''expired''} \<and>
         (\<exists>t. both_sides row (mark_stopped canonical st t)
            (if valid then mark_executed st else mark_failed (extractRejectReason st)) w w'))"
  by (rule applyBrokerOrder_cases)

text \<open>A stale answer changes no status. When no row carries the status this call had read
  (a concurrent writer has moved it on), applying the broker's answer changes no status, no fill
  column and no intent, whatever the answer is.\<close>

theorem stale_answer_is_dropped:
  assumes "\<forall>r \<in> set (w_orders w). ro_id r = ro_id row \<longrightarrow> ro_status r \<noteq> ro_status row"
  shows "bookkeeping_only w (snd (applyBrokerOrder row st w))"
proof -
  have "\<not> (\<exists>r \<in> set (w_orders w). unmoved row r)"
    using assms by (auto simp: unmoved_def)
  then show ?thesis
    using applyBrokerOrder_cases [of row st w]
    unfolding Let_def both_sides_def partial_write_def by blast
qed

lemma both_sides_intent:
  assumes "both_sides row f g w w'" "i \<in> set (w_intents w)" "ti_id i = ro_trade_intent_id row"
  shows "g i \<in> set (w_intents w')"
  using assms by (force simp: both_sides_def update_rows_def has_ti_def)

lemma both_sides_order:
  assumes "both_sides row f g w w'" "r \<in> set (w_orders w)" "unmoved row r"
  shows "f r \<in> set (w_orders w')"
  using assms by (force simp: both_sides_def update_rows_def)

lemma terminal_update_ok:
  assumes "orders_ok t" "\<And>x. ro_id (f x) = ro_id x" "\<And>x. ro_client_order_id (f x) = ro_client_order_id x"
    and "\<And>x. \<not> active_order (f x)"
  shows "orders_ok (update_rows p f t)"
  using assms by (simp add: orders_ok_def map_update_rows_key distinct_active_update)

lemma stopped_inactive:
  "\<not> active_order (mark_filled st t x)"
  "c \<in> {''rejected'', ''canceled'', ''expired''} \<Longrightarrow> \<not> active_order (mark_stopped c st t x)"
  by (auto simp: active_order_def index_terminal_def mark_filled_def mark_stopped_def)

text \<open>C19: A fill is never lost. When the database answers and the row still has the status
  that was read, a valid \<open>filled\<close> answer makes the order \<open>filled\<close> and its intent \<open>executed\<close> at the
  broker's quantity and average price; and when the order stops instead (canceled, expired,
  rejected) after a valid partial fill, the order gets that terminal status and the intent is
  still executed with the filled part.\<close>

theorem valid_fill_reaches_intent:
  assumes "no_faults w" "orders_ok (w_orders w)" "r \<in> set (w_orders w)" "unmoved row r"
    and "i \<in> set (w_intents w)" "ti_id i = ro_trade_intent_id row"
    and "isValidFillEvidence st"
    and "c = normalizeBrokerStatus (os_status st)"
    and "c = ''filled'' \<or> c = ''rejected'' \<or> c = ''canceled'' \<or> c = ''expired''"
  shows "mark_executed st i \<in> set (w_intents (snd (applyBrokerOrder row st w))) \<and>
    (\<exists>r' \<in> set (w_orders (snd (applyBrokerOrder row st w))). ro_id r' = ro_id row \<and>
       ro_status r' = c \<and> ro_filled_qty r' = os_filled_qty st)"
proof -
  let ?t = "env_now (w_env w) (w_calls w)"
  let ?f = "if c = ''filled'' then mark_filled st ?t else mark_stopped c st ?t"
  have keys: "ro_id (?f x) = ro_id x" "ro_client_order_id (?f x) = ro_client_order_id x"
    "ro_status (?f x) = c" "ro_filled_qty (?f x) = os_filled_qty st" "\<not> active_order (?f x)" for x
    using assms(9) stopped_inactive by (auto simp: mark_filled_def mark_stopped_def)
  have "orders_ok (update_rows (unmoved row) ?f (w_orders w))"
    using assms(2) keys by (intro terminal_update_ok)
  then have "both_sides row ?f (mark_executed st) w (snd (settle row ?f (mark_executed st) (tock w)))"
    using settle_success [of "tock w" r row i ?f "mark_executed st"] assms(1,3,4,5,6) by simp
  moreover have "applyBrokerOrder row st w = settle row ?f (mark_executed st) (tock w)"
    using assms(7-9) by (auto simp: apply_run Let_def)
  ultimately have b: "both_sides row ?f (mark_executed st) w (snd (applyBrokerOrder row st w))" by simp
  have "ro_id r = ro_id row" using assms(4) by (simp add: unmoved_def)
  then show ?thesis
    using both_sides_intent [OF b assms(5,6)] both_sides_order [OF b assms(3,4)] keys by metis
qed

text \<open>C20: A terminal order is final for reconciliation: for a row that is filled, canceled,
  rejected or expired, \<open>reconcileOrder\<close> asks the broker nothing and changes no table.\<close>

theorem terminal_order_is_final:
  assumes "find_row (has_id i) (w_orders w) = Some row" "ro_status row \<in> set RECON_TERMINAL_STATUSES"
  shows "snd (reconcileOrder i w) = tock w"
  using assms
  by (simp add: reconcileOrder_def order_find_def db_read_def await_run ret_def split: option.splits)

section \<open>What the portfolio sync leaves alone\<close>

text \<open>Orders, intents, the breaker and the overlap flag.\<close>

definition same_core :: "world \<Rightarrow> world \<Rightarrow> bool" where
  "same_core w w' \<longleftrightarrow> w_orders w' = w_orders w \<and> w_intents w' = w_intents w \<and>
     w_breaker w' = w_breaker w \<and> w_tick_running w' = w_tick_running w"

interpretation core: world_evolution same_core
  by unfold_locales (auto simp: same_core_def)

lemma same_core_frame:
  "same_core w (note_event e w)" "same_core w (w\<lparr>w_config := c\<rparr>)" "same_core w (w\<lparr>w_alerts := al\<rparr>)"
  "same_core w (w\<lparr>w_positions := ps\<rparr>)" "same_core w (w\<lparr>w_navs := ns\<rparr>)"
  "same_core w (w\<lparr>w_last_sync := ls\<rparr>)"
  by (simp_all add: same_core_def)

lemma core_halt: "evolves same_core (haltRealExecution reason)"
  unfolding haltRealExecution_def by (intro core.ev_await core.ev_kv_set same_core_frame)

interpretation core: portfolio_sync same_core
  by unfold_locales (auto intro: same_core_frame core_halt)

text \<open>The sweep over stale orders only asks. \<open>cancelStaleOpenOrders\<close> and the portfolio
  sync write no order, no intent and no breaker state: the terminal status of a canceled order
  comes only from the broker's answer to a later reconciliation, together with its intent.\<close>

theorem sweeps_leave_the_ledger:
  "same_core w (snd (cancelStaleOpenOrders w)) \<and> same_core w (snd (syncPortfolio b src w)) \<and>
   same_core w (snd (maybeSyncPortfolioOnTick w))"
  by (intro conjI evolvesD [OF core.ev_cancelStaleOpenOrders] evolvesD [OF core.ev_syncPortfolio]
      evolvesD [OF core.ev_maybeSync(1)])

section \<open>Failing soft\<close>

lemma never_throws_kv_get_soft: "never_throws (kv_get_soft k)"
  unfolding kv_get_soft_def by auto

lemma never_throws_now [simp]: "never_throws now"
  by (simp add: never_throws_def)

lemma never_throws_resolve: "never_throws resolveBrokerPluginId"
  unfolding resolveBrokerPluginId_def by (auto intro!: never_throws_await never_throws_kv_get_soft)

lemma never_throws_sync: "never_throws maybeSyncPortfolioOnTick" "never_throws syncPortfolioAtStartup"
  unfolding maybeSyncPortfolioOnTick_def syncPortfolioAtStartup_def
  by (auto intro!: never_throws_await never_throws_resolve never_throws_attempt)

lemma never_throws_cb: "never_throws getCircuitBreaker"
  unfolding getCircuitBreaker_def by (auto intro!: never_throws_await never_throws_attempt split: option.split)

lemma never_throws_touch: "never_throws (touchLastReconciledAt i b)"
  unfolding touchLastReconciledAt_def by (auto intro!: never_throws_attempt)

lemma never_throws_interval: "never_throws readIntervalMs"
  unfolding readIntervalMs_def Let_def by (auto intro!: never_throws_await never_throws_kv_get_soft)

text \<open>What may not fail does not. A fast poll, the order service's start-up recovery, the
  throttled and the start-up portfolio sync and the reading of the interval never throw,
  whatever the broker answers and whichever database calls fail; and once an order row exists,
  the submission returns a row.\<close>

theorem background_work_never_throws:
  "never_throws (fastPollOrder i) \<and> never_throws onModuleInit \<and>
   never_throws maybeSyncPortfolioOnTick \<and> never_throws syncPortfolioAtStartup \<and>
   never_throws readIntervalMs \<and> never_throws (place_and_record args row)"
proof -
  have "never_throws (place_and_record args row)"
    unfolding never_throws_def using place_and_record_returns by (metis sum.distinct(1))
  then show ?thesis
    unfolding fastPollOrder_def onModuleInit_def
    by (auto intro!: never_throws_attempt never_throws_sync never_throws_interval)
qed

section \<open>The circuit breaker\<close>

lemma no_faults_step: "evolves (\<lambda>w w'. w_env w' = w_env w) m \<Longrightarrow> no_faults w \<Longrightarrow> no_faults (snd (m w))"
  by (auto simp: evolves_def no_faults_def)

lemma never_throws_run: "never_throws m \<Longrightarrow> \<exists>x. fst (m w) = Inr x"
  unfolding never_throws_def by (metis obj_sumE)

lemma saveCb_run: "no_faults w \<Longrightarrow> saveCb cb w = (Inr (), tock (w\<lparr>w_breaker := Some cb\<rparr>))"
  by (simp add: saveCb_def db_write_ok)

lemma haltRealExecution_run: "no_faults w \<Longrightarrow> fst (haltRealExecution m w) = Inr () \<and>
    halted (snd (haltRealExecution m w)) \<and> w_breaker (snd (haltRealExecution m w)) = w_breaker w \<and>
    w_alerts (snd (haltRealExecution m w)) = w_alerts w"
  by (simp add: haltRealExecution_def kv_set_def await_run db_write_ok halted_def switch_on_def)

lemma alerts_create_run: "no_faults w \<Longrightarrow> alerts_create a w = (Inr (), tock (w\<lparr>w_alerts := w_alerts w @ [a]\<rparr>))"
  by (simp add: alerts_create_def db_write_ok)

text \<open>A failed tick is counted, and the breaker opens at the third failure or at a failed
  probe. With the database answering, \<open>handleTickFailure\<close> stores one more failure, and the
  state \<open>open\<close> exactly when three failures are reached or the tick was a half-open probe,
  \<open>closed\<close> otherwise; a fresh opening raises a critical alert and trips the kill switch.\<close>

theorem tick_failure_step:
  assumes "no_faults w" "w' = snd (handleTickFailure err cb w)"
    and "trips = (3 \<le> cb_failures cb + 1 \<or> cb_state cb = ''half_open'')"
  shows "(\<exists>cb'. w_breaker w' = Some cb' \<and> cb_failures cb' = cb_failures cb + 1 \<and>
        cb_state cb' = (if trips then ''open'' else ''closed'') \<and>
        cb_last_failure_at cb' = Some (env_now (w_env w) (w_calls w))) \<and>
     (trips \<and> cb_state cb \<noteq> ''open'' \<longrightarrow> halted w' \<and>
        (\<exists>a. w_alerts w' = w_alerts w @ [a] \<and> al_type a = ''RECONCILIATION_HALTED'' \<and>
           al_severity a = ''CRITICAL''))"
proof -
  let ?cb = "\<lparr>cb_state = (if trips then ''open'' else ''closed''), cb_failures = cb_failures cb + 1,
    cb_last_failure_at = Some (env_now (w_env w) (w_calls w)),
    cb_last_success_at = cb_last_success_at cb, cb_reason = Some err\<rparr>"
  let ?v = "tock ((tock w)\<lparr>w_breaker := Some ?cb\<rparr>)"
  let ?a = "\<lparr>al_type = ''RECONCILIATION_HALTED'', al_severity = ''CRITICAL'', al_symbol = None,
    al_message = AmHalted (cb_failures cb + 1) err, al_resolved = False\<rparr>"
  let ?u = "tock (?v\<lparr>w_alerts := w_alerts ?v @ [?a]\<rparr>)"
  have nf: "no_faults (tock w)" "no_faults ?v" "no_faults ?u"
    using assms(1) by (simp_all add: no_faults_def)
  note H = haltRealExecution_run [OF nf(3), of "''reconciliation circuit breaker open''"]
  have b: "(3 \<le> cb_failures cb + 1 \<or> cb_state cb = ''half_open'') = trips" using assms(3) by simp
  have run: "handleTickFailure err cb w =
      (if trips \<and> cb_state cb \<noteq> ''open''
       then await (attempt (alerts_create ?a) (\<lambda>_. ret ())) (\<lambda>_.
         attempt (haltRealExecution ''reconciliation circuit breaker open'') (\<lambda>_. ret ())) ?v
       else ret () ?v)"
    unfolding handleTickFailure_def Let_def CB_MAX_FAILURES_def b
    by (subst await_run, simp only: now_run fst_conv snd_conv sum.case)
      (subst await_run, simp only: saveCb_run [OF nf(1)] fst_conv snd_conv sum.case if_distribR)
  show ?thesis
  proof (cases "trips \<and> cb_state cb \<noteq> ''open''")
    case True
    then have "w' = snd (haltRealExecution ''reconciliation circuit breaker open'' ?u)"
      unfolding assms(2) run using nf(2) H
      by (simp add: await_run attempt_run alerts_create_run)
    then show ?thesis using H True by auto
  next
    case False
    then have "w' = ?v" unfolding assms(2) run by (simp only: if_False ret_def snd_conv)
    then show ?thesis using False by auto
  qed
qed

text \<open>The breaker a tick reads: the stored one, or the closed one.\<close>

definition current_breaker :: "world \<Rightarrow> breaker" where
  "current_breaker w = (case w_breaker w of Some cb \<Rightarrow> cb | None \<Rightarrow> CLOSED_CB)"

definition cooling_down :: "breaker \<Rightarrow> int \<Rightarrow> bool" where
  "cooling_down cb t \<longleftrightarrow> cb_state cb = ''open'' \<and>
     t < (case cb_last_failure_at cb of Some s \<Rightarrow> s | None \<Rightarrow> 0) + 300000"

text \<open>An open breaker lets no tick through before five minutes have passed since the last
  failure, then admits one probe as \<open>half_open\<close>, which is stored; any other breaker admits the
  tick as it is. (With the database answering.)\<close>

theorem breaker_admission:
  assumes "no_faults w" "cb = current_breaker w" "t = env_now (w_env w) (w_calls w + 1)"
  shows "fst (admit_tick w) = Inr (if cooling_down cb t then None
      else if cb_state cb = ''open'' then Some (cb\<lparr>cb_state := ''half_open''\<rparr>) else Some cb) \<and>
    current_breaker (snd (admit_tick w)) =
      (if cb_state cb = ''open'' \<and> \<not> cooling_down cb t then cb\<lparr>cb_state := ''half_open''\<rparr> else cb)"
proof -
  have get: "getCircuitBreaker w = (Inr cb, tock w)"
    using assms(1,2)
    by (simp add: getCircuitBreaker_def await_run attempt_run ret_def current_breaker_def
        split: option.splits)
  have nf: "no_faults (tock (tock w))" using assms(1) by simp
  show ?thesis
    using assms(2,3) saveCb_run [OF nf]
    by (simp add: admit_tick_def await_run get ret_def cooling_down_def CB_HALF_OPEN_MS_def Let_def
        current_breaker_def)
qed

lemma never_throws_loop: "never_throws (for_each (\<lambda>row. attempt (f row) (\<lambda>_. ret ())) rows)"
  by (intro never_throws_for_each never_throws_attempt never_throws_ret)

lemma reconcileAll_returns:
  assumes "no_faults w"
  shows "fst (reconcileAllOpenOrders w) = Inr ()"
proof -
  have run: "\<exists>x. fst (attempt m (\<lambda>_. ret ()) v) = Inr x" for m :: "unit app" and v
    by (intro never_throws_run never_throws_attempt never_throws_ret)
  have env: "evolves (\<lambda>w w'. w_env w' = w_env w) (attempt recoverInflight (\<lambda>_. ret ()))"
    "evolves (\<lambda>w w'. w_env w' = w_env w) (attempt cancelStaleOpenOrders (\<lambda>_. ret ()))"
    by (intro same_env.ev_attempt same_env.ev_recoverInflight same_env.ev_cancelStaleOpenOrders
        same_env.ev_ret)+
  let ?u = "snd (attempt recoverInflight (\<lambda>_. ret ()) w)"
  let ?v = "snd (attempt cancelStaleOpenOrders (\<lambda>_. ret ()) ?u)"
  have "no_faults ?v" using assms env by (intro no_faults_step)
  then have "order_find_many open_order ?v = (Inr (filter open_order (w_orders ?v)), tock ?v)"
    by (simp add: order_find_many_def)
  moreover obtain x where "fst (for_each (\<lambda>row. attempt (reconcileOrder (ro_id row)) (\<lambda>_. ret ()))
      (filter open_order (w_orders ?v)) (tock ?v)) = Inr x"
    using never_throws_run [OF never_throws_loop [of "\<lambda>row. reconcileOrder (ro_id row)"]] by blast
  ultimately show ?thesis
    using run [of recoverInflight w] run [of cancelStaleOpenOrders ?u]
    by (auto simp: reconcileAllOpenOrders_def await_run)
qed

text \<open>The overlap flag and the breaker after a tick. A tick that finds the flag set does
  nothing beyond the portfolio sync; otherwise the flag is clear afterwards, also when the tick
  throws. A tick that runs with the database answering closes the breaker and resets its
  count, whatever single orders did: their failures never fail the tick.\<close>

theorem tick_releases_the_guard:
  "(w_tick_running w \<longrightarrow> snd (tick w) = snd (maybeSyncPortfolioOnTick w)) \<and>
   (\<not> w_tick_running w \<longrightarrow> \<not> w_tick_running (snd (tick w))) \<and>
   (no_faults w \<longrightarrow> (\<exists>t. w_breaker (snd (run_tick cb w)) = Some \<lparr>cb_state = ''closed'',
      cb_failures = 0, cb_last_failure_at = cb_last_failure_at cb, cb_last_success_at = Some t,
      cb_reason = None\<rparr>))"
proof -
  let ?s = "snd (maybeSyncPortfolioOnTick w)"
  obtain x where sync: "fst (maybeSyncPortfolioOnTick w) = Inr x"
    using never_throws_run [OF never_throws_sync(1)] by blast
  have flag: "w_tick_running ?s = w_tick_running w"
    using evolvesD [OF core.ev_maybeSync(1), of w] by (simp add: same_core_def)
  have reset: "\<not> w_tick_running (snd (run_tick cb v))" for cb v
    by (simp add: run_tick_def await_run modify_def ensure_run)
  have admit: "w_tick_running (snd (admit_tick v)) = w_tick_running v" for v
    by (simp add: admit_tick_def getCircuitBreaker_def await_run attempt_run ret_def Let_def saveCb_def
        db_write_def db_read_def split: option.splits sum.splits)
  have tick: "snd (tick w) = (if w_tick_running w then ?s else
      case fst (admit_tick ?s) of Inl e \<Rightarrow> snd (admit_tick ?s)
      | Inr None \<Rightarrow> snd (admit_tick ?s) | Inr (Some cb) \<Rightarrow> snd (run_tick cb (snd (admit_tick ?s))))"
    using sync flag by (simp add: tick_def await_run gets_def ret_def split: sum.splits option.splits)
  have "\<exists>t. w_breaker (snd (run_tick cb w)) = Some \<lparr>cb_state = ''closed'',
      cb_failures = 0, cb_last_failure_at = cb_last_failure_at cb, cb_last_success_at = Some t,
      cb_reason = None\<rparr>" if "no_faults w"
  proof -
    let ?u = "w\<lparr>w_tick_running := True\<rparr>"
    let ?v = "tock (snd (reconcileAllOpenOrders ?u))"
    have u: "no_faults ?u" using that by (simp add: no_faults_def)
    then have v: "no_faults ?v"
      using no_faults_step [OF same_env.ev_reconcileAllOpenOrders u] by simp
    show ?thesis
      using reconcileAll_returns [OF u] saveCb_run [OF v]
      by (simp add: run_tick_def await_run modify_def ensure_run attempt_run)
  qed
  then show ?thesis using tick reset admit flag by (auto split: sum.splits option.splits)
qed

section \<open>Settings\<close>

text \<open>Whatever text the table holds under the interval key, and also when it cannot be
  read, the reconciliation interval is a finite number of at least 5000 milliseconds.\<close>

lemma reconcile_interval_bounds:
  "\<exists>ms. fst (readIntervalMs w) = Inr ms \<and> is_finite ms \<and> jle (Fin 5000) ms"
proof -
  obtain raw where raw: "fst (kv_get_soft RECONCILE_INTERVAL_KEY w) = Inr raw"
    using never_throws_run [OF never_throws_kv_get_soft] by blast
  let ?ms = "kvNum raw DEFAULT_RECONCILE_INTERVAL_MS"
  have "is_finite ?ms" by (rule kvNum_finite) (simp add: DEFAULT_RECONCILE_INTERVAL_MS_def)
  then have "is_finite ?ms \<and> (jlt ?ms (Fin 5000) \<or> jle (Fin 5000) ?ms)" by (cases ?ms) auto
  then show ?thesis
    using raw by (auto simp: readIntervalMs_def await_run ret_def Let_def MIN_RECONCILE_INTERVAL_MS_def)
qed

section \<open>Stale orders\<close>

lemma kvNum_zero: "kvNum (Some ''0'') d = Fin 0"
  by (simp add: kvNum_def unwrapKv_def json_string_def json_ws_def) code_simp

lemma jsub_count_0: "\<bar>t\<bar> \<le> 2 ^ 53 \<Longrightarrow> jsub (of_count t) (Fin 0) = Fin (of_int t)"
  using jsub_exact [of t 0] by (simp add: of_count_exact)

lemma date_of_count: "\<bar>t\<bar> \<le> 8640000000000000 \<Longrightarrow> date_of_number (Fin (of_int t)) = Some t"
proof -
  assume "\<bar>t\<bar> \<le> 8640000000000000"
  then have "(of_int \<bar>t\<bar> :: rat) \<le> of_int 8640000000000000" by (rule of_int_le_iff [THEN iffD2])
  then show ?thesis by (simp add: date_of_number_def)
qed

lemma cancel_stale_asks:
  assumes "truthy (ro_broker_order_id row) = Some b"
  shows "EvCancel (ro_broker_plugin_id row) b \<in> set (w_trace (snd (cancel_stale_row ms row w)))"
  using assms
  by (simp add: cancel_stale_row_def attempt_run await_run cancel_order_def alerts_create_def
      db_write_def ret_def split: sum.splits option.splits)

text \<open>The trace only grows.\<close>

definition trace_grows :: "world \<Rightarrow> world \<Rightarrow> bool" where
  "trace_grows w w' \<longleftrightarrow> (\<exists>evs. w_trace w' = w_trace w @ evs)"

interpretation trace: world_evolution trace_grows
proof
  show "trace_grows u w" if "trace_grows u v" "trace_grows v w" for u v w
    using that by (force simp: trace_grows_def)
qed (auto simp: trace_grows_def)

lemma trace_frame:
  "trace_grows w (note_event e w)" "trace_grows w (w\<lparr>w_config := c\<rparr>)"
  "trace_grows w (w\<lparr>w_alerts := al\<rparr>)" "trace_grows w (w\<lparr>w_positions := ps\<rparr>)"
  "trace_grows w (w\<lparr>w_navs := ns\<rparr>)" "trace_grows w (w\<lparr>w_last_sync := ls\<rparr>)"
  by (auto simp: trace_grows_def)

lemma trace_halt: "evolves trace_grows (haltRealExecution reason)"
  unfolding haltRealExecution_def by (intro trace.ev_await trace.ev_kv_set trace_frame)

interpretation trace: portfolio_sync trace_grows
  by unfold_locales (auto intro: trace_frame trace_halt)

lemma trace_growsD: "trace_grows w w' \<Longrightarrow> e \<in> set (w_trace w) \<Longrightarrow> e \<in> set (w_trace w')"
  by (auto simp: trace_grows_def)

lemma never_throws_cancel_row: "never_throws (cancel_stale_row ms row)"
  unfolding cancel_stale_row_def by (auto intro!: never_throws_attempt split: option.split)

lemma cancel_loop_asks:
  assumes "row \<in> set rows" "truthy (ro_broker_order_id row) = Some b"
  shows "EvCancel (ro_broker_plugin_id row) b \<in> set (w_trace (snd (for_each (cancel_stale_row ms) rows w)))"
  using assms(1)
proof (induction rows arbitrary: w)
  case Nil
  then show ?case by simp
next
  case (Cons r rows)
  let ?w = "snd (cancel_stale_row ms r w)"
  obtain x where "fst (cancel_stale_row ms r w) = Inr x"
    using never_throws_run [OF never_throws_cancel_row] by blast
  then have step: "snd (for_each (cancel_stale_row ms) (r # rows) w) =
      snd (for_each (cancel_stale_row ms) rows ?w)"
    by (simp add: await_run)
  have grows: "trace_grows ?w (snd (for_each (cancel_stale_row ms) rows ?w))"
    by (rule evolvesD) (intro trace.ev_for_each trace.ev_cancel_stale_row)
  show ?case
  proof (cases "row = r")
    case True
    then have "EvCancel (ro_broker_plugin_id row) b \<in> set (w_trace ?w)"
      using cancel_stale_asks [OF assms(2)] by simp
    then show ?thesis using grows step by (simp add: trace_growsD)
  next
    case False
    then show ?thesis using Cons step by simp
  qed
qed

text \<open>The stale-order timeout has no lower bound. Under the text \<open>0\<close> the timeout is zero,
  not the default of thirty minutes, and with the database answering the sweep asks the broker
  to cancel every open order that has a broker id and was submitted before the current
  millisecond.\<close>

theorem zero_timeout_cancels_all:
  assumes "no_faults w" "w_config w STALE_ORDER_TIMEOUT_KEY = Some ''0''"
    and "row \<in> set (w_orders w)" "open_order row" "ro_broker_order_id row = Some b" "b \<noteq> ''''"
    and "ro_submitted_at row = Some s" "s < env_now (w_env w) (w_calls w + 1)"
    and "\<bar>env_now (w_env w) (w_calls w + 1)\<bar> \<le> 8640000000000000"
  shows "EvCancel (ro_broker_plugin_id row) b \<in> set (w_trace (snd (cancelStaleOpenOrders w)))"
proof -
  let ?t = "env_now (w_env w) (w_calls w + 1)"
  have "jsub (of_count ?t) (Fin 0) = Fin (of_int ?t)" using assms(9) by (intro jsub_count_0) simp
  then have date: "date_of_number (jsub (of_count ?t) (Fin 0)) = Some ?t"
    using assms(9) by (simp add: date_of_count)
  have ms: "readStaleTimeoutMs w = (Inr (Fin 0), tock w)"
    using assms(1,2)
    by (simp add: readStaleTimeoutMs_def kv_get_soft_def kv_get_def await_run attempt_run ret_def kvNum_zero)
  have "snd (cancelStaleOpenOrders w) = snd (for_each (cancel_stale_row (Fin 0))
      (filter (stale_order ?t) (w_orders w)) (tock (tock (tock w))))"
    using assms(1) date by (simp add: cancelStaleOpenOrders_def await_run ms order_find_many_def)
  moreover have "row \<in> set (filter (stale_order ?t) (w_orders w))"
    using assms(3,4,7,8) by (simp add: stale_order_def)
  moreover have "truthy (ro_broker_order_id row) = Some b" using assms(5,6) by (simp add: truthy_def)
  ultimately show ?thesis using cancel_loop_asks by simp
qed

section \<open>The portfolio cache\<close>

lemma set_put_position: "set (put_position p t) = insert p {q \<in> set t. rp_symbol q \<noteq> rp_symbol p}"
  by (cases "rp_symbol p \<in> rp_symbol ` set t")
    (auto simp: put_position_def update_rows_def image_iff)

lemma set_fold_put:
  "distinct (map rp_symbol ps) \<Longrightarrow>
   set (fold put_position ps t) = set ps \<union> {q \<in> set t. rp_symbol q \<notin> rp_symbol ` set ps}"
proof (induction ps arbitrary: t)
  case Nil
  then show ?case by simp
next
  case (Cons p ps)
  then show ?case by (auto simp: set_put_position)
qed

lemma upsert_loop:
  "no_faults w \<Longrightarrow> \<exists>w'. for_each (\<lambda>q. position_upsert (f q)) ps w = (Inr (), w') \<and>
     w_positions w' = fold put_position (map f ps) (w_positions w) \<and> w_navs w' = w_navs w \<and>
     w_env w' = w_env w"
proof (induction ps arbitrary: w)
  case Nil
  then show ?case by (simp add: ret_def)
next
  case (Cons p ps)
  let ?w = "tock (w\<lparr>w_positions := put_position (f p) (w_positions w)\<rparr>)"
  have "no_faults ?w" using Cons.prems by (simp add: no_faults_def)
  from Cons.IH [OF this] Cons.prems show ?case
    by (simp add: await_run position_upsert_def db_write_ok)
qed

text \<open>A portfolio sync stores the broker's truth and never lowers the high-water mark. With
  the database answering, the cached positions of the broker are afterwards exactly the reported
  ones (positions of other brokers with other symbols stay), and one snapshot is appended whose
  high-water mark is at least the reported equity and at least the latest one before. When the
  transaction fails, positions and snapshots are those from before it.\<close>

theorem sync_stores_broker_truth:
  assumes "distinct (map bp_symbol (po_positions p))" "po_equity p \<noteq> NaN"
    and "\<forall>s \<in> set (w_navs w). nv_hwm s \<noteq> NaN"
    and "prev = latest_row nv_ts (\<lambda>s. nv_broker_plugin_id s = b) (w_navs w)"
    and "w' = snd (store_portfolio b src p w)"
  shows "(no_faults w \<longrightarrow>
      {q \<in> set (w_positions w'). rp_broker_plugin_id q = b} = cached_position b ` set (po_positions p) \<and>
      (\<exists>s. w_navs w' = w_navs w @ [s] \<and> nv_equity s = po_equity p \<and> jle (po_equity p) (nv_hwm s) \<and>
         (\<forall>q. prev = Some q \<longrightarrow> jle (nv_hwm q) (nv_hwm s)))) \<and>
    (fst (store_portfolio b src p w) \<noteq> Inr () \<longrightarrow>
      w_positions w' = w_positions w \<and> w_navs w' = w_navs w)"
proof (intro conjI impI)
  assume nf: "no_faults w"
  let ?t = "filter (\<lambda>q. \<not> (rp_broker_plugin_id q = b \<and> rp_symbol q \<notin> set (map bp_symbol (po_positions p)))) (w_positions w)"
  let ?ps = "map (cached_position b) (po_positions p)"
  let ?v = "tock (w\<lparr>w_positions := ?t\<rparr>)"
  have "no_faults ?v" using nf by (simp add: no_faults_def)
  then obtain u where u: "for_each (\<lambda>q. position_upsert (cached_position b q)) (po_positions p) ?v = (Inr (), u)"
      "w_positions u = fold put_position ?ps ?t" "w_navs u = w_navs w" "w_env u = w_env w"
    using upsert_loop [of ?v "cached_position b" "po_positions p"] by auto
  have nu: "no_faults u" using nf u(4) by (simp add: no_faults_def)
  then have env: "env_db_fault (w_env u) n = None" for n by (simp add: no_faults_def)
  have w': "\<exists>s. w_positions w' = w_positions u \<and> w_navs w' = w_navs w @ [s] \<and> nv_equity s = po_equity p \<and>
      nv_hwm s = next_hwm prev (po_equity p)"
    unfolding assms(4,5) using nf nu u(1,3) env
    by (simp add: store_portfolio_def transaction_def await_def positions_delete_others_def db_write_ok
        nav_latest_def nav_create_def)
  have syms: "map rp_symbol ?ps = map bp_symbol (po_positions p)" by (simp add: cached_position_def)
  have "{q \<in> set (w_positions u). rp_broker_plugin_id q = b} = cached_position b ` set (po_positions p)"
  proof -
    have img: "rp_symbol ` set ?ps = set (map bp_symbol (po_positions p))"
      unfolding set_map [symmetric] syms ..
    have own: "rp_broker_plugin_id q = b" if "q \<in> set ?ps" for q
      using that by (auto simp: cached_position_def)
    show ?thesis
      unfolding u(2) set_fold_put [OF assms(1) [folded syms]] img using own by auto
  qed
  then show "{q \<in> set (w_positions w'). rp_broker_plugin_id q = b} = cached_position b ` set (po_positions p)"
    using w' by auto
  have ok: "nv_hwm q \<noteq> NaN" if "prev = Some q" for q
    using that assms(3,4) latest_row_Some by metis
  have "jle (po_equity p) (next_hwm prev (po_equity p)) \<and>
      (\<forall>q. prev = Some q \<longrightarrow> jle (nv_hwm q) (next_hwm prev (po_equity p)))"
    using assms(2) ok jmax_ge1 jmax_ge2
    by (cases prev) (simp_all add: next_hwm_def jmax_eq_NaN)
  then show "\<exists>s. w_navs w' = w_navs w @ [s] \<and> nv_equity s = po_equity p \<and> jle (po_equity p) (nv_hwm s) \<and>
         (\<forall>q. prev = Some q \<longrightarrow> jle (nv_hwm q) (nv_hwm s))"
    using w' by metis
next
  assume "fst (store_portfolio b src p w) \<noteq> Inr ()"
  then show "w_positions w' = w_positions w" "w_navs w' = w_navs w"
    unfolding assms(5) by (auto simp: store_portfolio_def transaction_def split: prod.splits sum.splits option.splits)
qed

section \<open>Drift and adoption\<close>

text \<open>The reported positions no filled order of this platform explains.\<close>

definition unexplained :: "real_order list \<Rightarrow> string \<Rightarrow> broker_position list \<Rightarrow> string list" where
  "unexplained t b ps =
     map bp_symbol (filter (\<lambda>p. \<not> (\<exists>r \<in> set t. ro_symbol r = bp_symbol p \<and>
       ro_broker_plugin_id r = b \<and> jgt (ro_filled_qty r) j0)) ps)"

lemma unexplained_explains:
  "unexplained t b ps = map bp_symbol (filter (\<lambda>p. \<not> list_ex (explains b (bp_symbol p)) t) ps)"
  by (simp add: unexplained_def explains_def list_ex_iff)

lemma drift_alert_core: "w_orders (snd (drift_alert as p w)) = w_orders w"
  using evolvesD [OF core.ev_drift_alert, of w] by (simp add: same_core_def)

lemma drift_loop_result:
  "fst (drift_loop as b ds ps w) = Inr ds' \<Longrightarrow> ds' = ds @ unexplained (w_orders w) b ps"
proof (induction ps arbitrary: ds w)
  case Nil
  then show ?case by (simp add: ret_def unexplained_explains)
next
  case (Cons p ps)
  let ?found = "find_row (explains b (bp_symbol p)) (w_orders w)"
  have found: "?found = None \<longleftrightarrow> \<not> list_ex (explains b (bp_symbol p)) (w_orders w)"
    by (simp add: find_row_None list_ex_iff)
  have read: "fst (order_find (explains b (bp_symbol p)) w) = Inr ?found"
      "snd (order_find (explains b (bp_symbol p)) w) = tock w"
    using Cons.prems by (auto simp: await_run order_find_def db_read_def split: option.splits)
  show ?case
  proof (cases "?found = None")
    case True
    let ?v = "snd (drift_alert as p (tock w))"
    have "fst (drift_loop as b (ds @ [bp_symbol p]) ps ?v) = Inr ds'"
      using Cons.prems True read by (simp add: await_run split: sum.splits)
    from Cons.IH [OF this] show ?thesis
      using True found drift_alert_core [of as p "tock w"] by (simp add: unexplained_explains)
  next
    case False
    then have "fst (drift_loop as b ds ps (tock w)) = Inr ds'"
      using Cons.prems read by (simp add: await_run)
    from Cons.IH [OF this] show ?thesis using False found by (simp add: unexplained_explains)
  qed
qed

lemma detectDrift_result:
  assumes "fst (detectDrift ps b w) = Inr ds"
  shows "ds = unexplained (w_orders w) b ps"
proof (cases "ps = []")
  case True
  then show ?thesis using assms by (simp add: detectDrift_def ret_def unexplained_explains)
next
  case False
  let ?as = "filter (\<lambda>a. \<not> al_resolved a) (w_alerts w)"
  have as: "alerts_active w = (Inr ?as, tock w)"
    using assms False by (auto simp: detectDrift_def await_run alerts_active_def db_read_def split: option.splits)
  have "fst (drift_loop ?as b [] ps (tock w)) = Inr ds"
    using assms False by (auto simp: detectDrift_def await_run as ret_def split: sum.splits if_splits)
  from drift_loop_result [OF this] show ?thesis by simp
qed

lemma never_throws_drift_alert: "never_throws (drift_alert as p)"
  unfolding drift_alert_def by (auto intro!: never_throws_attempt)

lemma drift_loop_returns: "no_faults w \<Longrightarrow> \<exists>ds'. fst (drift_loop as b ds ps w) = Inr ds'"
proof (induction ps arbitrary: ds w)
  case Nil
  then show ?case by (simp add: ret_def)
next
  case (Cons p ps)
  let ?v = "snd (drift_alert as p (tock w))"
  have tick: "no_faults (tock w)" using Cons.prems by simp
  then have v: "no_faults ?v" by (rule no_faults_step [OF same_env.ev_drift_alert])
  obtain x where "fst (drift_alert as p (tock w)) = Inr x"
    using never_throws_run [OF never_throws_drift_alert] by blast
  then show ?case
    using Cons.IH [OF tick, of ds] Cons.IH [OF v, of "ds @ [bp_symbol p]"] Cons.prems
    by (simp add: await_run order_find_def)
qed

text \<open>Drift is exactly the unexplained positions, and it halts. With the database answering,
  \<open>detectDrift\<close> returns the symbols of the reported positions for which this platform has no
  order of that symbol and broker with a positive filled quantity (whatever its status, so a
  canceled order that filled in part explains its position), and trips the kill switch whenever
  there is one.\<close>

theorem detectDrift_exact:
  assumes "no_faults w"
  shows "fst (detectDrift ps b w) = Inr (unexplained (w_orders w) b ps) \<and>
    (unexplained (w_orders w) b ps \<noteq> [] \<longrightarrow> halted (snd (detectDrift ps b w)))"
proof (cases "ps = []")
  case True
  then show ?thesis by (simp add: detectDrift_def ret_def unexplained_explains)
next
  case False
  let ?as = "filter (\<lambda>a. \<not> al_resolved a) (w_alerts w)"
  let ?m = "''broker position drift detected''"
  let ?v = "snd (drift_loop ?as b [] ps (tock w))"
  have tick: "no_faults (tock w)" using assms by simp
  then obtain ds where ds: "fst (drift_loop ?as b [] ps (tock w)) = Inr ds"
    using drift_loop_returns by blast
  have D: "ds = unexplained (w_orders w) b ps" using drift_loop_result [OF ds] by simp
  have v: "no_faults ?v" using tick by (rule no_faults_step [OF same_env.ev_drift_loop])
  have act: "alerts_active w = (Inr ?as, tock w)" using assms by (simp add: alerts_active_def)
  have run: "detectDrift ps b w = (if ds = [] then (Inr ds, ?v) else (Inr ds, snd (haltRealExecution ?m ?v)))"
    using False ds haltRealExecution_run [OF v, of ?m]
    by (simp add: detectDrift_def await_run act attempt_run ret_def)
  show ?thesis unfolding run D [symmetric] using haltRealExecution_run [OF v, of ?m] by simp
qed

lemma sync_result:
  assumes "fst (syncPortfolio b src w) = Inr ds" "d \<in> set ds"
  shows "\<not> list_ex (explains b d) (w_orders w)"
proof -
  obtain p where p: "fst (get_portfolio b w) = Inr p"
    using assms by (auto simp: syncPortfolio_def await_run attempt_run ret_def split: sum.splits)
  let ?u = "snd (get_portfolio b w)" let ?v = "snd (store_portfolio b src p ?u)"
  have "fst (detectDrift (po_positions p) b ?v) = Inr ds"
    using assms(1) p by (auto simp: syncPortfolio_def await_run attempt_run ret_def split: sum.splits)
  then have ds: "ds = unexplained (w_orders ?v) b (po_positions p)" by (rule detectDrift_result)
  have "w_orders ?v = w_orders ?u"
    using evolvesD [OF core.ev_store_portfolio, of ?u] by (simp add: same_core_def)
  then have "w_orders ?v = w_orders w" by (simp add: get_portfolio_def)
  then show ?thesis using ds assms(2) by (auto simp: unexplained_explains)
qed

lemma order_create_run:
  assumes "fst (order_create r w) = Inr x"
  shows "x = r \<and> r \<in> set (w_orders (snd (order_create r w)))"
  using assms by (auto simp: order_create_def db_write_def put_orders_def split: option.splits if_splits)

lemma write_adoption_run:
  assumes "fst (write_adoption note b c t pos w) = Inr x"
  shows "x \<in> set (w_orders (snd (write_adoption note b c t pos w))) \<and> ro_symbol x = bp_symbol pos \<and>
    ro_broker_plugin_id x = b \<and> ro_status x = ''filled'' \<and> ro_filled_qty x = jabs (bp_qty pos) \<and>
    ro_filled_avg_price x = Some (bp_avg_entry pos)"
  using assms
  by (auto simp: write_adoption_def transaction_def fresh_uuid_def await_def intent_create_def
      order_create_def db_write_def put_orders_def adopted_order_def
      split: option.splits if_splits prod.splits sum.splits)

text \<open>Adoption never fabricates a position and ends its drift. When the broker does not
  report the symbol, \<open>adoptBrokerPosition\<close> throws and writes no order and no intent. When it
  returns, the adopted order is in the table, filled with the size and the entry price the
  broker reported, and, that size being positive, the symbol is not among the drifted symbols
  returned.\<close>

theorem adoption_explains_position:
  "(\<forall>p. fst (get_portfolio b w) = Inr p \<longrightarrow> s \<notin> bp_symbol ` set (po_positions p) \<longrightarrow>
      (\<exists>e. fst (adoptBrokerPosition s b note w) = Inl e) \<and>
      w_orders (snd (adoptBrokerPosition s b note w)) = w_orders w \<and>
      w_intents (snd (adoptBrokerPosition s b note w)) = w_intents w) \<and>
   (\<forall>row ds. fst (adoptBrokerPosition s b note w) = Inr (row, ds) \<longrightarrow>
      (\<exists>p pos. fst (get_portfolio b w) = Inr p \<and> pos \<in> set (po_positions p) \<and> bp_symbol pos = s \<and>
         ro_filled_qty row = jabs (bp_qty pos) \<and> ro_filled_avg_price row = Some (bp_avg_entry pos)) \<and>
      ro_status row = ''filled'' \<and> row \<in> set (w_orders (snd (adoptBrokerPosition s b note w))) \<and>
      (jgt (ro_filled_qty row) j0 \<longrightarrow> s \<notin> set ds))"
proof (intro conjI allI impI)
  fix p assume p: "fst (get_portfolio b w) = Inr p" "s \<notin> bp_symbol ` set (po_positions p)"
  then have none: "find (\<lambda>q. bp_symbol q = s) (po_positions p) = None" by (auto simp: find_None_iff)
  show "\<exists>e. fst (adoptBrokerPosition s b note w) = Inl e"
    "w_orders (snd (adoptBrokerPosition s b note w)) = w_orders w"
    "w_intents (snd (adoptBrokerPosition s b note w)) = w_intents w"
    using p(1) none by (simp_all add: adoptBrokerPosition_def await_run throw_def, simp_all add: get_portfolio_def)
next
  fix row ds assume run: "fst (adoptBrokerPosition s b note w) = Inr (row, ds)"
  let ?g = "get_portfolio b w"
  obtain p where p: "fst ?g = Inr p"
    using run by (auto simp: adoptBrokerPosition_def await_run split: sum.splits)
  obtain pos where pos: "find (\<lambda>q. bp_symbol q = s) (po_positions p) = Some pos"
    using run p by (auto simp: adoptBrokerPosition_def await_run throw_def split: option.splits)
  let ?u = "tock (tock (snd ?g))"
  let ?t = "env_now (w_env (snd ?g)) (w_calls (snd ?g))"
  let ?c = "''adopted-'' @ env_uuid (w_env (tock (snd ?g))) (w_calls (tock (snd ?g)))"
  let ?a = "write_adoption note b ?c ?t pos ?u" let ?s = "syncPortfolio b ''poll'' (snd ?a)"
  have steps: "fst ?a = Inr row" "fst ?s = Inr ds" "snd (adoptBrokerPosition s b note w) = snd ?s"
    using run p pos
    by (auto simp: adoptBrokerPosition_def await_run fresh_uuid_def ret_def split: sum.splits)
  note A = write_adoption_run [OF steps(1)]
  have orders: "w_orders (snd ?s) = w_orders (snd ?a)"
    using evolvesD [OF core.ev_syncPortfolio, of "snd ?a"] by (simp add: same_core_def)
  have sym: "bp_symbol pos = s" "pos \<in> set (po_positions p)" using pos by (auto simp: find_Some_iff)
  show "\<exists>p pos. fst ?g = Inr p \<and> pos \<in> set (po_positions p) \<and> bp_symbol pos = s \<and>
      ro_filled_qty row = jabs (bp_qty pos) \<and> ro_filled_avg_price row = Some (bp_avg_entry pos)"
    using p sym A by blast
  show "ro_status row = ''filled''" using A by simp
  show "row \<in> set (w_orders (snd (adoptBrokerPosition s b note w)))" using A orders steps(3) by simp
  assume "jgt (ro_filled_qty row) j0"
  then have "explains b s row" using A sym by (simp add: explains_def)
  then have "list_ex (explains b s) (w_orders (snd ?a))" using A by (auto simp: list_ex_iff)
  then show "s \<notin> set ds" using sync_result [OF steps(2)] by blast
qed

end
