(* ===== verification/TradeIntentFacts.thy ===== *)
theory TradeIntentFacts
  imports TradeIntent GovernedFacts ReconciliationFacts
begin

text \<open>
  What holds of trade intents: the policy is within its bounds for any stored text, decisions
  start only from pending intents, a real entry order needs every gate to pass, an exit depends
  on none of them, and paper and real accounts do not mix.
\<close>

section \<open>Policy bounds\<close>

lemma fraction_or_bounds:
  assumes "jlt j0 d" "jle d j1" "is_finite x"
  shows "jlt j0 (fraction_or d x) \<and> jle (fraction_or d x) j1"
  using assms by (cases x) (auto simp: fraction_or_def not_less)

lemma default_fractions:
  "jlt j0 (js (1 / 10)) \<and> jle (js (1 / 10)) j1 \<and> is_finite (js (1 / 10))"
  "jlt j0 (js (3 / 100)) \<and> jle (js (3 / 100)) j1 \<and> is_finite (js (3 / 100))"
  "jlt j0 (js (6 / 100)) \<and> jle (js (6 / 100)) j1 \<and> is_finite (js (6 / 100))"
  by (simp_all add: js_eval)

text \<open>Whatever texts the configuration table holds, the execution policy read from it is
  within its bounds: position, short, daily and weekly fractions in (0, 1], the drawdown halt
  in (0, 100], at least one open position, a positive notional ceiling; and real execution and
  real shorting are off unless their key is literally \<open>true\<close>.\<close>

theorem policy_bounds:
  defines "unit_range \<equiv> \<lambda>x. jlt j0 x \<and> jle x j1"
  shows "unit_range (xp_max_position_pct (policy_from raw)) \<and>
    unit_range (xp_max_short_notional_pct (policy_from raw)) \<and>
    unit_range (xp_max_daily_loss_pct (policy_from raw)) \<and>
    unit_range (xp_max_weekly_loss_pct (policy_from raw)) \<and>
    jlt j0 (xp_max_drawdown_halt_pct (policy_from raw)) \<and>
    jle (xp_max_drawdown_halt_pct (policy_from raw)) (Fin 100) \<and>
    jle j1 (xp_max_open_positions (policy_from raw)) \<and>
    jlt j0 (xp_max_order_notional (policy_from raw)) \<and>
    (xp_real (policy_from raw) \<longrightarrow> unwrapKv (raw ''execution.real'') = Some ''true'') \<and>
    (xp_allow_real_short (policy_from raw) \<longrightarrow>
       unwrapKv (raw ''execution.allow_real_short'') = Some ''true'')"
proof -
  have fr: "unit_range (fraction_or d (kvNum v d))"
    if "jlt j0 d \<and> jle d j1 \<and> is_finite d" for d v
    unfolding unit_range_def using that by (intro fraction_or_bounds kvNum_finite) simp_all
  have fin: "is_finite (kvNum v d)" if "is_finite d" for v d using that by (rule kvNum_finite)
  have off: "kvBool v False \<Longrightarrow> unwrapKv v = Some ''true''" for v
    by (simp add: kvBool_def split: if_splits)
  have halt: "jlt j0 (if jle x j0 \<or> jgt x (Fin 100) then Fin 25 else x) \<and>
      jle (if jle x j0 \<or> jgt x (Fin 100) then Fin 25 else x) (Fin 100)" if "is_finite x" for x
    using that by (cases x) auto
  have pos: "jlt j0 (if jle x j0 then Fin 1000 else x)" if "is_finite x" for x
    using that by (cases x) auto
  have openp: "jle j1 (if jlt (jround x) j1 then j1 else jround x)" if "is_finite x" for x
    using that by (cases x) auto
  show ?thesis
    unfolding policy_from_def Let_def DEFAULT_EXECUTION_POLICY_def execution_policy.simps
    by (intro conjI impI fr default_fractions halt [THEN conjunct1] halt [THEN conjunct2] pos openp
        fin off) simp_all
qed

section \<open>What processing respects\<close>

lemma evolves_case_mode:
  "evolves R a \<Longrightarrow> evolves R b \<Longrightarrow> evolves R (case m of Paper \<Rightarrow> a | Real \<Rightarrow> b)"
  by (cases m) simp_all

text \<open>Everything before a submission: lookups, checks, and decisions written on the intent.\<close>

locale intent_checks = timed_evolution R for R :: "world \<Rightarrow> world \<Rightarrow> bool" +
  assumes query: "(\<And>b q. e \<noteq> EvPlace b q) \<Longrightarrow> R w (note_event e w)"
    and intent_rows: "R w (w\<lparr>w_intents := ti\<rparr>)"
    and audits: "R w (w\<lparr>w_audit := au\<rparr>)"
begin

lemmas ev_query = ev_broker_queries [OF query]

lemma ev_audit_log: "evolves R (audit_log e)"
  unfolding audit_log_def by (rule ev_db_write) (auto intro: audits)

lemma ev_decide: "evolves R (decide i s b f)"
  unfolding decide_def by (intro ev_pure ev_intent_writes intent_rows)

lemma ev_decisions: "evolves R (fail_with i b d)" "evolves R (execute_hold i b)"
  "evolves R (reject_with i b r)" "evolves R (stop i b m)"
  unfolding fail_with_def execute_hold_def reject_with_def stop_def by (intro ev_pure ev_decide)+

lemma ev_pending_intent: "evolves R (pending_intent i)"
  unfolding pending_intent_def by (intro ev_pure)

lemma ev_reject: "evolves R (reject i b r)"
  unfolding reject_def by (intro ev_pure ev_pending_intent ev_decisions)

lemma ev_kv_get_all: "evolves R (kv_get_all ks)"
proof (induction ks)
  case Nil
  show ?case unfolding kv_get_all.simps by (rule ev_ret)
next
  case (Cons k ks)
  show ?case unfolding kv_get_all.simps by (intro ev_pure Cons.IH)
qed

lemma ev_readExecutionPolicy: "evolves R readExecutionPolicy"
  unfolding readExecutionPolicy_def by (intro ev_pure ev_kv_get_all)

lemma ev_checkWalkForwardGate: "evolves R checkWalkForwardGate"
  unfolding checkWalkForwardGate_def verdict_age_def readWalkForwardMaxAgeDays_def strategy_find_def Let_def
  by (intro ev_pure)

lemma ev_auditDemotion: "evolves R (auditDemotion i r)"
  unfolding auditDemotion_def by (intro ev_pure ev_audit_log)

lemma ev_effectiveMode: "evolves R (effectiveMode p i a)"
  unfolding effectiveMode_def by (intro ev_pure ev_checkWalkForwardGate ev_auditDemotion)

lemma ev_soft_portfolio: "evolves R (soft_portfolio b)"
  unfolding soft_portfolio_def by (intro ev_pure ev_query)

lemma ev_resolveMode: "evolves R (resolveMode p i s a b)"
  unfolding resolveMode_def resolveExitRouting_def
  by (intro ev_pure ev_soft_portfolio ev_decisions ev_effectiveMode)

lemma ev_load_paper_state: "evolves R load_paper_state"
  unfolding load_paper_state_def by (intro ev_pure)

lemma ev_getRealAccountState: "evolves R (getRealAccountState b)"
  unfolding getRealAccountState_def readRealStateMaxAgeMs_def nav_latest_def Let_def by (intro ev_pure)

lemma ev_preconditions: "evolves R (checkExecuteRealPreconditions i p a r b)"
  unfolding checkExecuteRealPreconditions_def isRealExecutionHalted_def
  by (intro ev_pure ev_decisions ev_checkWalkForwardGate)

lemma ev_quote_last: "evolves R (quote_last s)"
  unfolding quote_last_def by (intro ev_pure ev_query)

lemma ev_resolveRealSideAndQty: "evolves R (resolveRealSideAndQty i s a p r px sz b)"
  unfolding resolveRealSideAndQty_def resolveRealExitQty_def
  by (intro ev_pure ev_soft_portfolio ev_decisions)

end

text \<open>The paper account is written by the paper path only.\<close>

locale paper_path = intent_checks +
  assumes portfolios: "R w (w\<lparr>w_portfolios := pf\<rparr>)"
begin

lemma ev_price_positions: "evolves R (price_positions ps acc)"
proof (induction ps acc rule: price_positions.induct)
  case (1 acc)
  show ?case unfolding price_positions.simps by (rule ev_ret)
next
  case (2 p ps ok tot)
  show ?case unfolding price_positions.simps by (intro ev_pure ev_query 2)
qed

lemma ev_evaluateEntryGate: "evolves R (evaluateEntryGate a pol)"
  unfolding evaluateEntryGate_def markToMarket_def auditLossBreakerTrip_def Let_def
  by (intro ev_pure ev_price_positions ev_audit_log)

lemma ev_evaluateEntryRiskGate: "evolves R (evaluateEntryRiskGate m r a p)"
  unfolding evaluateEntryRiskGate_def Let_def
  by (intro evolves_case_mode ev_pure ev_evaluateEntryGate ev_portfolio_upsert portfolios)

lemma ev_runPaperExecution: "evolves R (runPaperExecution i s a st b sz mp ms)"
  unfolding runPaperExecution_def Let_def
  by (intro ev_pure ev_quote_last ev_decisions ev_decide ev_portfolio_upsert portfolios)

end

text \<open>The real path submits; a submission is one step of it.\<close>

locale real_path = intent_checks +
  assumes submits: "evolves R (submit args)"
begin

lemma ev_submit_real: "evolves R (submit_real i p s d q b)"
  unfolding submit_real_def by (intro ev_pure submits ev_decisions ev_decide)

lemma ev_place_real: "evolves R (place_real i t p r b sz px)"
  unfolding place_real_def by (intro ev_pure ev_resolveRealSideAndQty ev_decisions ev_submit_real)

lemma ev_executeReal: "evolves R (executeReal i t p r b sz)"
  unfolding executeReal_def
  by (intro ev_pure ev_preconditions ev_quote_last ev_decisions ev_place_real)

end

text \<open>Recording and deciding, with the processing of one intent as a step.\<close>

locale intent_handling = intent_checks +
  assumes processes: "evolves R (process_intent t p b sz)"
begin

lemma ev_autoProcess: "evolves R (autoProcess i)"
  unfolding autoProcess_def
  by (intro ev_pure ev_pending_intent ev_readExecutionPolicy processes)

lemma ev_approve: "evolves R (approve i b)"
  unfolding approve_def
  by (intro ev_pure ev_pending_intent ev_readExecutionPolicy processes)

lemma ev_recordIntent: "evolves R (recordIntent dto)"
  unfolding recordIntent_def find_prior_def
  by (intro ev_pure ev_intent_writes intent_rows ev_readExecutionPolicy ev_autoProcess)

end

locale intent_processing = paper_path + real_path
begin

lemma ev_execute_in: "evolves R (execute_in m t p r st b sz)"
  unfolding execute_in_def by (intro evolves_case_mode ev_pure ev_executeReal ev_runPaperExecution)

lemma ev_process_intent: "evolves R (process_intent t p b sz)"
  unfolding process_intent_def Let_def
  by (intro ev_pure ev_resolveMode ev_load_paper_state ev_decisions ev_getRealAccountState
      ev_evaluateEntryRiskGate ev_execute_in)

end

sublocale intent_processing \<subseteq> handling: intent_handling R
  by unfold_locales (rule ev_process_intent)

text \<open>The instances.\<close>

interpretation same_env: intent_processing "\<lambda>w w'. w_env w' = w_env w"
  by unfold_locales (auto intro: same_env.ev_submit)

interpretation index_kept: intent_processing "\<lambda>w w'. orders_ok (w_orders w) \<longrightarrow> orders_ok (w_orders w')"
  by unfold_locales (auto intro: index_kept.ev_submit)

interpretation halting: intent_processing stays_halted
  by unfold_locales (auto intro: halting.ev_submit)

interpretation identity: intent_processing "rows_rel same_identity"
  by unfold_locales (auto intro: identity.rows_same identity.ev_submit)

interpretation no_placement: paper_path no_new_placement
  by unfold_locales (auto intro: no_new_placement_event)

text \<open>The paper account is not a table of the real path.\<close>

interpretation portfolios: world_evolution "\<lambda>w w'. w_portfolios w' = w_portfolios w"
  by unfold_locales auto

lemma portfolios_halt: "evolves (\<lambda>w w'. w_portfolios w' = w_portfolios w) (haltRealExecution reason)"
  unfolding haltRealExecution_def by (intro portfolios.ev_await portfolios.ev_kv_set) auto

interpretation portfolios: order_submission "\<lambda>w w'. w_portfolios w' = w_portfolios w"
  by unfold_locales (auto intro: portfolios_halt portfolios.ev_order_writes)

interpretation portfolios: real_path "\<lambda>w w'. w_portfolios w' = w_portfolios w"
  by unfold_locales (auto intro: portfolios.ev_submit)

text \<open>Processing an intent never clears the kill switch and keeps the unique indexes of the
  order table, on every path: recording, autonomous processing, approval and rejection.\<close>

lemma intents_keep_safeguards:
  "keeps halted (recordIntent dto) \<and> keeps halted (autoProcess i) \<and> keeps halted (approve i b) \<and>
   keeps halted (reject i b r) \<and>
   keeps (\<lambda>w. orders_ok (w_orders w)) (recordIntent dto) \<and>
   keeps (\<lambda>w. orders_ok (w_orders w)) (approve i b)"
  unfolding keeps_def [of "\<lambda>w. orders_ok (w_orders w)"]
  by (intro conjI keeps_halted halting.handling.ev_recordIntent halting.handling.ev_autoProcess halting.handling.ev_approve
      halting.ev_reject index_kept.handling.ev_recordIntent index_kept.handling.ev_approve)

text \<open>The two accounts do not mix. Executing an intent in real mode leaves every portfolio
  row as it is, whatever happens; executing it in paper mode sends no order to the broker.\<close>

theorem accounts_do_not_mix:
  "w_portfolios (snd (execute_in Real t p r st b sz w)) = w_portfolios w \<and>
   placements (snd (execute_in Paper t p r st b sz w)) = placements w"
proof -
  have "evolves no_new_placement (execute_in Paper t p r st b sz)"
    unfolding execute_in_def mode.case by (intro no_placement.ev_pure no_placement.ev_runPaperExecution)
  then show ?thesis
    using evolvesD [OF portfolios.ev_executeReal]
    by (simp add: execute_in_def evolves_def no_new_placement_def)
qed

section \<open>What a real order presupposes\<close>

text \<open>The tables the gates read; processing changes none of them before a submission.\<close>

definition same_setup :: "world \<Rightarrow> world \<Rightarrow> bool" where
  "same_setup w w' \<longleftrightarrow> w_config w' = w_config w \<and> w_orders w' = w_orders w \<and>
     w_positions w' = w_positions w \<and> w_navs w' = w_navs w \<and> w_strategies w' = w_strategies w \<and>
     w_env w' = w_env w"

interpretation tables: world_evolution same_setup
  by unfold_locales (auto simp: same_setup_def)

interpretation tables: paper_path same_setup
  by unfold_locales (auto simp: same_setup_def)

text \<open>
  Following a placement back through a program: a step that never places has returned, and the
  placement happened in what follows it.
\<close>

lemma await_placed:
  assumes "placements (snd (await m f w)) \<noteq> placements w" "evolves no_new_placement m"
    "evolves same_setup m"
  obtains x v where "m w = (Inr x, v)" "placements (snd (f x v)) \<noteq> placements v" "same_setup w v"
    "placements v = placements w"
proof -
  obtain r v where run: "m w = (r, v)" by (cases "m w") auto
  then have quiet: "placements v = placements w" "same_setup w v"
    using assms(2,3) evolvesD [of no_new_placement m w] evolvesD [of same_setup m w]
    by (auto simp: no_new_placement_def)
  show thesis
  proof (cases r)
    case (Inl e)
    then show thesis using assms(1) run quiet by (simp add: await_run)
  next
    case (Inr x)
    then show thesis using assms(1) run quiet by (intro that [of x v]) (auto simp: await_run)
  qed
qed

lemma same_setup_trans: "same_setup u v \<Longrightarrow> same_setup v w \<Longrightarrow> same_setup u w"
  by (auto simp: same_setup_def)

lemma quiet_not_placed: "evolves no_new_placement m \<Longrightarrow> placements (snd (m w)) = placements w"
  by (simp add: evolves_def no_new_placement_def)

lemma await_then: "await m f w = (r, w') \<Longrightarrow> r = Inr y \<Longrightarrow>
    \<exists>x v. m w = (Inr x, v) \<and> f x v = (Inr y, w')"
  by (auto simp: await_def split: prod.splits sum.splits)

text \<open>The walk-forward gate, as a condition on the tables: the applied strategy is robust, and its
  verdict is no older than the configured number of days at some answer of the clock.\<close>

definition walk_forward_days :: "world \<Rightarrow> jsnum \<Rightarrow> bool" where
  "walk_forward_days w d \<longleftrightarrow> is_finite d \<and> jle (Fin 1) d \<and> jle d (Fin 3650)"

definition strategy_vetted :: "world \<Rightarrow> bool" where
  "strategy_vetted w \<longleftrightarrow>
     (\<exists>sid row checked n d. kvStr (w_config w ''strategy.applied'') = Some sid \<and> sid \<noteq> '''' \<and>
        row \<in> set (w_strategies w) \<and> st_id row = sid \<and>
        st_verdict row = Some ''ROBUSTO'' \<and> st_checked_at row = Some checked \<and>
        walk_forward_days w d \<and>
        \<not> jgt (of_count (env_now (w_env w) n - checked)) (jmul d (Fin 86400000)))"

lemma truthy_Some: "truthy v = Some s \<longleftrightarrow> v = Some s \<and> s \<noteq> ''''"
  by (auto simp: truthy_def split: option.splits if_splits)

lemma max_age_days:
  "readWalkForwardMaxAgeDays w = (Inr d, v) \<Longrightarrow> walk_forward_days u d \<and> w_env v = w_env w"
proof -
  assume run: "readWalkForwardMaxAgeDays w = (Inr d, v)"
  then obtain raw where d: "d = (let days = kvNum raw (Fin 30);
      low = (if \<not> is_finite days \<or> jlt days (Fin 1) then Fin 1 else days)
      in if jgt low (Fin 3650) then Fin 3650 else low)"
    by (auto simp: readWalkForwardMaxAgeDays_def DEFAULT_WALK_FORWARD_MAX_AGE_DAYS_def await_def ret_def
        Let_def split: prod.splits sum.splits)
  have "is_finite (kvNum raw (Fin 30))" by (rule kvNum_finite) simp
  then have "walk_forward_days u d"
    unfolding d walk_forward_days_def by (cases "kvNum raw (Fin 30)") (auto simp: Let_def)
  moreover have "evolves same_setup readWalkForwardMaxAgeDays"
    unfolding readWalkForwardMaxAgeDays_def Let_def by (intro tables.ev_pure)
  ultimately show ?thesis using run evolvesD [of same_setup readWalkForwardMaxAgeDays w]
    by (simp add: same_setup_def)
qed

lemma kv_get_soft_value: "kv_get_soft k w = (Inr (Some s), v) \<Longrightarrow> w_config w k = Some s \<and> v = tock w"
  by (auto simp: kv_get_soft_def kv_get_def attempt_def db_read_def ret_def split: option.splits)

lemma walk_forward_passed:
  assumes "checkWalkForwardGate w = (Inr None, w')"
  shows "strategy_vetted w"
proof -
  obtain raw v where raw: "kv_get_soft ''strategy.applied'' w = (Inr raw, v)"
    and rest: "(case truthy (kvStr raw) of None \<Rightarrow> ret (Some NoteNoAppliedStrategy)
     | Some sid \<Rightarrow> await (attempt (await (strategy_find sid) (\<lambda>r. ret (Some r))) (\<lambda>_. ret None)) (\<lambda>answer.
         case answer of None \<Rightarrow> ret (Some (NoteStrategyLookupFailed sid))
         | Some None \<Rightarrow> ret (Some (NoteStrategyMissing sid))
         | Some (Some row) \<Rightarrow>
             if st_verdict row \<noteq> Some REQUIRED_WALK_FORWARD_VERDICT then ret (Some (NoteVerdict (st_verdict row)))
             else (case st_checked_at row of None \<Rightarrow> ret (Some NoteNoCheckedAt)
                | Some checked \<Rightarrow> verdict_age checked))) v = (Inr None, w')"
    using await_then [OF assms [unfolded checkWalkForwardGate_def] refl] by blast
  obtain sid where sid: "kvStr raw = Some sid" "sid \<noteq> ''''"
    using rest by (auto simp: ret_def truthy_Some split: option.splits)
  then obtain s where s: "raw = Some s" by (cases raw) auto
  have config: "w_config w ''strategy.applied'' = raw" "v = tock w"
    using raw kv_get_soft_value unfolding s by auto
  have t: "truthy (kvStr raw) = Some sid" using sid by (simp add: truthy_Some)
  obtain answer u where a: "attempt (await (strategy_find sid) (\<lambda>r. ret (Some r))) (\<lambda>_. ret None) v = (Inr answer, u)"
    and rest2: "(case answer of None \<Rightarrow> ret (Some (NoteStrategyLookupFailed sid))
         | Some None \<Rightarrow> ret (Some (NoteStrategyMissing sid))
         | Some (Some row) \<Rightarrow>
             if st_verdict row \<noteq> Some REQUIRED_WALK_FORWARD_VERDICT then ret (Some (NoteVerdict (st_verdict row)))
             else (case st_checked_at row of None \<Rightarrow> ret (Some NoteNoCheckedAt)
                | Some checked \<Rightarrow> verdict_age checked)) u = (Inr None, w')"
    using await_then [OF rest [unfolded t option.case] refl] by blast
  obtain row checked where row: "answer = Some (Some row)" "st_verdict row = Some ''ROBUSTO''"
      "st_checked_at row = Some checked" "verdict_age checked u = (Inr None, w')"
    using rest2 by (auto simp: ret_def REQUIRED_WALK_FORWARD_VERDICT_def split: option.splits if_splits)
  have found: "row \<in> set (w_strategies w)" "st_id row = sid" "w_env u = w_env w"
    using a row(1) config(2)
    by (auto simp: strategy_find_def attempt_def await_def db_read_def ret_def dest: find_row_Some
        split: option.splits)
  obtain d x where d: "readWalkForwardMaxAgeDays u = (Inr d, x)"
    and age: "await now (\<lambda>t. let ageMs = t - checked
       in ret (if jgt (of_count ageMs) (jmul d (Fin 86400000))
               then Some (NoteVerdictStale (ageMs div 86400000) d) else None)) x = (Inr None, w')"
    using await_then [OF row(4) [unfolded verdict_age_def] refl] by blast
  have "\<not> jgt (of_count (env_now (w_env w) (w_calls x) - checked)) (jmul d (Fin 86400000))"
    using age max_age_days [OF d] found(3) by (auto simp: await_run ret_def Let_def split: if_splits)
  then show ?thesis
    unfolding strategy_vetted_def using config sid found row max_age_days [OF d] by metis
qed

lemma strategy_vetted_setup: "same_setup w w' \<Longrightarrow> strategy_vetted w' \<Longrightarrow> strategy_vetted w"
  unfolding strategy_vetted_def same_setup_def walk_forward_days_def by simp

lemma effectiveMode_real:
  assumes "effectiveMode p i a w = (Inr Real, w')"
  shows "xp_real p \<and> xp_broker_plugin_id p \<noteq> '''' \<and>
    (is_entry a \<longrightarrow> strategy_vetted w \<and> (a = ''short'' \<longrightarrow> xp_allow_real_short p))"
proof (cases "\<not> (xp_real p \<and> xp_broker_plugin_id p \<noteq> '''') \<or> a = ''exit'' \<or> a = ''hold''")
  case True
  then show ?thesis using assms by (auto simp: effectiveMode_def ret_def is_entry_def split: if_splits)
next
  case False
  have "await checkWalkForwardGate (\<lambda>gate. case gate of
        Some reason \<Rightarrow> await (auditDemotion i reason) (\<lambda>_. ret Paper)
      | None \<Rightarrow> if a = ''short'' \<and> \<not> xp_allow_real_short p then
            await (auditDemotion i NoteRealShortDisabled) (\<lambda>_. ret Paper)
          else ret Real) w = (Inr Real, w')"
    using assms False unfolding effectiveMode_def by (simp only: if_False simp_thms de_Morgan_disj)
  from await_then [OF this refl] obtain gate v where gate: "checkWalkForwardGate w = (Inr gate, v)"
    and rest: "(case gate of Some reason \<Rightarrow> await (auditDemotion i reason) (\<lambda>_. ret Paper)
        | None \<Rightarrow> if a = ''short'' \<and> \<not> xp_allow_real_short p then
              await (auditDemotion i NoteRealShortDisabled) (\<lambda>_. ret Paper)
            else ret Real) v = (Inr Real, w')"
    by blast
  have "gate = None"
    using rest by (cases gate) (auto simp: await_def ret_def split: prod.splits sum.splits)
  moreover have "a = ''short'' \<longrightarrow> xp_allow_real_short p"
    using rest \<open>gate = None\<close> by (auto simp: await_def ret_def split: prod.splits sum.splits if_splits)
  ultimately show ?thesis using False gate walk_forward_passed by auto
qed

text \<open>The real account the gates read: the latest snapshot of the broker, fresh at some answer of
  the clock, and the number of its cached positions.\<close>

definition account_read :: "world \<Rightarrow> string \<Rightarrow> real_account \<Rightarrow> bool" where
  "account_read w b r \<longleftrightarrow>
     (\<exists>s n d. latest_row nv_ts (\<lambda>s. nv_broker_plugin_id s = b) (w_navs w) = Some s \<and>
        jle (Fin 30000) d \<and> jle d (Fin 3600000) \<and>
        \<not> jgt (of_count (env_now (w_env w) n - nv_ts s)) d \<and>
        r = \<lparr>ra_equity = nv_equity s, ra_hwm = nv_hwm s, ra_buying_power = nv_buying_power s,
             ra_open_positions = length (filter (\<lambda>p. rp_broker_plugin_id p = b) (w_positions w))\<rparr>)"

lemma max_age_ms: "readRealStateMaxAgeMs w = (Inr d, v) \<Longrightarrow>
    jle (Fin 30000) d \<and> jle d (Fin 3600000) \<and> same_setup w v"
proof -
  assume run: "readRealStateMaxAgeMs w = (Inr d, v)"
  then obtain raw where d: "d = (let ms = kvNum raw (Fin 300000);
      low = (if \<not> is_finite ms \<or> jlt ms (Fin 30000) then Fin 30000 else ms)
      in if jgt low (Fin 3600000) then Fin 3600000 else low)"
    by (auto simp: readRealStateMaxAgeMs_def DEFAULT_REAL_STATE_MAX_AGE_MS_def await_def ret_def
        Let_def split: prod.splits sum.splits)
  have "is_finite (kvNum raw (Fin 300000))" by (rule kvNum_finite) simp
  then have "jle (Fin 30000) d \<and> jle d (Fin 3600000)"
    unfolding d by (cases "kvNum raw (Fin 300000)") (auto simp: Let_def)
  moreover have "evolves same_setup readRealStateMaxAgeMs"
    unfolding readRealStateMaxAgeMs_def Let_def by (intro tables.ev_pure)
  ultimately show ?thesis using run evolvesD [of same_setup readRealStateMaxAgeMs w] by simp
qed

lemma real_state_read:
  assumes "getRealAccountState b w = (Inr (Some r), w')"
  shows "account_read w b r"
proof -
  obtain s v where s: "nav_latest b w = (Inr (Some s), v)"
    and rest: "await now (\<lambda>t. await readRealStateMaxAgeMs (\<lambda>d.
         if jgt (of_count (t - nv_ts s)) d then ret None
         else await (db_read (\<lambda>w. length (filter (\<lambda>p. rp_broker_plugin_id p = b) (w_positions w))))
             (\<lambda>n. ret (Some \<lparr>ra_equity = nv_equity s, ra_hwm = nv_hwm s,
                ra_buying_power = nv_buying_power s, ra_open_positions = n\<rparr>)))) v = (Inr (Some r), w')"
    using await_then [OF assms [unfolded getRealAccountState_def] refl]
    by (auto simp: ret_def split: option.splits)
  have nav: "latest_row nv_ts (\<lambda>s. nv_broker_plugin_id s = b) (w_navs w) = Some s" "v = tock w"
    using s by (auto simp: nav_latest_def db_read_def split: option.splits)
  note rest1 = rest [unfolded await_run [of now] now_run, simplified fst_conv snd_conv sum.case]
  obtain d u where d: "readRealStateMaxAgeMs (tock v) = (Inr d, u)"
    and rest2: "(if jgt (of_count (env_now (w_env v) (w_calls v) - nv_ts s)) d then ret None
         else await (db_read (\<lambda>w. length (filter (\<lambda>p. rp_broker_plugin_id p = b) (w_positions w))))
             (\<lambda>n. ret (Some \<lparr>ra_equity = nv_equity s, ra_hwm = nv_hwm s,
                ra_buying_power = nv_buying_power s, ra_open_positions = n\<rparr>))) u = (Inr (Some r), w')"
    using await_then [OF rest1 refl] by blast
  note m = max_age_ms [OF d]
  have "w_positions u = w_positions w" using m nav(2) by (simp add: same_setup_def)
  then have "\<not> jgt (of_count (env_now (w_env w) (w_calls v) - nv_ts s)) d"
    "r = \<lparr>ra_equity = nv_equity s, ra_hwm = nv_hwm s, ra_buying_power = nv_buying_power s,
       ra_open_positions = length (filter (\<lambda>p. rp_broker_plugin_id p = b) (w_positions w))\<rparr>"
    using rest2 nav(2)
    by (auto simp: await_def ret_def db_read_def split: if_splits option.splits)
  then show ?thesis unfolding account_read_def using nav(1) m by blast
qed

lemma account_read_setup: "same_setup w w' \<Longrightarrow> account_read w' b r \<Longrightarrow> account_read w b r"
  unfolding account_read_def same_setup_def by simp

lemma halted_setup: "same_setup w w' \<Longrightarrow> halted w' = halted w"
  by (simp add: same_setup_def halted_def)

text \<open>One order, as the broker receives it.\<close>

definition sends :: "world \<Rightarrow> world \<Rightarrow> string \<Rightarrow> string \<Rightarrow> string \<Rightarrow> jsnum \<Rightarrow> bool" where
  "sends w w' b symb side qty \<longleftrightarrow>
     (\<exists>q. placements w' = placements w @ [(b, q)] \<and> oq_symbol q = symb \<and> oq_side q = side \<and>
        oq_qty q = qty \<and> oq_type q = ''market'')"

lemma sends_cong: "placements v = placements w \<Longrightarrow> sends v w' b s d q = sends w w' b s d q"
  by (simp add: sends_def)

lemma await_quiet_tail:
  "(\<And>x. evolves no_new_placement (f x)) \<Longrightarrow> placements (snd (await m f w)) = placements (snd (m w))"
  by (simp add: await_run evolves_def no_new_placement_def split: sum.splits)

lemma submit_real_sends:
  assumes "placements (snd (submit_real i p s d q b w)) \<noteq> placements w" "d = ''buy'' \<or> d = ''sell''"
  shows "sends w (snd (submit_real i p s d q b w)) (xp_broker_plugin_id p) s d q"
proof -
  let ?args = "order_args i p s d q"
  let ?sent = "attempt (await (submit ?args) (\<lambda>r. ret (Inr r))) (\<lambda>err. ret (Inl err))"
  have tried: "snd (?sent w) = snd (submit ?args w)"
    by (simp add: attempt_run await_run ret_def split: sum.splits)
  have after: "placements (snd (submit_real i p s d q b w)) = placements (snd (?sent w))"
    unfolding submit_real_def
    by (intro await_quiet_tail no_placement.ev_pure no_placement.ev_decisions no_placement.ev_decide)
  have "placements (snd (submit ?args w)) \<noteq> placements w" using assms(1) after tried by simp
  then obtain cid where "placements (snd (submit ?args w)) =
      placements w @ [(sa_broker ?args, submit_request cid ?args)]"
    using submit_placement by blast
  then show ?thesis
    using after tried assms(2) by (auto simp: sends_def submit_request_def order_args_def)
qed

text \<open>The quantity and side of a real order, and where they come from.\<close>

definition real_sizing ::
  "world \<Rightarrow> trade_intent \<Rightarrow> execution_policy \<Rightarrow> real_account option \<Rightarrow> jsnum \<Rightarrow> string \<Rightarrow> jsnum \<Rightarrow> jsnum \<Rightarrow> bool" where
  "real_sizing w t p rs sz side qty price \<longleftrightarrow>
     \<not> jle qty j0 \<and>
     (if ti_action t = ''exit'' then side = ''sell'' \<and>
        (\<exists>n pf pos. env_portfolio (w_env w) n (xp_broker_plugin_id p) = Inr pf \<and>
           pos \<in> set (po_positions pf) \<and> bp_symbol pos = ti_symbol t \<and> qty = jabs (bp_qty pos))
      else (side = (if ti_action t = ''long'' then ''buy'' else ''sell'')) \<and>
        \<not> jgt (jmul qty price) (xp_max_order_notional p) \<and>
        (\<exists>r. rs = Some r \<and> is_finite (ra_equity r) \<and> is_finite (ra_buying_power r) \<and>
           qty = real_entry_qty (ti_action t) p r price sz))"

lemma real_sizing_env: "w_env u = w_env w \<Longrightarrow> real_sizing u t p rs sz side qty px = real_sizing w t p rs sz side qty px"
  by (simp only: real_sizing_def)

lemma soft_portfolio_Inr: "soft_portfolio b w = (Inr (Inr pf), v) \<Longrightarrow>
    env_portfolio (w_env w) (w_calls w) b = Inr pf \<and> w_env v = w_env w"
  by (auto simp: soft_portfolio_def attempt_def await_def ret_def get_portfolio_def split: prod.splits sum.splits)

lemma exit_qty_source:
  assumes "resolveRealExitQty i s b by' w = (Inr (Inr q), v)"
  shows "\<exists>n pf pos. env_portfolio (w_env w) n b = Inr pf \<and> pos \<in> set (po_positions pf) \<and>
    bp_symbol pos = s \<and> q = jabs (bp_qty pos)"
proof -
  obtain answer u where a: "soft_portfolio b w = (Inr answer, u)"
    and rest: "(case answer of Inl err \<Rightarrow>
         await (fail_with i by' (RErrorDetail NoteExitQtyUnknown err)) (\<lambda>row. ret (Inl row))
     | Inr p \<Rightarrow> (case broker_position_of s p of
            None \<Rightarrow> await (fail_with i by' (RError (NoteNoBrokerPosition s))) (\<lambda>row. ret (Inl row))
          | Some pos \<Rightarrow> if jle (jabs (bp_qty pos)) j0 then
                await (fail_with i by' (RError (NoteNoBrokerPosition s))) (\<lambda>row. ret (Inl row))
              else ret (Inr (jabs (bp_qty pos))))) u = (Inr (Inr q), v)"
    using await_then [OF assms [unfolded resolveRealExitQty_def] refl] by blast
  obtain pf pos where "answer = Inr pf" "broker_position_of s pf = Some pos" "q = jabs (bp_qty pos)"
    using rest by (auto simp: await_def ret_def split: sum.splits option.splits prod.splits if_splits)
  moreover have "pos \<in> set (po_positions pf) \<and> bp_symbol pos = s"
    using \<open>broker_position_of s pf = Some pos\<close> by (auto simp: broker_position_of_def find_Some_iff)
  ultimately show ?thesis using soft_portfolio_Inr a by blast
qed

lemma resolved_sizing:
  assumes "resolveRealSideAndQty i (ti_symbol t) (ti_action t) p rs px sz b w = (Inr (Inr (side, qty)), v)"
    and "\<not> jle qty j0"
    and "ti_action t = ''exit'' \<or> \<not> jgt (jmul qty px) (xp_max_order_notional p)"
  shows "real_sizing w t p rs sz side qty px \<and> (side = ''buy'' \<or> side = ''sell'')"
proof (cases "ti_action t = ''exit''")
  case True
  have run: "await (resolveRealExitQty i (ti_symbol t) (xp_broker_plugin_id p) b) (\<lambda>exitQty.
      case exitQty of Inl row \<Rightarrow> ret (Inl row) | Inr qty \<Rightarrow> ret (Inr (''sell'', qty))) w =
      (Inr (Inr (side, qty)), v)"
    using assms(1) True by (simp add: resolveRealSideAndQty_def)
  obtain e u where "resolveRealExitQty i (ti_symbol t) (xp_broker_plugin_id p) b w = (Inr e, u)"
    "(case e of Inl row \<Rightarrow> ret (Inl row) | Inr qty \<Rightarrow> ret (Inr (''sell'', qty))) u = (Inr (Inr (side, qty)), v)"
    using await_then [OF run refl] by blast
  then have "side = ''sell''" "resolveRealExitQty i (ti_symbol t) (xp_broker_plugin_id p) b w = (Inr (Inr qty), u)"
    by (auto simp: ret_def split: sum.splits)
  then show ?thesis using exit_qty_source True assms(2) by (simp add: real_sizing_def)
next
  case False
  then obtain r where r: "rs = Some r"
    using assms(1) by (cases rs)
      (auto simp: resolveRealSideAndQty_def await_def ret_def split: prod.splits sum.splits)
  then have "is_finite (ra_equity r) \<and> is_finite (ra_buying_power r) \<and>
      side = (if ti_action t = ''long'' then ''buy'' else ''sell'') \<and>
      qty = real_entry_qty (ti_action t) p r px sz"
    using assms(1) False
    by (auto simp: resolveRealSideAndQty_def await_def ret_def split: prod.splits sum.splits if_splits)
  then show ?thesis using False r assms(2,3) by (simp add: real_sizing_def)
qed

lemma place_real_sends:
  assumes "placements (snd (place_real i t p rs b sz px w)) \<noteq> placements w"
  shows "\<exists>side qty. real_sizing w t p rs sz side qty px \<and>
    sends w (snd (place_real i t p rs b sz px w)) (xp_broker_plugin_id p) (ti_symbol t) side qty"
proof -
  note failing = quiet_not_placed [OF no_placement.ev_decisions(1)]
  from await_placed [OF assms [unfolded place_real_def] no_placement.ev_resolveRealSideAndQty
      tables.ev_resolveRealSideAndQty]
  obtain res v where res: "resolveRealSideAndQty i (ti_symbol t) (ti_action t) p rs px sz b w = (Inr res, v)"
    and go: "placements (snd ((case res of Inl row \<Rightarrow> ret (row, None)
     | Inr (side, qty) \<Rightarrow>
         if jle qty j0 then await (fail_with i b (RError (NoteBadQty qty))) (\<lambda>row. ret (row, None))
         else if ti_action t \<noteq> ''exit'' \<and> jgt (jmul qty px) (xp_max_order_notional p) then
           await (fail_with i b (RNotional (NoteNotional (jmul qty px) (xp_max_order_notional p)) qty px
                (jmul qty px) (xp_max_order_notional p))) (\<lambda>row. ret (row, None))
         else submit_real i p (ti_symbol t) side qty b) v)) \<noteq> placements v"
    and v: "placements v = placements w" by blast
  obtain side qty where sq: "res = Inr (side, qty)" "\<not> jle qty j0"
    "ti_action t = ''exit'' \<or> \<not> jgt (jmul qty px) (xp_max_order_notional p)"
    using go failing
    by (auto simp: await_run ret_def split: sum.splits prod.splits if_splits)
  note S = resolved_sizing [OF res [unfolded sq(1)] sq(2,3)]
  have "placements (snd (submit_real i p (ti_symbol t) side qty b v)) \<noteq> placements v"
    using go sq by (auto split: if_splits)
  note D = submit_real_sends [OF this conjunct2 [OF S]]
  have "snd (place_real i t p rs b sz px w) = snd (submit_real i p (ti_symbol t) side qty b v)"
    using res sq by (auto simp: place_real_def await_run)
  then show ?thesis using S D sends_cong [OF v] by auto
qed

lemma preconditions_passed:
  assumes "checkExecuteRealPreconditions i p a rs b w = (Inr None, v)"
  shows "(opens_risk a \<longrightarrow> \<not> halted w) \<and> xp_broker_plugin_id p \<noteq> ''''"
proof -
  obtain h u where h: "(if opens_risk a then isRealExecutionHalted else ret False) w = (Inr h, u)"
    and rest: "(if h then stop i b NoteHalted
     else if xp_broker_plugin_id p = '''' then stop i b NoteBrokerNotConfigured
     else if is_entry a \<and> rs = None then stop i b NoteRealStateUnavailable
     else if a = ''short'' \<and> \<not> xp_allow_real_short p then stop i b NoteRealShortDisabled
     else if opens_risk a then await checkWalkForwardGate (\<lambda>gate.
       case gate of Some reason \<Rightarrow> stop i b (NoteWalkForward reason) | None \<Rightarrow> ret None)
     else ret None) u = (Inr None, v)"
    using await_then [OF assms [unfolded checkExecuteRealPreconditions_def] refl] by blast
  have stop: "stop i b m x = (Inr None, v) \<Longrightarrow> False" for m x
    by (auto simp: stop_def await_def ret_def split: prod.splits sum.splits)
  have h': "\<not> h"
  proof
    assume h
    with rest have "stop i b NoteHalted u = (Inr None, v)" by (simp only: if_True)
    then show False by (rule stop)
  qed
  moreover have "xp_broker_plugin_id p \<noteq> ''''"
  proof
    assume "xp_broker_plugin_id p = ''''"
    with rest h' have "stop i b NoteBrokerNotConfigured u = (Inr None, v)"
      by (simp only: simp_thms if_True if_False)
    then show False by (rule stop)
  qed
  moreover have "opens_risk a \<longrightarrow> h = halted w"
    using h by (auto simp: isRealExecutionHalted_def kv_get_def db_read_def await_def ret_def halted_def
        switch_on_def split: option.splits)
  ultimately show ?thesis by simp
qed

lemma executeReal_sends:
  assumes "placements (snd (executeReal i t p rs b sz w)) \<noteq> placements w"
  shows "(opens_risk (ti_action t) \<longrightarrow> \<not> halted w) \<and> xp_broker_plugin_id p \<noteq> '''' \<and>
    ti_action t \<noteq> ''hold'' \<and>
    (\<exists>side qty px. real_sizing w t p rs sz side qty px \<and>
      (is_entry (ti_action t) \<longrightarrow> is_finite px \<and> jgt px j0) \<and>
      sends w (snd (executeReal i t p rs b sz w)) (xp_broker_plugin_id p) (ti_symbol t) side qty)"
proof -
  let ?quote = "attempt (await (quote_last (ti_symbol t)) (\<lambda>px. ret (Inr px))) (\<lambda>e. ret (Inl e))"
  let ?tail = "\<lambda>q. if quote_problem q \<noteq> None \<and> is_entry (ti_action t) then
           await (fail_with i b (RError (the (quote_problem q)))) (\<lambda>row. ret (row, None))
         else if ti_action t = ''hold'' then await (execute_hold i b) (\<lambda>row. ret (row, None))
         else place_real i t p rs b sz (case q of Inl _ \<Rightarrow> NaN | Inr px \<Rightarrow> px)"
  from await_placed [OF assms [unfolded executeReal_def] no_placement.ev_preconditions tables.ev_preconditions]
  obtain pre v where pre: "checkExecuteRealPreconditions i p (ti_action t) rs b w = (Inr pre, v)"
    and go: "placements (snd ((case pre of Some row \<Rightarrow> ret (row, None) | None \<Rightarrow> await ?quote ?tail) v)) \<noteq> placements v"
    and v: "placements v = placements w" "same_setup w v" by blast
  have none: "pre = None" using go by (cases pre) (auto simp: ret_def)
  note P = preconditions_passed [OF pre [unfolded none]]
  have qev: "evolves no_new_placement ?quote" "evolves same_setup ?quote"
    by (intro no_placement.ev_pure no_placement.ev_quote_last, intro tables.ev_pure tables.ev_quote_last)
  have go: "placements (snd (await ?quote ?tail v)) \<noteq> placements v" using go none by simp
  from await_placed [OF go qev] obtain q u where q: "?quote v = (Inr q, u)"
    and go2: "placements (snd (?tail q u)) \<noteq> placements u"
    and u: "placements u = placements v" "same_setup v u" by blast
  have quiet: "placements (snd (await (fail_with i b d) (\<lambda>row. ret (row, None)) u)) = placements u"
    "placements (snd (await (execute_hold i b) (\<lambda>row. ret (row, None)) u)) = placements u" for d
    by (intro quiet_not_placed no_placement.ev_pure no_placement.ev_decisions)+
  have ok: "\<not> (quote_problem q \<noteq> None \<and> is_entry (ti_action t))" "ti_action t \<noteq> ''hold''"
    using go2 quiet by (auto split: if_splits)
  let ?px = "case q of Inl _ \<Rightarrow> NaN | Inr px \<Rightarrow> px"
  have tail: "?tail q u = place_real i t p rs b sz ?px u" using ok by auto
  from place_real_sends [OF go2 [unfolded tail]] obtain side qty where
    sz: "real_sizing u t p rs sz side qty ?px"
    and sd: "sends u (snd (place_real i t p rs b sz ?px u)) (xp_broker_plugin_id p) (ti_symbol t) side qty"
    by blast
  have "w_env u = w_env w" using u v by (simp add: same_setup_def)
  then have "real_sizing w t p rs sz side qty ?px" using sz real_sizing_env by metis
  moreover have "snd (executeReal i t p rs b sz w) = snd (place_real i t p rs b sz ?px u)"
    using pre none q tail by (simp add: executeReal_def await_run)
  moreover have "sends w (snd (place_real i t p rs b sz ?px u)) (xp_broker_plugin_id p) (ti_symbol t) side qty"
    using sd sends_cong u(1) v(1) by (metis (no_types))
  moreover have "is_entry (ti_action t) \<longrightarrow> is_finite ?px \<and> jgt ?px j0"
  proof
    assume "is_entry (ti_action t)"
    then have "quote_problem q = None" using ok by simp
    then show "is_finite ?px \<and> jgt ?px j0"
      by (cases q; cases "?px") (auto simp: quote_problem_def split: if_splits)
  qed
  ultimately show ?thesis using P ok(2) by metis
qed

text \<open>
  Following a placement through \<open>process_intent\<close>: the mode is real, an entry has passed the gates
  on the real account, and the order was sent by \<open>executeReal\<close>.
\<close>

lemma process_placed:
  assumes "placements (snd (process_intent t p b sz w)) \<noteq> placements w"
  obtains rs v x where
    "resolveMode p (ti_id t) (ti_symbol t) (ti_action t) b w = (Inr (Inr Real), x)"
    "is_entry (ti_action t) \<longrightarrow> (\<exists>r. rs = Some r \<and> account_read w (xp_broker_plugin_id p) r \<and>
       passesAutoRisk (RealState r) p = None)"
    "same_setup w v" "placements v = placements w"
    "placements (snd (executeReal (ti_id t) t p rs b sz v)) \<noteq> placements v"
    "snd (process_intent t p b sz w) = snd (executeReal (ti_id t) t p rs b sz v)"
proof -
  let ?i = "ti_id t" let ?a = "ti_action t" let ?b = "xp_broker_plugin_id p"
  let ?run = "\<lambda>m rs a rest. if m = Real \<and> is_entry ?a \<and> rs = None then
        await (fail_with ?i b (RError NoteRealStateUnavailable)) (\<lambda>row. ret (row, None))
      else if is_entry ?a then
        await (evaluateEntryRiskGate m rs a p) (\<lambda>(reason, pass, state).
        if \<not> pass then await (reject_with ?i b reason) (\<lambda>row. ret (row, None))
        else execute_in m t p rs state b sz)
      else execute_in m t p rs a b sz"
  let ?acct = "\<lambda>m a. await (if m = Real then getRealAccountState ?b else ret None) (\<lambda>rs. ?run m rs a rs)"
  have quiet: "placements (snd (ret z v)) = placements v" for z :: outcome and v by (simp add: ret_def)
  have dec: "placements (snd (await (fail_with ?i b d) (\<lambda>row. ret (row, None)) v)) = placements v"
    "placements (snd (await (execute_hold ?i b) (\<lambda>row. ret (row, None)) v)) = placements v"
    "placements (snd (await (reject_with ?i b r) (\<lambda>row. ret (row, None)) v)) = placements v" for d r v
    by (intro quiet_not_placed no_placement.ev_pure no_placement.ev_decisions)+
  have paper: "placements (snd (execute_in Paper t p rs st b sz v)) = placements v" for rs st v
    unfolding execute_in_def mode.case
    by (intro quiet_not_placed no_placement.ev_pure no_placement.ev_runPaperExecution)
  from await_placed [OF assms [unfolded process_intent_def Let_def] no_placement.ev_resolveMode tables.ev_resolveMode]
  obtain res x where res: "resolveMode p ?i (ti_symbol t) ?a b w = (Inr res, x)"
    and go: "placements (snd ((case res of Inl row \<Rightarrow> ret (row, None) | Inr m \<Rightarrow>
          await load_paper_state (\<lambda>a. if ?a = ''hold'' then await (execute_hold ?i b) (\<lambda>row. ret (row, None))
            else ?acct m a)) x)) \<noteq> placements x"
    and x: "same_setup w x" "placements x = placements w" by blast
  obtain m where m: "res = Inr m" using go quiet by (cases res) auto
  from await_placed [OF go [unfolded m sum.case] no_placement.ev_load_paper_state tables.ev_load_paper_state]
  obtain a y where a: "load_paper_state x = (Inr a, y)"
    and go: "placements (snd ((if ?a = ''hold'' then await (execute_hold ?i b) (\<lambda>row. ret (row, None))
            else ?acct m a) y)) \<noteq> placements y"
    and y: "same_setup x y" "placements y = placements x" by blast
  have nohold: "?a \<noteq> ''hold''" using go dec(2) by (auto split: if_splits)
  have aev: "evolves no_new_placement (if m = Real then getRealAccountState ?b else ret None)"
    "evolves same_setup (if m = Real then getRealAccountState ?b else ret None)"
    by (intro no_placement.ev_pure no_placement.ev_getRealAccountState,
        intro tables.ev_pure tables.ev_getRealAccountState)
  from go nohold have go: "placements (snd (?acct m a y)) \<noteq> placements y" by simp
  from await_placed [OF go aev] obtain rs z
    where rs: "(if m = Real then getRealAccountState ?b else ret None) y = (Inr rs, z)"
    and go: "placements (snd (?run m rs a rs z)) \<noteq> placements z"
    and z: "same_setup y z" "placements z = placements y" by blast
  have wz: "same_setup w z" "placements z = placements w" using x y z same_setup_trans by metis+
  have open': "\<not> (m = Real \<and> is_entry ?a \<and> rs = None)" using go dec(1) by (auto split: if_splits)
  have skip: "?run m rs a rs = (if is_entry ?a then
        await (evaluateEntryRiskGate m rs a p) (\<lambda>(reason, pass, state).
        if \<not> pass then await (reject_with ?i b reason) (\<lambda>row. ret (row, None))
        else execute_in m t p rs state b sz)
      else execute_in m t p rs a b sz)"
    by (rule if_not_P [OF open'])
  have read: "account_read w ?b r" if "m = Real" "rs = Some r" for r
  proof -
    have "getRealAccountState ?b y = (Inr (Some r), z)" using rs that by simp
    then have "account_read y ?b r" by (rule real_state_read)
    then show ?thesis by (rule account_read_setup [OF same_setup_trans [OF x(1) y(1)]])
  qed
  have steps: "snd (process_intent t p b sz w) = snd (?run m rs a rs z)"
    using res m a nohold rs by (simp add: process_intent_def Let_def await_run)
  show thesis
  proof (cases "is_entry ?a")
    case False
    then have go: "placements (snd (execute_in m t p rs a b sz z)) \<noteq> placements z"
      using go unfolding skip by simp
    then have "m = Real" using paper by (cases m) auto
    moreover have "snd (process_intent t p b sz w) = snd (execute_in m t p rs a b sz z)"
      using steps False unfolding skip by simp
    ultimately show thesis
      using that [of x rs z] res m wz go False by (simp add: execute_in_def)
  next
    case True
    then have go: "placements (snd (await (evaluateEntryRiskGate m rs a p) (\<lambda>(reason, pass, state).
        if \<not> pass then await (reject_with ?i b reason) (\<lambda>row. ret (row, None))
        else execute_in m t p rs state b sz) z)) \<noteq> placements z"
      using go unfolding skip unfolding if_P [OF True] by simp
    from await_placed [OF go no_placement.ev_evaluateEntryRiskGate tables.ev_evaluateEntryRiskGate]
    obtain gate v where gate: "evaluateEntryRiskGate m rs a p z = (Inr gate, v)"
      and go: "placements (snd ((case gate of (reason, pass, state) \<Rightarrow>
        if \<not> pass then await (reject_with ?i b reason) (\<lambda>row. ret (row, None))
        else execute_in m t p rs state b sz) v)) \<noteq> placements v"
      and v: "same_setup z v" "placements v = placements z" by blast
    obtain reason pass state where g: "gate = (reason, pass, state)" by (cases gate)
    have pass: "pass" "placements (snd (execute_in m t p rs state b sz v)) \<noteq> placements v"
      using go g dec(3) by (auto split: if_splits)
    then have real: "m = Real" using paper by (cases m) auto
    then obtain r where r: "rs = Some r" using open' True by auto
    have "passesAutoRisk (RealState r) p = None"
      using gate g pass(1) real r by (auto simp: evaluateEntryRiskGate_def Let_def ret_def)
    moreover have "snd (process_intent t p b sz w) = snd (execute_in m t p rs state b sz v)"
      using steps gate g pass(1) unfolding skip unfolding if_P [OF True] by (simp add: await_run)
    moreover have "same_setup w v" "placements v = placements w"
      using wz v same_setup_trans by metis+
    ultimately show thesis
      using that [of x rs v] res m real r read pass(2) by (simp add: execute_in_def)
  qed
qed

lemma resolveMode_entry:
  assumes "resolveMode p i s a b w = (Inr (Inr Real), x)" "is_entry a"
  shows "xp_real p \<and> xp_broker_plugin_id p \<noteq> '''' \<and> strategy_vetted w \<and>
    (a = ''short'' \<longrightarrow> xp_allow_real_short p)"
proof -
  have "a \<noteq> ''exit''" using assms(2) by (auto simp: is_entry_def)
  then have "await (effectiveMode p i a) (\<lambda>m. ret (Inr m :: trade_intent + mode)) w = (Inr (Inr Real), x)"
    using assms(1) by (simp add: resolveMode_def)
  from await_then [OF this refl] obtain m v
    where "effectiveMode p i a w = (Inr m, v)" "ret (Inr m :: trade_intent + mode) v = (Inr (Inr Real), x)"
    by blast
  then have "effectiveMode p i a w = (Inr Real, v)" by (simp add: ret_def)
  then show ?thesis using effectiveMode_real assms(2) by blast
qed

text \<open>C14: A real entry passes every gate. When processing a \<open>long\<close> or \<open>short\<close> intent sends
  anything to a broker, real execution was enabled with a broker configured, the applied strategy
  had a fresh \<open>ROBUSTO\<close> verdict, the kill switch was off, a short was allowed, and the account
  gate passed on the broker's own fresh snapshot; and what was sent is one market order for the
  intent's symbol, on the side the action asks for, of the quantity computed from that snapshot
  and a finite positive quote, within the notional ceiling.\<close>

theorem real_entry_passes_every_gate:
  assumes "is_entry (ti_action t)"
    and "placements (snd (process_intent t p b sz w)) \<noteq> placements w"
  shows "xp_real p \<and> xp_broker_plugin_id p \<noteq> '''' \<and> strategy_vetted w \<and> \<not> halted w \<and>
    (ti_action t = ''short'' \<longrightarrow> xp_allow_real_short p) \<and>
    (\<exists>r px qty side. account_read w (xp_broker_plugin_id p) r \<and> passesAutoRisk (RealState r) p = None \<and>
       is_finite px \<and> jgt px j0 \<and> real_sizing w t p (Some r) sz side qty px \<and>
       sends w (snd (process_intent t p b sz w)) (xp_broker_plugin_id p) (ti_symbol t) side qty)"
proof -
  obtain rs v x where
    mode: "resolveMode p (ti_id t) (ti_symbol t) (ti_action t) b w = (Inr (Inr Real), x)"
    and acct: "is_entry (ti_action t) \<longrightarrow> (\<exists>r. rs = Some r \<and> account_read w (xp_broker_plugin_id p) r \<and>
       passesAutoRisk (RealState r) p = None)"
    and v: "same_setup w v" "placements v = placements w"
    and go: "placements (snd (executeReal (ti_id t) t p rs b sz v)) \<noteq> placements v"
    and run: "snd (process_intent t p b sz w) = snd (executeReal (ti_id t) t p rs b sz v)"
    by (rule process_placed [OF assms(2)])
  note M = resolveMode_entry [OF mode assms(1)]
  note E = executeReal_sends [OF go]
  have risk: "opens_risk (ti_action t)" using assms(1) by (auto simp: is_entry_def opens_risk_def)
  obtain r where r: "rs = Some r" "account_read w (xp_broker_plugin_id p) r"
    "passesAutoRisk (RealState r) p = None" using acct assms(1) by blast
  obtain side qty px where o: "real_sizing v t p (Some r) sz side qty px" "is_finite px \<and> jgt px j0"
    "sends v (snd (process_intent t p b sz w)) (xp_broker_plugin_id p) (ti_symbol t) side qty"
    using E assms(1) run r by auto
  have "w_env v = w_env w" using v by (simp add: same_setup_def)
  then have "real_sizing w t p (Some r) sz side qty px" using o(1) real_sizing_env by metis
  moreover have "\<not> halted w" using E risk halted_setup [OF v(1)] by simp
  ultimately show ?thesis using M r o sends_cong [OF v(2)] by metis
qed

text \<open>C15: A real exit sells what the broker holds. When processing an \<open>exit\<close> intent sends
  anything, it is one market \<open>sell\<close> order for the intent's symbol whose quantity is the absolute
  size of a position the broker reports, whatever the policy's sizing, its notional ceiling, the
  strategy's verdict or the kill switch. The side does not depend on the sign of the position.\<close>

theorem real_exit_sells_the_position:
  assumes "ti_action t = ''exit''"
    and "placements (snd (process_intent t p b sz w)) \<noteq> placements w"
  shows "\<exists>n pf pos. env_portfolio (w_env w) n (xp_broker_plugin_id p) = Inr pf \<and>
    pos \<in> set (po_positions pf) \<and> bp_symbol pos = ti_symbol t \<and> \<not> jle (jabs (bp_qty pos)) j0 \<and>
    sends w (snd (process_intent t p b sz w)) (xp_broker_plugin_id p) (ti_symbol t) ''sell''
      (jabs (bp_qty pos))"
proof -
  obtain rs v where v: "same_setup w v" "placements v = placements w"
    and go: "placements (snd (executeReal (ti_id t) t p rs b sz v)) \<noteq> placements v"
    and run: "snd (process_intent t p b sz w) = snd (executeReal (ti_id t) t p rs b sz v)"
    by (rule process_placed [OF assms(2)])
  obtain side qty px where o: "real_sizing v t p rs sz side qty px"
    "sends v (snd (process_intent t p b sz w)) (xp_broker_plugin_id p) (ti_symbol t) side qty"
    using executeReal_sends [OF go] run by auto
  have "w_env v = w_env w" using v by (simp add: same_setup_def)
  then have sz: "real_sizing w t p rs sz side qty px" using o(1) real_sizing_env by metis
  then obtain n pf pos where "side = ''sell''" "env_portfolio (w_env w) n (xp_broker_plugin_id p) = Inr pf"
    "pos \<in> set (po_positions pf)" "bp_symbol pos = ti_symbol t" "qty = jabs (bp_qty pos)"
    "\<not> jle qty j0"
    using assms(1) by (auto simp: real_sizing_def)
  then show ?thesis using o(2) sends_cong [OF v(2)] by metis
qed

end
