(* ===== verification/Json.thy ===== *)
theory Json
  imports KvUtil
begin

text \<open>
  Values of type \<open>unknown\<close>: what \<open>JSON.parse\<close> yields and what plugins, language models and
  market-data providers answer. Reading a property, the \<open>typeof\<close> tests and the \<open>Number\<close>
  conversion follow JavaScript; an absent property (\<open>undefined\<close>) is None. Upper and lower case
  are those of the ASCII letters.
\<close>

section \<open>Values\<close>

datatype json =
  JNull
| JBool bool
| JNum jsnum
| JStr string
| JArr "json list"
| JObj "(string \<times> json) list"

text \<open>\<open>value[key]\<close> of an object; other values have no such property of their own.\<close>

fun field :: "string \<Rightarrow> json \<Rightarrow> json option" where
  "field k (JObj fields) = map_of fields k"
| "field k _ = None"

text \<open>\<open>typeof v === 'string' ? v : ...\<close>, \<open>typeof v === 'number'\<close>, \<open>Array.isArray(v)\<close>.\<close>

fun as_string :: "json option \<Rightarrow> string option" where
  "as_string (Some (JStr s)) = Some s"
| "as_string _ = None"

fun as_number :: "json option \<Rightarrow> jsnum option" where
  "as_number (Some (JNum n)) = Some n"
| "as_number _ = None"

fun as_array :: "json option \<Rightarrow> json list option" where
  "as_array (Some (JArr xs)) = Some xs"
| "as_array _ = None"

fun is_object :: "json \<Rightarrow> bool" where
  "is_object (JObj _) = True"
| "is_object (JArr _) = True"
| "is_object _ = False"

text \<open>\<open>Number(v)\<close>: an array is converted through its text, so only a single element counts.\<close>

fun element_number :: "json \<Rightarrow> jsnum" where
  "element_number JNull = Fin 0"
| "element_number (JBool _) = NaN"
| "element_number (JNum n) = n"
| "element_number (JStr s) = js_number s"
| "element_number (JArr []) = Fin 0"
| "element_number (JArr [x]) = element_number x"
| "element_number (JArr (_ # _ # _)) = NaN"
| "element_number (JObj _) = NaN"

fun json_to_number :: "json option \<Rightarrow> jsnum" where
  "json_to_number None = NaN"
| "json_to_number (Some (JBool b)) = (if b then Fin 1 else Fin 0)"
| "json_to_number (Some v) = element_number v"

text \<open>
  \<open>JSON.stringify\<close> writes a number that is not finite as \<open>null\<close>. The model stores the 0 that \<open>null\<close>
  counts as in arithmetic and in comparisons with numbers; where the program calls a method on the
  value instead (\<open>equity.toFixed\<close>), it fails on \<open>null\<close>, and the model does not. That a stored
  amount is finite is therefore no property of the program, and none is stated.
\<close>

definition stored_number :: "jsnum \<Rightarrow> jsnum" where
  "stored_number x = (if is_finite x then x else Fin 0)"

text \<open>The same for a field read with \<open>??\<close>, where \<open>null\<close> counts as absent.\<close>

definition stored_optional :: "jsnum option \<Rightarrow> jsnum option" where
  "stored_optional x = (case x of Some n \<Rightarrow> if is_finite n then Some n else None | None \<Rightarrow> None)"

section \<open>Text\<close>

definition lower_char :: "char \<Rightarrow> char" where
  "lower_char c =
     (let n = of_char c :: nat in if 65 \<le> n \<and> n \<le> 90 then char_of (n + 32) else c)"

definition upper_char :: "char \<Rightarrow> char" where
  "upper_char c =
     (let n = of_char c :: nat in if 97 \<le> n \<and> n \<le> 122 then char_of (n - 32) else c)"

definition toLowerCase :: "string \<Rightarrow> string" where
  "toLowerCase s = map lower_char s"

definition toUpperCase :: "string \<Rightarrow> string" where
  "toUpperCase s = map upper_char s"

definition endsWith :: "string \<Rightarrow> string \<Rightarrow> bool" where
  "endsWith s suffix \<longleftrightarrow> length suffix \<le> length s \<and> drop (length s - length suffix) s = suffix"

text \<open>\<open>s.split(c)\<close> for a one-character separator.\<close>

fun split_on :: "char \<Rightarrow> string \<Rightarrow> string list" where
  "split_on c [] = [[]]"
| "split_on c (x # xs) =
     (if x = c then [] # split_on c xs
      else case split_on c xs of [] \<Rightarrow> [[x]] | w # ws \<Rightarrow> (x # w) # ws)"

text \<open>The distinct elements in the order of their first occurrence: \<open>Array.from(new Set(xs))\<close>.\<close>

definition first_occurrences :: "'a list \<Rightarrow> 'a list" where
  "first_occurrences xs = rev (remdups (rev xs))"

lemma set_first_occurrences [simp]: "set (first_occurrences xs) = set xs"
  by (simp add: first_occurrences_def)

lemma distinct_first_occurrences [simp]: "distinct (first_occurrences xs)"
  by (simp add: first_occurrences_def)

lemma stored_number_finite [simp]: "is_finite (stored_number x)"
  by (simp add: stored_number_def)

section \<open>Bars\<close>

text \<open>A bar of market data as the provider gateway returns it (\<open>OhlcvBar\<close>).\<close>

record ohlcv_bar =
  ba_ts :: string
  ba_open :: jsnum
  ba_high :: jsnum
  ba_low :: jsnum
  ba_close :: jsnum
  ba_volume :: jsnum

end
