(* ===== verification/TextOps.thy ===== *)
theory TextOps
  imports Json
begin

text \<open>
  Texts as the code searches and rewrites them: \<open>indexOf\<close>, \<open>slice\<close>, \<open>replace\<close> with a global regular
  expression, and \<open>JSON.parse\<close>. A text is a list of code units below 256; a \<open>\u\<close> escape of a larger
  one is read as 255.
\<close>

section \<open>Searching\<close>

fun starts :: "string \<Rightarrow> string \<Rightarrow> bool" where
  "starts [] s = True"
| "starts (p # ps) [] = False"
| "starts (p # ps) (c # cs) = (p = c \<and> starts ps cs)"

text \<open>\<open>s.indexOf(p)\<close>, and \<open>s.indexOf(p, i)\<close>.\<close>

fun indexOf :: "string \<Rightarrow> string \<Rightarrow> nat option" where
  "indexOf p [] = (if p = [] then Some 0 else None)"
| "indexOf p (c # cs) = (if starts p (c # cs) then Some 0 else map_option Suc (indexOf p cs))"

definition indexOf_from :: "string \<Rightarrow> string \<Rightarrow> nat \<Rightarrow> nat option" where
  "indexOf_from p s i = map_option (\<lambda>k. i + k) (indexOf p (drop i s))"

definition slice :: "nat \<Rightarrow> nat \<Rightarrow> string \<Rightarrow> string" where
  "slice i j s = drop i (take j s)"

lemma starts_take: "starts p s \<longleftrightarrow> take (length p) s = p"
  by (induction p s rule: starts.induct) auto

lemma indexOf_Some: "indexOf p s = Some i \<Longrightarrow> starts p (drop i s) \<and> i \<le> length s"
  by (induction p s arbitrary: i rule: indexOf.induct) (auto split: if_splits)

text \<open>The first character that balances the opening one, by depth.\<close>

fun balanced :: "char \<Rightarrow> char \<Rightarrow> nat \<Rightarrow> string \<Rightarrow> nat option" where
  "balanced a b d [] = None"
| "balanced a b d (c # cs) =
     (if c = a then map_option Suc (balanced a b (Suc d) cs)
      else if c = b then (if d \<le> 1 then Some 1 else map_option Suc (balanced a b (d - 1) cs))
      else map_option Suc (balanced a b d cs))"

text \<open>From the first \<open>a\<close> through the \<open>b\<close> that balances it.\<close>

definition bracketed :: "char \<Rightarrow> char \<Rightarrow> string \<Rightarrow> string option" where
  "bracketed a b s =
     (case indexOf [a] s of
        None \<Rightarrow> None
      | Some start \<Rightarrow> map_option (\<lambda>k. take k (drop start s)) (balanced a b 0 (drop start s)))"

text \<open>The content of the first \<open>```json\<close> block, trimmed.\<close>

definition newline :: char where
  "newline = CHR 0x0A"

definition fence :: string where
  "fence = replicate 3 (CHR 0x60)"

definition fenced_json :: "string \<Rightarrow> string option" where
  "fenced_json text1 =
     (case indexOf (fence @ ''json'') text1 of
        None \<Rightarrow> None
      | Some open1 \<Rightarrow>
          (case indexOf_from [newline] text1 open1 of
             None \<Rightarrow> None
           | Some contentStart \<Rightarrow>
               (case indexOf_from (newline # fence) text1 contentStart of
                  None \<Rightarrow> None
                | Some close1 \<Rightarrow> Some (js_trim (slice (contentStart + 1) close1 text1)))))"

section \<open>Replacing\<close>

text \<open>\<open>s.replace(re, r)\<close> with a global expression; the matcher gives the length of a match.\<close>

fun replaceAll :: "(string \<Rightarrow> nat option) \<Rightarrow> string \<Rightarrow> string \<Rightarrow> string" where
  "replaceAll m r [] = []"
| "replaceAll m r (c # cs) =
     (case m (c # cs) of
        None \<Rightarrow> c # replaceAll m r cs
      | Some k \<Rightarrow> r @ replaceAll m r (drop (k - 1) cs))"

text \<open>Matchers without regard to case: a literal, and the shortest block between two literals.\<close>

definition literal_i :: "string \<Rightarrow> string \<Rightarrow> nat option" where
  "literal_i p s = (if starts (toLowerCase p) (toLowerCase s) then Some (length p) else None)"

definition block_i :: "string \<Rightarrow> string \<Rightarrow> string \<Rightarrow> nat option" where
  "block_i a b s =
     (if starts (toLowerCase a) (toLowerCase s) then
        map_option (\<lambda>k. length a + k + length b) (indexOf (toLowerCase b) (toLowerCase (drop (length a) s)))
      else None)"

section \<open>JSON.parse\<close>

abbreviation skip_ws :: "string \<Rightarrow> string" where
  "skip_ws \<equiv> dropWhile json_ws"

fun hex4 :: "string \<Rightarrow> (char \<times> string) option" where
  "hex4 (a # b # c # d # cs) = map_option (\<lambda>n. (char_of (min n 255), cs)) (hex_value 0 [a, b, c, d])"
| "hex4 _ = None"

text \<open>The characters after an opening quote, through the closing one.\<close>

lemma hex4_shorter: "hex4 s = Some (c, r) \<Longrightarrow> length r < length s"
  by (induction s rule: hex4.induct) (auto split: option.splits)

function string_rest :: "string \<Rightarrow> (string \<times> string) option" where
  "string_rest [] = None"
| "string_rest (c # cs) =
     (if c = CHR 0x22 then Some ([], cs)
      else if c = CHR 0x5C then
        (case cs of
           [] \<Rightarrow> None
         | e # cs' \<Rightarrow>
             if e = CHR ''u'' then
               (case hex4 cs' of None \<Rightarrow> None
                | Some (d, rest) \<Rightarrow> map_option (apfst ((#) d)) (string_rest rest))
             else
               (case simple_escape e of None \<Rightarrow> None
                | Some d \<Rightarrow> map_option (apfst ((#) d)) (string_rest cs')))
      else if (of_char c :: nat) < 32 then None
      else map_option (apfst ((#) c)) (string_rest cs))"
  by pat_completeness auto
termination
  by (relation "measure length") (auto dest: hex4_shorter)

text \<open>A number: sign, integer part without leading zeros, fraction, exponent.\<close>

definition json_digit :: "char \<Rightarrow> bool" where
  "json_digit c \<longleftrightarrow> 48 \<le> (of_char c :: nat) \<and> (of_char c :: nat) \<le> 57"

definition digits1 :: "string \<Rightarrow> (string \<times> string) option" where
  "digits1 s = (let ds = takeWhile json_digit s in if ds = [] then None else Some (ds, dropWhile json_digit s))"

definition int_part :: "string \<Rightarrow> (string \<times> string) option" where
  "int_part s =
     (case s of
        [] \<Rightarrow> None
      | c # cs \<Rightarrow> if c = CHR ''0'' then Some ([c], cs) else digits1 s)"

definition frac_part :: "string \<Rightarrow> (string \<times> string) option" where
  "frac_part s =
     (case s of
        [] \<Rightarrow> Some ([], [])
      | c # cs \<Rightarrow> if c = CHR ''.'' then map_option (apfst ((#) c)) (digits1 cs) else Some ([], s))"

definition exp_part :: "string \<Rightarrow> (string \<times> string) option" where
  "exp_part s =
     (case s of
        [] \<Rightarrow> Some ([], [])
      | c # cs \<Rightarrow>
          if c = CHR ''e'' \<or> c = CHR ''E'' then
            (case cs of
               [] \<Rightarrow> None
             | d # ds \<Rightarrow>
                 if d = CHR ''+'' \<or> d = CHR ''-'' then map_option (apfst (\<lambda>x. c # d # x)) (digits1 ds)
                 else map_option (apfst ((#) c)) (digits1 cs))
          else Some ([], s))"

definition number_text :: "string \<Rightarrow> (string \<times> string) option" where
  "number_text s =
     (let (sgn1, s0) = (case s of c # cs \<Rightarrow> if c = CHR ''-'' then ([c], cs) else ([], s) | [] \<Rightarrow> ([], []))
      in case int_part s0 of
           None \<Rightarrow> None
         | Some (i, s1) \<Rightarrow>
             (case frac_part s1 of
                None \<Rightarrow> None
              | Some (f, s2) \<Rightarrow>
                  (case exp_part s2 of None \<Rightarrow> None | Some (e, s3) \<Rightarrow> Some (sgn1 @ i @ f @ e, s3))))"

text \<open>A repeated key keeps its place and takes the last value.\<close>

definition object_of :: "(string \<times> json) list \<Rightarrow> json" where
  "object_of ps = JObj (map (\<lambda>k. (k, the (map_of (rev ps) k))) (first_occurrences (map fst ps)))"

definition keyword :: "string \<Rightarrow> json \<Rightarrow> string \<Rightarrow> (json \<times> string) option" where
  "keyword k v s = (if starts k s then Some (v, drop (length k) s) else None)"

text \<open>The first argument bounds the number of nested calls.\<close>

fun json_value :: "nat \<Rightarrow> string \<Rightarrow> (json \<times> string) option"
and json_elements :: "nat \<Rightarrow> string \<Rightarrow> (json list \<times> string) option"
and json_members :: "nat \<Rightarrow> string \<Rightarrow> ((string \<times> json) list \<times> string) option" where
  "json_value 0 s = None"
| "json_value (Suc n) s =
     (case skip_ws s of
        [] \<Rightarrow> None
      | c # cs \<Rightarrow>
          if c = CHR ''['' then
            (case skip_ws cs of
               d # ds \<Rightarrow> if d = CHR '']'' then Some (JArr [], ds)
                         else map_option (apfst JArr) (json_elements n cs)
             | [] \<Rightarrow> None)
          else if c = CHR ''{'' then
            (case skip_ws cs of
               d # ds \<Rightarrow> if d = CHR ''}'' then Some (JObj [], ds)
                         else map_option (apfst object_of) (json_members n cs)
             | [] \<Rightarrow> None)
          else if c = CHR 0x22 then map_option (apfst JStr) (string_rest cs)
          else if c = CHR ''t'' then keyword ''true'' (JBool True) (c # cs)
          else if c = CHR ''f'' then keyword ''false'' (JBool False) (c # cs)
          else if c = CHR ''n'' then keyword ''null'' JNull (c # cs)
          else map_option (apfst (\<lambda>t. JNum (js_number t))) (number_text (c # cs)))"
| "json_elements 0 s = None"
| "json_elements (Suc n) s =
     (case json_value n s of
        None \<Rightarrow> None
      | Some (v, r) \<Rightarrow>
          (case skip_ws r of
             [] \<Rightarrow> None
           | c # cs \<Rightarrow>
               if c = CHR '']'' then Some ([v], cs)
               else if c = CHR '','' then map_option (apfst ((#) v)) (json_elements n cs)
               else None))"
| "json_members 0 s = None"
| "json_members (Suc n) s =
     (case skip_ws s of
        [] \<Rightarrow> None
      | q # qs \<Rightarrow>
          if q \<noteq> CHR 0x22 then None
          else (case string_rest qs of
             None \<Rightarrow> None
           | Some (k, r) \<Rightarrow>
               (case skip_ws r of
                  [] \<Rightarrow> None
                | c # cs \<Rightarrow>
                    if c \<noteq> CHR '':'' then None
                    else (case json_value n cs of
                       None \<Rightarrow> None
                     | Some (v, r') \<Rightarrow>
                         (case skip_ws r' of
                            [] \<Rightarrow> None
                          | d # ds \<Rightarrow>
                              if d = CHR ''}'' then Some ([(k, v)], ds)
                              else if d = CHR '','' then
                                map_option (apfst ((#) (k, v))) (json_members n ds)
                              else None)))))"

text \<open>\<open>JSON.parse\<close>; None is the thrown \<open>SyntaxError\<close>.\<close>

definition json_parse :: "string \<Rightarrow> json option" where
  "json_parse s =
     (case json_value (2 * length s + 2) s of
        Some (v, r) \<Rightarrow> if skip_ws r = [] then Some v else None
      | None \<Rightarrow> None)"

section \<open>The bound is enough\<close>

lemma apfst_Some: "map_option (apfst f) x = Some (v, r) \<longleftrightarrow> (\<exists>u. x = Some (u, r) \<and> v = f u)"
  by (cases x) (auto simp: apfst_def map_prod_def)

lemma dropWhile_shorter: "dropWhile P s = c # cs \<Longrightarrow> length cs < length s"
  by (metis impossible_Cons length_dropWhile_le linorder_not_less order_trans)

lemma string_rest_shorter: "string_rest s = Some (t, r) \<Longrightarrow> length r < length s"
proof (induction s arbitrary: t rule: string_rest.induct)
  case 1
  then show ?case by simp
next
  case (2 c cs)
  then show ?case
    by (fastforce simp: apfst_Some dest: hex4_shorter split: if_splits list.splits option.splits)
qed

lemma digits1_shorter: "digits1 s = Some (t, r) \<Longrightarrow> length r < length s"
  by (cases s) (auto simp: digits1_def Let_def less_Suc_eq_le length_dropWhile_le split: if_splits)

lemma int_part_shorter: "int_part s = Some (t, r) \<Longrightarrow> length r < length s"
  by (auto simp: int_part_def dest: digits1_shorter split: list.splits if_splits)

lemma frac_part_shorter: "frac_part s = Some (t, r) \<Longrightarrow> length r \<le> length s"
  by (auto simp: frac_part_def apfst_Some dest: digits1_shorter split: list.splits if_splits)

lemma exp_part_shorter: "exp_part s = Some (t, r) \<Longrightarrow> length r \<le> length s"
  by (auto simp: exp_part_def apfst_Some dest!: digits1_shorter split: list.splits if_splits)

lemma number_text_shorter: "number_text s = Some (t, r) \<Longrightarrow> length r < length s"
  by (fastforce simp: number_text_def Let_def dest: int_part_shorter frac_part_shorter exp_part_shorter
      split: list.splits if_splits option.splits prod.splits)

lemma keyword_shorter: "k \<noteq> [] \<Longrightarrow> keyword k v s = Some (u, r) \<Longrightarrow> length r < length s"
  by (cases k; cases s) (auto simp: keyword_def split: if_splits)

lemma json_shorter:
  "json_value n s = Some (v, r) \<Longrightarrow> length r < length s"
  "json_elements n s = Some (vs, r) \<Longrightarrow> length r < length s"
  "json_members n s = Some (ps, r) \<Longrightarrow> length r < length s"
proof (induction n s and n s and n s arbitrary: v r and vs r and ps r
    rule: json_value_json_elements_json_members.induct)
  case (2 n s)
  obtain c cs where s: "skip_ws s = c # cs" using "2.prems" by (auto split: list.splits)
  then have len: "length cs < length s" by (rule dropWhile_shorter)
  have all: "length (c # cs) \<le> length s" using s length_dropWhile_le [of json_ws s] by simp
  show ?case
    using "2.prems" "2.IH" len all s
    by (fastforce simp: apfst_Some dest: dropWhile_shorter string_rest_shorter number_text_shorter
        keyword_shorter [rotated] split: if_splits list.splits)
next
  case (4 n s)
  then show ?case
    by (fastforce simp: apfst_Some dest: dropWhile_shorter split: if_splits list.splits option.splits)
next
  case (6 n s)
  then show ?case
    by (fastforce simp: apfst_Some dest: dropWhile_shorter string_rest_shorter
        split: if_splits list.splits option.splits)
qed simp_all

lemma json_bound:
  "2 * length s + 1 \<le> n \<Longrightarrow> json_value (Suc n) s = json_value n s"
  "2 * length s + 2 \<le> n \<Longrightarrow> json_elements (Suc n) s = json_elements n s"
  "2 * length s + 2 \<le> n \<Longrightarrow> json_members (Suc n) s = json_members n s"
proof (induction n s and n s and n s rule: json_value_json_elements_json_members.induct)
  case (2 n s)
  note eqs = json_value.simps(2) [of n] json_value.simps(2) [of "Suc n"]
  show ?case
  proof (cases "skip_ws s")
    case Nil
    show ?thesis unfolding eqs Nil list.case ..
  next
    case (Cons c cs)
    then have len: "2 * length cs + 2 \<le> n" using dropWhile_shorter [OF Cons] "2.prems" by simp
    show ?thesis
    proof (cases "skip_ws cs")
      case Nil
      show ?thesis unfolding eqs Cons list.case Nil ..
    next
      case Cons': (Cons d ds)
      show ?thesis
        unfolding eqs Cons list.case Cons'
        using "2.IH"(1) [OF Cons _ Cons'] "2.IH"(2) [OF Cons _ _ Cons'] len by simp
    qed
  qed
next
  case (4 n s)
  note eqs = json_elements.simps(2) [of n] json_elements.simps(2) [of "Suc n"]
  have v: "json_value (Suc n) s = json_value n s" using "4.IH"(1) "4.prems" by simp
  show ?case
  proof (cases "json_value n s")
    case None
    show ?thesis unfolding eqs v None option.case ..
  next
    case (Some p)
    obtain x r where p: "p = (x, r)" by force
    have r: "length r < length s" using json_shorter(1) Some p by blast
    show ?thesis
    proof (cases "skip_ws r")
      case Nil
      show ?thesis unfolding eqs v Some p option.case prod.case Nil list.case ..
    next
      case (Cons c cs)
      then have "2 * length cs + 2 \<le> n" using dropWhile_shorter [OF Cons] r "4.prems" by simp
      then show ?thesis
        unfolding eqs v Some p option.case prod.case Cons list.case
        using "4.IH"(2) [OF Some p [symmetric] Cons] by simp
    qed
  qed
next
  case (6 n s)
  note eqs = json_members.simps(2) [of n] json_members.simps(2) [of "Suc n"]
  consider "skip_ws s = []" | q qs where "skip_ws s = q # qs" "q \<noteq> CHR 0x22"
    | q qs where "skip_ws s = q # qs" "\<not> q \<noteq> CHR 0x22" "string_rest qs = None"
    | q qs k r where "skip_ws s = q # qs" "\<not> q \<noteq> CHR 0x22" "string_rest qs = Some (k, r)" "skip_ws r = []"
    | q qs k r c cs where "skip_ws s = q # qs" "\<not> q \<noteq> CHR 0x22" "string_rest qs = Some (k, r)"
        "skip_ws r = c # cs" "c \<noteq> CHR '':''"
    | q qs k r c cs where "skip_ws s = q # qs" "\<not> q \<noteq> CHR 0x22" "string_rest qs = Some (k, r)"
        "skip_ws r = c # cs" "\<not> c \<noteq> CHR '':''"
  proof (cases "skip_ws s")
    case Nil
    then show thesis by (rule that(1))
  next
    case s: (Cons q qs)
    show thesis
    proof (cases "q \<noteq> CHR 0x22")
      case False
      show thesis
      proof (cases "string_rest qs")
        case None
        then show thesis by (rule that(3) [OF s False])
      next
        case (Some p)
        then obtain k r where kr: "string_rest qs = Some (k, r)" by (cases p) simp
        show thesis
        proof (cases "skip_ws r")
          case Nil
          then show thesis by (rule that(4) [OF s False kr])
        next
          case (Cons c cs)
          then show thesis using that(5,6) [OF s False kr Cons] by blast
        qed
      qed
    qed (rule that(2) [OF s])
  qed
  then show ?case
  proof cases
    case 1
    show ?thesis unfolding eqs 1 list.case ..
  next
    case 2
    then show ?thesis unfolding eqs 2(1) list.case by simp
  next
    case 3
    then show ?thesis unfolding eqs 3(1) list.case 3(3) option.case by simp
  next
    case 4
    then show ?thesis unfolding eqs 4(1) list.case 4(3) option.case prod.case 4(4) list.case by simp
  next
    case 5
    then show ?thesis unfolding eqs 5(1) list.case 5(3) option.case prod.case 5(4) list.case by simp
  next
    case h: (6 q qs k r c cs)
    then have len: "length cs < length s"
      using dropWhile_shorter [OF h(1)] string_rest_shorter [OF h(3)] dropWhile_shorter [OF h(4)] by simp
    have v: "json_value (Suc n) cs = json_value n cs"
      using "6.IH"(1) [OF h(1,2,3) refl h(4,5)] "6.prems" len by simp
    show ?thesis
    proof (cases "json_value n cs")
      case None
      show ?thesis unfolding eqs h(1,3,4) list.case option.case prod.case v None ..
    next
      case (Some p)
      obtain x r' where p: "p = (x, r')" by force
      have r: "length r' < length cs" using json_shorter(1) Some p by blast
      show ?thesis
      proof (cases "skip_ws r'")
        case Nil
        show ?thesis unfolding eqs h(1,3,4) list.case option.case prod.case v Some p Nil ..
      next
        case (Cons d ds)
        then have "2 * length ds + 2 \<le> n" using dropWhile_shorter [OF Cons] r len "6.prems" by simp
        then show ?thesis
          unfolding eqs h(1,3,4) list.case option.case prod.case v Some p Cons
          using "6.IH"(2) [OF h(1,2,3) refl h(4,5) Some p [symmetric] Cons] by simp
      qed
    qed
  qed
qed simp_all

text \<open>No longer text is cut off: more fuel changes nothing.\<close>

theorem json_parse_bound: "2 * length s + 2 \<le> n \<Longrightarrow> json_value n s = json_value (2 * length s + 2) s"
proof (induction n rule: dec_induct)
  case (step m)
  have "json_value (Suc m) s = json_value m s" using step.hyps by (intro json_bound(1)) simp
  with step.IH show ?case by metis
qed simp

end
