(* ===== verification/JsonText.thy ===== *)
theory JsonText
  imports TextOps
begin

text \<open>
  Printing: the text of a number as \<open>Number.prototype.toString\<close> gives it (the shortest decimal that
  reads back as the number, and among those the closest), and \<open>JSON.stringify\<close>. The members of an
  object are printed in the order they are kept in (JavaScript moves keys that are array indices
  to the front).
\<close>

section \<open>Numbers\<close>

function decimal :: "int \<Rightarrow> string" where
  "decimal n = (if n < 10 then [char_of (48 + n)] else decimal (n div 10) @ [char_of (48 + n mod 10)])"
  by pat_completeness auto
termination
  by (relation "measure nat") auto

declare decimal.simps [simp del]

text \<open>The exponent of the leading decimal digit of a positive number.\<close>

definition floorlog10 :: "rat \<Rightarrow> int" where
  "floorlog10 r =
     (if 1 \<le> r then int (length (decimal \<lfloor>r\<rfloor>)) - 1
      else - int (length (decimal (\<lceil>1 / r\<rceil> - 1))))"

text \<open>With \<open>k\<close> digits: the one below and the one above, as far as they read back as \<open>r\<close>.\<close>

definition reads_back :: "rat \<Rightarrow> int \<Rightarrow> int \<Rightarrow> bool" where
  "reads_back r q s \<longleftrightarrow> 0 < s \<and> round64 (of_int s * 10 powi q) = r"

definition with_digits :: "rat \<Rightarrow> nat \<Rightarrow> (int \<times> int) option" where
  "with_digits r k =
     (let q = floorlog10 r - int k + 1; lo = \<lfloor>r / 10 powi q\<rfloor>;
          below = r - of_int lo * 10 powi q; above = of_int (lo + 1) * 10 powi q - r
      in if reads_back r q lo \<and>
           (\<not> reads_back r q (lo + 1) \<or> below < above \<or> below = above \<and> even lo) then Some (lo, q)
         else if reads_back r q (lo + 1) then Some (lo + 1, q) else None)"

primrec first_fit :: "('a \<Rightarrow> 'b option) \<Rightarrow> 'a list \<Rightarrow> 'b option" where
  "first_fit f [] = None"
| "first_fit f (x # xs) = (case f x of None \<Rightarrow> first_fit f xs | Some y \<Rightarrow> Some y)"

definition shortest :: "rat \<Rightarrow> int \<times> int" where
  "shortest r =
     (case first_fit (with_digits r) [1..<18] of
        Some x \<Rightarrow> x | None \<Rightarrow> (let q = floorlog10 r - 16 in (\<lfloor>r / 10 powi q\<rfloor>, q)))"

definition drop_zeros :: "string \<Rightarrow> string" where
  "drop_zeros ds = rev (dropWhile (\<lambda>c. c = CHR ''0'') (rev ds))"

definition zeros :: "int \<Rightarrow> string" where
  "zeros n = replicate (nat n) (CHR ''0'')"

definition signed_decimal :: "int \<Rightarrow> string" where
  "signed_decimal e = (if e < 0 then ''-'' else ''+'') @ decimal \<bar>e\<bar>"

definition positive_text :: "rat \<Rightarrow> string" where
  "positive_text r =
     (let (s, q) = shortest r; all = decimal s; n = int (length all) + q;
          ds = drop_zeros all; k = int (length ds)
      in if k \<le> n \<and> n \<le> 21 then ds @ zeros (n - k)
         else if 0 < n \<and> n \<le> 21 then take (nat n) ds @ ''.'' @ drop (nat n) ds
         else if - 6 < n \<and> n \<le> 0 then ''0.'' @ zeros (- n) @ ds
         else if k = 1 then ds @ ''e'' @ signed_decimal (n - 1)
         else take 1 ds @ ''.'' @ drop 1 ds @ ''e'' @ signed_decimal (n - 1))"

fun num_text :: "jsnum \<Rightarrow> string" where
  "num_text NaN = ''NaN''"
| "num_text PInf = ''Infinity''"
| "num_text NInf = ''-Infinity''"
| "num_text (Fin r) =
     (if r = 0 then ''0'' else if r < 0 then ''-'' @ positive_text (- r) else positive_text r)"

section \<open>JSON.stringify\<close>

definition hex_char :: "nat \<Rightarrow> char" where
  "hex_char n = char_of (if n < 10 then 48 + n else 87 + n)"

definition escape_char :: "char \<Rightarrow> string" where
  "escape_char c =
     (let n = of_char c :: nat
      in if c = CHR 0x22 \<or> c = CHR 0x5C then [CHR 0x5C, c]
         else if n < 32 then
           (case map_of [(8, CHR ''b''), (9, CHR ''t''), (10, CHR ''n''), (12, CHR ''f''), (13, CHR ''r'')] n of
              Some l \<Rightarrow> [CHR 0x5C, l]
            | None \<Rightarrow> [CHR 0x5C, CHR ''u'', CHR ''0'', CHR ''0'', hex_char (n div 16), hex_char (n mod 16)])
         else [c])"

definition quote_text :: "string \<Rightarrow> string" where
  "quote_text s = CHR 0x22 # concat (map escape_char s) @ [CHR 0x22]"

definition joined :: "string \<Rightarrow> string list \<Rightarrow> string" where
  "joined sep xs = concat (case xs of [] \<Rightarrow> [] | y # ys \<Rightarrow> y # map (\<lambda>z. sep @ z) ys)"

fun stringify :: "json \<Rightarrow> string" where
  "stringify JNull = ''null''"
| "stringify (JBool b) = (if b then ''true'' else ''false'')"
| "stringify (JNum x) = (if is_finite x then num_text x else ''null'')"
| "stringify (JStr s) = quote_text s"
| "stringify (JArr xs) = ''['' @ joined '','' (map stringify xs) @ '']''"
| "stringify (JObj ps) = ''{'' @ joined '','' (map (\<lambda>p. quote_text (fst p) @ '':'' @ stringify (snd p)) ps) @ ''}''"

section \<open>Reading back what was printed\<close>

text \<open>
  A value that survives: its numbers are finite and their texts read back, its objects have no
  repeated key.
\<close>

definition readable_number :: "jsnum \<Rightarrow> bool" where
  "readable_number x \<longleftrightarrow> is_finite x \<and> number_text (num_text x) = Some (num_text x, []) \<and>
     js_number (num_text x) = x"

fun readable :: "json \<Rightarrow> bool" where
  "readable JNull = True"
| "readable (JBool b) = True"
| "readable (JNum x) = readable_number x"
| "readable (JStr s) = True"
| "readable (JArr xs) = list_all readable xs"
| "readable (JObj ps) = (distinct (map fst ps) \<and> list_all (\<lambda>p. readable (snd p)) ps)"

text \<open>The text that may follow a value.\<close>

definition delimited :: "string \<Rightarrow> bool" where
  "delimited rest \<longleftrightarrow> rest = [] \<or> hd rest \<in> {CHR '','', CHR '']'', CHR ''}''}"

lemma delimited_Cons [simp]: "delimited (c # cs) \<longleftrightarrow> c \<in> {CHR '','', CHR '']'', CHR ''}''}"
  by (simp add: delimited_def)

lemma no_ws [simp]:
  "\<not> json_ws (CHR ''['')" "\<not> json_ws (CHR ''{'')" "\<not> json_ws (CHR '']'')" "\<not> json_ws (CHR ''}'')"
  "\<not> json_ws (CHR '','')" "\<not> json_ws (CHR '':'')" "\<not> json_ws (CHR 0x22)" "\<not> json_ws (CHR ''t'')"
  "\<not> json_ws (CHR ''f'')" "\<not> json_ws (CHR ''n'')"
  by (simp_all add: json_ws_def)

lemma low_char:
  "(of_char c :: nat) < 32 \<Longrightarrow>
   c \<in> {CHR 0x00, CHR 0x01, CHR 0x02, CHR 0x03, CHR 0x04, CHR 0x05, CHR 0x06, CHR 0x07, CHR
     0x08, CHR 0x09, CHR 0x0A, CHR 0x0B, CHR 0x0C, CHR 0x0D, CHR 0x0E, CHR 0x0F, CHR 0x10,
     CHR 0x11, CHR 0x12, CHR 0x13, CHR 0x14, CHR 0x15, CHR 0x16, CHR 0x17, CHR 0x18, CHR
     0x19, CHR 0x1A, CHR 0x1B, CHR 0x1C, CHR 0x1D, CHR 0x1E, CHR 0x1F}"
  by (cases c) (auto simp: of_char_Char of_bool_def split: if_splits)

lemma string_rest_escape: "string_rest (escape_char c @ r) = map_option (apfst ((#) c)) (string_rest r)"
proof (cases "(of_char c :: nat) < 32")
  case True
  show ?thesis
    using low_char [OF True]
    by (elim insertE emptyE)
      (simp_all add: escape_char_def hex_char_def hex_digit_def simple_escape_def char_of_def bit_0,
       simp add: numeral_eq_Suc bit_Suc bit_0)
next
  case False
  then show ?thesis
    by (auto simp: escape_char_def simple_escape_def Let_def)
qed

lemma string_rest_quoted: "string_rest (concat (map escape_char s) @ CHR 0x22 # rest) = Some (s, rest)"
  by (induction s) (simp_all add: string_rest_escape)

subsection \<open>A number inside a longer text\<close>

lemma not_digit_delimited: "delimited rest \<Longrightarrow> takeWhile json_digit rest = []"
  by (cases rest) (auto simp: json_digit_def)

lemma digits1_more:
  "delimited rest \<Longrightarrow> digits1 s = Some (ds, r) \<Longrightarrow> digits1 (s @ rest) = Some (ds, r @ rest)"
proof -
  assume "delimited rest" "digits1 s = Some (ds, r)"
  then have d: "ds = takeWhile json_digit s" "r = dropWhile json_digit s" "ds \<noteq> []"
    by (auto simp: digits1_def Let_def split: if_splits)
  have t: "takeWhile json_digit rest = []" by (rule not_digit_delimited) fact
  then have rest: "dropWhile json_digit rest = rest" by (metis append_Nil takeWhile_dropWhile_id)
  show ?thesis
  proof (cases "\<forall>c\<in>set s. json_digit c")
    case True
    then have w: "takeWhile json_digit s = s" "dropWhile json_digit s = []"
      by (simp_all add: takeWhile_eq_all_conv)
    have "takeWhile json_digit (s @ rest) = s" "dropWhile json_digit (s @ rest) = rest"
      using True t rest by simp_all
    then show ?thesis using d unfolding digits1_def Let_def w by simp
  next
    case False
    then show ?thesis using d by (auto simp: digits1_def Let_def takeWhile_append dropWhile_append)
  qed
qed

lemma int_part_more:
  "delimited rest \<Longrightarrow> int_part s = Some (t, r) \<Longrightarrow> int_part (s @ rest) = Some (t, r @ rest)"
  by (auto simp: int_part_def dest: digits1_more split: list.splits if_splits)

lemma frac_part_more:
  "delimited rest \<Longrightarrow> frac_part s = Some (t, r) \<Longrightarrow> frac_part (s @ rest) = Some (t, r @ rest)"
  using digits1_more [of rest]
  by (cases s; cases rest) (auto simp: frac_part_def apfst_Some split: list.splits if_splits)

lemma exp_part_more:
  "delimited rest \<Longrightarrow> exp_part s = Some (t, r) \<Longrightarrow> exp_part (s @ rest) = Some (t, r @ rest)"
  using digits1_more [of rest] digits1_more [of rest "x # y" for x y]
  by (cases s; cases rest) (auto simp: exp_part_def apfst_Some split: list.splits if_splits)

lemma number_text_more:
  "delimited rest \<Longrightarrow> number_text s = Some (t, r) \<Longrightarrow> number_text (s @ rest) = Some (t, r @ rest)"
  using int_part_more [of rest] int_part_more [of rest "x # y" for x y] frac_part_more [of rest]
    exp_part_more [of rest]
  by (cases s) (auto simp: number_text_def Let_def int_part_def [of "[]"] split: if_splits option.splits prod.splits)

subsection \<open>Values\<close>

lemma joined_Nil [simp]: "joined sep [] = []"
  by (simp add: joined_def)

lemma joined_Cons: "joined sep (x # xs) = x @ (if xs = [] then [] else sep @ joined sep xs)"
  by (cases xs) (simp_all add: joined_def)

definition value_head :: "char \<Rightarrow> bool" where
  "value_head c \<longleftrightarrow> \<not> json_ws c \<and> c \<notin> {CHR '']'', CHR ''}'', CHR '','', CHR '':''}"

definition number_head :: "char \<Rightarrow> bool" where
  "number_head c \<longleftrightarrow> c = CHR ''-'' \<or> json_digit c"

lemma number_head_plain:
  "number_head c \<Longrightarrow> value_head c \<and> c \<notin> {CHR ''['', CHR ''{'', CHR 0x22, CHR ''t'', CHR ''f'', CHR ''n''}"
  by (auto simp: number_head_def value_head_def json_digit_def json_ws_def)

lemma digits1_head: "digits1 (c # cs) = Some x \<Longrightarrow> json_digit c"
  by (simp add: digits1_def Let_def split: if_splits)

lemma number_text_head: "number_text s = Some (t, r) \<Longrightarrow> \<exists>c cs. s = c # cs \<and> number_head c"
  by (cases s)
    (auto simp: number_text_def Let_def int_part_def number_head_def json_digit_def [of "CHR ''0''"]
      dest: digits1_head split: if_splits option.splits prod.splits)

lemma stringify_head: "readable v \<Longrightarrow> \<exists>c cs. stringify v = c # cs \<and> value_head c"
proof (cases v)
  case (JNum x)
  assume "readable v"
  then have "number_text (num_text x) = Some (num_text x, [])" "is_finite x"
    using JNum by (simp_all add: readable_number_def)
  then show ?thesis using JNum number_text_head number_head_plain by fastforce
qed (auto simp: value_head_def quote_text_def json_ws_def)

lemma skip_value: "readable v \<Longrightarrow> skip_ws (stringify v @ r) = stringify v @ r"
  using stringify_head by (fastforce simp: value_head_def)

text \<open>A bound on the nested calls for a text.\<close>

abbreviation calls_for :: "string \<Rightarrow> nat" where
  "calls_for s \<equiv> 2 * length s + 2"

definition reads :: "json \<Rightarrow> bool" where
  "reads v \<longleftrightarrow> (\<forall>rest n. delimited rest \<longrightarrow> calls_for (stringify v @ rest) \<le> n \<longrightarrow>
     json_value n (stringify v @ rest) = Some (v, rest))"

lemma readsD:
  "reads v \<Longrightarrow> delimited rest \<Longrightarrow> calls_for (stringify v @ rest) \<le> n \<Longrightarrow>
   json_value n (stringify v @ rest) = Some (v, rest)"
  by (simp add: reads_def)

lemma elements_read:
  "xs \<noteq> [] \<Longrightarrow> \<forall>x\<in>set xs. reads x \<and> readable x \<Longrightarrow>
   calls_for (joined '','' (map stringify xs) @ CHR '']'' # rest) + 1 \<le> n \<Longrightarrow>
   json_elements n (joined '','' (map stringify xs) @ CHR '']'' # rest) = Some (xs, rest)"
proof (induction xs arbitrary: n)
  case (Cons x xs)
  obtain m where n: "n = Suc m" using Cons.prems by (cases n) auto
  let ?tail = "if xs = [] then CHR '']'' # rest
    else CHR '','' # joined '','' (map stringify xs) @ CHR '']'' # rest"
  have s: "joined '','' (map stringify (x # xs)) @ CHR '']'' # rest = stringify x @ ?tail"
    by (simp add: joined_Cons)
  obtain c cs where "stringify x = c # cs" using stringify_head Cons.prems by fastforce
  then have len: "0 < length (stringify x)" by simp
  have v: "json_value m (stringify x @ ?tail) = Some (x, ?tail)"
    by (rule readsD) (use Cons.prems s n in auto)
  show ?case
  proof (cases "xs = []")
    case True
    then show ?thesis using v by (simp add: s [simplified] n joined_Cons)
  next
    case False
    have "json_elements m (joined '','' (map stringify xs) @ CHR '']'' # rest) = Some (xs, rest)"
      by (rule Cons.IH) (use False Cons.prems s n len in auto)
    then show ?thesis using v False by (simp add: n joined_Cons)
  qed
qed simp

definition member_text :: "string \<times> json \<Rightarrow> string" where
  "member_text p = quote_text (fst p) @ '':'' @ stringify (snd p)"

lemma stringify_object: "stringify (JObj ps) = ''{'' @ joined '','' (map member_text ps) @ ''}''"
  by (simp add: member_text_def [abs_def])

lemma member_text_pair:
  "member_text (k, v) = CHR 0x22 # concat (map escape_char k) @ CHR 0x22 # CHR '':'' # stringify v"
  by (simp add: member_text_def quote_text_def)

lemma members_read:
  "ps \<noteq> [] \<Longrightarrow> \<forall>p\<in>set ps. reads (snd p) \<and> readable (snd p) \<Longrightarrow>
   calls_for (joined '','' (map member_text ps) @ CHR ''}'' # rest) + 1 \<le> n \<Longrightarrow>
   json_members n (joined '','' (map member_text ps) @ CHR ''}'' # rest) = Some (ps, rest)"
proof (induction ps arbitrary: n)
  case (Cons p ps)
  obtain m where n: "n = Suc m" using Cons.prems by (cases n) auto
  obtain k v where p: "p = (k, v)" by force
  let ?tail = "if ps = [] then CHR ''}'' # rest
    else CHR '','' # joined '','' (map member_text ps) @ CHR ''}'' # rest"
  have s: "joined '','' (map member_text (p # ps)) @ CHR ''}'' # rest =
      CHR 0x22 # concat (map escape_char k) @ CHR 0x22 # CHR '':'' # stringify v @ ?tail"
    by (simp add: joined_Cons member_text_pair p)
  have v: "json_value m (stringify v @ ?tail) = Some (v, ?tail)"
    by (rule readsD) (use Cons.prems s n p in \<open>auto simp: joined_Cons member_text_pair\<close>)
  have key: "string_rest (concat (map escape_char k) @ CHR 0x22 # CHR '':'' # stringify v @ ?tail) =
      Some (k, CHR '':'' # stringify v @ ?tail)" by (rule string_rest_quoted)
  show ?case
  proof (cases "ps = []")
    case True
    then show ?thesis using v key unfolding s by (simp add: n p)
  next
    case False
    have "json_members m (joined '','' (map member_text ps) @ CHR ''}'' # rest) = Some (ps, rest)"
      by (rule Cons.IH)
        (use False Cons.prems n p in \<open>auto simp: joined_Cons member_text_pair\<close>)
    then show ?thesis using v key False unfolding s by (simp add: n p)
  qed
qed simp

lemma object_of_distinct: "distinct (map fst ps) \<Longrightarrow> object_of ps = JObj ps"
proof -
  assume d: "distinct (map fst ps)"
  have "map_of (rev ps) (fst p) = Some (snd p)" if "p \<in> set ps" for p
    using d that by (intro map_of_is_SomeI) (auto simp: rev_map [symmetric])
  then have "map (\<lambda>k. (k, the (map_of (rev ps) k))) (map fst ps) = ps"
    by (induction ps) (auto simp: map_idI o_def intro!: map_idI)
  then show ?thesis using d by (simp add: object_of_def first_occurrences_def distinct_remdups_id)
qed

lemma reads_array:
  assumes "\<forall>x\<in>set xs. reads x \<and> readable x"
  shows "reads (JArr xs)"
  unfolding reads_def
proof (intro allI impI)
  fix rest n
  assume d: "delimited rest" and n: "calls_for (stringify (JArr xs) @ rest) \<le> n"
  then obtain m where m: "n = Suc m" by (cases n) auto
  show "json_value n (stringify (JArr xs) @ rest) = Some (JArr xs, rest)"
  proof (cases xs)
    case Nil
    then show ?thesis by (simp add: m)
  next
    case (Cons x ys)
    obtain c cs where c: "stringify x = c # cs" "value_head c"
      using stringify_head assms Cons by fastforce
    have "json_elements m (joined '','' (map stringify xs) @ CHR '']'' # rest) = Some (xs, rest)"
      by (rule elements_read) (use assms n m Cons in auto)
    moreover obtain r where "joined '','' (map stringify xs) @ CHR '']'' # rest = c # r"
      using c Cons by (simp add: joined_Cons)
    ultimately show ?thesis using c(2) by (simp add: m value_head_def)
  qed
qed

lemma reads_object:
  assumes "\<forall>p\<in>set ps. reads (snd p) \<and> readable (snd p)" and "distinct (map fst ps)"
  shows "reads (JObj ps)"
  unfolding reads_def
proof (intro allI impI)
  fix rest n
  assume d: "delimited rest" and n: "calls_for (stringify (JObj ps) @ rest) \<le> n"
  then obtain m where m: "n = Suc m" by (cases n) auto
  show "json_value n (stringify (JObj ps) @ rest) = Some (JObj ps, rest)"
  proof (cases ps)
    case Nil
    then show ?thesis by (simp add: m)
  next
    case (Cons p qs)
    have "json_members m (joined '','' (map member_text ps) @ CHR ''}'' # rest) = Some (ps, rest)"
      by (rule members_read) (use assms n m Cons in \<open>auto simp: stringify_object simp del: stringify.simps\<close>)
    moreover obtain r where "joined '','' (map member_text ps) @ CHR ''}'' # rest = CHR 0x22 # r"
      using Cons by (simp add: joined_Cons member_text_def quote_text_def)
    ultimately show ?thesis
      unfolding stringify_object by (simp add: m object_of_distinct assms)
  qed
qed

lemma readable_reads: "readable v \<Longrightarrow> reads v"
proof (induction v)
  case (JNum x)
  then have x: "is_finite x" "number_text (num_text x) = Some (num_text x, [])"
    "js_number (num_text x) = x" by (simp_all add: readable_number_def)
  obtain c cs where c: "num_text x = c # cs" "number_head c" using number_text_head [OF x(2)] by blast
  show ?case
    unfolding reads_def
  proof (intro allI impI)
    fix rest n
    assume d: "delimited rest" and n: "calls_for (stringify (JNum x) @ rest) \<le> n"
    then obtain m where m: "n = Suc m" by (cases n) auto
    have "number_text (c # cs @ rest) = Some (num_text x, rest)"
      using number_text_more [OF d x(2)] c by simp
    then show "json_value n (stringify (JNum x) @ rest) = Some (JNum x, rest)"
      using x c number_head_plain [OF c(2)] by (simp add: m value_head_def)
  qed
next
  case (JStr s)
  show ?case
    unfolding reads_def
  proof (intro allI impI)
    fix rest n
    assume "calls_for (stringify (JStr s) @ rest) \<le> n"
    then obtain m where m: "n = Suc m" by (cases n) auto
    show "json_value n (stringify (JStr s) @ rest) = Some (JStr s, rest)"
      by (simp add: m quote_text_def string_rest_quoted)
  qed
next
  case (JArr xs)
  then show ?case by (intro reads_array) (auto simp: list_all_iff)
next
  case (JObj ps)
  then show ?case by (intro reads_object) (auto simp: list_all_iff snds.simps)
next
  case JNull
  show ?case unfolding reads_def
  proof (intro allI impI)
    fix rest n assume "calls_for (stringify JNull @ rest) \<le> n"
    then show "json_value n (stringify JNull @ rest) = Some (JNull, rest)"
      by (cases n) (auto simp: keyword_def)
  qed
next
  case (JBool b)
  show ?case unfolding reads_def
  proof (intro allI impI)
    fix rest n assume "calls_for (stringify (JBool b) @ rest) \<le> n"
    then show "json_value n (stringify (JBool b) @ rest) = Some (JBool b, rest)"
      by (cases n; cases b) (auto simp: keyword_def)
  qed
qed

text \<open>\<open>JSON.parse\<close> reads back what \<open>JSON.stringify\<close> printed.\<close>

lemma json_parse_stringify: "readable v \<Longrightarrow> json_parse (stringify v) = Some v"
  using readsD [OF readable_reads, of v "[]" "calls_for (stringify v)"]
  by (simp add: json_parse_def delimited_def)

end
