(* ===== verification/JsMath.thy ===== *)
theory JsMath
  imports JsNumber
begin

text \<open>
  \<open>Math.sqrt\<close>: the binary64 number nearest to the exact root. The significand is the rounded
  integer root of the argument scaled by a power of four.
\<close>

section \<open>Integer square root\<close>

function isqrt :: "int \<Rightarrow> int" where
  "isqrt n = (if n \<le> 0 then 0
              else (let r = 2 * isqrt (n div 4) in if (r + 1) * (r + 1) \<le> n then r + 1 else r))"
  by auto
termination by (relation "measure nat") auto

declare isqrt.simps [simp del]

lemma isqrt_nonneg [simp]: "0 \<le> isqrt n"
proof (induction n rule: isqrt.induct)
  case (1 n)
  then show ?case by (cases "n \<le> 0") (simp_all add: isqrt.simps [of n] Let_def)
qed

text \<open>The specification of the integer root.\<close>

lemma isqrt_bounds: "0 \<le> n \<Longrightarrow> isqrt n * isqrt n \<le> n \<and> n < (isqrt n + 1) * (isqrt n + 1)"
proof (induction n rule: isqrt.induct)
  case (1 n)
  show ?case
  proof (cases "n = 0")
    case True
    then show ?thesis by (simp add: isqrt.simps)
  next
    case False
    with 1 have n: "0 < n" by simp
    define q where "q = isqrt (n div 4)"
    have "q * q \<le> n div 4" "n div 4 < (q + 1) * (q + 1)"
      using 1 n by (simp_all add: q_def)
    then have lo: "4 * (q * q) \<le> n" and hi: "n < 4 * ((q + 1) * (q + 1))" by auto
    have r: "isqrt n = (if (2 * q + 1) * (2 * q + 1) \<le> n then 2 * q + 1 else 2 * q)"
      using n by (simp add: isqrt.simps [of n] q_def Let_def)
    show ?thesis using lo hi by (auto simp: r algebra_simps)
  qed
qed

section \<open>The root of a number\<close>

text \<open>Half the binary exponent of the last significant bit of the root.\<close>

definition root_exp :: "rat \<Rightarrow> int" where
  "root_exp r = floorlog2 r div 2 - 52"

definition sqrt_pos :: "rat \<Rightarrow> rat" where
  "sqrt_pos r =
     (let e = root_exp r; q = r / 4 powi e; k = isqrt \<lfloor>q\<rfloor>; mid = (2 * of_int k + 1) / 2
      in of_int (if mid * mid < q \<or> (mid * mid = q \<and> odd k) then k + 1 else k) * 2 powi e)"

fun jsqrt :: "jsnum \<Rightarrow> jsnum" where
  "jsqrt (Fin r) = (if r < 0 then NaN else if r = 0 then Fin 0 else Fin (sqrt_pos r))"
| "jsqrt PInf = PInf"
| "jsqrt _ = NaN"

lemma sqrt_pos_nonneg: "0 < r \<Longrightarrow> 0 \<le> sqrt_pos r"
proof -
  have "0 \<le> (of_int (if c then isqrt k + 1 else isqrt k) :: rat)" for c k
    using isqrt_nonneg [of k] by (auto simp del: isqrt_nonneg)
  then show ?thesis by (simp add: sqrt_pos_def Let_def)
qed

text \<open>
  The result is within one unit in the last place of the exact root: its square brackets the
  argument when one unit is subtracted or added.
\<close>

lemma sqrt_pos_error:
  assumes "0 < r"
  shows "(sqrt_pos r - 2 powi root_exp r) ^ 2 \<le> r \<or> sqrt_pos r = 0"
    "r < (sqrt_pos r + 2 powi root_exp r) ^ 2"
proof -
  define u where "u = (2::rat) powi root_exp r"
  define q where "q = r / 4 powi root_exp r"
  define k where "k = isqrt \<lfloor>q\<rfloor>"
  define c where "c \<longleftrightarrow> ((2 * of_int k + 1) / 2) * ((2 * of_int k + 1) / 2) < q \<or>
    ((2 * of_int k + 1) / 2) * ((2 * of_int k + 1) / 2) = q \<and> odd k"
  have u: "0 < u" by (simp add: u_def)
  have uu: "u * u = 4 powi root_exp r"
    by (simp add: u_def power_int_mult_distrib [symmetric])
  have q0: "0 < q" using assms by (simp add: q_def)
  have r: "r = q * (u * u)" unfolding uu by (simp add: q_def)
  have s: "sqrt_pos r = of_int (if c then k + 1 else k) * u"
    by (simp add: sqrt_pos_def Let_def q_def k_def c_def u_def)
  have f0: "0 \<le> \<lfloor>q\<rfloor>" using q0 by simp
  note b = isqrt_bounds [OF f0, folded k_def]
  have k0: "0 \<le> k" by (simp add: k_def)
  have "of_int (k * k) \<le> q" using b by (meson floor_correct of_int_le_iff order_trans)
  then have lo: "of_int k * of_int k \<le> q" by simp
  have "\<lfloor>q\<rfloor> + 1 \<le> (k + 1) * (k + 1)" using b by simp
  then have "of_int (\<lfloor>q\<rfloor> + 1) \<le> (of_int ((k + 1) * (k + 1)) :: rat)" by (simp only: of_int_le_iff)
  then have hi: "q < (of_int k + 1) * (of_int k + 1)"
    using floor_correct [of q] by (simp add: algebra_simps)
  have mono: "q * (u * u) \<le> x * (u * u) \<longleftrightarrow> q \<le> x" "x * (u * u) \<le> q * (u * u) \<longleftrightarrow> x \<le> q"
    "q * (u * u) < x * (u * u) \<longleftrightarrow> q < x" for x
    using u by auto
  show "(sqrt_pos r - 2 powi root_exp r) ^ 2 \<le> r \<or> sqrt_pos r = 0"
  proof (cases "c \<or> 0 < k")
    case True
    have m: "(of_int (if c then k + 1 else k) - 1 :: rat) * (of_int (if c then k + 1 else k) - 1)
        \<le> of_int k * of_int k"
    proof (cases c)
      case False
      with True have "0 \<le> (of_int k - 1 :: rat)" by simp
      then have "(of_int k - 1 :: rat) * (of_int k - 1) \<le> of_int k * of_int k"
        by (intro mult_mono) simp_all
      with False show ?thesis by simp
    qed simp
    have "(sqrt_pos r - u) ^ 2 =
        ((of_int (if c then k + 1 else k) - 1) * (of_int (if c then k + 1 else k) - 1)) * (u * u)"
      by (simp only: s power2_eq_square) (simp add: algebra_simps)
    also have "\<dots> \<le> r" unfolding r mono using m lo by (rule order_trans)
    finally show ?thesis by (simp add: u_def)
  next
    case False
    with k0 s show ?thesis by auto
  qed
  have m: "(of_int k + 1 :: rat) * (of_int k + 1) \<le>
      (of_int (if c then k + 1 else k) + 1) * (of_int (if c then k + 1 else k) + 1)"
    using k0 by (intro mult_mono) auto
  have "r < ((of_int (if c then k + 1 else k) + 1) * (of_int (if c then k + 1 else k) + 1)) * (u * u)"
    unfolding r mono using hi m by (rule less_le_trans)
  also have "\<dots> = (sqrt_pos r + u) ^ 2"
    by (simp only: s power2_eq_square) (simp add: algebra_simps)
  finally show "r < (sqrt_pos r + 2 powi root_exp r) ^ 2" by (simp add: u_def)
qed

end
