(* ===== verification/StrategyStore.thy ===== *)
theory StrategyStore
  imports TradeIntentFacts JsonText JsMath
begin

text \<open>
  The two services that write arbitrary keys of the configuration table: \<open>panel/panel.service.ts\<close>,
  as far as the configuration goes, and \<open>strategy/strategy.service.ts\<close>, the table of strategies, each
  a named bundle of settings that can be applied. Statistics are computed from a list of equities.
\<close>

section \<open>Configuration from the panel\<close>

definition getConfig_value :: "string \<Rightarrow> json" where
  "getConfig_value v = (case json_parse v of Some x \<Rightarrow> x | None \<Rightarrow> JStr v)"

definition getConfig :: "(string \<Rightarrow> json option) app" where
  "getConfig = db_read (\<lambda>w k. map_option getConfig_value (w_config w k))"

primrec save_entries :: "(string \<times> json) list \<Rightarrow> unit app" where
  "save_entries [] = ret ()"
| "save_entries (kv # kvs) = await (kv_set (fst kv) (stringify (snd kv))) (\<lambda>_. save_entries kvs)"

definition saveConfig :: "(string \<times> json) list \<Rightarrow> (string \<Rightarrow> json option) app" where
  "saveConfig cfg = await (save_entries cfg) (\<lambda>_. getConfig)"

definition deleteConfigKey :: "string \<Rightarrow> unit app" where
  "deleteConfigKey k = db_write (\<lambda>w. Inr ((), w\<lparr>w_config := (w_config w)(k := None)\<rparr>))"

section \<open>Strategies\<close>

definition STRATEGY_CONFIG_KEYS :: "string list" where
  "STRATEGY_CONFIG_KEYS =
     [''cycle.universe'', ''cycle.data_provider'', ''cycle.timeframe'', ''cycle.bars'', ''cycle.capital'',
      ''execution.autonomous'', ''execution.real'', ''execution.broker_plugin_id'',
      ''execution.max_position_pct'', ''execution.max_open_positions'',
      ''execution.max_drawdown_halt_pct'', ''execution.max_order_notional'', ''llm.backend'',
      ''llm.model'', ''react.max_turns'', ''debate.enabled'', ''debate.fail_mode'',
      ''debate.max_roles'', ''debate.min_notional_pct'']"

text \<open>The settings in force; those that are not set are left out.\<close>

definition captureCurrentConfig :: "json app" where
  "captureCurrentConfig =
     await (kv_get_all STRATEGY_CONFIG_KEYS) (\<lambda>m.
     ret (JObj (List.map_filter (\<lambda>k. map_option (\<lambda>v. (k, JStr v)) (m k)) STRATEGY_CONFIG_KEYS)))"

record strategy_dto =
  sd_row :: strategy
  sd_config :: json
  sd_live :: bool

definition toDto :: "strategy \<Rightarrow> strategy_dto" where
  "toDto r = \<lparr>sd_row = r,
     sd_config = (case json_parse (st_config r) of Some c \<Rightarrow> c | None \<Rightarrow> JObj []),
     sd_live = (st_mode r = ''live'')\<rparr>"

definition strategy_list :: "strategy_dto list app" where
  "strategy_list = db_read (\<lambda>w. map toDto (sort_key (\<lambda>r. - st_created_at r) (w_strategies w)))"

definition has_strategy :: "string \<Rightarrow> strategy \<Rightarrow> bool" where
  "has_strategy i r \<longleftrightarrow> st_id r = i"

definition strategy_missing :: exn where
  "strategy_missing = Exn ''NotFoundException''"

definition strategy_conflict :: exn where
  "strategy_conflict = Exn ''ConflictException''"

definition strategy_get :: "string \<Rightarrow> strategy_dto app" where
  "strategy_get i =
     await (db_read (\<lambda>w. find_row (has_strategy i) (w_strategies w))) (\<lambda>r.
     case r of None \<Rightarrow> throw strategy_missing | Some x \<Rightarrow> ret (toDto x))"

text \<open>The table has unique ids and unique names.\<close>

definition put_strategies :: "strategy list \<Rightarrow> 'a \<Rightarrow> world \<Rightarrow> exn + 'a \<times> world" where
  "put_strategies t x w =
     (if distinct (map st_id t) \<and> distinct (map st_name t) then Inr (x, w\<lparr>w_strategies := t\<rparr>)
      else Inl UniqueViolation)"

definition strategy_rows_update :: "string \<Rightarrow> (strategy \<Rightarrow> strategy) \<Rightarrow> strategy app" where
  "strategy_rows_update i f = db_write (\<lambda>w.
     case find_row (has_strategy i) (w_strategies w) of
       None \<Rightarrow> Inl not_found
     | Some r \<Rightarrow> put_strategies (update_rows (has_strategy i) f (w_strategies w)) (f r) w)"

definition conflict_of :: "exn \<Rightarrow> 'a app" where
  "conflict_of e = throw (if e = UniqueViolation then strategy_conflict else e)"

record strategy_input =
  si_name :: string
  si_description :: "string option"
  si_config :: "json option"
  si_mode :: "string option"

definition strategy_create :: "strategy_input \<Rightarrow> strategy_dto app" where
  "strategy_create inp =
     await (case si_config inp of Some c \<Rightarrow> ret c | None \<Rightarrow> captureCurrentConfig) (\<lambda>config.
     attempt
       (await fresh_uuid (\<lambda>i.
        await now (\<lambda>t.
        let row = \<lparr>st_id = i, st_verdict = None, st_checked_at = None, st_name = si_name inp,
              st_description = si_description inp, st_config = stringify config, st_active = False,
              st_mode = (case si_mode inp of Some m \<Rightarrow> m | None \<Rightarrow> ''test''), st_created_at = t\<rparr>
        in await (db_write (\<lambda>w. put_strategies (w_strategies w @ [row]) () w)) (\<lambda>_. ret (toDto row)))))
       conflict_of)"

record strategy_patch =
  sp_name :: "string option"
  sp_description :: "string option option"
  sp_config :: "json option"
  sp_mode :: "string option"

definition patched :: "strategy_patch \<Rightarrow> strategy \<Rightarrow> strategy" where
  "patched p r =
     r\<lparr>st_name := (case sp_name p of Some x \<Rightarrow> x | None \<Rightarrow> st_name r),
       st_description := (case sp_description p of Some x \<Rightarrow> x | None \<Rightarrow> st_description r),
       st_config := (case sp_config p of Some x \<Rightarrow> stringify x | None \<Rightarrow> st_config r),
       st_mode := (case sp_mode p of Some x \<Rightarrow> x | None \<Rightarrow> st_mode r)\<rparr>"

definition strategy_update :: "string \<Rightarrow> strategy_patch \<Rightarrow> strategy_dto app" where
  "strategy_update i patch =
     await (strategy_get i) (\<lambda>_.
     attempt (await (strategy_rows_update i (patched patch)) (\<lambda>r. ret (toDto r))) conflict_of)"

definition strategy_remove :: "string \<Rightarrow> unit app" where
  "strategy_remove i =
     await (strategy_get i) (\<lambda>_.
     db_write (\<lambda>w.
       if find_row (has_strategy i) (w_strategies w) = None then Inl not_found
       else Inr ((), w\<lparr>w_strategies := filter (\<lambda>r. \<not> has_strategy i r) (w_strategies w)\<rparr>)))"

definition recordWalkForward :: "string \<Rightarrow> string \<Rightarrow> unit app" where
  "recordWalkForward i verdict =
     attempt
       (await now (\<lambda>t.
        await (strategy_rows_update i (\<lambda>r. r\<lparr>st_verdict := Some verdict, st_checked_at := Some t\<rparr>)) (\<lambda>_.
        ret ())))
       (\<lambda>_. ret ())"

definition setActive :: "string \<Rightarrow> bool \<Rightarrow> strategy_dto app" where
  "setActive i active =
     await (strategy_get i) (\<lambda>_.
     await (strategy_rows_update i (\<lambda>r. r\<lparr>st_active := active\<rparr>)) (\<lambda>r. ret (toDto r)))"

text \<open>
  \<open>Object.entries\<close> of the parsed column: the members of an object, the characters of a string, the elements of an array.
\<close>

definition indexed :: "json list \<Rightarrow> (string \<times> json) list" where
  "indexed xs = zip (map (\<lambda>n. num_text (of_count (int n))) [0..<length xs]) xs"

fun config_entries :: "json \<Rightarrow> exn + (string \<times> json) list" where
  "config_entries (JObj ps) = Inr ps"
| "config_entries (JArr xs) = Inr (indexed xs)"
| "config_entries (JStr s) = Inr (indexed (map (\<lambda>c. JStr [c]) s))"
| "config_entries JNull = Inl (Exn ''TypeError: Cannot convert null to object'')"
| "config_entries _ = Inr []"

text \<open>The column of the table holds text: Prisma refuses another value.\<close>

primrec set_entries :: "(string \<times> json) list \<Rightarrow> unit app" where
  "set_entries [] = ret ()"
| "set_entries (kv # kvs) =
     (case as_string (Some (snd kv)) of
        Some v \<Rightarrow> await (kv_set (fst kv) v) (\<lambda>_. set_entries kvs)
      | None \<Rightarrow> throw (Exn ''PrismaClientValidationError''))"

definition strategy_apply :: "string \<Rightarrow> string list app" where
  "strategy_apply i =
     await (strategy_get i) (\<lambda>s.
     await (lift_result (config_entries (sd_config s))) (\<lambda>entries.
     await (set_entries entries) (\<lambda>_.
     await (kv_set ''strategy.applied'' i) (\<lambda>_.
     ret (map fst entries)))))"

section \<open>Statistics\<close>

definition round2 :: "jsnum \<Rightarrow> jsnum" where
  "round2 x = jdiv (jround (jmul x (Fin 100))) (Fin 100)"

definition equity_returns :: "jsnum list \<Rightarrow> jsnum list" where
  "equity_returns equity =
     map (\<lambda>(a, b). jsub (jdiv b a) j1) (filter (\<lambda>(a, b). jgt a j0) (zip equity (tl equity)))"

definition annualizedSharpe :: "jsnum list \<Rightarrow> jsnum option" where
  "annualizedSharpe equity =
     (let rets = equity_returns equity; n = length rets;
          mean = jdiv (foldl jadd j0 rets) (of_count (int n));
          variance = jdiv (foldl (\<lambda>a r. jadd a (jmul (jsub r mean) (jsub r mean))) j0 rets) (of_count (int n - 1));
          std = jsqrt variance
      in if n < 2 then None
         else if jgt std j0 then Some (round2 (jmul (jdiv mean std) (jsqrt (Fin 252)))) else None)"

text \<open>The peak so far and the deepest fall from a peak, in percent.\<close>

definition drawdown_step :: "jsnum \<times> jsnum \<Rightarrow> jsnum \<Rightarrow> jsnum \<times> jsnum" where
  "drawdown_step s e =
     (let peak = (if jgt e (fst s) then e else fst s);
          dd = jmul (jdiv (jsub peak e) peak) (Fin 100)
      in (peak, if jgt peak j0 \<and> jgt dd (snd s) then dd else snd s))"

definition maxDrawdownPct :: "jsnum list \<Rightarrow> jsnum" where
  "maxDrawdownPct equity =
     (case equity of [] \<Rightarrow> j0 | e # _ \<Rightarrow> round2 (snd (foldl drawdown_step (e, j0) equity)))"

record strategy_stats =
  ss_n_points :: nat
  ss_nav :: "jsnum option"
  ss_return_pct :: "jsnum option"
  ss_sharpe :: "jsnum option"
  ss_max_drawdown_pct :: "jsnum option"

definition computeStats :: "jsnum list \<Rightarrow> strategy_stats" where
  "computeStats equity =
     (case equity of
        [] \<Rightarrow> \<lparr>ss_n_points = 0, ss_nav = None, ss_return_pct = None, ss_sharpe = None,
               ss_max_drawdown_pct = None\<rparr>
      | first # _ \<Rightarrow>
          \<lparr>ss_n_points = length equity, ss_nav = Some (round2 (last equity)),
           ss_return_pct = (if jgt first j0
             then Some (round2 (jmul (jdiv (jsub (last equity) first) first) (Fin 100))) else None),
           ss_sharpe = annualizedSharpe equity, ss_max_drawdown_pct = Some (maxDrawdownPct equity)\<rparr>)"

section \<open>What the writes change\<close>

context timed_evolution begin

lemma ev_save_entries: "(\<And>k v. k \<in> fst ` set cfg \<Longrightarrow> evolves R (kv_set k v)) \<Longrightarrow> evolves R (save_entries cfg)"
  by (induction cfg) (auto intro!: ev_ret ev_await)

lemma ev_saveConfig: "(\<And>k v. k \<in> fst ` set cfg \<Longrightarrow> evolves R (kv_set k v)) \<Longrightarrow> evolves R (saveConfig cfg)"
  unfolding saveConfig_def getConfig_def by (intro ev_await ev_save_entries ev_db_read)

lemma ev_deleteConfigKey: "(\<And>w. R w (w\<lparr>w_config := (w_config w)(k := None)\<rparr>)) \<Longrightarrow> evolves R (deleteConfigKey k)"
  unfolding deleteConfigKey_def by (rule ev_db_write) auto

lemma ev_set_entries: "(\<And>k v. k \<in> fst ` set es \<Longrightarrow> evolves R (kv_set k v)) \<Longrightarrow> evolves R (set_entries es)"
  by (induction es) (auto intro!: ev_ret ev_await ev_throw split: option.splits)

lemma ev_strategy_get: "evolves R (strategy_get i)"
  unfolding strategy_get_def by (intro ev_pure)

lemma ev_strategies:
  assumes "\<And>w t. R w (w\<lparr>w_strategies := t\<rparr>)"
  shows "evolves R (strategy_create s)" "evolves R (strategy_update i p)" "evolves R (strategy_remove i)"
    "evolves R (setActive i b)" "evolves R (recordWalkForward i v)"
proof -
  have put: "evolves R (db_write (\<lambda>w. put_strategies (t w) x w))" for t and x :: 'x
    by (rule ev_db_write) (auto simp: put_strategies_def assms split: if_splits)
  have upd: "evolves R (strategy_rows_update j f)" for j f
    unfolding strategy_rows_update_def
    by (rule ev_db_write) (auto simp: put_strategies_def assms split: if_splits option.splits)
  have all: "evolves R (kv_get_all ks)" for ks by (induction ks) (auto intro!: ev_pure)
  have cap: "evolves R captureCurrentConfig" unfolding captureCurrentConfig_def by (intro ev_pure all)
  show "evolves R (strategy_create s)"
    unfolding strategy_create_def conflict_of_def Let_def by (intro ev_pure cap put)
  show "evolves R (strategy_update i p)"
    unfolding strategy_update_def conflict_of_def by (intro ev_pure ev_strategy_get upd)
  show "evolves R (strategy_remove i)"
    unfolding strategy_remove_def
    by (intro ev_await ev_strategy_get ev_db_write) (auto simp: assms split: if_splits)
  show "evolves R (setActive i b)" unfolding setActive_def by (intro ev_pure ev_strategy_get upd)
  show "evolves R (recordWalkForward i v)" unfolding recordWalkForward_def by (intro ev_pure upd)
qed

end

lemma strategy_get_result:
  "fst (strategy_get i w) = Inr s \<Longrightarrow>
   \<exists>r. find_row (has_strategy i) (w_strategies w) = Some r \<and> s = toDto r"
  by (auto simp: strategy_get_def await_run db_read_def throw_def ret_def split: option.splits sum.splits)

text \<open>The keys that applying a strategy writes.\<close>

definition applied_keys :: "string \<Rightarrow> world \<Rightarrow> string set" where
  "applied_keys i w =
     (case find_row (has_strategy i) (w_strategies w) of
        None \<Rightarrow> {}
      | Some r \<Rightarrow> (case config_entries (sd_config (toDto r)) of Inl _ \<Rightarrow> {} | Inr es \<Rightarrow> fst ` set es))"

context timed_evolution begin

lemma apply_respects:
  assumes "\<And>k v. k \<in> insert ''strategy.applied'' (applied_keys i w) \<Longrightarrow> evolves R (kv_set k v)"
  shows "R w (snd (strategy_apply i w))"
proof (cases "fst (strategy_get i w)")
  case (Inl e)
  then show ?thesis using evolvesD [OF ev_strategy_get] by (simp add: strategy_apply_def await_run)
next
  case (Inr s)
  then obtain r where r: "find_row (has_strategy i) (w_strategies w) = Some r" "s = toDto r"
    using strategy_get_result by blast
  let ?m = "await (lift_result (config_entries (sd_config s))) (\<lambda>entries.
     await (set_entries entries) (\<lambda>_. await (kv_set ''strategy.applied'' i) (\<lambda>_. ret (map fst entries))))"
  have "evolves R ?m"
  proof (cases "config_entries (sd_config s)")
    case (Inl e)
    then show ?thesis by (simp add: evolves_def await_run lift_result_def refl)
  next
    case (Inr es)
    then have keys: "applied_keys i w = fst ` set es" using r by (simp add: applied_keys_def)
    have "evolves R (await (set_entries es) (\<lambda>_. await (kv_set ''strategy.applied'' i) (\<lambda>_. ret (map fst es))))"
      by (intro ev_await ev_ret ev_set_entries assms) (auto simp: keys)
    then show ?thesis using Inr by (simp add: evolves_def await_run lift_result_def)
  qed
  then have "R (snd (strategy_get i w)) (snd (?m (snd (strategy_get i w))))" by (simp add: evolves_def)
  moreover have "R w (snd (strategy_get i w))" by (rule evolvesD [OF ev_strategy_get])
  ultimately show ?thesis using Inr trans by (simp add: strategy_apply_def await_run)
qed

end

end
