(* ===== verification/Platform.thy ===== *)
theory Platform
  imports StrategyStore
begin

text \<open>
  The services together: the operations that reach the shared state, in any order and with any
  answers of the outside, as a step relation. A restart loses the in-memory fields. The safety
  of order submission is stated over every reachable state: each order sent has its own
  committed row and none is sent twice; under a tripped kill switch only exits are sent; four
  operations clear the switch.
\<close>

section \<open>Operations and steps\<close>

datatype operation =
  RecordIntent intent_dto
| AutoProcess string
| Approve string string
| Reject string string string
| SetPolicy policy_patch
| OrderServiceInit
| ReconcileTick
| FastPoll string
| StartReconciliation
| SyncPortfolio string string
| Adopt string string "string option"
| ClearHalt
| SaveConfig "(string \<times> json) list"
| DeleteConfigKey string
| CreateStrategy strategy_input
| UpdateStrategy string strategy_patch
| RemoveStrategy string
| ActivateStrategy string bool
| RecordWalkForward string string
| ApplyStrategy string
| Restart

definition restart :: "world \<Rightarrow> world" where
  "restart w = w\<lparr>w_fail_times := [], w_absent := \<lambda>_. None, w_tick_running := False, w_last_sync := None\<rparr>"

text \<open>\<open>str\<close> is JavaScript's \<open>String\<close> on numbers, as in \<open>setPolicy\<close>.\<close>

primrec perform :: "(jsnum \<Rightarrow> string) \<Rightarrow> operation \<Rightarrow> world \<Rightarrow> world" where
  "perform str (RecordIntent dto) w = snd (recordIntent dto w)"
| "perform str (AutoProcess i) w = snd (autoProcess i w)"
| "perform str (Approve i b) w = snd (approve i b w)"
| "perform str (Reject i b r) w = snd (reject i b r w)"
| "perform str (SetPolicy p) w = snd (setPolicy str p w)"
| "perform str OrderServiceInit w = snd (onModuleInit w)"
| "perform str ReconcileTick w = snd (tick w)"
| "perform str (FastPoll i) w = snd (fastPollOrder i w)"
| "perform str StartReconciliation w = snd (startReconciliation w)"
| "perform str (SyncPortfolio b src) w = snd (syncPortfolio b src w)"
| "perform str (Adopt s b n) w = snd (adoptBrokerPosition s b n w)"
| "perform str ClearHalt w = snd (clearRealExecutionHalt w)"
| "perform str (SaveConfig cfg) w = snd (saveConfig cfg w)"
| "perform str (DeleteConfigKey k) w = snd (deleteConfigKey k w)"
| "perform str (CreateStrategy inp) w = snd (strategy_create inp w)"
| "perform str (UpdateStrategy i patch) w = snd (strategy_update i patch w)"
| "perform str (RemoveStrategy i) w = snd (strategy_remove i w)"
| "perform str (ActivateStrategy i b) w = snd (setActive i b w)"
| "perform str (RecordWalkForward i v) w = snd (recordWalkForward i v w)"
| "perform str (ApplyStrategy i) w = snd (strategy_apply i w)"
| "perform str Restart w = restart w"

text \<open>A step takes the answers of the outside from any environment \<open>e\<close>.\<close>

inductive platform_step :: "(jsnum \<Rightarrow> string) \<Rightarrow> world \<Rightarrow> operation \<Rightarrow> world \<Rightarrow> bool" for str where
  step: "platform_step str w op (perform str op (w\<lparr>w_env := e\<rparr>))"

inductive_cases platform_stepE: "platform_step str w op w'"

text \<open>A run: the operations performed, the state it starts from and the state it ends in.\<close>

inductive run :: "(jsnum \<Rightarrow> string) \<Rightarrow> world \<Rightarrow> operation list \<Rightarrow> world \<Rightarrow> bool" for str where
  start: "run str w [] w"
| more: "run str w ops v \<Longrightarrow> platform_step str v op w' \<Longrightarrow> run str w (ops @ [op]) w'"

text \<open>The interface of a property of runs: a relation every allowed step respects.\<close>

locale run_relation = evolution R for R :: "world \<Rightarrow> world \<Rightarrow> bool" +
  fixes allowed :: "operation \<Rightarrow> bool"
  assumes answers: "R w (w\<lparr>w_env := e\<rparr>)"
    and steps: "allowed op \<Longrightarrow> R w (perform str op w)"
begin

lemma run_respects: "run str w ops w' \<Longrightarrow> list_all allowed ops \<Longrightarrow> R w w'"
proof (induction rule: run.induct)
  case (start w)
  show ?case by (rule refl)
next
  case (more w ops v op w')
  obtain e where w': "w' = perform str op (v\<lparr>w_env := e\<rparr>)"
    using more.hyps(2) by (auto elim: platform_stepE)
  have "R (v\<lparr>w_env := e\<rparr>) w'" unfolding w' using more.prems by (intro steps) simp
  then have "R v w'" by (rule trans [OF answers])
  then show ?case using more.IH more.prems trans by auto
qed

end

section \<open>Setting the policy\<close>

text \<open>Every key \<open>setPolicy\<close> writes begins with \<open>execution.\<close>; the switch's do not.\<close>

context timed_evolution begin

lemma ev_put_setting: "evolves R (kv_set k (f (the v))) \<Longrightarrow> evolves R (put_setting k f v)"
  unfolding put_setting_def by (cases v) (simp_all add: ev_ret)

lemma ev_setPolicy:
  assumes "\<And>k v. k \<noteq> REAL_EXECUTION_HALTED_KEY \<Longrightarrow> evolves R (kv_set k v)"
    and "evolves R readExecutionPolicy"
  shows "evolves R (setPolicy str p)"
  unfolding setPolicy_def
  by (intro ev_await ev_put_setting assms) (simp_all add: REAL_EXECUTION_HALTED_KEY_def)

end

text \<open>The operations on settings and strategies write only those two tables.\<close>

context timed_evolution begin

lemma settings_steps:
  assumes "\<And>w c. R w (w\<lparr>w_config := c\<rparr>)" "\<And>w t. R w (w\<lparr>w_strategies := t\<rparr>)"
  shows "R w (perform str (SaveConfig cfg) w)" "R w (perform str (DeleteConfigKey k) w)"
    "R w (perform str (CreateStrategy inp) w)" "R w (perform str (UpdateStrategy i patch) w)"
    "R w (perform str (RemoveStrategy i) w)" "R w (perform str (ActivateStrategy i b) w)"
    "R w (perform str (RecordWalkForward i v) w)" "R w (perform str (ApplyStrategy i) w)"
  using evolvesD [OF ev_saveConfig [OF ev_kv_set [OF assms(1)]]] evolvesD [OF ev_deleteConfigKey [OF assms(1)]]
    evolvesD [OF ev_strategies(1) [OF assms(2)]] evolvesD [OF ev_strategies(2) [OF assms(2)]]
    evolvesD [OF ev_strategies(3) [OF assms(2)]] evolvesD [OF ev_strategies(4) [OF assms(2)]]
    evolvesD [OF ev_strategies(5) [OF assms(2)]] apply_respects [OF ev_kv_set [OF assms(1)]]
  by simp_all

end

section \<open>Every order sent has its own row\<close>

text \<open>The row an order was sent for: same client order id, broker, symbol and quantity.\<close>

definition sent_for :: "string \<times> order_request \<Rightarrow> real_order \<Rightarrow> bool" where
  "sent_for p r \<longleftrightarrow> ro_client_order_id r = oq_client_order_id (snd p) \<and>
     ro_broker_plugin_id r = fst p \<and> ro_symbol r = oq_symbol (snd p) \<and>
     ro_requested_qty r = oq_qty (snd p)"

definition accounted :: "world \<Rightarrow> bool" where
  "accounted w \<longleftrightarrow> orders_ok (w_orders w) \<and>
     distinct (map (oq_client_order_id \<circ> snd) (placements w)) \<and>
     (\<forall>p \<in> set (placements w). \<exists>r \<in> set (w_orders w). sent_for p r)"

lemma sent_for_identity: "sent_for p r \<Longrightarrow> same_identity r s \<Longrightarrow> sent_for p s"
  by (simp add: sent_for_def same_identity_def)

lemma accounted_quiet:
  assumes "accounted w" "no_new_placement w w'" "rows_rel same_identity w w'"
    "orders_ok (w_orders w) \<longrightarrow> orders_ok (w_orders w')"
  shows "accounted w'"
proof -
  have "\<exists>s \<in> set (w_orders w'). sent_for p s" if "p \<in> set (placements w)" for p
    using that assms(1) rows_relD [OF assms(3)] sent_for_identity
    unfolding accounted_def by blast
  then show ?thesis using assms(1,2,4) by (simp add: accounted_def no_new_placement_def)
qed

lemma accounted_submit:
  assumes "accounted w"
  shows "accounted (snd (submit args w))"
proof (cases rule: submit_cases [of args w])
  case quiet
  then show ?thesis using assms by (simp add: accounted_def placements_def)
next
  case (placed row w1 w0)
  let ?q = "(sa_broker args, submit_request (ro_client_order_id row) args)"
  note C = create_order_row_created [OF placed(2)]
  have w1: "placements w1 = placements w" "w_orders w1 = w_orders w @ [row]" "orders_ok (w_orders w1)"
    using C placed by (auto simp: placements_def)
  let ?v = "snd (place_and_record args row w1)"
  have p: "placements ?v = placements w @ [?q]"
    using place_and_record_places [of args row w1] w1 by simp
  have ids: "rows_rel same_identity w1 ?v" by (rule evolvesD [OF identity.ev_place_and_record])
  have ok: "orders_ok (w_orders ?v)" using evolvesD [OF index_kept.ev_place_and_record] w1 by blast
  have new: "sent_for ?q row"
    using C by (auto simp: sent_for_def submit_request_def new_order_row_def)
  have "\<exists>r \<in> set (w_orders w1). sent_for x r" if "x \<in> set (placements ?v)" for x
    using that assms p new w1 by (auto simp: accounted_def)
  then have rows: "\<forall>x \<in> set (placements ?v). \<exists>s \<in> set (w_orders ?v). sent_for x s"
    using rows_relD [OF ids] sent_for_identity by blast
  have "ro_client_order_id row \<notin> (oq_client_order_id \<circ> snd) ` set (placements w)"
  proof
    assume "ro_client_order_id row \<in> (oq_client_order_id \<circ> snd) ` set (placements w)"
    then obtain x where x: "x \<in> set (placements w)"
      "ro_client_order_id row = oq_client_order_id (snd x)" by auto
    obtain r where r: "r \<in> set (w_orders w)" "sent_for x r"
      using assms x(1) unfolding accounted_def by blast
    have "ro_client_order_id row \<notin> ro_client_order_id ` set (w_orders w)"
      using w1 by (simp add: orders_ok_def)
    moreover have "ro_client_order_id row = ro_client_order_id r" using r x(2) by (simp add: sent_for_def)
    ultimately show False using r(1) by simp
  qed
  moreover have "distinct (map (oq_client_order_id \<circ> snd) (placements w))"
    using assms by (simp add: accounted_def)
  ultimately have "distinct (map (oq_client_order_id \<circ> snd) (placements ?v))"
    unfolding p by (simp add: submit_request_def)
  then show ?thesis using ok rows placed(8) by (simp add: accounted_def)
qed

text \<open>The intent path, and every operation that neither sends nor loses a row.\<close>

interpretation accounting: timed_evolution "\<lambda>w w'. accounted w \<longrightarrow> accounted w'"
  by unfold_locales (auto simp: accounted_def)

lemma accounted_frame:
  "w_orders w' = w_orders w \<Longrightarrow> placements w' = placements w \<Longrightarrow> accounted w' = accounted w"
  by (simp add: accounted_def)

lemma placements_frame [simp]:
  "placements (w\<lparr>w_env := e\<rparr>) = placements w" "placements (w\<lparr>w_config := c\<rparr>) = placements w"
  "placements (w\<lparr>w_intents := ti\<rparr>) = placements w" "placements (w\<lparr>w_audit := au\<rparr>) = placements w"
  "placements (w\<lparr>w_portfolios := pf\<rparr>) = placements w" "placements (restart w) = placements w"
  "placements (w\<lparr>w_strategies := ss\<rparr>) = placements w"
  by (simp_all add: placements_def restart_def)

interpretation accounting: intent_processing "\<lambda>w w'. accounted w \<longrightarrow> accounted w'"
proof
  show "accounted w \<longrightarrow> accounted (note_event e w)" if "\<And>b q. e \<noteq> EvPlace b q" for e w
    using no_new_placement_event [OF that, of w] by (simp add: accounted_def no_new_placement_def)
  show "evolves (\<lambda>w w'. accounted w \<longrightarrow> accounted w') (submit args)" for args
    by (simp add: evolves_def accounted_submit)
qed (simp_all add: accounted_def)

lemma accounted_op:
  assumes "evolves no_new_placement m" "evolves (rows_rel same_identity) m"
    "evolves (\<lambda>w w'. orders_ok (w_orders w) \<longrightarrow> orders_ok (w_orders w')) m"
  shows "accounted w \<longrightarrow> accounted (snd (m w))"
  using accounted_quiet [OF _ evolvesD [OF assms(1)] evolvesD [OF assms(2)] evolvesD [OF assms(3)]]
  by blast

lemma ev_clear_quiet:
  "evolves no_new_placement clearRealExecutionHalt" "evolves (rows_rel same_identity) clearRealExecutionHalt"
  "evolves (\<lambda>w w'. orders_ok (w_orders w) \<longrightarrow> orders_ok (w_orders w')) clearRealExecutionHalt"
  unfolding clearRealExecutionHalt_def
  by (intro no_placement_rules, intro identity.row_rules, intro index_rules)

lemma accounted_tables:
  "accounted w \<longrightarrow> accounted (w\<lparr>w_config := c\<rparr>)" "accounted w \<longrightarrow> accounted (w\<lparr>w_strategies := t\<rparr>)"
  by (simp_all add: accounted_def)

lemma accounted_step: "accounted w \<longrightarrow> accounted (perform str op w)"
proof (cases op)
  case (SetPolicy p)
  have "evolves (\<lambda>w w'. accounted w \<longrightarrow> accounted w') (setPolicy str p)"
    by (intro accounting.ev_setPolicy accounting.ev_kv_set accounting.ev_readExecutionPolicy)
      (simp add: accounted_def)
  from evolvesD [OF this] show ?thesis by (simp add: SetPolicy)
next
  case Restart
  then show ?thesis by (simp add: accounted_def) (simp add: restart_def)
next
  case OrderServiceInit
  then show ?thesis
    using accounted_op [OF no_placement.ev_onModuleInit identity.ev_onModuleInit index_kept.ev_onModuleInit]
    by simp
next
  case ReconcileTick
  then show ?thesis
    using accounted_op [OF no_placement.ev_tick identity.ev_tick index_kept.ev_tick] by simp
next
  case (FastPoll i)
  then show ?thesis
    using accounted_op [OF no_placement.ev_fastPollOrder identity.ev_fastPollOrder index_kept.ev_fastPollOrder]
    by simp
next
  case StartReconciliation
  then show ?thesis
    using accounted_op [OF no_placement.ev_startReconciliation identity.ev_startReconciliation
        index_kept.ev_startReconciliation] by simp
next
  case (SyncPortfolio b src)
  then show ?thesis
    using accounted_op [OF no_placement.ev_syncPortfolio identity.ev_syncPortfolio index_kept.ev_syncPortfolio]
    by simp
next
  case (Adopt s b n)
  then show ?thesis
    using accounted_op [OF no_placement.ev_adoptBrokerPosition identity.ev_adoptBrokerPosition
        index_kept.ev_adoptBrokerPosition] by simp
next
  case ClearHalt
  then show ?thesis using accounted_op [OF ev_clear_quiet] by simp
qed (use evolvesD [OF accounting.handling.ev_recordIntent] evolvesD [OF accounting.handling.ev_autoProcess]
      evolvesD [OF accounting.handling.ev_approve] evolvesD [OF accounting.ev_reject]
      accounting.settings_steps [OF accounted_tables] in simp_all)

interpretation accounted_runs: run_relation "\<lambda>w w'. accounted w \<longrightarrow> accounted w'" "\<lambda>_. True"
  by unfold_locales (simp_all add: accounted_step, simp add: accounted_def)

text \<open>Rows are never deleted and never become another order's.\<close>

lemma identity_setPolicy: "evolves (rows_rel same_identity) (setPolicy str p)"
  by (intro identity.rows.ev_setPolicy identity.rows.ev_kv_set identity.ev_readExecutionPolicy)
    (simp add: identity.rows_same)

lemma identity_tables:
  "rows_rel same_identity w (w\<lparr>w_config := c\<rparr>)" "rows_rel same_identity w (w\<lparr>w_strategies := t\<rparr>)"
  by (rule identity.rows_same, simp)+

lemma identity_step: "rows_rel same_identity w (perform str op w)"
proof (cases op)
  case Restart
  then show ?thesis by (simp add: identity.rows_same restart_def)
qed (use evolvesD [OF identity_setPolicy] evolvesD [OF ev_clear_quiet(2)]
      evolvesD [OF identity.handling.ev_recordIntent] evolvesD [OF identity.handling.ev_autoProcess]
      evolvesD [OF identity.handling.ev_approve] evolvesD [OF identity.ev_reject]
      evolvesD [OF identity.ev_onModuleInit] evolvesD [OF identity.ev_tick]
      evolvesD [OF identity.ev_fastPollOrder] evolvesD [OF identity.ev_startReconciliation]
      evolvesD [OF identity.ev_syncPortfolio] evolvesD [OF identity.ev_adoptBrokerPosition]
      identity.rows.settings_steps [OF identity_tables] in simp_all)

interpretation identity_runs: run_relation "rows_rel same_identity" "\<lambda>_. True"
  by unfold_locales (simp_all add: identity_step identity.rows_same)

text \<open>C3: Every order sent has its own row, and none is sent twice. In every state a run reaches
  from an empty broker trace, through any operations in any order, with restarts and with any
  answers of the broker and the database, the client order ids of the orders sent are distinct,
  and each of them belongs to a committed order row of the same broker, symbol and quantity;
  the unique indexes of the order table hold, and the rows the run started with are all still
  there as the same orders (id, intent, broker, client order id, symbol, side, quantity).\<close>

theorem every_order_has_its_row:
  assumes "run str w ops w'" "placements w = []" "orders_ok (w_orders w)"
  shows "orders_ok (w_orders w') \<and> distinct (map (oq_client_order_id \<circ> snd) (placements w')) \<and>
    (\<forall>p \<in> set (placements w'). \<exists>r \<in> set (w_orders w'). sent_for p r) \<and>
    rows_rel same_identity w w'"
proof -
  have "accounted w" using assms(2,3) by (simp add: accounted_def)
  then have "accounted w'" using accounted_runs.run_respects [OF assms(1)] by (simp add: list_all_iff)
  moreover have "rows_rel same_identity w w'"
    using identity_runs.run_respects [OF assms(1)] by (simp add: list_all_iff)
  ultimately show ?thesis by (simp add: accounted_def)
qed

section \<open>The kill switch along runs\<close>

text \<open>The operations that write the key of the switch otherwise than to trip it.\<close>

definition may_clear :: "world \<Rightarrow> operation \<Rightarrow> bool" where
  "may_clear w op \<longleftrightarrow>
     (case op of
        ClearHalt \<Rightarrow> True
      | SaveConfig cfg \<Rightarrow> REAL_EXECUTION_HALTED_KEY \<in> fst ` set cfg
      | DeleteConfigKey k \<Rightarrow> k = REAL_EXECUTION_HALTED_KEY
      | ApplyStrategy i \<Rightarrow> REAL_EXECUTION_HALTED_KEY \<in> applied_keys i w
      | _ \<Rightarrow> False)"

lemma halted_strategies [simp]: "halted (w\<lparr>w_strategies := t\<rparr>) = halted w"
  by (simp add: halted_def)

lemma strategies_halted: "stays_halted w (w\<lparr>w_strategies := t\<rparr>)"
  by (simp add: stays_halted_def)

lemma halting_writes:
  "REAL_EXECUTION_HALTED_KEY \<notin> fst ` set cfg \<Longrightarrow> evolves stays_halted (saveConfig cfg)"
  "k \<noteq> REAL_EXECUTION_HALTED_KEY \<Longrightarrow> evolves stays_halted (deleteConfigKey k)"
  by (rule halting.ev_saveConfig, rule halting_set, blast)
    (rule halting.ev_deleteConfigKey, auto simp: stays_halted_def halted_def switch_on_def)

lemma halting_apply:
  "REAL_EXECUTION_HALTED_KEY \<notin> applied_keys i w \<Longrightarrow> stays_halted w (snd (strategy_apply i w))"
  by (rule halting.apply_respects, rule halting_set) (auto simp: REAL_EXECUTION_HALTED_KEY_def)

lemma halting_step: "\<not> may_clear w op \<Longrightarrow> stays_halted w (perform str op w)"
proof (cases op)
  case (SetPolicy p)
  have "evolves stays_halted (setPolicy str p)"
    by (intro halting.ev_setPolicy halting_set halting.ev_readExecutionPolicy) simp
  from evolvesD [OF this] show ?thesis by (simp add: SetPolicy)
next
  case Restart
  then show ?thesis by (simp add: restart_def stays_halted_def halted_def)
next
  case (SaveConfig cfg)
  assume "\<not> may_clear w op"
  then show ?thesis using evolvesD [OF halting_writes(1)] by (simp add: SaveConfig may_clear_def)
next
  case (DeleteConfigKey k)
  assume "\<not> may_clear w op"
  then show ?thesis using evolvesD [OF halting_writes(2)] by (simp add: DeleteConfigKey may_clear_def)
qed (use evolvesD [OF halting.handling.ev_recordIntent] evolvesD [OF halting.handling.ev_autoProcess]
      evolvesD [OF halting.handling.ev_approve] evolvesD [OF halting.ev_reject]
      evolvesD [OF halting.ev_onModuleInit] evolvesD [OF halting.ev_tick]
      evolvesD [OF halting.ev_fastPollOrder] evolvesD [OF halting.ev_startReconciliation]
      evolvesD [OF halting.ev_syncPortfolio] evolvesD [OF halting.ev_adoptBrokerPosition]
      evolvesD [OF halting.ev_strategies(1) [OF strategies_halted]]
      evolvesD [OF halting.ev_strategies(2) [OF strategies_halted]]
      evolvesD [OF halting.ev_strategies(3) [OF strategies_halted]]
      evolvesD [OF halting.ev_strategies(4) [OF strategies_halted]]
      evolvesD [OF halting.ev_strategies(5) [OF strategies_halted]] halting_apply
      in \<open>simp_all add: may_clear_def\<close>)

lemma cleared_somewhere:
  "run str w ops w' \<Longrightarrow> halted w \<Longrightarrow> \<not> halted w' \<Longrightarrow>
   \<exists>before op after v. ops = before @ op # after \<and> run str w before v \<and> halted v \<and> may_clear v op"
proof (induction rule: run.induct)
  case (more w ops v op w')
  show ?case
  proof (cases "halted v")
    case True
    obtain e where w': "w' = perform str op (v\<lparr>w_env := e\<rparr>)"
      using more.hyps(2) by (auto elim: platform_stepE)
    have "halted (v\<lparr>w_env := e\<rparr>)" using True by (simp add: halted_def)
    then have "may_clear (v\<lparr>w_env := e\<rparr>) op"
      using halting_step [of "v\<lparr>w_env := e\<rparr>" op str] more.prems w' by (auto simp: stays_halted_def)
    then have "may_clear v op"
      by (simp add: may_clear_def applied_keys_def split: operation.splits)
    then show ?thesis using more.hyps(1) True by blast
  next
    case False
    then show ?thesis using more.IH more.prems by (metis append.assoc append_Cons)
  qed
qed simp

text \<open>What each of them does to the switch when it writes the literal false, or deletes the key.\<close>

lemma cleared_by:
  assumes "no_faults w"
  shows "\<not> halted (perform str ClearHalt w)"
    "\<not> halted (perform str (DeleteConfigKey REAL_EXECUTION_HALTED_KEY) w)"
    "\<not> halted (perform str (SaveConfig [(REAL_EXECUTION_HALTED_KEY, JBool False)]) w)"
  using assms
  by (simp_all add: clearRealExecutionHalt_def kv_set_def kv_delete_def deleteConfigKey_def saveConfig_def
      getConfig_def await_run attempt_run ret_def db_write_ok halted_def switch_on_def)

lemma cleared_by_strategy:
  assumes "no_faults w" "find_row (has_strategy i) (w_strategies w) = Some r"
    and "config_entries (sd_config (toDto r)) = Inr [(REAL_EXECUTION_HALTED_KEY, JStr ''false'')]"
  shows "\<not> halted (perform str (ApplyStrategy i) w)"
  using assms
  by (simp add: strategy_apply_def strategy_get_def await_run lift_result_def kv_set_def ret_def db_write_ok
      halted_def switch_on_def) (simp add: REAL_EXECUTION_HALTED_KEY_def)

text \<open>C1: What clears the kill switch. A run that starts with the switch on and ends with it off contains a
  step, taken while it was on, that is one of four: \<open>clearRealExecutionHalt\<close>, a save of the panel's
  configuration that names the key of the switch, a deletion of that key from the panel, or the
  application of a strategy whose stored settings name it. Nothing recorded, approved, configured as
  policy, reconciled, adopted, edited in the strategies or restarted clears it. Each of
  the four does clear it when the database answers (a save or a strategy with the value false): the
  last three go round the endpoint reserved to the operator.\<close>

theorem what_clears_the_kill_switch:
  assumes "halted w"
  shows "(run str w ops w' \<and> \<not> halted w' \<longrightarrow>
      (\<exists>before op after v. ops = before @ op # after \<and> run str w before v \<and> halted v \<and> may_clear v op)) \<and>
    (no_faults w \<longrightarrow> \<not> halted (perform str ClearHalt w) \<and>
      \<not> halted (perform str (DeleteConfigKey REAL_EXECUTION_HALTED_KEY) w) \<and>
      \<not> halted (perform str (SaveConfig [(REAL_EXECUTION_HALTED_KEY, JBool False)]) w) \<and>
      (\<forall>i r. find_row (has_strategy i) (w_strategies w) = Some r \<longrightarrow>
         config_entries (sd_config (toDto r)) = Inr [(REAL_EXECUTION_HALTED_KEY, JStr ''false'')] \<longrightarrow>
         \<not> halted (perform str (ApplyStrategy i) w)))"
  using assms cleared_somewhere [of str w ops w'] cleared_by [of w str] cleared_by_strategy [of w _ _ str]
  by blast

section \<open>Who sends orders, and what a halted platform still sends\<close>

text \<open>An exit as the broker receives it: a market sell of the size of a position it reports.\<close>

definition exit_order :: "env \<Rightarrow> string \<times> order_request \<Rightarrow> bool" where
  "exit_order e p \<longleftrightarrow> oq_side (snd p) = ''sell'' \<and> oq_type (snd p) = ''market'' \<and>
     (\<exists>n pf pos. env_portfolio e n (fst p) = Inr pf \<and> pos \<in> set (po_positions pf) \<and>
        bp_symbol pos = oq_symbol (snd p) \<and> oq_qty (snd p) = jabs (bp_qty pos))"

definition halted_sends :: "world \<Rightarrow> world \<Rightarrow> bool" where
  "halted_sends w w' \<longleftrightarrow> w_env w' = w_env w \<and> (halted w \<longrightarrow> halted w' \<and>
     (\<exists>ps. placements w' = placements w @ ps \<and> list_all (exit_order (w_env w)) ps))"

lemma halted_sends_quiet:
  "w_env w' = w_env w \<Longrightarrow> stays_halted w w' \<Longrightarrow> no_new_placement w w' \<Longrightarrow> halted_sends w w'"
  by (simp add: halted_sends_def stays_halted_def no_new_placement_def)

lemma process_halted:
  assumes "halted w" "placements (snd (process_intent t p b sz w)) \<noteq> placements w"
  shows "\<exists>q. placements (snd (process_intent t p b sz w)) = placements w @ [q] \<and> exit_order (w_env w) q"
proof -
  obtain rs v where v: "same_setup w v" "placements v = placements w"
    and go: "placements (snd (executeReal (ti_id t) t p rs b sz v)) \<noteq> placements v"
    and run: "snd (process_intent t p b sz w) = snd (executeReal (ti_id t) t p rs b sz v)"
    by (rule process_placed [OF assms(2)])
  have h: "halted v" using assms(1) halted_setup [OF v(1)] by simp
  note E = executeReal_sends [OF go]
  then have "\<not> opens_risk (ti_action t)" "ti_action t \<noteq> ''hold''" using h by simp_all
  then have exit: "ti_action t = ''exit''" by (simp add: opens_risk_def)
  obtain side qty px where o: "real_sizing v t p rs sz side qty px"
    "sends v (snd (process_intent t p b sz w)) (xp_broker_plugin_id p) (ti_symbol t) side qty"
    using E run by auto
  have "w_env v = w_env w" using v(1) by (simp add: same_setup_def)
  then obtain n pf pos where pos: "side = ''sell''"
    "env_portfolio (w_env w) n (xp_broker_plugin_id p) = Inr pf" "pos \<in> set (po_positions pf)"
    "bp_symbol pos = ti_symbol t" "qty = jabs (bp_qty pos)"
    using o(1) exit by (auto simp: real_sizing_def)
  obtain q where q: "placements (snd (process_intent t p b sz w)) = placements w @ [(xp_broker_plugin_id p, q)]"
    "oq_symbol q = ti_symbol t" "oq_side q = ''sell''" "oq_qty q = qty" "oq_type q = ''market''"
    using o(2) pos(1) v(2) by (auto simp: sends_def)
  have "exit_order (w_env w) (xp_broker_plugin_id p, q)"
    unfolding exit_order_def fst_conv snd_conv q(2-5) pos(5) using pos(2-4) by blast
  then show ?thesis using q(1) by blast
qed

interpretation halted_sends: timed_evolution halted_sends
proof
  show "halted_sends u w" if "halted_sends u v" "halted_sends v w" for u v w
    using that by (auto simp: halted_sends_def)
qed (simp_all add: halted_sends_def)

interpretation halted_sends: intent_handling halted_sends
proof
  show "halted_sends w (note_event e w)" if "\<And>b q. e \<noteq> EvPlace b q" for e w
    using no_new_placement_event [OF that, of w] by (intro halted_sends_quiet) simp_all
  show "evolves halted_sends (process_intent t p b sz)" for t p b sz
    unfolding evolves_def
  proof
    fix w
    have env: "w_env (snd (process_intent t p b sz w)) = w_env w"
      by (rule evolvesD [OF same_env.ev_process_intent])
    have "stays_halted w (snd (process_intent t p b sz w))"
      by (rule evolvesD [OF halting.ev_process_intent])
    then show "halted_sends w (snd (process_intent t p b sz w))"
      using env process_halted [of w t p b sz]
      by (cases "placements (snd (process_intent t p b sz w)) = placements w")
        (auto simp: halted_sends_def stays_halted_def)
  qed
qed (simp_all add: halted_sends_def)

text \<open>The operations that may send an order.\<close>

definition intent_operation :: "operation \<Rightarrow> bool" where
  "intent_operation op \<longleftrightarrow> (case op of RecordIntent _ \<Rightarrow> True | AutoProcess _ \<Rightarrow> True | Approve _ _ \<Rightarrow> True
     | _ \<Rightarrow> False)"

lemma quiet_tables:
  "no_new_placement w (w\<lparr>w_config := c\<rparr>)" "no_new_placement w (w\<lparr>w_strategies := t\<rparr>)"
  by (simp_all add: no_new_placement_def)

lemma quiet_step: "\<not> intent_operation op \<Longrightarrow> no_new_placement w (perform str op w)"
proof (cases op)
  case (SetPolicy p)
  have "evolves no_new_placement (setPolicy str p)"
    by (intro no_placement.ev_setPolicy no_placement.ev_kv_set no_placement.ev_readExecutionPolicy) simp
  from evolvesD [OF this] show ?thesis by (simp add: SetPolicy)
next
  case Restart
  then show ?thesis by (simp add: no_new_placement_def)
qed (use evolvesD [OF no_placement.ev_reject]
      evolvesD [OF no_placement.ev_onModuleInit] evolvesD [OF no_placement.ev_tick]
      evolvesD [OF no_placement.ev_fastPollOrder] evolvesD [OF no_placement.ev_startReconciliation]
      evolvesD [OF no_placement.ev_syncPortfolio] evolvesD [OF no_placement.ev_adoptBrokerPosition]
      evolvesD [OF ev_clear_quiet(1)] no_placement.settings_steps [OF quiet_tables] in \<open>simp_all add: intent_operation_def\<close>)

text \<open>C2: Who sends orders, and what a halted platform still sends. Only recording, autonomous
  processing and approval of an intent ever send anything to a broker: no reconciliation, no
  recovery, no sync, no adoption, no restart does. While the kill switch is on, what they send
  are exits, market sells of the size of a position the broker itself reports.\<close>

theorem halted_platform_only_exits:
  "(placements (perform str op w) \<noteq> placements w \<longrightarrow> intent_operation op) \<and>
   (halted w \<longrightarrow> (\<exists>ps. placements (perform str op w) = placements w @ ps \<and>
      list_all (exit_order (w_env w)) ps))"
proof (cases "intent_operation op")
  case True
  then have "halted_sends w (perform str op w)"
    using evolvesD [OF halted_sends.ev_recordIntent] evolvesD [OF halted_sends.ev_autoProcess]
      evolvesD [OF halted_sends.ev_approve]
    by (cases op) (simp_all add: intent_operation_def)
  then show ?thesis using True by (simp add: halted_sends_def)
next
  case False
  then show ?thesis using quiet_step [of op w str] by (simp add: no_new_placement_def)
qed

end
