(* ===== verification/Witnesses.thy ===== *)
theory Witnesses
  imports Samples GovernedFacts Platform
begin

text \<open>
  Each property with a hypothesis applied at a concrete state of \<open>Samples\<close> where its
  hypotheses hold.
\<close>

section \<open>The execution core\<close>

theorem executeFill_within_ceilings_witness:
  "jle (fr_quantity (executeFill ''long'' ''AAPL'' (Fin 100) sample_account (Fin 1) (Fin 1) (Fin 1) j0))
     (ceiling_qty (Fin 10000) (Fin 100) (Fin 1))"
proof -
  have h: "ceiling_qty (ac_equity sample_account) (Fin 100) (Fin 1) \<noteq> NaN"
    "budget_qty (ac_cash sample_account) (Fin 1) (Fin 100) j0 \<noteq> NaN"
    "jgt (fr_quantity (executeFill ''long'' ''AAPL'' (Fin 100) sample_account (Fin 1) (Fin 1) (Fin 1) j0)) j0"
    by code_simp+
  have e: "ac_equity sample_account = Fin 10000" by (simp add: sample_account_def)
  show ?thesis
    using conjunct1 [OF executeFill_within_ceilings [OF h(1) h(1) h(2), where s = "''AAPL''"]] h(3)
    unfolding e by blast
qed

theorem executeFill_conserves_money_witness:
  "ac_equity (fr_state (executeFill ''exit'' ''AAPL'' (Fin 120) sample_account (Fin 1) (Fin 1) (Fin 1) j0)) =
     Fin (of_int (net_worth (Fin 120) ''AAPL'' sample_account))"
proof (rule executeFill_conserves_money)
  show "fr_quantity (executeFill ''exit'' ''AAPL'' (Fin 120) sample_account (Fin 1) (Fin 1) (Fin 1) j0) =
      Fin (of_int 10)" by code_simp
  show "(10::int) \<noteq> 0" by simp
  show "whole_fill (Fin 120) ''AAPL'' sample_account 10" by code_simp
qed

section \<open>The order service\<close>

abbreviation sample_start :: world where
  "sample_start \<equiv> sample_world [sample_intent ''long''] []"

lemma sample_no_faults: "no_faults sample_start" "no_faults (sample_world ts os)"
  "no_faults ((sample_world ts os)\<lparr>w_env := refusing_env\<rparr>)"
  by (simp_all add: no_faults_def sample_world_def sample_env_def refusing_env_def)

section \<open>Reconciliation\<close>

theorem valid_fill_reaches_intent_witness:
  "mark_executed sample_status (sample_intent ''long'') \<in> set (w_intents (snd
     (applyBrokerOrder (sample_order ''submitted'') sample_status
        (sample_world [sample_intent ''long''] [sample_order ''submitted'']))))"
proof -
  let ?w = "sample_world [sample_intent ''long''] [sample_order ''submitted'']"
  have h: "orders_ok (w_orders ?w)" "sample_order ''submitted'' \<in> set (w_orders ?w)"
    "unmoved (sample_order ''submitted'') (sample_order ''submitted'')"
    "sample_intent ''long'' \<in> set (w_intents ?w)"
    "ti_id (sample_intent ''long'') = ro_trade_intent_id (sample_order ''submitted'')"
    "isValidFillEvidence sample_status"
    "''filled'' = normalizeBrokerStatus (os_status sample_status)" by code_simp+
  show ?thesis by (rule conjunct1 [OF valid_fill_reaches_intent [OF sample_no_faults(2) h]]) simp
qed

theorem terminal_order_is_final_witness:
  "snd (reconcileOrder ''o1'' (sample_world [] [sample_order ''canceled''])) =
     tock (sample_world [] [sample_order ''canceled''])"
proof (rule terminal_order_is_final)
  show "find_row (has_id ''o1'') (w_orders (sample_world [] [sample_order ''canceled''])) =
      Some (sample_order ''canceled'')"
    by (simp add: sample_world_def find_row_def has_id_def sample_order_def)
  show "ro_status (sample_order ''canceled'') \<in> set RECON_TERMINAL_STATUSES" by code_simp
qed


definition sample_open_breaker :: breaker where
  "sample_open_breaker = CLOSED_CB\<lparr>cb_state := ''open'', cb_last_failure_at := Some 900000\<rparr>"


section \<open>Trade intents\<close>

theorem real_entry_passes_every_gate_witness:
  "\<not> halted sample_start \<and>
   (\<exists>qty side. sends sample_start (snd (process_intent (sample_intent ''long'') sample_policy ''op'' SIZING_PCT
      sample_start)) ''alpaca'' ''AAPL'' side qty)"
proof -
  have h: "is_entry (ti_action (sample_intent ''long''))"
    "placements (snd (process_intent (sample_intent ''long'') sample_policy ''op'' SIZING_PCT sample_start)) \<noteq>
       placements sample_start" by code_simp+
  have "xp_broker_plugin_id sample_policy = ''alpaca''" "ti_symbol (sample_intent ''long'') = ''AAPL''"
    by code_simp+
  then show ?thesis using real_entry_passes_every_gate [OF h] by auto
qed

text \<open>The broker holds a short position of five shares; the exit sells five more.\<close>

theorem real_exit_sells_the_position_witness:
  "sends (sample_world [sample_intent ''exit''] [])
     (snd (process_intent (sample_intent ''exit'') sample_policy ''op'' SIZING_PCT
        (sample_world [sample_intent ''exit''] []))) ''alpaca'' ''AAPL'' ''sell'' (Fin 5)"
proof -
  let ?w = "sample_world [sample_intent ''exit''] []"
  have h: "ti_action (sample_intent ''exit'') = ''exit''"
    "placements (snd (process_intent (sample_intent ''exit'') sample_policy ''op'' SIZING_PCT ?w)) \<noteq>
       placements ?w" by code_simp+
  have "xp_broker_plugin_id sample_policy = ''alpaca''" "ti_symbol (sample_intent ''exit'') = ''AAPL''"
    by code_simp+
  then show ?thesis
    using real_exit_sells_the_position [OF h]
    by (auto simp: sample_world_def sample_env_def sample_portfolio_def)
qed

section \<open>The platform\<close>

abbreviation no_text :: "jsnum \<Rightarrow> string" where
  "no_text \<equiv> \<lambda>_. ''''"

lemma sample_step: "run no_text w [op] (perform no_text op w)"
  using run.more [OF run.start platform_step.step, of no_text w op "w_env w"] by simp

text \<open>Approving the entry sends one order; it has its row.\<close>

theorem every_order_has_its_row_witness:
  "length (placements (perform no_text (Approve ''i1'' ''op'') (sample_live ''long''))) = 1 \<and>
   (\<exists>r \<in> set (w_orders (perform no_text (Approve ''i1'' ''op'') (sample_live ''long''))).
      sent_for (hd (placements (perform no_text (Approve ''i1'' ''op'') (sample_live ''long'')))) r)"
proof -
  let ?w' = "perform no_text (Approve ''i1'' ''op'') (sample_live ''long'')"
  have h: "placements (sample_live ''long'') = []" "orders_ok (w_orders (sample_live ''long''))" by code_simp+
  have one: "length (placements ?w') = 1" by code_simp
  then have "hd (placements ?w') \<in> set (placements ?w')" by (cases "placements ?w'") simp_all
  then show ?thesis using every_order_has_its_row [OF sample_step h] one by blast
qed

theorem what_clears_the_kill_switch_witness:
  "\<not> halted (perform no_text (DeleteConfigKey REAL_EXECUTION_HALTED_KEY)
     ((sample_world [] [])\<lparr>w_config := [REAL_EXECUTION_HALTED_KEY \<mapsto> ''true'']\<rparr>)) \<and>
   halted (perform no_text Restart ((sample_world [] [])\<lparr>w_config := [REAL_EXECUTION_HALTED_KEY \<mapsto> ''true'']\<rparr>))"
proof -
  let ?w = "(sample_world [] [])\<lparr>w_config := [REAL_EXECUTION_HALTED_KEY \<mapsto> ''true'']\<rparr>"
  have h: "halted ?w" by (simp add: halted_def switch_on_def)
  have f: "no_faults ?w" by (simp add: no_faults_def sample_world_def sample_env_def)
  have r: "run no_text ?w [Restart] (perform no_text Restart ?w)" by (rule sample_step)
  note all = what_clears_the_kill_switch [OF h, of no_text "[Restart]" "perform no_text Restart ?w"]
  have "\<not> may_clear v Restart" for v by (simp add: may_clear_def)
  then have "\<not> (\<exists>before op after v. [Restart] = before @ op # after \<and> run no_text ?w before v \<and> halted v \<and> may_clear v op)"
    by (auto simp: Cons_eq_append_conv)
  then show ?thesis using all r f by blast
qed

text \<open>With the switch on, the exit of the short position is still sent.\<close>

theorem halted_platform_only_exits_witness:
  "\<exists>p. placements (perform no_text (Approve ''i1'' ''op'') (snd (haltRealExecution ''test'' (sample_live ''exit''))))
     = [p] \<and> exit_order sample_env p"
proof -
  let ?w = "snd (haltRealExecution ''test'' (sample_live ''exit''))"
  let ?w' = "perform no_text (Approve ''i1'' ''op'') ?w"
  have h: "halted ?w" "length (placements ?w') = 1" "placements ?w = []" by code_simp+
  have e: "w_env ?w = sample_env"
    using evolvesD [OF same_env_halt [of "''test''"], of "sample_live ''exit''"]
    by (simp add: sample_live_def sample_world_def)
  obtain ps where "placements ?w' = ps" "list_all (exit_order sample_env) ps"
    using halted_platform_only_exits [of no_text "Approve ''i1'' ''op''" ?w] h e by auto
  then show ?thesis using h(2) by (cases ps) auto
qed

end
