(* ===== verification/JsDate.thy ===== *)
theory JsDate
  imports KvUtil
begin

text \<open>
  JavaScript dates, as far as the services use them: a \<open>Date\<close> is a number of milliseconds
  since 1970-01-01T00:00:00Z, \<open>toISOString\<close> prints it, \<open>Date.parse\<close> reads the ISO format
  back. The proleptic Gregorian calendar is computed with the day formulas of the ECMAScript
  specification. A text outside the ISO format, or a date-time without an offset (read in the
  server's time zone), is left to a parameter.
\<close>

section \<open>The calendar\<close>

definition MS_PER_DAY :: int where
  "MS_PER_DAY = 86400000"

definition day_from_year :: "int \<Rightarrow> int" where
  "day_from_year y =
     365 * (y - 1970) + (y - 1969) div 4 - (y - 1901) div 100 + (y - 1601) div 400"

definition leap_year :: "int \<Rightarrow> bool" where
  "leap_year y \<longleftrightarrow> y mod 4 = 0 \<and> (y mod 100 \<noteq> 0 \<or> y mod 400 = 0)"

text \<open>The day of the year a month starts on; the thirteenth entry is the length of the year.\<close>

definition month_starts :: "bool \<Rightarrow> int list" where
  "month_starts leap =
     (if leap then [0, 31, 60, 91, 121, 152, 182, 213, 244, 274, 305, 335]
      else [0, 31, 59, 90, 120, 151, 181, 212, 243, 273, 304, 334])"

definition month_start :: "bool \<Rightarrow> int \<Rightarrow> int" where
  "month_start leap m = month_starts leap ! nat (m - 1)"

definition make_day :: "int \<Rightarrow> int \<Rightarrow> int \<Rightarrow> int" where
  "make_day y m d = day_from_year y + month_start (leap_year y) m + d - 1"

text \<open>The year of a day: an estimate from the mean year, corrected by one.\<close>

definition year_of_day :: "int \<Rightarrow> int" where
  "year_of_day d =
     (let y = 1970 + (400 * d) div 146097
      in if d < day_from_year y then y - 1
         else if day_from_year (y + 1) \<le> d then y + 1
         else y)"

definition month_of_day :: "bool \<Rightarrow> int \<Rightarrow> int" where
  "month_of_day leap doy = int (length (filter (\<lambda>s. s \<le> doy) (month_starts leap)))"

lemma day_from_year_bounds:
  "1460970 * (y - 1970) - 5060 \<le> 4000 * day_from_year y" (is ?lower)
  "4000 * day_from_year y \<le> 1460970 * (y - 1970) + 5890" (is ?upper)
proof -
  define a b c where "a = (y - 1969) div 4" and "b = (y - 1901) div 100" and "c = (y - 1601) div 400"
  have q: "4 * a \<le> y - 1969" "y - 1969 \<le> 4 * a + 3"
    "100 * b \<le> y - 1901" "y - 1901 \<le> 100 * b + 99"
    "400 * c \<le> y - 1601" "y - 1601 \<le> 400 * c + 399"
    unfolding a_def b_def c_def by linarith+
  have e: "day_from_year y = 365 * (y - 1970) + a - b + c"
    by (simp add: day_from_year_def a_def b_def c_def)
  show ?lower unfolding e using q by (simp add: algebra_simps)
  show ?upper unfolding e using q by (simp add: algebra_simps)
qed

text \<open>A year has 365 days, 366 in a leap year.\<close>

lemma div_step:
  fixes a :: int
  assumes "0 < m"
  shows "(a + 1) div m = a div m + (if (a + 1) mod m = 0 then 1 else 0)"
proof -
  define q r where "q = a div m" and "r = a mod m"
  have e: "a = q * m + r" and r: "0 \<le> r" "r < m"
    using assms by (simp_all add: q_def r_def)
  show ?thesis
  proof (cases "r + 1 = m")
    case True
    then have "a + 1 = (q + 1) * m" using e by (simp add: distrib_right)
    then show ?thesis using assms by (simp add: q_def [symmetric])
  next
    case False
    with r have "0 \<le> r + 1" "r + 1 < m" by auto
    then have "((r + 1) + q * m) div m = q" "((r + 1) + q * m) mod m = r + 1"
      by (subst div_mult_self1, simp_all)
    moreover have "a + 1 = (r + 1) + q * m" using e by simp
    ultimately have "(a + 1) div m = q" "(a + 1) mod m = r + 1" by (simp_all only:)
    then show ?thesis using r by (simp add: q_def [symmetric])
  qed
qed

lemma year_length: "day_from_year (y + 1) - day_from_year y = (if leap_year y then 366 else 365)"
proof -
  have 4: "(y + 1 - 1969) div 4 = (y - 1969) div 4 + (if y mod 4 = 0 then 1 else 0)"
  proof -
    have "(y - 1969 + 1) mod 4 = 0 \<longleftrightarrow> y mod 4 = 0" by presburger
    then show ?thesis using div_step [of 4 "y - 1969"] by (simp add: algebra_simps)
  qed
  have 100: "(y + 1 - 1901) div 100 = (y - 1901) div 100 + (if y mod 100 = 0 then 1 else 0)"
  proof -
    have "(y - 1901 + 1) mod 100 = 0 \<longleftrightarrow> y mod 100 = 0"
      using mod_mult_self2 [of y 100 "- 19"] by simp
    then show ?thesis using div_step [of 100 "y - 1901"] by (simp add: algebra_simps)
  qed
  have 400: "(y + 1 - 1601) div 400 = (y - 1601) div 400 + (if y mod 400 = 0 then 1 else 0)"
  proof -
    have "(y - 1601 + 1) mod 400 = 0 \<longleftrightarrow> y mod 400 = 0"
      using mod_mult_self2 [of y 400 "- 4"] by simp
    then show ?thesis using div_step [of 400 "y - 1601"] by (simp add: algebra_simps)
  qed
  have "(4::int) dvd 100" "(100::int) dvd 400" by simp_all
  then have dvd: "y mod 100 = 0 \<Longrightarrow> y mod 4 = 0" "y mod 400 = 0 \<Longrightarrow> y mod 100 = 0"
    unfolding mod_eq_0_iff_dvd by (blast intro: dvd_trans)+
  have count: "365 * (y + 1 - 1970) + (a + (if p then 1 else 0)) - (b + (if q then 1 else 0)) +
      (c + (if r then 1 else 0)) - (365 * (y - 1970) + a - b + c) =
      (if p \<and> (\<not> q \<or> r) then 366 else 365)"
    if "q \<Longrightarrow> p" "r \<Longrightarrow> q" for a b c :: int and p q r
    using that by (cases p; cases q; cases r) simp_all
  show ?thesis
    unfolding day_from_year_def 4 100 400 leap_year_def by (rule count) (fact dvd)+
qed

lemma year_of_day:
  "day_from_year (year_of_day d) \<le> d" "d < day_from_year (year_of_day d + 1)"
proof -
  define y where "y = 1970 + (400 * d) div 146097"
  have q: "y - 1970 = (400 * d) div 146097" by (simp add: y_def)
  have "(400 * d) div 146097 * 146097 + (400 * d) mod 146097 = 400 * d" by (rule div_mult_mod_eq)
  moreover have "0 \<le> (400 * d) mod 146097" "(400 * d) mod 146097 < 146097" by simp_all
  ultimately have y: "146097 * (y - 1970) \<le> 400 * d \<and> 400 * d < 146097 * (y - 1970) + 146097"
    unfolding q by linarith
  have lo: "day_from_year (y - 1) \<le> d" using day_from_year_bounds(2) [of "y - 1"] y by (simp add: algebra_simps)
  have hi: "d < day_from_year (y + 2)" using day_from_year_bounds(1) [of "y + 2"] y by (simp add: algebra_simps)
  show "day_from_year (year_of_day d) \<le> d" "d < day_from_year (year_of_day d + 1)"
    using lo hi unfolding year_of_day_def Let_def y_def [symmetric] by (auto simp: add.assoc)
qed

text \<open>The month and the day of the month of a day of the year.\<close>

lemma month_of_day_range:
  assumes "0 \<le> doy" "doy \<le> 365"
  shows "1 \<le> month_of_day leap doy" "month_of_day leap doy \<le> 12"
  using assms by (auto simp: month_of_day_def month_starts_def)

lemma month_day_range:
  assumes "0 \<le> doy" "doy < (if leap then 366 else 365)"
  shows "month_start leap (month_of_day leap doy) \<le> doy"
    and "doy - month_start leap (month_of_day leap doy) \<le> 30"
proof -
  have "month_start leap (month_of_day leap doy) \<le> doy \<and>
    doy - month_start leap (month_of_day leap doy) \<le> 30"
    using assms by (cases leap) (auto simp: month_of_day_def month_start_def month_starts_def)
  then show "month_start leap (month_of_day leap doy) \<le> doy"
    and "doy - month_start leap (month_of_day leap doy) \<le> 30" by auto
qed

section \<open>Printing\<close>

definition digit_char :: "int \<Rightarrow> char" where
  "digit_char k = char_of (48 + nat k)"

fun pad_digits :: "nat \<Rightarrow> int \<Rightarrow> string" where
  "pad_digits 0 k = []"
| "pad_digits (Suc n) k = pad_digits n (k div 10) @ [digit_char (k mod 10)]"

text \<open>Four digits, or a sign and six outside the years 0 to 9999.\<close>

definition year_text :: "int \<Rightarrow> string" where
  "year_text y =
     (if 0 \<le> y \<and> y \<le> 9999 then pad_digits 4 y
      else if y < 0 then ''-'' @ pad_digits 6 (- y)
      else ''+'' @ pad_digits 6 y)"

definition time_text :: "int \<Rightarrow> string" where
  "time_text t =
     pad_digits 2 (t div 3600000) @ '':'' @ pad_digits 2 (t div 60000 mod 60) @ '':'' @
     pad_digits 2 (t div 1000 mod 60) @ ''.'' @ pad_digits 3 (t mod 1000) @ ''Z''"

definition toISOString :: "int \<Rightarrow> string" where
  "toISOString t =
     (let day = t div MS_PER_DAY;
          y = year_of_day day;
          doy = day - day_from_year y;
          m = month_of_day (leap_year y) doy
      in year_text y @ ''-'' @ pad_digits 2 m @ ''-'' @
         pad_digits 2 (doy - month_start (leap_year y) m + 1) @ ''T'' @
         time_text (t mod MS_PER_DAY))"

section \<open>Parsing\<close>

text \<open>Exactly \<open>n\<close> digits, with what follows them.\<close>

definition take_digits :: "nat \<Rightarrow> string \<Rightarrow> (int \<times> string) option" where
  "take_digits n s =
     (if length s < n then None
      else case digits_value 10 0 (take n s) of None \<Rightarrow> None | Some k \<Rightarrow> Some (k, drop n s))"

text \<open>The same, with the value in a range.\<close>

definition field_in :: "int \<Rightarrow> int \<Rightarrow> nat \<Rightarrow> string \<Rightarrow> (int \<times> string) option" where
  "field_in lo hi n s =
     (case take_digits n s of
        Some (k, r) \<Rightarrow> if lo \<le> k \<and> k \<le> hi then Some (k, r) else None
      | None \<Rightarrow> None)"

definition expect :: "char \<Rightarrow> string \<Rightarrow> string option" where
  "expect c s = (case s of [] \<Rightarrow> None | x # r \<Rightarrow> if x = c then Some r else None)"

definition parse_year :: "string \<Rightarrow> (int \<times> string) option" where
  "parse_year s =
     (case s of
        [] \<Rightarrow> None
      | c # r \<Rightarrow>
          if c = CHR ''+'' then take_digits 6 r
          else if c = CHR ''-'' then
            (case take_digits 6 r of
               Some (k, r') \<Rightarrow> if k = 0 then None else Some (- k, r')
             | None \<Rightarrow> None)
          else take_digits 4 s)"

text \<open>\<open>YYYY\<close>, \<open>YYYY-MM\<close> or \<open>YYYY-MM-DD\<close>: the day number and the rest.\<close>

definition parse_date :: "string \<Rightarrow> (int \<times> string) option" where
  "parse_date s =
     (case parse_year s of
        None \<Rightarrow> None
      | Some (y, r1) \<Rightarrow>
          (case expect CHR ''-'' r1 of
             None \<Rightarrow> Some (make_day y 1 1, r1)
           | Some r2 \<Rightarrow>
               (case field_in 1 12 2 r2 of
                  None \<Rightarrow> None
                | Some (m, r3) \<Rightarrow>
                    (case expect CHR ''-'' r3 of
                       None \<Rightarrow> Some (make_day y m 1, r3)
                     | Some r4 \<Rightarrow>
                         (case field_in 1 31 2 r4 of
                            None \<Rightarrow> None
                          | Some (d, r5) \<Rightarrow> Some (make_day y m d, r5))))))"

text \<open>Optional seconds, and an optional fraction of which the first three digits count.\<close>

definition parse_fraction :: "string \<Rightarrow> (int \<times> string) option" where
  "parse_fraction s =
     (case expect CHR ''.'' s of
        None \<Rightarrow> Some (0, s)
      | Some r \<Rightarrow>
          (let ds = takeWhile is_digit r
           in if ds = [] then None
              else case digits_value 10 0 (take 3 (ds @ ''00'')) of
                     None \<Rightarrow> None | Some k \<Rightarrow> Some (k, dropWhile is_digit r)))"

definition parse_seconds :: "string \<Rightarrow> (int \<times> string) option" where
  "parse_seconds s =
     (case expect CHR '':'' s of
        None \<Rightarrow> Some (0, s)
      | Some r \<Rightarrow>
          (case field_in 0 59 2 r of
             None \<Rightarrow> None
           | Some (sec, r1) \<Rightarrow>
               (case parse_fraction r1 of
                  None \<Rightarrow> None | Some (ms, r2) \<Rightarrow> Some (sec * 1000 + ms, r2))))"

definition parse_clock :: "string \<Rightarrow> (int \<times> string) option" where
  "parse_clock s =
     (case field_in 0 24 2 s of
        None \<Rightarrow> None
      | Some (h, r1) \<Rightarrow>
          (case expect CHR '':'' r1 of
             None \<Rightarrow> None
           | Some r2 \<Rightarrow>
               (case field_in 0 59 2 r2 of
                  None \<Rightarrow> None
                | Some (mi, r3) \<Rightarrow>
                    (case parse_seconds r3 of
                       None \<Rightarrow> None
                     | Some (rest, r4) \<Rightarrow>
                         if h = 24 \<and> (mi \<noteq> 0 \<or> rest \<noteq> 0) then None
                         else Some (h * 3600000 + mi * 60000 + rest, r4)))))"

text \<open>\<open>Z\<close> or an offset, and the end of the text; the offset in milliseconds east of UTC.\<close>

definition parse_zone :: "string \<Rightarrow> int option" where
  "parse_zone s =
     (case s of
        [] \<Rightarrow> None
      | c # r \<Rightarrow>
          if c = CHR ''Z'' then (if r = [] then Some 0 else None)
          else if c = CHR ''+'' \<or> c = CHR ''-'' then
            (case field_in 0 23 2 r of
               None \<Rightarrow> None
             | Some (h, r1) \<Rightarrow>
                 (case expect CHR '':'' r1 of
                    None \<Rightarrow> None
                  | Some r2 \<Rightarrow>
                      (case field_in 0 59 2 r2 of
                         Some (mi, []) \<Rightarrow>
                           Some ((if c = CHR ''+'' then 1 else - 1) * (h * 3600000 + mi * 60000))
                       | _ \<Rightarrow> None)))
          else None)"

definition iso_parse :: "string \<Rightarrow> int option" where
  "iso_parse s =
     (case parse_date s of
        None \<Rightarrow> None
      | Some (day, r) \<Rightarrow>
          if r = [] then Some (day * MS_PER_DAY)
          else (case expect CHR ''T'' r of
                  None \<Rightarrow> None
                | Some r1 \<Rightarrow>
                    (case parse_clock r1 of
                       None \<Rightarrow> None
                     | Some (tm, r2) \<Rightarrow>
                         (case parse_zone r2 of
                            None \<Rightarrow> None
                          | Some off \<Rightarrow> Some (day * MS_PER_DAY + tm - off)))))"

text \<open>
  A time value is at most \<open>8.64e15\<close> milliseconds from the epoch. \<open>other\<close> is the parser's
  behaviour on every text the ISO format does not cover.
\<close>

definition MAX_TIME :: int where
  "MAX_TIME = 8640000000000000"

definition date_parse :: "(string \<Rightarrow> int option) \<Rightarrow> string \<Rightarrow> int option" where
  "date_parse other s =
     (case iso_parse s of
        Some t \<Rightarrow> if \<bar>t\<bar> \<le> MAX_TIME then Some t else None
      | None \<Rightarrow> other s)"

section \<open>A printed date is read back\<close>

lemma digit_in_char: "0 \<le> k \<Longrightarrow> k \<le> 9 \<Longrightarrow> digit_in 10 (digit_char k) = Some k"
proof -
  have all: "\<forall>n\<in>set [0::nat, 1, 2, 3, 4, 5, 6, 7, 8, 9]. digit_in 10 (char_of (48 + n)) = Some (int n)"
    by code_simp
  assume k: "0 \<le> k" "k \<le> 9"
  then have "nat k \<in> set [0, 1, 2, 3, 4, 5, 6, 7, 8, 9]" by simp arith
  with all have "digit_in 10 (char_of (48 + nat k)) = Some (int (nat k))" by (rule bspec)
  with k show ?thesis by (simp add: digit_char_def)
qed

lemma digits_value_append:
  "digits_value b acc (xs @ ys) =
     (case digits_value b acc xs of None \<Rightarrow> None | Some n \<Rightarrow> digits_value b n ys)"
  by (induction xs arbitrary: acc) (simp_all split: option.splits)

lemma length_pad_digits [simp]: "length (pad_digits n k) = n"
  by (induction n arbitrary: k) auto

lemma digits_value_pad:
  "0 \<le> k \<Longrightarrow> k < 10 ^ n \<Longrightarrow> digits_value 10 acc (pad_digits n k) = Some (acc * 10 ^ n + k)"
proof (induction n arbitrary: k)
  case 0
  then show ?case by simp
next
  case (Suc n)
  have "digits_value 10 acc (pad_digits n (k div 10)) = Some (acc * 10 ^ n + k div 10)"
    using Suc.prems by (intro Suc.IH) simp_all
  moreover have "digit_in 10 (digit_char (k mod 10)) = Some (k mod 10)"
  proof (rule digit_in_char)
    show "0 \<le> k mod 10" "k mod 10 \<le> 9" by simp_all
  qed
  ultimately show ?case by (simp add: digits_value_append algebra_simps)
qed

lemma take_digits_pad:
  "0 \<le> k \<Longrightarrow> k < 10 ^ n \<Longrightarrow> take_digits n (pad_digits n k @ r) = Some (k, r)"
  by (simp add: take_digits_def digits_value_pad)

lemma field_in_pad:
  "0 \<le> k \<Longrightarrow> k < 10 ^ n \<Longrightarrow> lo \<le> k \<Longrightarrow> k \<le> hi \<Longrightarrow> field_in lo hi n (pad_digits n k @ r) = Some (k, r)"
  by (simp add: field_in_def take_digits_pad)

lemma expect_Cons [simp]: "expect c (x # r) = (if x = c then Some r else None)"
  by (simp add: expect_def)

lemma is_digit_pad: "0 \<le> k \<Longrightarrow> list_all is_digit (pad_digits n k)"
proof (induction n arbitrary: k)
  case (Suc n)
  have "0 \<le> k mod 10" "k mod 10 \<le> 9" by simp_all
  then have "is_digit (digit_char (k mod 10))" by (simp add: is_digit_def digit_in_char)
  with Suc show ?case by simp
qed simp

lemma takeWhile_pad:
  assumes "0 \<le> k" "\<not> is_digit c"
  shows "takeWhile is_digit (pad_digits n k @ c # r) = pad_digits n k"
    and "dropWhile is_digit (pad_digits n k @ c # r) = c # r"
proof -
  have "\<forall>x\<in>set (pad_digits n k). is_digit x"
    using is_digit_pad [OF assms(1), of n] by (simp add: list_all_iff)
  with assms(2) show "takeWhile is_digit (pad_digits n k @ c # r) = pad_digits n k"
    and "dropWhile is_digit (pad_digits n k @ c # r) = c # r"
    by (simp_all add: takeWhile_append dropWhile_append)
qed

lemma parse_fraction_pad:
  assumes "0 \<le> k" "k < 1000"
  shows "parse_fraction (CHR ''.'' # pad_digits 3 k @ ''Z'') = Some (k, ''Z'')"
proof -
  have z: "\<not> is_digit CHR ''Z''" by code_simp
  have "pad_digits 3 k \<noteq> []" by (metis length_pad_digits list.size(3) zero_neq_numeral)
  moreover have "digits_value 10 0 (take 3 (pad_digits 3 k @ ''00'')) = Some k"
    using assms by (simp add: digits_value_pad)
  ultimately show ?thesis
    using takeWhile_pad [OF assms(1) z, of 3 "[]"] by (simp add: parse_fraction_def Let_def)
qed

lemma time_of_day_parts:
  fixes t :: int
  shows "t div 3600000 * 3600000 + t div 60000 mod 60 * 60000 + (t div 1000 mod 60 * 1000 + t mod 1000) = t"
proof -
  have a: "t = t div 1000 * 1000 + t mod 1000" by simp
  have b: "t div 1000 = t div 60000 * 60 + t div 1000 mod 60"
    using div_mult_mod_eq [of "t div 1000" 60] by (simp add: zdiv_zmult2_eq [symmetric])
  have c: "t div 60000 = t div 3600000 * 60 + t div 60000 mod 60"
    using div_mult_mod_eq [of "t div 60000" 60] by (simp add: zdiv_zmult2_eq [symmetric])
  from a b c show ?thesis by linarith
qed

lemma time_text_parsed:
  assumes "0 \<le> t" "t < MS_PER_DAY"
  shows "parse_clock (time_text t) = Some (t, ''Z'')"
proof -
  define h mi sec ms where "h = t div 3600000" and "mi = t div 60000 mod 60"
    and "sec = t div 1000 mod 60" and "ms = t mod 1000"
  have r: "0 \<le> h" "h < 24" "0 \<le> mi" "mi < 60" "0 \<le> sec" "sec < 60" "0 \<le> ms" "ms < 1000"
    using assms by (auto simp: h_def mi_def sec_def ms_def MS_PER_DAY_def)
  have "parse_fraction (CHR ''.'' # pad_digits 3 ms @ ''Z'') = Some (ms, ''Z'')"
    using r by (intro parse_fraction_pad)
  then have "parse_seconds (CHR '':'' # pad_digits 2 sec @ CHR ''.'' # pad_digits 3 ms @ ''Z'') =
      Some (sec * 1000 + ms, ''Z'')"
    using r field_in_pad [of sec 2 0 59 "CHR ''.'' # pad_digits 3 ms @ ''Z''"]
    by (simp add: parse_seconds_def)
  moreover have "time_text t = pad_digits 2 h @ CHR '':'' # pad_digits 2 mi @ CHR '':'' #
      pad_digits 2 sec @ CHR ''.'' # pad_digits 3 ms @ ''Z''"
    by (simp add: time_text_def h_def mi_def sec_def ms_def)
  moreover have "h * 3600000 + mi * 60000 + (sec * 1000 + ms) = t"
    unfolding h_def mi_def sec_def ms_def by (rule time_of_day_parts)
  ultimately show ?thesis
    using r by (simp add: parse_clock_def field_in_pad)
qed

lemma day_parts:
  fixes d :: int
  defines "y \<equiv> year_of_day d"
  defines "doy \<equiv> d - day_from_year y"
  shows "0 \<le> doy" "doy < (if leap_year y then 366 else 365)"
  using year_of_day [of d] year_length [of y] by (auto simp: y_def doy_def split: if_splits)

lemma year_text_parsed:
  assumes "- 999999 \<le> y" "y \<le> 999999"
  shows "parse_year (year_text y @ r) = Some (y, r)"
proof -
  consider "0 \<le> y" "y \<le> 9999" | "y < 0" | "9999 < y" by linarith
  then show ?thesis
  proof cases
    case 1
    obtain c cs where c: "pad_digits 4 y = c # cs"
      by (metis length_pad_digits list.size(3) neq_Nil_conv zero_neq_numeral)
    have "is_digit c" using is_digit_pad [OF 1(1), of 4] by (simp add: c)
    moreover have "\<not> is_digit CHR ''+''" "\<not> is_digit CHR ''-''" by code_simp+
    ultimately have "c \<noteq> CHR ''+''" "c \<noteq> CHR ''-''" by auto
    moreover have "take_digits 4 (c # cs @ r) = Some (y, r)"
      using take_digits_pad [of y 4 r] 1 by (simp add: c)
    ultimately show ?thesis using 1 by (simp add: parse_year_def year_text_def c)
  next
    case 2
    then have "take_digits 6 (pad_digits 6 (- y) @ r) = Some (- y, r)"
      using assms by (intro take_digits_pad) auto
    with 2 show ?thesis by (simp add: parse_year_def year_text_def)
  next
    case 3
    then have "take_digits 6 (pad_digits 6 y @ r) = Some (y, r)"
      using assms by (intro take_digits_pad) auto
    with 3 show ?thesis by (simp add: parse_year_def year_text_def)
  qed
qed

lemma year_of_time_bounds:
  assumes "\<bar>t\<bar> \<le> MAX_TIME"
  shows "- 999999 \<le> year_of_day (t div MS_PER_DAY)" "year_of_day (t div MS_PER_DAY) \<le> 999999"
proof -
  let ?d = "t div MS_PER_DAY"
  have d: "- 100000000 \<le> ?d" "?d \<le> 100000000"
    using assms by (auto simp: MAX_TIME_def MS_PER_DAY_def abs_le_iff)
  have "146097 * ((400 * ?d) div 146097) \<le> 400 * ?d" "400 * ?d < 146097 * ((400 * ?d) div 146097) + 146097"
    using div_mult_mod_eq [of "400 * ?d" 146097] pos_mod_bound [of 146097 "400 * ?d"]
      pos_mod_sign [of 146097 "400 * ?d"] by linarith+
  then have "- 300000 \<le> (400 * ?d) div 146097" "(400 * ?d) div 146097 \<le> 300000"
    using d by linarith+
  then show "- 999999 \<le> year_of_day ?d" "year_of_day ?d \<le> 999999"
    by (auto simp: year_of_day_def Let_def)
qed

theorem iso_roundtrip:
  assumes "\<bar>t\<bar> \<le> MAX_TIME"
  shows "date_parse other (toISOString t) = Some t"
proof -
  define day where "day = t div MS_PER_DAY"
  define y where "y = year_of_day day"
  define doy where "doy = day - day_from_year y"
  define m where "m = month_of_day (leap_year y) doy"
  define d where "d = doy - month_start (leap_year y) m + 1"
  define tod where "tod = t mod MS_PER_DAY"
  have yr: "- 999999 \<le> y" "y \<le> 999999"
    using year_of_time_bounds [OF assms] by (simp_all add: y_def day_def)
  have doy: "0 \<le> doy" "doy < (if leap_year y then 366 else 365)"
    using day_parts [of day] by (simp_all add: doy_def y_def)
  then have m: "1 \<le> m" "m \<le> 12"
    using month_of_day_range [of doy "leap_year y"] by (auto simp: m_def split: if_splits)
  have d: "1 \<le> d" "d \<le> 31"
    using month_day_range [OF doy] by (simp_all add: d_def m_def)
  have tod: "0 \<le> tod" "tod < MS_PER_DAY" by (simp_all add: tod_def MS_PER_DAY_def)
  have printed: "toISOString t = year_text y @ CHR ''-'' # pad_digits 2 m @ CHR ''-'' #
      pad_digits 2 d @ CHR ''T'' # time_text tod"
    by (simp add: toISOString_def Let_def day_def y_def doy_def m_def d_def tod_def)
  have "make_day y m d = day" by (simp add: make_day_def d_def doy_def)
  then have "parse_date (toISOString t) = Some (day, CHR ''T'' # time_text tod)"
    using yr m d by (simp add: printed parse_date_def year_text_parsed field_in_pad)
  moreover have "parse_clock (time_text tod) = Some (tod, ''Z'')"
    using tod by (rule time_text_parsed)
  moreover have "day * MS_PER_DAY + tod = t" by (simp add: day_def tod_def)
  ultimately have "iso_parse (toISOString t) = Some t"
    by (simp add: iso_parse_def parse_zone_def)
  with assms show ?thesis by (simp add: date_parse_def)
qed

end
