(* ===== verification/VetoAnalyzer.thy ===== *)
theory VetoAnalyzer
  imports JsDate Json Effects
begin

text \<open>
  \<open>veto-analyzer/veto-analyzer.service.ts\<close>: the counterfactual value of the veto layer. The
  ledger of veto decisions is written with \<open>cf_pnl\<close> and \<open>cf_method\<close> null; \<open>backfill\<close> marks
  each decision to the bar that printed a fixed number of bars later, and the two reports add
  up what is marked. The state is the ledger, the key-value table, the timer and the overlap
  guard; the bars of the provider gateway, the clock, database faults and the reading of
  timestamps outside the ISO format are the environment. Numbers are binary64.

  A text written to \<open>cf_method\<close> is a constructor; a text written by anything else is
  \<open>OtherMethod\<close>. A report's \<open>by_discipline\<close> object is a map.
\<close>

section \<open>Data\<close>

datatype cf_method =
  UnsupportedAction
| InsufficientData
| InvalidRefPrice
| FixedHorizon jsnum string jsnum
| OtherMethod string

record veto_row =
  vd_id :: string
  vd_ts :: int
  vd_symbol :: string
  vd_source_plugin :: string
  vd_verdict :: string
  vd_action :: string
  vd_proposed_qty :: jsnum
  vd_approved_qty :: "jsnum option"
  vd_ref_price :: "jsnum option"
  vd_discipline :: "string option"
  vd_cf_pnl :: "jsnum option"
  vd_cf_method :: "cf_method option"
  vd_cf_evaluated_at :: "int option"

record backfill_options =
  bo_horizonBars :: "jsnum option"
  bo_timeframe :: "string option"
  bo_costBps :: "jsnum option"
  bo_reprocessInsufficient :: "bool option"

record backfill_summary =
  bs_evaluated :: nat
  bs_insufficientData :: nat
  bs_unsupportedAction :: nat
  bs_invalidRefPrice :: nat
  bs_pending :: nat
  bs_errors :: nat

record metrics_window =
  mw_from :: "int option"
  mw_to :: "int option"

record veto_metrics =
  vm_net_value :: jsnum
  vm_approved :: nat
  vm_blocked :: nat
  vm_modified :: nat
  vm_evaluated_count :: nat
  vm_unsupported_action_count :: nat
  vm_insufficient_data_count :: nat
  vm_losses_avoided :: jsnum
  vm_profits_forgone :: jsnum
  vm_by_discipline :: "string \<Rightarrow> jsnum option"

record plugin_value =
  pv_source_plugin :: string
  pv_evaluated_count :: nat
  pv_net_value :: jsnum
  pv_wins :: nat
  pv_win_rate :: jsnum
  pv_avg_cf_pnl :: jsnum

record veto_env =
  ve_ohlcv :: "nat \<Rightarrow> string \<Rightarrow> string \<Rightarrow> jsnum \<Rightarrow> exn + ohlcv_bar list"
  ve_date :: "string \<Rightarrow> int option"
  ve_fault :: "nat \<Rightarrow> exn option"
  ve_now :: "nat \<Rightarrow> int"

record veto_world =
  vw_env :: veto_env
  vw_calls :: nat
  vw_rows :: "veto_row list"
  vw_config :: "string \<Rightarrow> string option"
  vw_running :: bool
  vw_timer :: "jsnum option"

type_synonym 'a veto_io = "(veto_world, 'a) io"

section \<open>Effects\<close>

definition v_tock :: "veto_world \<Rightarrow> veto_world" where
  "v_tock w = w\<lparr>vw_calls := Suc (vw_calls w)\<rparr>"

definition v_now :: "int veto_io" where
  "v_now = (\<lambda>w. (Inr (ve_now (vw_env w) (vw_calls w)), v_tock w))"

definition v_read :: "(veto_world \<Rightarrow> 'a) \<Rightarrow> 'a veto_io" where
  "v_read f = (\<lambda>w. case ve_fault (vw_env w) (vw_calls w) of
      Some e \<Rightarrow> (Inl e, v_tock w) | None \<Rightarrow> (Inr (f w), v_tock w))"

definition getOhlcv :: "string \<Rightarrow> string \<Rightarrow> jsnum \<Rightarrow> ohlcv_bar list veto_io" where
  "getOhlcv symb tf limit =
     (\<lambda>w. (ve_ohlcv (vw_env w) (vw_calls w) symb tf limit, v_tock w))"

text \<open>Prisma's \<open>update\<close> by id; the error when no row has it.\<close>

definition v_update :: "string \<Rightarrow> (veto_row \<Rightarrow> veto_row) \<Rightarrow> unit veto_io" where
  "v_update i f = (\<lambda>w. case ve_fault (vw_env w) (vw_calls w) of
      Some e \<Rightarrow> (Inl e, v_tock w)
    | None \<Rightarrow>
        (case find_row (\<lambda>r. vd_id r = i) (vw_rows w) of
           None \<Rightarrow> (Inl (Exn ''P2025''), v_tock w)
         | Some _ \<Rightarrow> (Inr (), v_tock (w\<lparr>vw_rows := update_rows (\<lambda>r. vd_id r = i) f (vw_rows w)\<rparr>))))"

definition v_kv_get :: "string \<Rightarrow> string option veto_io" where
  "v_kv_get k = v_read (\<lambda>w. vw_config w k)"

section \<open>Pure helpers\<close>

definition DEFAULT_HORIZON_BARS :: jsnum where
  "DEFAULT_HORIZON_BARS = js 5"

definition DEFAULT_TIMEFRAME :: string where
  "DEFAULT_TIMEFRAME = ''1d''"

definition DEFAULT_COST_BPS :: jsnum where
  "DEFAULT_COST_BPS = js 10"

definition BACKFILL_INTERVAL_KEY :: string where
  "BACKFILL_INTERVAL_KEY = ''veto.backfill_interval_ms''"

definition DEFAULT_BACKFILL_INTERVAL_MS :: jsnum where
  "DEFAULT_BACKFILL_INTERVAL_MS = j0"

definition FETCH_LIMIT_BUFFER :: jsnum where
  "FETCH_LIMIT_BUFFER = js 20"

definition MAX_FETCH_LIMIT :: jsnum where
  "MAX_FETCH_LIMIT = js 1500"

definition BAR_DURATION_MS :: "(string \<times> int) list" where
  "BAR_DURATION_MS =
     [(''1m'', 60000), (''5m'', 5 * 60000), (''15m'', 15 * 60000), (''30m'', 30 * 60000),
      (''1h'', 60 * 60000), (''4h'', 4 * 60 * 60000), (''1d'', 24 * 60 * 60000),
      (''1w'', 7 * 24 * 60 * 60000)]"

definition barDurationMs :: "string \<Rightarrow> int" where
  "barDurationMs timeframe =
     (case map_of BAR_DURATION_MS timeframe of Some d \<Rightarrow> d | None \<Rightarrow> 24 * 60 * 60000)"

record resolved_options =
  rs_horizonBars :: jsnum
  rs_timeframe :: string
  rs_costBps :: jsnum
  rs_reprocessInsufficient :: bool

text \<open>\<open>opts?.field ?? fallback\<close>.\<close>

definition or_default :: "'a option \<Rightarrow> 'a \<Rightarrow> 'a" where
  "or_default x d = (case x of None \<Rightarrow> d | Some y \<Rightarrow> y)"

definition resolveOptions :: "backfill_options option \<Rightarrow> resolved_options" where
  "resolveOptions opts =
     \<lparr>rs_horizonBars = or_default (Option.bind opts bo_horizonBars) DEFAULT_HORIZON_BARS,
      rs_timeframe = or_default (Option.bind opts bo_timeframe) DEFAULT_TIMEFRAME,
      rs_costBps = or_default (Option.bind opts bo_costBps) DEFAULT_COST_BPS,
      rs_reprocessInsufficient = or_default (Option.bind opts bo_reprocessInsufficient) False\<rparr>"

definition isSupportedAction :: "string \<Rightarrow> bool" where
  "isSupportedAction action \<longleftrightarrow> action = ''long'' \<or> action = ''short''"

definition isMature :: "int \<Rightarrow> jsnum \<Rightarrow> string \<Rightarrow> int \<Rightarrow> bool" where
  "isMature decisionTs horizonBars timeframe now_ms =
     (let maturityTime =
            jadd (of_count decisionTs) (jmul horizonBars (of_count (barDurationMs timeframe)))
      in jge (of_count now_ms) maturityTime)"

definition computeNeededFetchLimit :: "int \<Rightarrow> jsnum \<Rightarrow> string \<Rightarrow> int \<Rightarrow> jsnum" where
  "computeNeededFetchLimit decisionTs horizonBars timeframe now_ms =
     (let barMs = of_count (barDurationMs timeframe);
          barsSinceDecision =
            jmax (jceil (jdiv (jsub (of_count now_ms) (of_count decisionTs)) barMs)) j0;
          needed = jadd (jadd barsSinceDecision horizonBars) FETCH_LIMIT_BUFFER
      in jmin needed MAX_FETCH_LIMIT)"

definition parseTsMs :: "(string \<Rightarrow> int option) \<Rightarrow> string \<Rightarrow> int option" where
  "parseTsMs other ts = date_parse other ts"

text \<open>The bars with a readable time strictly after the decision, in order of time.\<close>

definition bars_after :: "(string \<Rightarrow> int option) \<Rightarrow> int \<Rightarrow> ohlcv_bar list \<Rightarrow> (ohlcv_bar \<times> int) list" where
  "bars_after other decisionMs bars =
     sort_key snd (filter (\<lambda>x. decisionMs < snd x)
       (List.map_filter (\<lambda>b. map_option (\<lambda>ms. (b, ms)) (parseTsMs other (ba_ts b))) bars))"

text \<open>\<open>xs[i]\<close> for a number \<open>i\<close>: None stands for \<open>undefined\<close>.\<close>

definition element_at :: "'a list \<Rightarrow> jsnum \<Rightarrow> 'a option" where
  "element_at xs i =
     (case i of
        Fin r \<Rightarrow> if r = of_int \<lfloor>r\<rfloor> \<and> 0 \<le> r \<and> \<lfloor>r\<rfloor> < int (length xs)
                 then Some (xs ! nat \<lfloor>r\<rfloor>) else None
      | _ \<Rightarrow> None)"

definition type_error :: exn where
  "type_error = Exn ''TypeError''"

definition locateMarkBar ::
  "(string \<Rightarrow> int option) \<Rightarrow> ohlcv_bar list \<Rightarrow> string \<Rightarrow> jsnum \<Rightarrow> exn + ohlcv_bar option" where
  "locateMarkBar other bars decisionTs horizonBars =
     (case parseTsMs other decisionTs of
        None \<Rightarrow> Inr None
      | Some decisionMs \<Rightarrow>
          (let after = bars_after other decisionMs bars
           in if jlt (of_count (int (length after))) horizonBars then Inr None
              else case element_at after (jsub horizonBars j1) of
                     None \<Rightarrow> Inl type_error
                   | Some x \<Rightarrow> Inr (Some (fst x))))"

definition computeNetUnitReturn :: "string \<Rightarrow> jsnum \<Rightarrow> jsnum \<Rightarrow> jsnum \<Rightarrow> jsnum" where
  "computeNetUnitReturn action refPrice markPrice costBps =
     (let gross = (if action = ''long'' then jdiv (jsub markPrice refPrice) refPrice
                   else jdiv (jsub refPrice markPrice) refPrice)
      in jsub gross (jdiv costBps (js 10000)))"

definition buildCfMethod :: "resolved_options \<Rightarrow> cf_method" where
  "buildCfMethod opts = FixedHorizon (rs_horizonBars opts) (rs_timeframe opts) (rs_costBps opts)"

text \<open>
  The gateway's treatment of a requested bar count: \<open>bars.slice(-limit)\<close> keeps the last
  \<open>limit\<close> bars when the provider sent more (for a whole number \<open>limit\<close>).
\<close>

definition honor_limit :: "jsnum \<Rightarrow> 'a list \<Rightarrow> 'a list" where
  "honor_limit limit bars =
     (if jgt limit j0 \<and> jgt (of_count (int (length bars))) limit then
        (case limit of Fin q \<Rightarrow> drop (length bars - nat \<lfloor>q\<rfloor>) bars | _ \<Rightarrow> bars)
      else bars)"

section \<open>Backfill\<close>

definition set_unresolvable :: "cf_method \<Rightarrow> int \<Rightarrow> veto_row \<Rightarrow> veto_row" where
  "set_unresolvable m t r = r\<lparr>vd_cf_pnl := None, vd_cf_method := Some m, vd_cf_evaluated_at := Some t\<rparr>"

definition set_evaluated :: "jsnum \<Rightarrow> cf_method \<Rightarrow> int \<Rightarrow> veto_row \<Rightarrow> veto_row" where
  "set_evaluated p m t r = r\<lparr>vd_cf_pnl := Some p, vd_cf_method := Some m, vd_cf_evaluated_at := Some t\<rparr>"

definition markUnresolvable :: "veto_row \<Rightarrow> cf_method \<Rightarrow> unit veto_io" where
  "markUnresolvable row method =
     await v_now (\<lambda>t. v_update (vd_id row) (set_unresolvable method t))"

definition valid_ref_price :: "veto_row \<Rightarrow> jsnum option" where
  "valid_ref_price row =
     (case vd_ref_price row of
        None \<Rightarrow> None
      | Some p \<Rightarrow> if jgt p j0 \<and> is_finite p then Some p else None)"

definition counterfactual :: "resolved_options \<Rightarrow> veto_row \<Rightarrow> jsnum \<Rightarrow> jsnum \<Rightarrow> jsnum" where
  "counterfactual opts row refPrice markPrice =
     jmul (jmul (computeNetUnitReturn (vd_action row) refPrice markPrice (rs_costBps opts)) refPrice)
       (vd_proposed_qty row)"

text \<open>The mutable \<open>summary\<close> is passed in and returned; it is not touched before a throw.\<close>

definition evaluateRow ::
  "veto_row \<Rightarrow> resolved_options \<Rightarrow> backfill_summary \<Rightarrow> backfill_summary veto_io" where
  "evaluateRow row opts summary =
     (if \<not> isSupportedAction (vd_action row) then
        await (markUnresolvable row UnsupportedAction) (\<lambda>_.
        ret (summary\<lparr>bs_unsupportedAction := bs_unsupportedAction summary + 1\<rparr>))
      else case valid_ref_price row of
        None \<Rightarrow>
          await (markUnresolvable row InvalidRefPrice) (\<lambda>_.
          ret (summary\<lparr>bs_invalidRefPrice := bs_invalidRefPrice summary + 1\<rparr>))
      | Some refPrice \<Rightarrow>
          await v_now (\<lambda>now_ms.
          if \<not> isMature (vd_ts row) (rs_horizonBars opts) (rs_timeframe opts) now_ms then
            ret (summary\<lparr>bs_pending := bs_pending summary + 1\<rparr>)
          else
            await (getOhlcv (vd_symbol row) (rs_timeframe opts)
              (computeNeededFetchLimit (vd_ts row) (rs_horizonBars opts) (rs_timeframe opts) now_ms)) (\<lambda>bars.
            await (gets (\<lambda>w. ve_date (vw_env w))) (\<lambda>other.
            await (lift_result (locateMarkBar other bars (toISOString (vd_ts row)) (rs_horizonBars opts))) (\<lambda>found.
            case found of
              None \<Rightarrow>
                await (markUnresolvable row InsufficientData) (\<lambda>_.
                ret (summary\<lparr>bs_insufficientData := bs_insufficientData summary + 1\<rparr>))
            | Some markBar \<Rightarrow>
                await v_now (\<lambda>t.
                await (v_update (vd_id row)
                  (set_evaluated (counterfactual opts row refPrice (ba_close markBar)) (buildCfMethod opts) t)) (\<lambda>_.
                ret (summary\<lparr>bs_evaluated := bs_evaluated summary + 1\<rparr>))))))))"

definition empty_summary :: backfill_summary where
  "empty_summary = \<lparr>bs_evaluated = 0, bs_insufficientData = 0, bs_unsupportedAction = 0,
     bs_invalidRefPrice = 0, bs_pending = 0, bs_errors = 0\<rparr>"

primrec backfill_rows ::
  "resolved_options \<Rightarrow> veto_row list \<Rightarrow> backfill_summary \<Rightarrow> backfill_summary veto_io" where
  "backfill_rows opts [] summary = ret summary"
| "backfill_rows opts (row # rows) summary =
     await (attempt (evaluateRow row opts summary)
              (\<lambda>_. ret (summary\<lparr>bs_errors := bs_errors summary + 1\<rparr>))) (\<lambda>summary'.
     backfill_rows opts rows summary')"

text \<open>The \<open>where\<close> clause of the selection.\<close>

definition backfill_where :: "resolved_options \<Rightarrow> veto_row \<Rightarrow> bool" where
  "backfill_where opts row \<longleftrightarrow>
     (vd_cf_pnl row = None \<and> vd_cf_method row = None) \<or>
     (rs_reprocessInsufficient opts \<and> vd_cf_method row = Some InsufficientData)"

definition backfill :: "backfill_options option \<Rightarrow> backfill_summary veto_io" where
  "backfill opts =
     (let resolved = resolveOptions opts
      in await (v_read (\<lambda>w. filter (backfill_where resolved) (vw_rows w))) (\<lambda>rows.
         backfill_rows resolved rows empty_summary))"

section \<open>The scheduled sweep\<close>

definition readBackfillIntervalMs :: "jsnum veto_io" where
  "readBackfillIntervalMs =
     await (attempt (v_kv_get BACKFILL_INTERVAL_KEY) (\<lambda>_. ret None)) (\<lambda>raw.
     ret (kvNum raw DEFAULT_BACKFILL_INTERVAL_MS))"

definition veto_onModuleInit :: "unit veto_io" where
  "veto_onModuleInit =
     await readBackfillIntervalMs (\<lambda>intervalMs.
     if jle intervalMs j0 then ret ()
     else modify (\<lambda>w. w\<lparr>vw_timer := Some intervalMs\<rparr>))"

definition veto_onModuleDestroy :: "unit veto_io" where
  "veto_onModuleDestroy = modify (\<lambda>w. w\<lparr>vw_timer := None\<rparr>)"

definition backfillTick :: "unit veto_io" where
  "backfillTick =
     await (gets vw_running) (\<lambda>running.
     if running then ret ()
     else
       await (modify (\<lambda>w. w\<lparr>vw_running := True\<rparr>)) (\<lambda>_.
       ensure (attempt (await (backfill None) (\<lambda>_. ret ())) (\<lambda>_. ret ()))
         (\<lambda>w. w\<lparr>vw_running := False\<rparr>)))"

section \<open>The veto value report\<close>

definition in_window :: "metrics_window option \<Rightarrow> veto_row \<Rightarrow> bool" where
  "in_window window row \<longleftrightarrow>
     (case window of
        None \<Rightarrow> True
      | Some mw \<Rightarrow>
          (case mw_from mw of None \<Rightarrow> True | Some t \<Rightarrow> t \<le> vd_ts row) \<and>
          (case mw_to mw of None \<Rightarrow> True | Some t \<Rightarrow> vd_ts row \<le> t))"

definition buildMetricsWhere :: "metrics_window option \<Rightarrow> veto_row \<Rightarrow> bool" where
  "buildMetricsWhere window row \<longleftrightarrow> vd_cf_method row \<noteq> None \<and> in_window window row"

definition or_zero :: "jsnum option \<Rightarrow> jsnum" where
  "or_zero x = (case x of None \<Rightarrow> j0 | Some p \<Rightarrow> p)"

definition contributionFor :: "veto_row \<Rightarrow> jsnum \<Rightarrow> jsnum" where
  "contributionFor row cfPnl =
     (if vd_verdict row = ''blocked'' then jneg cfPnl
      else if vd_verdict row = ''approved'' then j0
      else if vd_verdict row = ''modified'' then
        (let approvedQty = or_zero (vd_approved_qty row);
             denominator = jmul (vd_proposed_qty row) (or_zero (vd_ref_price row))
         in if denominator = j0 then j0
            else let netUnitReturn = jdiv cfPnl denominator;
                     executedPnl = jmul (jmul netUnitReturn (or_zero (vd_ref_price row))) approvedQty
                 in jsub executedPnl cfPnl)
      else j0)"

definition count_verdict :: "veto_row \<Rightarrow> veto_metrics \<Rightarrow> veto_metrics" where
  "count_verdict row report =
     (if vd_verdict row = ''approved'' then report\<lparr>vm_approved := vm_approved report + 1\<rparr>
      else if vd_verdict row = ''blocked'' then report\<lparr>vm_blocked := vm_blocked report + 1\<rparr>
      else if vd_verdict row = ''modified'' then report\<lparr>vm_modified := vm_modified report + 1\<rparr>
      else report)"

definition add_discipline :: "veto_row \<Rightarrow> jsnum \<Rightarrow> veto_metrics \<Rightarrow> veto_metrics" where
  "add_discipline row c report =
     (case vd_discipline row of
        None \<Rightarrow> report
      | Some d \<Rightarrow>
          if d = '''' then report
          else report\<lparr>vm_by_discipline := (vm_by_discipline report)
                 (d := Some (jadd (or_zero (vm_by_discipline report d)) c))\<rparr>)"

definition add_contribution :: "veto_row \<Rightarrow> jsnum \<Rightarrow> veto_metrics \<Rightarrow> veto_metrics" where
  "add_contribution row c report =
     (let r1 = report\<lparr>vm_evaluated_count := vm_evaluated_count report + 1,
                       vm_net_value := jadd (vm_net_value report) c\<rparr>;
          r2 = (if jgt c j0 then r1\<lparr>vm_losses_avoided := jadd (vm_losses_avoided r1) c\<rparr>
                else if jlt c j0 then r1\<lparr>vm_profits_forgone := jadd (vm_profits_forgone r1) c\<rparr>
                else r1)
      in add_discipline row c r2)"

definition accumulateRow :: "veto_row \<Rightarrow> veto_metrics \<Rightarrow> veto_metrics" where
  "accumulateRow row report =
     (let report' = count_verdict row report
      in if vd_cf_method row = Some UnsupportedAction then
           report'\<lparr>vm_unsupported_action_count := vm_unsupported_action_count report' + 1\<rparr>
         else if vd_cf_method row = Some InsufficientData then
           report'\<lparr>vm_insufficient_data_count := vm_insufficient_data_count report' + 1\<rparr>
         else case vd_cf_pnl row of
                None \<Rightarrow> report'
              | Some cfPnl \<Rightarrow> add_contribution row (contributionFor row cfPnl) report')"

definition empty_metrics :: veto_metrics where
  "empty_metrics = \<lparr>vm_net_value = j0, vm_approved = 0, vm_blocked = 0, vm_modified = 0,
     vm_evaluated_count = 0, vm_unsupported_action_count = 0, vm_insufficient_data_count = 0,
     vm_losses_avoided = j0, vm_profits_forgone = j0, vm_by_discipline = (\<lambda>_. None)\<rparr>"

definition report_rows :: "veto_row list \<Rightarrow> veto_metrics" where
  "report_rows rows = fold accumulateRow rows empty_metrics"

definition getMetrics :: "metrics_window option \<Rightarrow> veto_metrics veto_io" where
  "getMetrics window =
     await (v_read (\<lambda>w. filter (buildMetricsWhere window) (vw_rows w))) (\<lambda>rows.
     ret (report_rows rows))"

section \<open>The plugin value report\<close>

definition TERMINAL_NON_EVALUATED_METHODS :: "cf_method list" where
  "TERMINAL_NON_EVALUATED_METHODS = [UnsupportedAction, InsufficientData, InvalidRefPrice]"

definition UNKNOWN_PLUGIN_KEY :: string where
  "UNKNOWN_PLUGIN_KEY = ''unknown''"

definition buildPluginValueWhere :: "metrics_window option \<Rightarrow> veto_row \<Rightarrow> bool" where
  "buildPluginValueWhere window row \<longleftrightarrow>
     (case vd_cf_method row of
        None \<Rightarrow> False
      | Some m \<Rightarrow> m \<notin> set TERMINAL_NON_EVALUATED_METHODS) \<and>
     in_window window row"

definition emptyPluginValueEntry :: "string \<Rightarrow> plugin_value" where
  "emptyPluginValueEntry key = \<lparr>pv_source_plugin = key, pv_evaluated_count = 0, pv_net_value = j0,
     pv_wins = 0, pv_win_rate = j0, pv_avg_cf_pnl = j0\<rparr>"

definition finalizePluginValueEntry :: "plugin_value \<Rightarrow> plugin_value" where
  "finalizePluginValueEntry e =
     (let n = of_count (int (pv_evaluated_count e))
      in e\<lparr>pv_win_rate := (if pv_evaluated_count e > 0
               then jdiv (of_count (int (pv_wins e))) n else j0),
           pv_avg_cf_pnl := (if pv_evaluated_count e > 0 then jdiv (pv_net_value e) n else j0)\<rparr>)"

definition plugin_key :: "veto_row \<Rightarrow> string" where
  "plugin_key row =
     (if vd_source_plugin row \<noteq> '''' \<and> js_trim (vd_source_plugin row) \<noteq> ''''
      then vd_source_plugin row else UNKNOWN_PLUGIN_KEY)"

definition add_row :: "jsnum \<Rightarrow> plugin_value \<Rightarrow> plugin_value" where
  "add_row cfPnl e =
     e\<lparr>pv_evaluated_count := pv_evaluated_count e + 1,
       pv_net_value := jadd (pv_net_value e) cfPnl,
       pv_wins := (if jgt cfPnl j0 then pv_wins e + 1 else pv_wins e)\<rparr>"

text \<open>The \<open>Map\<close>, in insertion order.\<close>

definition accumulatePluginRow :: "veto_row \<Rightarrow> plugin_value list \<Rightarrow> plugin_value list" where
  "accumulatePluginRow row byPlugin =
     (case vd_cf_pnl row of
        None \<Rightarrow> byPlugin
      | Some cfPnl \<Rightarrow>
          (let key = plugin_key row
           in if key \<in> set (map pv_source_plugin byPlugin)
              then upd_first (\<lambda>e. pv_source_plugin e = key) (add_row cfPnl) byPlugin
              else byPlugin @ [add_row cfPnl (emptyPluginValueEntry key)]))"

text \<open>
  \<open>sort((a, b) => b.net_value - a.net_value)\<close>: stable and descending; a difference that is NaN
  counts as equal.
\<close>

fun insert_desc :: "plugin_value \<Rightarrow> plugin_value list \<Rightarrow> plugin_value list" where
  "insert_desc x [] = [x]"
| "insert_desc x (y # ys) =
     (if jlt (pv_net_value x) (pv_net_value y) then y # insert_desc x ys else x # y # ys)"

definition sort_desc :: "plugin_value list \<Rightarrow> plugin_value list" where
  "sort_desc xs = foldr insert_desc xs []"

definition add_totals :: "plugin_value \<Rightarrow> plugin_value \<Rightarrow> plugin_value" where
  "add_totals e totals =
     totals\<lparr>pv_evaluated_count := pv_evaluated_count totals + pv_evaluated_count e,
            pv_net_value := jadd (pv_net_value totals) (pv_net_value e),
            pv_wins := pv_wins totals + pv_wins e\<rparr>"

definition plugin_report :: "veto_row list \<Rightarrow> plugin_value list \<times> plugin_value" where
  "plugin_report rows =
     (let plugins = sort_desc (map finalizePluginValueEntry (fold accumulatePluginRow rows []));
          totals = fold add_totals plugins (emptyPluginValueEntry UNKNOWN_PLUGIN_KEY)
      in (plugins, finalizePluginValueEntry totals))"

definition getPluginValue :: "metrics_window option \<Rightarrow> (plugin_value list \<times> plugin_value) veto_io" where
  "getPluginValue window =
     await (v_read (\<lambda>w. filter (buildPluginValueWhere window) (vw_rows w))) (\<lambda>rows.
     ret (plugin_report rows))"

end
