(* ===== verification/VetoFacts.thy ===== *)
theory VetoFacts
  imports VetoAnalyzer
begin

text \<open>
  What the veto analyzer guarantees: the mark bar is the requested bar after the decision and
  never one before it, every selected decision is accounted for once and no other row of the
  ledger changes, a sweep converges, and the two reports are the sums they claim to be.
\<close>

section \<open>The mark bar\<close>

text \<open>
  An independent description of "the bar with \<open>k\<close> bars before it, counted from the decision":
  its time is after the decision, at most \<open>k\<close> bars lie strictly between the two, and more than
  \<open>k\<close> lie between the decision and the bar inclusively.
\<close>

definition bar_time_in :: "(string \<Rightarrow> int option) \<Rightarrow> (int \<Rightarrow> bool) \<Rightarrow> ohlcv_bar \<Rightarrow> bool" where
  "bar_time_in other p b = (case parseTsMs other (ba_ts b) of None \<Rightarrow> False | Some ms \<Rightarrow> p ms)"

definition bars_in :: "(string \<Rightarrow> int option) \<Rightarrow> (int \<Rightarrow> bool) \<Rightarrow> ohlcv_bar list \<Rightarrow> nat" where
  "bars_in other p bars = length (filter (bar_time_in other p) bars)"

definition kth_bar_after ::
  "(string \<Rightarrow> int option) \<Rightarrow> int \<Rightarrow> ohlcv_bar list \<Rightarrow> nat \<Rightarrow> ohlcv_bar \<Rightarrow> bool" where
  "kth_bar_after other d bars k b \<longleftrightarrow> b \<in> set bars \<and>
     (\<exists>ms. parseTsMs other (ba_ts b) = Some ms \<and> d < ms \<and>
        bars_in other (\<lambda>t. d < t \<and> t < ms) bars \<le> k \<and>
        k < bars_in other (\<lambda>t. d < t \<and> t \<le> ms) bars)"

abbreviation stamped :: "(string \<Rightarrow> int option) \<Rightarrow> ohlcv_bar list \<Rightarrow> (ohlcv_bar \<times> int) list" where
  "stamped other bars \<equiv>
     List.map_filter (\<lambda>b. map_option (\<lambda>ms. (b, ms)) (parseTsMs other (ba_ts b))) bars"

lemma length_filter_stamped:
  "length (filter (\<lambda>x. p (snd x)) (stamped other bars)) = bars_in other p bars"
  by (induction bars) (auto simp: bars_in_def bar_time_in_def map_filter_simps split: option.splits)

lemma set_stamped:
  "x \<in> set (stamped other bars) \<longleftrightarrow> fst x \<in> set bars \<and> parseTsMs other (ba_ts (fst x)) = Some (snd x)"
  by (induction bars) (auto simp: map_filter_simps split: option.splits)

lemma length_bars_after: "length (bars_after other d bars) = bars_in other (\<lambda>t. d < t) bars"
  by (simp add: bars_after_def length_filter_stamped)

lemma filter_bars_after:
  "length (filter (\<lambda>x. p (snd x)) (bars_after other d bars)) = bars_in other (\<lambda>t. d < t \<and> p t) bars"
  using length_filter_stamped [of "\<lambda>t. d < t \<and> p t" other bars]
  by (simp add: bars_after_def filter_sort conj_commute)

text \<open>The rank of an element of a sorted list.\<close>

lemma sorted_rank:
  fixes f :: "'a \<Rightarrow> int"
  assumes "sorted (map f xs)" "k < length xs"
  shows "length (filter (\<lambda>x. f x < f (xs ! k)) xs) \<le> k"
    and "k < length (filter (\<lambda>x. f x \<le> f (xs ! k)) xs)"
proof -
  have le: "i \<le> j \<Longrightarrow> j < length xs \<Longrightarrow> f (xs ! i) \<le> f (xs ! j)" for i j
    using sorted_nth_mono [OF assms(1), of i j] by simp
  have "filter (\<lambda>x. f x < f (xs ! k)) (drop k xs) = []"
  proof -
    have "\<not> f x < f (xs ! k)" if "x \<in> set (drop k xs)" for x
      using that le by (auto simp: in_set_conv_nth not_less)
    then show ?thesis by (simp add: filter_empty_conv)
  qed
  then have "filter (\<lambda>x. f x < f (xs ! k)) xs = filter (\<lambda>x. f x < f (xs ! k)) (take k xs)"
    by (metis append_Nil2 append_take_drop_id filter_append)
  then show "length (filter (\<lambda>x. f x < f (xs ! k)) xs) \<le> k"
    using length_filter_le [of "\<lambda>x. f x < f (xs ! k)" "take k xs"] by simp
  have "filter (\<lambda>x. f x \<le> f (xs ! k)) (take (Suc k) xs) = take (Suc k) xs"
  proof -
    have "f x \<le> f (xs ! k)" if "x \<in> set (take (Suc k) xs)" for x
      using that le assms(2) by (auto simp: in_set_conv_nth less_Suc_eq_le)
    then show ?thesis by (simp add: filter_id_conv)
  qed
  moreover have "length (filter (\<lambda>x. f x \<le> f (xs ! k)) xs) =
      length (filter (\<lambda>x. f x \<le> f (xs ! k)) (take (Suc k) xs)) +
      length (filter (\<lambda>x. f x \<le> f (xs ! k)) (drop (Suc k) xs))"
    by (metis append_take_drop_id filter_append length_append)
  ultimately show "k < length (filter (\<lambda>x. f x \<le> f (xs ! k)) xs)"
    using assms(2) by simp
qed

lemma nth_bars_after:
  assumes "k < length (bars_after other d bars)"
  shows "kth_bar_after other d bars k (fst (bars_after other d bars ! k))"
proof -
  let ?xs = "bars_after other d bars"
  let ?x = "?xs ! k"
  have "?x \<in> set ?xs" using assms by simp
  then have x: "d < snd ?x" "fst ?x \<in> set bars" "parseTsMs other (ba_ts (fst ?x)) = Some (snd ?x)"
    by (auto simp: bars_after_def set_stamped)
  have s: "sorted (map snd ?xs)" by (simp add: bars_after_def)
  have "bars_in other (\<lambda>t. d < t \<and> t < snd ?x) bars \<le> k"
    using sorted_rank(1) [OF s assms] filter_bars_after [of "\<lambda>t. t < snd ?x"] by simp
  moreover have "k < bars_in other (\<lambda>t. d < t \<and> t \<le> snd ?x) bars"
    using sorted_rank(2) [OF s assms] filter_bars_after [of "\<lambda>t. t \<le> snd ?x"] by simp
  ultimately show ?thesis using x by (auto simp: kth_bar_after_def)
qed

text \<open>A decision's time survives the text it is passed as: \<open>locateMarkBar\<close> receives the
  decision's time as an ISO string and reads it back with \<open>Date.parse\<close>, and for every time value
  JavaScript can represent (years -271821 to 275760) it reads the millisecond it was printed from.\<close>

theorem decision_time_roundtrip:
  assumes "\<bar>t\<bar> \<le> 8640000000000000"
  shows "parseTsMs other (toISOString t) = Some t"
  using iso_roundtrip [of t other] assms by (simp add: parseTsMs_def MAX_TIME_def)

text \<open>The horizon the HTTP layer admits: a whole number from 1 to 500.\<close>

definition horizon_ok :: "jsnum \<Rightarrow> nat \<Rightarrow> bool" where
  "horizon_ok h n \<longleftrightarrow> h = Fin (of_nat n) \<and> 1 \<le> n \<and> n \<le> 500"

lemma element_at_horizon:
  assumes "horizon_ok h n"
  shows "element_at xs (jsub h j1) = (if n \<le> length xs then Some (xs ! (n - 1)) else None)"
proof -
  have "jsub h j1 = Fin (of_int (int n - 1))"
    using assms jsub_exact [of "int n" 1] by (simp add: horizon_ok_def)
  then show ?thesis
    using assms by (auto simp: element_at_def horizon_ok_def nat_diff_distrib)
qed

lemma jlt_of_count_horizon:
  assumes "horizon_ok h n"
  shows "jlt (of_count (int m)) h \<longleftrightarrow> m < n"
proof (cases "m < n")
  case True
  then show ?thesis using assms of_count_exact [of "int m"] by (simp add: horizon_ok_def)
next
  case False
  then have "jle (of_count (int n)) (of_count (int m))"
    by (simp add: of_count_def mk_num_mono)
  moreover have "of_count (int n) = h"
    using assms of_count_exact [of "int n"] by (simp add: horizon_ok_def)
  ultimately have "\<not> jlt (of_count (int m)) h"
    using jle_jlt_trans jlt_irrefl by blast
  with False show ?thesis by simp
qed

lemma locateMarkBar_cases:
  assumes "horizon_ok h n" "\<bar>d\<bar> \<le> MAX_TIME"
  shows "locateMarkBar other bars (toISOString d) h =
    (if bars_in other (\<lambda>t. d < t) bars < n then Inr None
     else Inr (Some (fst (bars_after other d bars ! (n - 1)))))"
  using assms element_at_horizon [OF assms(1), of "bars_after other d bars"]
  by (simp add: locateMarkBar_def parseTsMs_def iso_roundtrip Let_def length_bars_after
      jlt_of_count_horizon not_less)

lemma locateMarkBar_bar:
  assumes "horizon_ok h n" "\<bar>d\<bar> \<le> MAX_TIME"
    and "locateMarkBar other bars (toISOString d) h = Inr (Some b)"
  shows "kth_bar_after other d bars (n - 1) b"
  using assms nth_bars_after [of "n - 1" other d bars]
  by (auto simp: locateMarkBar_cases length_bars_after horizon_ok_def split: if_splits)

lemma locateMarkBar_none:
  assumes "horizon_ok h n" "\<bar>d\<bar> \<le> MAX_TIME"
    and "locateMarkBar other bars (toISOString d) h = Inr None"
  shows "bars_in other (\<lambda>t. d < t) bars < n"
  using assms by (auto simp: locateMarkBar_cases split: if_splits)

section \<open>One decision\<close>

lemma v_tock_simps [simp]:
  "vw_env (v_tock w) = vw_env w" "vw_rows (v_tock w) = vw_rows w"
  "vw_running (v_tock w) = vw_running w" "vw_timer (v_tock w) = vw_timer w"
  by (simp_all add: v_tock_def)

abbreviation of_id :: "veto_row \<Rightarrow> veto_row \<Rightarrow> bool" where
  "of_id row \<equiv> (\<lambda>r. vd_id r = vd_id row)"

text \<open>The four ways a decision can be left after it was looked at, and what each records.\<close>

definition priced :: "veto_row \<Rightarrow> jsnum \<Rightarrow> bool" where
  "priced r p \<longleftrightarrow> (vd_action r = ''long'' \<or> vd_action r = ''short'') \<and>
     vd_ref_price r = Some p \<and> jlt j0 p \<and> is_finite p"

definition fetched :: "veto_env \<Rightarrow> resolved_options \<Rightarrow> veto_row \<Rightarrow> ohlcv_bar list \<Rightarrow> bool" where
  "fetched env opts r bars \<longleftrightarrow>
     (\<exists>k. isMature (vd_ts r) (rs_horizonBars opts) (rs_timeframe opts) (ve_now env k) \<and>
        ve_ohlcv env (Suc k) (vd_symbol r) (rs_timeframe opts)
          (computeNeededFetchLimit (vd_ts r) (rs_horizonBars opts) (rs_timeframe opts) (ve_now env k)) =
        Inr bars)"

inductive outcome :: "veto_env \<Rightarrow> resolved_options \<Rightarrow> veto_row \<Rightarrow> (veto_row \<Rightarrow> veto_row) \<Rightarrow> bool"
  for env opts row
where
  unsupported: "vd_action row \<noteq> ''long'' \<Longrightarrow> vd_action row \<noteq> ''short'' \<Longrightarrow>
    outcome env opts row (set_unresolvable UnsupportedAction t)"
| invalid: "vd_action row = ''long'' \<or> vd_action row = ''short'' \<Longrightarrow> (\<And>p. \<not> priced row p) \<Longrightarrow>
    outcome env opts row (set_unresolvable InvalidRefPrice t)"
| insufficient: "priced row p \<Longrightarrow> fetched env opts row bars \<Longrightarrow>
    locateMarkBar (ve_date env) bars (toISOString (vd_ts row)) (rs_horizonBars opts) = Inr None \<Longrightarrow>
    outcome env opts row (set_unresolvable InsufficientData t)"
| evaluated: "priced row p \<Longrightarrow> fetched env opts row bars \<Longrightarrow>
    locateMarkBar (ve_date env) bars (toISOString (vd_ts row)) (rs_horizonBars opts) = Inr (Some b) \<Longrightarrow>
    outcome env opts row
      (set_evaluated (counterfactual opts row p (ba_close b)) (buildCfMethod opts) t)"

definition total :: "backfill_summary \<Rightarrow> nat" where
  "total s = bs_evaluated s + bs_insufficientData s + bs_unsupportedAction s +
     bs_invalidRefPrice s + bs_pending s + bs_errors s"

text \<open>What the step did to the ledger, and the counter it moved.\<close>

definition row_step ::
  "veto_env \<Rightarrow> resolved_options \<Rightarrow> veto_row \<Rightarrow> backfill_summary \<Rightarrow> backfill_summary \<Rightarrow>
   veto_row list \<Rightarrow> veto_row list \<Rightarrow> bool" where
  "row_step env opts row s s' rows rows' \<longleftrightarrow>
     (rows' = rows \<and>
        (s' = s\<lparr>bs_pending := bs_pending s + 1\<rparr> \<or> s' = s\<lparr>bs_errors := bs_errors s + 1\<rparr>)) \<or>
     (\<exists>f. outcome env opts row f \<and> rows' = update_rows (of_id row) f rows \<and>
        total s' = total s + 1 \<and> bs_pending s' = bs_pending s \<and> bs_errors s' = bs_errors s \<and>
        bs_evaluated s' = bs_evaluated s + (if vd_cf_pnl (f row) = None then 0 else 1))"

lemma v_update_run:
  "(\<exists>e. v_update i f w = (Inl e, v_tock w)) \<or>
   v_update i f w = (Inr (), v_tock (w\<lparr>vw_rows := update_rows (\<lambda>r. vd_id r = i) f (vw_rows w)\<rparr>))"
  by (auto simp: v_update_def split: option.splits)

lemma markUnresolvable_run:
  "(\<exists>e. fst (markUnresolvable row m w) = Inl e \<and> vw_rows (snd (markUnresolvable row m w)) = vw_rows w) \<or>
   (\<exists>t. fst (markUnresolvable row m w) = Inr () \<and>
      vw_rows (snd (markUnresolvable row m w)) =
        update_rows (of_id row) (set_unresolvable m t) (vw_rows w))"
  using v_update_run [of "vd_id row" "set_unresolvable m (ve_now (vw_env w) (vw_calls w))" "v_tock w"]
  by (auto simp: markUnresolvable_def await_run v_now_def)

lemma v_update_env [simp]: "vw_env (snd (v_update i f w)) = vw_env w"
  using v_update_run [of i f w] by auto

lemma markUnresolvable_env [simp]: "vw_env (snd (markUnresolvable row m w)) = vw_env w"
  by (simp add: markUnresolvable_def await_run v_now_def)

lemma priced_iff:
  "isSupportedAction (vd_action row) \<Longrightarrow> valid_ref_price row = Some p \<longleftrightarrow> priced row p"
  by (auto simp: isSupportedAction_def valid_ref_price_def priced_def split: option.splits)

text \<open>The attempt on one row, with its error count, as \<open>backfill_rows\<close> runs it.\<close>

abbreviation guarded_row :: "veto_row \<Rightarrow> resolved_options \<Rightarrow> backfill_summary \<Rightarrow> backfill_summary veto_io" where
  "guarded_row row opts s \<equiv>
     attempt (evaluateRow row opts s) (\<lambda>_. ret (s\<lparr>bs_errors := bs_errors s + 1\<rparr>))"

lemma evaluateRow_unpriced:
  "\<not> isSupportedAction (vd_action row) \<Longrightarrow> evaluateRow row opts s w =
     await (markUnresolvable row UnsupportedAction)
       (\<lambda>_. ret (s\<lparr>bs_unsupportedAction := bs_unsupportedAction s + 1\<rparr>)) w"
  "isSupportedAction (vd_action row) \<Longrightarrow> valid_ref_price row = None \<Longrightarrow> evaluateRow row opts s w =
     await (markUnresolvable row InvalidRefPrice)
       (\<lambda>_. ret (s\<lparr>bs_invalidRefPrice := bs_invalidRefPrice s + 1\<rparr>)) w"
  by (simp_all add: evaluateRow_def)

text \<open>The rest of the function for a priced decision, one answer at a time.\<close>

definition mature_at :: "resolved_options \<Rightarrow> veto_row \<Rightarrow> veto_world \<Rightarrow> bool" where
  "mature_at opts row w =
     isMature (vd_ts row) (rs_horizonBars opts) (rs_timeframe opts) (ve_now (vw_env w) (vw_calls w))"

definition bars_at :: "resolved_options \<Rightarrow> veto_row \<Rightarrow> veto_world \<Rightarrow> exn + ohlcv_bar list" where
  "bars_at opts row w =
     ve_ohlcv (vw_env w) (Suc (vw_calls w)) (vd_symbol row) (rs_timeframe opts)
       (computeNeededFetchLimit (vd_ts row) (rs_horizonBars opts) (rs_timeframe opts)
         (ve_now (vw_env w) (vw_calls w)))"

definition mark_in :: "resolved_options \<Rightarrow> veto_row \<Rightarrow> veto_world \<Rightarrow> ohlcv_bar list \<Rightarrow> exn + ohlcv_bar option" where
  "mark_in opts row w bars =
     locateMarkBar (ve_date (vw_env w)) bars (toISOString (vd_ts row)) (rs_horizonBars opts)"

lemma evaluateRow_priced:
  assumes "isSupportedAction (vd_action row)" "valid_ref_price row = Some p"
  shows "\<not> mature_at opts row w \<Longrightarrow>
      evaluateRow row opts s w = (Inr (s\<lparr>bs_pending := bs_pending s + 1\<rparr>), v_tock w)"
    and "mature_at opts row w \<Longrightarrow> bars_at opts row w = Inl e \<Longrightarrow>
      evaluateRow row opts s w = (Inl e, v_tock (v_tock w))"
    and "mature_at opts row w \<Longrightarrow> bars_at opts row w = Inr bars \<Longrightarrow> mark_in opts row w bars = Inl e \<Longrightarrow>
      evaluateRow row opts s w = (Inl e, v_tock (v_tock w))"
    and "mature_at opts row w \<Longrightarrow> bars_at opts row w = Inr bars \<Longrightarrow> mark_in opts row w bars = Inr None \<Longrightarrow>
      evaluateRow row opts s w =
        await (markUnresolvable row InsufficientData)
          (\<lambda>_. ret (s\<lparr>bs_insufficientData := bs_insufficientData s + 1\<rparr>)) (v_tock (v_tock w))"
    and "mature_at opts row w \<Longrightarrow> bars_at opts row w = Inr bars \<Longrightarrow> mark_in opts row w bars = Inr (Some b) \<Longrightarrow>
      evaluateRow row opts s w =
        await (v_update (vd_id row) (set_evaluated (counterfactual opts row p (ba_close b))
            (buildCfMethod opts) (ve_now (vw_env w) (Suc (Suc (vw_calls w))))))
          (\<lambda>_. ret (s\<lparr>bs_evaluated := bs_evaluated s + 1\<rparr>)) (v_tock (v_tock (v_tock w)))"
  using assms
  by (simp_all add: evaluateRow_def mature_at_def bars_at_def mark_in_def v_now_def getOhlcv_def
      gets_def lift_result_def ret_def v_tock_def await_def)

lemma unchanged_step:
  assumes "evaluateRow row opts s w = (r, w')" "vw_env w' = vw_env w" "vw_rows w' = vw_rows w"
    and "r = Inr (s\<lparr>bs_pending := bs_pending s + 1\<rparr>) \<or> (\<exists>e. r = Inl e)"
  shows "\<exists>s' w'. guarded_row row opts s w = (Inr s', w') \<and> vw_env w' = vw_env w \<and>
     row_step (vw_env w) opts row s s' (vw_rows w) (vw_rows w')"
  using assms by (auto simp: attempt_def ret_def row_step_def)

lemma unresolvable_step:
  assumes ev: "evaluateRow row opts s w = await (markUnresolvable row m) (\<lambda>_. ret s1) v"
    and v: "vw_env v = vw_env w" "vw_rows v = vw_rows w"
    and oc: "\<And>t. outcome (vw_env w) opts row (set_unresolvable m t)"
    and s1: "total s1 = total s + 1" "bs_pending s1 = bs_pending s" "bs_errors s1 = bs_errors s"
      "bs_evaluated s1 = bs_evaluated s"
  shows "\<exists>s' w'. guarded_row row opts s w = (Inr s', w') \<and> vw_env w' = vw_env w \<and>
    row_step (vw_env w) opts row s s' (vw_rows w) (vw_rows w')"
proof -
  let ?w = "snd (markUnresolvable row m v)"
  consider (err) e where "fst (markUnresolvable row m v) = Inl e" "vw_rows ?w = vw_rows w"
    | (ok) t where "fst (markUnresolvable row m v) = Inr ()"
        "vw_rows ?w = update_rows (of_id row) (set_unresolvable m t) (vw_rows w)"
    using markUnresolvable_run [of row m v] v by auto
  then show ?thesis
  proof cases
    case err
    then show ?thesis by (simp add: attempt_run ev v await_run ret_def row_step_def)
  next
    case ok
    then have "row_step (vw_env w) opts row s s1 (vw_rows w) (vw_rows ?w)"
      using oc s1 unfolding row_step_def
      by (intro disjI2 exI [of _ "set_unresolvable m t"]) (simp add: set_unresolvable_def)
    with ok show ?thesis by (simp add: attempt_run ev v await_run ret_def)
  qed
qed

lemma evaluated_step:
  assumes ev: "evaluateRow row opts s w = await (v_update (vd_id row) (set_evaluated c m t))
        (\<lambda>_. ret (s\<lparr>bs_evaluated := bs_evaluated s + 1\<rparr>)) v"
    and v: "vw_env v = vw_env w" "vw_rows v = vw_rows w"
    and oc: "outcome (vw_env w) opts row (set_evaluated c m t)"
  shows "\<exists>s' w'. guarded_row row opts s w = (Inr s', w') \<and> vw_env w' = vw_env w \<and>
    row_step (vw_env w) opts row s s' (vw_rows w) (vw_rows w')"
proof -
  let ?f = "set_evaluated c m t"
  have step: "row_step (vw_env w) opts row s (s\<lparr>bs_evaluated := bs_evaluated s + 1\<rparr>)
      (vw_rows w) (update_rows (of_id row) ?f (vw_rows w))"
    using oc unfolding row_step_def
    by (intro disjI2 exI [of _ ?f]) (simp add: total_def set_evaluated_def)
  consider (err) e where "v_update (vd_id row) ?f v = (Inl e, v_tock v)"
    | (ok) "v_update (vd_id row) ?f v =
        (Inr (), v_tock (v\<lparr>vw_rows := update_rows (of_id row) ?f (vw_rows v)\<rparr>))"
    using v_update_run [of "vd_id row" ?f v] by auto
  then show ?thesis
  proof cases
    case err
    then show ?thesis by (simp add: attempt_run ev v await_run ret_def row_step_def)
  next
    case ok
    with step show ?thesis by (simp add: attempt_run ev v await_run ret_def)
  qed
qed

lemma guarded_row_step:
  "\<exists>s' w'. guarded_row row opts s w = (Inr s', w') \<and> vw_env w' = vw_env w \<and>
     row_step (vw_env w) opts row s s' (vw_rows w) (vw_rows w')"
proof (cases "isSupportedAction (vd_action row)")
  case False
  show ?thesis
    by (rule unresolvable_step [OF evaluateRow_unpriced(1) [OF False]])
      (use False in \<open>auto simp: total_def isSupportedAction_def intro: outcome.unsupported\<close>)
next
  case sup: True
  show ?thesis
  proof (cases "valid_ref_price row")
    case None
    show ?thesis
      by (rule unresolvable_step [OF evaluateRow_unpriced(2) [OF sup None]])
        (use sup None priced_iff [OF sup] in
          \<open>auto simp: total_def isSupportedAction_def intro: outcome.invalid\<close>)
  next
    case (Some p)
    with sup have pr: "priced row p" by (simp add: priced_iff)
    note ev = evaluateRow_priced [OF sup Some]
    consider (soon) "\<not> mature_at opts row w"
      | (failed) e where "mature_at opts row w" "bars_at opts row w = Inl e"
      | (thrown) bars e where "mature_at opts row w" "bars_at opts row w = Inr bars" "mark_in opts row w bars = Inl e"
      | (none) bars where "mature_at opts row w" "bars_at opts row w = Inr bars" "mark_in opts row w bars = Inr None"
      | (bar) bars b where "mature_at opts row w" "bars_at opts row w = Inr bars" "mark_in opts row w bars = Inr (Some b)"
      by (metis not_Some_eq sum.exhaust)
    then show ?thesis
    proof cases
      case soon
      show ?thesis by (rule unchanged_step [OF ev(1) [OF soon]]) simp_all
    next
      case failed
      show ?thesis by (rule unchanged_step [OF ev(2) [OF failed]]) simp_all
    next
      case thrown
      show ?thesis by (rule unchanged_step [OF ev(3) [OF thrown]]) simp_all
    next
      case none
      then have "fetched (vw_env w) opts row bars"
        by (auto simp: fetched_def mature_at_def bars_at_def)
      with pr none have oc: "\<And>t. outcome (vw_env w) opts row (set_unresolvable InsufficientData t)"
        by (auto simp: mark_in_def intro: outcome.insufficient)
      show ?thesis
        by (rule unresolvable_step [OF ev(4) [OF none] _ _ oc]) (simp_all add: total_def)
    next
      case bar
      then have "fetched (vw_env w) opts row bars"
        by (auto simp: fetched_def mature_at_def bars_at_def)
      with pr bar have oc: "\<And>t. outcome (vw_env w) opts row
          (set_evaluated (counterfactual opts row p (ba_close b)) (buildCfMethod opts) t)"
        by (auto simp: mark_in_def intro: outcome.evaluated)
      show ?thesis
        by (rule evaluated_step [OF ev(5) [OF bar] _ _ oc]) simp_all
    qed
  qed
qed

section \<open>The sweep\<close>

text \<open>
  The ledger's invariant: identifiers are unique, and a decision without an evaluation has no
  counterfactual value.
\<close>

definition unevaluated :: "veto_row \<Rightarrow> bool" where
  "unevaluated r \<longleftrightarrow>
     (case vd_cf_method r of None \<Rightarrow> True | Some m \<Rightarrow> m \<in> set TERMINAL_NON_EVALUATED_METHODS)"

definition veto_ledger_ok :: "veto_row list \<Rightarrow> bool" where
  "veto_ledger_ok rows \<longleftrightarrow>
     distinct (map vd_id rows) \<and> (\<forall>r\<in>set rows. unevaluated r \<longrightarrow> vd_cf_pnl r = None)"

definition still_open :: "veto_row \<Rightarrow> bool" where
  "still_open r \<longleftrightarrow> vd_cf_pnl r = None \<and> vd_cf_method r = None"

abbreviation with_value :: "veto_row \<Rightarrow> bool" where
  "with_value r \<equiv> vd_cf_pnl r \<noteq> None"

lemma outcome_id: "outcome env opts row f \<Longrightarrow> vd_id (f r) = vd_id r"
  by (cases rule: outcome.cases) (auto simp: set_unresolvable_def set_evaluated_def)

lemma outcome_closed: "outcome env opts row f \<Longrightarrow> \<not> still_open (f r)"
  by (cases rule: outcome.cases) (auto simp: set_unresolvable_def set_evaluated_def still_open_def)

lemma outcome_value: "outcome env opts row f \<Longrightarrow> unevaluated (f r) \<Longrightarrow> vd_cf_pnl (f r) = None"
  by (cases rule: outcome.cases)
    (auto simp: set_unresolvable_def set_evaluated_def unevaluated_def
      TERMINAL_NON_EVALUATED_METHODS_def buildCfMethod_def)

lemma update_of_id:
  "distinct (map vd_id rows) \<Longrightarrow> row \<in> set rows \<Longrightarrow>
   update_rows (of_id row) f rows = map (\<lambda>r. if r = row then f row else r) rows"
  by (auto simp: update_rows_def distinct_map dest: inj_onD)

lemma tally_replace:
  "distinct rows \<Longrightarrow> row \<in> set rows \<Longrightarrow>
   tally p (map (\<lambda>r. if r = row then x else r) rows) + (if p row then 1 else 0) =
   tally p rows + (if p x then 1 else 0)"
proof (induction rows)
  case Nil
  then show ?case by simp
next
  case (Cons r rows)
  show ?case
  proof (cases "r = row")
    case True
    with Cons.prems have "map (\<lambda>r. if r = row then x else r) rows = rows"
      by (auto intro: map_idI)
    with True show ?thesis by simp
  next
    case False
    with Cons show ?thesis by simp
  qed
qed

text \<open>A change of one selected row keeps the invariant and moves the two counts by one.\<close>

lemma outcome_ledger:
  assumes ok: "veto_ledger_ok rows" and row: "row \<in> set rows" "backfill_where opts row"
    and f: "outcome env opts row f"
  defines "rows' \<equiv> update_rows (of_id row) f rows"
  shows "veto_ledger_ok rows'"
    and "tally with_value rows' = tally with_value rows + (if with_value (f row) then 1 else 0)"
    and "still_open row \<Longrightarrow> tally still_open rows' + 1 = tally still_open rows"
    and "list_all2 (\<lambda>r r'. r' = r \<or> r = row \<and> r' = f row) rows rows'"
    and "\<And>r. r \<in> set rows \<Longrightarrow> r \<noteq> row \<Longrightarrow> r \<in> set rows'"
proof -
  have d: "distinct (map vd_id rows)" using ok by (simp add: veto_ledger_ok_def)
  then have dr: "distinct rows" by (simp add: distinct_map)
  have e: "rows' = map (\<lambda>r. if r = row then f row else r) rows"
    unfolding rows'_def using d row(1) by (rule update_of_id)
  have ids: "map vd_id rows' = map vd_id rows"
    using outcome_id [OF f] by (simp add: e)
  show "veto_ledger_ok rows'"
    using ok outcome_value [OF f, of row] unfolding veto_ledger_ok_def ids by (auto simp: e)
  have nv: "\<not> with_value row"
    using row ok by (auto simp: backfill_where_def veto_ledger_ok_def unevaluated_def
        TERMINAL_NON_EVALUATED_METHODS_def)
  show "tally with_value rows' = tally with_value rows + (if with_value (f row) then 1 else 0)"
    using tally_replace [OF dr row(1), of with_value "f row"] nv by (simp add: e)
  show "tally still_open rows' + 1 = tally still_open rows" if "still_open row"
    using tally_replace [OF dr row(1), of still_open "f row"] that outcome_closed [OF f]
    by (simp add: e)
  show "list_all2 (\<lambda>r r'. r' = r \<or> r = row \<and> r' = f row) rows rows'"
    by (simp add: e list.rel_map list.rel_refl)
  show "r \<in> set rows \<Longrightarrow> r \<noteq> row \<Longrightarrow> r \<in> set rows'" for r
    by (auto simp: e)
qed

definition changed_as :: "veto_env \<Rightarrow> resolved_options \<Rightarrow> veto_row set \<Rightarrow> veto_row \<Rightarrow> veto_row \<Rightarrow> bool" where
  "changed_as env opts S r r' \<longleftrightarrow> r' = r \<or> (r \<in> S \<and> (\<exists>f. outcome env opts r f \<and> r' = f r))"

abbreviation deferred :: "backfill_summary \<Rightarrow> nat" where
  "deferred s \<equiv> bs_pending s + bs_errors s"

lemma row_step_ledger:
  assumes ok: "veto_ledger_ok (vw_rows w)" and row: "row \<in> set (vw_rows w)" "backfill_where opts row"
    and step: "row_step (vw_env w) opts row s s1 (vw_rows w) (vw_rows w1)"
  shows "veto_ledger_ok (vw_rows w1)" "total s1 = total s + 1"
    and "list_all2 (changed_as (vw_env w) opts {row}) (vw_rows w) (vw_rows w1)"
    and "tally with_value (vw_rows w1) + bs_evaluated s = tally with_value (vw_rows w) + bs_evaluated s1"
    and "still_open row \<Longrightarrow>
       tally still_open (vw_rows w1) + 1 + deferred s = tally still_open (vw_rows w) + deferred s1"
    and "\<And>r. r \<in> set (vw_rows w) \<Longrightarrow> r \<noteq> row \<Longrightarrow> r \<in> set (vw_rows w1)"
proof -
  have "veto_ledger_ok (vw_rows w1) \<and> total s1 = total s + 1 \<and>
    list_all2 (changed_as (vw_env w) opts {row}) (vw_rows w) (vw_rows w1) \<and>
    tally with_value (vw_rows w1) + bs_evaluated s = tally with_value (vw_rows w) + bs_evaluated s1 \<and>
    (still_open row \<longrightarrow>
       tally still_open (vw_rows w1) + 1 + deferred s = tally still_open (vw_rows w) + deferred s1) \<and>
    (\<forall>r\<in>set (vw_rows w). r \<noteq> row \<longrightarrow> r \<in> set (vw_rows w1))"
  proof (cases "vw_rows w1 = vw_rows w \<and>
      (s1 = s\<lparr>bs_pending := bs_pending s + 1\<rparr> \<or> s1 = s\<lparr>bs_errors := bs_errors s + 1\<rparr>)")
    case True
    then show ?thesis using ok by (auto simp: total_def changed_as_def list.rel_refl)
  next
    case False
    then obtain f where f: "outcome (vw_env w) opts row f"
      and rows: "vw_rows w1 = update_rows (of_id row) f (vw_rows w)"
      and s1: "total s1 = total s + 1" "bs_pending s1 = bs_pending s" "bs_errors s1 = bs_errors s"
        "bs_evaluated s1 = bs_evaluated s + (if vd_cf_pnl (f row) = None then 0 else 1)"
      using step unfolding row_step_def by blast
    note led = outcome_ledger [OF ok row f, folded rows]
    have "list_all2 (changed_as (vw_env w) opts {row}) (vw_rows w) (vw_rows w1)"
      using led(4) by (rule list.rel_mono_strong) (use f in \<open>auto simp: changed_as_def\<close>)
    moreover have "still_open row \<Longrightarrow> tally still_open (vw_rows w1) + 1 = tally still_open (vw_rows w)"
      using led(3) by auto
    ultimately show ?thesis
      using led(1,2,5) s1 by auto
  qed
  then show "veto_ledger_ok (vw_rows w1)" "total s1 = total s + 1"
    and "list_all2 (changed_as (vw_env w) opts {row}) (vw_rows w) (vw_rows w1)"
    and "tally with_value (vw_rows w1) + bs_evaluated s = tally with_value (vw_rows w) + bs_evaluated s1"
    and "still_open row \<Longrightarrow>
       tally still_open (vw_rows w1) + 1 + deferred s = tally still_open (vw_rows w) + deferred s1"
    and "\<And>r. r \<in> set (vw_rows w) \<Longrightarrow> r \<noteq> row \<Longrightarrow> r \<in> set (vw_rows w1)"
    by auto
qed

text \<open>Changes of different rows compose.\<close>

lemma changed_as_trans:
  assumes ok: "veto_ledger_ok rows" and todo: "set (row # todo) \<subseteq> set rows" "distinct (row # todo)"
    and a: "list_all2 (changed_as env opts {row}) rows rows1"
    and b: "list_all2 (changed_as env opts (set todo)) rows1 rows2"
  shows "list_all2 (changed_as env opts (set (row # todo))) rows rows2"
proof -
  have "changed_as env opts (set (row # todo)) x z"
    if "changed_as env opts {row} x y" "changed_as env opts (set todo) y z" for x y z
  proof (cases "y = x")
    case True
    with that(2) show ?thesis by (auto simp: changed_as_def)
  next
    case False
    with that(1) obtain f where y: "x = row" "outcome env opts row f" "y = f row"
      by (auto simp: changed_as_def)
    have "y \<notin> set todo"
    proof
      assume y': "y \<in> set todo"
      have "vd_id y = vd_id row" using y outcome_id by simp
      with y' todo(1) ok have "y = row"
        by (auto simp: veto_ledger_ok_def distinct_map dest: inj_onD)
      with y' todo(2) show False by simp
    qed
    with that(2) y show ?thesis by (auto simp: changed_as_def)
  qed
  with a b show ?thesis by (auto simp: list_all2_conv_all_nth)
qed

lemma backfill_rows_sweep:
  assumes "veto_ledger_ok (vw_rows w)" "distinct todo" "set todo \<subseteq> set (vw_rows w)"
    and "\<forall>r\<in>set todo. backfill_where opts r"
  shows "\<exists>s' w'. backfill_rows opts todo s w = (Inr s', w') \<and>
    list_all2 (changed_as (vw_env w) opts (set todo)) (vw_rows w) (vw_rows w') \<and>
    veto_ledger_ok (vw_rows w') \<and> total s' = total s + length todo \<and>
    tally with_value (vw_rows w') + bs_evaluated s = tally with_value (vw_rows w) + bs_evaluated s' \<and>
    (list_all still_open todo \<longrightarrow>
       tally still_open (vw_rows w') + length todo + deferred s = tally still_open (vw_rows w) + deferred s')"
  using assms
proof (induction todo arbitrary: s w)
  case Nil
  then show ?case by (simp add: ret_def changed_as_def list.rel_refl)
next
  case (Cons row todo)
  obtain s1 w1 where run: "guarded_row row opts s w = (Inr s1, w1)" and env: "vw_env w1 = vw_env w"
    and step: "row_step (vw_env w) opts row s s1 (vw_rows w) (vw_rows w1)"
    using guarded_row_step by blast
  have row: "row \<in> set (vw_rows w)" "backfill_where opts row" using Cons.prems by auto
  note st = row_step_ledger [OF Cons.prems(1) row step]
  have "distinct todo" "set todo \<subseteq> set (vw_rows w1)" "\<forall>r\<in>set todo. backfill_where opts r"
    using st(6) Cons.prems by auto
  with st(1) obtain s' w' where run': "backfill_rows opts todo s1 w1 = (Inr s', w')"
    and rest: "list_all2 (changed_as (vw_env w1) opts (set todo)) (vw_rows w1) (vw_rows w')"
      "veto_ledger_ok (vw_rows w')" "total s' = total s1 + length todo"
      "tally with_value (vw_rows w') + bs_evaluated s1 = tally with_value (vw_rows w1) + bs_evaluated s'"
      "list_all still_open todo \<longrightarrow> tally still_open (vw_rows w') + length todo + deferred s1 =
         tally still_open (vw_rows w1) + deferred s'"
    using Cons.IH [of w1 s1] by blast
  have "list_all2 (changed_as (vw_env w) opts (set (row # todo))) (vw_rows w) (vw_rows w')"
    using Cons.prems(1,3,2) st(3) rest(1) unfolding env by (rule changed_as_trans)
  moreover have "backfill_rows opts (row # todo) s w = (Inr s', w')"
    using run by (simp add: await_def run')
  ultimately show ?case
    using rest st(2,4,5) by auto
qed

lemma backfill_sweep:
  assumes "veto_ledger_ok (vw_rows w)"
  shows "case backfill opts w of
      (Inl _, w') \<Rightarrow> vw_rows w' = vw_rows w \<and> ve_fault (vw_env w) (vw_calls w) \<noteq> None
    | (Inr s, w') \<Rightarrow>
        list_all2 (changed_as (vw_env w) (resolveOptions opts)
            {r \<in> set (vw_rows w). backfill_where (resolveOptions opts) r}) (vw_rows w) (vw_rows w') \<and>
        veto_ledger_ok (vw_rows w') \<and>
        total s = tally (backfill_where (resolveOptions opts)) (vw_rows w) \<and>
        tally with_value (vw_rows w') = tally with_value (vw_rows w) + bs_evaluated s \<and>
        (\<not> rs_reprocessInsufficient (resolveOptions opts) \<longrightarrow>
           tally still_open (vw_rows w') = bs_pending s + bs_errors s)"
proof (cases "ve_fault (vw_env w) (vw_calls w)")
  case (Some e)
  then show ?thesis by (simp add: backfill_def await_def v_read_def Let_def)
next
  case None
  let ?o = "resolveOptions opts"
  let ?todo = "filter (backfill_where ?o) (vw_rows w)"
  have "distinct (map vd_id (vw_rows w))" using assms by (simp add: veto_ledger_ok_def)
  then have "distinct ?todo" by (simp add: distinct_map)
  moreover have "set ?todo \<subseteq> set (vw_rows w)" "\<forall>r\<in>set ?todo. backfill_where ?o r" by auto
  moreover note sweep = backfill_rows_sweep [of "v_tock w" ?todo ?o empty_summary, unfolded v_tock_simps]
  ultimately obtain s' w' where run: "backfill_rows ?o ?todo empty_summary (v_tock w) = (Inr s', w')"
    and led: "list_all2 (changed_as (vw_env w) ?o (set ?todo)) (vw_rows w) (vw_rows w')"
      "veto_ledger_ok (vw_rows w')" "total s' = total empty_summary + length ?todo"
      "tally with_value (vw_rows w') + bs_evaluated empty_summary = tally with_value (vw_rows w) + bs_evaluated s'"
    and op: "list_all still_open ?todo \<longrightarrow>
         tally still_open (vw_rows w') + length ?todo + deferred empty_summary =
         tally still_open (vw_rows w) + deferred s'"
    using sweep [OF assms] by blast
  have zero: "total empty_summary = 0" "bs_evaluated empty_summary = 0" "deferred empty_summary = 0"
    by (simp_all add: total_def empty_summary_def)
  have opened: "tally still_open (vw_rows w') = deferred s'" if "\<not> rs_reprocessInsufficient ?o"
  proof -
    have "backfill_where ?o = still_open"
      using that by (auto simp: backfill_where_def still_open_def)
    then have "list_all still_open ?todo" "tally still_open (vw_rows w) = length ?todo"
      by (simp_all add: list_all_iff)
    with op zero(3) show ?thesis by linarith
  qed
  have "backfill opts w = (Inr s', w')"
    using None run by (simp add: backfill_def await_def v_read_def Let_def)
  then show ?thesis
    using led opened by (simp add: zero)
qed

text \<open>C24: A sweep accounts for every decision it selected. \<open>backfill\<close> throws only when the
  selection itself cannot be read (no failure of a single row escapes), and then it has changed
  nothing. Otherwise each selected decision is counted exactly once, as evaluated, insufficient
  data, unsupported action, invalid reference price, pending or error; the number of decisions
  with a counterfactual value grows by exactly \<open>evaluated\<close>; and the ledger keeps its invariant
  (unique ids, no value without an evaluation).\<close>

theorem backfill_accounts_for_every_row:
  assumes "veto_ledger_ok (vw_rows w)" "backfill opts w = (r, w')"
  shows "case r of
      Inl _ \<Rightarrow> ve_fault (vw_env w) (vw_calls w) \<noteq> None \<and> vw_rows w' = vw_rows w
    | Inr s \<Rightarrow> veto_ledger_ok (vw_rows w') \<and>
        bs_evaluated s + bs_insufficientData s + bs_unsupportedAction s + bs_invalidRefPrice s +
          bs_pending s + bs_errors s = tally (backfill_where (resolveOptions opts)) (vw_rows w) \<and>
        tally (\<lambda>d. vd_cf_pnl d \<noteq> None) (vw_rows w') =
          tally (\<lambda>d. vd_cf_pnl d \<noteq> None) (vw_rows w) + bs_evaluated s"
  using backfill_sweep [OF assms(1), of opts] assms(2) by (auto simp: total_def split: sum.splits)

text \<open>C23: Sweeps converge. After a routine sweep (no re-processing of insufficient data) the
  decisions still open are exactly those it reported as pending or failed; when there are none,
  the next routine sweep selects nothing: it returns the empty summary and leaves the ledger as
  it is.\<close>

theorem backfill_converges:
  assumes "veto_ledger_ok (vw_rows w)" "backfill opts w = (Inr s, w')"
    and "\<not> rs_reprocessInsufficient (resolveOptions opts)"
  shows "tally (\<lambda>d. vd_cf_pnl d = None \<and> vd_cf_method d = None) (vw_rows w') =
      bs_pending s + bs_errors s \<and>
    (bs_pending s + bs_errors s = 0 \<and> ve_fault (vw_env w') (vw_calls w') = None \<and>
       \<not> rs_reprocessInsufficient (resolveOptions opts') \<longrightarrow>
     fst (backfill opts' w') = Inr empty_summary \<and> vw_rows (snd (backfill opts' w')) = vw_rows w')"
proof -
  have sw: "veto_ledger_ok (vw_rows w')" "tally still_open (vw_rows w') = bs_pending s + bs_errors s"
    using backfill_sweep [OF assms(1), of opts] assms(2,3) by auto
  have "fst (backfill opts' w') = Inr empty_summary \<and> vw_rows (snd (backfill opts' w')) = vw_rows w'"
    if z: "bs_pending s + bs_errors s = 0" and f: "ve_fault (vw_env w') (vw_calls w') = None"
      and o: "\<not> rs_reprocessInsufficient (resolveOptions opts')"
  proof -
    have "backfill_where (resolveOptions opts') = still_open"
      using o by (auto simp: backfill_where_def still_open_def)
    moreover have "filter still_open (vw_rows w') = []" using sw z by simp
    ultimately show ?thesis
      using f by (simp add: backfill_def await_def v_read_def Let_def ret_def)
  qed
  with sw(2) show ?thesis by (simp add: still_open_def [abs_def])
qed

section \<open>What an evaluation records\<close>

lemma barDurationMs_range: "60000 \<le> barDurationMs tf \<and> barDurationMs tf \<le> 604800000"
  by (auto simp: barDurationMs_def BAR_DURATION_MS_def split: option.splits dest!: map_of_SomeD)

lemma time_exact: "\<bar>t\<bar> \<le> MAX_TIME \<Longrightarrow> of_count t = Fin (of_int t)"
  by (rule of_count_exact) (simp add: MAX_TIME_def)

text \<open>Within the range of dates the maturity test is exact.\<close>

lemma isMature_iff:
  assumes "horizon_ok h n" "\<bar>d\<bar> \<le> MAX_TIME" "\<bar>t\<bar> \<le> MAX_TIME"
  shows "isMature d h tf t \<longleftrightarrow> d + int n * barDurationMs tf \<le> t"
proof -
  have "int n \<le> 500" using assms(1) by (simp add: horizon_ok_def)
  then have "int n * barDurationMs tf \<le> 500 * 604800000"
    by (rule mult_mono) (use barDurationMs_range [of tf] in auto)
  moreover have "0 \<le> int n * barDurationMs tf" using barDurationMs_range [of tf] by simp
  ultimately have n: "int n * barDurationMs tf \<le> 500 * 604800000" "0 \<le> int n * barDurationMs tf"
    by simp_all
  have dur: "of_count (barDurationMs tf) = Fin (of_int (barDurationMs tf))"
    using barDurationMs_range [of tf] by (intro of_count_exact) simp
  have "jmul h (of_count (barDurationMs tf)) = Fin (of_int (int n * barDurationMs tf))"
    using jmul_exact [of "int n" "barDurationMs tf"] n assms(1) by (simp add: dur horizon_ok_def)
  moreover have "jadd (Fin (of_int d)) (Fin (of_int (int n * barDurationMs tf))) =
      Fin (of_int (d + int n * barDurationMs tf))"
    using n assms(2) by (intro jadd_exact) (simp add: MAX_TIME_def)
  ultimately have "isMature d h tf t \<longleftrightarrow> jle (Fin (of_int (d + int n * barDurationMs tf))) (Fin (of_int t))"
    by (simp only: isMature_def Let_def time_exact [OF assms(2)] time_exact [OF assms(3)])
  then show ?thesis by (simp only: jle.simps of_int_le_iff)
qed

text \<open>
  The counterfactual of a decision at a mark price: the return of the proposed direction, less
  the round-trip cost, on the notional of the proposed quantity.
\<close>

definition counterfactual_at :: "jsnum \<Rightarrow> veto_row \<Rightarrow> jsnum \<Rightarrow> jsnum \<Rightarrow> jsnum" where
  "counterfactual_at costBps r ref close =
     jmul (jmul (jsub
       (if vd_action r = ''long'' then jdiv (jsub close ref) ref else jdiv (jsub ref close) ref)
       (jdiv costBps (js 10000))) ref) (vd_proposed_qty r)"

definition marked_to_market ::
  "veto_env \<Rightarrow> resolved_options \<Rightarrow> nat \<Rightarrow> veto_row \<Rightarrow> veto_row \<Rightarrow> bool" where
  "marked_to_market env opts n r r' \<longleftrightarrow>
     (\<exists>ref bars b t k. vd_ref_price r = Some ref \<and> jlt j0 ref \<and> is_finite ref \<and>
        (vd_action r = ''long'' \<or> vd_action r = ''short'') \<and>
        vd_ts r + int n * barDurationMs (rs_timeframe opts) \<le> ve_now env k \<and>
        ve_ohlcv env (Suc k) (vd_symbol r) (rs_timeframe opts)
          (computeNeededFetchLimit (vd_ts r) (rs_horizonBars opts) (rs_timeframe opts) (ve_now env k)) =
          Inr bars \<and>
        kth_bar_after (ve_date env) (vd_ts r) bars (n - 1) b \<and>
        r' = r\<lparr>vd_cf_pnl := Some (counterfactual_at (rs_costBps opts) r ref (ba_close b)),
               vd_cf_method := Some (FixedHorizon (rs_horizonBars opts) (rs_timeframe opts) (rs_costBps opts)),
               vd_cf_evaluated_at := Some t\<rparr>)"

definition marked_terminal ::
  "veto_env \<Rightarrow> resolved_options \<Rightarrow> nat \<Rightarrow> veto_row \<Rightarrow> veto_row \<Rightarrow> bool" where
  "marked_terminal env opts n r r' \<longleftrightarrow>
     (\<exists>m t. r' = r\<lparr>vd_cf_pnl := None, vd_cf_method := Some m, vd_cf_evaluated_at := Some t\<rparr> \<and>
        (m = UnsupportedAction \<and> vd_action r \<noteq> ''long'' \<and> vd_action r \<noteq> ''short'' \<or>
         m = InvalidRefPrice \<and> (\<forall>p. vd_ref_price r = Some p \<longrightarrow> \<not> (jlt j0 p \<and> is_finite p)) \<or>
         m = InsufficientData \<and>
           (\<exists>bars. fetched env opts r bars \<and> bars_in (ve_date env) (\<lambda>ms. vd_ts r < ms) bars < n)))"

lemma outcome_marks:
  assumes "outcome env opts r f" "horizon_ok (rs_horizonBars opts) n"
    and "\<bar>vd_ts r\<bar> \<le> MAX_TIME" "\<And>k. \<bar>ve_now env k\<bar> \<le> MAX_TIME"
  shows "marked_terminal env opts n r (f r) \<or> marked_to_market env opts n r (f r)"
  using assms(1)
proof cases
  case (evaluated p bars b t)
  obtain k where k: "isMature (vd_ts r) (rs_horizonBars opts) (rs_timeframe opts) (ve_now env k)"
    and bars: "ve_ohlcv env (Suc k) (vd_symbol r) (rs_timeframe opts)
          (computeNeededFetchLimit (vd_ts r) (rs_horizonBars opts) (rs_timeframe opts) (ve_now env k)) =
        Inr bars"
    using evaluated(3) unfolding fetched_def by blast
  have "vd_ts r + int n * barDurationMs (rs_timeframe opts) \<le> ve_now env k"
    using k isMature_iff [OF assms(2,3,4)] by blast
  moreover have "kth_bar_after (ve_date env) (vd_ts r) bars (n - 1) b"
    using evaluated(4) by (rule locateMarkBar_bar [OF assms(2,3)])
  moreover have "f r = r\<lparr>vd_cf_pnl := Some (counterfactual_at (rs_costBps opts) r p (ba_close b)),
       vd_cf_method := Some (FixedHorizon (rs_horizonBars opts) (rs_timeframe opts) (rs_costBps opts)),
       vd_cf_evaluated_at := Some t\<rparr>"
    by (simp add: evaluated(1) set_evaluated_def counterfactual_def counterfactual_at_def
        computeNetUnitReturn_def buildCfMethod_def Let_def)
  ultimately show ?thesis
    using evaluated(2) bars unfolding marked_to_market_def priced_def by blast
next
  case (insufficient p bars t)
  then have "bars_in (ve_date env) (\<lambda>ms. vd_ts r < ms) bars < n"
    using locateMarkBar_none [OF assms(2,3)] by blast
  with insufficient show ?thesis by (auto simp: marked_terminal_def set_unresolvable_def)
qed (auto simp: marked_terminal_def set_unresolvable_def priced_def)

text \<open>C22: A sweep evaluates without lookahead and touches nothing else. Position by position, a
  decision either stays as it was, or it was selected (open, or insufficient data when the caller
  asks to re-process) and only its three counterfactual columns change: it becomes terminal for a
  stated reason with no value, or it is marked to market. A mark is taken only once the horizon
  has passed, at the close of the bar with exactly \<open>n - 1\<close> predecessors after the decision, never
  at or before the decision, and its value is the net return of the proposed direction on the
  proposed notional.\<close>

theorem backfill_marks_without_lookahead:
  assumes "veto_ledger_ok (vw_rows w)" "horizon_ok (rs_horizonBars (resolveOptions opts)) n"
    and "\<forall>r\<in>set (vw_rows w). \<bar>vd_ts r\<bar> \<le> MAX_TIME" "\<forall>k. \<bar>ve_now (vw_env w) k\<bar> \<le> MAX_TIME"
  shows "list_all2 (\<lambda>r r'. r' = r \<or>
      backfill_where (resolveOptions opts) r \<and>
      (marked_terminal (vw_env w) (resolveOptions opts) n r r' \<or>
       marked_to_market (vw_env w) (resolveOptions opts) n r r'))
    (vw_rows w) (vw_rows (snd (backfill opts w)))"
proof (cases "backfill opts w")
  case (Pair r w')
  show ?thesis
  proof (cases r)
    case (Inl e)
    with Pair have "vw_rows w' = vw_rows w" using backfill_sweep [OF assms(1), of opts] by simp
    with Pair show ?thesis by (simp add: list.rel_refl)
  next
    case (Inr s)
    with Pair have "list_all2 (changed_as (vw_env w) (resolveOptions opts)
        {r \<in> set (vw_rows w). backfill_where (resolveOptions opts) r}) (vw_rows w) (vw_rows w')"
      using backfill_sweep [OF assms(1), of opts] by simp
    then show ?thesis
      unfolding Pair snd_conv
    proof (rule list.rel_mono_strong)
      fix x y
      assume x: "x \<in> set (vw_rows w)" and "changed_as (vw_env w) (resolveOptions opts)
        {r \<in> set (vw_rows w). backfill_where (resolveOptions opts) r} x y"
      then consider "y = x"
        | f where "backfill_where (resolveOptions opts) x" "outcome (vw_env w) (resolveOptions opts) x f" "y = f x"
        by (auto simp: changed_as_def)
      then show "y = x \<or> backfill_where (resolveOptions opts) x \<and>
        (marked_terminal (vw_env w) (resolveOptions opts) n x y \<or>
         marked_to_market (vw_env w) (resolveOptions opts) n x y)"
      proof cases
        case 2
        then show ?thesis
          using outcome_marks [OF 2(2) assms(2)] assms(3,4) x by blast
      qed simp
    qed
  qed
qed

section \<open>The fetch window reaches the decision\<close>

text \<open>A provider's history: every bar has a readable time, a bar's length apart or more.\<close>

definition history :: "(string \<Rightarrow> int option) \<Rightarrow> int \<Rightarrow> ohlcv_bar list \<Rightarrow> int list \<Rightarrow> bool" where
  "history other dur bars ts \<longleftrightarrow>
     map (\<lambda>b. parseTsMs other (ba_ts b)) bars = map Some ts \<and>
     sorted_wrt (\<lambda>s t. s + dur \<le> t) ts"

text \<open>At most one more bar than whole bar lengths fits into a stretch of time.\<close>

lemma spaced_count:
  assumes "sorted_wrt (\<lambda>s t. s + dur \<le> t) ts" "0 < dur" "\<forall>t\<in>set ts. d < t \<and> t \<le> now_ms" "ts \<noteq> []"
  shows "int (length ts - 1) * dur < now_ms - d"
  using assms
proof (induction ts arbitrary: d)
  case Nil
  then show ?case by simp
next
  case (Cons t ts)
  show ?case
  proof (cases "ts = []")
    case True
    with Cons.prems show ?thesis by simp
  next
    case False
    have "\<forall>u\<in>set ts. t + dur - 1 < u \<and> u \<le> now_ms" using Cons.prems by force
    then have "int (length ts - 1) * dur < now_ms - (t + dur - 1)"
      using Cons.IH [of "t + dur - 1"] Cons.prems False by simp
    moreover have "int (length (t # ts) - 1) = int (length ts - 1) + 1" using False by (cases ts) auto
    then have "int (length (t # ts) - 1) * dur = int (length ts - 1) * dur + dur"
      by (simp only: distrib_right mult_1)
    moreover have "d < t" using Cons.prems(3) by simp
    ultimately show ?thesis by linarith
  qed
qed

lemma prefix_before:
  assumes "sorted_wrt (\<lambda>s t. s + dur \<le> t) ts" "(0::int) \<le> dur" "tally (\<lambda>t. d < t) ts \<le> m"
  shows "filter (\<lambda>t. d < t) (take (length ts - m) ts) = []"
  using assms
proof (induction ts)
  case Nil
  then show ?case by simp
next
  case (Cons t ts)
  show ?case
  proof (cases "d < t")
    case True
    with Cons.prems(1,2) have "\<forall>u\<in>set ts. d < u" by auto
    then have "filter (\<lambda>t. d < t) ts = ts" by (simp add: filter_id_conv)
    with True Cons.prems(3) show ?thesis by simp
  next
    case False
    with Cons show ?thesis by (cases "length ts < m") (auto simp: Suc_diff_le not_less)
  qed
qed

lemma bars_in_map:
  "map (\<lambda>b. parseTsMs other (ba_ts b)) bars = map Some ts \<Longrightarrow> bars_in other p bars = tally p ts"
proof (induction bars arbitrary: ts)
  case Nil
  then show ?case by (simp add: bars_in_def)
next
  case (Cons b bars)
  from Cons.prems obtain u us where ts: "ts = u # us" and b: "parseTsMs other (ba_ts b) = Some u"
    and "map (\<lambda>b. parseTsMs other (ba_ts b)) bars = map Some us"
    by (cases ts) auto
  then have "bars_in other p bars = tally p us" by (intro Cons.IH)
  with ts b show ?case by (simp add: bars_in_def bar_time_in_def)
qed

lemma bars_in_history: "history other dur bars ts \<Longrightarrow> bars_in other p bars = tally p ts"
  by (rule bars_in_map) (simp add: history_def)

lemma stamped_append: "stamped other (xs @ ys) = stamped other xs @ stamped other ys"
  by (induction xs) (simp_all add: map_filter_simps split: option.splits)

text \<open>A window that keeps at least the bars after the decision changes nothing that is read.\<close>

lemma bars_after_drop:
  assumes h: "history other dur bars ts" "0 \<le> dur"
    and m: "tally (\<lambda>t. d < t) ts \<le> m"
  shows "bars_after other d (drop (length bars - m) bars) = bars_after other d bars"
proof -
  let ?k = "length bars - m"
  have p: "map (\<lambda>b. parseTsMs other (ba_ts b)) bars = map Some ts"
    and s: "sorted_wrt (\<lambda>s t. s + dur \<le> t) ts" using h by (simp_all add: history_def)
  then have len: "length ts = length bars" by (metis length_map)
  have "filter (\<lambda>t. d < t) (take ?k ts) = []"
    using prefix_before [OF s h(2) m] by (simp add: len)
  then have late: "\<forall>t\<in>set (take ?k ts). \<not> d < t" by (simp add: filter_empty_conv)
  have "map (\<lambda>b. parseTsMs other (ba_ts b)) (take ?k bars) = map Some (take ?k ts)"
    using p by (metis take_map)
  then have "parseTsMs other (ba_ts b) \<in> Some ` set (take ?k ts)" if "b \<in> set (take ?k bars)" for b
    using that by (metis image_eqI list.set_map)
  with late have none: "filter (\<lambda>x. d < snd x) (stamped other (take ?k bars)) = []"
    by (fastforce simp: filter_empty_conv set_stamped)
  have "stamped other bars = stamped other (take ?k bars) @ stamped other (drop ?k bars)"
    by (metis append_take_drop_id stamped_append)
  with none show ?thesis by (simp add: bars_after_def)
qed

lemma floor_le_quotient:
  assumes "0 \<le> x" "0 < dur"
  shows "x < dur * (x div dur + 1)" "dur * (x div dur) \<le> (x::int)"
proof -
  have e: "dur * (x div dur) + x mod dur = x" by simp
  have r: "0 \<le> x mod dur" "x mod dur < dur" using assms by simp_all
  show "x < dur * (x div dur + 1)" unfolding distrib_left using e r by linarith
  show "dur * (x div dur) \<le> x" using e r by linarith
qed

text \<open>The rounded quotient, rounded up, is the exact one up to the rounding of its last place.\<close>

lemma needed_bars:
  assumes h: "horizon_ok h n" and d: "\<bar>d\<bar> \<le> MAX_TIME" "\<bar>t\<bar> \<le> MAX_TIME" "d \<le> t"
    and small: "\<lceil>(of_int (t - d) :: rat) / of_int (barDurationMs tf)\<rceil> + int n + 20 \<le> 1500"
  obtains m where "computeNeededFetchLimit d h tf t = Fin (of_nat m)"
    and "int m \<ge> (t - d) div barDurationMs tf + int n + 20" "m > 0"
proof -
  let ?D = "barDurationMs tf"
  define q where "q = (of_int (t - d) :: rat) / of_int ?D"
  have D: "0 < ?D" "?D \<le> 604800000" using barDurationMs_range [of tf] by auto
  have n: "1 \<le> n" "n \<le> 500" using h by (auto simp: horizon_ok_def)
  have fl: "\<lfloor>q\<rfloor> = (t - d) div ?D" by (simp only: q_def floor_divide_of_int_eq)
  have q0: "0 \<le> q" using d(3) D by (simp add: q_def)
  have ce: "\<lceil>q\<rceil> \<le> 1480" using small n unfolding q_def [symmetric] by linarith
  define r where "r = round64 q"
  have "of_int \<lfloor>q\<rfloor> \<le> r"
    using round64_mono [of "of_int \<lfloor>q\<rfloor>" q] round64_of_int [of "\<lfloor>q\<rfloor>"] q0 ce
    by (simp add: r_def)
  then have "(of_int \<lfloor>q\<rfloor> :: rat) \<le> of_int \<lceil>r\<rceil>"
    using le_of_int_ceiling by (rule order_trans)
  moreover have "r \<le> of_int \<lceil>q\<rceil>"
    using round64_mono [of q "of_int \<lceil>q\<rceil>"] round64_of_int [of "\<lceil>q\<rceil>"] q0 ce
    by (simp add: r_def)
  ultimately have r: "\<lfloor>q\<rfloor> \<le> \<lceil>r\<rceil>" "\<lceil>r\<rceil> \<le> \<lceil>q\<rceil>" "0 \<le> r"
    using q0 by (simp_all only: of_int_le_iff ceiling_le_iff r_def round64_nonneg)
  let ?c = "\<lceil>r\<rceil>"
  have c: "0 \<le> ?c" "?c + int n + 20 \<le> 1500"
    using r ce small unfolding q_def [symmetric] by linarith+
  have "\<bar>t - d\<bar> \<le> 2 ^ 53"
  proof -
    have "of_int (t - d) = q * of_int ?D" using D by (simp add: q_def)
    also have "\<dots> \<le> 1480 * 604800000"
      using q0 D ce by (intro mult_mono) (auto simp: ceiling_le_iff)
    finally have "t - d \<le> 1480 * 604800000" by linarith
    with d(3) show ?thesis by simp
  qed
  then have "jsub (of_count t) (of_count d) = Fin (of_int (t - d))"
    unfolding time_exact [OF d(1)] time_exact [OF d(2)] by (rule jsub_exact)
  moreover have "of_count ?D = Fin (of_int ?D)" using D by (intro of_count_exact) simp
  moreover have "jdiv (Fin (of_int (t - d))) (Fin (of_int ?D)) = Fin r"
  proof -
    have "\<lceil>r\<rceil> \<le> 1480" using c n by linarith
    then have "r \<le> 1480" by (simp add: ceiling_le_iff)
    with r(3) have "\<not> max_finite < r" "\<not> r < - max_finite"
      by (auto simp: max_finite_def not_less)
    moreover have "(of_int ?D :: rat) \<noteq> 0" using D by simp
    ultimately show ?thesis by (simp add: mk_num_def clamp_num_def r_def q_def)
  qed
  moreover have "jmax (Fin (of_int ?c)) j0 = Fin (of_int ?c)" using c by (simp add: jmax_def)
  moreover have "jadd (Fin (of_int ?c)) h = Fin (of_int (?c + int n))"
    using jadd_exact [of ?c "int n"] c h by (simp add: horizon_ok_def)
  moreover have "jadd (Fin (of_int (?c + int n))) FETCH_LIMIT_BUFFER = Fin (of_int (?c + int n + 20))"
    using jadd_exact [of "?c + int n" 20] c mk_num_of_int [of 20] by (simp add: FETCH_LIMIT_BUFFER_def)
  moreover have "jmin (Fin (of_int (?c + int n + 20))) MAX_FETCH_LIMIT = Fin (of_int (?c + int n + 20))"
    using c mk_num_of_int [of 1500] by (simp add: jmin_def MAX_FETCH_LIMIT_def)
  ultimately have "computeNeededFetchLimit d h tf t = Fin (of_int (?c + int n + 20))"
    by (simp only: computeNeededFetchLimit_def Let_def jceil.simps)
  then have l: "computeNeededFetchLimit d h tf t = Fin (of_nat (nat (?c + int n + 20)))"
    using c by simp
  have pos: "0 < ?c + int n + 20" using c(1) by linarith
  show thesis
  proof (rule that [OF l])
    show "(t - d) div ?D + int n + 20 \<le> int (nat (?c + int n + 20))"
      using pos r(1) unfolding fl by linarith
  qed (use pos in simp)
qed

text \<open>The fetch window reaches back to the decision. When the provider's bars are at least a
  bar length apart, none is later than now, and the computed number of bars is below the cap of
  1500, then keeping only that many of the latest bars does not change which bar a decision is
  marked at: it is the one found in the complete history.\<close>

theorem fetch_window_reaches_the_decision:
  assumes "horizon_ok h n" "\<bar>d\<bar> \<le> MAX_TIME" "\<bar>t\<bar> \<le> MAX_TIME" "d \<le> t"
    and "\<lceil>(of_int (t - d) :: rat) / of_int (barDurationMs tf)\<rceil> + int n + 20 \<le> 1500"
    and hist: "history other (barDurationMs tf) bars ts" and past: "\<forall>u\<in>set ts. u \<le> t"
  shows "locateMarkBar other (honor_limit (computeNeededFetchLimit d h tf t) bars) (toISOString d) h =
    locateMarkBar other bars (toISOString d) h"
proof -
  let ?D = "barDurationMs tf"
  have D: "0 < ?D" using barDurationMs_range [of tf] by auto
  obtain m where m: "computeNeededFetchLimit d h tf t = Fin (of_nat m)" "m > 0"
    and big: "(t - d) div ?D + int n + 20 \<le> int m"
    using needed_bars [OF assms(1-5)] by metis
  have sorted: "sorted_wrt (\<lambda>s u. s + ?D \<le> u) ts" using hist by (simp add: history_def)
  have "int (tally (\<lambda>u. d < u) ts) \<le> (t - d) div ?D + 1"
  proof (cases "filter (\<lambda>u. d < u) ts = []")
    case True
    then show ?thesis using assms(4) D by (simp add: pos_imp_zdiv_nonneg_iff)
  next
    case False
    have "sorted_wrt (\<lambda>s u. s + ?D \<le> u) (filter (\<lambda>u. d < u) ts)"
      using sorted by (rule sorted_wrt_filter)
    then have "int (tally (\<lambda>u. d < u) ts - 1) * ?D < t - d"
      using D False past by (intro spaced_count) auto
    then have "(int (tally (\<lambda>u. d < u) ts - 1) * ?D) div ?D \<le> (t - d) div ?D"
      using D by (intro zdiv_mono1) auto
    then have "int (tally (\<lambda>u. d < u) ts - 1) \<le> (t - d) div ?D" using D by simp
    then show ?thesis by linarith
  qed
  with big have k: "tally (\<lambda>u. d < u) ts \<le> m" by linarith
  have "honor_limit (Fin (of_nat m)) bars = drop (length bars - m) bars \<or>
      honor_limit (Fin (of_nat m)) bars = bars"
    by (simp add: honor_limit_def)
  then have "bars_after other d (honor_limit (Fin (of_nat m)) bars) = bars_after other d bars"
    using bars_after_drop [OF hist _ k] D by auto
  then show ?thesis
    using assms(2) by (simp add: m locateMarkBar_def parseTsMs_def iso_roundtrip)
qed

text \<open>
  Beyond the cap the window no longer reaches back: every fetched bar is after the decision, and
  the bar counted from the start of the window is taken for the one counted from the decision.
\<close>

lemma stamped_zip:
  "map (\<lambda>b. parseTsMs other (ba_ts b)) bars = map Some ts \<Longrightarrow> stamped other bars = zip bars ts"
proof (induction bars arbitrary: ts)
  case Nil
  then show ?case by (simp add: map_filter_simps)
next
  case (Cons b bars)
  from Cons.prems obtain u us where "ts = u # us" "parseTsMs other (ba_ts b) = Some u"
    and "map (\<lambda>b. parseTsMs other (ba_ts b)) bars = map Some us"
    by (cases ts) auto
  with Cons.IH show ?case by (simp add: map_filter_simps)
qed

lemma suffix_after:
  assumes "sorted_wrt (\<lambda>s t. s + dur \<le> t) (map snd xs)" "(0::int) \<le> dur"
  shows "filter (\<lambda>x. d < snd x) xs = drop (length xs - tally (\<lambda>x. d < snd x) xs) xs"
  using assms
proof (induction xs)
  case Nil
  then show ?case by simp
next
  case (Cons x xs)
  show ?case
  proof (cases "d < snd x")
    case True
    with Cons.prems have "\<forall>y\<in>set xs. d < snd y" by auto
    then have "filter (\<lambda>x. d < snd x) xs = xs" by (simp add: filter_id_conv)
    with True show ?thesis by simp
  next
    case False
    have "tally (\<lambda>x. d < snd x) xs \<le> length xs" by (rule length_filter_le)
    with False Cons show ?thesis by (simp add: Suc_diff_le)
  qed
qed

lemma bars_after_history:
  assumes "history other dur bars ts" "0 \<le> dur"
  shows "bars_after other d bars = drop (length bars - bars_in other (\<lambda>t. d < t) bars) (zip bars ts)"
proof -
  have p: "map (\<lambda>b. parseTsMs other (ba_ts b)) bars = map Some ts"
    and s: "sorted_wrt (\<lambda>s t. s + dur \<le> t) ts" using assms(1) by (simp_all add: history_def)
  then have len: "length bars = length ts" by (metis length_map)
  then have "map snd (zip bars ts) = ts" by simp
  with s assms(2) have suf: "filter (\<lambda>x. d < snd x) (zip bars ts) =
      drop (length bars - bars_in other (\<lambda>t. d < t) bars) (zip bars ts)"
    using suffix_after [of dur "zip bars ts" d] length_filter_stamped [of "\<lambda>t. d < t" other bars]
    by (simp add: len stamped_zip [OF p])
  have "sorted ts" using s by (rule sorted_wrt_mono_rel [rotated]) (use assms(2) in auto)
  then have "sorted (map snd (drop (length bars - bars_in other (\<lambda>t. d < t) bars) (zip bars ts)))"
    using \<open>map snd (zip bars ts) = ts\<close> by (simp add: drop_map [symmetric] sorted_wrt_drop)
  then show ?thesis
    by (simp add: bars_after_def stamped_zip [OF p] suf sort_key_id_if_sorted)
qed

theorem capped_window_marks_a_later_bar:
  assumes "horizon_ok h n" "\<bar>d\<bar> \<le> MAX_TIME" "history other dur bars ts" "0 \<le> dur"
    and many: "1500 \<le> bars_in other (\<lambda>t. d < t) bars"
    and mark: "locateMarkBar other (honor_limit MAX_FETCH_LIMIT bars) (toISOString d) h = Inr (Some b)"
  shows "kth_bar_after other d bars (bars_in other (\<lambda>t. d < t) bars - 1500 + (n - 1)) b"
proof -
  let ?c = "bars_in other (\<lambda>t. d < t) bars"
  let ?w = "honor_limit MAX_FETCH_LIMIT bars"
  have p: "map (\<lambda>b. parseTsMs other (ba_ts b)) bars = map Some ts"
    and s: "sorted_wrt (\<lambda>s t. s + dur \<le> t) ts" using assms(3) by (simp_all add: history_def)
  then have len: "length bars = length ts" by (metis length_map)
  have cl: "?c \<le> length bars" by (simp add: bars_in_def)
  have "of_count (int (length bars)) \<noteq> NaN" by (simp add: of_count_def)
  have w: "?w = drop (length bars - 1500) bars"
  proof (cases "length bars = 1500")
    case True
    then show ?thesis
      using of_count_exact [of 1500] mk_num_of_int [of 1500]
      by (simp add: honor_limit_def MAX_FETCH_LIMIT_def)
  next
    case False
    with many cl have "1501 \<le> int (length bars)" by simp
    then have "jle (of_count 1501) (of_count (int (length bars)))"
      by (simp add: of_count_def mk_num_mono)
    then have "jlt (Fin 1500) (of_count (int (length bars)))"
      using of_count_exact [of 1501] by (auto intro: jlt_jle_trans [of _ "Fin 1501"])
    then show ?thesis using mk_num_of_int [of 1500] by (simp add: honor_limit_def MAX_FETCH_LIMIT_def)
  qed
  have hw: "history other dur ?w (drop (length bars - 1500) ts)"
    using p s by (simp add: history_def w drop_map [symmetric] sorted_wrt_drop)
  have "zip ?w (drop (length bars - 1500) ts) = drop (length bars - 1500) (zip bars ts)"
    by (simp add: w drop_zip)
  moreover have "drop (length bars - 1500) (zip bars ts) = drop (?c - 1500) (bars_after other d bars)"
    using many cl by (simp add: bars_after_history [OF assms(3,4)])
  moreover have "bars_in other (\<lambda>t. d < t) ?w = length ?w"
  proof -
    have "set (drop (?c - 1500) (bars_after other d bars)) \<subseteq> {x. d < snd x}"
      by (auto simp: bars_after_def dest!: in_set_dropD)
    then have "filter (\<lambda>x. d < snd x) (stamped other ?w) = stamped other ?w"
      using calculation hw by (auto simp: history_def stamped_zip filter_id_conv)
    moreover have "length (stamped other ?w) = length ?w"
      using hw len by (simp add: history_def stamped_zip w)
    ultimately show ?thesis
      using length_filter_stamped [of "\<lambda>t. d < t" other ?w] by simp
  qed
  ultimately have win: "bars_after other d ?w = drop (?c - 1500) (bars_after other d bars)"
    by (simp add: bars_after_history [OF hw assms(4)])
  have lenw: "length (bars_after other d ?w) = 1500"
    using many by (simp add: win length_bars_after)
  have n: "1 \<le> n" "n \<le> 500" using assms(1) by (auto simp: horizon_ok_def)
  have "b = fst (bars_after other d ?w ! (n - 1))"
    using mark by (simp add: locateMarkBar_cases [OF assms(1,2)] split: if_splits)
  also have "\<dots> = fst (bars_after other d bars ! (?c - 1500 + (n - 1)))"
    using n many lenw by (simp add: win length_bars_after)
  finally show ?thesis
    using nth_bars_after [of "?c - 1500 + (n - 1)" other d bars] n many
    by (simp add: length_bars_after)
qed

end
