(* ===== verification/VetoReports.thy ===== *)
theory VetoReports
  imports VetoAnalyzer
begin

text \<open>
  The two reports of the veto analyzer against what they promise to be: the value report is the
  sum of the decisions' contributions, split by sign and by discipline, and the plugin report is
  the ledger grouped by plugin, in descending order of value.
\<close>

section \<open>The veto value report\<close>

definition evaluated_row :: "veto_row \<Rightarrow> bool" where
  "evaluated_row r \<longleftrightarrow> vd_cf_method r \<noteq> Some UnsupportedAction \<and>
     vd_cf_method r \<noteq> Some InsufficientData \<and> vd_cf_pnl r \<noteq> None"

lemma report_rows_Nil [simp]: "report_rows [] = empty_metrics"
  by (simp add: report_rows_def)

lemma report_rows_snoc [simp]: "report_rows (rows @ [r]) = accumulateRow r (report_rows rows)"
  by (simp add: report_rows_def)

lemma accumulateRow_skip:
  "\<not> evaluated_row r \<Longrightarrow>
     vm_net_value (accumulateRow r m) = vm_net_value m \<and>
     vm_losses_avoided (accumulateRow r m) = vm_losses_avoided m \<and>
     vm_profits_forgone (accumulateRow r m) = vm_profits_forgone m \<and>
     vm_by_discipline (accumulateRow r m) = vm_by_discipline m \<and>
     vm_evaluated_count (accumulateRow r m) = vm_evaluated_count m"
  by (auto simp: accumulateRow_def count_verdict_def evaluated_row_def Let_def split: option.splits)

lemma accumulateRow_add:
  assumes "evaluated_row r" "contributionFor r (or_zero (vd_cf_pnl r)) = c"
  shows "vm_net_value (accumulateRow r m) = jadd (vm_net_value m) c"
    "vm_losses_avoided (accumulateRow r m) =
       (if jlt j0 c then jadd (vm_losses_avoided m) c else vm_losses_avoided m)"
    "vm_profits_forgone (accumulateRow r m) =
       (if jlt c j0 then jadd (vm_profits_forgone m) c else vm_profits_forgone m)"
    "vm_by_discipline (accumulateRow r m) d =
       (if vd_discipline r = Some d \<and> d \<noteq> '''' then Some (jadd (or_zero (vm_by_discipline m d)) c)
        else vm_by_discipline m d)"
    "vm_evaluated_count (accumulateRow r m) = vm_evaluated_count m + 1"
proof -
  obtain p where p: "vd_cf_pnl r = Some p" using assms(1) by (auto simp: evaluated_row_def)
  let ?m = "count_verdict r m"
  have keep: "vm_net_value ?m = vm_net_value m" "vm_losses_avoided ?m = vm_losses_avoided m"
    "vm_profits_forgone ?m = vm_profits_forgone m" "vm_by_discipline ?m = vm_by_discipline m"
    "vm_evaluated_count ?m = vm_evaluated_count m"
    by (simp_all add: count_verdict_def)
  have asym: "jlt j0 c \<Longrightarrow> \<not> jlt c j0" by (cases c) auto
  have "accumulateRow r m = add_contribution r c ?m"
    using assms by (simp add: accumulateRow_def evaluated_row_def p or_zero_def)
  then show "vm_net_value (accumulateRow r m) = jadd (vm_net_value m) c"
    "vm_losses_avoided (accumulateRow r m) =
       (if jlt j0 c then jadd (vm_losses_avoided m) c else vm_losses_avoided m)"
    "vm_profits_forgone (accumulateRow r m) =
       (if jlt c j0 then jadd (vm_profits_forgone m) c else vm_profits_forgone m)"
    "vm_by_discipline (accumulateRow r m) d =
       (if vd_discipline r = Some d \<and> d \<noteq> '''' then Some (jadd (or_zero (vm_by_discipline m d)) c)
        else vm_by_discipline m d)"
    "vm_evaluated_count (accumulateRow r m) = vm_evaluated_count m + 1"
    using asym by (auto simp: add_contribution_def add_discipline_def Let_def keep split: option.splits)
qed

lemma accumulateRow_counts:
  "vm_approved (accumulateRow r m) = vm_approved m + (if vd_verdict r = ''approved'' then 1 else 0)"
  "vm_blocked (accumulateRow r m) = vm_blocked m + (if vd_verdict r = ''blocked'' then 1 else 0)"
  "vm_modified (accumulateRow r m) = vm_modified m + (if vd_verdict r = ''modified'' then 1 else 0)"
  "vm_unsupported_action_count (accumulateRow r m) =
     vm_unsupported_action_count m + (if vd_cf_method r = Some UnsupportedAction then 1 else 0)"
  "vm_insufficient_data_count (accumulateRow r m) =
     vm_insufficient_data_count m + (if vd_cf_method r = Some InsufficientData then 1 else 0)"
  by (auto simp: accumulateRow_def count_verdict_def add_contribution_def add_discipline_def Let_def
      split: option.splits)

lemma report_counts:
  "vm_approved (report_rows rows) = tally (\<lambda>r. vd_verdict r = ''approved'') rows"
  "vm_blocked (report_rows rows) = tally (\<lambda>r. vd_verdict r = ''blocked'') rows"
  "vm_modified (report_rows rows) = tally (\<lambda>r. vd_verdict r = ''modified'') rows"
  "vm_unsupported_action_count (report_rows rows) =
     tally (\<lambda>r. vd_cf_method r = Some UnsupportedAction) rows"
  "vm_insufficient_data_count (report_rows rows) =
     tally (\<lambda>r. vd_cf_method r = Some InsufficientData) rows"
  "vm_evaluated_count (report_rows rows) = tally evaluated_row rows"
proof (induction rows rule: rev_induct)
  case Nil
  { case 1 show ?case by (simp add: empty_metrics_def)
  next case 2 show ?case by (simp add: empty_metrics_def)
  next case 3 show ?case by (simp add: empty_metrics_def)
  next case 4 show ?case by (simp add: empty_metrics_def)
  next case 5 show ?case by (simp add: empty_metrics_def)
  next case 6 show ?case by (simp add: empty_metrics_def) }
next
  case (snoc r rows)
  { case 1 show ?case by (simp add: accumulateRow_counts snoc)
  next case 2 show ?case by (simp add: accumulateRow_counts snoc)
  next case 3 show ?case by (simp add: accumulateRow_counts snoc)
  next case 4 show ?case by (simp add: accumulateRow_counts snoc)
  next case 5 show ?case by (simp add: accumulateRow_counts snoc)
  next case 6 show ?case
      using accumulateRow_add(5) [of r _ "report_rows rows"] accumulateRow_skip [of r "report_rows rows"]
      by (auto simp: snoc) }
qed

text \<open>With whole contributions within the 53-bit range every sum is exact.\<close>

definition pos_part :: "int \<Rightarrow> int" where
  "pos_part x = (if 0 < x then x else 0)"

definition neg_part :: "int \<Rightarrow> int" where
  "neg_part x = (if x < 0 then x else 0)"

lemma sum_parts: "(\<Sum>x\<leftarrow>xs. pos_part (v x)) + (\<Sum>x\<leftarrow>xs. neg_part (v x)) = (\<Sum>x\<leftarrow>xs. v x)"
  by (induction xs) (auto simp: pos_part_def neg_part_def)

lemma abs_sum_list_le:
  fixes v :: "'a \<Rightarrow> int"
  shows "\<bar>\<Sum>x\<leftarrow>xs. v x\<bar> \<le> (\<Sum>x\<leftarrow>xs. \<bar>v x\<bar>)"
    and "\<bar>\<Sum>x\<leftarrow>xs. pos_part (v x)\<bar> \<le> (\<Sum>x\<leftarrow>xs. \<bar>v x\<bar>)"
    and "\<bar>\<Sum>x\<leftarrow>xs. neg_part (v x)\<bar> \<le> (\<Sum>x\<leftarrow>xs. \<bar>v x\<bar>)"
    and "\<bar>\<Sum>x\<leftarrow>filter p xs. v x\<bar> \<le> (\<Sum>x\<leftarrow>xs. \<bar>v x\<bar>)"
  by (induction xs) (auto simp: pos_part_def neg_part_def)

definition in_discipline :: "string \<Rightarrow> veto_row \<Rightarrow> bool" where
  "in_discipline d r \<longleftrightarrow> vd_discipline r = Some d"

lemma report_sums:
  assumes "\<forall>r\<in>set rows. evaluated_row r \<longrightarrow>
      contributionFor r (or_zero (vd_cf_pnl r)) = Fin (of_int (v r))"
    and "(\<Sum>r\<leftarrow>filter evaluated_row rows. \<bar>v r\<bar>) \<le> 2 ^ 53"
  shows "vm_net_value (report_rows rows) = Fin (of_int (\<Sum>r\<leftarrow>filter evaluated_row rows. v r)) \<and>
    vm_losses_avoided (report_rows rows) =
      Fin (of_int (\<Sum>r\<leftarrow>filter evaluated_row rows. pos_part (v r))) \<and>
    vm_profits_forgone (report_rows rows) =
      Fin (of_int (\<Sum>r\<leftarrow>filter evaluated_row rows. neg_part (v r))) \<and>
    (\<forall>d. d \<noteq> '''' \<longrightarrow> or_zero (vm_by_discipline (report_rows rows) d) =
      Fin (of_int (\<Sum>r\<leftarrow>filter (in_discipline d) (filter evaluated_row rows). v r)))"
  using assms
proof (induction rows rule: rev_induct)
  case Nil
  then show ?case by (simp add: empty_metrics_def or_zero_def)
next
  case (snoc r rows)
  show ?case
  proof (cases "evaluated_row r")
    case False
    with snoc show ?thesis by (simp add: accumulateRow_skip)
  next
    case True
    let ?E = "filter evaluated_row rows" and ?E' = "filter evaluated_row (rows @ [r])"
    have c: "contributionFor r (or_zero (vd_cf_pnl r)) = Fin (of_int (v r))"
      using snoc.prems True by simp
    have b: "(\<Sum>r\<leftarrow>?E. \<bar>v r\<bar>) \<le> 2 ^ 53" "(\<Sum>r\<leftarrow>?E'. \<bar>v r\<bar>) \<le> 2 ^ 53"
      using snoc.prems True by auto
    note IH = snoc.IH [OF _ b(1)]
    have add: "jadd (Fin (of_int a)) (Fin (of_int (v r))) = Fin (of_int (a + v r))"
      if "\<bar>a + v r\<bar> \<le> (\<Sum>r\<leftarrow>?E'. \<bar>v r\<bar>)" for a
      using that b(2) by (intro jadd_exact) linarith
    note bounds = abs_sum_list_le [where v = v and xs = ?E']
    have "jadd (Fin (of_int (\<Sum>r\<leftarrow>?E. v r))) (Fin (of_int (v r))) = Fin (of_int (\<Sum>r\<leftarrow>?E'. v r))"
      using add [of "\<Sum>r\<leftarrow>?E. v r"] bounds(1) True by simp
    moreover have "0 < v r \<Longrightarrow> jadd (Fin (of_int (\<Sum>r\<leftarrow>?E. pos_part (v r)))) (Fin (of_int (v r))) =
        Fin (of_int (\<Sum>r\<leftarrow>?E'. pos_part (v r)))"
      using add [of "\<Sum>r\<leftarrow>?E. pos_part (v r)"] bounds(2) True by (simp add: pos_part_def)
    moreover have "v r < 0 \<Longrightarrow> jadd (Fin (of_int (\<Sum>r\<leftarrow>?E. neg_part (v r)))) (Fin (of_int (v r))) =
        Fin (of_int (\<Sum>r\<leftarrow>?E'. neg_part (v r)))"
      using add [of "\<Sum>r\<leftarrow>?E. neg_part (v r)"] bounds(3) True by (simp add: neg_part_def)
    moreover have "in_discipline d r \<Longrightarrow>
        jadd (Fin (of_int (\<Sum>r\<leftarrow>filter (in_discipline d) ?E. v r))) (Fin (of_int (v r))) =
        Fin (of_int (\<Sum>r\<leftarrow>filter (in_discipline d) ?E'. v r))" for d
      using add [of "\<Sum>r\<leftarrow>filter (in_discipline d) ?E. v r"] bounds(4) [where p = "in_discipline d"] True
      by simp
    ultimately show ?thesis
      using True IH snoc.prems
      by (simp add: accumulateRow_add [OF True c] pos_part_def neg_part_def in_discipline_def
          del: jadd.simps) (auto simp: or_zero_def)
  qed
qed

text \<open>The veto value report adds up. Its counts are the numbers of the selected decisions of
  each verdict and method, and when the contributions are whole numbers of total magnitude at most
  \<open>2 ^ 53\<close> (so that binary64 addition is exact) the net value is the sum of the contributions of
  the evaluated decisions, the losses avoided are the sum of the positive ones, the profits forgone
  the sum of the negative ones, the two add up to the net value, and each discipline's entry is
  the sum over its decisions.\<close>

theorem veto_report_adds_up:
  assumes "getMetrics window w = (Inr m, w')"
    and "rows = filter (\<lambda>r. vd_cf_method r \<noteq> None \<and> in_window window r) (vw_rows w)"
    and "E = filter evaluated_row rows"
    and "\<forall>r\<in>set E. contributionFor r (or_zero (vd_cf_pnl r)) = Fin (of_int (v r))"
    and "(\<Sum>r\<leftarrow>E. \<bar>v r\<bar>) \<le> 2 ^ 53"
  shows "vm_net_value m = Fin (of_int (\<Sum>r\<leftarrow>E. v r)) \<and>
    vm_losses_avoided m = Fin (of_int (\<Sum>r\<leftarrow>E. if 0 < v r then v r else 0)) \<and>
    vm_profits_forgone m = Fin (of_int (\<Sum>r\<leftarrow>E. if v r < 0 then v r else 0)) \<and>
    jadd (vm_losses_avoided m) (vm_profits_forgone m) = vm_net_value m \<and>
    (\<forall>d. d \<noteq> '''' \<longrightarrow> or_zero (vm_by_discipline m d) =
      Fin (of_int (\<Sum>r\<leftarrow>filter (\<lambda>r. vd_discipline r = Some d) E. v r))) \<and>
    vm_evaluated_count m = length E \<and>
    vm_unsupported_action_count m = tally (\<lambda>r. vd_cf_method r = Some UnsupportedAction) rows \<and>
    vm_insufficient_data_count m = tally (\<lambda>r. vd_cf_method r = Some InsufficientData) rows \<and>
    vm_approved m = tally (\<lambda>r. vd_verdict r = ''approved'') rows \<and>
    vm_blocked m = tally (\<lambda>r. vd_verdict r = ''blocked'') rows \<and>
    vm_modified m = tally (\<lambda>r. vd_verdict r = ''modified'') rows"
proof -
  have m: "m = report_rows rows"
    using assms(1,2)
    by (auto simp: getMetrics_def await_def v_read_def ret_def buildMetricsWhere_def [abs_def]
        split: option.splits)
  have v: "\<forall>r\<in>set rows. evaluated_row r \<longrightarrow>
      contributionFor r (or_zero (vd_cf_pnl r)) = Fin (of_int (v r))"
    using assms(3,4) by simp
  note sums = report_sums [OF v assms(5) [unfolded assms(3)], folded assms(3) m]
  have "\<bar>(\<Sum>r\<leftarrow>E. pos_part (v r)) + (\<Sum>r\<leftarrow>E. neg_part (v r))\<bar> \<le> 2 ^ 53"
    using abs_sum_list_le(1) [of v E] assms(5) by (simp add: sum_parts)
  then have "jadd (vm_losses_avoided m) (vm_profits_forgone m) = vm_net_value m"
    using sums jadd_exact sum_parts [of v E] by simp
  with sums show ?thesis
    using report_counts [of rows, folded m assms(3)]
    by (simp add: assms(3) pos_part_def neg_part_def in_discipline_def [abs_def])
qed

section \<open>The plugin value report\<close>

definition valued :: "veto_row \<Rightarrow> bool" where
  "valued r \<longleftrightarrow> vd_cf_pnl r \<noteq> None"

definition of_plugin :: "string \<Rightarrow> veto_row \<Rightarrow> bool" where
  "of_plugin k r \<longleftrightarrow> valued r \<and> plugin_key r = k"

text \<open>The reference: what one plugin's rows amount to, summed in ledger order.\<close>

definition plugin_entry :: "string \<Rightarrow> veto_row list \<Rightarrow> plugin_value" where
  "plugin_entry k rows =
     (let own = filter (of_plugin k) rows
      in \<lparr>pv_source_plugin = k, pv_evaluated_count = length own,
          pv_net_value = fold (\<lambda>r acc. jadd acc (or_zero (vd_cf_pnl r))) own j0,
          pv_wins = tally (\<lambda>r. jlt j0 (or_zero (vd_cf_pnl r))) own,
          pv_win_rate = j0, pv_avg_cf_pnl = j0\<rparr>)"

abbreviation grouped :: "veto_row list \<Rightarrow> plugin_value list" where
  "grouped rows \<equiv> fold accumulatePluginRow rows []"

lemma plugin_entry_other: "\<not> of_plugin k r \<Longrightarrow> plugin_entry k (rows @ [r]) = plugin_entry k rows"
  by (simp add: plugin_entry_def)

lemma plugin_entry_own:
  "of_plugin k r \<Longrightarrow> plugin_entry k (rows @ [r]) = add_row (or_zero (vd_cf_pnl r)) (plugin_entry k rows)"
  by (simp add: plugin_entry_def add_row_def Let_def)

lemma add_row_name [simp]: "pv_source_plugin (add_row p e) = pv_source_plugin e"
  by (simp add: add_row_def)

lemma set_upd_first_key:
  "distinct (map pv_source_plugin es) \<Longrightarrow>
   set (upd_first (\<lambda>e. pv_source_plugin e = k) f es) =
     (\<lambda>e. if pv_source_plugin e = k then f e else e) ` set es"
  by (induction es) (force simp: image_iff)+

lemma grouped_entries:
  "distinct (map pv_source_plugin (grouped rows)) \<and>
   set (grouped rows) = (\<lambda>k. plugin_entry k rows) ` plugin_key ` {r \<in> set rows. valued r}"
proof (induction rows rule: rev_induct)
  case Nil
  then show ?case by simp
next
  case (snoc r rows)
  define K where "K = plugin_key ` {r \<in> set rows. valued r}"
  have dist: "distinct (map pv_source_plugin (grouped rows))"
    and IH: "set (grouped rows) = (\<lambda>k. plugin_entry k rows) ` K"
    using snoc by (simp_all add: K_def)
  show ?case
  proof (cases "vd_cf_pnl r")
    case None
    then have "\<not> valued r" and no: "\<And>k. \<not> of_plugin k r" by (simp_all add: valued_def of_plugin_def)
    then have "{x \<in> set (rows @ [r]). valued x} = {x \<in> set rows. valued x}" by auto
    with snoc None show ?thesis
      by (simp add: accumulatePluginRow_def plugin_entry_other [OF no])
  next
    case (Some p)
    let ?k = "plugin_key r"
    have v: "valued r" and own: "\<And>k. of_plugin k r \<longleftrightarrow> k = ?k"
      using Some by (auto simp: valued_def of_plugin_def)
    have K: "plugin_key ` {x \<in> set (rows @ [r]). valued x} = insert ?k K" using v by (auto simp: K_def)
    have ent: "plugin_entry k (rows @ [r]) =
        (if k = ?k then add_row p (plugin_entry k rows) else plugin_entry k rows)" for k
      using plugin_entry_own [of k r rows] plugin_entry_other [of k r rows] Some
      by (simp add: own or_zero_def)
    have names: "pv_source_plugin (plugin_entry k rows) = k" for k
      by (simp add: plugin_entry_def Let_def)
    have keys: "set (map pv_source_plugin (grouped rows)) = K"
      by (simp add: IH image_image names)
    show ?thesis
    proof (cases "?k \<in> K")
      case True
      then have g: "grouped (rows @ [r]) = upd_first (\<lambda>e. pv_source_plugin e = ?k) (add_row p) (grouped rows)"
        using keys Some by (simp add: accumulatePluginRow_def)
      have "set (grouped (rows @ [r])) = (\<lambda>k. plugin_entry k (rows @ [r])) ` K"
        unfolding g set_upd_first_key [OF dist] IH image_image names by (intro image_cong) (simp_all add: ent)
      moreover have "insert ?k K = K" using True by auto
      ultimately show ?thesis
        unfolding K using dist by (simp only: g map_upd_first add_row_name)
    next
      case False
      then have g: "grouped (rows @ [r]) = grouped rows @ [add_row p (emptyPluginValueEntry ?k)]"
        using keys Some by (simp add: accumulatePluginRow_def)
      have none: "filter (of_plugin ?k) rows = []"
        using False unfolding K_def filter_empty_conv of_plugin_def by (metis (mono_tags) imageI mem_Collect_eq)
      then have "plugin_entry ?k rows = emptyPluginValueEntry ?k"
        by (simp add: plugin_entry_def emptyPluginValueEntry_def)
      moreover have "(\<lambda>k. plugin_entry k (rows @ [r])) ` K = (\<lambda>k. plugin_entry k rows) ` K"
        using False by (intro image_cong) (auto simp: ent)
      moreover have "add_row p (emptyPluginValueEntry ?k) = plugin_entry ?k (rows @ [r])"
        by (simp only: ent [of ?k] calculation(1) if_True simp_thms)
      ultimately have "set (grouped (rows @ [r])) = (\<lambda>k. plugin_entry k (rows @ [r])) ` insert ?k K"
        unfolding g by (simp only: set_append list.set IH image_insert Un_insert_right Un_empty_right)
      moreover have "distinct (map pv_source_plugin (grouped (rows @ [r])))"
        unfolding g using dist False keys by (simp add: emptyPluginValueEntry_def)
      ultimately show ?thesis unfolding K by (intro conjI) (simp_all only: image_image)
    qed
  qed
qed

text \<open>The sort is a permutation, and descending when no value is NaN.\<close>

lemma set_insert_desc: "set (insert_desc x ys) = insert x (set ys)"
  by (induction ys) auto

lemma distinct_insert_desc:
  "distinct (map f (insert_desc x ys)) \<longleftrightarrow> f x \<notin> f ` set ys \<and> distinct (map f ys)"
  by (induction ys) (auto simp: set_insert_desc)

lemma sort_desc_Cons: "sort_desc (x # xs) = insert_desc x (sort_desc xs)"
  by (simp add: sort_desc_def)

lemma set_sort_desc [simp]: "set (sort_desc xs) = set xs"
  by (induction xs) (simp_all add: sort_desc_Cons set_insert_desc sort_desc_def)

lemma distinct_sort_desc [simp]: "distinct (map f (sort_desc xs)) \<longleftrightarrow> distinct (map f xs)"
proof (induction xs)
  case Nil
  then show ?case by (simp add: sort_desc_def)
next
  case (Cons x xs)
  then show ?case by (simp add: sort_desc_Cons distinct_insert_desc)
qed

lemma sum_sort_desc: "sum_list (map f (sort_desc xs)) = (sum_list (map f xs) :: nat)"
proof -
  have "sum_list (map f (insert_desc x ys)) = f x + sum_list (map f ys)" for x ys
    by (induction ys) auto
  then show ?thesis by (induction xs) (simp_all add: sort_desc_Cons sort_desc_def)
qed

definition at_least :: "plugin_value \<Rightarrow> plugin_value \<Rightarrow> bool" where
  "at_least a b \<longleftrightarrow> jle (pv_net_value b) (pv_net_value a)"

lemma insert_desc_sorted:
  assumes "sorted_wrt at_least ys" "\<forall>y\<in>set (x # ys). pv_net_value y \<noteq> NaN"
  shows "sorted_wrt at_least (insert_desc x ys)"
  using assms
proof (induction ys)
  case Nil
  then show ?case by simp
next
  case (Cons y ys)
  show ?case
  proof (cases "jlt (pv_net_value x) (pv_net_value y)")
    case True
    with Cons show ?thesis by (auto simp: set_insert_desc at_least_def jlt_imp_jle)
  next
    case False
    then have xy: "jle (pv_net_value y) (pv_net_value x)"
      using Cons.prems(2) by (simp add: not_jlt_iff)
    with Cons.prems(1) False show ?thesis
      by (auto simp: at_least_def intro: jle_trans)
  qed
qed

lemma sort_desc_sorted:
  "\<forall>y\<in>set xs. pv_net_value y \<noteq> NaN \<Longrightarrow> sorted_wrt at_least (sort_desc xs)"
proof (induction xs)
  case Nil
  then show ?case by (simp add: sort_desc_def)
next
  case (Cons x xs)
  then show ?case by (simp add: sort_desc_Cons insert_desc_sorted)
qed

lemma finalize_simps [simp]:
  "pv_source_plugin (finalizePluginValueEntry e) = pv_source_plugin e"
  "pv_evaluated_count (finalizePluginValueEntry e) = pv_evaluated_count e"
  "pv_net_value (finalizePluginValueEntry e) = pv_net_value e"
  "pv_wins (finalizePluginValueEntry e) = pv_wins e"
  by (simp_all add: finalizePluginValueEntry_def Let_def)

lemma add_totals_counts:
  "pv_evaluated_count (fold add_totals es t) = pv_evaluated_count t + sum_list (map pv_evaluated_count es)"
  "pv_wins (fold add_totals es t) = pv_wins t + sum_list (map pv_wins es)"
  by (induction es arbitrary: t) (simp_all add: add_totals_def)

lemma sum_upd_counted:
  fixes f :: "'a \<Rightarrow> nat"
  shows "x \<in> set xs \<Longrightarrow> p x \<Longrightarrow> (\<And>y. f (g y) = f y + n) \<Longrightarrow>
     sum_list (map f (upd_first p g xs)) = sum_list (map f xs) + n"
  by (induction xs) auto

lemma accumulate_total:
  fixes f :: "plugin_value \<Rightarrow> nat"
  assumes "vd_cf_pnl r = Some p" "\<And>q e. f (add_row q e) = f e + n q" "\<And>k. f (emptyPluginValueEntry k) = 0"
  shows "sum_list (map f (accumulatePluginRow r es)) = sum_list (map f es) + n p"
proof (cases "plugin_key r \<in> set (map pv_source_plugin es)")
  case True
  then obtain e where "e \<in> set es" "pv_source_plugin e = plugin_key r" by auto
  then show ?thesis
    using True assms sum_upd_counted [of e es "\<lambda>e. pv_source_plugin e = plugin_key r" f "add_row p" "n p"]
    by (simp add: accumulatePluginRow_def)
next
  case False
  with assms show ?thesis by (simp add: accumulatePluginRow_def Let_def)
qed

lemma accumulate_skip: "vd_cf_pnl r = None \<Longrightarrow> accumulatePluginRow r es = es"
  by (simp add: accumulatePluginRow_def)

lemma grouped_count: "sum_list (map pv_evaluated_count (grouped rows)) = tally valued rows"
proof (induction rows rule: rev_induct)
  case (snoc r rows)
  then show ?case
    using accumulate_total [of r _ pv_evaluated_count "\<lambda>_. 1" "grouped rows"]
    by (cases "vd_cf_pnl r")
      (auto simp: valued_def accumulate_skip add_row_def emptyPluginValueEntry_def)
qed simp

lemma grouped_wins:
  "sum_list (map pv_wins (grouped rows)) = tally (\<lambda>r. valued r \<and> jlt j0 (or_zero (vd_cf_pnl r))) rows"
proof (induction rows rule: rev_induct)
  case (snoc r rows)
  then show ?case
    using accumulate_total [of r _ pv_wins "\<lambda>q. if jlt j0 q then 1 else 0" "grouped rows"]
    by (cases "vd_cf_pnl r")
      (auto simp: valued_def accumulate_skip add_row_def emptyPluginValueEntry_def or_zero_def)
qed simp

text \<open>C37: The plugin report is the ledger grouped by plugin. For the evaluated decisions of the
  window (terminal ones are excluded by the query) the report has exactly one entry for each
  plugin that has a valued decision, blank names under \<open>unknown\<close>; an entry counts that plugin's
  decisions and its winners and sums its counterfactual values in ledger order, its rates are the
  quotients by its count (never a division by zero); entries come in descending order of net value
  when none is NaN; and the totals count every valued decision once.\<close>

theorem plugin_report_groups_the_ledger:
  assumes "getPluginValue window w = (Inr (plugins, totals), w')"
    and "rows = filter (\<lambda>r. (\<exists>m. vd_cf_method r = Some m \<and>
        m \<notin> {UnsupportedAction, InsufficientData, InvalidRefPrice}) \<and> in_window window r \<and>
        vd_cf_pnl r \<noteq> None) (vw_rows w)"
  shows "distinct (map pv_source_plugin plugins) \<and>
    set (map pv_source_plugin plugins) = plugin_key ` set rows \<and>
    (\<forall>e\<in>set plugins. let own = filter (\<lambda>r. plugin_key r = pv_source_plugin e) rows in
       own \<noteq> [] \<and> pv_evaluated_count e = length own \<and>
       pv_net_value e = fold (\<lambda>r acc. jadd acc (or_zero (vd_cf_pnl r))) own j0 \<and>
       pv_wins e = tally (\<lambda>r. jlt j0 (or_zero (vd_cf_pnl r))) own \<and>
       pv_win_rate e = jdiv (of_count (int (pv_wins e))) (of_count (int (length own))) \<and>
       pv_avg_cf_pnl e = jdiv (pv_net_value e) (of_count (int (length own)))) \<and>
    ((\<forall>e\<in>set plugins. pv_net_value e \<noteq> NaN) \<longrightarrow>
       sorted_wrt (\<lambda>a b. jle (pv_net_value b) (pv_net_value a)) plugins) \<and>
    pv_evaluated_count totals = length rows \<and>
    pv_wins totals = tally (\<lambda>r. jlt j0 (or_zero (vd_cf_pnl r))) rows"
proof -
  define sel where "sel = filter (buildPluginValueWhere window) (vw_rows w)"
  have rows: "rows = filter valued sel"
    unfolding assms(2) sel_def filter_filter
    by (rule filter_cong) (auto simp: buildPluginValueWhere_def TERMINAL_NON_EVALUATED_METHODS_def
        valued_def split: option.splits)
  have rep: "plugin_report sel = (plugins, totals)"
    using assms(1)
    by (auto simp: getPluginValue_def await_def v_read_def ret_def sel_def split: option.splits)
  let ?g = "map finalizePluginValueEntry (grouped sel)"
  have plugins: "plugins = sort_desc ?g"
    and totals: "totals = finalizePluginValueEntry
      (fold add_totals (sort_desc ?g) (emptyPluginValueEntry UNKNOWN_PLUGIN_KEY))"
    using rep by (auto simp: plugin_report_def Let_def)
  have names: "map pv_source_plugin ?g = map pv_source_plugin (grouped sel)" by simp
  have K: "plugin_key ` {r \<in> set sel. valued r} = plugin_key ` set rows" by (simp add: rows)
  have ent: "set (grouped sel) = (\<lambda>k. plugin_entry k sel) ` plugin_key ` set rows"
    using grouped_entries [of sel] by (simp only: K)
  have own: "filter (of_plugin k) sel = filter (\<lambda>r. plugin_key r = k) rows" for k
    by (simp add: rows of_plugin_def [abs_def])
  have "distinct (map pv_source_plugin plugins)"
    using grouped_entries [of sel] unfolding plugins by (simp only: distinct_sort_desc names)
  moreover have "set (map pv_source_plugin plugins) = plugin_key ` set rows"
    by (simp add: plugins ent image_image plugin_entry_def Let_def)
  moreover have "let own = filter (\<lambda>r. plugin_key r = pv_source_plugin e) rows in
       own \<noteq> [] \<and> pv_evaluated_count e = length own \<and>
       pv_net_value e = fold (\<lambda>r acc. jadd acc (or_zero (vd_cf_pnl r))) own j0 \<and>
       pv_wins e = tally (\<lambda>r. jlt j0 (or_zero (vd_cf_pnl r))) own \<and>
       pv_win_rate e = jdiv (of_count (int (pv_wins e))) (of_count (int (length own))) \<and>
       pv_avg_cf_pnl e = jdiv (pv_net_value e) (of_count (int (length own)))"
    if "e \<in> set plugins" for e
  proof -
    obtain r where r: "r \<in> set rows" and e: "e = finalizePluginValueEntry (plugin_entry (plugin_key r) sel)"
      using \<open>e \<in> set plugins\<close> by (auto simp: plugins ent)
    have "filter (\<lambda>x. plugin_key x = plugin_key r) rows \<noteq> []"
      using r by (auto simp: filter_empty_conv)
    then show ?thesis
      by (simp add: e plugin_entry_def own Let_def finalizePluginValueEntry_def)
  qed
  moreover have "sorted_wrt (\<lambda>a b. jle (pv_net_value b) (pv_net_value a)) plugins"
    if "\<forall>e\<in>set plugins. pv_net_value e \<noteq> NaN"
    using sort_desc_sorted [of ?g] that by (simp add: plugins at_least_def [abs_def])
  moreover have "pv_evaluated_count totals = length rows"
    using grouped_count [of sel]
    by (simp add: totals add_totals_counts sum_sort_desc comp_def rows emptyPluginValueEntry_def)
  moreover have "pv_wins totals = tally (\<lambda>r. jlt j0 (or_zero (vd_cf_pnl r))) rows"
    using grouped_wins [of sel]
    by (simp add: totals add_totals_counts sum_sort_desc comp_def rows emptyPluginValueEntry_def conj_commute)
  ultimately show ?thesis by blast
qed

end
