(* ===== verification/VetoWitnesses.thy ===== *)
theory VetoWitnesses
  imports VetoFacts VetoReports
begin

text \<open>Concrete ledgers on which the theorems of the veto analyzer apply.\<close>

definition veto_sample :: "string \<Rightarrow> string \<Rightarrow> veto_row" where
  "veto_sample i action = \<lparr>vd_id = i, vd_ts = 0, vd_symbol = ''AAPL'', vd_source_plugin = ''momentum'',
     vd_verdict = ''blocked'', vd_action = action, vd_proposed_qty = Fin 2, vd_approved_qty = None,
     vd_ref_price = Some (Fin 100), vd_discipline = Some ''risk'', vd_cf_pnl = None,
     vd_cf_method = None, vd_cf_evaluated_at = None\<rparr>"

text \<open>The same decision, evaluated.\<close>

definition veto_marked :: "string \<Rightarrow> string \<Rightarrow> rat \<Rightarrow> veto_row" where
  "veto_marked i verdict pnl = (veto_sample i ''long'')\<lparr>vd_verdict := verdict, vd_cf_pnl := Some (Fin pnl),
     vd_cf_method := Some (FixedHorizon (Fin 5) ''1d'' (Fin 10)), vd_cf_evaluated_at := Some 0\<rparr>"

text \<open>Bars of one day each; their texts are not ISO dates, the environment reads them.\<close>

definition day_bar :: "string \<Rightarrow> rat \<Rightarrow> ohlcv_bar" where
  "day_bar d close = \<lparr>ba_ts = d, ba_open = Fin close, ba_high = Fin close,
     ba_low = Fin close, ba_close = Fin close, ba_volume = Fin 0\<rparr>"

definition veto_bars :: "ohlcv_bar list" where
  "veto_bars = [day_bar ''d0'' 100, day_bar ''d1'' 101, day_bar ''d2'' 102, day_bar ''d3'' 103,
     day_bar ''d4'' 104, day_bar ''d5'' 105]"

definition read_day :: "string \<Rightarrow> int option" where
  "read_day = map_of [(''d0'', 0), (''d1'', 86400000), (''d2'', 172800000), (''d3'', 259200000),
     (''d4'', 345600000), (''d5'', 432000000)]"

definition veto_sample_env :: veto_env where
  "veto_sample_env = \<lparr>ve_ohlcv = (\<lambda>_ _ _ _. Inr veto_bars), ve_date = read_day,
     ve_fault = (\<lambda>_. None), ve_now = (\<lambda>_. 864000000)\<rparr>"

definition veto_world_of :: "veto_row list \<Rightarrow> veto_world" where
  "veto_world_of rows = \<lparr>vw_env = veto_sample_env, vw_calls = 0, vw_rows = rows, vw_config = (\<lambda>_. None),
     vw_running = False, vw_timer = None\<rparr>"

abbreviation open_world :: veto_world where
  "open_world \<equiv> veto_world_of [veto_sample ''a'' ''long'', veto_sample ''b'' ''hold'']"

lemma open_world_ok: "veto_ledger_ok (vw_rows open_world)"
  by code_simp

lemma open_world_returns: "\<exists>s w'. backfill None open_world = (Inr s, w')"
proof (cases "backfill None open_world")
  case (Pair r w')
  then have "case r of Inl _ \<Rightarrow> ve_fault (vw_env open_world) (vw_calls open_world) \<noteq> None | Inr s \<Rightarrow> True"
    using backfill_sweep [OF open_world_ok, of None] by (cases r) auto
  then show ?thesis
    using Pair by (cases r) (auto simp: veto_world_of_def veto_sample_env_def)
qed

lemma default_horizon: "horizon_ok (rs_horizonBars (resolveOptions None)) 5"
  using mk_num_of_int [of 5]
  by (simp add: horizon_ok_def resolveOptions_def or_default_def DEFAULT_HORIZON_BARS_def)

theorem backfill_accounts_for_every_row_witness:
  "\<exists>s. fst (backfill None open_world) = Inr s \<and>
     bs_evaluated s + bs_insufficientData s + bs_unsupportedAction s + bs_invalidRefPrice s +
     bs_pending s + bs_errors s = 2"
proof -
  obtain s w' where r: "backfill None open_world = (Inr s, w')" using open_world_returns by blast
  have "tally (backfill_where (resolveOptions None)) (vw_rows open_world) = 2" by code_simp
  with backfill_accounts_for_every_row [OF open_world_ok r] r show ?thesis by auto
qed

theorem backfill_converges_witness:
  "\<exists>s w'. backfill None open_world = (Inr s, w') \<and>
     tally (\<lambda>d. vd_cf_pnl d = None \<and> vd_cf_method d = None) (vw_rows w') = bs_pending s + bs_errors s"
proof -
  obtain s w' where r: "backfill None open_world = (Inr s, w')" using open_world_returns by blast
  have "\<not> rs_reprocessInsufficient (resolveOptions None)" by code_simp
  from backfill_converges [OF open_world_ok r this] r show ?thesis by blast
qed

theorem backfill_marks_without_lookahead_witness:
  "list_all2 (\<lambda>r r'. r' = r \<or> backfill_where (resolveOptions None) r \<and>
      (marked_terminal veto_sample_env (resolveOptions None) 5 r r' \<or>
       marked_to_market veto_sample_env (resolveOptions None) 5 r r'))
    [veto_sample ''a'' ''long'', veto_sample ''b'' ''hold''] (vw_rows (snd (backfill None open_world)))"
  using backfill_marks_without_lookahead [OF open_world_ok default_horizon]
  by (simp add: veto_world_of_def veto_sample_env_def veto_sample_def MAX_TIME_def)

text \<open>A blocked loss, a blocked profit and an approved decision.\<close>

abbreviation marked_world :: veto_world where
  "marked_world \<equiv> veto_world_of
     [veto_marked ''a'' ''blocked'' (- 7), veto_marked ''b'' ''blocked'' 3, veto_marked ''c'' ''approved'' 9]"

theorem plugin_report_groups_the_ledger_witness:
  "\<exists>plugins totals. fst (getPluginValue None marked_world) = Inr (plugins, totals) \<and>
     set (map pv_source_plugin plugins) = {''momentum''} \<and> pv_evaluated_count totals = 3"
proof -
  obtain plugins totals w' where r: "getPluginValue None marked_world = (Inr (plugins, totals), w')"
    by (cases "plugin_report (filter (buildPluginValueWhere None) (vw_rows marked_world))")
      (simp add: getPluginValue_def await_def v_read_def ret_def veto_world_of_def veto_sample_env_def)
  let ?rows = "[veto_marked ''a'' ''blocked'' (- 7), veto_marked ''b'' ''blocked'' 3, veto_marked ''c'' ''approved'' 9]"
  have rows: "?rows = filter (\<lambda>r. (\<exists>m. vd_cf_method r = Some m \<and>
      m \<notin> {UnsupportedAction, InsufficientData, InvalidRefPrice}) \<and> in_window None r \<and>
      vd_cf_pnl r \<noteq> None) (vw_rows marked_world)"
    by (simp add: veto_world_of_def veto_marked_def in_window_def)
  have "js_trim ''momentum'' \<noteq> ''''" by code_simp
  then have "plugin_key r = ''momentum''" if "r \<in> set ?rows" for r
    using that by (auto simp: plugin_key_def veto_marked_def veto_sample_def)
  then have "plugin_key ` set ?rows = {''momentum''}" by auto
  with plugin_report_groups_the_ledger [OF r rows] r show ?thesis by auto
qed

end
