(* ===== verification/CycleExecutor.thy ===== *)
theory CycleExecutor
  imports JsDate Effects
begin

text \<open>
  \<open>cycle/cycle-executor.service.ts\<close>: the running lock of agent cycles and reflections, and the
  world it shares with the cycle scheduler. \<open>runCycle\<close> starts \<open>executeCycle\<close> without awaiting
  it: the job is put in flight, and the environment decides before which later effect it is
  carried to its end (it runs as one step there). What the agents, the sandbox, the snapshot
  and the log writer answer is the environment too. Event listeners do not throw, and the
  audit rows, written without awaiting them, are not part of the model.
\<close>

section \<open>State\<close>

text \<open>A JSON document under one key: no text (or an empty one), a text that does not parse, a value.\<close>

datatype 'a stored = Absent | Malformed | Stored 'a

record sched_config =
  sc_enabled :: bool
  sc_override :: "jsnum option"
  sc_prompt :: "string option"
  sc_last_run :: "string option"
  sc_run_count :: int

record circuit =
  ci_state :: string
  ci_failures :: int
  ci_last_failure_at :: "string option"
  ci_last_success_at :: "string option"
  ci_reason :: "exn option"

text \<open>An active plugin as the scheduler reads it: its manifest's section and its own settings.\<close>

record sched_section =
  se_mode :: "string option"
  se_timeframe :: "string option"
  se_interval_ms :: "jsnum option"

record sched_plugin =
  pl_id :: string
  pl_scheduler :: "sched_section option"
  pl_config_timeframe :: "string option"
  pl_config_interval_ms :: "jsnum option"

record job =
  jb_dry_run :: bool
  jb_started_at :: string
  jb_prompt :: "string option"

record last_run =
  lr_ok :: bool
  lr_dry_run :: bool
  lr_started_at :: string
  lr_error :: "exn option"

datatype cycle_event =
  CycleStarted string bool
| CycleCompleted string bool nat
| CycleFailed string exn

record cycle_log =
  cl_ok :: "bool option"
  cl_dry_run :: bool
  cl_started_at :: string
  cl_decisions :: "nat option"
  cl_error :: "exn option"

text \<open>
  \<open>xe_finish k\<close>: whether the job in flight ends before effect \<open>k\<close>. A sandbox answer is its
  \<open>ok\<close> flag and \<open>error\<close>; an agents answer is the number of decisions.
\<close>

record sched_env =
  xe_fault :: "nat \<Rightarrow> exn option"
  xe_now :: "nat \<Rightarrow> int"
  xe_date :: "string \<Rightarrow> int option"
  xe_active :: "nat \<Rightarrow> exn + sched_plugin list"
  xe_finish :: "nat \<Rightarrow> bool"
  xe_findActive :: "nat \<Rightarrow> exn option"
  xe_sandbox :: "nat \<Rightarrow> exn + bool \<times> exn option"
  xe_agents :: "nat \<Rightarrow> exn + nat"
  xe_snapshot :: "nat \<Rightarrow> exn option"
  xe_append :: "nat \<Rightarrow> exn option"
  xe_reflect :: "nat \<Rightarrow> exn option"

record sched_world =
  sw_env :: sched_env
  sw_calls :: nat
  sw_config :: "sched_config stored"
  sw_circuit :: "circuit stored"
  sw_reflection :: "jsnum option stored"
  sw_counter :: "int option"
  sw_running :: bool
  sw_cycle_running :: bool
  sw_cycle_last :: "last_run option"
  sw_jobs :: "job list"
  sw_events :: "cycle_event list"
  sw_log :: "cycle_log list"
  sw_reflections :: nat

type_synonym 'a sched_io = "(sched_world, 'a) io"

section \<open>A cycle, once it runs\<close>

definition x_tock :: "sched_world \<Rightarrow> sched_world" where
  "x_tock w = w\<lparr>sw_calls := Suc (sw_calls w)\<rparr>"

text \<open>A call answered by the environment.\<close>

definition x_ask :: "(sched_env \<Rightarrow> nat \<Rightarrow> exn + 'a) \<Rightarrow> 'a sched_io" where
  "x_ask f = (\<lambda>w. (f (sw_env w) (sw_calls w), x_tock w))"

definition x_do :: "(sched_env \<Rightarrow> nat \<Rightarrow> exn option) \<Rightarrow> unit sched_io" where
  "x_do f = x_ask (\<lambda>e k. case f e k of Some err \<Rightarrow> Inl err | None \<Rightarrow> Inr ())"

definition emit :: "cycle_event \<Rightarrow> unit sched_io" where
  "emit ev = modify (\<lambda>w. w\<lparr>sw_events := sw_events w @ [ev]\<rparr>)"

definition set_last :: "last_run \<Rightarrow> unit sched_io" where
  "set_last l = modify (\<lambda>w. w\<lparr>sw_cycle_last := Some l\<rparr>)"

definition appendLog :: "cycle_log \<Rightarrow> unit sched_io" where
  "appendLog entry =
     await (x_do xe_append) (\<lambda>_. modify (\<lambda>w. w\<lparr>sw_log := sw_log w @ [entry]\<rparr>))"

definition run_dry :: "job \<Rightarrow> nat sched_io" where
  "run_dry j =
     await (x_do xe_findActive) (\<lambda>_.
     await (x_ask xe_sandbox) (\<lambda>res.
     await (set_last \<lparr>lr_ok = fst res, lr_dry_run = True, lr_started_at = jb_started_at j,
       lr_error = snd res\<rparr>) (\<lambda>_. ret 0)))"

definition run_agents :: "job \<Rightarrow> nat sched_io" where
  "run_agents j =
     await (x_ask xe_agents) (\<lambda>decisions.
     await (set_last \<lparr>lr_ok = True, lr_dry_run = False, lr_started_at = jb_started_at j,
       lr_error = None\<rparr>) (\<lambda>_. ret decisions))"

definition cycle_body :: "job \<Rightarrow> unit sched_io" where
  "cycle_body j =
     await (if jb_dry_run j then run_dry j else run_agents j) (\<lambda>decisions.
     await (emit (CycleCompleted (jb_started_at j) (jb_dry_run j) decisions)) (\<lambda>_.
     await (attempt (x_do xe_snapshot) (\<lambda>_. ret ())) (\<lambda>_.
     await (gets (\<lambda>w. map_option lr_ok (sw_cycle_last w))) (\<lambda>ok.
     appendLog \<lparr>cl_ok = ok, cl_dry_run = jb_dry_run j, cl_started_at = jb_started_at j,
       cl_decisions = Some decisions, cl_error = None\<rparr>))))"

definition cycle_failed :: "job \<Rightarrow> exn \<Rightarrow> unit sched_io" where
  "cycle_failed j err =
     await (set_last \<lparr>lr_ok = False, lr_dry_run = jb_dry_run j, lr_started_at = jb_started_at j,
       lr_error = Some err\<rparr>) (\<lambda>_.
     await (emit (CycleFailed (jb_started_at j) err)) (\<lambda>_.
     appendLog \<lparr>cl_ok = Some False, cl_dry_run = jb_dry_run j, cl_started_at = jb_started_at j,
       cl_decisions = None, cl_error = Some err\<rparr>))"

definition executeCycle :: "job \<Rightarrow> unit sched_io" where
  "executeCycle j =
     ensure (attempt (cycle_body j) (cycle_failed j)) (\<lambda>w. w\<lparr>sw_cycle_running := False\<rparr>)"

text \<open>The end of the oldest job in flight; its rejection is logged, never rethrown.\<close>

definition finish_job :: "sched_world \<Rightarrow> sched_world" where
  "finish_job w =
     (case sw_jobs w of
        [] \<Rightarrow> w
      | j # rest \<Rightarrow> snd (executeCycle j (w\<lparr>sw_jobs := rest\<rparr>)))"

text \<open>An effect of the scheduler: the job in flight may have ended before it.\<close>

definition settle_jobs :: "sched_world \<Rightarrow> sched_world" where
  "settle_jobs w = (if xe_finish (sw_env w) (sw_calls w) then finish_job w else w)"

section \<open>The executor's methods\<close>

definition getRunStatus :: "bool sched_io" where
  "getRunStatus = gets sw_cycle_running"

definition current_iso :: "string sched_io" where
  "current_iso = (\<lambda>w. (Inr (toISOString (xe_now (sw_env w) (sw_calls w))), x_tock w))"

text \<open>Synchronous: the lock is read and taken with nothing in between.\<close>

definition runCycle :: "bool \<Rightarrow> string option \<Rightarrow> bool sched_io" where
  "runCycle dryRun prompt =
     await (gets sw_cycle_running) (\<lambda>running.
     if running then ret False
     else
       await (modify (\<lambda>w. w\<lparr>sw_cycle_running := True\<rparr>)) (\<lambda>_.
       await current_iso (\<lambda>startedAt.
       await (emit (CycleStarted startedAt dryRun)) (\<lambda>_.
       await (modify (\<lambda>w. w\<lparr>sw_jobs := sw_jobs w @
         [\<lparr>jb_dry_run = dryRun, jb_started_at = startedAt, jb_prompt = prompt\<rparr>]\<rparr>)) (\<lambda>_.
       ret True)))))"

definition conflict :: exn where
  "conflict = Exn ''ConflictException''"

definition runReflectionTurn :: "unit sched_io" where
  "runReflectionTurn =
     await (x_do xe_reflect) (\<lambda>_. modify (\<lambda>w. w\<lparr>sw_reflections := Suc (sw_reflections w)\<rparr>))"

definition reflectNow :: "unit sched_io" where
  "reflectNow =
     await (gets sw_cycle_running) (\<lambda>running.
     if running then throw conflict
     else
       await (modify (\<lambda>w. w\<lparr>sw_cycle_running := True\<rparr>)) (\<lambda>_.
       ensure runReflectionTurn (\<lambda>w. w\<lparr>sw_cycle_running := False\<rparr>)))"

end
