(* ===== verification/CycleScheduler.thy ===== *)
theory CycleScheduler
  imports CycleExecutor
begin

text \<open>
  \<open>scheduler/cycle-scheduler.service.ts\<close>: the configuration, the circuit breaker and the tick
  that starts agent cycles. Documents are kept as values (\<open>sw_config\<close>, \<open>sw_circuit\<close>,
  \<open>sw_reflection\<close>); the cycle counter of reflections is the integer \<open>parseInt\<close> reads, None when
  it reads none. \<open>run_count\<close> stays below \<open>2 ^ 53\<close>, where adding one is exact. A number that is
  not finite becomes \<open>null\<close> in JSON.
\<close>

section \<open>Constants\<close>

definition MIN_INTERVAL_MS :: jsnum where
  "MIN_INTERVAL_MS = js 60000"

definition MAX_INTERVAL_MS :: jsnum where
  "MAX_INTERVAL_MS = js (7 * 24 * 3600000)"

definition DEFAULT_INTERVAL_MS :: jsnum where
  "DEFAULT_INTERVAL_MS = js 3600000"

definition CB_MAX_FAILURES :: int where
  "CB_MAX_FAILURES = 3"

definition CB_HALF_OPEN_MS :: int where
  "CB_HALF_OPEN_MS = 5 * 60000"

definition CLOSED_CB :: circuit where
  "CLOSED_CB = \<lparr>ci_state = ''closed'', ci_failures = 0, ci_last_failure_at = None,
     ci_last_success_at = None, ci_reason = None\<rparr>"

definition DEFAULT_CONFIG :: sched_config where
  "DEFAULT_CONFIG = \<lparr>sc_enabled = False, sc_override = None, sc_prompt = None,
     sc_last_run = None, sc_run_count = 0\<rparr>"

definition TIMEFRAME_TO_MS :: "(string \<times> int) list" where
  "TIMEFRAME_TO_MS =
     [(''1m'', 60000), (''5m'', 5 * 60000), (''15m'', 15 * 60000), (''1h'', 3600000),
      (''4h'', 4 * 3600000), (''1d'', 24 * 3600000), (''1w'', 7 * 24 * 3600000),
      (''1mo'', 30 * 24 * 3600000)]"

section \<open>Effects on the key-value table\<close>

definition s_read :: "(sched_world \<Rightarrow> 'a) \<Rightarrow> 'a sched_io" where
  "s_read f = (\<lambda>w0. let w = settle_jobs w0 in
     case xe_fault (sw_env w) (sw_calls w) of
       Some e \<Rightarrow> (Inl e, x_tock w) | None \<Rightarrow> (Inr (f w), x_tock w))"

definition s_write :: "(sched_world \<Rightarrow> sched_world) \<Rightarrow> unit sched_io" where
  "s_write f = (\<lambda>w0. let w = settle_jobs w0 in
     case xe_fault (sw_env w) (sw_calls w) of
       Some e \<Rightarrow> (Inl e, x_tock w) | None \<Rightarrow> (Inr (), x_tock (f w)))"

text \<open>A failing delete is logged only.\<close>

definition s_delete :: "(sched_world \<Rightarrow> sched_world) \<Rightarrow> unit sched_io" where
  "s_delete f = attempt (s_write f) (\<lambda>_. ret ())"

definition s_now :: "int sched_io" where
  "s_now = (\<lambda>w. (Inr (xe_now (sw_env w) (sw_calls w)), x_tock w))"

definition json_number :: "jsnum option \<Rightarrow> jsnum option" where
  "json_number x = (case x of None \<Rightarrow> None | Some n \<Rightarrow> if is_finite n then Some n else None)"

definition store_config :: "sched_config \<Rightarrow> unit sched_io" where
  "store_config c = s_write (\<lambda>w. w\<lparr>sw_config := Stored (c\<lparr>sc_override := json_number (sc_override c)\<rparr>)\<rparr>)"

definition stored_or :: "'a stored \<Rightarrow> 'a \<Rightarrow> 'a" where
  "stored_or x d = (case x of Absent \<Rightarrow> d | Malformed \<Rightarrow> d | Stored v \<Rightarrow> v)"

section \<open>Configuration and status\<close>

definition getConfig :: "sched_config sched_io" where
  "getConfig = await (s_read sw_config) (\<lambda>raw. ret (stored_or raw DEFAULT_CONFIG))"

text \<open>A patch: absent fields are None; the override may be set to \<open>null\<close>.\<close>

record config_patch =
  pa_enabled :: "bool option"
  pa_override :: "jsnum option option"
  pa_prompt :: "string option"

definition merge_patch :: "sched_config \<Rightarrow> config_patch \<Rightarrow> sched_config" where
  "merge_patch current patch =
     current\<lparr>sc_enabled := (case pa_enabled patch of None \<Rightarrow> sc_enabled current | Some b \<Rightarrow> b),
             sc_override := (case pa_override patch of None \<Rightarrow> sc_override current | Some x \<Rightarrow> x),
             sc_prompt := (case pa_prompt patch of None \<Rightarrow> sc_prompt current | Some p \<Rightarrow> Some p)\<rparr>"

definition range_error :: exn where
  "range_error = Exn ''override_interval_ms debe estar entre 60000 y 604800000''"

definition updateConfig :: "config_patch \<Rightarrow> sched_config sched_io" where
  "updateConfig patch =
     await getConfig (\<lambda>current.
     let bad = (case pa_override patch of
                  Some (Some n) \<Rightarrow> jlt n MIN_INTERVAL_MS \<or> jgt n MAX_INTERVAL_MS
                | _ \<Rightarrow> False);
         updated = merge_patch current patch
     in if bad then throw range_error
        else await (store_config updated) (\<lambda>_. ret updated))"

definition getCircuitBreaker :: "circuit sched_io" where
  "getCircuitBreaker = await (s_read sw_circuit) (\<lambda>raw. ret (stored_or raw CLOSED_CB))"

definition resetCircuitBreaker :: "unit sched_io" where
  "resetCircuitBreaker = s_delete (\<lambda>w. w\<lparr>sw_circuit := Absent\<rparr>)"

record plugin_schedule =
  ps_plugin_id :: string
  ps_mode :: string
  ps_interval_ms :: jsnum
  ps_timeframe :: string

text \<open>\<open>a ?? b\<close>.\<close>

definition coalesce :: "'a option \<Rightarrow> 'a option \<Rightarrow> 'a option" where
  "coalesce a b = (case a of None \<Rightarrow> b | Some x \<Rightarrow> Some x)"

definition schedule_of :: "sched_plugin \<Rightarrow> plugin_schedule option" where
  "schedule_of plugin =
     (case pl_scheduler plugin of
        None \<Rightarrow> None
      | Some sched \<Rightarrow>
          (let mode = (case se_mode sched of None \<Rightarrow> ''polling'' | Some m \<Rightarrow> m)
           in if mode = ''none'' \<or> mode = ''reactive'' then None
              else
                let timeframe =
                      (case coalesce (pl_config_timeframe plugin) (se_timeframe sched) of
                         None \<Rightarrow> ''1d'' | Some t \<Rightarrow> t);
                    declaredMs = coalesce (pl_config_interval_ms plugin) (se_interval_ms sched);
                    intervalMs =
                      (case declaredMs of
                         Some n \<Rightarrow> n
                       | None \<Rightarrow>
                           (case map_of TIMEFRAME_TO_MS timeframe of
                              Some k \<Rightarrow> of_count k | None \<Rightarrow> DEFAULT_INTERVAL_MS))
                in Some \<lparr>ps_plugin_id = pl_id plugin, ps_mode = mode,
                         ps_interval_ms = intervalMs, ps_timeframe = timeframe\<rparr>))"

definition resolvePluginSchedules :: "plugin_schedule list sched_io" where
  "resolvePluginSchedules =
     attempt
       (await (modify settle_jobs) (\<lambda>_.
        await (x_ask xe_active) (\<lambda>active.
        ret (List.map_filter schedule_of active))))
       (\<lambda>_. ret [])"

definition min_interval :: "plugin_schedule list \<Rightarrow> jsnum" where
  "min_interval schedules = fold (\<lambda>s m. jmin m (ps_interval_ms s)) schedules PInf"

definition computeEffectiveInterval :: "sched_config \<Rightarrow> plugin_schedule list \<Rightarrow> jsnum" where
  "computeEffectiveInterval cfg schedules =
     (case sc_override cfg of
        Some n \<Rightarrow> n
      | None \<Rightarrow>
          if schedules = [] then DEFAULT_INTERVAL_MS
          else jmax (min_interval schedules) MIN_INTERVAL_MS)"

text \<open>\<open>new Date(text).getTime()\<close>: NaN for a text that is no date; 0 for none or an empty one.\<close>

definition date_ms :: "(string \<Rightarrow> int option) \<Rightarrow> string option \<Rightarrow> jsnum" where
  "date_ms other d =
     (case d of
        None \<Rightarrow> j0
      | Some s \<Rightarrow>
          if s = '''' then j0
          else case date_parse other s of None \<Rightarrow> NaN | Some t \<Rightarrow> of_count t)"

record sched_status =
  ss_config :: sched_config
  ss_next_run :: "string option"
  ss_effective_interval_ms :: jsnum
  ss_plugin_schedules :: "plugin_schedule list"
  ss_running_now :: bool
  ss_circuit_breaker :: circuit

definition invalid_date :: exn where
  "invalid_date = Exn ''RangeError: Invalid time value''"

text \<open>\<open>new Date(ms).toISOString()\<close>: throws when \<open>ms\<close> is not a time value; drops fractions.\<close>

definition iso_of_number :: "jsnum \<Rightarrow> exn + string" where
  "iso_of_number x =
     (case x of
        Fin r \<Rightarrow> (let t = (if 0 \<le> r then \<lfloor>r\<rfloor> else \<lceil>r\<rceil>)
                  in if \<bar>t\<bar> \<le> MAX_TIME then Inr (toISOString t) else Inl invalid_date)
      | _ \<Rightarrow> Inl invalid_date)"

definition getStatus :: "sched_status sched_io" where
  "getStatus =
     await getConfig (\<lambda>cfg.
     await resolvePluginSchedules (\<lambda>schedules.
     let effective = computeEffectiveInterval cfg schedules in
     await getCircuitBreaker (\<lambda>cb.
     await (gets (\<lambda>w. xe_date (sw_env w))) (\<lambda>other.
     let lastRun = date_ms other (sc_last_run cfg);
         due = sc_enabled cfg \<and> lastRun \<noteq> j0 \<and> lastRun \<noteq> NaN
     in await (if due
               then await (lift_result (iso_of_number (jadd lastRun effective))) (\<lambda>t. ret (Some t))
               else ret None) (\<lambda>nextRun.
        await (gets sw_running) (\<lambda>running.
        ret \<lparr>ss_config = cfg, ss_next_run = nextRun, ss_effective_interval_ms = effective,
             ss_plugin_schedules = schedules, ss_running_now = running,
             ss_circuit_breaker = cb\<rparr>))))))"

section \<open>The tick\<close>

definition saveCb :: "circuit \<Rightarrow> unit sched_io" where
  "saveCb state = s_write (\<lambda>w. w\<lparr>sw_circuit := Stored state\<rparr>)"

definition bumpRunCount :: "sched_config \<Rightarrow> unit sched_io" where
  "bumpRunCount cfg =
     await current_iso (\<lambda>t.
     store_config (cfg\<lparr>sc_last_run := Some t, sc_run_count := sc_run_count cfg + 1\<rparr>))"

definition checkCircuitBreaker :: "circuit \<Rightarrow> bool sched_io" where
  "checkCircuitBreaker cb =
     (if ci_state cb \<noteq> ''open'' then ret True
      else
        await (gets (\<lambda>w. xe_date (sw_env w))) (\<lambda>other.
        await s_now (\<lambda>t.
        if jlt (of_count t) (jadd (date_ms other (ci_last_failure_at cb)) (of_count CB_HALF_OPEN_MS))
        then ret False
        else await (saveCb (cb\<lparr>ci_state := ''half_open''\<rparr>)) (\<lambda>_. ret True))))"

definition everyNCycles :: "jsnum option stored \<Rightarrow> jsnum" where
  "everyNCycles raw = (case raw of Stored (Some n) \<Rightarrow> n | _ \<Rightarrow> js 10)"

definition maybeReflect :: "unit sched_io" where
  "maybeReflect =
     await getRunStatus (\<lambda>running.
     if running then ret ()
     else
       await (attempt (s_read sw_reflection) (\<lambda>_. ret Absent)) (\<lambda>raw.
       let every = everyNCycles raw in
       if every = j0 then ret ()
       else
         await (s_read sw_counter) (\<lambda>rawCounter.
         let counter = (case rawCounter of None \<Rightarrow> 0 | Some n \<Rightarrow> n) + 1 in
         if jge (of_count counter) every then
           attempt (await reflectNow (\<lambda>_. s_write (\<lambda>w. w\<lparr>sw_counter := Some 0\<rparr>))) (\<lambda>_. ret ())
         else s_write (\<lambda>w. w\<lparr>sw_counter := Some counter\<rparr>))))"

definition handleTickError :: "exn \<Rightarrow> circuit \<Rightarrow> unit sched_io" where
  "handleTickError err cb =
     (let failures = ci_failures cb + 1;
          newState = (if failures \<ge> CB_MAX_FAILURES \<or> ci_state cb = ''half_open''
                      then ''open'' else ''closed'')
      in await current_iso (\<lambda>t.
         saveCb \<lparr>ci_state = newState, ci_failures = failures, ci_last_failure_at = Some t,
                 ci_last_success_at = ci_last_success_at cb, ci_reason = Some err\<rparr>))"

definition executeTick :: "sched_config \<Rightarrow> circuit \<Rightarrow> unit sched_io" where
  "executeTick cfg cb =
     attempt
       (await (runCycle False (sc_prompt cfg)) (\<lambda>accepted.
        if \<not> accepted then ret ()
        else
          await current_iso (\<lambda>t.
          await (saveCb \<lparr>ci_state = ''closed'', ci_failures = 0,
                   ci_last_failure_at = ci_last_failure_at cb, ci_last_success_at = Some t,
                   ci_reason = None\<rparr>) (\<lambda>_.
          await (bumpRunCount cfg) (\<lambda>_.
          maybeReflect)))))
       (\<lambda>err. handleTickError err cb)"

text \<open>The part of the tick that is guarded by \<open>running\<close>.\<close>

definition guarded_tick :: "sched_config \<Rightarrow> circuit \<Rightarrow> unit sched_io" where
  "guarded_tick cfg cb =
     await (modify (\<lambda>w. w\<lparr>sw_running := True\<rparr>)) (\<lambda>_.
     ensure (executeTick cfg cb) (\<lambda>w. w\<lparr>sw_running := False\<rparr>))"

definition tick :: "unit sched_io" where
  "tick =
     await (gets sw_running) (\<lambda>running.
     if running then ret ()
     else
       await getConfig (\<lambda>cfg.
       if \<not> sc_enabled cfg then ret ()
       else
         await getCircuitBreaker (\<lambda>cb.
         await (checkCircuitBreaker cb) (\<lambda>admitted.
         if \<not> admitted then ret ()
         else
           await resolvePluginSchedules (\<lambda>schedules.
           await (gets (\<lambda>w. xe_date (sw_env w))) (\<lambda>other.
           await s_now (\<lambda>t.
           if jlt (of_count t)
                (jadd (date_ms other (sc_last_run cfg)) (computeEffectiveInterval cfg schedules))
           then ret ()
           else
             await getRunStatus (\<lambda>busy.
             if busy then ret () else guarded_tick cfg cb))))))))"

definition busy_error :: exn where
  "busy_error = Exn ''Ya hay un ciclo en ejecucion. Espera a que termine.''"

definition rejected_error :: exn where
  "rejected_error = Exn ''Ciclo rechazado (ya hay uno en curso)''"

definition runNow :: "string option \<Rightarrow> unit sched_io" where
  "runNow prompt =
     await (gets sw_running) (\<lambda>running.
     await getRunStatus (\<lambda>busy.
     if running \<or> busy then throw busy_error
     else
       await (modify (\<lambda>w. w\<lparr>sw_running := True\<rparr>)) (\<lambda>_.
       ensure
         (await (runCycle False prompt) (\<lambda>accepted.
          if \<not> accepted then throw rejected_error
          else await getConfig (\<lambda>cfg. bumpRunCount cfg)))
         (\<lambda>w. w\<lparr>sw_running := False\<rparr>))))"

end
