(* ===== verification/SchedulerFacts.thy ===== *)
theory SchedulerFacts
  imports CycleScheduler
begin

text \<open>
  What the scheduler and the executor guarantee: cycles and reflections never overlap, the stored
  documents stay well formed, a tick starts a cycle exactly when one is due, and what a tick that
  started a cycle leaves behind.
\<close>

section \<open>The state invariant\<close>

text \<open>
  The cycle events, read as a state: nothing started, a cycle running since a start, or a cycle
  that ended. None is a violation: a start while one runs, or an end of a cycle that is not the
  last one started.
\<close>

datatype cycle_phase = Idle | Running string | Ended string

fun phase_step :: "cycle_event \<Rightarrow> cycle_phase option \<Rightarrow> cycle_phase option" where
  "phase_step _ None = None"
| "phase_step (CycleStarted a d) (Some (Running b)) = None"
| "phase_step (CycleStarted a d) (Some _) = Some (Running a)"
| "phase_step (CycleCompleted a d n) (Some (Running b)) = (if a = b then Some (Ended a) else None)"
| "phase_step (CycleCompleted a d n) (Some _) = None"
| "phase_step (CycleFailed a e) (Some (Running b)) = (if a = b then Some (Ended a) else None)"
| "phase_step (CycleFailed a e) (Some (Ended b)) = (if a = b then Some (Ended a) else None)"
| "phase_step (CycleFailed a e) (Some Idle) = None"

definition phase :: "cycle_event list \<Rightarrow> cycle_phase option" where
  "phase es = fold phase_step es (Some Idle)"

lemma phase_append [simp]: "phase (es @ fs) = fold phase_step fs (phase es)"
  by (simp add: phase_def)

definition lock_state :: "bool \<Rightarrow> job list \<Rightarrow> cycle_phase option \<Rightarrow> bool" where
  "lock_state running jobs ph \<longleftrightarrow> (running \<longleftrightarrow> jobs \<noteq> []) \<and>
     (case jobs of
        [] \<Rightarrow> ph = Some Idle \<or> (\<exists>a. ph = Some (Ended a))
      | [j] \<Rightarrow> ph = Some (Running (jb_started_at j))
      | _ \<Rightarrow> False)"

definition lock_ok :: "sched_world \<Rightarrow> bool" where
  "lock_ok w \<longleftrightarrow> lock_state (sw_cycle_running w) (sw_jobs w) (phase (sw_events w))"

definition iso_time :: "string option \<Rightarrow> bool" where
  "iso_time d \<longleftrightarrow> d = None \<or> (\<exists>t. d = Some (toISOString t))"

definition config_ok :: "sched_config \<Rightarrow> bool" where
  "config_ok c \<longleftrightarrow>
     (case sc_override c of None \<Rightarrow> True | Some n \<Rightarrow> \<exists>r. n = Fin r \<and> 60000 \<le> r \<and> r \<le> 604800000) \<and>
     iso_time (sc_last_run c) \<and> 0 \<le> sc_run_count c"

definition circuit_ok :: "circuit \<Rightarrow> bool" where
  "circuit_ok cb \<longleftrightarrow> ci_state cb \<in> {''closed'', ''open'', ''half_open''} \<and> 0 \<le> ci_failures cb \<and>
     (ci_state cb = ''closed'' \<longrightarrow> ci_failures cb < 3) \<and>
     (ci_state cb = ''open'' \<longrightarrow> 0 < ci_failures cb \<and> ci_last_failure_at cb \<noteq> None) \<and>
     iso_time (ci_last_failure_at cb) \<and> iso_time (ci_last_success_at cb)"

definition stored_ok :: "('a \<Rightarrow> bool) \<Rightarrow> 'a stored \<Rightarrow> bool" where
  "stored_ok p x \<longleftrightarrow> (case x of Stored v \<Rightarrow> p v | _ \<Rightarrow> True)"

definition sched_ok :: "sched_world \<Rightarrow> bool" where
  "sched_ok w \<longleftrightarrow> lock_ok w \<and> stored_ok config_ok (sw_config w) \<and> stored_ok circuit_ok (sw_circuit w)"

lemma stored_or_ok: "stored_ok p x \<Longrightarrow> p d \<Longrightarrow> p (stored_or x d)"
  by (simp add: stored_ok_def stored_or_def split: stored.splits)

lemma DEFAULT_CONFIG_ok: "config_ok DEFAULT_CONFIG"
  by (simp add: config_ok_def DEFAULT_CONFIG_def iso_time_def)

lemma CLOSED_CB_ok: "circuit_ok CLOSED_CB"
  by (simp add: circuit_ok_def CLOSED_CB_def iso_time_def)

section \<open>The executor\<close>

lemma x_tock_simps [simp]:
  "sw_env (x_tock w) = sw_env w" "sw_config (x_tock w) = sw_config w"
  "sw_circuit (x_tock w) = sw_circuit w" "sw_running (x_tock w) = sw_running w"
  "sw_cycle_running (x_tock w) = sw_cycle_running w" "sw_jobs (x_tock w) = sw_jobs w"
  "sw_events (x_tock w) = sw_events w" "sw_counter (x_tock w) = sw_counter w"
  "sw_reflection (x_tock w) = sw_reflection w" "sw_reflections (x_tock w) = sw_reflections w"
  "sw_calls (x_tock w) = Suc (sw_calls w)"
  by (simp_all add: x_tock_def)

text \<open>Everything the cycle itself leaves alone.\<close>

definition cycle_frame :: "sched_world \<Rightarrow> sched_world \<Rightarrow> bool" where
  "cycle_frame w w' \<longleftrightarrow> sw_env w' = sw_env w \<and> sw_config w' = sw_config w \<and>
     sw_circuit w' = sw_circuit w \<and> sw_reflection w' = sw_reflection w \<and>
     sw_counter w' = sw_counter w \<and> sw_running w' = sw_running w \<and>
     sw_reflections w' = sw_reflections w \<and> sw_jobs w' = sw_jobs w"

interpretation framed: evolution cycle_frame
  by unfold_locales (auto simp: cycle_frame_def)

lemma framed_ask: "evolves cycle_frame (x_ask f)" "evolves cycle_frame (x_do g)"
  by (simp_all add: evolves_def x_ask_def x_do_def cycle_frame_def)

lemma framed_steps:
  "evolves cycle_frame (emit ev)" "evolves cycle_frame (set_last l)"
  "evolves cycle_frame (appendLog entry)"
  by (auto simp: emit_def set_last_def appendLog_def cycle_frame_def
      intro!: framed.ev_await framed_ask evolves_modify)

lemma framed_body:
  "evolves cycle_frame (cycle_body j)" "evolves cycle_frame (cycle_failed j err)"
  unfolding cycle_body_def cycle_failed_def run_dry_def run_agents_def
  by (intro framed.ev_rules framed_ask framed_steps evolves_if)+

lemma framed_cycle: "evolves cycle_frame (executeCycle j)"
  unfolding executeCycle_def
  by (intro framed.ev_ensure framed.ev_attempt framed_body) (simp add: cycle_frame_def)

text \<open>
  A cycle that runs to its end emits \<open>completed\<close>, \<open>failed\<close>, or both in that order (its log could
  not be written), and releases the lock in every case.
\<close>

definition events_kept :: "sched_world \<Rightarrow> sched_world \<Rightarrow> bool" where
  "events_kept w w' \<longleftrightarrow> sw_events w' = sw_events w"

interpretation silent: evolution events_kept
  by unfold_locales (auto simp: events_kept_def)

lemma silent_ask: "evolves events_kept (x_ask f)" "evolves events_kept (x_do g)"
  by (simp_all add: evolves_def x_ask_def x_do_def events_kept_def)

lemma silent_steps: "evolves events_kept (set_last l)" "evolves events_kept (appendLog entry)"
  by (auto simp: set_last_def appendLog_def events_kept_def
      intro!: silent.ev_await silent_ask evolves_modify)

lemma silent_run: "evolves events_kept (run_dry j)" "evolves events_kept (run_agents j)"
  unfolding run_dry_def run_agents_def by (intro silent.ev_rules silent_ask silent_steps)+

lemma silentD: "evolves events_kept m \<Longrightarrow> sw_events (snd (m w)) = sw_events w"
  by (simp add: evolves_def events_kept_def)

definition after_emit :: "job \<Rightarrow> nat \<Rightarrow> unit sched_io" where
  "after_emit j decisions =
     await (attempt (x_do xe_snapshot) (\<lambda>_. ret ())) (\<lambda>_.
     await (gets (\<lambda>w. map_option lr_ok (sw_cycle_last w))) (\<lambda>ok.
     appendLog \<lparr>cl_ok = ok, cl_dry_run = jb_dry_run j, cl_started_at = jb_started_at j,
       cl_decisions = Some decisions, cl_error = None\<rparr>))"

lemma silent_after: "evolves events_kept (after_emit j n)"
  unfolding after_emit_def by (intro silent.ev_rules silent_ask silent_steps)

lemma cycle_body_events:
  "(\<exists>n. sw_events (snd (cycle_body j w)) = sw_events w @ [CycleCompleted (jb_started_at j) (jb_dry_run j) n]) \<or>
   (\<exists>e. fst (cycle_body j w) = Inl e \<and> sw_events (snd (cycle_body j w)) = sw_events w)"
proof -
  let ?run = "if jb_dry_run j then run_dry j else run_agents j"
  have run: "sw_events (snd (?run w)) = sw_events w" for w
    using silent_run [of j] by (simp add: silentD)
  have body: "cycle_body j = await ?run (\<lambda>n. await (emit (CycleCompleted (jb_started_at j) (jb_dry_run j) n))
      (\<lambda>_. after_emit j n))"
    by (simp add: cycle_body_def after_emit_def)
  show ?thesis
  proof (cases "fst (?run w)")
    case (Inl e)
    then show ?thesis unfolding body await_run using run [of w] by simp
  next
    case (Inr n)
    then show ?thesis
      unfolding body await_run using run [of w] silentD [OF silent_after]
      by (simp add: emit_def modify_def)
  qed
qed

lemma cycle_failed_events:
  "sw_events (snd (cycle_failed j err w)) = sw_events w @ [CycleFailed (jb_started_at j) err]"
  using silentD [OF silent_steps(2)]
  by (simp add: cycle_failed_def await_run emit_def modify_def set_last_def)

lemma executeCycle_events:
  obtains n where "sw_events (snd (executeCycle j w)) =
      sw_events w @ [CycleCompleted (jb_started_at j) (jb_dry_run j) n]"
  | e where "sw_events (snd (executeCycle j w)) = sw_events w @ [CycleFailed (jb_started_at j) e]"
  | n e where "sw_events (snd (executeCycle j w)) = sw_events w @
      [CycleCompleted (jb_started_at j) (jb_dry_run j) n, CycleFailed (jb_started_at j) e]"
proof -
  have ev: "sw_events (snd (executeCycle j w)) = sw_events (snd (attempt (cycle_body j) (cycle_failed j) w))"
    by (simp add: executeCycle_def ensure_run)
  show thesis
  proof (cases "fst (cycle_body j w)")
    case (Inr u)
    with cycle_body_events [of j w] show ?thesis
      by (auto simp: ev attempt_run intro: that(1))
  next
    case (Inl e)
    with cycle_body_events [of j w] show ?thesis
      by (auto simp: ev attempt_run cycle_failed_events intro: that(2,3))
  qed
qed

lemma executeCycle_unlocks: "\<not> sw_cycle_running (snd (executeCycle j w))"
  by (simp add: executeCycle_def ensure_run)

lemma finish_job_frame:
  "sw_env (finish_job w) = sw_env w" "sw_config (finish_job w) = sw_config w"
  "sw_circuit (finish_job w) = sw_circuit w" "sw_running (finish_job w) = sw_running w"
  "sw_counter (finish_job w) = sw_counter w" "sw_reflection (finish_job w) = sw_reflection w"
  "sw_reflections (finish_job w) = sw_reflections w" "sw_jobs (finish_job w) = tl (sw_jobs w)"
  using evolvesD [OF framed_cycle, of "w\<lparr>sw_jobs := tl (sw_jobs w)\<rparr>" "hd (sw_jobs w)"]
  by (auto simp: finish_job_def cycle_frame_def split: list.splits)

lemma finish_job_idle: "sw_jobs w = [] \<Longrightarrow> finish_job w = w"
  by (simp add: finish_job_def)

lemma finish_job_lock: "lock_ok w \<Longrightarrow> lock_ok (finish_job w)"
proof (cases "sw_jobs w")
  case Nil
  then show "lock_ok w \<Longrightarrow> lock_ok (finish_job w)" by (simp add: finish_job_idle)
next
  case (Cons j rest)
  assume ok: "lock_ok w"
  with Cons have rest: "rest = []" and ph: "phase (sw_events w) = Some (Running (jb_started_at j))"
    by (auto simp: lock_ok_def lock_state_def split: list.splits)
  let ?v = "w\<lparr>sw_jobs := []\<rparr>"
  have f: "finish_job w = snd (executeCycle j ?v)" by (simp add: finish_job_def Cons rest)
  have "phase (sw_events (finish_job w)) = Some (Ended (jb_started_at j))"
    unfolding f by (rule executeCycle_events [of j ?v]) (simp_all add: ph)
  then show "lock_ok (finish_job w)"
    using executeCycle_unlocks [of j ?v] finish_job_frame(8) [of w]
    by (simp add: lock_ok_def lock_state_def f Cons rest)
qed

lemma settle_simps [simp]:
  "sw_env (settle_jobs w) = sw_env w" "sw_config (settle_jobs w) = sw_config w"
  "sw_circuit (settle_jobs w) = sw_circuit w" "sw_running (settle_jobs w) = sw_running w"
  "sw_counter (settle_jobs w) = sw_counter w" "sw_reflection (settle_jobs w) = sw_reflection w"
  "sw_reflections (settle_jobs w) = sw_reflections w"
  by (simp_all add: settle_jobs_def finish_job_frame)

lemma settle_lock: "lock_ok w \<Longrightarrow> lock_ok (settle_jobs w)"
  by (simp add: settle_jobs_def finish_job_lock)

lemma settle_idle: "sw_jobs w = [] \<Longrightarrow> settle_jobs w = w"
  by (simp add: settle_jobs_def finish_job_idle)

section \<open>Every operation keeps the invariant\<close>

lemma sched_ok_settle: "sched_ok w \<Longrightarrow> sched_ok (settle_jobs w)"
  by (simp add: sched_ok_def settle_lock)

lemma sched_ok_tock: "sched_ok w \<Longrightarrow> sched_ok (x_tock w)"
  by (simp add: sched_ok_def lock_ok_def)

lemma y_read: "(\<And>w. sched_ok w \<Longrightarrow> Q (f w)) \<Longrightarrow> yields sched_ok (s_read f) Q"
  by (auto simp: yields_def s_read_def Let_def sched_ok_settle sched_ok_tock split: option.splits)

lemma y_write: "(\<And>w. sched_ok w \<Longrightarrow> sched_ok (f w)) \<Longrightarrow> yields sched_ok (s_write f) (\<lambda>_. True)"
  by (auto simp: yields_def s_write_def Let_def sched_ok_settle sched_ok_tock split: option.splits)

lemma y_ask: "yields sched_ok (x_ask f) (\<lambda>_. True)" "yields sched_ok (x_do g) (\<lambda>_. True)"
  by (simp_all add: yields_def x_ask_def x_do_def sched_ok_tock)

lemma y_iso: "yields sched_ok current_iso (\<lambda>s. iso_time (Some s))"
  by (auto simp: yields_def current_iso_def sched_ok_tock iso_time_def)

lemma y_now: "yields sched_ok s_now (\<lambda>_. True)"
  by (simp add: yields_def s_now_def sched_ok_tock)

lemma y_settle: "yields sched_ok (modify settle_jobs) (\<lambda>_. True)"
  by (rule yields_modify) (auto intro: sched_ok_settle)

lemma y_gets: "yields sched_ok (gets f) (\<lambda>_. True)"
  by (rule yields_gets) simp

lemma y_running: "yields sched_ok (modify (\<lambda>w. w\<lparr>sw_running := b\<rparr>)) (\<lambda>_. True)"
  by (rule yields_modify) (simp_all add: sched_ok_def lock_ok_def)

lemma y_saveCb: "circuit_ok cb \<Longrightarrow> yields sched_ok (saveCb cb) (\<lambda>_. True)"
  unfolding saveCb_def by (rule y_write) (simp add: sched_ok_def lock_ok_def stored_ok_def)

lemma y_store_config: "config_ok c \<Longrightarrow> yields sched_ok (store_config c) (\<lambda>_. True)"
  unfolding store_config_def
  by (rule y_write)
    (auto simp: sched_ok_def lock_ok_def stored_ok_def config_ok_def json_number_def split: option.splits)

lemma y_getConfig: "yields sched_ok getConfig config_ok"
  unfolding getConfig_def
  by (rule yields_await [OF y_read [where Q = "stored_ok config_ok"]])
    (auto simp: sched_ok_def intro!: yields_ret stored_or_ok DEFAULT_CONFIG_ok)

lemma y_getCircuitBreaker: "yields sched_ok getCircuitBreaker circuit_ok"
  unfolding getCircuitBreaker_def
  by (rule yields_await [OF y_read [where Q = "stored_ok circuit_ok"]])
    (auto simp: sched_ok_def intro!: yields_ret stored_or_ok CLOSED_CB_ok)

lemma y_runCycle: "yields sched_ok (runCycle d p) (\<lambda>_. True)"
  by (auto simp: yields_def runCycle_def await_run gets_def modify_def ret_def emit_def current_iso_def
      sched_ok_def lock_ok_def lock_state_def split: list.splits)

lemma y_reflectNow: "yields sched_ok reflectNow (\<lambda>_. True)"
  by (auto simp: yields_def reflectNow_def await_run gets_def modify_def ret_def throw_def ensure_run
      runReflectionTurn_def x_do_def x_ask_def sched_ok_def lock_ok_def lock_state_def
      split: option.splits list.splits)

lemma y_bumpRunCount: "config_ok cfg \<Longrightarrow> yields sched_ok (bumpRunCount cfg) (\<lambda>_. True)"
  unfolding bumpRunCount_def
  by (rule yields_await [OF y_iso]) (auto intro!: y_store_config simp: config_ok_def iso_time_def)

lemma y_checkCircuitBreaker: "circuit_ok cb \<Longrightarrow> yields sched_ok (checkCircuitBreaker cb) (\<lambda>_. True)"
  unfolding checkCircuitBreaker_def
  by (intro yields_rules yields_ret yields_await [OF y_gets] yields_await [OF y_now]
      yields_await [OF y_saveCb] impI) (auto simp: circuit_ok_def)

lemma y_resolve: "yields sched_ok resolvePluginSchedules (\<lambda>_. True)"
  unfolding resolvePluginSchedules_def
  by (intro yields_attempt yields_ret yields_await [OF y_settle] yields_await [OF y_ask(1)]) simp_all

lemma y_counter: "yields sched_ok (s_write (\<lambda>w. w\<lparr>sw_counter := c\<rparr>)) (\<lambda>_. True)"
  by (rule y_write) (simp add: sched_ok_def lock_ok_def)

lemma y_maybeReflect: "yields sched_ok maybeReflect (\<lambda>_. True)"
  unfolding maybeReflect_def getRunStatus_def
  by (intro yields_rules yields_ret yields_attempt y_counter
      yields_await [OF y_gets] yields_await [OF y_read] yields_await [OF y_reflectNow]
      yields_await [OF yields_attempt [OF y_read [where Q = "\<lambda>_. True"]]]) simp_all

lemma y_handleTickError: "circuit_ok cb \<Longrightarrow> yields sched_ok (handleTickError err cb) (\<lambda>_. True)"
  unfolding handleTickError_def
  by (intro yields_rules yields_await [OF y_iso] y_saveCb)
    (auto simp: circuit_ok_def CB_MAX_FAILURES_def iso_time_def)

lemma y_executeTick:
  assumes "config_ok cfg" "circuit_ok cb"
  shows "yields sched_ok (executeTick cfg cb) (\<lambda>_. True)"
  unfolding executeTick_def
  using assms
  by (intro yields_attempt yields_rules yields_ret yields_await [OF y_runCycle] yields_await [OF y_iso]
      yields_await [OF y_saveCb] yields_await [OF y_bumpRunCount] y_maybeReflect y_handleTickError)
    (auto simp: circuit_ok_def iso_time_def)

lemma unguard: "sched_ok w \<Longrightarrow> sched_ok (w\<lparr>sw_running := False\<rparr>)"
  by (simp add: sched_ok_def lock_ok_def)

lemma y_tick: "yields sched_ok tick (\<lambda>_. True)"
  unfolding tick_def guarded_tick_def getRunStatus_def
  by (intro yields_rules yields_ret yields_await [OF y_gets] yields_await [OF y_getConfig]
      yields_await [OF y_getCircuitBreaker] yields_await [OF y_checkCircuitBreaker]
      yields_await [OF y_resolve] yields_await [OF y_now] yields_await [OF y_running]
      y_executeTick unguard) simp_all

lemma y_runNow: "yields sched_ok (runNow p) (\<lambda>_. True)"
  unfolding runNow_def getRunStatus_def
  by (intro yields_rules yields_await [OF y_gets] yields_await [OF y_running]
      yields_await [OF y_runCycle] yields_await [OF y_getConfig] y_bumpRunCount unguard) simp_all

lemma interval_bounds: "MIN_INTERVAL_MS = Fin 60000" "MAX_INTERVAL_MS = Fin 604800000"
  using mk_num_of_int [of 60000] mk_num_of_int [of 604800000]
  by (simp_all add: MIN_INTERVAL_MS_def MAX_INTERVAL_MS_def)

text \<open>A NaN passes the range check; JSON turns it into \<open>null\<close>.\<close>

lemma merge_patch_ok:
  assumes "config_ok c" "\<not> (case pa_override patch of
      Some (Some n) \<Rightarrow> jlt n MIN_INTERVAL_MS \<or> jgt n MAX_INTERVAL_MS | _ \<Rightarrow> False)"
  shows "config_ok ((merge_patch c patch)\<lparr>sc_override := json_number (sc_override (merge_patch c patch))\<rparr>)"
proof -
  have fin: "\<exists>r. n = Fin r \<and> 60000 \<le> r \<and> r \<le> 604800000"
    if "is_finite n" "\<not> jlt n (Fin 60000)" "\<not> jlt (Fin 604800000) n" for n
    using that by (cases n) auto
  show ?thesis
    using assms by (auto simp: config_ok_def merge_patch_def interval_bounds json_number_def
        split: option.splits intro!: fin)
qed

lemma y_updateConfig: "yields sched_ok (updateConfig patch) (\<lambda>_. True)"
proof -
  have store: "config_ok (c\<lparr>sc_override := json_number (sc_override c)\<rparr>) \<Longrightarrow>
      yields sched_ok (store_config c) (\<lambda>_. True)" for c
    unfolding store_config_def by (rule y_write) (simp add: sched_ok_def lock_ok_def stored_ok_def)
  show ?thesis
    unfolding updateConfig_def
    by (intro yields_rules yields_ret yields_await [OF y_getConfig] yields_await [OF store])
      (auto dest: merge_patch_ok)
qed

lemma y_reset: "yields sched_ok resetCircuitBreaker (\<lambda>_. True)"
  unfolding resetCircuitBreaker_def s_delete_def
  by (intro yields_attempt y_write yields_ret) (simp_all add: sched_ok_def lock_ok_def stored_ok_def)

lemma y_getStatus: "yields sched_ok getStatus (\<lambda>_. True)"
  unfolding getStatus_def
  by (intro yields_rules yields_ret yields_await [OF y_gets] yields_await [OF y_getConfig]
      yields_await [OF y_resolve] yields_await [OF y_getCircuitBreaker]
      yields_await [where Q = "\<lambda>_. True"]) simp_all

section \<open>The scheduler as a state machine\<close>

text \<open>
  What can happen: the timer ticks, the panel calls a method (of the scheduler or of the
  executor), or the cycle in flight comes to its end.
\<close>

inductive sched_step :: "sched_world \<Rightarrow> sched_world \<Rightarrow> bool" where
  step_tick: "sched_step w (snd (tick w))"
| step_runNow: "sched_step w (snd (runNow p w))"
| step_update: "sched_step w (snd (updateConfig patch w))"
| step_reset: "sched_step w (snd (resetCircuitBreaker w))"
| step_status: "sched_step w (snd (getStatus w))"
| step_runCycle: "sched_step w (snd (runCycle d p w))"
| step_reflect: "sched_step w (snd (reflectNow w))"
| step_finish: "sched_step w (finish_job w)"

inductive sched_run :: "sched_world \<Rightarrow> sched_world \<Rightarrow> bool" where
  run_refl: "sched_run w w"
| run_step: "sched_run w w' \<Longrightarrow> sched_step w' w'' \<Longrightarrow> sched_run w w''"

lemma sched_step_ok: "sched_step w w' \<Longrightarrow> sched_ok w \<Longrightarrow> sched_ok w'"
proof (induction rule: sched_step.induct)
  case (step_finish w)
  then show ?case by (simp add: sched_ok_def finish_job_lock finish_job_frame)
qed (auto intro: yieldsD y_tick y_runNow y_updateConfig y_reset y_getStatus y_runCycle y_reflectNow)

lemma sched_run_ok: "sched_run w w' \<Longrightarrow> sched_ok w \<Longrightarrow> sched_ok w'"
  by (induction rule: sched_run.induct) (auto dest: sched_step_ok)

text \<open>C25: Cycles never overlap. In every state the scheduler can reach, through any sequence of
  ticks, manual runs, reflections, configuration changes and cycle ends, the events emitted so far
  form a sequence in which a cycle starts only when the previous one has ended and every end
  belongs to the last cycle started; at most one cycle is in flight, and the lock is held exactly
  while one is. In particular a cycle that fails, even while writing its log, releases the lock.\<close>

theorem cycles_never_overlap:
  assumes "sched_run w0 w" "sched_ok w0"
  shows "phase (sw_events w) \<noteq> None \<and> length (sw_jobs w) \<le> 1 \<and>
    (sw_cycle_running w \<longleftrightarrow> sw_jobs w \<noteq> []) \<and>
    (\<forall>j. sw_jobs w = [j] \<longrightarrow> phase (sw_events w) = Some (Running (jb_started_at j)))"
  using sched_run_ok [OF assms] by (auto simp: sched_ok_def lock_ok_def lock_state_def split: list.splits)


section \<open>What a tick does\<close>

definition docs_kept :: "sched_world \<Rightarrow> sched_world \<Rightarrow> bool" where
  "docs_kept w w' \<longleftrightarrow> sw_config w' = sw_config w \<and> sw_circuit w' = sw_circuit w \<and> sw_env w' = sw_env w"

interpretation docs: evolution docs_kept
  by unfold_locales (auto simp: docs_kept_def)

lemma docs_read: "evolves docs_kept (s_read f)"
  by (auto simp: evolves_def docs_kept_def s_read_def Let_def split: option.splits)

lemma docs_counter: "evolves docs_kept (s_write (\<lambda>w. w\<lparr>sw_counter := c\<rparr>))"
  by (auto simp: evolves_def docs_kept_def s_write_def Let_def split: option.splits)

lemma docs_reflectNow: "evolves docs_kept reflectNow"
  by (auto simp: evolves_def docs_kept_def reflectNow_def await_run gets_def modify_def ret_def throw_def
      ensure_run runReflectionTurn_def x_do_def x_ask_def split: option.splits)

lemma docs_maybeReflect: "evolves docs_kept maybeReflect"
  unfolding maybeReflect_def getRunStatus_def
  by (intro docs.ev_rules evolves_splits docs_read docs_counter docs_reflectNow)

definition faultless :: "sched_world \<Rightarrow> bool" where
  "faultless w \<longleftrightarrow> (\<forall>k. xe_fault (sw_env w) k = None)"

lemma s_read_run: "faultless w \<Longrightarrow> s_read f w = (Inr (f (settle_jobs w)), x_tock (settle_jobs w))"
  by (simp add: s_read_def Let_def faultless_def)

lemma s_write_run: "faultless w \<Longrightarrow> s_write f w = (Inr (), x_tock (f (settle_jobs w)))"
  by (simp add: s_write_def Let_def faultless_def)

lemma faultless_simps [simp]:
  "faultless (x_tock w) = faultless w" "faultless (settle_jobs w) = faultless w"
  "faultless (w\<lparr>sw_circuit := c\<rparr>) = faultless w" "faultless (w\<lparr>sw_config := d\<rparr>) = faultless w"
  "faultless (w\<lparr>sw_running := b\<rparr>) = faultless w"
  by (simp_all add: faultless_def)

lemma maybeReflect_returns: "faultless w \<Longrightarrow> fst (maybeReflect w) = Inr ()"
proof -
  assume f: "faultless w"
  have "faultless (snd (reflectNow v)) \<longleftrightarrow> faultless v" for v
    using docs_reflectNow by (simp add: evolves_def docs_kept_def faultless_def)
  then have "fst (attempt (await reflectNow (\<lambda>_. s_write g)) (\<lambda>_. ret ()) v) = Inr ()" if "faultless v" for v g
    using that by (auto simp: attempt_run await_run ret_def s_write_run split: sum.splits)
  then show ?thesis
    using f by (auto simp: maybeReflect_def getRunStatus_def gets_def await_run attempt_run ret_def
        s_read_run s_write_run Let_def)
qed

lemma executeTick_accepted:
  assumes "faultless w" "\<not> sw_cycle_running w"
  shows "\<exists>t1 t2. sw_circuit (snd (executeTick cfg cb w)) =
      Stored \<lparr>ci_state = ''closed'', ci_failures = 0, ci_last_failure_at = ci_last_failure_at cb,
        ci_last_success_at = Some (toISOString t1), ci_reason = None\<rparr> \<and>
    sw_config (snd (executeTick cfg cb w)) =
      Stored (cfg\<lparr>sc_last_run := Some (toISOString t2),
        sc_run_count := sc_run_count cfg + 1, sc_override := json_number (sc_override cfg)\<rparr>)"
proof -
  let ?v = "snd (runCycle False (sc_prompt cfg) w)"
  have run: "fst (runCycle False (sc_prompt cfg) w) = Inr True" "faultless ?v"
    using assms by (simp_all add: runCycle_def await_run gets_def modify_def ret_def emit_def
        current_iso_def faultless_def)
  have docs: "sw_config (snd (maybeReflect v)) = sw_config v" "sw_circuit (snd (maybeReflect v)) = sw_circuit v"
    for v using docs_maybeReflect by (simp_all add: evolves_def docs_kept_def)
  show ?thesis
    by (auto simp: executeTick_def attempt_run await_run run current_iso_def saveCb_def bumpRunCount_def
        store_config_def s_write_run maybeReflect_returns docs)
qed

text \<open>C28: What a tick that starts a cycle leaves behind depends only on what it read. When the
  store works, a started cycle closes the circuit breaker with no failures before the cycle has
  produced anything, whatever the agents, the sandbox or the log later answer: a failing cycle is
  never counted. And the configuration is written back as it was read at the beginning of the
  tick, with the run recorded: a change made in between (here any stored configuration, also one
  that disables the scheduler) is overwritten.\<close>

theorem started_tick_ignores_outcome_and_changes:
  assumes "\<forall>k. xe_fault (sw_env w) k = None" "\<not> sw_cycle_running w"
  shows "(\<exists>b. sw_circuit (snd (executeTick cfg cb (w\<lparr>sw_config := changed\<rparr>))) = Stored b \<and>
      ci_state b = ''closed'' \<and> ci_failures b = 0) \<and>
    (\<exists>c. sw_config (snd (executeTick cfg cb (w\<lparr>sw_config := changed\<rparr>))) = Stored c \<and>
      sc_enabled c = sc_enabled cfg \<and> sc_override c = json_number (sc_override cfg) \<and>
      sc_prompt c = sc_prompt cfg \<and> sc_run_count c = sc_run_count cfg + 1)"
  using executeTick_accepted [of "w\<lparr>sw_config := changed\<rparr>" cfg cb] assms
  by (auto simp: faultless_def)

lemma toISOString_nonempty: "toISOString t \<noteq> ''''"
  by (simp add: toISOString_def time_text_def Let_def)

lemma date_ms_iso: "\<bar>t\<bar> \<le> MAX_TIME \<Longrightarrow> date_ms other (Some (toISOString t)) = Fin (of_int t)"
proof -
  assume t: "\<bar>t\<bar> \<le> MAX_TIME"
  then have "of_count t = Fin (of_int t)" by (intro of_count_exact) (simp add: MAX_TIME_def)
  with t show ?thesis by (simp add: date_ms_def toISOString_nonempty iso_roundtrip)
qed

text \<open>The time a document gives, 0 for none.\<close>

definition time_or_zero :: "int option \<Rightarrow> int" where
  "time_or_zero d = (case d of None \<Rightarrow> 0 | Some t \<Rightarrow> t)"

lemma date_ms_option:
  "(\<forall>t. d = Some t \<longrightarrow> \<bar>t\<bar> \<le> MAX_TIME) \<Longrightarrow>
   date_ms other (map_option toISOString d) = Fin (of_int (time_or_zero d))"
proof (cases d)
  case None
  then show ?thesis by (simp add: date_ms_def time_or_zero_def)
qed (simp add: date_ms_iso time_or_zero_def)

lemma due_iff:
  assumes "\<forall>u. d = Some u \<longrightarrow> \<bar>u\<bar> \<le> MAX_TIME" "\<bar>t\<bar> \<le> MAX_TIME" "0 \<le> i" "i \<le> 10 ^ 14"
  shows "jlt (of_count t) (jadd (date_ms other (map_option toISOString d)) (Fin (of_int i))) \<longleftrightarrow>
    t < time_or_zero d + i"
proof -
  have "\<bar>time_or_zero d + i\<bar> \<le> 2 ^ 53"
    using assms by (cases d) (auto simp: time_or_zero_def MAX_TIME_def)
  then have "jadd (date_ms other (map_option toISOString d)) (Fin (of_int i)) =
      Fin (of_int (time_or_zero d + i))"
    unfolding date_ms_option [OF assms(1)] by (rule jadd_exact)
  moreover have "of_count t = Fin (of_int t)"
    using assms(2) by (intro of_count_exact) (simp add: MAX_TIME_def)
  ultimately show ?thesis by (simp only: jlt.simps of_int_less_iff)
qed

text \<open>A moment in which the store works, the clock stands still and no cycle ends.\<close>

definition still :: "sched_world \<Rightarrow> int \<Rightarrow> sched_plugin list \<Rightarrow> bool" where
  "still w t plugins \<longleftrightarrow> (\<forall>k. xe_fault (sw_env w) k = None \<and> xe_now (sw_env w) k = t \<and>
     xe_active (sw_env w) k = Inr plugins \<and> \<not> xe_finish (sw_env w) k)"

lemma still_settle: "still w t ps \<Longrightarrow> settle_jobs w = w"
  by (simp add: still_def settle_jobs_def)

lemma still_simps [simp]:
  "still (x_tock w) t ps = still w t ps" "still (w\<lparr>sw_circuit := c\<rparr>) t ps = still w t ps"
  "still (w\<lparr>sw_config := d\<rparr>) t ps = still w t ps" "still (w\<lparr>sw_running := b\<rparr>) t ps = still w t ps"
  "still (w\<lparr>sw_cycle_running := b\<rparr>) t ps = still w t ps" "still (w\<lparr>sw_events := es\<rparr>) t ps = still w t ps"
  "still (w\<lparr>sw_jobs := xs\<rparr>) t ps = still w t ps" "still (w\<lparr>sw_counter := n\<rparr>) t ps = still w t ps"
  by (simp_all add: still_def)

lemma still_runs:
  assumes "still w t ps"
  shows "s_read f w = (Inr (f w), x_tock w)" "s_write g w = (Inr (), x_tock (g w))"
    "s_now w = (Inr t, x_tock w)" "current_iso w = (Inr (toISOString t), x_tock w)"
    "resolvePluginSchedules w = (Inr (List.map_filter schedule_of ps), x_tock w)"
  using assms still_settle [OF assms]
  by (simp_all add: s_read_def s_write_def s_now_def current_iso_def Let_def still_def
      resolvePluginSchedules_def attempt_run await_run modify_def x_ask_def ret_def)

definition started_job :: "int \<Rightarrow> string option \<Rightarrow> job" where
  "started_job t p = \<lparr>jb_dry_run = False, jb_started_at = toISOString t, jb_prompt = p\<rparr>"

lemma executeTick_still:
  assumes "still w t ps" "\<not> sw_cycle_running w"
  shows "let w' = snd (executeTick cfg cb w) in
    sw_events w' = sw_events w @ [CycleStarted (toISOString t) False] \<and>
    sw_jobs w' = sw_jobs w @ [started_job t (sc_prompt cfg)] \<and>
    (\<exists>b. sw_circuit w' = Stored b \<and> ci_state b = ''closed'' \<and> ci_failures b = 0) \<and>
    (\<exists>c. sw_config w' = Stored c \<and> sc_last_run c = Some (toISOString t) \<and>
      sc_run_count c = sc_run_count cfg + 1)"
  using assms
  by (simp add: executeTick_def attempt_run await_run runCycle_def gets_def modify_def ret_def emit_def
      still_runs saveCb_def bumpRunCount_def store_config_def maybeReflect_def getRunStatus_def
      started_job_def Let_def)

text \<open>C26: A tick starts a cycle exactly when one is due. While the store answers, the clock reads
  \<open>t\<close> and no cycle ends meanwhile: the tick starts one cycle if the scheduler is enabled, neither
  it nor the executor is busy, an open breaker's five minutes have passed, and the effective
  interval has passed since the last run; it then records the run and closes the breaker. In every
  other case it starts nothing and leaves the configuration as it is.\<close>

theorem tick_starts_exactly_when_due:
  assumes "still w t plugins" "\<bar>t\<bar> \<le> MAX_TIME"
    and "cfg = stored_or (sw_config w) DEFAULT_CONFIG" "cb = stored_or (sw_circuit w) CLOSED_CB"
    and "sc_last_run cfg = map_option toISOString l" "\<forall>u. l = Some u \<longrightarrow> \<bar>u\<bar> \<le> MAX_TIME"
    and "ci_last_failure_at cb = map_option toISOString f" "\<forall>u. f = Some u \<longrightarrow> \<bar>u\<bar> \<le> MAX_TIME"
    and "computeEffectiveInterval cfg (List.map_filter schedule_of plugins) = Fin (of_int i)"
    and "0 \<le> i" "i \<le> 10 ^ 14"
  shows "let w' = snd (tick w) in
    if sc_enabled cfg \<and> \<not> sw_running w \<and> \<not> sw_cycle_running w \<and>
       (ci_state cb = ''open'' \<longrightarrow> time_or_zero f + 300000 \<le> t) \<and> time_or_zero l + i \<le> t
    then sw_events w' = sw_events w @ [CycleStarted (toISOString t) False] \<and>
      sw_jobs w' = sw_jobs w @ [started_job t (sc_prompt cfg)] \<and>
      (\<exists>b. sw_circuit w' = Stored b \<and> ci_state b = ''closed'' \<and> ci_failures b = 0) \<and>
      (\<exists>c. sw_config w' = Stored c \<and> sc_last_run c = Some (toISOString t) \<and>
        sc_run_count c = sc_run_count cfg + 1)
    else sw_events w' = sw_events w \<and> sw_jobs w' = sw_jobs w \<and> sw_config w' = sw_config w"
proof -
  note st = still_runs [of _ t plugins]
  have half: "of_count CB_HALF_OPEN_MS = Fin (of_int 300000)"
    using of_count_exact [of 300000] by (simp add: CB_HALF_OPEN_MS_def)
  have opened: "jlt (of_count t) (jadd (date_ms o' (ci_last_failure_at cb)) (of_count CB_HALF_OPEN_MS)) \<longleftrightarrow>
      t < time_or_zero f + 300000" for o'
    unfolding assms(7) half using assms(8,2) by (intro due_iff) simp_all
  have elapsed: "jlt (of_count t) (jadd (date_ms o' (sc_last_run cfg))
        (computeEffectiveInterval cfg (List.map_filter schedule_of plugins))) \<longleftrightarrow>
      t < time_or_zero l + i" for o'
    unfolding assms(5,9) using assms(6,2,10,11) by (rule due_iff)
  note run = tick_def guarded_tick_def getConfig_def getCircuitBreaker_def checkCircuitBreaker_def
    getRunStatus_def saveCb_def await_run gets_def modify_def ret_def ensure_run
  show ?thesis
    using assms(1) executeTick_still
    by (simp add: run st assms(3,4) [symmetric] opened elapsed Let_def split: if_splits)
qed

section \<open>The circuit breaker\<close>

text \<open>
  The breaker as an automaton over what the tick reports to it: a failure with the breaker that
  was read, or the admission check at a later time.
\<close>

lemma handleTickError_run:
  assumes "still w t ps"
  shows "sw_circuit (snd (handleTickError err cb w)) =
    Stored \<lparr>ci_state = (if ci_failures cb + 1 \<ge> 3 \<or> ci_state cb = ''half_open'' then ''open'' else ''closed''),
      ci_failures = ci_failures cb + 1, ci_last_failure_at = Some (toISOString t),
      ci_last_success_at = ci_last_success_at cb, ci_reason = Some err\<rparr>"
  using assms by (simp add: handleTickError_def Let_def await_run still_runs saveCb_def CB_MAX_FAILURES_def)

lemma checkCircuitBreaker_run:
  assumes "still w t ps" "ci_last_failure_at cb = Some (toISOString u)" "\<bar>u\<bar> \<le> MAX_TIME" "\<bar>t\<bar> \<le> MAX_TIME"
  shows "fst (checkCircuitBreaker cb w) = Inr (ci_state cb \<noteq> ''open'' \<or> u + 300000 \<le> t)"
    and "ci_state cb = ''open'' \<Longrightarrow> u + 300000 \<le> t \<Longrightarrow>
      sw_circuit (snd (checkCircuitBreaker cb w)) = Stored (cb\<lparr>ci_state := ''half_open''\<rparr>)"
proof -
  have "jlt (of_count t) (jadd (date_ms o' (ci_last_failure_at cb)) (of_count CB_HALF_OPEN_MS)) \<longleftrightarrow>
      t < u + 300000" for o'
    using due_iff [of "Some u" t 300000 o'] assms(2-4) of_count_exact [of 300000]
    by (simp add: CB_HALF_OPEN_MS_def time_or_zero_def)
  with assms(1) show "fst (checkCircuitBreaker cb w) = Inr (ci_state cb \<noteq> ''open'' \<or> u + 300000 \<le> t)"
    and "ci_state cb = ''open'' \<Longrightarrow> u + 300000 \<le> t \<Longrightarrow>
      sw_circuit (snd (checkCircuitBreaker cb w)) = Stored (cb\<lparr>ci_state := ''half_open''\<rparr>)"
    by (auto simp: checkCircuitBreaker_def await_run gets_def ret_def still_runs saveCb_def)
qed

text \<open>C27: The circuit breaker opens, waits and probes. A third consecutive failure opens it; an
  open breaker admits no tick for five minutes after the failure that opened it; then the next
  check admits one and stores the breaker half open; and a failure of that probe opens it again at
  once, for another five minutes.\<close>

theorem breaker_opens_waits_and_probes:
  assumes "ci_failures cb = 2" "still w t0 ps" "\<bar>t0\<bar> \<le> MAX_TIME"
    and "sw_circuit (snd (handleTickError err cb w)) = Stored b"
    and "still v t ps" "\<bar>t\<bar> \<le> MAX_TIME" "still u t1 ps"
  shows "ci_state b = ''open'' \<and>
    (t < t0 + 300000 \<longrightarrow> fst (checkCircuitBreaker b v) = Inr False) \<and>
    (t0 + 300000 \<le> t \<longrightarrow> fst (checkCircuitBreaker b v) = Inr True \<and>
      (\<exists>h. sw_circuit (snd (checkCircuitBreaker b v)) = Stored h \<and> ci_state h = ''half_open'' \<and>
        (\<exists>c. sw_circuit (snd (handleTickError err' h u)) = Stored c \<and> ci_state c = ''open'' \<and>
           ci_last_failure_at c = Some (toISOString t1))))"
proof -
  have b: "b = \<lparr>ci_state = ''open'', ci_failures = 3, ci_last_failure_at = Some (toISOString t0),
      ci_last_success_at = ci_last_success_at cb, ci_reason = Some err\<rparr>"
    using handleTickError_run [OF assms(2), of err cb] assms(1,4) by simp
  have last: "ci_last_failure_at b = Some (toISOString t0)" by (simp add: b)
  note check = checkCircuitBreaker_run [OF assms(5) last assms(3,6)]
  have "\<exists>c. sw_circuit (snd (handleTickError err' (b\<lparr>ci_state := ''half_open''\<rparr>) u)) = Stored c \<and>
      ci_state c = ''open'' \<and> ci_last_failure_at c = Some (toISOString t1)"
    by (simp add: handleTickError_run [OF assms(7)])
  then show ?thesis
    using check by (auto simp: b)
qed

text \<open>A plugin's wish never makes cycles more frequent than one a minute. Without a manual
  interval the effective interval is at least one minute, and at most the interval of any polling
  plugin that asks for a minute or more, provided every declared interval is a number; with no
  polling plugin it is one hour.\<close>

theorem effective_interval_bounds:
  assumes "sc_override cfg = None" "\<forall>s\<in>set schedules. ps_interval_ms s \<noteq> NaN"
  shows "jle (Fin 60000) (computeEffectiveInterval cfg schedules) \<and>
    (\<forall>s\<in>set schedules. jle (Fin 60000) (ps_interval_ms s) \<longrightarrow>
       jle (computeEffectiveInterval cfg schedules) (ps_interval_ms s)) \<and>
    (schedules = [] \<longrightarrow> computeEffectiveInterval cfg schedules = Fin 3600000)"
proof -
  have hour: "DEFAULT_INTERVAL_MS = Fin 3600000"
    using mk_num_of_int [of 3600000] by (simp add: DEFAULT_INTERVAL_MS_def)
  have min: "fold (\<lambda>s m. jmin m (ps_interval_ms s)) ss m \<noteq> NaN \<and>
      jle (fold (\<lambda>s m. jmin m (ps_interval_ms s)) ss m) m \<and>
      (\<forall>s\<in>set ss. jle (fold (\<lambda>s m. jmin m (ps_interval_ms s)) ss m) (ps_interval_ms s))"
    if "m \<noteq> NaN" "\<forall>s\<in>set ss. ps_interval_ms s \<noteq> NaN" for ss m
    using that
  proof (induction ss arbitrary: m)
    case Nil
    then show ?case by (simp add: jle_refl)
  next
    case (Cons s ss)
    have "jmin m (ps_interval_ms s) \<noteq> NaN" "jle (jmin m (ps_interval_ms s)) m"
      "jle (jmin m (ps_interval_ms s)) (ps_interval_ms s)"
      using Cons.prems by (auto simp: jmin_def jle_refl jlt_imp_jle not_jlt_iff)
    with Cons.IH [of "jmin m (ps_interval_ms s)"] Cons.prems show ?case
      by (auto intro: jle_trans)
  qed
  let ?m = "min_interval schedules"
  have m: "?m \<noteq> NaN" "\<forall>s\<in>set schedules. jle ?m (ps_interval_ms s)"
    using min [of PInf schedules] assms(2) by (simp_all add: min_interval_def)
  have lower: "jle (Fin 60000) (jmax ?m (Fin 60000))"
    using m(1) by (intro jmax_ge2) (simp add: jmax_eq_NaN)
  have upper: "jle (jmax ?m (Fin 60000)) n" if "jle ?m n" "jle (Fin 60000) n" for n
    using jmax_cases [OF m(1), of "Fin 60000"] that by auto
  show ?thesis
    using assms(1) m(2) lower upper by (auto simp: computeEffectiveInterval_def hour interval_bounds)
qed

section \<open>Reflections\<close>

definition counter_value :: "sched_world \<Rightarrow> int" where
  "counter_value w = (case sw_counter w of None \<Rightarrow> 0 | Some c \<Rightarrow> c)"

lemma maybeReflect_step:
  assumes st: "still w t ps" and idle: "\<not> sw_cycle_running w"
    and every: "everyNCycles (sw_reflection w) = Fin (of_nat n)" "0 < n" "n \<le> 2 ^ 53"
    and c: "0 \<le> counter_value w" "counter_value w < int n"
    and ok: "\<And>k. xe_reflect (sw_env w) k = None"
  shows "let w' = snd (maybeReflect w) in
    still w' t ps \<and> \<not> sw_cycle_running w' \<and> sw_reflection w' = sw_reflection w \<and> sw_env w' = sw_env w \<and>
    counter_value w' = (counter_value w + 1) mod int n \<and>
    sw_reflections w' = sw_reflections w + (if counter_value w + 1 = int n then 1 else 0)"
proof -
  have nz: "Fin (of_nat n) \<noteq> j0" using every(2) by simp
  have "\<bar>counter_value w + 1\<bar> \<le> 2 ^ 53" using c every(3) by (simp add: abs_le_iff)
  then have "of_count (counter_value w + 1) = Fin (of_int (counter_value w + 1))"
    by (rule of_count_exact)
  moreover have "(of_nat n :: rat) \<le> of_int (counter_value w + 1) \<longleftrightarrow> int n \<le> counter_value w + 1"
    by (metis of_int_le_iff of_int_of_nat_eq)
  ultimately have reached:
    "jle (Fin (of_nat n)) (of_count (counter_value w + 1)) \<longleftrightarrow> counter_value w + 1 = int n"
    using c by (simp only: jle.simps) linarith
  let ?v = "x_tock (x_tock w)"
  have m: "maybeReflect w =
      (if counter_value w + 1 = int n
       then attempt (await reflectNow (\<lambda>_. s_write (\<lambda>w. w\<lparr>sw_counter := Some 0\<rparr>))) (\<lambda>_. ret ()) ?v
       else s_write (\<lambda>v. v\<lparr>sw_counter := Some (counter_value w + 1)\<rparr>) ?v)"
    using st idle every(1) nz reached
    by (simp add: maybeReflect_def getRunStatus_def gets_def await_run attempt_run ret_def still_runs
        Let_def counter_value_def [symmetric])
  show ?thesis
  proof (cases "counter_value w + 1 = int n")
    case True
    then show ?thesis
      using st idle ok
      by (simp add: m attempt_run await_run reflectNow_def gets_def modify_def ensure_run
          runReflectionTurn_def x_do_def x_ask_def s_write_def Let_def still_def settle_jobs_def counter_value_def)
  next
    case False
    then have "(counter_value w + 1) mod int n = counter_value w + 1" using c by simp
    with False show ?thesis
      using st idle by (simp add: m still_runs) (simp add: counter_value_def)
  qed
qed

text \<open>A reflection every n-th time. With a cadence of \<open>n\<close> cycles, a counter at zero, a store
  that answers and reflections that succeed, after \<open>k\<close> checks made while no cycle is running there
  have been exactly \<open>k div n\<close> more reflections and the counter stands at \<open>k mod n\<close>.\<close>

theorem reflection_every_nth_check:
  assumes "still w t ps" "\<not> sw_cycle_running w"
    and "everyNCycles (sw_reflection w) = Fin (of_nat n)" "0 < n" "n \<le> 2 ^ 53"
    and "sw_counter w = None \<or> sw_counter w = Some 0" "\<forall>k. xe_reflect (sw_env w) k = None"
  shows "let w' = ((\<lambda>v. snd (maybeReflect v)) ^^ k) w in
    sw_reflections w' = sw_reflections w + k div n \<and> counter_value w' = int (k mod n)"
proof -
  have "let w' = ((\<lambda>v. snd (maybeReflect v)) ^^ k) w in
      still w' t ps \<and> \<not> sw_cycle_running w' \<and> sw_reflection w' = sw_reflection w \<and> sw_env w' = sw_env w \<and>
      counter_value w' = int (k mod n) \<and> sw_reflections w' = sw_reflections w + k div n"
  proof (induction k)
    case 0
    then show ?case using assms by (auto simp: counter_value_def)
  next
    case (Suc k)
    let ?v = "((\<lambda>v. snd (maybeReflect v)) ^^ k) w"
    have v: "still ?v t ps" "\<not> sw_cycle_running ?v" "sw_reflection ?v = sw_reflection w"
      "sw_env ?v = sw_env w" "counter_value ?v = int (k mod n)" "sw_reflections ?v = sw_reflections w + k div n"
      using Suc by (simp_all add: Let_def)
    have "counter_value ?v + 1 = int n \<longleftrightarrow> Suc (k mod n) = n" by (simp add: v(5)) linarith
    moreover have "int (Suc k mod n) = (int (k mod n) + 1) mod int n"
      by (metis mod_Suc_eq of_nat_Suc of_nat_mod add.commute)
    moreover have "Suc k div n = k div n + (if Suc (k mod n) = n then 1 else 0)"
      using assms(4) by (simp add: div_Suc mod_Suc)
    moreover have "int (k mod n) < int n" using assms(4) by simp
    ultimately show ?case
      using maybeReflect_step [OF v(1,2) assms(3) [folded v(3)] assms(4,5)] assms(7) v
      by (simp add: Let_def)
  qed
  then show ?thesis by (simp add: Let_def)
qed

end
