(* ===== verification/PretestScheduler.thy ===== *)
theory PretestScheduler
  imports KvUtil Effects
begin

text \<open>
  \<open>pretest-scheduler/pretest-scheduler.service.ts\<close>: the slot-aligned timer of the virtual
  portfolios. \<open>pw_slots\<close> records the slots whose run was started, in order; the outcome of
  \<open>runAllActive\<close>, the clock and database faults are the environment.
\<close>

section \<open>Model\<close>

record pretest_env =
  pe_fault :: "nat \<Rightarrow> exn option"
  pe_now :: "nat \<Rightarrow> int"
  pe_runAllActive :: "nat \<Rightarrow> exn + (string \<times> bool) list"

record pretest_world =
  pw_env :: pretest_env
  pw_calls :: nat
  pw_config :: "string \<Rightarrow> string option"
  pw_running :: bool
  pw_lastRunAt :: "jsnum option"
  pw_ticking :: bool
  pw_slots :: "jsnum list"

type_synonym 'a pretest_io = "(pretest_world, 'a) io"

definition PRETEST_CONFIG_KEY :: string where
  "PRETEST_CONFIG_KEY = ''pretest.scheduler_interval_ms''"

definition PRETEST_DEFAULT_INTERVAL_MS :: jsnum where
  "PRETEST_DEFAULT_INTERVAL_MS = js (6 * 60 * 60000)"

definition p_tock :: "pretest_world \<Rightarrow> pretest_world" where
  "p_tock w = w\<lparr>pw_calls := Suc (pw_calls w)\<rparr>"

definition p_kv_get :: "string \<Rightarrow> string option pretest_io" where
  "p_kv_get k = (\<lambda>w. case pe_fault (pw_env w) (pw_calls w) of
      Some e \<Rightarrow> (Inl e, p_tock w) | None \<Rightarrow> (Inr (pw_config w k), p_tock w))"

definition p_now :: "jsnum pretest_io" where
  "p_now = (\<lambda>w. (Inr (of_count (pe_now (pw_env w) (pw_calls w))), p_tock w))"

definition p_runAllActive :: "(string \<times> bool) list pretest_io" where
  "p_runAllActive = (\<lambda>w. (pe_runAllActive (pw_env w) (pw_calls w), p_tock w))"

definition currentSlot :: "jsnum \<Rightarrow> jsnum \<Rightarrow> jsnum" where
  "currentSlot now_ms intervalMs = jmul (jfloor (jdiv now_ms intervalMs)) intervalMs"

definition isDue :: "jsnum \<Rightarrow> jsnum \<Rightarrow> jsnum option \<Rightarrow> bool" where
  "isDue now_ms intervalMs lastRunAt =
     (let slot = currentSlot now_ms intervalMs
      in case lastRunAt of None \<Rightarrow> True | Some l \<Rightarrow> jgt slot l)"

definition pretest_onModuleInit :: "unit pretest_io" where
  "pretest_onModuleInit =
     await (attempt (await (p_kv_get PRETEST_CONFIG_KEY) (\<lambda>raw.
              ret (kvNum raw PRETEST_DEFAULT_INTERVAL_MS)))
            (\<lambda>_. ret PRETEST_DEFAULT_INTERVAL_MS)) (\<lambda>intervalMs.
     await p_now (\<lambda>t.
     modify (\<lambda>w. w\<lparr>pw_lastRunAt := Some (currentSlot t
         (if jgt intervalMs j0 then intervalMs else PRETEST_DEFAULT_INTERVAL_MS)),
       pw_ticking := True\<rparr>)))"

definition pretest_onModuleDestroy :: "unit pretest_io" where
  "pretest_onModuleDestroy = modify (\<lambda>w. w\<lparr>pw_ticking := False\<rparr>)"

text \<open>The results are only logged; so is a rejection.\<close>

definition run_slot :: "jsnum \<Rightarrow> unit pretest_io" where
  "run_slot slot =
     await (modify (\<lambda>w. w\<lparr>pw_running := True, pw_lastRunAt := Some slot,
       pw_slots := pw_slots w @ [slot]\<rparr>)) (\<lambda>_.
     ensure (attempt (await p_runAllActive (\<lambda>_. ret ())) (\<lambda>_. ret ()))
       (\<lambda>w. w\<lparr>pw_running := False\<rparr>))"

definition pretest_tick :: "unit pretest_io" where
  "pretest_tick =
     await (gets pw_running) (\<lambda>running.
     if running then ret ()
     else
       await (attempt (await (p_kv_get PRETEST_CONFIG_KEY) (\<lambda>raw.
                ret (Some (kvNum raw PRETEST_DEFAULT_INTERVAL_MS)))) (\<lambda>_. ret None)) (\<lambda>read.
       case read of
         None \<Rightarrow> ret ()
       | Some intervalMs \<Rightarrow>
           if jle intervalMs j0 then ret ()
           else
             await p_now (\<lambda>t.
             await (gets pw_lastRunAt) (\<lambda>lastRunAt.
             if \<not> isDue t intervalMs lastRunAt then ret ()
             else run_slot (currentSlot t intervalMs)))))"

section \<open>At most one run per slot\<close>

text \<open>The operator may change the interval between two steps.\<close>

inductive pretest_step :: "pretest_world \<Rightarrow> pretest_world \<Rightarrow> bool" where
  "pretest_step w (snd (pretest_tick w))"
| "pretest_step w (w\<lparr>pw_config := c\<rparr>)"

inductive pretest_run :: "pretest_world \<Rightarrow> pretest_world \<Rightarrow> bool" where
  "pretest_run w w"
| "pretest_run w w' \<Longrightarrow> pretest_step w' w'' \<Longrightarrow> pretest_run w w''"

text \<open>The slots run since boot, preceded by the slot of the boot.\<close>

definition slots_ok :: "jsnum \<Rightarrow> pretest_world \<Rightarrow> bool" where
  "slots_ok boot w \<longleftrightarrow> sorted_wrt jlt (boot # pw_slots w) \<and>
     pw_lastRunAt w = Some (last (boot # pw_slots w)) \<and> \<not> pw_running w"

lemma p_tock_simps [simp]:
  "pw_slots (p_tock w) = pw_slots w" "pw_lastRunAt (p_tock w) = pw_lastRunAt w"
  "pw_running (p_tock w) = pw_running w" "pw_config (p_tock w) = pw_config w"
  "pw_env (p_tock w) = pw_env w"
  by (simp_all add: p_tock_def)

lemma sorted_wrt_snoc:
  assumes "sorted_wrt jlt (b # xs)" "jlt (last (b # xs)) x"
  shows "sorted_wrt jlt (b # xs @ [x])"
proof -
  have "jlt y x" if "y \<in> set (b # xs)" for y
  proof (cases "y = last (b # xs)")
    case False
    then have "y \<in> set (butlast (b # xs))"
      using that by (metis append_butlast_last_id list.distinct(1) rotate1.simps(2) set_ConsD set_rotate1)
    moreover have "sorted_wrt jlt (butlast (b # xs) @ [last (b # xs)])"
      using assms(1) by simp
    ultimately have "jlt y (last (b # xs))" by (simp only: sorted_wrt_append) simp
    with assms(2) show ?thesis by (blast intro: jlt_trans)
  qed (use assms(2) in simp)
  with assms(1) have "sorted_wrt jlt ((b # xs) @ [x])" by (simp only: sorted_wrt_append) simp
  then show ?thesis by simp
qed

lemma run_slot_effect:
  "pw_slots (snd (run_slot s w)) = pw_slots w @ [s] \<and> pw_lastRunAt (snd (run_slot s w)) = Some s \<and>
   \<not> pw_running (snd (run_slot s w)) \<and> fst (run_slot s w) = Inr ()"
  by (simp add: run_slot_def await_run modify_def ensure_run attempt_run p_runAllActive_def ret_def
      split: sum.splits)

lemma pretest_tick_slots:
  obtains "pw_slots (snd (pretest_tick w)) = pw_slots w" "pw_lastRunAt (snd (pretest_tick w)) = pw_lastRunAt w"
    "pw_running (snd (pretest_tick w)) = pw_running w"
  | s where "pw_slots (snd (pretest_tick w)) = pw_slots w @ [s]" "pw_lastRunAt (snd (pretest_tick w)) = Some s"
    "\<not> pw_running (snd (pretest_tick w))" "case pw_lastRunAt w of None \<Rightarrow> True | Some l \<Rightarrow> jlt l s"
proof -
  have "(pw_slots (snd (pretest_tick w)) = pw_slots w \<and>
      pw_lastRunAt (snd (pretest_tick w)) = pw_lastRunAt w \<and>
      pw_running (snd (pretest_tick w)) = pw_running w) \<or>
    (\<exists>s. pw_slots (snd (pretest_tick w)) = pw_slots w @ [s] \<and>
      pw_lastRunAt (snd (pretest_tick w)) = Some s \<and> \<not> pw_running (snd (pretest_tick w)) \<and>
      (case pw_lastRunAt w of None \<Rightarrow> True | Some l \<Rightarrow> jlt l s))"
    by (auto simp: pretest_tick_def await_run attempt_run gets_def ret_def p_kv_get_def p_now_def isDue_def
        run_slot_effect Let_def split: option.splits)
  then show thesis using that by blast
qed

lemma pretest_step_slots: "pretest_step w w' \<Longrightarrow> slots_ok boot w \<Longrightarrow> slots_ok boot w'"
proof (induction rule: pretest_step.induct)
  case (1 w)
  show ?case
  proof (rule pretest_tick_slots [of w])
    fix s
    assume "pw_slots (snd (pretest_tick w)) = pw_slots w @ [s]"
      "pw_lastRunAt (snd (pretest_tick w)) = Some s" "\<not> pw_running (snd (pretest_tick w))"
      "case pw_lastRunAt w of None \<Rightarrow> True | Some l \<Rightarrow> jlt l s"
    with 1 show ?thesis
      using sorted_wrt_snoc [of boot "pw_slots w" s] by (simp add: slots_ok_def)
  qed (use 1 in \<open>simp add: slots_ok_def\<close>)
next
  case (2 w c)
  then show ?case by (simp add: slots_ok_def)
qed

lemma pretest_run_slots: "pretest_run w w' \<Longrightarrow> slots_ok boot w \<Longrightarrow> slots_ok boot w'"
  by (induction rule: pretest_run.induct) (auto dest: pretest_step_slots)

lemma pretest_onModuleInit_boots:
  "(\<exists>boot. pw_lastRunAt (snd (pretest_onModuleInit w)) = Some boot) \<and>
   pw_slots (snd (pretest_onModuleInit w)) = pw_slots w \<and>
   pw_running (snd (pretest_onModuleInit w)) = pw_running w"
  by (cases "pe_fault (pw_env w) (pw_calls w)")
    (simp_all add: pretest_onModuleInit_def await_run attempt_run p_kv_get_def p_now_def modify_def ret_def)

text \<open>C29: At most one pretest run per slot, and none at boot. After the module has started, through
  any sequence of ticks and changes of the interval, the slots whose run was started are strictly
  increasing and all later than the slot of the boot; a run that fails counts as the slot's run
  (it is not repeated before the next slot); and the overlap guard is free after every step.\<close>

theorem one_pretest_run_per_slot:
  assumes "pretest_run (snd (pretest_onModuleInit w0)) w" "pw_slots w0 = []" "\<not> pw_running w0"
  shows "\<exists>boot. pw_lastRunAt (snd (pretest_onModuleInit w0)) = Some boot \<and>
    sorted_wrt jlt (boot # pw_slots w) \<and> distinct (pw_slots w) \<and> \<not> pw_running w"
proof -
  let ?v = "snd (pretest_onModuleInit w0)"
  obtain boot where b: "pw_lastRunAt ?v = Some boot" "pw_slots ?v = []" "\<not> pw_running ?v"
    using assms(2,3) pretest_onModuleInit_boots [of w0] by auto
  then have "slots_ok boot ?v" by (simp add: slots_ok_def)
  then have w: "slots_ok boot w" using assms(1) by (rule pretest_run_slots [rotated])
  have "distinct xs" if "sorted_wrt jlt xs" for xs
    using that by (induction xs) auto
  with w b show ?thesis by (auto simp: slots_ok_def)
qed

end
