(* ===== verification/SchedulerWitnesses.thy ===== *)
theory SchedulerWitnesses
  imports SchedulerFacts PretestScheduler
begin

text \<open>Concrete states of the scheduler on which its theorems apply.\<close>

definition hourly_plugin :: sched_plugin where
  "hourly_plugin = \<lparr>pl_id = ''p'', pl_scheduler = Some \<lparr>se_mode = None, se_timeframe = None,
     se_interval_ms = Some (Fin 7200000)\<rparr>, pl_config_timeframe = None, pl_config_interval_ms = None\<rparr>"

definition sched_sample_env :: "int \<Rightarrow> sched_env" where
  "sched_sample_env t = \<lparr>xe_fault = (\<lambda>_. None), xe_now = (\<lambda>_. t), xe_date = (\<lambda>_. None),
     xe_active = (\<lambda>_. Inr [hourly_plugin]), xe_finish = (\<lambda>_. False), xe_findActive = (\<lambda>_. None),
     xe_sandbox = (\<lambda>_. Inr (True, None)), xe_agents = (\<lambda>_. Inl (Exn ''LLM down'')),
     xe_snapshot = (\<lambda>_. None), xe_append = (\<lambda>_. None), xe_reflect = (\<lambda>_. None)\<rparr>"

definition enabled_config :: sched_config where
  "enabled_config = DEFAULT_CONFIG\<lparr>sc_enabled := True\<rparr>"

definition sched_sample :: "int \<Rightarrow> sched_world" where
  "sched_sample t = \<lparr>sw_env = sched_sample_env t, sw_calls = 0, sw_config = Stored enabled_config,
     sw_circuit = Absent, sw_reflection = Stored (Some (Fin 2)), sw_counter = None, sw_running = False,
     sw_cycle_running = False, sw_cycle_last = None, sw_jobs = [], sw_events = [], sw_log = [],
     sw_reflections = 0\<rparr>"

lemma sched_sample_simps [simp]:
  "sw_env (sched_sample t) = sched_sample_env t" "sw_config (sched_sample t) = Stored enabled_config"
  "sw_circuit (sched_sample t) = Absent" "sw_running (sched_sample t) = False"
  "sw_cycle_running (sched_sample t) = False" "sw_jobs (sched_sample t) = []"
  "sw_events (sched_sample t) = []" "sw_counter (sched_sample t) = None"
  "sw_reflection (sched_sample t) = Stored (Some (Fin 2))" "sw_reflections (sched_sample t) = 0"
  by (simp_all add: sched_sample_def)

lemma sched_sample_ok: "sched_ok (sched_sample t)"
  by (simp add: sched_ok_def lock_ok_def lock_state_def phase_def stored_ok_def config_ok_def
      enabled_config_def DEFAULT_CONFIG_def iso_time_def)

lemma sched_sample_still: "still (sched_sample t) t [hourly_plugin]"
  by (simp add: still_def sched_sample_env_def)

lemma hourly_interval:
  "computeEffectiveInterval enabled_config (List.map_filter schedule_of [hourly_plugin]) = Fin (of_int 7200000)"
proof -
  have "List.map_filter schedule_of [hourly_plugin] =
      [\<lparr>ps_plugin_id = ''p'', ps_mode = ''polling'', ps_interval_ms = Fin 7200000, ps_timeframe = ''1d''\<rparr>]"
    by (simp add: map_filter_simps schedule_of_def hourly_plugin_def coalesce_def Let_def)
  moreover have "sc_override enabled_config = None" by (simp add: enabled_config_def DEFAULT_CONFIG_def)
  ultimately show ?thesis
    by (simp add: computeEffectiveInterval_def min_interval_def interval_bounds jmin_def jmax_def)
qed


text \<open>A tick that starts a cycle, which then fails.\<close>

abbreviation failed_cycle :: sched_world where
  "failed_cycle \<equiv> finish_job (snd (tick (sched_sample 86400000)))"

lemma failed_cycle_reached: "sched_run (sched_sample 86400000) failed_cycle"
  by (rule run_step [OF run_step [OF run_refl step_tick] step_finish])

theorem cycles_never_overlap_witness:
  "phase (sw_events failed_cycle) \<noteq> None \<and> length (sw_jobs failed_cycle) \<le> 1 \<and>
   (sw_cycle_running failed_cycle \<longleftrightarrow> sw_jobs failed_cycle \<noteq> [])"
  using cycles_never_overlap [OF failed_cycle_reached sched_sample_ok] by blast


text \<open>The operator disables the scheduler during a tick, and it is enabled again.\<close>

theorem started_tick_ignores_outcome_and_changes_witness:
  "\<exists>c. sw_config (snd (executeTick enabled_config CLOSED_CB
       ((sched_sample 0)\<lparr>sw_config := Stored (enabled_config\<lparr>sc_enabled := False\<rparr>)\<rparr>))) = Stored c \<and> sc_enabled c"
  using started_tick_ignores_outcome_and_changes [of "sched_sample 0" enabled_config CLOSED_CB
      "Stored (enabled_config\<lparr>sc_enabled := False\<rparr>)"]
  by (auto simp: sched_sample_env_def enabled_config_def)

theorem tick_starts_exactly_when_due_witness:
  "sw_events (snd (tick (sched_sample 7200000))) = [CycleStarted (toISOString 7200000) False] \<and>
   sw_events (snd (tick (sched_sample 7199999))) = []"
proof -
  have run: "sw_events (snd (tick (sched_sample t))) =
      (if 7200000 \<le> t then [CycleStarted (toISOString t) False] else [])" if "\<bar>t\<bar> \<le> MAX_TIME" for t
    using tick_starts_exactly_when_due [OF sched_sample_still that refl refl, where l = None and f = None and i = 7200000]
      hourly_interval
    by (simp add: stored_or_def enabled_config_def DEFAULT_CONFIG_def CLOSED_CB_def time_or_zero_def
        Let_def split: if_splits)
  show ?thesis using run [of 7200000] run [of 7199999] by (simp add: MAX_TIME_def)
qed

theorem breaker_opens_waits_and_probes_witness:
  "\<exists>b. sw_circuit (snd (handleTickError (Exn ''store'') (CLOSED_CB\<lparr>ci_failures := 2\<rparr>) (sched_sample 1000))) =
       Stored b \<and> ci_state b = ''open'' \<and>
     fst (checkCircuitBreaker b (sched_sample 300999)) = Inr False \<and>
     fst (checkCircuitBreaker b (sched_sample 301000)) = Inr True"
proof -
  obtain b where b: "sw_circuit (snd (handleTickError (Exn ''store'') (CLOSED_CB\<lparr>ci_failures := 2\<rparr>)
      (sched_sample 1000))) = Stored b"
    using handleTickError_run [OF sched_sample_still [of 1000]] by simp
  have two: "ci_failures (CLOSED_CB\<lparr>ci_failures := 2\<rparr>) = 2" by simp
  have "ci_state b = ''open'' \<and>
      (t < 1000 + 300000 \<longrightarrow> fst (checkCircuitBreaker b (sched_sample t)) = Inr False) \<and>
      (1000 + 300000 \<le> t \<longrightarrow> fst (checkCircuitBreaker b (sched_sample t)) = Inr True)"
    if "\<bar>t\<bar> \<le> MAX_TIME" for t
    using breaker_opens_waits_and_probes [OF two sched_sample_still _ b sched_sample_still that sched_sample_still]
    by (simp add: MAX_TIME_def)
  from this [of 300999] this [of 301000] b show ?thesis by (simp add: MAX_TIME_def)
qed


text \<open>A database and portfolios that answer; six hours pass between two answers. Boot, then a tick.\<close>

definition pretest_sample :: pretest_world where
  "pretest_sample =
     \<lparr>pw_env = \<lparr>pe_fault = (\<lambda>_. None), pe_now = (\<lambda>n. 21600000 * int n), pe_runAllActive = (\<lambda>_. Inl (Exn ''down''))\<rparr>,
      pw_calls = 0, pw_config = Map.empty, pw_running = False, pw_lastRunAt = None, pw_ticking = False,
      pw_slots = []\<rparr>"

theorem one_pretest_run_per_slot_witness:
  "let w = snd (pretest_tick (snd (pretest_onModuleInit pretest_sample)))
   in pw_slots w = [Fin 64800000] \<and>
     (\<exists>boot. pw_lastRunAt (snd (pretest_onModuleInit pretest_sample)) = Some boot \<and>
       sorted_wrt jlt (boot # pw_slots w))"
proof -
  have "pretest_run (snd (pretest_onModuleInit pretest_sample))
      (snd (pretest_tick (snd (pretest_onModuleInit pretest_sample))))"
    by (rule pretest_run.intros(2) [OF pretest_run.intros(1) pretest_step.intros(1)])
  moreover have "pw_slots pretest_sample = []" "\<not> pw_running pretest_sample"
    by (simp_all add: pretest_sample_def)
  moreover have "pw_slots (snd (pretest_tick (snd (pretest_onModuleInit pretest_sample)))) = [Fin 64800000]"
    by code_simp
  ultimately show ?thesis using one_pretest_run_per_slot by (fastforce simp: Let_def)
qed

end
