(* ===== verification/PretestEngine.thy ===== *)
theory PretestEngine
  imports GovernedExec Json JsMath JsDate
begin

text \<open>
  \<open>pretest/pretest.service.ts\<close>, first part: the state of a virtual portfolio and the engine that
  trades on it. Quantities are signed (a short position is negative). The objects the code
  mutates in place are updated functionally; a trade that an operation completes with its result
  is returned with the state. Quotes requested together are answered in the order of the
  positions.
\<close>

section \<open>Types\<close>

datatype trade_action = Buy | Sell | Close | Short | Cover

record pt_trade =
  vt_ts :: string
  vt_symbol :: string
  vt_action :: trade_action
  vt_price :: jsnum
  vt_quantity :: jsnum
  vt_pnl :: "jsnum option"
  vt_entry_price :: "jsnum option"

record pt_position =
  vp_symbol :: string
  vp_quantity :: jsnum
  vp_avg_price :: jsnum
  vp_current_price :: "jsnum option"
  vp_unrealized_pnl :: "jsnum option"

record pt_state =
  vs_equity :: jsnum
  vs_cash :: jsnum
  vs_positions :: "pt_position list"
  vs_trades :: "pt_trade list"
  vs_max_equity :: jsnum
  vs_max_drawdown_pct :: jsnum
  vs_realized_pnl :: jsnum
  vs_win_trades :: int
  vs_loss_trades :: int
  vs_benchmark_return_pct :: "jsnum option"
  vs_benchmark_start_price :: "jsnum option"
  vs_hwm :: "jsnum option"
  vs_day_key :: "int option"
  vs_day_start_equity :: "jsnum option"
  vs_week_key :: "int option"
  vs_week_start_equity :: "jsnum option"

text \<open>\<open>execution_mode\<close> has two values: True is \<open>deterministic\<close>.\<close>

record pretest_policy =
  py_sizing_pct :: jsnum
  py_slippage_pct :: jsnum
  py_commission_pct :: jsnum
  py_borrow_cost_pct :: jsnum
  py_deterministic :: bool

definition POLICY_DEFAULTS :: pretest_policy where
  "POLICY_DEFAULTS = \<lparr>py_sizing_pct = js (5 / 100), py_slippage_pct = j0, py_commission_pct = j0,
     py_borrow_cost_pct = js (1 / 10000), py_deterministic = False\<rparr>"

definition MAX_FILL_PRICE_DEVIATION :: jsnum where
  "MAX_FILL_PRICE_DEVIATION = js (1 / 2)"

definition BENCHMARK_SYMBOL :: string where
  "BENCHMARK_SYMBOL = ''SPY''"

definition DEFAULT_STATE :: "jsnum \<Rightarrow> pt_state" where
  "DEFAULT_STATE capital =
     \<lparr>vs_equity = capital, vs_cash = capital, vs_positions = [], vs_trades = [],
      vs_max_equity = capital, vs_max_drawdown_pct = j0, vs_realized_pnl = j0, vs_win_trades = 0,
      vs_loss_trades = 0, vs_benchmark_return_pct = None, vs_benchmark_start_price = None,
      vs_hwm = None, vs_day_key = None, vs_day_start_equity = None, vs_week_key = None,
      vs_week_start_equity = None\<rparr>"

section \<open>Policies\<close>

type_synonym config = "string \<Rightarrow> json option"

text \<open>\<open>Number.EPSILON\<close>.\<close>

definition NUMBER_EPSILON :: jsnum where
  "NUMBER_EPSILON = js (1 / 2 ^ 52)"

definition coerce_pct :: "json option \<Rightarrow> jsnum \<Rightarrow> jsnum" where
  "coerce_pct v fallback = (let n = json_to_number v in if is_finite n then n else fallback)"

definition readPolicy :: "(string \<Rightarrow> config option) \<Rightarrow> pretest_policy" where
  "readPolicy plugin_configs =
     (let raw = (case plugin_configs ''__pretest_policy__'' of Some c \<Rightarrow> c | None \<Rightarrow> (\<lambda>_. None))
      in \<lparr>py_sizing_pct = jmax NUMBER_EPSILON
            (jmin j1 (coerce_pct (raw ''sizing_pct'') (py_sizing_pct POLICY_DEFAULTS))),
          py_slippage_pct = jmax j0
            (jmin j1 (coerce_pct (raw ''slippage_pct'') (py_slippage_pct POLICY_DEFAULTS))),
          py_commission_pct = jmax j0
            (jmin j1 (coerce_pct (raw ''commission_pct'') (py_commission_pct POLICY_DEFAULTS))),
          py_borrow_cost_pct = jmax j0
            (jmin j1 (coerce_pct (raw ''borrow_cost_pct'') (py_borrow_cost_pct POLICY_DEFAULTS))),
          py_deterministic = (raw ''execution_mode'' = Some (JStr ''deterministic''))\<rparr>)"

text \<open>A percentage outside \<open>(0, upper]\<close> is replaced by its default.\<close>

definition bounded_or :: "jsnum \<Rightarrow> jsnum \<Rightarrow> jsnum \<Rightarrow> jsnum" where
  "bounded_or upper d x = (if jle x j0 \<or> jgt x upper then d else x)"

definition RISK_KEYS :: "string list" where
  "RISK_KEYS =
     [''execution.max_position_pct'', ''execution.max_open_positions'',
      ''execution.max_drawdown_halt_pct'', ''execution.max_short_notional_pct'',
      ''execution.loss_circuit_breaker_enabled'', ''execution.max_daily_loss_pct'',
      ''execution.max_weekly_loss_pct'']"

definition risk_policy_from :: "(string \<Rightarrow> string option) \<Rightarrow> risk_policy" where
  "risk_policy_from raw =
     (let open_positions = jround (kvNum (raw ''execution.max_open_positions'') (Fin 10))
      in \<lparr>rk_max_position_pct =
            bounded_or j1 (js (1 / 10)) (kvNum (raw ''execution.max_position_pct'') (js (1 / 10))),
          rk_max_open_positions = (if jlt open_positions j1 then j1 else open_positions),
          rk_max_drawdown_halt_pct =
            bounded_or (Fin 100) (Fin 25) (kvNum (raw ''execution.max_drawdown_halt_pct'') (Fin 25)),
          rk_max_short_notional_pct =
            bounded_or j1 (js (1 / 10)) (kvNum (raw ''execution.max_short_notional_pct'') (js (1 / 10))),
          rk_loss_breaker = kvBool (raw ''execution.loss_circuit_breaker_enabled'') True,
          rk_max_daily_loss_pct =
            bounded_or j1 (js (3 / 100)) (kvNum (raw ''execution.max_daily_loss_pct'') (js (3 / 100))),
          rk_max_weekly_loss_pct =
            bounded_or j1 (js (6 / 100)) (kvNum (raw ''execution.max_weekly_loss_pct'') (js (6 / 100)))\<rparr>)"

definition readRiskPolicy :: "risk_policy app" where
  "readRiskPolicy = await (kv_get_all RISK_KEYS) (\<lambda>raw. ret (risk_policy_from raw))"

section \<open>Reference prices\<close>

text \<open>The bars as the market context keeps them.\<close>

record market_bar =
  mb_date :: string
  mb_open :: jsnum
  mb_high :: jsnum
  mb_low :: jsnum
  mb_close :: jsnum
  mb_volume :: jsnum

type_synonym closes = "string \<Rightarrow> jsnum option"

definition latest_close :: "market_bar list \<Rightarrow> jsnum option" where
  "latest_close bars =
     (if bars = [] then None
      else let c = mb_close (last bars) in if is_finite c \<and> jgt c j0 then Some c else None)"

definition latestCloses :: "(string \<Rightarrow> market_bar list option) \<Rightarrow> closes" where
  "latestCloses ohlcv symb = Option.bind (ohlcv symb) latest_close"

definition isQuotePlausible :: "string \<Rightarrow> jsnum \<Rightarrow> closes \<Rightarrow> bool" where
  "isQuotePlausible symb px referenceCloses =
     (case referenceCloses symb of
        None \<Rightarrow> True
      | Some ref \<Rightarrow>
          if \<not> is_finite ref \<or> jle ref j0 then True
          else jle (jabs (jsub (jdiv px ref) j1)) MAX_FILL_PRICE_DEVIATION)"

section \<open>Tool calls\<close>

record tool_call =
  tc_plugin_id :: string
  tc_function :: string
  tc_args :: config

text \<open>
  \<open>undefined\<close> and the empty string are not symbols; a symbol is a string. The program casts the argument
  without a check, so that a number or an object would go through as a symbol; the model treats
  them as absent.
\<close>

definition symbol_arg :: "tool_call \<Rightarrow> string option" where
  "symbol_arg tc =
     (case as_string (tc_args tc ''symbol'') of
        Some s \<Rightarrow> if s = '''' then None else Some s | None \<Rightarrow> None)"

text \<open>\<open>(args['action'] as string | undefined)?.toLowerCase()\<close>: no method on other values.\<close>

definition not_a_function :: exn where
  "not_a_function = Exn ''TypeError: toLowerCase is not a function''"

definition action_arg :: "tool_call \<Rightarrow> exn + string option" where
  "action_arg tc =
     (case tc_args tc ''action'' of
        None \<Rightarrow> Inr None
      | Some JNull \<Rightarrow> Inr None
      | Some (JStr s) \<Rightarrow> Inr (Some (toLowerCase s))
      | Some _ \<Rightarrow> Inl not_a_function)"

definition vposition_of :: "string \<Rightarrow> pt_state \<Rightarrow> pt_position option" where
  "vposition_of symb st = find (\<lambda>p. vp_symbol p = symb) (vs_positions st)"

definition mapIntentAction :: "string option \<Rightarrow> string \<Rightarrow> pt_state \<Rightarrow> trade_action option" where
  "mapIntentAction rawAction symb st =
     (case rawAction of
        None \<Rightarrow> None
      | Some a \<Rightarrow>
          if a = ''hold'' then None
          else if a = ''long'' then Some Buy
          else if a = ''short'' then Some Short
          else if a = ''exit'' then
            (case vposition_of symb st of
               None \<Rightarrow> None
             | Some pos \<Rightarrow>
                 if vp_quantity pos = j0 then None
                 else if jgt (vp_quantity pos) j0 then Some Close else Some Cover)
          else if a = ''buy'' then Some Buy
          else if a = ''sell'' then Some Sell
          else if a = ''close'' then Some Close
          else if a = ''cover'' then Some Cover
          else None)"

section \<open>Fills\<close>

definition calcQuantity ::
  "trade_action \<Rightarrow> string \<Rightarrow> jsnum \<Rightarrow> pt_state \<Rightarrow> pretest_policy \<Rightarrow> jsnum" where
  "calcQuantity action symb price st policy =
     (if action = Buy \<or> action = Short then
        budget_qty (vs_cash st) (py_sizing_pct policy) price (py_commission_pct policy)
      else case vposition_of symb st of
        None \<Rightarrow> j0
      | Some pos \<Rightarrow>
          if action = Cover then (if jlt (vp_quantity pos) j0 then jabs (vp_quantity pos) else j0)
          else if jgt (vp_quantity pos) j0 then vp_quantity pos else j0)"

definition fill_price :: "trade_action \<Rightarrow> jsnum \<Rightarrow> jsnum \<Rightarrow> jsnum" where
  "fill_price action px slippage =
     (if action = Buy \<or> action = Cover then jmul px (jadd j1 slippage)
      else jmul px (jsub j1 slippage))"

definition current_ts :: "string app" where
  "current_ts = await now (\<lambda>t. ret (toISOString t))"

text \<open>One tool call: the trade it fills, if any.\<close>

definition simulate_one ::
  "tool_call \<Rightarrow> pt_state \<Rightarrow> pretest_policy \<Rightarrow> closes \<Rightarrow> pt_trade option app" where
  "simulate_one tc st policy referenceCloses =
     await (lift_result (action_arg tc)) (\<lambda>rawAction.
     case symbol_arg tc of
       None \<Rightarrow> ret None
     | Some symb \<Rightarrow>
         (case mapIntentAction rawAction symb st of
            None \<Rightarrow> ret None
          | Some action \<Rightarrow>
              await (attempt (await (quote_last symb) (\<lambda>px. ret (Some px))) (\<lambda>_. ret None)) (\<lambda>quote.
              case quote of
                None \<Rightarrow> ret None
              | Some px \<Rightarrow>
                  if jle px j0 \<or> \<not> isQuotePlausible symb px referenceCloses then ret None
                  else
                    (let price = fill_price action px (py_slippage_pct policy);
                         quantity = calcQuantity action symb price st policy
                     in if jle quantity j0 then ret None
                        else await current_ts (\<lambda>ts.
                          ret (Some \<lparr>vt_ts = ts, vt_symbol = symb, vt_action = action,
                            vt_price = price, vt_quantity = quantity, vt_pnl = None,
                            vt_entry_price = None\<rparr>))))))"

primrec simulateFills ::
  "tool_call list \<Rightarrow> pt_state \<Rightarrow> pretest_policy \<Rightarrow> closes \<Rightarrow> pt_trade list app" where
  "simulateFills [] st policy refs = ret []"
| "simulateFills (tc # tcs) st policy refs =
     await (simulate_one tc st policy refs) (\<lambda>trade.
     await (simulateFills tcs st policy refs) (\<lambda>trades.
     ret (case trade of None \<Rightarrow> trades | Some t \<Rightarrow> t # trades)))"

section \<open>Applying trades\<close>

text \<open>The pair of the new state and the trade as it is afterwards.\<close>

definition update_position :: "string \<Rightarrow> (pt_position \<Rightarrow> pt_position) \<Rightarrow> pt_state \<Rightarrow> pt_state" where
  "update_position symb f st =
     st\<lparr>vs_positions := upd_first (\<lambda>p. vp_symbol p = symb) f (vs_positions st)\<rparr>"

definition open_position :: "string \<Rightarrow> jsnum \<Rightarrow> jsnum \<Rightarrow> pt_state \<Rightarrow> pt_state" where
  "open_position symb quantity basis st =
     st\<lparr>vs_positions := vs_positions st @
       [\<lparr>vp_symbol = symb, vp_quantity = quantity, vp_avg_price = basis, vp_current_price = None,
         vp_unrealized_pnl = None\<rparr>]\<rparr>"

definition record_trade :: "pt_trade \<Rightarrow> pt_state \<Rightarrow> pt_state" where
  "record_trade t st = st\<lparr>vs_trades := vs_trades st @ [t]\<rparr>"

definition add_long :: "jsnum \<Rightarrow> jsnum \<Rightarrow> pt_position \<Rightarrow> pt_position" where
  "add_long basis quantity p =
     (let total_qty = jadd (vp_quantity p) quantity
      in p\<lparr>vp_avg_price := mean_price (vp_avg_price p) (vp_quantity p) basis quantity total_qty,
           vp_quantity := total_qty\<rparr>)"

definition add_short :: "jsnum \<Rightarrow> jsnum \<Rightarrow> pt_position \<Rightarrow> pt_position" where
  "add_short basis quantity p =
     (let existing_abs = jabs (vp_quantity p); total_qty = jadd existing_abs quantity
      in p\<lparr>vp_avg_price := mean_price (vp_avg_price p) existing_abs basis quantity total_qty,
           vp_quantity := jneg total_qty\<rparr>)"

definition applyBuy :: "pt_state \<Rightarrow> pt_trade \<Rightarrow> jsnum \<Rightarrow> pt_state \<times> pt_trade" where
  "applyBuy st t commission_pct =
     (let notional = jmul (vt_price t) (vt_quantity t);
          buy_commission = jmul notional commission_pct;
          total_cost = jadd notional buy_commission
      in if jgt total_cost (vs_cash st) then (st, t)
         else
           (let paid = record_trade t (st\<lparr>vs_cash := jsub (vs_cash st) total_cost\<rparr>);
                basis = jdiv (jadd notional buy_commission) (vt_quantity t)
            in (case vposition_of (vt_symbol t) paid of
                  Some _ \<Rightarrow> update_position (vt_symbol t) (add_long basis (vt_quantity t)) paid
                | None \<Rightarrow> open_position (vt_symbol t) (vt_quantity t) basis paid, t)))"

text \<open>What a closing trade realizes: cash, profit, and the win or loss count.\<close>

definition realize :: "jsnum \<Rightarrow> jsnum \<Rightarrow> pt_state \<Rightarrow> pt_state" where
  "realize cash pnl st =
     st\<lparr>vs_cash := cash, vs_realized_pnl := jadd (vs_realized_pnl st) pnl,
        vs_win_trades := (if jgt pnl j0 then vs_win_trades st + 1 else vs_win_trades st),
        vs_loss_trades := (if jgt pnl j0 then vs_loss_trades st else vs_loss_trades st + 1)\<rparr>"

text \<open>The first position that matches gets the quantity, or is removed when it is done.\<close>

definition settle_position ::
  "(pt_position \<Rightarrow> bool) \<Rightarrow> jsnum \<Rightarrow> bool \<Rightarrow> pt_state \<Rightarrow> pt_state" where
  "settle_position p quantity finished st =
     st\<lparr>vs_positions :=
       (if finished then del_first p (vs_positions st)
        else upd_first p (\<lambda>pos. pos\<lparr>vp_quantity := quantity\<rparr>) (vs_positions st))\<rparr>"

definition applySell :: "pt_state \<Rightarrow> pt_trade \<Rightarrow> jsnum \<Rightarrow> pt_state \<times> pt_trade" where
  "applySell st t commission_pct =
     (case vposition_of (vt_symbol t) st of
        None \<Rightarrow> (st, t)
      | Some pos \<Rightarrow>
          (let qty = jmin (vt_quantity t) (vp_quantity pos);
               proceeds = jmul (vt_price t) qty;
               commission_cost = jmul proceeds commission_pct;
               pnl = jsub (jmul (jsub (vt_price t) (vp_avg_price pos)) qty) commission_cost;
               t' = t\<lparr>vt_pnl := Some pnl, vt_entry_price := Some (vp_avg_price pos)\<rparr>;
               st' = realize (jadd (vs_cash st) (jsub proceeds commission_cost)) pnl st;
               rest = jsub (vp_quantity pos) qty
           in (record_trade t'
                 (settle_position (\<lambda>p. vp_symbol p = vt_symbol t) rest (jle rest j0) st'), t')))"

definition applyShort :: "pt_state \<Rightarrow> pt_trade \<Rightarrow> jsnum \<Rightarrow> pt_state \<times> pt_trade" where
  "applyShort st t commission_pct =
     (let existing = vposition_of (vt_symbol t) st;
          notional = jmul (vt_price t) (vt_quantity t);
          sell_commission = jmul notional commission_pct;
          net_proceeds = jsub notional sell_commission
      in if (case existing of Some pos \<Rightarrow> jgt (vp_quantity pos) j0 | None \<Rightarrow> False) then (st, t)
         else if jle net_proceeds j0 \<or> jle (vt_quantity t) j0 then (st, t)
         else
           (let paid = record_trade t (st\<lparr>vs_cash := jadd (vs_cash st) net_proceeds\<rparr>);
                basis = jdiv net_proceeds (vt_quantity t)
            in (case existing of
                  Some _ \<Rightarrow> update_position (vt_symbol t) (add_short basis (vt_quantity t)) paid
                | None \<Rightarrow> open_position (vt_symbol t) (jneg (vt_quantity t)) basis paid, t)))"

definition is_short_of :: "string \<Rightarrow> pt_position \<Rightarrow> bool" where
  "is_short_of symb p \<longleftrightarrow> vp_symbol p = symb \<and> jlt (vp_quantity p) j0"

definition applyCover :: "pt_state \<Rightarrow> pt_trade \<Rightarrow> jsnum \<Rightarrow> pt_state \<times> pt_trade" where
  "applyCover st t commission_pct =
     (case find (is_short_of (vt_symbol t)) (vs_positions st) of
        None \<Rightarrow> (st, t)
      | Some pos \<Rightarrow>
          (let qty = jmin (vt_quantity t) (jabs (vp_quantity pos))
           in if jle qty j0 then (st, t)
              else
                (let cost = jmul (vt_price t) qty;
                     commission_cost = jmul cost commission_pct;
                     pnl = jsub (jmul (jsub (vp_avg_price pos) (vt_price t)) qty) commission_cost;
                     t' = t\<lparr>vt_pnl := Some pnl, vt_entry_price := Some (vp_avg_price pos)\<rparr>;
                     st' = realize (jsub (vs_cash st) (jadd cost commission_cost)) pnl st;
                     rest = jadd (vp_quantity pos) qty
                 in (record_trade t'
                       (settle_position (is_short_of (vt_symbol t)) rest (jge rest j0) st'), t'))))"

definition applyTrade :: "jsnum \<Rightarrow> pt_state \<Rightarrow> pt_trade \<Rightarrow> pt_state \<times> pt_trade" where
  "applyTrade commission_pct st t =
     (case vt_action t of
        Buy \<Rightarrow> applyBuy st t commission_pct
      | Sell \<Rightarrow> applySell st t commission_pct
      | Close \<Rightarrow> applySell st t commission_pct
      | Short \<Rightarrow> applyShort st t commission_pct
      | Cover \<Rightarrow> applyCover st t commission_pct)"

primrec applyTrades :: "pt_state \<Rightarrow> pt_trade list \<Rightarrow> jsnum \<Rightarrow> pt_state \<times> pt_trade list" where
  "applyTrades st [] commission_pct = (st, [])"
| "applyTrades st (t # ts) commission_pct =
     (let (st1, t1) = applyTrade commission_pct st t;
          (st2, ts2) = applyTrades st1 ts commission_pct
      in (st2, t1 # ts2))"

section \<open>Marks\<close>

text \<open>\<open>pos.current_price ?? pos.avg_price\<close>.\<close>

definition last_mark :: "pt_position \<Rightarrow> jsnum" where
  "last_mark p = (case vp_current_price p of Some c \<Rightarrow> c | None \<Rightarrow> vp_avg_price p)"

definition usable_quote :: "string \<Rightarrow> jsnum \<Rightarrow> closes \<Rightarrow> bool" where
  "usable_quote symb px refs \<longleftrightarrow> is_finite px \<and> \<not> jle px j0 \<and> isQuotePlausible symb px refs"

definition market_price :: "pt_position \<Rightarrow> closes \<Rightarrow> jsnum app" where
  "market_price pos refs =
     attempt
       (await (quote_last (vp_symbol pos)) (\<lambda>px.
        ret (if usable_quote (vp_symbol pos) px refs then px else last_mark pos)))
       (\<lambda>_. ret (last_mark pos))"

definition mark_position :: "jsnum \<Rightarrow> pt_position \<Rightarrow> pt_position" where
  "mark_position px pos =
     pos\<lparr>vp_current_price := Some px,
         vp_unrealized_pnl := Some (jmul (jsub px (vp_avg_price pos)) (vp_quantity pos))\<rparr>"

definition borrow_cost :: "jsnum \<Rightarrow> pretest_policy \<Rightarrow> pt_position \<Rightarrow> jsnum \<Rightarrow> jsnum" where
  "borrow_cost px policy pos cash =
     (if jlt (vp_quantity pos) j0 \<and> jgt (py_borrow_cost_pct policy) j0
      then jsub cash (jmul (jmul (jabs (vp_quantity pos)) px) (py_borrow_cost_pct policy))
      else cash)"

primrec mark_positions ::
  "pt_position list \<Rightarrow> jsnum \<Rightarrow> pretest_policy \<Rightarrow> closes \<Rightarrow> (pt_position list \<times> jsnum) app" where
  "mark_positions [] cash policy refs = ret ([], cash)"
| "mark_positions (pos # ps) cash policy refs =
     await (market_price pos refs) (\<lambda>px.
     await (mark_positions ps (borrow_cost px policy pos cash) policy refs) (\<lambda>(ps', cash').
     ret (mark_position px pos # ps', cash')))"

definition positions_value :: "pt_position list \<Rightarrow> jsnum" where
  "positions_value ps = foldl (\<lambda>total p. jadd total (jmul (last_mark p) (vp_quantity p))) j0 ps"

definition track_benchmark :: "jsnum \<Rightarrow> closes \<Rightarrow> pt_state \<Rightarrow> pt_state" where
  "track_benchmark px refs st =
     (if is_finite px \<and> jgt px j0 \<and> isQuotePlausible BENCHMARK_SYMBOL px refs then
        (let start = (case vs_benchmark_start_price st of None \<Rightarrow> px | Some s \<Rightarrow> s)
         in st\<lparr>vs_benchmark_start_price := Some start,
               vs_benchmark_return_pct := Some (jmul (jdiv (jsub px start) start) (Fin 100))\<rparr>)
      else st)"

definition track_drawdown :: "pt_state \<Rightarrow> pt_state" where
  "track_drawdown st =
     (let peak = (if jgt (vs_equity st) (vs_max_equity st) then vs_equity st else vs_max_equity st);
          dd = (if jgt peak j0 then jmul (jdiv (jsub peak (vs_equity st)) peak) (Fin 100) else j0)
      in st\<lparr>vs_max_equity := peak,
            vs_max_drawdown_pct := (if jgt dd (vs_max_drawdown_pct st) then dd
                                    else vs_max_drawdown_pct st)\<rparr>)"

definition updateEquityMetrics :: "pt_state \<Rightarrow> pretest_policy \<Rightarrow> closes \<Rightarrow> pt_state app" where
  "updateEquityMetrics st policy refs =
     await (mark_positions (vs_positions st) (vs_cash st) policy refs) (\<lambda>(ps, cash).
     let valued = st\<lparr>vs_positions := ps, vs_cash := cash, vs_equity := jadd cash (positions_value ps)\<rparr>
     in await (attempt (await (quote_last BENCHMARK_SYMBOL) (\<lambda>px. ret (track_benchmark px refs valued)))
                (\<lambda>_. ret valued)) (\<lambda>tracked.
        ret (track_drawdown tracked)))"

section \<open>Rebalancing towards the volatility target\<close>

text \<open>The \<open>Map\<close> of fresh marks.\<close>

primrec freshMarks :: "pt_position list \<Rightarrow> closes \<Rightarrow> closes \<Rightarrow> closes app" where
  "freshMarks [] refs marks = ret marks"
| "freshMarks (pos # ps) refs marks =
     await (attempt
       (await (quote_last (vp_symbol pos)) (\<lambda>px.
        ret (if usable_quote (vp_symbol pos) px refs then marks(vp_symbol pos := Some px) else marks)))
       (\<lambda>_. ret marks)) (\<lambda>marks'.
     freshMarks ps refs marks')"

definition price_of :: "closes \<Rightarrow> pt_position \<Rightarrow> jsnum" where
  "price_of marks pos = (case marks (vp_symbol pos) of Some m \<Rightarrow> m | None \<Rightarrow> last_mark pos)"

definition oneRebalanceTrade :: "pt_position \<Rightarrow> jsnum \<Rightarrow> jsnum \<Rightarrow> string \<Rightarrow> pt_trade option" where
  "oneRebalanceTrade pos price symbolDeltaUsd ts =
     (if jle price j0 then None
      else
        (let buying = jgt symbolDeltaUsd j0;
             qty = (if buying then jfloor (jdiv symbolDeltaUsd price)
                    else jmin (vp_quantity pos) (jfloor (jdiv (jabs symbolDeltaUsd) price)))
         in if jgt qty j0 then
              Some \<lparr>vt_ts = ts, vt_symbol = vp_symbol pos, vt_action = (if buying then Buy else Sell),
                    vt_price = price, vt_quantity = qty, vt_pnl = None, vt_entry_price = None\<rparr>
            else None))"

definition rebalance_trades ::
  "closes \<Rightarrow> pt_position list \<Rightarrow> jsnum \<Rightarrow> jsnum \<Rightarrow> string \<Rightarrow> pt_trade list" where
  "rebalance_trades marks longs currentInvested delta ts =
     List.map_filter (\<lambda>pos.
       let price = price_of marks pos;
           weight = jdiv (jmul (vp_quantity pos) price) currentInvested
       in oneRebalanceTrade pos price (jmul delta weight) ts) longs"

definition buildVolTargetRebalanceTrades :: "pt_state \<Rightarrow> jsnum \<Rightarrow> closes \<Rightarrow> pt_trade list app" where
  "buildVolTargetRebalanceTrades st exposureScalar refs =
     (let longs = filter (\<lambda>p. jgt (vp_quantity p) j0) (vs_positions st)
      in if longs = [] \<or> \<not> is_finite exposureScalar \<or> jlt exposureScalar j0 then ret []
         else await (freshMarks longs refs (\<lambda>_. None)) (\<lambda>marks.
           let currentInvested =
                 foldl (\<lambda>total p. jadd total (jmul (vp_quantity p) (price_of marks p))) j0 longs
           in if jle currentInvested j0 then ret []
              else
                let delta = jsub (jmul exposureScalar (vs_equity st)) currentInvested
                in if jlt (jabs delta) j1 then ret []
                   else await current_ts (\<lambda>ts.
                     ret (rebalance_trades marks longs currentInvested delta ts))))"

end
