(* ===== verification/PretestService.thy ===== *)
theory PretestService
  imports PretestEngine
begin

text \<open>
  \<open>pretest/pretest.service.ts\<close>, second part: the portfolios, the significance gate and promotion,
  and the cycle that composes plugin signals, the language model's tool calls, the kernel risk
  floor and the fills. \<open>pt_base\<close> is the world of the shared tables (settings, clock, quotes,
  database faults); the plugins, the sandbox, the memory, the model and the market data answer
  from \<open>pt_env\<close>. A stored state goes through JSON, which turns numbers that are not finite into
  \<open>null\<close>. The recomputation of reputations, which \<open>gate\<close> starts without waiting for it, is run
  to its end where it is started; it never fails.
\<close>

section \<open>Rows\<close>

record pretest_portfolio =
  vf_id :: string
  vf_name :: string
  vf_description :: "string option"
  vf_initial_capital :: jsnum
  vf_plugin_ids :: "string list"
  vf_plugin_configs :: "string \<Rightarrow> config option"
  vf_state :: pt_state
  vf_run_count :: int
  vf_last_run_at :: "int option"
  vf_is_active :: bool
  vf_created_at :: int

record nav_point =
  np_portfolio_id :: string
  np_ts :: int
  np_equity :: jsnum
  np_cash :: jsnum
  np_positions_count :: nat
  np_run_count :: int

record significance =
  sg_sharpe :: jsnum
  sg_profit_factor :: "jsnum option"
  sg_win_rate :: jsnum
  sg_max_dd :: jsnum
  sg_n_trades :: nat
  sg_loss_trades :: nat
  sg_alpha_pct :: "jsnum option"
  sg_avg_win :: jsnum
  sg_avg_loss :: jsnum
  sg_payoff_ratio :: "jsnum option"
  sg_expectancy :: jsnum

datatype gate_reason =
  MinTrades nat jsnum
| MinSharpe jsnum jsnum
| MaxDrawdown jsnum jsnum
| LossTrades nat jsnum
| NegativeAlpha jsnum jsnum

record gate_answer =
  ga_ready :: bool
  ga_reasons :: "gate_reason list"
  ga_metrics :: significance

record thresholds =
  th_min_trades :: jsnum
  th_min_sharpe :: jsnum
  th_max_dd_pct :: jsnum
  th_min_loss_trades :: jsnum
  th_min_alpha :: jsnum

record rep_sample =
  rp_portfolios_count :: nat
  rp_avg_sharpe :: jsnum
  rp_avg_return_pct :: jsnum
  rp_worst_dd_pct :: jsnum

record hydrated_plugin =
  hp_id :: string
  hp_type :: string
  hp_config :: config

datatype reject_reason = GateReason "msg option" | CycleCeiling jsnum jsnum

record apply_result =
  pa_plugin_id :: string
  pa_activated :: bool
  pa_config_set :: bool

datatype apply_step = StepActivate | StepSetConfig

datatype pretest_event =
  GateBlocked string "gate_reason list"
| GateError string exn
| Promoted string string "apply_result list" "(string \<times> apply_step \<times> exn) list" significance
| EntryRejected string string string string reject_reason
| VolTargetFailed string string string exn

datatype plugin_call = Activate string | SetConfig string config

section \<open>The world\<close>

record market_context =
  mc_universe :: "string list"
  mc_ohlcv :: "string \<Rightarrow> market_bar list option"

record cycle_context =
  cc_pretest_id :: string
  cc_market :: market_context
  cc_plugin_configs :: "string \<Rightarrow> config option"
  cc_state :: pt_state

record turn_request =
  tq_name :: string
  tq_memory :: string
  tq_equity :: jsnum
  tq_signals :: "json list"
  tq_prompt :: "string option"

text \<open>
  Answers from outside, by the number of effects so far. The governed turn of the agent is an
  operation on the shared world: it may record intents and send orders. (What it does to the
  tables of the pretests is the concern of the theory that supplies it.)
\<close>

record pt_env =
  qe_findAll :: "nat \<Rightarrow> exn + hydrated_plugin list"
  qe_ohlcv :: "nat \<Rightarrow> string \<Rightarrow> string \<Rightarrow> string \<Rightarrow> jsnum \<Rightarrow> exn + ohlcv_bar list option"
  qe_hook :: "nat \<Rightarrow> string \<Rightarrow> config \<Rightarrow> cycle_context \<Rightarrow> exn + json option"
  qe_sandbox_cycle :: "nat \<Rightarrow> string list \<Rightarrow> cycle_context \<Rightarrow> exn + json option"
  qe_memory :: "nat \<Rightarrow> exn + string"
  qe_turn :: "turn_request \<Rightarrow> (string \<times> tool_call list) app"
  qe_activate :: "nat \<Rightarrow> string \<Rightarrow> exn option"
  qe_setConfig :: "nat \<Rightarrow> string \<Rightarrow> config \<Rightarrow> exn option"

record pt_world =
  pt_base :: world
  pt_env :: pt_env
  pt_rows :: "pretest_portfolio list"
  pt_navs :: "nav_point list"
  pt_reputation :: "string \<Rightarrow> (jsnum option \<times> rep_sample option) option"
  pt_audit :: "pretest_event list"
  pt_calls :: "plugin_call list"

type_synonym 'a pt_io = "(pt_world, 'a) io"

definition base :: "'a app \<Rightarrow> 'a pt_io" where
  "base m = (\<lambda>w. case m (pt_base w) of (r, b) \<Rightarrow> (r, w\<lparr>pt_base := b\<rparr>))"

definition q_ask :: "(pt_env \<Rightarrow> nat \<Rightarrow> exn + 'a) \<Rightarrow> 'a pt_io" where
  "q_ask f = (\<lambda>w. (f (pt_env w) (w_calls (pt_base w)), w\<lparr>pt_base := tock (pt_base w)\<rparr>))"

text \<open>\<open>agents.runGovernedTurn\<close>, on the shared world.\<close>

definition q_turn :: "turn_request \<Rightarrow> (string \<times> tool_call list) pt_io" where
  "q_turn q = (\<lambda>w. base (qe_turn (pt_env w) q) w)"

definition q_read :: "(pt_world \<Rightarrow> 'a) \<Rightarrow> 'a pt_io" where
  "q_read f = await (base (db_read (\<lambda>_. ()))) (\<lambda>_. gets f)"

definition q_write :: "(pt_world \<Rightarrow> pt_world) \<Rightarrow> unit pt_io" where
  "q_write f = await (base (db_read (\<lambda>_. ()))) (\<lambda>_. modify f)"

definition audit_pretest :: "pretest_event \<Rightarrow> unit pt_io" where
  "audit_pretest ev = q_write (\<lambda>w. w\<lparr>pt_audit := pt_audit w @ [ev]\<rparr>)"

section \<open>CRUD\<close>

text \<open>What JSON keeps of a trade, a position, a state.\<close>

definition stored_trade :: "pt_trade \<Rightarrow> pt_trade" where
  "stored_trade t =
     t\<lparr>vt_price := stored_number (vt_price t), vt_quantity := stored_number (vt_quantity t),
       vt_pnl := map_option stored_number (vt_pnl t),
       vt_entry_price := stored_optional (vt_entry_price t)\<rparr>"

definition stored_position :: "pt_position \<Rightarrow> pt_position" where
  "stored_position p =
     p\<lparr>vp_quantity := stored_number (vp_quantity p), vp_avg_price := stored_number (vp_avg_price p),
       vp_current_price := stored_optional (vp_current_price p),
       vp_unrealized_pnl := stored_optional (vp_unrealized_pnl p)\<rparr>"

definition stored_state :: "pt_state \<Rightarrow> pt_state" where
  "stored_state st =
     st\<lparr>vs_equity := stored_number (vs_equity st), vs_cash := stored_number (vs_cash st),
        vs_positions := map stored_position (vs_positions st),
        vs_trades := map stored_trade (vs_trades st),
        vs_max_equity := stored_number (vs_max_equity st),
        vs_max_drawdown_pct := stored_number (vs_max_drawdown_pct st),
        vs_realized_pnl := stored_number (vs_realized_pnl st),
        vs_benchmark_return_pct := map_option stored_number (vs_benchmark_return_pct st),
        vs_benchmark_start_price := map_option stored_number (vs_benchmark_start_price st),
        vs_hwm := stored_optional (vs_hwm st),
        vs_day_start_equity := map_option stored_number (vs_day_start_equity st),
        vs_week_start_equity := map_option stored_number (vs_week_start_equity st)\<rparr>"

record create_dto =
  cd_name :: string
  cd_description :: "string option"
  cd_initial_capital :: "jsnum option"
  cd_plugin_ids :: "string list"
  cd_plugin_configs :: "(string \<Rightarrow> config option) option"

definition pretest_create :: "create_dto \<Rightarrow> pretest_portfolio pt_io" where
  "pretest_create dto =
     await (base fresh_uuid) (\<lambda>i.
     await (base now) (\<lambda>t.
     let capital = (case cd_initial_capital dto of Some c \<Rightarrow> c | None \<Rightarrow> Fin 10000);
         row = \<lparr>vf_id = i, vf_name = cd_name dto, vf_description = cd_description dto,
                vf_initial_capital = capital, vf_plugin_ids = cd_plugin_ids dto,
                vf_plugin_configs = (case cd_plugin_configs dto of Some c \<Rightarrow> c | None \<Rightarrow> (\<lambda>_. None)),
                vf_state = stored_state (DEFAULT_STATE capital), vf_run_count = 0,
                vf_last_run_at = None, vf_is_active = True, vf_created_at = t\<rparr>
     in await (q_write (\<lambda>w. w\<lparr>pt_rows := pt_rows w @ [row]\<rparr>)) (\<lambda>_. ret row)))"

definition newest_first :: "pretest_portfolio list \<Rightarrow> pretest_portfolio list" where
  "newest_first rows = sort_key (\<lambda>r. - vf_created_at r) rows"

definition pretest_findAll :: "pretest_portfolio list pt_io" where
  "pretest_findAll = q_read (\<lambda>w. newest_first (pt_rows w))"

definition not_found_exception :: exn where
  "not_found_exception = Exn ''NotFoundException''"

definition pretest_findOne :: "string \<Rightarrow> pretest_portfolio pt_io" where
  "pretest_findOne i =
     await (q_read (\<lambda>w. find_row (\<lambda>r. vf_id r = i) (pt_rows w))) (\<lambda>row.
     case row of None \<Rightarrow> throw not_found_exception | Some r \<Rightarrow> ret r)"

text \<open>The newest 500 points of a portfolio, oldest first, under its name.\<close>

definition nav_series :: "pt_world \<Rightarrow> pretest_portfolio \<Rightarrow> (string \<times> jsnum) list" where
  "nav_series w p =
     map (\<lambda>n. (toISOString (np_ts n), np_equity n))
       (rev (take 500 (sort_key (\<lambda>n. - np_ts n) (filter (\<lambda>n. np_portfolio_id n = vf_id p) (pt_navs w)))))"

primrec nav_histories ::
  "pretest_portfolio list \<Rightarrow> (string \<Rightarrow> (string \<times> jsnum) list option) \<Rightarrow>
     (string \<Rightarrow> (string \<times> jsnum) list option) pt_io" where
  "nav_histories [] series = ret series"
| "nav_histories (p # ps) series =
     await (q_read (\<lambda>w. nav_series w p)) (\<lambda>points.
     nav_histories ps (series(vf_name p := Some points)))"

definition getNavHistory :: "(string \<Rightarrow> (string \<times> jsnum) list option) pt_io" where
  "getNavHistory =
     await (q_read (\<lambda>w. filter vf_is_active (pt_rows w))) (\<lambda>active.
     nav_histories active (\<lambda>_. None))"

text \<open>Prisma's \<open>update\<close> of the row with an id.\<close>

definition update_portfolio ::
  "string \<Rightarrow> (pretest_portfolio \<Rightarrow> pretest_portfolio) \<Rightarrow> pretest_portfolio pt_io" where
  "update_portfolio i f =
     await (q_read (\<lambda>w. find_row (\<lambda>r. vf_id r = i) (pt_rows w))) (\<lambda>row.
     case row of
       None \<Rightarrow> throw not_found
     | Some r \<Rightarrow>
         await (modify (\<lambda>w. w\<lparr>pt_rows := update_rows (\<lambda>r. vf_id r = i) f (pt_rows w)\<rparr>)) (\<lambda>_.
         ret (f r)))"

record update_dto =
  ud_name :: "string option"
  ud_description :: "string option"
  ud_plugin_ids :: "string list option"
  ud_plugin_configs :: "(string \<Rightarrow> config option) option"
  ud_is_active :: "bool option"

definition given :: "'a option \<Rightarrow> 'a \<Rightarrow> 'a" where
  "given x d = (case x of None \<Rightarrow> d | Some y \<Rightarrow> y)"

definition pretest_update :: "string \<Rightarrow> update_dto \<Rightarrow> pretest_portfolio pt_io" where
  "pretest_update i dto =
     update_portfolio i (\<lambda>r. r\<lparr>vf_name := given (ud_name dto) (vf_name r),
       vf_description := (case ud_description dto of None \<Rightarrow> vf_description r | Some d \<Rightarrow> Some d),
       vf_plugin_ids := given (ud_plugin_ids dto) (vf_plugin_ids r),
       vf_plugin_configs := given (ud_plugin_configs dto) (vf_plugin_configs r),
       vf_is_active := given (ud_is_active dto) (vf_is_active r)\<rparr>)"

definition pretest_reset :: "string \<Rightarrow> pretest_portfolio pt_io" where
  "pretest_reset i =
     await (pretest_findOne i) (\<lambda>existing.
     update_portfolio i (\<lambda>r. r\<lparr>vf_state := stored_state (DEFAULT_STATE (vf_initial_capital existing)),
       vf_run_count := 0, vf_last_run_at := None\<rparr>))"

definition pretest_delete :: "string \<Rightarrow> unit pt_io" where
  "pretest_delete i =
     await (q_read (\<lambda>w. find_row (\<lambda>r. vf_id r = i) (pt_rows w))) (\<lambda>row.
     case row of
       None \<Rightarrow> throw not_found
     | Some _ \<Rightarrow> modify (\<lambda>w. w\<lparr>pt_rows := filter (\<lambda>r. vf_id r \<noteq> i) (pt_rows w)\<rparr>))"

section \<open>Significance\<close>

definition closing_trades :: "pt_trade list \<Rightarrow> pt_trade list" where
  "closing_trades ts = filter (\<lambda>t. (vt_action t = Sell \<or> vt_action t = Close) \<and> vt_pnl t \<noteq> None) ts"

definition pnl_of :: "pt_trade \<Rightarrow> jsnum" where
  "pnl_of t = (case vt_pnl t of Some p \<Rightarrow> p | None \<Rightarrow> NaN)"

definition trade_return :: "pt_trade \<Rightarrow> jsnum" where
  "trade_return t =
     (let basis_price = (case vt_entry_price t of Some e \<Rightarrow> e | None \<Rightarrow> vt_price t);
          cost_basis = jmul basis_price (vt_quantity t)
      in if jgt cost_basis j0 then jdiv (pnl_of t) cost_basis else j0)"

definition jsum :: "jsnum list \<Rightarrow> jsnum" where
  "jsum xs = foldl jadd j0 xs"

definition sharpe_ratio :: "jsnum list \<Rightarrow> jsnum" where
  "sharpe_ratio returns =
     (let n = length returns; mean = jdiv (jsum returns) (of_count (int n))
      in if n < 2 then j0
         else
           (let variance = jdiv (jsum (map (\<lambda>r. jmul (jsub r mean) (jsub r mean)) returns))
                             (of_count (int n - 1));
                std = jsqrt variance;
                eps = js (1 / 10 ^ 10)
            in if jle std eps \<or> (jgt (jabs mean) j0 \<and> jle (jdiv std (jabs mean)) eps) then j0
               else jdiv mean std))"

text \<open>The running sums: of gains, of losses, and how many of each.\<close>

definition win_loss_sums :: "pt_trade list \<Rightarrow> jsnum \<times> jsnum \<times> nat \<times> nat" where
  "win_loss_sums ts =
     foldl (\<lambda>(pos, neg, wins, losses) t.
       if jgt (pnl_of t) j0 then (jadd pos (pnl_of t), neg, wins + 1, losses)
       else if jlt (pnl_of t) j0 then (pos, jadd neg (jabs (pnl_of t)), wins, losses + 1)
       else (pos, neg, wins, losses)) (j0, j0, 0, 0) ts"

definition round_cents :: "jsnum \<Rightarrow> jsnum" where
  "round_cents x = jdiv (jround (jmul x (Fin 100))) (Fin 100)"

definition computeWinLossStats :: "pt_trade list \<Rightarrow> significance \<Rightarrow> significance" where
  "computeWinLossStats ts m =
     (case win_loss_sums ts of (sumPos, sumNeg, wins, losses) \<Rightarrow>
       let n = of_count (int (length ts));
           win_rate = jdiv (of_count (int wins)) n;
           loss_rate = jdiv (of_count (int losses)) n;
           avg_win = (if wins > 0 then jdiv sumPos (of_count (int wins)) else j0);
           avg_loss = (if losses > 0 then jdiv sumNeg (of_count (int losses)) else j0);
           payoff = (if jgt avg_loss j0 then Some (jdiv avg_win avg_loss) else None);
           expectancy = jsub (jmul win_rate avg_win) (jmul loss_rate avg_loss)
       in m\<lparr>sg_profit_factor := (if jgt sumNeg j0 then Some (jdiv sumPos sumNeg) else None),
            sg_win_rate := win_rate, sg_loss_trades := losses, sg_avg_win := round_cents avg_win,
            sg_avg_loss := round_cents avg_loss,
            sg_payoff_ratio := map_option (\<lambda>x. jdiv (jround (jmul x (Fin 10000))) (Fin 10000)) payoff,
            sg_expectancy := round_cents expectancy\<rparr>)"

definition alpha_of :: "pt_state \<Rightarrow> jsnum option \<Rightarrow> jsnum option" where
  "alpha_of st initialCapital =
     (case (vs_benchmark_return_pct st, initialCapital) of
        (Some b, Some c) \<Rightarrow>
          if jgt c j0 then Some (jsub (jmul (jdiv (jsub (vs_equity st) c) c) (Fin 100)) b) else None
      | _ \<Rightarrow> None)"

definition computeSignificance :: "pt_state \<Rightarrow> jsnum option \<Rightarrow> significance" where
  "computeSignificance st initialCapital =
     (let alpha = alpha_of st initialCapital; closing = closing_trades (vs_trades st);
          n = length closing;
          empty = \<lparr>sg_sharpe = j0, sg_profit_factor = None, sg_win_rate = j0,
            sg_max_dd = vs_max_drawdown_pct st, sg_n_trades = 0, sg_loss_trades = 0,
            sg_alpha_pct = alpha, sg_avg_win = j0, sg_avg_loss = j0, sg_payoff_ratio = None,
            sg_expectancy = j0\<rparr>
      in if n = 0 then empty
         else computeWinLossStats closing
                (empty\<lparr>sg_sharpe := sharpe_ratio (map trade_return closing), sg_n_trades := n\<rparr>))"

section \<open>The gate\<close>

definition GATE_KEYS :: "string list" where
  "GATE_KEYS =
     [''pretest.gate.min_trades'', ''pretest.gate.min_sharpe'', ''pretest.gate.max_dd_pct'',
      ''pretest.gate.min_loss_trades'', ''pretest.gate.min_alpha'']"

definition thresholds_from :: "(string \<Rightarrow> string option) \<Rightarrow> thresholds" where
  "thresholds_from raw =
     (let min_trades_raw = kvNum (raw ''pretest.gate.min_trades'') (Fin 20);
          min_sharpe_raw = kvNum (raw ''pretest.gate.min_sharpe'') j1;
          max_dd_pct_raw = kvNum (raw ''pretest.gate.max_dd_pct'') (Fin 20);
          min_loss_trades_raw = kvNum (raw ''pretest.gate.min_loss_trades'') (Fin 3)
      in \<lparr>th_min_trades = (if jge min_trades_raw j1 then min_trades_raw else j1),
          th_min_sharpe = (if jge min_sharpe_raw j0 then min_sharpe_raw else j0),
          th_max_dd_pct = (if jge max_dd_pct_raw j1 \<and> jle max_dd_pct_raw (Fin 100)
                           then max_dd_pct_raw else Fin 20),
          th_min_loss_trades = (if jge min_loss_trades_raw j0 then min_loss_trades_raw else j0),
          th_min_alpha = kvNum (raw ''pretest.gate.min_alpha'') j0\<rparr>)"

definition readGateThresholds :: "thresholds pt_io" where
  "readGateThresholds = await (base (kv_get_all GATE_KEYS)) (\<lambda>raw. ret (thresholds_from raw))"

definition evaluateGate :: "significance \<Rightarrow> thresholds \<Rightarrow> gate_reason list" where
  "evaluateGate m th =
     (if jlt (of_count (int (sg_n_trades m))) (th_min_trades th)
      then [MinTrades (sg_n_trades m) (th_min_trades th)] else []) @
     (if jlt (sg_sharpe m) (th_min_sharpe th) then [MinSharpe (sg_sharpe m) (th_min_sharpe th)] else []) @
     (if jgt (sg_max_dd m) (th_max_dd_pct th) then [MaxDrawdown (sg_max_dd m) (th_max_dd_pct th)] else []) @
     (if jlt (of_count (int (sg_loss_trades m))) (th_min_loss_trades th)
      then [LossTrades (sg_loss_trades m) (th_min_loss_trades th)] else []) @
     (case sg_alpha_pct m of
        None \<Rightarrow> []
      | Some a \<Rightarrow> if jlt a (th_min_alpha th) then [NegativeAlpha a (th_min_alpha th)] else [])"

definition portfolio_metrics :: "pretest_portfolio \<Rightarrow> significance" where
  "portfolio_metrics p = computeSignificance (vf_state p) (Some (vf_initial_capital p))"

definition gate_ready :: "thresholds \<Rightarrow> pretest_portfolio \<Rightarrow> bool" where
  "gate_ready th p \<longleftrightarrow> evaluateGate (portfolio_metrics p) th = []"

section \<open>Reputation\<close>

definition clamp_between :: "jsnum \<Rightarrow> jsnum \<Rightarrow> jsnum \<Rightarrow> jsnum" where
  "clamp_between v lo hi = jmax lo (jmin hi v)"

definition return_pct :: "pretest_portfolio \<Rightarrow> jsnum" where
  "return_pct p =
     jmul (jdiv (jsub (vs_equity (vf_state p)) (vf_initial_capital p)) (vf_initial_capital p)) (Fin 100)"

definition reputation_sample :: "pretest_portfolio list \<Rightarrow> rep_sample" where
  "reputation_sample ready =
     (let n = of_count (int (length ready));
          worst = foldl (\<lambda>w p. if jgt (vs_max_drawdown_pct (vf_state p)) w
                               then vs_max_drawdown_pct (vf_state p) else w) j0 ready
      in \<lparr>rp_portfolios_count = length ready,
          rp_avg_sharpe = jdiv (jsum (map (\<lambda>p. sg_sharpe (portfolio_metrics p)) ready)) n,
          rp_avg_return_pct = jdiv (jsum (map return_pct ready)) n, rp_worst_dd_pct = worst\<rparr>)"

definition reputation_score :: "rep_sample \<Rightarrow> jsnum" where
  "reputation_score s =
     (let nSharpe = clamp_between (jdiv (rp_avg_sharpe s) (Fin 2)) j0 j1;
          nReturn = clamp_between (jdiv (rp_avg_return_pct s) (Fin 50)) j0 j1;
          nRisk = clamp_between (jsub j1 (jdiv (rp_worst_dd_pct s) (Fin 50))) j0 j1;
          raw = jadd (jadd (jmul (js (1 / 2)) nSharpe) (jmul (js (3 / 10)) nReturn))
                  (jmul (js (2 / 10)) nRisk)
      in jdiv (jround (jmul (jmul (clamp_between raw j0 j1) (Fin 100)) (Fin 10))) (Fin 10))"

definition computePluginReputation :: "string \<Rightarrow> (jsnum option \<times> rep_sample option) pt_io" where
  "computePluginReputation pluginId =
     await pretest_findAll (\<lambda>all.
     let containing = filter (\<lambda>p. pluginId \<in> set (vf_plugin_ids p)) all
     in if containing = [] then ret (None, None)
        else await readGateThresholds (\<lambda>th.
          let ready = filter (gate_ready th) containing
          in if ready = [] then ret (None, None)
             else let s = reputation_sample ready in ret (Some (reputation_score s), Some s)))"

definition set_reputation :: "string \<Rightarrow> jsnum option \<times> rep_sample option \<Rightarrow> unit pt_io" where
  "set_reputation i r =
     await (q_read (\<lambda>w. pt_reputation w i)) (\<lambda>row.
     case row of
       None \<Rightarrow> throw not_found
     | Some _ \<Rightarrow> modify (\<lambda>w. w\<lparr>pt_reputation := (pt_reputation w)(i := Some r)\<rparr>))"

definition recomputePluginReputations :: "string list \<Rightarrow> unit pt_io" where
  "recomputePluginReputations ids =
     for_each (\<lambda>i. attempt (await (computePluginReputation i) (set_reputation i)) (\<lambda>_. ret ())) ids"

definition pretest_gate :: "string \<Rightarrow> gate_answer pt_io" where
  "pretest_gate i =
     await (pretest_findOne i) (\<lambda>portfolio.
     let metrics = portfolio_metrics portfolio in
     await readGateThresholds (\<lambda>th.
     let reasons = evaluateGate metrics th; ready = (reasons = [])
     in await (if ready then recomputePluginReputations (vf_plugin_ids portfolio) else ret ()) (\<lambda>_.
        ret \<lparr>ga_ready = ready, ga_reasons = reasons, ga_metrics = metrics\<rparr>)))"

end
