(* ===== verification/PretestCycle.thy ===== *)
theory PretestCycle
  imports PretestService
begin

text \<open>
  \<open>pretest/pretest.service.ts\<close>, third part: the comparison table, promotion to live, the kernel
  risk floor and the cycle of one and of all active portfolios.
\<close>

section \<open>Comparison\<close>

record compare_row =
  cr_id :: string
  cr_name :: string
  cr_equity :: jsnum
  cr_return_pct :: jsnum
  cr_max_drawdown_pct :: jsnum
  cr_total_trades :: nat
  cr_win_rate :: jsnum
  cr_realized_pnl :: jsnum
  cr_plugin_count :: nat
  cr_ready :: bool
  cr_expectancy :: jsnum
  cr_avg_win :: jsnum
  cr_avg_loss :: jsnum
  cr_payoff_ratio :: "jsnum option"
  cr_risk_adj :: jsnum

record pretest_compare =
  pc_portfolios :: "compare_row list"
  pc_winner_by_return :: string
  pc_winner_by_risk_adj :: string

definition compare_row_of :: "thresholds \<Rightarrow> pretest_portfolio \<Rightarrow> compare_row" where
  "compare_row_of th p =
     (let st = vf_state p; metrics = portfolio_metrics p;
          ret_frac = jdiv (jsub (vs_equity st) (vf_initial_capital p)) (vf_initial_capital p);
          dd = vs_max_drawdown_pct st
      in \<lparr>cr_id = vf_id p, cr_name = vf_name p, cr_equity = vs_equity st,
          cr_return_pct = jmul ret_frac (Fin 100), cr_max_drawdown_pct = dd,
          cr_total_trades = length (vs_trades st), cr_win_rate = jmul (sg_win_rate metrics) (Fin 100),
          cr_realized_pnl = vs_realized_pnl st, cr_plugin_count = length (vf_plugin_ids p),
          cr_ready = gate_ready th p, cr_expectancy = sg_expectancy metrics,
          cr_avg_win = sg_avg_win metrics, cr_avg_loss = sg_avg_loss metrics,
          cr_payoff_ratio = sg_payoff_ratio metrics,
          cr_risk_adj = (if jgt dd j0 then jdiv ret_frac dd else ret_frac)\<rparr>)"

text \<open>\<open>pool.reduce((a, b) => (f(b) > f(a) ? b : a), pool[0])\<close>, and its name.\<close>

definition best_by :: "('a \<Rightarrow> jsnum) \<Rightarrow> 'a list \<Rightarrow> 'a option" where
  "best_by f pool =
     (case pool of [] \<Rightarrow> None | x # _ \<Rightarrow> Some (foldl (\<lambda>a b. if jgt (f b) (f a) then b else a) x pool))"

definition name_or_empty :: "compare_row option \<Rightarrow> string" where
  "name_or_empty r = (case r of None \<Rightarrow> '''' | Some x \<Rightarrow> cr_name x)"

definition compare_rows :: "compare_row list \<Rightarrow> pretest_compare" where
  "compare_rows stats =
     (let pool = filter cr_ready stats
      in \<lparr>pc_portfolios = stats, pc_winner_by_return = name_or_empty (best_by cr_return_pct pool),
          pc_winner_by_risk_adj = name_or_empty (best_by cr_risk_adj pool)\<rparr>)"

definition pretest_compare_all :: "pretest_compare pt_io" where
  "pretest_compare_all =
     await (q_read (\<lambda>w. newest_first (filter vf_is_active (pt_rows w)))) (\<lambda>all.
     if all = [] then ret (compare_rows [])
     else await readGateThresholds (\<lambda>th. ret (compare_rows (map (compare_row_of th) all))))"

section \<open>Promotion\<close>

datatype promote_result =
  GateErrored
| GateNotReady "gate_reason list"
| NeedsConfirmation "string list" "string \<Rightarrow> config option"
| Applied "apply_result list" "(string \<times> apply_step \<times> exn) list"

definition plugin_activate :: "string \<Rightarrow> unit pt_io" where
  "plugin_activate i =
     await (modify (\<lambda>w. w\<lparr>pt_calls := pt_calls w @ [Activate i]\<rparr>)) (\<lambda>_.
     q_ask (\<lambda>e k. case qe_activate e k i of Some err \<Rightarrow> Inl err | None \<Rightarrow> Inr ()))"

definition plugin_setConfig :: "string \<Rightarrow> config \<Rightarrow> unit pt_io" where
  "plugin_setConfig i c =
     await (modify (\<lambda>w. w\<lparr>pt_calls := pt_calls w @ [SetConfig i c]\<rparr>)) (\<lambda>_.
     q_ask (\<lambda>e k. case qe_setConfig e k i c of Some err \<Rightarrow> Inl err | None \<Rightarrow> Inr ()))"

text \<open>The error of a call, None when it succeeds.\<close>

definition failure_of :: "unit pt_io \<Rightarrow> exn option pt_io" where
  "failure_of m = attempt (await m (\<lambda>_. ret None)) (\<lambda>e. ret (Some e))"

definition apply_plugin ::
  "(string \<Rightarrow> config option) \<Rightarrow> string \<Rightarrow> (apply_result \<times> (string \<times> apply_step \<times> exn) list) pt_io" where
  "apply_plugin configs i =
     await (failure_of (plugin_activate i)) (\<lambda>failed.
     case failed of
       Some e \<Rightarrow> ret (\<lparr>pa_plugin_id = i, pa_activated = False, pa_config_set = False\<rparr>, [(i, StepActivate, e)])
     | None \<Rightarrow>
         (case configs i of
            None \<Rightarrow> ret (\<lparr>pa_plugin_id = i, pa_activated = True, pa_config_set = False\<rparr>, [])
          | Some c \<Rightarrow>
              await (failure_of (plugin_setConfig i c)) (\<lambda>failed.
              ret (\<lparr>pa_plugin_id = i, pa_activated = True, pa_config_set = (failed = None)\<rparr>,
                   case failed of None \<Rightarrow> [] | Some e \<Rightarrow> [(i, StepSetConfig, e)]))))"

primrec applyPlugins ::
  "string list \<Rightarrow> (string \<Rightarrow> config option) \<Rightarrow>
     (apply_result list \<times> (string \<times> apply_step \<times> exn) list) pt_io" where
  "applyPlugins [] configs = ret ([], [])"
| "applyPlugins (i # ids) configs =
     await (apply_plugin configs i) (\<lambda>(a, f).
     await (applyPlugins ids configs) (\<lambda>(applied, failed).
     ret (a # applied, f @ failed)))"

text \<open>What follows the hard check of the gate.\<close>

definition promote_checked :: "string \<Rightarrow> bool \<Rightarrow> pretest_portfolio \<Rightarrow> gate_answer \<Rightarrow> promote_result pt_io" where
  "promote_checked i confirm pf g =
     (if \<not> ga_ready g then
        await (audit_pretest (GateBlocked i (ga_reasons g))) (\<lambda>_. ret (GateNotReady (ga_reasons g)))
      else
        await (base (kv_get ''promotion.require_human_confirm'')) (\<lambda>rawConfirm.
        if kvBool rawConfirm True \<and> \<not> confirm then
          ret (NeedsConfirmation (vf_plugin_ids pf) (vf_plugin_configs pf))
        else
          await (applyPlugins (vf_plugin_ids pf) (vf_plugin_configs pf)) (\<lambda>(applied, failed).
          await (audit_pretest (Promoted i (if confirm then ''human'' else ''operator_disabled'')
                   applied failed (ga_metrics g))) (\<lambda>_.
          ret (Applied applied failed)))))"

definition promote :: "string \<Rightarrow> bool \<Rightarrow> promote_result pt_io" where
  "promote i confirm =
     await (pretest_findOne i) (\<lambda>pf.
     await (attempt (await (pretest_gate i) (\<lambda>g. ret (Inr g))) (\<lambda>e. ret (Inl e))) (\<lambda>gate.
     case gate of
       Inl err \<Rightarrow> await (audit_pretest (GateError i err)) (\<lambda>_. ret GateErrored)
     | Inr g \<Rightarrow> promote_checked i confirm pf g))"

section \<open>Market context\<close>

definition DEFAULT_UNIVERSE :: "string list" where
  "DEFAULT_UNIVERSE =
     [''AAPL'', ''MSFT'', ''GOOGL'', ''AMZN'', ''NVDA'', ''META'', ''TSLA'', ''SPY'', ''QQQ'', ''AMD'']"

text \<open>\<open>split(',').map(trim, toUpperCase).filter(Boolean)\<close>, where the text is not blank.\<close>

definition parse_universe :: "string option \<Rightarrow> string list" where
  "parse_universe raw =
     (case raw of
        None \<Rightarrow> DEFAULT_UNIVERSE
      | Some s \<Rightarrow>
          if js_trim s = '''' then DEFAULT_UNIVERSE
          else (let parsed = filter (\<lambda>x. x \<noteq> '''')
                      (map (\<lambda>x. toUpperCase (js_trim x)) (split_on (CHR '','') s))
                in if parsed = [] then DEFAULT_UNIVERSE else parsed))"

text \<open>\<open>(await kv.get(key)) || fallback\<close>.\<close>

definition kv_text :: "string \<Rightarrow> string \<Rightarrow> string pt_io" where
  "kv_text k fallback =
     await (base (kv_get k)) (\<lambda>v.
     ret (case v of None \<Rightarrow> fallback | Some s \<Rightarrow> if s = '''' then fallback else s))"

definition context_bar :: "ohlcv_bar \<Rightarrow> market_bar" where
  "context_bar b = \<lparr>mb_date = take 10 (ba_ts b), mb_open = ba_open b, mb_high = ba_high b,
     mb_low = ba_low b, mb_close = ba_close b, mb_volume = ba_volume b\<rparr>"

primrec fetch_bars ::
  "string list \<Rightarrow> string \<Rightarrow> string \<Rightarrow> jsnum \<Rightarrow> (string \<Rightarrow> market_bar list option) \<Rightarrow>
     (string \<Rightarrow> market_bar list option) pt_io" where
  "fetch_bars [] provider timeframe bars ohlcv = ret ohlcv"
| "fetch_bars (s # ss) provider timeframe bars ohlcv =
     await (attempt
       (await (q_ask (\<lambda>e k. qe_ohlcv e k provider s timeframe bars)) (\<lambda>raw.
        ret (ohlcv(s := Some (map context_bar (case raw of None \<Rightarrow> [] | Some bs \<Rightarrow> bs))))))
       (\<lambda>_. ret ohlcv)) (\<lambda>ohlcv'.
     fetch_bars ss provider timeframe bars ohlcv')"

definition bar_count :: "string option \<Rightarrow> jsnum" where
  "bar_count raw =
     (let n = (case raw of None \<Rightarrow> j0 | Some s \<Rightarrow> if s = '''' then j0 else js_number s)
      in if n = j0 \<or> n = NaN then Fin 400 else n)"

definition buildMarketContext :: "string list \<Rightarrow> market_context pt_io" where
  "buildMarketContext extraSymbols =
     await (attempt (await (base (kv_get ''cycle.universe'')) (\<lambda>raw. ret (parse_universe raw)))
              (\<lambda>_. ret DEFAULT_UNIVERSE)) (\<lambda>parsed.
     let universe = take 30 parsed in
     await (kv_text ''cycle.timeframe'' ''1d'') (\<lambda>timeframe.
     await (base (kv_get ''cycle.bars'')) (\<lambda>rawBars.
     await (kv_text ''cycle.data_provider'' ''yahoo-finance-provider'') (\<lambda>provider.
     let extra = filter (\<lambda>x. x \<noteq> '''') (map (\<lambda>x. toUpperCase (js_trim x)) extraSymbols)
     in await (fetch_bars (first_occurrences (universe @ extra)) provider timeframe (bar_count rawBars)
                 (\<lambda>_. None)) (\<lambda>ohlcv.
        ret \<lparr>mc_universe = universe, mc_ohlcv = ohlcv\<rparr>)))))"

section \<open>Passive holders\<close>

text \<open>The symbols the model already goes long on, from its tool calls.\<close>

primrec long_symbols :: "tool_call list \<Rightarrow> exn + string list" where
  "long_symbols [] = Inr []"
| "long_symbols (tc # tcs) =
     (case action_arg tc of
        Inl e \<Rightarrow> Inl e
      | Inr a \<Rightarrow>
          (case long_symbols tcs of
             Inl e \<Rightarrow> Inl e
           | Inr rest \<Rightarrow>
               Inr (if a = Some ''long'' then
                      (case as_string (tc_args tc ''symbol'') of Some s \<Rightarrow> toUpperCase s | None \<Rightarrow> '''') # rest
                    else rest)))"

definition text_field :: "string \<Rightarrow> json \<Rightarrow> string" where
  "text_field k sig = (case as_string (field k sig) of Some s \<Rightarrow> s | None \<Rightarrow> '''')"

definition hold_symbol :: "json \<Rightarrow> string option" where
  "hold_symbol sig =
     (let sigSymbol = toUpperCase (text_field ''symbol'' sig)
      in if endsWith (text_field ''type'' sig) ''_hold_signal''
            \<and> toLowerCase (text_field ''action'' sig) = ''long'' \<and> sigSymbol \<noteq> ''''
         then Some sigSymbol else None)"

definition passive_call :: "string \<Rightarrow> tool_call" where
  "passive_call symb =
     \<lparr>tc_plugin_id = ''decision'', tc_function = ''emit_trade_intent'',
      tc_args = [''symbol'' \<mapsto> JStr symb, ''action'' \<mapsto> JStr ''long'']\<rparr>"

definition synthesizePassiveHoldToolCalls :: "json list \<Rightarrow> tool_call list \<Rightarrow> exn + tool_call list" where
  "synthesizePassiveHoldToolCalls signals llmToolCalls =
     (case long_symbols llmToolCalls of
        Inl e \<Rightarrow> Inl e
      | Inr longs \<Rightarrow>
          Inr (llmToolCalls @ map passive_call
            (first_occurrences (filter (\<lambda>s. s \<notin> set longs) (List.map_filter hold_symbol signals)))))"

section \<open>The kernel risk floor\<close>

text \<open>The state as the shared execution core sees it, and back.\<close>

definition governed_position :: "pt_position \<Rightarrow> gposition" where
  "governed_position p =
     \<lparr>gp_symbol = vp_symbol p, gp_quantity = vp_quantity p, gp_avg_price = vp_avg_price p\<rparr>"

definition governed_account :: "pt_state \<Rightarrow> account" where
  "governed_account st =
     \<lparr>ac_equity = vs_equity st, ac_cash = vs_cash st,
      ac_positions = map governed_position (vs_positions st), ac_hwm = vs_hwm st,
      ac_day_key = vs_day_key st, ac_day_start_equity = vs_day_start_equity st,
      ac_week_key = vs_week_key st, ac_week_start_equity = vs_week_start_equity st,
      ac_max_equity = Some (vs_max_equity st), ac_max_drawdown_pct = Some (vs_max_drawdown_pct st),
      ac_initial_equity = None\<rparr>"

definition absorb_gate :: "account \<Rightarrow> pt_state \<Rightarrow> pt_state" where
  "absorb_gate a st =
     st\<lparr>vs_equity := ac_equity a, vs_hwm := ac_hwm a, vs_day_key := ac_day_key a,
        vs_day_start_equity := ac_day_start_equity a, vs_week_key := ac_week_key a,
        vs_week_start_equity := ac_week_start_equity a\<rparr>"

definition auditPretestEntryRejected ::
  "string \<Rightarrow> string \<Rightarrow> string \<Rightarrow> string \<Rightarrow> reject_reason \<Rightarrow> unit pt_io" where
  "auditPretestEntryRejected i name symb action reason =
     attempt (audit_pretest (EntryRejected i name symb action reason)) (\<lambda>_. ret ())"

definition is_held :: "string \<Rightarrow> pt_state \<Rightarrow> string list \<Rightarrow> bool" where
  "is_held symb st reserved \<longleftrightarrow> symb \<in> vp_symbol ` set (vs_positions st) \<or> symb \<in> set reserved"

text \<open>
  One tool call: whether it is allowed, the state, and the symbols reserved in this cycle.
\<close>

definition judge_entry ::
  "string \<Rightarrow> string \<Rightarrow> risk_policy \<Rightarrow> string \<Rightarrow> string \<Rightarrow> pt_state \<Rightarrow> string list \<Rightarrow>
     (bool \<times> pt_state \<times> string list) pt_io" where
  "judge_entry i name pol symb action st reserved =
     await (base (evaluateEntryGate (governed_account st) pol)) (\<lambda>gate.
     let st' = absorb_gate (gr_state gate) st in
     if \<not> gr_pass gate then
       await (auditPretestEntryRejected i name symb action (GateReason (gr_reason gate))) (\<lambda>_.
       ret (False, st', reserved))
     else if is_held symb st' reserved then ret (True, st', reserved)
     else
       let openCount = of_count (int (length (vs_positions st') + length reserved)) in
       if jge openCount (rk_max_open_positions pol) then
         await (auditPretestEntryRejected i name symb action
                  (CycleCeiling openCount (rk_max_open_positions pol))) (\<lambda>_.
         ret (False, st', reserved))
       else ret (True, st', symb # reserved))"

definition judge_call ::
  "string \<Rightarrow> string \<Rightarrow> risk_policy \<Rightarrow> tool_call \<Rightarrow> pt_state \<Rightarrow> string list \<Rightarrow>
     (bool \<times> pt_state \<times> string list) pt_io" where
  "judge_call i name pol tc st reserved =
     await (lift_result (action_arg tc)) (\<lambda>rawAction.
     case symbol_arg tc of
       None \<Rightarrow> ret (True, st, reserved)
     | Some symb \<Rightarrow>
         if rawAction \<noteq> Some ''long'' \<and> rawAction \<noteq> Some ''short'' then ret (True, st, reserved)
         else judge_entry i name pol symb (the rawAction) st reserved)"

primrec risk_floor ::
  "string \<Rightarrow> string \<Rightarrow> risk_policy \<Rightarrow> tool_call list \<Rightarrow> pt_state \<Rightarrow> string list \<Rightarrow>
     (tool_call list \<times> pt_state) pt_io" where
  "risk_floor i name pol [] st reserved = ret ([], st)"
| "risk_floor i name pol (tc # tcs) st reserved =
     await (judge_call i name pol tc st reserved) (\<lambda>(ok, st', reserved').
     await (risk_floor i name pol tcs st' reserved') (\<lambda>(allowed, st'').
     ret (if ok then tc # allowed else allowed, st'')))"

definition applyKernelRiskFloor ::
  "string \<Rightarrow> string \<Rightarrow> tool_call list \<Rightarrow> pt_state \<Rightarrow> (tool_call list \<times> pt_state) pt_io" where
  "applyKernelRiskFloor i name toolCalls st =
     await (base readRiskPolicy) (\<lambda>pol. risk_floor i name pol toolCalls st [])"

section \<open>One cycle\<close>

text \<open>\<open>{ ...(a ?? {}), ...(b ?? {}) }\<close>.\<close>

definition overlay :: "config \<Rightarrow> config option \<Rightarrow> config" where
  "overlay a b = (case b of None \<Rightarrow> a | Some c \<Rightarrow> a ++ c)"

definition with_overrides :: "pretest_portfolio \<Rightarrow> hydrated_plugin \<Rightarrow> hydrated_plugin" where
  "with_overrides pf p = p\<lparr>hp_config := overlay (hp_config p) (vf_plugin_configs pf (hp_id p))\<rparr>"

definition config_table :: "hydrated_plugin list \<Rightarrow> string \<Rightarrow> config option" where
  "config_table ps = map_of (rev (map (\<lambda>p. (hp_id p, hp_config p)) ps))"

definition is_vol_target :: "(string \<Rightarrow> config option) \<Rightarrow> hydrated_plugin \<Rightarrow> bool" where
  "is_vol_target configs p \<longleftrightarrow>
     hp_type p = ''discipline'' \<and>
     (case configs (hp_id p) of None \<Rightarrow> False | Some c \<Rightarrow> c ''exposure_mode'' = Some (JStr ''vol_target''))"

definition vol_target_benchmark :: "config option \<Rightarrow> string" where
  "vol_target_benchmark c =
     (case as_string (Option.bind c (\<lambda>m. m ''vol_target_benchmark'')) of
        Some s \<Rightarrow> if js_trim s = '''' then ''SPY'' else s
      | None \<Rightarrow> ''SPY'')"

definition exposure_from :: "json option \<Rightarrow> jsnum" where
  "exposure_from result =
     (case as_number (Option.bind result (field ''exposure_scalar'')) of
        Some n \<Rightarrow> if is_finite n \<and> jge n j0 then n else j0
      | None \<Rightarrow> j0)"

definition auditVolTargetExposureFailure :: "string \<Rightarrow> string \<Rightarrow> string \<Rightarrow> exn \<Rightarrow> unit pt_io" where
  "auditVolTargetExposureFailure i name plugin err =
     attempt (audit_pretest (VolTargetFailed i name plugin err)) (\<lambda>_. ret ())"

definition vol_target_exposure ::
  "pretest_portfolio \<Rightarrow> hydrated_plugin option \<Rightarrow> cycle_context \<Rightarrow> jsnum pt_io" where
  "vol_target_exposure pf plugin ctx =
     (case plugin of
        None \<Rightarrow> ret j1
      | Some p \<Rightarrow>
          attempt
            (await (q_ask (\<lambda>e k. qe_hook e k (hp_id p)
                (given (cc_plugin_configs ctx (hp_id p)) (\<lambda>_. None)) ctx)) (\<lambda>result.
             ret (exposure_from result)))
            (\<lambda>err. await (auditVolTargetExposureFailure (vf_id pf) (vf_name pf) (hp_id p) err) (\<lambda>_.
              ret j0)))"

definition pending_signals :: "json option \<Rightarrow> json list" where
  "pending_signals result =
     (case as_array (Option.bind result (field ''pending_signals'')) of Some xs \<Rightarrow> xs | None \<Rightarrow> [])"

definition runPretestLlmOrSkip ::
  "pretest_portfolio \<Rightarrow> string option \<Rightarrow> json list \<Rightarrow> pretest_policy \<Rightarrow> (string \<times> tool_call list) pt_io" where
  "runPretestLlmOrSkip pf systemPrompt signals policy =
     (if py_deterministic policy then ret ('''', [])
      else
        await (q_ask qe_memory) (\<lambda>memCtx.
        q_turn \<lparr>tq_name = vf_name pf, tq_memory = memCtx,
          tq_equity = vs_equity (vf_state pf), tq_signals = signals, tq_prompt = systemPrompt\<rparr>))"

definition effective_policy :: "pretest_policy \<Rightarrow> jsnum \<Rightarrow> pretest_policy" where
  "effective_policy policy exposureScalar =
     (if exposureScalar = j1 then policy
      else policy\<lparr>py_sizing_pct := jmul (py_sizing_pct policy) exposureScalar\<rparr>)"

record cycle_result =
  cy_portfolio :: pretest_portfolio
  cy_signals :: "json list"
  cy_llm_text :: string
  cy_trades :: "pt_trade list"

definition inactive_error :: exn where
  "inactive_error = Exn ''Portfolio de pretest no activo''"

text \<open>From the tool calls of the turn to the new state: floor, fills, rebalance, trades, marks.\<close>

definition trade_turn ::
  "pretest_portfolio \<Rightarrow> pretest_policy \<Rightarrow> closes \<Rightarrow> bool \<Rightarrow> jsnum \<Rightarrow> tool_call list \<Rightarrow>
     (pt_state \<times> pt_trade list) pt_io" where
  "trade_turn pf policy refs rebalancing exposureScalar toolCalls =
     await (applyKernelRiskFloor (vf_id pf) (vf_name pf) toolCalls (vf_state pf)) (\<lambda>(allowed, gated).
     await (base (simulateFills allowed gated policy refs)) (\<lambda>trades.
     await (if rebalancing then base (buildVolTargetRebalanceTrades gated exposureScalar refs)
            else ret []) (\<lambda>rebalance.
     case applyTrades gated (trades @ rebalance) (py_commission_pct policy) of (st, done_trades) \<Rightarrow>
       await (base (updateEquityMetrics st policy refs)) (\<lambda>st'.
       ret (st', take (length trades) done_trades)))))"

definition save_cycle :: "pretest_portfolio \<Rightarrow> pt_state \<Rightarrow> unit pt_io" where
  "save_cycle pf st =
     await (base now) (\<lambda>t.
     await (update_portfolio (vf_id pf) (\<lambda>r. r\<lparr>vf_state := stored_state st,
       vf_run_count := vf_run_count r + 1, vf_last_run_at := Some t\<rparr>)) (\<lambda>_.
     attempt
       (await (base now) (\<lambda>ts.
        q_write (\<lambda>w. w\<lparr>pt_navs := pt_navs w @ [\<lparr>np_portfolio_id = vf_id pf, np_ts = ts,
          np_equity = vs_equity st, np_cash = vs_cash st,
          np_positions_count = length (vs_positions st), np_run_count = vf_run_count pf + 1\<rparr>]\<rparr>)))
       (\<lambda>_. ret ())))"

definition pretest_runCycle :: "string \<Rightarrow> string option \<Rightarrow> cycle_result pt_io" where
  "pretest_runCycle i systemPrompt =
     await (pretest_findOne i) (\<lambda>pf.
     if \<not> vf_is_active pf then throw inactive_error
     else
       await (q_ask qe_findAll) (\<lambda>allPlugins.
       let plugins = map (with_overrides pf) (filter (\<lambda>p. hp_id p \<in> set (vf_plugin_ids pf)) allPlugins);
           configs = config_table plugins;
           volTarget = find (is_vol_target configs) plugins;
           extra = (case volTarget of None \<Rightarrow> []
                    | Some p \<Rightarrow> [vol_target_benchmark (configs (hp_id p))])
       in await (buildMarketContext extra) (\<lambda>market.
          let ctx = \<lparr>cc_pretest_id = i, cc_market = market, cc_plugin_configs = configs,
                     cc_state = vf_state pf\<rparr>;
              refs = latestCloses (mc_ohlcv market)
          in await (vol_target_exposure pf volTarget ctx) (\<lambda>exposureScalar.
             await (q_ask (\<lambda>e k. qe_sandbox_cycle e k (map hp_id plugins) ctx)) (\<lambda>result.
             let signals = pending_signals result;
                 policy = readPolicy (vf_plugin_configs pf)
             in await (runPretestLlmOrSkip pf systemPrompt signals policy) (\<lambda>(llm_text, llmCalls).
                await (lift_result (synthesizePassiveHoldToolCalls signals llmCalls)) (\<lambda>toolCalls.
                await (trade_turn pf (effective_policy policy exposureScalar) refs (volTarget \<noteq> None)
                         exposureScalar toolCalls) (\<lambda>(st, trades).
                await (save_cycle pf st) (\<lambda>_.
                ret \<lparr>cy_portfolio = pf\<lparr>vf_state := st\<rparr>, cy_signals = signals,
                     cy_llm_text = llm_text, cy_trades = trades\<rparr>)))))))))"

primrec run_all ::
  "pretest_portfolio list \<Rightarrow> (string \<times> string \<times> exn option) list pt_io" where
  "run_all [] = ret []"
| "run_all (p # ps) =
     await (attempt (await (pretest_runCycle (vf_id p) None) (\<lambda>_. ret None)) (\<lambda>e. ret (Some e))) (\<lambda>outcome.
     await (run_all ps) (\<lambda>results.
     ret ((vf_id p, vf_name p, outcome) # results)))"

definition runAllActive :: "(string \<times> string \<times> exn option) list pt_io" where
  "runAllActive = await (q_read (\<lambda>w. filter vf_is_active (pt_rows w))) run_all"

end
