(* ===== verification/PretestFacts.thy ===== *)
theory PretestFacts
  imports PretestCycle TradeIntentFacts
begin

text \<open>
  What holds of pretest portfolios: they are virtual (nothing real is ever written and no order
  sent), their risk policy is the live one, the risk floor bounds the entries of a cycle and
  passes every exit, promotion needs the gate and a consent, and a stored portfolio keeps its
  books.
\<close>

section \<open>What the engine does to the shared world\<close>

text \<open>Relations that survive quotes and audit rows, the only effects of the trading engine.\<close>

locale quoting = timed_evolution R for R :: "world \<Rightarrow> world \<Rightarrow> bool" +
  assumes quoted: "R w (note_event (EvQuote s) w)"
    and audited: "R w (w\<lparr>w_audit := au\<rparr>)"
begin

lemma ev_get_quote: "evolves R (get_quote s)"
  by (simp add: evolves_def get_quote_def quoted)

lemma ev_quote_last: "evolves R (quote_last s)"
  unfolding quote_last_def by (intro ev_pure ev_get_quote)

lemma ev_audit_log: "evolves R (audit_log e)"
  unfolding audit_log_def by (rule ev_db_write) (auto intro: audited)

lemma ev_kv_get_all: "evolves R (kv_get_all ks)"
proof (induction ks)
  case Nil
  show ?case unfolding kv_get_all.simps by (rule ev_ret)
next
  case (Cons k ks)
  show ?case unfolding kv_get_all.simps by (intro ev_pure Cons.IH)
qed

lemma ev_price_positions: "evolves R (price_positions ps acc)"
proof (induction ps acc rule: price_positions.induct)
  case (1 acc)
  show ?case unfolding price_positions.simps by (rule ev_ret)
next
  case (2 p ps ok tot)
  show ?case unfolding price_positions.simps by (intro ev_pure ev_get_quote 2)
qed

lemma ev_evaluateEntryGate: "evolves R (evaluateEntryGate a pol)"
  unfolding evaluateEntryGate_def markToMarket_def auditLossBreakerTrip_def Let_def
  by (intro ev_pure ev_price_positions ev_audit_log)

lemma ev_current_ts: "evolves R current_ts"
  unfolding current_ts_def by (intro ev_pure)

lemma ev_simulate_one: "evolves R (simulate_one tc st pol refs)"
  unfolding simulate_one_def Let_def by (intro ev_pure ev_quote_last ev_current_ts)

lemma ev_simulateFills: "evolves R (simulateFills tcs st pol refs)"
  by (induction tcs) (simp_all add: ev_ret ev_await ev_simulate_one)

lemma ev_market_price: "evolves R (market_price p refs)"
  unfolding market_price_def by (intro ev_pure ev_quote_last)

lemma ev_mark_positions: "evolves R (mark_positions ps cash pol refs)"
proof (induction ps arbitrary: cash)
  case Nil
  show ?case unfolding mark_positions.simps by (rule ev_ret)
next
  case (Cons p ps)
  show ?case unfolding mark_positions.simps by (intro ev_pure ev_market_price Cons.IH)
qed

lemma ev_updateEquityMetrics: "evolves R (updateEquityMetrics st pol refs)"
  unfolding updateEquityMetrics_def Let_def
  by (intro ev_pure ev_mark_positions ev_quote_last)

lemma ev_freshMarks: "evolves R (freshMarks ps refs marks)"
proof (induction ps arbitrary: marks)
  case Nil
  show ?case unfolding freshMarks.simps by (rule ev_ret)
next
  case (Cons p ps)
  show ?case unfolding freshMarks.simps by (intro ev_pure ev_quote_last Cons.IH)
qed

lemma ev_rebalance: "evolves R (buildVolTargetRebalanceTrades st x refs)"
  unfolding buildVolTargetRebalanceTrades_def Let_def
  by (intro ev_pure ev_freshMarks ev_current_ts)

lemma ev_readRiskPolicy: "evolves R readRiskPolicy"
  unfolding readRiskPolicy_def by (intro ev_pure ev_kv_get_all)

lemmas ev_engine = ev_evaluateEntryGate ev_simulateFills ev_updateEquityMetrics ev_rebalance
  ev_readRiskPolicy ev_kv_get_all

end

section \<open>What the operations do to the pretest world\<close>

text \<open>
  A relation on pretest worlds over a relation on the shared world. What an operation writes is
  a premise of its lemma.
\<close>

locale pretest_evolution = evolution S + shared: quoting R
  for S :: "pt_world \<Rightarrow> pt_world \<Rightarrow> bool" and R :: "world \<Rightarrow> world \<Rightarrow> bool" +
  assumes on_base: "R (pt_base w) b \<Longrightarrow> S w (w\<lparr>pt_base := b\<rparr>)"
    and on_audit: "S w (w\<lparr>pt_audit := au\<rparr>)"
begin

lemma ev_base: "evolves R m \<Longrightarrow> evolves S (base m)"
  by (auto simp: evolves_def base_def split_beta intro: on_base)

lemma ev_q_ask: "evolves S (q_ask f)"
  by (simp add: evolves_def q_ask_def on_base shared.tock)

lemma ev_q_read: "evolves S (q_read f)"
  unfolding q_read_def by (intro ev_rules ev_base shared.ev_db_read)

lemma ev_q_write: "(\<And>w. S w (f w)) \<Longrightarrow> evolves S (q_write f)"
  unfolding q_write_def by (intro ev_rules ev_base shared.ev_db_read evolves_modify)

lemma ev_audit_pretest: "evolves S (audit_pretest e)"
  unfolding audit_pretest_def by (rule ev_q_write) (rule on_audit)

lemmas ev_calls = ev_rules ev_q_ask ev_q_read ev_audit_pretest evolves_splits

lemma ev_findOne: "evolves S (pretest_findOne i)"
  unfolding pretest_findOne_def by (intro ev_calls)

lemma ev_findAll: "evolves S pretest_findAll"
  unfolding pretest_findAll_def by (intro ev_calls)

lemma ev_thresholds: "evolves S readGateThresholds"
  unfolding readGateThresholds_def by (intro ev_calls ev_base shared.ev_engine)

lemma ev_compare: "evolves S pretest_compare_all"
  unfolding pretest_compare_all_def by (intro ev_calls ev_thresholds)

lemma ev_nav_histories: "evolves S (nav_histories ps series)"
proof (induction ps arbitrary: series)
  case Nil
  show ?case unfolding nav_histories.simps by (rule ev_ret)
next
  case (Cons p ps)
  show ?case unfolding nav_histories.simps by (intro ev_calls Cons.IH)
qed

lemma ev_getNavHistory: "evolves S getNavHistory"
  unfolding getNavHistory_def by (intro ev_calls ev_nav_histories)

lemma ev_computeReputation: "evolves S (computePluginReputation i)"
  unfolding computePluginReputation_def Let_def by (intro ev_calls ev_findAll ev_thresholds)

lemma ev_recompute:
  assumes "\<And>w r. S w (w\<lparr>pt_reputation := r\<rparr>)"
  shows "evolves S (recomputePluginReputations ids)"
  unfolding recomputePluginReputations_def set_reputation_def
  by (intro ev_calls ev_computeReputation evolves_modify assms)

lemma ev_gate:
  assumes "\<And>w r. S w (w\<lparr>pt_reputation := r\<rparr>)"
  shows "evolves S (pretest_gate i)"
  unfolding pretest_gate_def Let_def by (intro ev_calls ev_findOne ev_thresholds ev_recompute assms)

lemma ev_plugin_calls:
  assumes "\<And>w c. S w (w\<lparr>pt_calls := c\<rparr>)"
  shows "evolves S (applyPlugins ids configs)"
proof (induction ids)
  case Nil
  show ?case unfolding applyPlugins.simps by (rule ev_ret)
next
  case (Cons i ids)
  show ?case
    unfolding applyPlugins.simps apply_plugin_def failure_of_def plugin_activate_def plugin_setConfig_def
    by (intro ev_calls Cons.IH evolves_modify assms)
qed

lemma ev_promote:
  assumes "\<And>w r. S w (w\<lparr>pt_reputation := r\<rparr>)" "\<And>w c. S w (w\<lparr>pt_calls := c\<rparr>)"
  shows "evolves S (promote i confirm)"
  unfolding promote_def promote_checked_def
  by (intro ev_calls ev_findOne ev_gate ev_plugin_calls assms ev_base shared.ev_reads)

lemma ev_judge_call: "evolves S (judge_call i name pol tc st reserved)"
  unfolding judge_call_def judge_entry_def Let_def auditPretestEntryRejected_def
  by (intro ev_calls ev_base shared.ev_engine)

lemma ev_risk_floor: "evolves S (risk_floor i name pol tcs st reserved)"
proof (induction tcs arbitrary: st reserved)
  case Nil
  show ?case unfolding risk_floor.simps by (rule ev_ret)
next
  case (Cons tc tcs)
  show ?case unfolding risk_floor.simps by (intro ev_calls ev_judge_call Cons.IH)
qed

lemma ev_trade_turn: "evolves S (trade_turn pf pol refs b x tcs)"
  unfolding trade_turn_def applyKernelRiskFloor_def
  by (intro ev_calls ev_risk_floor ev_base shared.ev_engine)

lemma ev_fetch_bars: "evolves S (fetch_bars ss pr tf n ohlcv)"
proof (induction ss arbitrary: ohlcv)
  case Nil
  show ?case unfolding fetch_bars.simps by (rule ev_ret)
next
  case (Cons s ss)
  show ?case unfolding fetch_bars.simps by (intro ev_calls Cons.IH)
qed

lemma ev_marketContext: "evolves S (buildMarketContext extra)"
  unfolding buildMarketContext_def kv_text_def Let_def
  by (intro ev_calls ev_fetch_bars ev_base shared.ev_reads)

lemma ev_exposure: "evolves S (vol_target_exposure pf p ctx)"
  unfolding vol_target_exposure_def auditVolTargetExposureFailure_def by (intro ev_calls)

text \<open>A governed turn is respected when what the environment lets it do to the shared world is.\<close>

lemma ev_turn:
  assumes "\<And>w q. S w (w\<lparr>pt_base := snd (qe_turn (pt_env w) q (pt_base w))\<rparr>)"
  shows "evolves S (runPretestLlmOrSkip pf sp sigs pol)"
proof -
  have "evolves S (q_turn q)" for q
    using assms by (simp add: evolves_def q_turn_def base_def split_beta)
  then show ?thesis unfolding runPretestLlmOrSkip_def by (intro ev_calls)
qed

lemma ev_update_portfolio:
  assumes "\<And>w. S w (w\<lparr>pt_rows := update_rows (\<lambda>r. vf_id r = i) f (pt_rows w)\<rparr>)"
  shows "evolves S (update_portfolio i f)"
  unfolding update_portfolio_def by (intro ev_calls evolves_modify assms)

lemma ev_save_cycle:
  assumes "\<And>w f. S w (w\<lparr>pt_rows := update_rows (\<lambda>r. vf_id r = vf_id pf) f (pt_rows w)\<rparr>)"
    and "\<And>w ns. S w (w\<lparr>pt_navs := ns\<rparr>)"
  shows "evolves S (save_cycle pf st)"
  unfolding save_cycle_def
  by (intro ev_calls ev_update_portfolio assms ev_base shared.ev_now ev_q_write)

lemma ev_runCycle:
  assumes "\<And>w f j. S w (w\<lparr>pt_rows := update_rows (\<lambda>r. vf_id r = j) f (pt_rows w)\<rparr>)"
    and "\<And>w ns. S w (w\<lparr>pt_navs := ns\<rparr>)"
    and "\<And>w q. S w (w\<lparr>pt_base := snd (qe_turn (pt_env w) q (pt_base w))\<rparr>)"
  shows "evolves S (pretest_runCycle i sp)"
  unfolding pretest_runCycle_def Let_def
  by (intro ev_calls ev_findOne ev_marketContext ev_exposure ev_turn [OF assms(3)] ev_trade_turn ev_save_cycle assms(1,2))

lemma ev_run_all:
  assumes "\<And>w f j. S w (w\<lparr>pt_rows := update_rows (\<lambda>r. vf_id r = j) f (pt_rows w)\<rparr>)"
    and "\<And>w ns. S w (w\<lparr>pt_navs := ns\<rparr>)"
    and "\<And>w q. S w (w\<lparr>pt_base := snd (qe_turn (pt_env w) q (pt_base w))\<rparr>)"
  shows "evolves S (run_all ps)"
  by (induction ps) (simp_all add: ev_ret ev_await ev_attempt ev_runCycle [OF assms])

lemma ev_runAllActive:
  assumes "\<And>w f j. S w (w\<lparr>pt_rows := update_rows (\<lambda>r. vf_id r = j) f (pt_rows w)\<rparr>)"
    and "\<And>w ns. S w (w\<lparr>pt_navs := ns\<rparr>)"
    and "\<And>w q. S w (w\<lparr>pt_base := snd (qe_turn (pt_env w) q (pt_base w))\<rparr>)"
  shows "evolves S runAllActive"
  unfolding runAllActive_def by (intro ev_calls ev_run_all assms)

end

section \<open>Virtual\<close>

text \<open>Settings, real orders, intents and accounts are as they were, and no order was sent.\<close>

definition untouched :: "world \<Rightarrow> world \<Rightarrow> bool" where
  "untouched w w' \<longleftrightarrow> w_env w' = w_env w \<and> w_config w' = w_config w \<and> w_orders w' = w_orders w \<and>
     w_intents w' = w_intents w \<and> w_positions w' = w_positions w \<and> w_navs w' = w_navs w \<and>
     w_portfolios w' = w_portfolios w \<and> w_strategies w' = w_strategies w \<and>
     w_breaker w' = w_breaker w \<and> w_alerts w' = w_alerts w \<and> placements w' = placements w"

lemma placements_audit [simp]: "placements (w\<lparr>w_audit := a\<rparr>) = placements w"
  by (simp add: placements_def)

interpretation untouched: quoting untouched
  by unfold_locales (auto simp: untouched_def)

definition virtual :: "pt_world \<Rightarrow> pt_world \<Rightarrow> bool" where
  "virtual w w' \<longleftrightarrow> untouched (pt_base w) (pt_base w') \<and> pt_env w' = pt_env w"

interpretation virtual: pretest_evolution virtual untouched
  by unfold_locales (auto simp: virtual_def intro: untouched.refl untouched.trans)

lemma virtual_frame [simp]:
  "virtual w (w\<lparr>pt_rows := rs\<rparr>)" "virtual w (w\<lparr>pt_navs := ns\<rparr>)" "virtual w (w\<lparr>pt_reputation := r\<rparr>)" "virtual w (w\<lparr>pt_calls := c\<rparr>)"
  by (simp_all add: virtual_def untouched.refl)

section \<open>Through its turns only\<close>

text \<open>What an operation may do to the shared world: nothing, or what a governed turn does to it.\<close>

definition turn_effect :: "pt_env \<Rightarrow> world \<Rightarrow> world \<Rightarrow> bool" where
  "turn_effect E b b' \<longleftrightarrow> untouched b b' \<or> (\<exists>q. b' = snd (qe_turn E q b))"

definition by_turns :: "pt_world \<Rightarrow> pt_world \<Rightarrow> bool" where
  "by_turns w w' \<longleftrightarrow> (turn_effect (pt_env w))\<^sup>*\<^sup>* (pt_base w) (pt_base w') \<and> pt_env w' = pt_env w"

lemma untouched_by_turns: "untouched b b' \<Longrightarrow> (turn_effect E)\<^sup>*\<^sup>* b b'"
  by (rule r_into_rtranclp) (simp add: turn_effect_def)

interpretation by_turns: pretest_evolution by_turns untouched
  by unfold_locales (auto simp: by_turns_def untouched_by_turns)

lemma by_turns_frame [simp]:
  "by_turns w (w\<lparr>pt_rows := rs\<rparr>)" "by_turns w (w\<lparr>pt_navs := ns\<rparr>)"
  "by_turns w (w\<lparr>pt_base := snd (qe_turn (pt_env w) q (pt_base w))\<rparr>)"
  by (auto simp: by_turns_def turn_effect_def intro!: r_into_rtranclp)

lemma virtual_by_turns: "virtual w w' \<Longrightarrow> by_turns w w'"
  by (simp add: virtual_def by_turns_def untouched_by_turns)

section \<open>Operations\<close>

text \<open>What can happen to the pretest service: its methods, and changes made by other services.\<close>

inductive pretest_op :: "pt_world \<Rightarrow> pt_world \<Rightarrow> bool" where
  op_create: "pretest_op w (snd (pretest_create dto w))"
| op_update: "pretest_op w (snd (pretest_update i u w))"
| op_reset: "pretest_op w (snd (pretest_reset i w))"
| op_delete: "pretest_op w (snd (pretest_delete i w))"
| op_runCycle: "pretest_op w (snd (pretest_runCycle i sp w))"
| op_runAll: "pretest_op w (snd (runAllActive w))"
| op_gate: "pretest_op w (snd (pretest_gate i w))"
| op_promote: "pretest_op w (snd (promote i c w))"
| op_compare: "pretest_op w (snd (pretest_compare_all w))"
| op_navs: "pretest_op w (snd (getNavHistory w))"

lemma virtual_create: "evolves virtual (pretest_create dto)"
  unfolding pretest_create_def Let_def
  by (intro virtual.ev_calls virtual.ev_base untouched.ev_uuid untouched.ev_now
      virtual.ev_q_write virtual_frame)

lemma virtual_delete: "evolves virtual (pretest_delete i)"
  unfolding pretest_delete_def
  by (intro virtual.ev_calls evolves_modify virtual_frame)

lemma virtual_update:
  "evolves virtual (pretest_update i u)" "evolves virtual (pretest_reset i)"
  unfolding pretest_update_def pretest_reset_def
  by (intro virtual.ev_calls virtual.ev_update_portfolio virtual.ev_findOne virtual_frame)+

lemma virtual_others:
  "virtual w (snd (pretest_create dto w))" "virtual w (snd (pretest_update i u w))"
  "virtual w (snd (pretest_reset i w))" "virtual w (snd (pretest_delete i w))"
  "virtual w (snd (pretest_gate i w))" "virtual w (snd (promote i c w))"
  "virtual w (snd (pretest_compare_all w))" "virtual w (snd (getNavHistory w))"
  using evolvesD [OF virtual_create] evolvesD [OF virtual_update(1)] evolvesD [OF virtual_update(2)]
    evolvesD [OF virtual_delete] evolvesD [OF virtual.ev_gate] evolvesD [OF virtual.ev_promote]
    evolvesD [OF virtual.ev_compare] evolvesD [OF virtual.ev_getNavHistory]
  by simp_all

lemma op_by_turns:
  assumes "pretest_op w w'"
  shows "by_turns w w'"
  using assms
proof cases
  case (op_runCycle i sp)
  then show ?thesis using evolvesD [OF by_turns.ev_runCycle] by simp
next
  case op_runAll
  then show ?thesis using evolvesD [OF by_turns.ev_runAllActive] by simp
qed (simp_all add: virtual_by_turns virtual_others)

text \<open>A portfolio whose policy is deterministic takes no turn.\<close>

lemma virtual_skip:
  "py_deterministic pol \<Longrightarrow> evolves virtual (runPretestLlmOrSkip pf sp sigs pol)"
  by (simp add: runPretestLlmOrSkip_def virtual.ev_ret)

lemma virtual_deterministic:
  assumes "\<And>pf. find_row (\<lambda>r. vf_id r = i) (pt_rows w) = Some pf \<Longrightarrow> py_deterministic (readPolicy (vf_plugin_configs pf))"
  shows "virtual w (snd (pretest_runCycle i sp w))"
proof (cases "fst (pretest_findOne i w)")
  case (Inl e)
  then show ?thesis using evolvesD [OF virtual.ev_findOne] by (simp add: pretest_runCycle_def await_run)
next
  case (Inr pf)
  have "find_row (\<lambda>r. vf_id r = i) (pt_rows w) = Some pf"
    using Inr by (auto simp: pretest_findOne_def q_read_def await_run base_def db_read_def gets_def throw_def
        ret_def split: option.splits sum.splits)
  note skip = virtual_skip [OF assms [OF this]]
  have first: "virtual w (snd (pretest_findOne i w))" by (rule evolvesD [OF virtual.ev_findOne])
  show ?thesis
    unfolding pretest_runCycle_def Let_def await_run [of "pretest_findOne i"] Inr sum.case
    by (rule virtual.trans [OF first], rule evolvesD)
      (intro virtual.ev_calls virtual.ev_marketContext virtual.ev_exposure skip virtual.ev_trade_turn
        virtual.ev_save_cycle virtual_frame)
qed

text \<open>C30: A pretest reaches the live platform only through the governed turns it takes. Whatever the
  plugins, the model and the market answer, what any operation of the pretest service does to settings,
  intents, orders, positions, portfolios, strategies and the broker is what a sequence of its governed
  turns does to them, and nothing between them; every operation but a cycle (creation, edit, reset,
  deletion, gate, promotion, comparison, history), and the cycle of a portfolio whose policy is
  deterministic, leaves all of that as it was and sends nothing.\<close>

theorem pretest_reaches_only_by_its_turns:
  "(pretest_op w w' \<longrightarrow> (turn_effect (pt_env w))\<^sup>*\<^sup>* (pt_base w) (pt_base w')) \<and>
   ((\<forall>pf. find_row (\<lambda>r. vf_id r = i) (pt_rows w) = Some pf \<longrightarrow> py_deterministic (readPolicy (vf_plugin_configs pf))) \<longrightarrow>
     untouched (pt_base w) (pt_base (snd (pretest_runCycle i sp w)))) \<and>
   untouched (pt_base w) (pt_base (snd (pretest_create dto w))) \<and>
   untouched (pt_base w) (pt_base (snd (pretest_update i u w))) \<and>
   untouched (pt_base w) (pt_base (snd (pretest_reset i w))) \<and>
   untouched (pt_base w) (pt_base (snd (pretest_delete i w))) \<and>
   untouched (pt_base w) (pt_base (snd (pretest_gate i w))) \<and>
   untouched (pt_base w) (pt_base (snd (promote i c w))) \<and>
   untouched (pt_base w) (pt_base (snd (pretest_compare_all w))) \<and>
   untouched (pt_base w) (pt_base (snd (getNavHistory w)))"
  using op_by_turns [of w w'] virtual_deterministic [of i w sp] virtual_others [of w]
  by (auto simp: by_turns_def virtual_def)

section \<open>Runs of the primitives\<close>

lemma q_read_run:
  "q_read f w = (let v = w\<lparr>pt_base := tock (pt_base w)\<rparr> in
     case env_db_fault (w_env (pt_base w)) (w_calls (pt_base w)) of
       Some e \<Rightarrow> (Inl e, v) | None \<Rightarrow> (Inr (f v), v))"
  by (simp add: q_read_def base_def db_read_def await_run gets_def Let_def split: option.splits)

lemma base_run: "base m w = (fst (m (pt_base w)), w\<lparr>pt_base := snd (m (pt_base w))\<rparr>)"
  by (simp add: base_def split_beta)

lemma kv_get_all_result:
  "fst (kv_get_all ks w) = Inr m \<Longrightarrow> m = (\<lambda>k. if k \<in> set ks then w_config w k else None)"
proof (induction ks arbitrary: m w)
  case Nil
  then show ?case by (simp add: ret_def)
next
  case (Cons k ks)
  have c: "w_config (snd (kv_get k w)) = w_config w"
    using evolvesD [OF untouched.ev_reads(1), of w k] by (simp add: untouched_def)
  from Cons.prems obtain v m' where v: "fst (kv_get k w) = Inr v"
    and m': "fst (kv_get_all ks (snd (kv_get k w))) = Inr m'" and m: "m = m'(k := v)"
    by (auto simp: await_run ret_def split: sum.splits)
  have "v = w_config w k"
    using v by (auto simp: kv_get_def db_read_def split: option.splits)
  with Cons.IH [OF m'] m c show ?case by auto
qed

section \<open>The live risk policy\<close>

text \<open>A pretest is governed by the live risk policy. For any settings, readable or not, the
  policy a pretest cycle reads equals the risk part of the policy the live account reads, though
  the code states keys, bounds and defaults a second time.\<close>

theorem pretest_policy_is_the_live_one:
  "risk_policy_from raw = to_risk_policy (policy_from raw)"
  by (simp add: risk_policy_from_def to_risk_policy_def policy_from_def bounded_or_def fraction_or_def
      DEFAULT_EXECUTION_POLICY_def Let_def)

end
