(* ===== verification/PretestGate.thy ===== *)
theory PretestGate
  imports PretestFacts
begin

text \<open>
  The significance gate of a pretest portfolio: what a ready portfolio has shown, who may be
  promoted, how portfolios are compared and plugins rated.
\<close>

section \<open>Reading\<close>

lemma thresholds_restrict:
  "thresholds_from (\<lambda>k. if k \<in> set GATE_KEYS then c k else None) = thresholds_from c"
  by (simp add: thresholds_from_def GATE_KEYS_def)

lemma readGateThresholds_result:
  "fst (readGateThresholds w) = Inr th \<Longrightarrow> th = thresholds_from (w_config (pt_base w))"
  by (auto simp: readGateThresholds_def await_run base_run ret_def thresholds_restrict
      dest!: kv_get_all_result split: sum.splits)

lemma findOne_result:
  "fst (pretest_findOne i w) = Inr pf \<Longrightarrow>
     find_row (\<lambda>r. vf_id r = i) (pt_rows w) = Some pf \<and> pt_rows (snd (pretest_findOne i w)) = pt_rows w \<and>
     pt_base (snd (pretest_findOne i w)) = tock (pt_base w)"
  by (auto simp: pretest_findOne_def await_run q_read_run Let_def ret_def throw_def split: option.splits)

section \<open>What the gate decides\<close>

lemma gate_result:
  assumes "fst (pretest_gate i w) = Inr g"
  shows "\<exists>pf. find_row (\<lambda>r. vf_id r = i) (pt_rows w) = Some pf \<and>
    ga_ready g = gate_ready (thresholds_from (w_config (pt_base w))) pf \<and>
    ga_metrics g = portfolio_metrics pf \<and>
    ga_reasons g = evaluateGate (portfolio_metrics pf) (thresholds_from (w_config (pt_base w)))"
proof -
  obtain pf where pf: "fst (pretest_findOne i w) = Inr pf"
    using assms by (auto simp: pretest_gate_def await_run split: sum.splits)
  let ?w1 = "snd (pretest_findOne i w)"
  obtain th where th: "fst (readGateThresholds ?w1) = Inr th"
    using assms pf by (auto simp: pretest_gate_def await_run Let_def split: sum.splits)
  have "th = thresholds_from (w_config (pt_base w))"
    using readGateThresholds_result [OF th] findOne_result [OF pf] by simp
  moreover have "g = \<lparr>ga_ready = (evaluateGate (portfolio_metrics pf) th = []),
      ga_reasons = evaluateGate (portfolio_metrics pf) th, ga_metrics = portfolio_metrics pf\<rparr>"
    using assms pf th by (auto simp: pretest_gate_def await_run Let_def ret_def split: sum.splits)
  ultimately show ?thesis using findOne_result [OF pf] by (simp add: gate_ready_def)
qed

section \<open>Promotion\<close>

text \<open>Nothing is asked of the plugin service.\<close>

definition quiet :: "pt_world \<Rightarrow> pt_world \<Rightarrow> bool" where
  "quiet w w' \<longleftrightarrow> untouched (pt_base w) (pt_base w') \<and> pt_calls w' = pt_calls w \<and> pt_rows w' = pt_rows w"

interpretation quiet: pretest_evolution quiet untouched
  by unfold_locales (auto simp: quiet_def intro: untouched.refl untouched.trans)

lemma quiet_gate: "quiet w (snd (pretest_gate i w))"
  by (rule evolvesD [OF quiet.ev_gate]) (simp add: quiet_def untouched.refl)

text \<open>Calls that activate or configure the plugins of a portfolio as it says.\<close>

definition call_of :: "pretest_portfolio \<Rightarrow> plugin_call \<Rightarrow> bool" where
  "call_of pf c \<longleftrightarrow> (case c of
      Activate i \<Rightarrow> i \<in> set (vf_plugin_ids pf)
    | SetConfig i m \<Rightarrow> i \<in> set (vf_plugin_ids pf) \<and> vf_plugin_configs pf i = Some m)"

definition calls_grow :: "pretest_portfolio \<Rightarrow> pt_world \<Rightarrow> pt_world \<Rightarrow> bool" where
  "calls_grow pf w w' \<longleftrightarrow> (\<exists>cs. pt_calls w' = pt_calls w @ cs \<and> (\<forall>c\<in>set cs. call_of pf c))"

lemma calls_grow_trans: "calls_grow pf u v \<Longrightarrow> calls_grow pf v w \<Longrightarrow> calls_grow pf u w"
  unfolding calls_grow_def by (metis Un_iff append.assoc set_append)

lemma calls_grow_same: "pt_calls w' = pt_calls w \<Longrightarrow> calls_grow pf w w'"
  by (simp add: calls_grow_def)

interpretation growing: pretest_evolution "calls_grow pf" untouched for pf
  by unfold_locales (auto intro: calls_grow_same calls_grow_trans)

lemma growing_call: "call_of pf c \<Longrightarrow> calls_grow pf w (w\<lparr>pt_calls := pt_calls w @ [c]\<rparr>)"
  by (auto simp: calls_grow_def)

lemma growing_applyPlugins:
  "set ids \<subseteq> set (vf_plugin_ids pf) \<Longrightarrow> evolves (calls_grow pf) (applyPlugins ids (vf_plugin_configs pf))"
proof (induction ids)
  case Nil
  show ?case unfolding applyPlugins.simps by (rule growing.ev_ret)
next
  case (Cons i ids)
  then have i: "i \<in> set (vf_plugin_ids pf)" by simp
  have a: "evolves (calls_grow pf) (plugin_activate i)"
    unfolding plugin_activate_def
    by (intro growing.ev_calls evolves_modify growing_call) (simp add: call_of_def i)
  have c: "vf_plugin_configs pf i = Some m \<Longrightarrow> evolves (calls_grow pf) (plugin_setConfig i m)" for m
    unfolding plugin_setConfig_def
    by (intro growing.ev_calls evolves_modify growing_call) (simp add: call_of_def i)
  have "evolves (calls_grow pf) (applyPlugins ids (vf_plugin_configs pf))" using Cons by simp
  then show ?case
    unfolding applyPlugins.simps apply_plugin_def failure_of_def
    by (intro growing.ev_calls a c)
qed

lemma kv_get_result: "fst (kv_get k w) = Inr v \<Longrightarrow> v = w_config w k"
  by (auto simp: kv_get_def db_read_def split: option.splits)

lemma checked_calls:
  assumes "pt_calls (snd (promote_checked i confirm pf g w)) \<noteq> pt_calls w"
  shows "ga_ready g \<and> calls_grow pf w (snd (promote_checked i confirm pf g w)) \<and>
    (confirm \<or> \<not> kvBool (w_config (pt_base w) ''promotion.require_human_confirm'') True)"
proof -
  let ?k = "''promotion.require_human_confirm''"
  have "ga_ready g"
  proof (rule ccontr)
    assume "\<not> ga_ready g"
    then have "promote_checked i confirm pf g =
        await (audit_pretest (GateBlocked i (ga_reasons g))) (\<lambda>_. ret (GateNotReady (ga_reasons g)))"
      by (simp add: promote_checked_def)
    moreover have "evolves quiet \<dots>" by (intro quiet.ev_calls)
    ultimately have "quiet w (snd (promote_checked i confirm pf g w))" by (simp add: evolvesD)
    with assms show False by (simp add: quiet_def)
  qed
  moreover have "calls_grow pf w (snd (promote_checked i confirm pf g w))"
    unfolding promote_checked_def
    by (rule evolvesD, intro growing.ev_calls growing_applyPlugins growing.ev_base untouched.ev_reads) simp
  moreover have "confirm \<or> \<not> kvBool (w_config (pt_base w) ?k) True"
  proof (rule ccontr)
    assume no: "\<not> ?thesis"
    have "quiet w (snd (base (kv_get ?k) w))"
      by (rule evolvesD [OF quiet.ev_base [OF untouched.ev_reads(1)]])
    moreover have "snd (promote_checked i confirm pf g w) = snd (base (kv_get ?k) w)"
      using \<open>ga_ready g\<close> no
      by (auto simp: promote_checked_def await_run base_run ret_def dest!: kv_get_result split: sum.splits)
    ultimately show False using assms by (simp add: quiet_def)
  qed
  ultimately show ?thesis by blast
qed

lemma promotion_calls:
  assumes "pt_calls (snd (promote i confirm w)) \<noteq> pt_calls w"
  shows "\<exists>pf cs. find_row (\<lambda>r. vf_id r = i) (pt_rows w) = Some pf \<and>
    gate_ready (thresholds_from (w_config (pt_base w))) pf \<and>
    (confirm \<or> \<not> kvBool (w_config (pt_base w) ''promotion.require_human_confirm'') True) \<and>
    pt_calls (snd (promote i confirm w)) = pt_calls w @ cs \<and> (\<forall>c\<in>set cs. call_of pf c)"
proof -
  obtain pf where pf: "fst (pretest_findOne i w) = Inr pf"
    using assms evolvesD [OF quiet.ev_findOne, of w i]
    by (auto simp: promote_def await_run quiet_def split: sum.splits)
  let ?v = "snd (pretest_gate i (snd (pretest_findOne i w)))"
  note f = findOne_result [OF pf]
  have q: "quiet w ?v" by (rule quiet.trans [OF evolvesD [OF quiet.ev_findOne] quiet_gate])
  show ?thesis
  proof (cases "fst (pretest_gate i (snd (pretest_findOne i w)))")
    case (Inl e)
    then have "snd (promote i confirm w) = snd (audit_pretest (GateError i e) ?v)"
      using pf by (auto simp: promote_def await_run attempt_run ret_def split: sum.splits)
    moreover have "quiet ?v (snd (audit_pretest (GateError i e) ?v))" by (rule evolvesD [OF quiet.ev_audit_pretest])
    ultimately have "quiet w (snd (promote i confirm w))" using quiet.trans [OF q] by simp
    with assms show ?thesis by (simp add: quiet_def)
  next
    case (Inr g)
    have p: "snd (promote i confirm w) = snd (promote_checked i confirm pf g ?v)"
      using pf Inr by (simp add: promote_def await_run attempt_run ret_def)
    have "pt_calls ?v = pt_calls w" "w_config (pt_base ?v) = w_config (pt_base w)"
      using q by (simp_all add: quiet_def untouched_def)
    then have c: "ga_ready g" "confirm \<or> \<not> kvBool (w_config (pt_base w) ''promotion.require_human_confirm'') True"
      "calls_grow pf w (snd (promote i confirm w))"
      using checked_calls [of i confirm pf g ?v] assms by (simp_all add: p calls_grow_def)
    moreover have "gate_ready (thresholds_from (w_config (pt_base w))) pf"
      using gate_result [OF Inr] f c(1) by auto
    ultimately show ?thesis using f by (auto simp: calls_grow_def)
  qed
qed

text \<open>C32: Only a gate-ready portfolio with consent is promoted. If \<open>promote\<close> asks the plugin service
  for anything at all, the stored portfolio passes the significance gate under the stored
  thresholds, and either the caller confirmed or the operator switched confirmation off with the
  literal value; and every request activates a plugin of the portfolio or stores the
  configuration the portfolio holds for it. This also holds when reads fail part-way.\<close>

theorem promotion_needs_gate_and_consent:
  assumes "pt_calls (snd (promote i confirm w)) \<noteq> pt_calls w"
  shows "\<exists>pf cs. find_row (\<lambda>r. vf_id r = i) (pt_rows w) = Some pf \<and>
    gate_ready (thresholds_from (w_config (pt_base w))) pf \<and>
    (confirm \<or> \<not> kvBool (w_config (pt_base w) ''promotion.require_human_confirm'') True) \<and>
    pt_calls (snd (promote i confirm w)) = pt_calls w @ cs \<and> (\<forall>c\<in>set cs. call_of pf c)"
  by (rule promotion_calls [OF assms])

section \<open>What a ready portfolio has shown\<close>

lemma computeWinLossStats_keeps:
  "sg_n_trades (computeWinLossStats ts m) = sg_n_trades m" "sg_sharpe (computeWinLossStats ts m) = sg_sharpe m"
  "sg_max_dd (computeWinLossStats ts m) = sg_max_dd m" "sg_alpha_pct (computeWinLossStats ts m) = sg_alpha_pct m"
  by (simp_all add: computeWinLossStats_def Let_def split: prod.splits)

lemma significance_counts:
  "sg_n_trades (computeSignificance st c) = length (closing_trades (vs_trades st))"
  "sg_max_dd (computeSignificance st c) = vs_max_drawdown_pct st"
  "sg_alpha_pct (computeSignificance st c) = alpha_of st c"
  by (simp_all add: computeSignificance_def Let_def computeWinLossStats_keeps)

lemma threshold_bounds:
  "jle j1 (th_min_trades (thresholds_from raw))" "jle j0 (th_min_sharpe (thresholds_from raw))"
  "jle (th_max_dd_pct (thresholds_from raw)) (Fin 100)"
  by (simp_all add: thresholds_from_def Let_def)

lemma evaluateGate_Nil:
  "evaluateGate m th = [] \<longleftrightarrow>
     \<not> jlt (of_count (int (sg_n_trades m))) (th_min_trades th) \<and> \<not> jlt (sg_sharpe m) (th_min_sharpe th) \<and>
     \<not> jgt (sg_max_dd m) (th_max_dd_pct th) \<and>
     \<not> jlt (of_count (int (sg_loss_trades m))) (th_min_loss_trades th) \<and>
     (\<forall>a. sg_alpha_pct m = Some a \<longrightarrow> \<not> jlt a (th_min_alpha th))"
  by (auto simp: evaluateGate_def split: option.splits)

definition without_covers :: "pretest_portfolio \<Rightarrow> pretest_portfolio" where
  "without_covers p = p\<lparr>vf_state := (vf_state p)\<lparr>vs_trades :=
     filter (\<lambda>t. vt_action t \<noteq> Cover) (vs_trades (vf_state p))\<rparr>\<rparr>"

lemma alpha_of_trades [simp]: "alpha_of (st\<lparr>vs_trades := ts\<rparr>) c = alpha_of st c"
  by (cases "vs_benchmark_return_pct st"; cases c) (simp_all add: alpha_of_def)

lemma portfolio_metrics_without_covers [simp]:
  "portfolio_metrics (without_covers p) = portfolio_metrics p"
proof -
  have "closing_trades (filter (\<lambda>t. vt_action t \<noteq> Cover) ts) = closing_trades ts" for ts
    unfolding closing_trades_def filter_filter by (rule filter_cong) auto
  then show ?thesis
    by (simp add: portfolio_metrics_def without_covers_def computeSignificance_def)
qed

text \<open>What a gate-ready portfolio has shown. Whatever the threshold settings say, a portfolio
  passes the gate only with at least one closed long trade in its record, a Sharpe ratio that is
  not negative, a maximum drawdown of at most 100 percent, and an alpha (when one is tracked) not
  below the stored minimum. The verdict ignores every covered short: deleting all of them, gains
  and losses, does not change it.\<close>

theorem gate_evidence:
  assumes "gate_ready (thresholds_from raw) p"
  shows "(\<exists>t\<in>set (vs_trades (vf_state p)). (vt_action t = Sell \<or> vt_action t = Close) \<and> vt_pnl t \<noteq> None) \<and>
    \<not> jlt (sg_sharpe (portfolio_metrics p)) j0 \<and> \<not> jgt (vs_max_drawdown_pct (vf_state p)) (Fin 100) \<and>
    (\<forall>a. alpha_of (vf_state p) (Some (vf_initial_capital p)) = Some a \<longrightarrow>
       \<not> jlt a (kvNum (raw ''pretest.gate.min_alpha'') j0)) \<and>
    gate_ready (thresholds_from raw) (without_covers p)"
proof -
  note g = assms [unfolded gate_ready_def evaluateGate_Nil]
  have "closing_trades (vs_trades (vf_state p)) \<noteq> []"
  proof
    assume "closing_trades (vs_trades (vf_state p)) = []"
    then have "\<not> jlt j0 (th_min_trades (thresholds_from raw))"
      using g by (simp add: portfolio_metrics_def significance_counts of_count_exact)
    moreover have "jlt j0 j1" by simp
    ultimately show False using threshold_bounds(1) jlt_jle_trans by blast
  qed
  moreover have "\<not> jlt (sg_sharpe (portfolio_metrics p)) j0"
    using g threshold_bounds(2) jlt_jle_trans by blast
  moreover have "\<not> jgt (vs_max_drawdown_pct (vf_state p)) (Fin 100)"
    using g threshold_bounds(3) [of raw] jle_jlt_trans
    by (auto simp: portfolio_metrics_def significance_counts)
  moreover have "th_min_alpha (thresholds_from raw) = kvNum (raw ''pretest.gate.min_alpha'') j0"
    by (simp add: thresholds_from_def Let_def)
  moreover have "sg_alpha_pct (portfolio_metrics p) = alpha_of (vf_state p) (Some (vf_initial_capital p))"
    by (simp add: portfolio_metrics_def significance_counts)
  moreover have "gate_ready (thresholds_from raw) (without_covers p)"
    using assms by (simp add: gate_ready_def)
  ultimately show ?thesis using g by (auto simp: closing_trades_def filter_empty_conv)
qed

section \<open>The winners\<close>

lemma foldl_best:
  assumes "\<forall>y\<in>insert x (set ys). f y \<noteq> NaN"
  shows "foldl (\<lambda>a b. if jgt (f b) (f a) then b else a) x ys \<in> insert x (set ys) \<and>
    (\<forall>y\<in>insert x (set ys). jle (f y) (f (foldl (\<lambda>a b. if jgt (f b) (f a) then b else a) x ys)))"
  using assms
proof (induction ys arbitrary: x)
  case Nil
  then show ?case by (simp add: jle_refl)
next
  case (Cons y ys)
  let ?z = "if jgt (f y) (f x) then y else x"
  have z: "jle (f x) (f ?z)" "jle (f y) (f ?z)"
    using Cons.prems not_jlt_iff [of "f x" "f y"] by (auto intro: jlt_imp_jle jle_refl)
  have "\<forall>u\<in>insert ?z (set ys). f u \<noteq> NaN" using Cons.prems by auto
  note ih = Cons.IH [OF this]
  let ?r = "foldl (\<lambda>a b. if jgt (f b) (f a) then b else a) ?z ys"
  have r: "jle (f ?z) (f ?r)" using ih by blast
  have "jle (f x) (f ?r)" "jle (f y) (f ?r)" using z r jle_trans by blast+
  with ih show ?case by (auto split: if_splits)
qed

lemma best_by_max:
  "best_by f pool = Some x \<Longrightarrow> \<forall>y\<in>set pool. f y \<noteq> NaN \<Longrightarrow>
     x \<in> set pool \<and> (\<forall>y\<in>set pool. jle (f y) (f x))"
  using foldl_best [of "hd pool" "tl pool" f] by (cases pool) (auto simp: best_by_def)

lemma best_by_None: "best_by f pool = None \<longleftrightarrow> pool = []"
  by (cases pool) (simp_all add: best_by_def)

section \<open>Reputation\<close>

lemma clamp_unit:
  "v \<noteq> NaN \<Longrightarrow> \<exists>r. clamp_between v j0 j1 = Fin r \<and> 0 \<le> r \<and> r \<le> 1"
  by (cases v) (auto simp: clamp_between_def jmax_def jmin_def)

lemma jmul_unit_bound:
  assumes "0 \<le> r" "r \<le> of_int a" "0 \<le> b" "\<bar>a * b\<bar> \<le> 2 ^ 53"
  shows "\<exists>s. jmul (Fin r) (Fin (of_int b)) = Fin s \<and> 0 \<le> s \<and> s \<le> of_int (a * b)"
proof -
  have "jle (mk_num (r * of_int b)) (mk_num (of_int (a * b)))"
    using assms by (intro mk_num_mono) (simp add: mult_right_mono)
  moreover have "jle j0 (mk_num (r * of_int b))" using assms by (intro mk_num_nonneg) simp
  ultimately show ?thesis
    unfolding mk_num_of_int [OF assms(4)] by (cases "mk_num (r * of_int b)") auto
qed

lemma weights:
  "\<exists>q. js (1 / 2) = Fin q \<and> 0 \<le> q" "\<exists>q. js (3 / 10) = Fin q \<and> 0 \<le> q" "\<exists>q. js (2 / 10) = Fin q \<and> 0 \<le> q"
proof -
  have "case js (1 / 2) of Fin q \<Rightarrow> 0 \<le> q | _ \<Rightarrow> False" "case js (3 / 10) of Fin q \<Rightarrow> 0 \<le> q | _ \<Rightarrow> False"
    "case js (2 / 10) of Fin q \<Rightarrow> 0 \<le> q | _ \<Rightarrow> False" by code_simp+
  then show "\<exists>q. js (1 / 2) = Fin q \<and> 0 \<le> q" "\<exists>q. js (3 / 10) = Fin q \<and> 0 \<le> q"
    "\<exists>q. js (2 / 10) = Fin q \<and> 0 \<le> q" by (simp_all split: jsnum.splits)
qed

lemma jadd_nonneg: "jle j0 x \<Longrightarrow> jle j0 y \<Longrightarrow> jle j0 (jadd x y)"
  by (cases x; cases y) (auto simp: mk_num_nonneg)

lemma percent_of_unit:
  assumes "0 \<le> r" "r \<le> 1"
  shows "\<exists>q. jdiv (jround (jmul (jmul (Fin r) (Fin 100)) (Fin 10))) (Fin 10) = Fin q \<and> 0 \<le> q \<and> q \<le> 100"
proof -
  obtain s where s: "jmul (Fin r) (Fin 100) = Fin s" "0 \<le> s" "s \<le> 100"
    using jmul_unit_bound [of r 1 100] assms by auto
  obtain u where u: "jmul (Fin s) (Fin 10) = Fin u" "0 \<le> u" "u \<le> 1000"
    using jmul_unit_bound [of s 100 10] s by auto
  define k where "k = \<lfloor>u + 1 / 2\<rfloor>"
  have k: "0 \<le> k" "k \<le> 1000" using u unfolding k_def by linarith+
  have "jle (mk_num (of_int k / 10)) (mk_num (of_int 100))" using k by (intro mk_num_mono) simp
  moreover have "jle j0 (mk_num (of_int k / 10))" using k by (intro mk_num_nonneg) simp
  moreover have "jdiv (jround (Fin u)) (Fin 10) = mk_num (of_int k / 10)" by (simp add: k_def)
  ultimately show ?thesis
    unfolding s(1) u(1) mk_num_of_int [of 100, simplified]
    by (cases "mk_num (of_int k / 10)") (auto simp: mk_num_of_int [of 100, simplified])
qed

text \<open>A plugin's reputation is a percentage. For averages that are numbers, however extreme, the
  score is a finite number between 0 and 100.\<close>

theorem reputation_in_range:
  assumes "rp_avg_sharpe s \<noteq> NaN" "rp_avg_return_pct s \<noteq> NaN" "rp_worst_dd_pct s \<noteq> NaN"
  shows "\<exists>r. reputation_score s = Fin r \<and> 0 \<le> r \<and> r \<le> 100"
proof -
  let ?part = "\<lambda>c v. jmul (js c) (clamp_between v j0 j1)"
  have part: "jle j0 (?part c v)" if v: "v \<noteq> NaN" and c: "\<exists>q. js c = Fin q \<and> 0 \<le> q" for c v
  proof -
    obtain r q where "clamp_between v j0 j1 = Fin r" "0 \<le> r" "js c = Fin q" "0 \<le> q"
      using clamp_unit [OF v] c by blast
    then show ?thesis using mk_num_nonneg [of "q * r"] by simp
  qed
  have "jdiv (rp_avg_sharpe s) (Fin 2) \<noteq> NaN" "jdiv (rp_avg_return_pct s) (Fin 50) \<noteq> NaN"
    "jdiv (rp_worst_dd_pct s) (Fin 50) \<noteq> NaN"
    using assms by (cases "rp_avg_sharpe s"; cases "rp_avg_return_pct s"; cases "rp_worst_dd_pct s"; simp)+
  moreover from this(3) have "jsub j1 (jdiv (rp_worst_dd_pct s) (Fin 50)) \<noteq> NaN"
    by (cases "jdiv (rp_worst_dd_pct s) (Fin 50)") (simp_all add: jsub_def)
  ultimately have "jle j0 (jadd (jadd (?part (1 / 2) (jdiv (rp_avg_sharpe s) (Fin 2)))
      (?part (3 / 10) (jdiv (rp_avg_return_pct s) (Fin 50))))
      (?part (2 / 10) (jsub j1 (jdiv (rp_worst_dd_pct s) (Fin 50)))))"
    by (intro jadd_nonneg part weights)
  then obtain r where "clamp_between (jadd (jadd (?part (1 / 2) (jdiv (rp_avg_sharpe s) (Fin 2)))
      (?part (3 / 10) (jdiv (rp_avg_return_pct s) (Fin 50))))
      (?part (2 / 10) (jsub j1 (jdiv (rp_worst_dd_pct s) (Fin 50))))) j0 j1 = Fin r" "0 \<le> r" "r \<le> 1"
    using clamp_unit jle_not_NaN by blast
  then show ?thesis using percent_of_unit by (simp add: reputation_score_def Let_def)
qed

text \<open>The winners of the comparison are gate-ready and best. While no return is NaN, the portfolio
  named as winner by return is a ready one whose return no ready portfolio exceeds, and likewise
  by risk-adjusted return; without a ready portfolio both names are empty. No portfolio is left
  out of the table.\<close>

theorem winners_are_ready_and_best:
  assumes "\<forall>r\<in>set stats. cr_return_pct r \<noteq> NaN \<and> cr_risk_adj r \<noteq> NaN" "\<exists>r\<in>set stats. cr_ready r"
  shows "pc_portfolios (compare_rows stats) = stats \<and>
    (\<exists>r\<in>set stats. cr_ready r \<and> pc_winner_by_return (compare_rows stats) = cr_name r \<and>
       (\<forall>q\<in>set stats. cr_ready q \<longrightarrow> jle (cr_return_pct q) (cr_return_pct r))) \<and>
    (\<exists>r\<in>set stats. cr_ready r \<and> pc_winner_by_risk_adj (compare_rows stats) = cr_name r \<and>
       (\<forall>q\<in>set stats. cr_ready q \<longrightarrow> jle (cr_risk_adj q) (cr_risk_adj r)))"
proof -
  let ?pool = "filter cr_ready stats"
  have winner: "\<exists>r\<in>set stats. cr_ready r \<and> name_or_empty (best_by f ?pool) = cr_name r \<and>
      (\<forall>q\<in>set stats. cr_ready q \<longrightarrow> jle (f q) (f r))"
    if nan: "\<forall>r\<in>set stats. f r \<noteq> NaN" for f
  proof -
    have "best_by f ?pool \<noteq> None" using assms(2) by (auto simp: best_by_None filter_empty_conv)
    then obtain x where x: "best_by f ?pool = Some x" by auto
    with nan have "x \<in> set ?pool \<and> (\<forall>y\<in>set ?pool. jle (f y) (f x))" by (intro best_by_max) auto
    with x show ?thesis by (auto simp: name_or_empty_def)
  qed
  show ?thesis using winner [of cr_return_pct] winner [of cr_risk_adj] assms(1)
    by (simp add: compare_rows_def Let_def)
qed

end
