(* ===== verification/PretestFloor.thy ===== *)
theory PretestFloor
  imports PretestFacts "HOL-Library.Sublist"
begin

text \<open>
  The kernel risk floor of a pretest cycle: exits and holds pass, an entry passes only when the
  shared entry gate does, and the new symbols of one cycle never exceed the ceiling on open
  positions, although every entry is judged before any is filled.
\<close>

section \<open>Entries\<close>

definition entry_symbol :: "tool_call \<Rightarrow> string option" where
  "entry_symbol tc =
     (if action_arg tc = Inr (Some ''long'') \<or> action_arg tc = Inr (Some ''short'')
      then symbol_arg tc else None)"

definition new_symbols :: "pt_state \<Rightarrow> tool_call list \<Rightarrow> string set" where
  "new_symbols st tcs = {s. \<exists>tc\<in>set tcs. entry_symbol tc = Some s} - vp_symbol ` set (vs_positions st)"

definition same_book :: "pt_state \<Rightarrow> pt_state \<Rightarrow> bool" where
  "same_book st st' \<longleftrightarrow> vs_positions st' = vs_positions st \<and> vs_cash st' = vs_cash st \<and>
     vs_trades st' = vs_trades st"

lemma same_book_absorb [simp]: "same_book st (absorb_gate a st)"
  by (simp add: same_book_def absorb_gate_def)

lemma same_book_trans: "same_book a b \<Longrightarrow> same_book b c \<Longrightarrow> same_book a c"
  by (simp add: same_book_def)

lemma governed_account_simps [simp]:
  "ac_positions (governed_account st) = map governed_position (vs_positions st)"
  "ac_cash (governed_account st) = vs_cash st"
  by (simp_all add: governed_account_def)

text \<open>
  The verdict on an entry in one symbol, after the calls kept before it: the shared gate passed, and
  the symbol is open or entered already, or there is room for one more.
\<close>

definition gate_admits :: "risk_policy \<Rightarrow> pt_state \<Rightarrow> tool_call list \<Rightarrow> string \<Rightarrow> gate_result \<Rightarrow> bool" where
  "gate_admits pol st kept s g \<longleftrightarrow>
     gr_pass g \<and>
     (s \<in> vp_symbol ` set (vs_positions st) \<or> s \<in> new_symbols st kept \<or>
      \<not> jge (of_count (int (length (vs_positions st) + card (new_symbols st kept)))) (rk_max_open_positions pol))"

section \<open>One tool call\<close>

definition room :: "risk_policy \<Rightarrow> pt_state \<Rightarrow> string list \<Rightarrow> bool" where
  "room pol st reserved \<longleftrightarrow>
     \<not> jge (of_count (int (length (vs_positions st) + length reserved))) (rk_max_open_positions pol)"

lemma judge_entry_result:
  assumes "fst (judge_entry i name pol s a st reserved w) = Inr (ok, st', reserved')"
  obtains g where "fst (evaluateEntryGate (governed_account st) pol (pt_base w)) = Inr g"
    "st' = absorb_gate (gr_state g) st"
    "ok \<longleftrightarrow> gr_pass g \<and> (is_held s st reserved \<or> room pol st reserved)"
    "reserved' = (if ok \<and> \<not> is_held s st reserved then s # reserved else reserved)"
proof -
  let ?gate = "base (evaluateEntryGate (governed_account st) pol)"
  obtain g where g: "fst (?gate w) = Inr g"
    using assms by (auto simp: judge_entry_def await_run split: sum.splits)
  then have e: "fst (evaluateEntryGate (governed_account st) pol (pt_base w)) = Inr g"
    by (simp add: base_def split_beta)
  have pos: "vs_positions (absorb_gate (gr_state g) st) = vs_positions st" by (simp add: absorb_gate_def)
  have "st' = absorb_gate (gr_state g) st \<and>
      (ok \<longleftrightarrow> gr_pass g \<and> (is_held s st reserved \<or> room pol st reserved)) \<and>
      reserved' = (if ok \<and> \<not> is_held s st reserved then s # reserved else reserved)"
    using assms(1) g pos
    by (auto simp: judge_entry_def await_run Let_def ret_def is_held_def room_def split: sum.splits if_splits)
  with e that show thesis by blast
qed

lemma judge_call_pass:
  assumes "fst (judge_call i name pol tc st reserved w) = Inr (ok, st', reserved')" "entry_symbol tc = None"
  shows "ok \<and> st' = st \<and> reserved' = reserved"
  using assms
  by (auto simp: judge_call_def await_run lift_result_def ret_def entry_symbol_def
      split: option.splits if_splits sum.splits)

lemma judge_call_entry:
  assumes "fst (judge_call i name pol tc st reserved w) = Inr (ok, st', reserved')" "entry_symbol tc = Some s"
  obtains g where "fst (evaluateEntryGate (governed_account st) pol (pt_base w)) = Inr g"
    "st' = absorb_gate (gr_state g) st"
    "ok \<longleftrightarrow> gr_pass g \<and> (is_held s st reserved \<or> room pol st reserved)"
    "reserved' = (if ok \<and> \<not> is_held s st reserved then s # reserved else reserved)"
proof -
  obtain a where a: "action_arg tc = Inr a"
    using assms by (auto simp: judge_call_def await_run lift_result_def split: sum.splits)
  with assms(2) have "judge_call i name pol tc st reserved w = judge_entry i name pol s (the a) st reserved w"
    by (auto simp: judge_call_def await_run lift_result_def entry_symbol_def split: if_splits)
  with assms(1) have "fst (judge_entry i name pol s (the a) st reserved w) = Inr (ok, st', reserved')" by simp
  from judge_entry_result [OF this] that show thesis by blast
qed

lemma judge_call_result:
  assumes "fst (judge_call i name pol tc st reserved w) = Inr (ok, st', reserved')"
  shows "(entry_symbol tc = None \<and> ok \<and> st' = st \<and> reserved' = reserved) \<or>
    (\<exists>s. entry_symbol tc = Some s \<and> same_book st st' \<and>
      (reserved' = reserved \<and> (ok \<longrightarrow> is_held s st reserved) \<or>
       ok \<and> reserved' = s # reserved \<and> \<not> is_held s st reserved \<and> room pol st reserved))"
proof (cases "entry_symbol tc")
  case None
  then show ?thesis using judge_call_pass [OF assms] by blast
next
  case (Some s)
  obtain g where "fst (evaluateEntryGate (governed_account st) pol (pt_base w)) = Inr g"
    "st' = absorb_gate (gr_state g) st"
    "ok \<longleftrightarrow> gr_pass g \<and> (is_held s st reserved \<or> room pol st reserved)"
    "reserved' = (if ok \<and> \<not> is_held s st reserved then s # reserved else reserved)"
    by (rule judge_call_entry [OF assms Some])
  then show ?thesis using Some by auto
qed

lemma risk_floor_step:
  assumes "fst (risk_floor i name pol (tc # tcs) st reserved w) = Inr (allowed, st')"
  obtains ok st1 reserved1 al where
    "fst (judge_call i name pol tc st reserved w) = Inr (ok, st1, reserved1)"
    "fst (risk_floor i name pol tcs st1 reserved1 (snd (judge_call i name pol tc st reserved w))) = Inr (al, st')"
    "allowed = (if ok then tc # al else al)"
proof -
  obtain ok st1 res1 where j: "fst (judge_call i name pol tc st reserved w) = Inr (ok, st1, res1)"
    using assms by (auto simp: await_run split: sum.splits)
  with assms obtain al where "fst (risk_floor i name pol tcs st1 res1
      (snd (judge_call i name pol tc st reserved w))) = Inr (al, st')" "allowed = (if ok then tc # al else al)"
    by (auto simp: await_run ret_def split: sum.splits)
  then show thesis using that [OF j] by blast
qed

section \<open>A whole cycle\<close>

definition passes :: "tool_call list \<Rightarrow> tool_call list" where
  "passes tcs = filter (\<lambda>tc. entry_symbol tc = None) tcs"

text \<open>
  What has been allowed, relative to the symbols reserved before: \<open>m\<close> is the ceiling.
\<close>

definition within_ceiling :: "int \<Rightarrow> pt_state \<Rightarrow> string list \<Rightarrow> tool_call list \<Rightarrow> bool" where
  "within_ceiling m st reserved allowed \<longleftrightarrow>
     (let new = (new_symbols st allowed \<union> set reserved) - vp_symbol ` set (vs_positions st)
      in new_symbols st allowed - set reserved \<noteq> {} \<longrightarrow> int (length (vs_positions st)) + int (card new) \<le> m)"

lemma finite_new_symbols [simp]: "finite (new_symbols st tcs)"
proof -
  have "new_symbols st tcs \<subseteq> (\<lambda>tc. the (entry_symbol tc)) ` set tcs"
    by (force simp: new_symbols_def)
  then show ?thesis by (rule finite_subset) simp
qed

lemma new_symbols_Cons:
  "new_symbols st (tc # tcs) = new_symbols st tcs \<union>
     (case entry_symbol tc of None \<Rightarrow> {} | Some s \<Rightarrow> {s} - vp_symbol ` set (vs_positions st))"
  by (auto simp: new_symbols_def split: option.splits)

lemma new_symbols_same_book: "same_book st st' \<Longrightarrow> new_symbols st' tcs = new_symbols st tcs"
  by (simp add: new_symbols_def same_book_def)

lemma below_ceiling:
  assumes "\<not> jge (of_count (int n)) (Fin (of_int m))" "n \<le> 2 ^ 53"
  shows "int n + 1 \<le> m"
  using assms by (simp add: of_count_exact)

lemma within_held:
  assumes "within_ceiling m st reserved al" "entry_symbol tc = None \<or> (\<exists>s. entry_symbol tc = Some s \<and> is_held s st reserved)"
  shows "within_ceiling m st reserved (tc # al)"
  using assms unfolding within_ceiling_def Let_def
  by (auto simp: new_symbols_Cons is_held_def insert_absorb Un_insert_left insert_Diff_if split: if_splits)

lemma within_opened:
  assumes w: "within_ceiling m st (s # reserved) al" and s: "entry_symbol tc = Some s" "\<not> is_held s st reserved"
    and n: "int (length (vs_positions st) + length reserved) + 1 \<le> m"
  shows "within_ceiling m st reserved (tc # al)"
proof -
  let ?pos = "vp_symbol ` set (vs_positions st)"
  have new: "(new_symbols st (tc # al) \<union> set reserved) - ?pos = (new_symbols st al \<union> set (s # reserved)) - ?pos"
    using s by (auto simp: new_symbols_Cons is_held_def)
  show ?thesis
  proof (cases "new_symbols st al - set (s # reserved) = {}")
    case True
    then have "(new_symbols st al \<union> set (s # reserved)) - ?pos \<subseteq> set (s # reserved)" by auto
    then have "card ((new_symbols st al \<union> set (s # reserved)) - ?pos) \<le> card (set (s # reserved))"
      by (intro card_mono) auto
    also have "\<dots> \<le> length (s # reserved)" by (rule card_length)
    finally show ?thesis using n unfolding within_ceiling_def new Let_def by simp
  next
    case False
    with w show ?thesis unfolding within_ceiling_def new Let_def by simp
  qed
qed

lemma risk_floor_result:
  assumes "fst (risk_floor i name pol tcs st reserved w) = Inr (allowed, st')"
    and "rk_max_open_positions pol = Fin (of_int m)"
    and "length (vs_positions st) + length reserved + length tcs \<le> 2 ^ 53"
  shows "passes allowed = passes tcs \<and> subseq allowed tcs \<and> same_book st st' \<and>
    within_ceiling m st reserved allowed"
  using assms(1,3)
proof (induction tcs arbitrary: st reserved w allowed)
  case Nil
  then show ?case
    by (auto simp: ret_def passes_def same_book_def within_ceiling_def new_symbols_def)
next
  case (Cons tc tcs)
  obtain ok st1 res1 al where j: "fst (judge_call i name pol tc st reserved w) = Inr (ok, st1, res1)"
    and r: "fst (risk_floor i name pol tcs st1 res1 (snd (judge_call i name pol tc st reserved w))) = Inr (al, st')"
    and a: "allowed = (if ok then tc # al else al)"
    using risk_floor_step [OF Cons.prems(1)] by metis
  note j' = judge_call_result [OF j]
  have book: "same_book st st1" using j' by (auto simp: same_book_def)
  then have pos: "vs_positions st1 = vs_positions st" by (simp add: same_book_def)
  have len: "length (vs_positions st1) + length res1 + length tcs \<le> 2 ^ 53"
    using j' Cons.prems(2) pos by auto
  note ih = Cons.IH [OF r len]
  have keep: "within_ceiling m st1 res1 al" using ih by blast
  then have keep: "within_ceiling m st res1 al"
    using pos by (simp add: within_ceiling_def new_symbols_def)
  have "within_ceiling m st reserved allowed"
  proof (cases "res1 = reserved")
    case True
    then show ?thesis using keep j' a within_held by (cases ok) auto
  next
    case False
    then obtain s where s: "ok" "entry_symbol tc = Some s" "res1 = s # reserved" "\<not> is_held s st reserved"
      "\<not> jge (of_count (int (length (vs_positions st) + length reserved))) (Fin (of_int m))"
      using j' assms(2) by (auto simp: room_def)
    have "int (length (vs_positions st) + length reserved) + 1 \<le> m"
      using s(5) by (rule below_ceiling) (use Cons.prems(2) in simp)
    then show ?thesis using within_opened [OF _ s(2,4)] keep s a by simp
  qed
  moreover have "passes allowed = passes (tc # tcs)" "subseq allowed (tc # tcs)"
    using ih j' a by (auto simp: passes_def)
  ultimately show ?case using ih same_book_trans [OF book] by blast
qed

text \<open>The floor up to a call, and what it has reserved by then: the new symbols kept so far.\<close>

definition reserves :: "pt_state \<Rightarrow> tool_call list \<Rightarrow> string list \<Rightarrow> string list \<Rightarrow> bool" where
  "reserves st kept before after \<longleftrightarrow> set after = set before \<union> new_symbols st kept \<and>
     (distinct before \<longrightarrow> distinct after)"

lemma risk_floor_append:
  assumes "fst (risk_floor i name pol (pre @ tcs) st reserved w) = Inr (allowed, st')"
  obtains kept st1 u reserved1 rest where
    "risk_floor i name pol pre st reserved w = (Inr (kept, st1), u)"
    "fst (risk_floor i name pol tcs st1 reserved1 u) = Inr (rest, st')"
    "allowed = kept @ rest" "same_book st st1" "reserves st kept reserved reserved1"
    "risk_floor i name pol (pre @ ys) st reserved w =
       (map_sum id (\<lambda>(al, st'). (kept @ al, st')) (fst (risk_floor i name pol ys st1 reserved1 u)),
        snd (risk_floor i name pol ys st1 reserved1 u))"
proof -
  have "\<exists>kept st1 u reserved1 rest.
    risk_floor i name pol pre st reserved w = (Inr (kept, st1), u) \<and>
    fst (risk_floor i name pol tcs st1 reserved1 u) = Inr (rest, st') \<and>
    allowed = kept @ rest \<and> same_book st st1 \<and> reserves st kept reserved reserved1 \<and>
    risk_floor i name pol (pre @ ys) st reserved w =
       (map_sum id (\<lambda>(al, st'). (kept @ al, st')) (fst (risk_floor i name pol ys st1 reserved1 u)),
        snd (risk_floor i name pol ys st1 reserved1 u))"
    using assms
  proof (induction pre arbitrary: st reserved w allowed)
    case Nil
    have "map_sum id (\<lambda>(al, st'). ([] @ al, st')) r = (r :: exn + tool_call list \<times> pt_state)" for r
      by (cases r) auto
    then show ?case
      by (intro exI [of _ "[]"] exI [of _ st] exI [of _ w] exI [of _ reserved] exI [of _ allowed])
        (use Nil in \<open>simp only: risk_floor.simps ret_def append_Nil, simp add: same_book_def reserves_def new_symbols_def\<close>)
  next
    case (Cons tc pre)
    let ?v = "snd (judge_call i name pol tc st reserved w)"
    obtain ok st0 res0 al where j: "fst (judge_call i name pol tc st reserved w) = Inr (ok, st0, res0)"
      and r: "fst (risk_floor i name pol (pre @ tcs) st0 res0 ?v) = Inr (al, st')"
      and a: "allowed = (if ok then tc # al else al)"
      by (rule risk_floor_step [OF Cons.prems [unfolded append_Cons]])
    obtain kept st1 u res1 rest where ih: "risk_floor i name pol pre st0 res0 ?v = (Inr (kept, st1), u)"
      "fst (risk_floor i name pol tcs st1 res1 u) = Inr (rest, st')" "al = kept @ rest" "same_book st0 st1"
      "reserves st0 kept res0 res1"
      "risk_floor i name pol (pre @ ys) st0 res0 ?v =
         (map_sum id (\<lambda>(al, st'). (kept @ al, st')) (fst (risk_floor i name pol ys st1 res1 u)),
          snd (risk_floor i name pol ys st1 res1 u))"
      using Cons.IH [OF r] by blast
    note j' = judge_call_result [OF j]
    have book: "same_book st st0" using j' by (auto simp: same_book_def)
    let ?kept = "if ok then tc # kept else kept"
    have "reserves st ?kept reserved res1"
      using ih(5) j' new_symbols_same_book [OF book]
      by (auto simp: reserves_def new_symbols_Cons is_held_def)
    moreover have "risk_floor i name pol (tc # pre) st reserved w = (Inr (?kept, st1), u)"
      using j ih(1) by (auto simp: await_run ret_def)
    moreover have "risk_floor i name pol ((tc # pre) @ ys) st reserved w =
         (map_sum id (\<lambda>(al, st'). (?kept @ al, st')) (fst (risk_floor i name pol ys st1 res1 u)),
          snd (risk_floor i name pol ys st1 res1 u))"
      using j ih(6)
      by (cases "fst (risk_floor i name pol ys st1 res1 u)") (auto simp: await_run ret_def)
    ultimately show ?case using ih a same_book_trans [OF book] by (intro exI conjI) (auto simp: id_def)
  qed
  with that show thesis by blast
qed

lemma floor_subseq: "fst (risk_floor i name pol tcs st reserved w) = Inr (al, st') \<Longrightarrow> subseq al tcs"
proof (induction tcs arbitrary: st reserved w al)
  case (Cons tc tcs)
  show ?case by (rule risk_floor_step [OF Cons.prems]) (auto dest: Cons.IH)
qed (simp add: ret_def)

text \<open>The verdict on one call among others.\<close>

lemma reserved_admits:
  assumes "reserves st kept [] reserved" "same_book st st1"
  shows "gr_pass g \<and> (is_held s st1 reserved \<or> room pol st1 reserved) \<longleftrightarrow> gate_admits pol st1 kept s g"
proof -
  have n: "set reserved = new_symbols st1 kept" "distinct reserved"
    using assms by (simp_all add: reserves_def new_symbols_same_book)
  have "card (new_symbols st1 kept) = length reserved" using n by (metis distinct_card)
  then show ?thesis using n by (auto simp: gate_admits_def is_held_def room_def)
qed

lemma floor_verdict:
  assumes "fst (risk_floor i name pol (pre @ tc # post) st [] w) = Inr (allowed, st')"
  shows "\<exists>kept st1 u rest. risk_floor i name pol pre st [] w = (Inr (kept, st1), u) \<and> subseq rest post \<and>
    (case entry_symbol tc of
       None \<Rightarrow> allowed = kept @ tc # rest \<and> fst (risk_floor i name pol (pre @ [tc]) st [] w) = Inr (kept @ [tc], st1)
     | Some s \<Rightarrow> (\<exists>g. fst (evaluateEntryGate (governed_account st1) pol (pt_base u)) = Inr g \<and>
         allowed = kept @ (if gate_admits pol st1 kept s g then [tc] else []) @ rest \<and>
         fst (risk_floor i name pol (pre @ [tc]) st [] w) =
           Inr (kept @ (if gate_admits pol st1 kept s g then [tc] else []), absorb_gate (gr_state g) st1)))"
proof -
  obtain kept st1 u res1 rest where p: "risk_floor i name pol pre st [] w = (Inr (kept, st1), u)"
    and r: "fst (risk_floor i name pol (tc # post) st1 res1 u) = Inr (rest, st')"
    and a: "allowed = kept @ rest" "same_book st st1" "reserves st kept [] res1"
    and one: "risk_floor i name pol (pre @ [tc]) st [] w =
       (map_sum id (\<lambda>(al, st'). (kept @ al, st')) (fst (risk_floor i name pol [tc] st1 res1 u)),
        snd (risk_floor i name pol [tc] st1 res1 u))"
    by (rule risk_floor_append [OF assms, of "[tc]"])
  obtain ok st2 res2 al where j: "fst (judge_call i name pol tc st1 res1 u) = Inr (ok, st2, res2)"
    and al: "rest = (if ok then tc # al else al)"
    and after: "fst (risk_floor i name pol post st2 res2 (snd (judge_call i name pol tc st1 res1 u))) = Inr (al, st')"
    using risk_floor_step [OF r] by metis
  note sub = floor_subseq [OF after]
  have last: "fst (risk_floor i name pol (pre @ [tc]) st [] w) = Inr (kept @ (if ok then [tc] else []), st2)"
    using one j by (simp add: await_run ret_def)
  show ?thesis
  proof (cases "entry_symbol tc")
    case None
    then show ?thesis using judge_call_pass [OF j] p a(1) al last sub by auto
  next
    case (Some s)
    obtain g where g: "fst (evaluateEntryGate (governed_account st1) pol (pt_base u)) = Inr g"
      "st2 = absorb_gate (gr_state g) st1" "ok \<longleftrightarrow> gr_pass g \<and> (is_held s st1 res1 \<or> room pol st1 res1)"
      "res2 = (if ok \<and> \<not> is_held s st1 res1 then s # res1 else res1)"
      by (rule judge_call_entry [OF j Some])
    then have ok: "ok \<longleftrightarrow> gate_admits pol st1 kept s g" using reserved_admits [OF a(3,2)] by simp
    show ?thesis
      by (intro exI [of _ kept] exI [of _ st1] exI [of _ u] exI [of _ al])
        (use p Some g a(1) al last ok sub in auto)
  qed
qed

lemma kvNum_jround: "\<exists>m. jround (kvNum v (Fin d)) = Fin (of_int m)"
  using kvNum_finite [of "Fin d" v] by (cases "kvNum v (Fin d)") auto

lemma max_open_integer: "\<exists>m. rk_max_open_positions (risk_policy_from raw) = Fin (of_int m) \<and> 1 \<le> m"
proof -
  obtain m where m: "jround (kvNum (raw ''execution.max_open_positions'') (Fin 10)) = Fin (of_int m)"
    using kvNum_jround by blast
  show ?thesis
  proof (cases "m < 1")
    case True
    then have "rk_max_open_positions (risk_policy_from raw) = Fin (of_int 1)"
      by (simp add: risk_policy_from_def m Let_def)
    then show ?thesis by blast
  next
    case False
    then have "rk_max_open_positions (risk_policy_from raw) = Fin (of_int m)"
      by (simp add: risk_policy_from_def m Let_def)
    with False show ?thesis by auto
  qed
qed

lemma readRiskPolicy_result:
  assumes "fst (readRiskPolicy w) = Inr pol"
  shows "pol = risk_policy_from (w_config w)"
proof -
  obtain raw where raw: "fst (kv_get_all RISK_KEYS w) = Inr raw" and pol: "pol = risk_policy_from raw"
    using assms by (auto simp: readRiskPolicy_def await_run ret_def split: sum.splits)
  have "raw = (\<lambda>k. if k \<in> set RISK_KEYS then w_config w k else None)"
    using raw by (rule kv_get_all_result)
  then show ?thesis by (simp add: pol risk_policy_from_def RISK_KEYS_def)
qed

text \<open>C31: The risk floor judges every entry and bounds the cycle. Take any call of a turn, with the calls
  before it: an exit, a hold or an unknown call is kept. An entry is kept exactly when the shared
  entry gate, evaluated under the stored risk policy on the account as the earlier judgements of this
  cycle left it (its equity, high-water mark and period baselines), at the time and with the
  quotes after them, passes, and its symbol is open or newly entered already or the open positions
  with the new symbols kept before stay below the maximum; whatever the verdict, the next call is
  judged on the account the gate returned. Over the whole turn the kept calls are in order, positions,
  cash and trades are not touched, and open positions with the new symbols never exceed the maximum.\<close>

theorem risk_floor_judges_every_entry:
  assumes "fst (applyKernelRiskFloor i name (pre @ tc # post) st w) = Inr (allowed, st')"
    and "length (vs_positions st) + length (pre @ tc # post) \<le> 2 ^ 53"
  shows "let pol = risk_policy_from (w_config (pt_base w)); w0 = snd (base readRiskPolicy w) in
    (\<exists>kept st1 u rest. risk_floor i name pol pre st [] w0 = (Inr (kept, st1), u) \<and> subseq rest post \<and>
      (case entry_symbol tc of
         None \<Rightarrow> allowed = kept @ tc # rest \<and>
           fst (risk_floor i name pol (pre @ [tc]) st [] w0) = Inr (kept @ [tc], st1)
       | Some s \<Rightarrow> (\<exists>g. fst (evaluateEntryGate (governed_account st1) pol (pt_base u)) = Inr g \<and>
           allowed = kept @ (if gate_admits pol st1 kept s g then [tc] else []) @ rest \<and>
           fst (risk_floor i name pol (pre @ [tc]) st [] w0) =
             Inr (kept @ (if gate_admits pol st1 kept s g then [tc] else []), absorb_gate (gr_state g) st1)))) \<and>
    passes allowed = passes (pre @ tc # post) \<and> subseq allowed (pre @ tc # post) \<and> same_book st st' \<and>
    (new_symbols st allowed \<noteq> {} \<longrightarrow>
       jle (Fin (of_nat (length (vs_positions st) + card (new_symbols st allowed)))) (rk_max_open_positions pol))"
proof -
  let ?pol = "risk_policy_from (w_config (pt_base w))" and ?tcs = "pre @ tc # post"
  obtain pol where pol: "fst (base readRiskPolicy w) = Inr pol"
    and r: "fst (risk_floor i name pol ?tcs st [] (snd (base readRiskPolicy w))) = Inr (allowed, st')"
    using assms(1) by (auto simp: applyKernelRiskFloor_def await_run split: sum.splits)
  have p: "pol = ?pol" using pol by (simp add: base_run readRiskPolicy_result)
  obtain m where m: "rk_max_open_positions ?pol = Fin (of_int m)" using max_open_integer by blast
  have "length (vs_positions st) + length ([] :: string list) + length ?tcs \<le> 2 ^ 53" using assms(2) by simp
  note b = risk_floor_result [OF r [unfolded p] m this]
  have "new_symbols st allowed - vp_symbol ` set (vs_positions st) = new_symbols st allowed"
    by (auto simp: new_symbols_def)
  then have "new_symbols st allowed \<noteq> {} \<longrightarrow>
      int (length (vs_positions st)) + int (card (new_symbols st allowed)) \<le> m"
    using b by (simp add: within_ceiling_def Let_def)
  then have "new_symbols st allowed \<noteq> {} \<longrightarrow>
      jle (Fin (of_nat (length (vs_positions st) + card (new_symbols st allowed)))) (Fin (of_int m))"
    by (metis jle.simps(1) of_int_le_iff of_int_of_nat_eq of_nat_add)
  then show ?thesis
    unfolding Let_def using floor_verdict [OF r [unfolded p]] b m by simp
qed

end
