(* ===== verification/PretestBooks.thy ===== *)
theory PretestBooks
  imports PretestFacts
begin

text \<open>
  The books of a pretest portfolio: its trades agree with the execution core's rebalance, its
  positions and counts stay consistent, what is stored is a finite state, and a cycle stores its
  result once or not at all.
\<close>

section \<open>The core's rebalance as a specification\<close>

text \<open>What the two engines share of a portfolio: the cash and the positions.\<close>

definition same_holdings :: "pt_state \<Rightarrow> account \<Rightarrow> bool" where
  "same_holdings st a \<longleftrightarrow>
     ac_cash a = vs_cash st \<and> ac_positions a = map governed_position (vs_positions st)"

text \<open>The trades one after another through the core; every element is the profit it realizes.\<close>

primrec core_trades :: "account \<Rightarrow> pt_trade list \<Rightarrow> jsnum \<Rightarrow> account \<times> jsnum option list" where
  "core_trades a [] commissionPct = (a, [])"
| "core_trades a (t # ts) commissionPct =
     (let (a1, pnl) = applyRebalanceTrade (if vt_action t = Buy then ''buy'' else ''sell'')
                        (vt_symbol t) (vt_quantity t) (vt_price t) a commissionPct;
          (a2, pnls) = core_trades a1 ts commissionPct
      in (a2, pnl # pnls))"

text \<open>A trade for the core's rebalance: a buy or a sale of something at a price.\<close>

definition rebalances :: "pt_trade \<Rightarrow> bool" where
  "rebalances t \<longleftrightarrow> (vt_action t = Buy \<or> vt_action t = Sell) \<and> jgt (vt_quantity t) j0 \<and>
     (vt_action t = Buy \<longrightarrow> jge (vt_quantity t) j1) \<and> \<not> jle (vt_price t) j0 \<and> vt_pnl t = None"

text \<open>No position in one of these symbols is short or empty.\<close>

definition long_in :: "string set \<Rightarrow> pt_state \<Rightarrow> bool" where
  "long_in S st \<longleftrightarrow> (\<forall>p\<in>set (vs_positions st). vp_symbol p \<in> S \<longrightarrow> \<not> jle (vp_quantity p) j0)"

lemma find_map: "find P (map f xs) = map_option f (find (P \<circ> f) xs)"
  by (induction xs) auto

lemma upd_first_map:
  "(\<And>x. Q (f x) = P x) \<Longrightarrow> (\<And>x. g (f x) = f (h x)) \<Longrightarrow> upd_first Q g (map f xs) = map f (upd_first P h xs)"
  by (induction xs) auto

lemma del_first_map: "(\<And>x. Q (f x) = P x) \<Longrightarrow> del_first Q (map f xs) = map f (del_first P xs)"
  by (induction xs) auto

lemma position_of_holdings:
  "same_holdings st a \<Longrightarrow> position_of s a = map_option governed_position (vposition_of s st)"
  by (simp add: same_holdings_def position_of_def vposition_of_def find_map o_def governed_position_def)

lemma holdings_revalue [simp]: "same_holdings st (revalue h p s a) = same_holdings st a"
  by (simp add: same_holdings_def revalue_def bump_hwm_def)

lemma grow_governed: "grow_long b q (governed_position p) = governed_position (add_long b q p)"
  by (simp add: grow_long_def add_long_def governed_position_def Let_def)

lemma governed_quantity:
  "(governed_position p)\<lparr>gp_quantity := q\<rparr> = governed_position (p\<lparr>vp_quantity := q\<rparr>)"
  "gp_symbol (governed_position p) = vp_symbol p" "gp_quantity (governed_position p) = vp_quantity p"
  "gp_avg_price (governed_position p) = vp_avg_price p"
  by (simp_all add: governed_position_def)

lemma buy_agrees:
  assumes "same_holdings st a" "applyBuy st t c = (st', t')"
    and "rebalance_buy (vt_symbol t) (vt_quantity t) (vt_price t) a c = (a', pnl)"
  shows "same_holdings st' a' \<and> t' = t \<and> pnl = None"
proof -
  have pos: "position_of (vt_symbol t) b = map_option governed_position (vposition_of (vt_symbol t) u)"
    if "same_holdings u b" for u b using that by (rule position_of_holdings)
  have cash: "ac_cash a = vs_cash st" using assms(1) by (simp add: same_holdings_def)
  let ?cost = "jadd (jmul (vt_price t) (vt_quantity t)) (jmul (jmul (vt_price t) (vt_quantity t)) c)"
  show ?thesis
  proof (cases "jgt ?cost (vs_cash st)")
    case True
    then show ?thesis using assms cash by (simp add: applyBuy_def rebalance_buy_def Let_def)
  next
    case False
    then show ?thesis
      using assms cash pos [OF assms(1)]
      by (cases "vposition_of (vt_symbol t) st")
        (auto simp: applyBuy_def rebalance_buy_def Let_def merge_position_def position_of_def
          vposition_of_def record_trade_def update_position_def open_position_def same_holdings_def
          governed_quantity grow_governed governed_position_def [of "\<lparr>vp_symbol = _, vp_quantity = _,
            vp_avg_price = _, vp_current_price = _, vp_unrealized_pnl = _\<rparr>"]
          intro!: upd_first_map)
  qed
qed

lemma sell_agrees:
  assumes "same_holdings st a" "long_in S st" "vt_symbol t \<in> S"
    and "applySell st t c = (st', t')" "vt_pnl t = None"
    and "rebalance_sell (vt_symbol t) (vt_quantity t) (vt_price t) a c = (a', pnl)"
  shows "same_holdings st' a' \<and> vt_pnl t' = pnl"
proof (cases "vposition_of (vt_symbol t) st")
  case None
  then show ?thesis using assms position_of_holdings [OF assms(1)]
    by (simp add: applySell_def rebalance_sell_def)
next
  case (Some pos)
  then have "pos \<in> set (vs_positions st)" "vp_symbol pos = vt_symbol t"
    by (auto simp: vposition_of_def find_Some_iff)
  with assms(2,3) have "\<not> jle (vp_quantity pos) j0" by (simp add: long_in_def)
  then show ?thesis
    using assms Some position_of_holdings [OF assms(1)]
    by (auto simp: applySell_def rebalance_sell_def Let_def realize_def record_trade_def
        settle_position_def same_holdings_def governed_quantity
        intro!: upd_first_map del_first_map split: if_splits)
qed

lemma jadd_positive: "\<not> jle a j0 \<Longrightarrow> jge b j1 \<Longrightarrow> \<not> jle (jadd a b) j0"
proof -
  assume a: "\<not> jle a j0" and b: "jge b j1"
  have one: "mk_num 1 = Fin 1" using mk_num_of_int [of 1] by simp
  show ?thesis
  proof (cases "\<exists>x y. a = Fin x \<and> b = Fin y")
    case True
    then obtain x y where xy: "a = Fin x" "b = Fin y" by blast
    with a b have "1 \<le> x + y" by simp
    then have "jle (Fin 1) (mk_num (x + y))" using mk_num_mono [of 1 "x + y"] one by simp
    then show ?thesis using xy by (cases "mk_num (x + y)") auto
  qed (use a b in \<open>cases a; cases b; auto\<close>)
qed

lemma long_in_buy:
  assumes "long_in S st" "jge (vt_quantity t) j1"
  shows "long_in S (fst (applyBuy st t c))"
proof -
  have new: "\<not> jle (vt_quantity t) j0" using assms(2) by (cases "vt_quantity t") auto
  have grown: "\<not> jle (vp_quantity (add_long b (vt_quantity t) p)) j0" if "\<not> jle (vp_quantity p) j0" for b p
    using that assms(2) by (simp add: add_long_def Let_def jadd_positive)
  have symb: "vp_symbol (add_long b q p) = vp_symbol p" for b q p by (simp add: add_long_def Let_def)
  show ?thesis
    using assms(1) new grown
    by (auto simp: applyBuy_def Let_def long_in_def record_trade_def update_position_def symb
        open_position_def split: option.splits dest!: subsetD [OF set_upd_first])
qed

lemma long_in_sell: "long_in S st \<Longrightarrow> long_in S (fst (applySell st t c))"
  by (auto simp: applySell_def Let_def long_in_def record_trade_def settle_position_def realize_def
      split: option.splits if_splits dest!: subsetD [OF set_upd_first] subsetD [OF set_del_first])

lemma trade_agrees:
  assumes "same_holdings st a" "long_in S st" "vt_symbol t \<in> S" "rebalances t"
    and "applyTrade c st t = (st', t')"
    and "applyRebalanceTrade (if vt_action t = Buy then ''buy'' else ''sell'') (vt_symbol t)
           (vt_quantity t) (vt_price t) a c = (a', pnl)"
  shows "same_holdings st' a' \<and> vt_pnl t' = pnl \<and> long_in S st'"
proof -
  have pos: "\<not> jle (vt_quantity t) j0" "\<not> jle (vt_price t) j0" "vt_pnl t = None"
    using assms(4) by (cases "vt_quantity t"; auto simp: rebalances_def)+
  consider "vt_action t = Buy" "jge (vt_quantity t) j1" | "vt_action t = Sell"
    using assms(4) by (auto simp: rebalances_def)
  then show ?thesis
  proof cases
    case 1
    then have "applyBuy st t c = (st', t')"
      "rebalance_buy (vt_symbol t) (vt_quantity t) (vt_price t) a c = (a', pnl)"
      using assms(5,6) pos by (simp_all add: applyTrade_def applyRebalanceTrade_def)
    with buy_agrees [OF assms(1) this] long_in_buy [OF assms(2) 1(2), of c] pos(3)
    show ?thesis by simp
  next
    case 2
    then have "applySell st t c = (st', t')"
      "rebalance_sell (vt_symbol t) (vt_quantity t) (vt_price t) a c = (a', pnl)"
      using assms(5,6) pos by (simp_all add: applyTrade_def applyRebalanceTrade_def)
    then show ?thesis
      using sell_agrees [OF assms(1-3) _ pos(3)] long_in_sell [OF assms(2), of t c] by simp
  qed
qed

lemma trades_agree:
  assumes "same_holdings st a" "long_in (vt_symbol ` set us) st" "set ts \<subseteq> set us"
    and "\<forall>t\<in>set ts. rebalances t"
  shows "same_holdings (fst (applyTrades st ts c)) (fst (core_trades a ts c)) \<and>
    map vt_pnl (snd (applyTrades st ts c)) = snd (core_trades a ts c)"
  using assms
proof (induction ts arbitrary: st a)
  case Nil
  then show ?case by simp
next
  case (Cons t ts)
  obtain st1 t1 a1 pnl where
    t: "applyTrade c st t = (st1, t1)"
      "applyRebalanceTrade (if vt_action t = Buy then ''buy'' else ''sell'') (vt_symbol t)
         (vt_quantity t) (vt_price t) a c = (a1, pnl)"
    by (metis surj_pair)
  have "vt_symbol t \<in> vt_symbol ` set us" "rebalances t" using Cons.prems(3,4) by auto
  note one = trade_agrees [OF Cons.prems(1,2) this t]
  have "set ts \<subseteq> set us" "\<forall>t\<in>set ts. rebalances t" using Cons.prems(3,4) by auto
  with one have "same_holdings (fst (applyTrades st1 ts c)) (fst (core_trades a1 ts c)) \<and>
      map vt_pnl (snd (applyTrades st1 ts c)) = snd (core_trades a1 ts c)"
    by (intro Cons.IH) auto
  with t one show ?case by (simp add: split_beta Let_def)
qed

section \<open>The trades of the volatility target\<close>

lemma oneRebalanceTrade_rebalances:
  assumes "oneRebalanceTrade p price delta ts = Some t"
  shows "rebalances t \<and> vt_symbol t = vp_symbol p"
proof -
  have whole: "jge (jfloor x) j1" if "jgt (jfloor x) j0" for x
    using that by (cases x) (auto simp: less_le_not_le)
  show ?thesis
    using assms
    by (auto simp: oneRebalanceTrade_def rebalances_def Let_def intro!: whole split: if_splits)
qed

lemma map_filter_option: "y \<in> set (List.map_filter f xs) \<longleftrightarrow> (\<exists>x\<in>set xs. f x = Some y)"
  by (induction xs) (auto split: option.splits)

lemma rebalance_trades_rebalance:
  "t \<in> set (rebalance_trades marks ps invested d ts) \<Longrightarrow> rebalances t \<and> vt_symbol t \<in> vp_symbol ` set ps"
  by (auto simp: rebalance_trades_def map_filter_option Let_def dest: oneRebalanceTrade_rebalances)

lemma built_trades:
  assumes "fst (buildVolTargetRebalanceTrades st x refs w) = Inr ts" "t \<in> set ts"
  shows "rebalances t \<and> vt_symbol t \<in> vp_symbol ` {p \<in> set (vs_positions st). jgt (vp_quantity p) j0}"
  using assms
  by (auto simp: buildVolTargetRebalanceTrades_def Let_def await_run ret_def
      dest!: rebalance_trades_rebalance split: if_splits sum.splits)

text \<open>C33: A pretest rebalances as the core does. Whatever trades the volatility target of a
  portfolio with one position per symbol calls for, the pretest engine's own buy and sell arms
  leave the cash and the positions that the execution core's \<open>applyRebalanceTrade\<close> leaves on the
  same account, trade after trade, and the profit each trade records is the one the core reports.\<close>

theorem pretest_rebalance_refines_core:
  assumes "fst (buildVolTargetRebalanceTrades st x refs w) = Inr ts"
    and "distinct (map vp_symbol (vs_positions st))"
  shows "same_holdings (fst (applyTrades st ts c)) (fst (core_trades (governed_account st) ts c)) \<and>
    map vt_pnl (snd (applyTrades st ts c)) = snd (core_trades (governed_account st) ts c)"
proof (rule trades_agree [OF _ _ order_refl])
  show "same_holdings st (governed_account st)" by (simp add: same_holdings_def governed_account_def)
  show "\<forall>t\<in>set ts. rebalances t" using built_trades [OF assms(1)] by blast
  have "jgt (vp_quantity p) j0"
    if "t \<in> set ts" "p \<in> set (vs_positions st)" "vp_symbol p = vt_symbol t" for t p
    using built_trades [OF assms(1) that(1)] that(2,3) assms(2)
    by (auto simp: distinct_map dest: inj_onD)
  then show "long_in (vt_symbol ` set ts) st"
    by (auto simp: long_in_def) (metis jle_jlt_trans jlt_irrefl)
qed

section \<open>Consistent books\<close>

text \<open>
  One position per symbol; the wins and losses counted are the closed trades recorded, which are
  the sales and covers, and no other trade carries a profit.
\<close>

definition closes_position :: "pt_trade \<Rightarrow> bool" where
  "closes_position t \<longleftrightarrow> vt_action t = Sell \<or> vt_action t = Close \<or> vt_action t = Cover"

definition books_ok :: "pt_state \<Rightarrow> bool" where
  "books_ok st \<longleftrightarrow> distinct (map vp_symbol (vs_positions st)) \<and>
     vs_win_trades st + vs_loss_trades st = int (length (filter closes_position (vs_trades st))) \<and>
     0 \<le> vs_win_trades st \<and> 0 \<le> vs_loss_trades st \<and>
     (\<forall>t\<in>set (vs_trades st). vt_pnl t \<noteq> None \<longleftrightarrow> closes_position t)"

lemma no_position: "vposition_of s st = None \<Longrightarrow> s \<notin> vp_symbol ` set (vs_positions st)"
  by (auto simp: vposition_of_def find_None_iff)

lemma symbols_upd_first:
  "(\<And>p. vp_symbol (f p) = vp_symbol p) \<Longrightarrow> map vp_symbol (upd_first P f ps) = map vp_symbol ps"
  by (rule map_upd_first)

lemma add_symbols [simp]:
  "vp_symbol (add_long b q p) = vp_symbol p" "vp_symbol (add_short b q p) = vp_symbol p"
  by (simp_all add: add_long_def add_short_def Let_def)

lemma books_buy:
  "books_ok st \<Longrightarrow> vt_action t = Buy \<Longrightarrow> vt_pnl t = None \<Longrightarrow> books_ok (fst (applyBuy st t c))"
  by (cases "vposition_of (vt_symbol t) st")
    (auto simp: applyBuy_def Let_def books_ok_def record_trade_def update_position_def open_position_def
      closes_position_def symbols_upd_first vposition_of_def dest: no_position [unfolded vposition_of_def])

lemma books_short:
  "books_ok st \<Longrightarrow> vt_action t = Short \<Longrightarrow> vt_pnl t = None \<Longrightarrow> books_ok (fst (applyShort st t c))"
  by (cases "vposition_of (vt_symbol t) st")
    (auto simp: applyShort_def Let_def books_ok_def record_trade_def update_position_def
      open_position_def closes_position_def symbols_upd_first dest: no_position)

lemma books_settle:
  "books_ok st \<Longrightarrow> closes_position t \<Longrightarrow> vt_pnl t \<noteq> None \<Longrightarrow>
     books_ok (record_trade t (settle_position P q fin (realize cash pnl st)))"
  by (auto simp: books_ok_def record_trade_def settle_position_def realize_def symbols_upd_first
      intro!: distinct_map_del_first)

lemma books_sell:
  "books_ok st \<Longrightarrow> closes_position t \<Longrightarrow> books_ok (fst (applySell st t c))"
  by (auto simp: applySell_def Let_def closes_position_def intro!: books_settle split: option.splits)

lemma books_cover:
  "books_ok st \<Longrightarrow> closes_position t \<Longrightarrow> books_ok (fst (applyCover st t c))"
  by (auto simp: applyCover_def Let_def closes_position_def intro!: books_settle split: option.splits)

lemma books_trade: "books_ok st \<Longrightarrow> vt_pnl t = None \<Longrightarrow> books_ok (fst (applyTrade c st t))"
  by (cases "vt_action t")
    (simp_all add: applyTrade_def books_buy books_short books_sell books_cover closes_position_def)

lemma books_trades: "books_ok st \<Longrightarrow> \<forall>t\<in>set ts. vt_pnl t = None \<Longrightarrow> books_ok (fst (applyTrades st ts c))"
proof (induction ts arbitrary: st)
  case Nil
  then show ?case by simp
next
  case (Cons t ts)
  obtain st1 t1 where t: "applyTrade c st t = (st1, t1)" by force
  then have "books_ok st1" using books_trade [OF Cons.prems(1), of t c] Cons.prems(2) by simp
  then have "books_ok (fst (applyTrades st1 ts c))" using Cons by simp
  with t show ?case by (simp add: split_beta Let_def)
qed

lemma books_same:
  assumes "map vp_symbol (vs_positions st') = map vp_symbol (vs_positions st)"
    and "map closes_position (vs_trades st') = map closes_position (vs_trades st)"
    and "map (\<lambda>t. vt_pnl t = None) (vs_trades st') = map (\<lambda>t. vt_pnl t = None) (vs_trades st)"
    and "vs_win_trades st' = vs_win_trades st" "vs_loss_trades st' = vs_loss_trades st"
  shows "books_ok st' \<longleftrightarrow> books_ok st"
proof -
  have count: "length (filter P xs) = length (filter id (map P xs))" for P and xs :: "pt_trade list"
    by (induction xs) auto
  have zipped: "map (\<lambda>t. (vt_pnl t = None, closes_position t)) ts =
      zip (map (\<lambda>t. vt_pnl t = None) ts) (map closes_position ts)" for ts
    by (induction ts) auto
  have all: "(\<forall>t\<in>set ts. vt_pnl t \<noteq> None \<longleftrightarrow> closes_position t) \<longleftrightarrow>
      (\<forall>(a, b)\<in>set (map (\<lambda>t. (vt_pnl t = None, closes_position t)) ts). a \<longleftrightarrow> \<not> b)" for ts
    by auto
  show ?thesis
    unfolding books_ok_def count [of closes_position] all zipped assms by simp
qed

lemma books_stored: "books_ok (stored_state st) \<longleftrightarrow> books_ok st"
  by (rule books_same)
    (simp_all add: stored_state_def stored_position_def stored_trade_def closes_position_def o_def)

lemma books_absorb: "books_ok (absorb_gate a st) \<longleftrightarrow> books_ok st"
  by (rule books_same) (simp_all add: absorb_gate_def)

lemma books_default: "books_ok (DEFAULT_STATE c)"
  by (simp add: books_ok_def DEFAULT_STATE_def)

lemma fresh_fill: "fst (simulate_one tc st pol refs w) = Inr (Some t) \<Longrightarrow> vt_pnl t = None"
  by (auto simp: simulate_one_def Let_def await_run attempt_run ret_def lift_result_def
      split: sum.splits option.splits if_splits)

lemma fresh_fills: "fst (simulateFills tcs st pol refs w) = Inr ts \<Longrightarrow> \<forall>t\<in>set ts. vt_pnl t = None"
proof (induction tcs arbitrary: w ts)
  case Nil
  then show ?case by (simp add: ret_def)
next
  case (Cons tc tcs)
  then show ?case
    by (fastforce simp: await_run ret_def dest: fresh_fill split: sum.splits option.splits)
qed

lemma marked_positions:
  "fst (mark_positions ps cash pol refs w) = Inr (ps', cash') \<Longrightarrow> map vp_symbol ps' = map vp_symbol ps"
proof (induction ps arbitrary: cash w ps')
  case Nil
  then show ?case by (simp add: ret_def)
next
  case (Cons p ps)
  then show ?case
    by (fastforce simp: await_run ret_def mark_position_def split: sum.splits)
qed

lemma books_track: "books_ok (track_drawdown st) \<longleftrightarrow> books_ok st" "books_ok (track_benchmark px refs st) \<longleftrightarrow> books_ok st"
  by (rule books_same; simp add: track_drawdown_def track_benchmark_def Let_def)+

lemma books_update:
  assumes "fst (updateEquityMetrics st pol refs w) = Inr st'" "books_ok st"
  shows "books_ok st'"
proof -
  obtain ps cash where m: "fst (mark_positions (vs_positions st) (vs_cash st) pol refs w) = Inr (ps, cash)"
    using assms(1) by (auto simp: updateEquityMetrics_def await_run split: sum.splits)
  let ?valued = "st\<lparr>vs_positions := ps, vs_cash := cash, vs_equity := jadd cash (positions_value ps)\<rparr>"
  have "books_ok ?valued \<longleftrightarrow> books_ok st" using marked_positions [OF m] by (intro books_same) simp_all
  moreover have "st' = track_drawdown ?valued \<or> (\<exists>px. st' = track_drawdown (track_benchmark px refs ?valued))"
    using assms(1) m
    by (auto simp: updateEquityMetrics_def await_run attempt_run ret_def Let_def split: sum.splits)
  ultimately show ?thesis using assms(2) by (auto simp: books_track)
qed

section \<open>One cycle\<close>

lemma risk_floor_books:
  "fst (risk_floor i name pol tcs st res w) = Inr (al, st') \<Longrightarrow> books_ok st \<Longrightarrow> books_ok st'"
proof (induction tcs arbitrary: st res w al)
  case Nil
  then show ?case by (simp add: ret_def)
next
  case (Cons tc tcs)
  obtain ok st1 res1 where j: "fst (judge_call i name pol tc st res w) = Inr (ok, st1, res1)"
    and r: "\<exists>al. fst (risk_floor i name pol tcs st1 res1 (snd (judge_call i name pol tc st res w))) = Inr (al, st')"
    using Cons.prems(1) by (auto simp: await_run ret_def split: sum.splits)
  have "books_ok st1"
    using j Cons.prems(2)
    by (auto simp: judge_call_def judge_entry_def Let_def await_run lift_result_def ret_def books_absorb
        split: sum.splits option.splits if_splits)
  with Cons.IH r show ?case by blast
qed

lemma trade_turn_books:
  assumes "fst (trade_turn pf pol refs b x tcs w) = Inr (st, ts)" "books_ok (vf_state pf)"
  shows "books_ok st"
proof -
  let ?floor = "applyKernelRiskFloor (vf_id pf) (vf_name pf) tcs (vf_state pf)"
  obtain al gated where fl: "fst (?floor w) = Inr (al, gated)"
    using assms(1) by (auto simp: trade_turn_def await_run split: sum.splits)
  obtain fills where fills: "fst (base (simulateFills al gated pol refs) (snd (?floor w))) = Inr fills"
    using assms(1) fl by (auto simp: trade_turn_def await_run split: sum.splits)
  let ?w2 = "snd (base (simulateFills al gated pol refs) (snd (?floor w)))"
  let ?reb = "if b then base (buildVolTargetRebalanceTrades gated x refs) else ret []"
  obtain reb where reb: "fst (?reb ?w2) = Inr reb"
    using assms(1) fl fills by (auto simp: trade_turn_def await_run split: sum.splits)
  obtain st1 ts1 where app: "applyTrades gated (fills @ reb) (py_commission_pct pol) = (st1, ts1)" by force
  have upd: "fst (base (updateEquityMetrics st1 pol refs) (snd (?reb ?w2))) = Inr st"
    using assms(1) fl fills reb app by (auto simp: trade_turn_def await_run ret_def split: sum.splits)
  have "books_ok gated"
    using fl assms(2) by (auto simp: applyKernelRiskFloor_def await_run intro: risk_floor_books split: sum.splits)
  moreover have "\<forall>t\<in>set fills. vt_pnl t = None" using fills by (auto simp: base_run dest: fresh_fills)
  moreover have "\<forall>t\<in>set reb. vt_pnl t = None"
    using reb by (auto simp: base_run ret_def rebalances_def dest: built_trades split: if_splits)
  ultimately have "books_ok st1" using books_trades [of gated "fills @ reb" "py_commission_pct pol"] app by auto
  with upd show ?thesis by (simp add: base_run books_update)
qed

text \<open>Neither a portfolio nor the recorded history of a portfolio has changed.\<close>

definition unsaved :: "pt_world \<Rightarrow> pt_world \<Rightarrow> bool" where
  "unsaved w w' \<longleftrightarrow> pt_rows w' = pt_rows w \<and> pt_navs w' = pt_navs w"

interpretation unsaved: pretest_evolution unsaved untouched
  by unfold_locales (auto simp: unsaved_def)

lemma unsaved_await:
  assumes "unsaved w v" "evolves unsaved m"
    and "\<And>e v'. unsaved w v' \<Longrightarrow> K (Inl e) v'"
    and "\<And>x v'. fst (m v) = Inr x \<Longrightarrow> unsaved w v' \<Longrightarrow> K (fst (k x v')) (snd (k x v'))"
  shows "K (fst (await m k v)) (snd (await m k v))"
proof -
  have "unsaved w (snd (m v))" using unsaved.trans [OF assms(1)] evolvesD [OF assms(2)] by blast
  with assms(3,4) show ?thesis by (auto simp: await_run split: sum.splits)
qed

text \<open>The one row of a cycle, and the point of its history, if that could be written.\<close>

definition saved :: "string \<Rightarrow> pt_state \<Rightarrow> pt_world \<Rightarrow> pt_world \<Rightarrow> bool" where
  "saved i st w w' \<longleftrightarrow> (\<exists>t ns.
     pt_rows w' = update_rows (\<lambda>r. vf_id r = i) (\<lambda>r. r\<lparr>vf_state := stored_state st,
       vf_run_count := vf_run_count r + 1, vf_last_run_at := Some t\<rparr>) (pt_rows w) \<and>
     pt_navs w' = pt_navs w @ ns \<and> length ns \<le> 1 \<and>
     (\<forall>n\<in>set ns. np_portfolio_id n = i \<and> np_equity n = vs_equity st))"

lemma unsaved_now: "unsaved w (snd (base now w))"
  by (simp add: unsaved_def base_run)

lemma update_portfolio_run:
  "fst (update_portfolio i f w) = Inl e \<Longrightarrow> unsaved w (snd (update_portfolio i f w))"
  "fst (update_portfolio i f w) = Inr r \<Longrightarrow>
     pt_rows (snd (update_portfolio i f w)) = update_rows (\<lambda>r. vf_id r = i) f (pt_rows w) \<and>
     pt_navs (snd (update_portfolio i f w)) = pt_navs w"
  by (auto simp: update_portfolio_def await_run q_read_run Let_def throw_def ret_def modify_def unsaved_def
      split: option.splits sum.splits)

definition save_nav :: "pretest_portfolio \<Rightarrow> pt_state \<Rightarrow> unit pt_io" where
  "save_nav pf st =
     attempt
       (await (base now) (\<lambda>ts.
        q_write (\<lambda>w. w\<lparr>pt_navs := pt_navs w @ [\<lparr>np_portfolio_id = vf_id pf, np_ts = ts,
          np_equity = vs_equity st, np_cash = vs_cash st,
          np_positions_count = length (vs_positions st), np_run_count = vf_run_count pf + 1\<rparr>]\<rparr>)))
       (\<lambda>_. ret ())"

lemma save_nav_run:
  "fst (save_nav pf st w) = Inr () \<and> pt_rows (snd (save_nav pf st w)) = pt_rows w \<and>
    (\<exists>ns. pt_navs (snd (save_nav pf st w)) = pt_navs w @ ns \<and> length ns \<le> 1 \<and>
      (\<forall>n\<in>set ns. np_portfolio_id n = vf_id pf \<and> np_equity n = vs_equity st))"
  by (auto simp: save_nav_def await_run attempt_run base_run now_def q_write_def db_read_def
      modify_def ret_def split: option.splits)

lemma save_cycle_run:
  "(case fst (save_cycle pf st w) of
      Inl e \<Rightarrow> unsaved w (snd (save_cycle pf st w))
    | Inr _ \<Rightarrow> saved (vf_id pf) st w (snd (save_cycle pf st w)))"
proof -
  let ?f = "\<lambda>t r. r\<lparr>vf_state := stored_state st, vf_run_count := vf_run_count r + 1,
    vf_last_run_at := Some t\<rparr>"
  obtain t w1 where now: "base now w = (Inr t, w1)" and w1: "unsaved w w1"
    using unsaved_now [of w] by (auto simp: base_run now_def)
  have run: "save_cycle pf st w = await (update_portfolio (vf_id pf) (?f t)) (\<lambda>_. save_nav pf st) w1"
    by (simp add: save_cycle_def save_nav_def await_run [of "base now"] now)
  show ?thesis
  proof (cases "fst (update_portfolio (vf_id pf) (?f t) w1)")
    case (Inl e)
    then show ?thesis using update_portfolio_run(1) [OF Inl] w1
      by (auto simp: run await_run unsaved_def)
  next
    case (Inr r)
    let ?w2 = "snd (update_portfolio (vf_id pf) (?f t) w1)"
    have "pt_rows ?w2 = update_rows (\<lambda>r. vf_id r = vf_id pf) (?f t) (pt_rows w)" "pt_navs ?w2 = pt_navs w"
      using update_portfolio_run(2) [OF Inr] w1 by (simp_all add: unsaved_def)
    moreover have "save_cycle pf st w = save_nav pf st ?w2" using Inr by (simp add: run await_run)
    ultimately show ?thesis using save_nav_run [of pf st ?w2] unfolding saved_def by auto
  qed
qed

text \<open>What a cycle of a portfolio leaves, by its result.\<close>

definition cycle_outcome ::
  "string \<Rightarrow> pt_world \<Rightarrow> exn + cycle_result \<Rightarrow> pt_world \<Rightarrow> bool" where
  "cycle_outcome i w r w' \<longleftrightarrow> (case r of
      Inl _ \<Rightarrow> unsaved w w'
    | Inr c \<Rightarrow> \<exists>pf. find_row (\<lambda>x. vf_id x = i) (pt_rows w) = Some pf \<and> vf_is_active pf \<and>
        cy_portfolio c = pf\<lparr>vf_state := vf_state (cy_portfolio c)\<rparr> \<and>
        (books_ok (vf_state pf) \<longrightarrow> books_ok (vf_state (cy_portfolio c))) \<and>
        saved i (vf_state (cy_portfolio c)) w w')"

lemma outcome_failed: "unsaved w w' \<Longrightarrow> cycle_outcome i w (Inl e) w'"
  by (simp add: cycle_outcome_def)

lemma saved_after: "unsaved w v \<Longrightarrow> saved i st v v' \<Longrightarrow> saved i st w v'"
  by (simp add: unsaved_def saved_def)

lemma outcome_saved:
  assumes "find_row (\<lambda>x. vf_id x = i) (pt_rows w) = Some pf" "vf_is_active pf" "unsaved w v"
    and "books_ok (vf_state pf) \<longrightarrow> books_ok st" "cy_portfolio c = pf\<lparr>vf_state := st\<rparr>"
  shows "cycle_outcome i w (fst (await (save_cycle pf st) (\<lambda>_. ret c) v))
    (snd (await (save_cycle pf st) (\<lambda>_. ret c) v))"
proof -
  have i: "vf_id pf = i" using assms(1) by (auto dest: find_row_Some)
  show ?thesis
  proof (cases "fst (save_cycle pf st v)")
    case (Inl e)
    then show ?thesis using save_cycle_run [of v pf st] unsaved.trans [OF assms(3)]
      by (simp add: await_run outcome_failed)
  next
    case (Inr u)
    then have "saved i st w (snd (save_cycle pf st v))"
      using save_cycle_run [of v pf st] saved_after [OF assms(3)] i by simp
    with Inr assms show ?thesis by (simp add: await_run ret_def cycle_outcome_def)
  qed
qed

lemma runCycle_outcome:
  "cycle_outcome i w (fst (pretest_runCycle i sp w)) (snd (pretest_runCycle i sp w))"
proof (cases "fst (pretest_findOne i w)")
  case (Inl e)
  have "unsaved w (snd (pretest_findOne i w))" by (rule evolvesD [OF unsaved.ev_findOne])
  with Inl show ?thesis by (simp add: pretest_runCycle_def await_run outcome_failed)
next
  case (Inr pf)
  let ?w1 = "snd (pretest_findOne i w)"
  have w1: "unsaved w ?w1" by (rule evolvesD [OF unsaved.ev_findOne])
  have row: "find_row (\<lambda>x. vf_id x = i) (pt_rows w) = Some pf"
    using Inr by (auto simp: pretest_findOne_def await_run q_read_run Let_def ret_def throw_def
        split: option.splits)
  have books: "books_ok (vf_state pf) \<longrightarrow> books_ok (fst r)"
    if "fst (trade_turn pf pol refs b x tcs v) = Inr r" for pol refs b x tcs v r
    using that trade_turn_books by (metis prod.collapse)
  show ?thesis
  proof (cases "vf_is_active pf")
    case False
    with Inr w1 show ?thesis by (simp add: pretest_runCycle_def await_run throw_def outcome_failed)
  next
    case True
    have K: "K (fst (pretest_runCycle i sp w)) (snd (pretest_runCycle i sp w))"
      if "\<And>e v. unsaved w v \<Longrightarrow> K (Inl e) v"
        "\<And>st v c. unsaved w v \<Longrightarrow> books_ok (vf_state pf) \<longrightarrow> books_ok st \<Longrightarrow>
           cy_portfolio c = pf\<lparr>vf_state := st\<rparr> \<Longrightarrow>
           K (fst (await (save_cycle pf st) (\<lambda>_. ret c) v)) (snd (await (save_cycle pf st) (\<lambda>_. ret c) v))"
      for K :: "exn + cycle_result \<Rightarrow> pt_world \<Rightarrow> bool"
      unfolding pretest_runCycle_def Let_def
      apply (subst (1 2) await_run)
      apply (simp add: Inr True)
      apply (rule unsaved_await [of w], rule w1, rule unsaved.ev_q_ask, erule that(1))
      apply (rule unsaved_await [of w], assumption, rule unsaved.ev_marketContext, erule that(1))
      apply (rule unsaved_await [of w], assumption, rule unsaved.ev_exposure, erule that(1))
      apply (rule unsaved_await [of w], assumption, rule unsaved.ev_q_ask, erule that(1))
      apply (rule unsaved_await [of w], assumption, rule unsaved.ev_turn, simp add: unsaved_def, erule that(1))
      apply (clarsimp split del: if_split)
      apply (rule unsaved_await [of w], assumption, rule unsaved.ev_lift_result, erule that(1))
      apply (rule unsaved_await [of w], assumption, rule unsaved.ev_trade_turn, erule that(1))
      apply (clarsimp split del: if_split)
      apply (rule that(2), assumption)
       apply (drule books, simp)
      apply simp
      done
    show ?thesis
      by (rule K [of "cycle_outcome i w"])
        (auto intro: outcome_failed outcome_saved [OF row True])
  qed
qed

text \<open>C34: A cycle is all or nothing. If a cycle fails, at whatever step, no portfolio row and no history
  point has changed; if it succeeds, the portfolio was found and active, exactly its row has the
  new state (as JSON keeps it), one more run and the time of the run, and its history has at most
  one new point, with the equity of that state. Other portfolios are untouched.\<close>

theorem cycle_saves_all_or_nothing:
  "case pretest_runCycle i sp w of
     (Inl e, w') \<Rightarrow> pt_rows w' = pt_rows w \<and> pt_navs w' = pt_navs w
   | (Inr c, w') \<Rightarrow> \<exists>pf t ns. find_row (\<lambda>r. vf_id r = i) (pt_rows w) = Some pf \<and> vf_is_active pf \<and>
       cy_portfolio c = pf\<lparr>vf_state := vf_state (cy_portfolio c)\<rparr> \<and>
       pt_rows w' = update_rows (\<lambda>r. vf_id r = i)
         (\<lambda>r. r\<lparr>vf_state := stored_state (vf_state (cy_portfolio c)),
           vf_run_count := vf_run_count r + 1, vf_last_run_at := Some t\<rparr>) (pt_rows w) \<and>
       pt_navs w' = pt_navs w @ ns \<and> length ns \<le> 1 \<and>
       list_all (\<lambda>n. np_portfolio_id n = i \<and> np_equity n = vs_equity (vf_state (cy_portfolio c))) ns"
proof (cases "fst (pretest_runCycle i sp w)")
  case (Inl e)
  then show ?thesis using runCycle_outcome [of i w sp]
    by (simp add: cycle_outcome_def unsaved_def split_beta)
next
  case (Inr c)
  then show ?thesis using runCycle_outcome [of i w sp]
    by (simp add: cycle_outcome_def saved_def split_beta list_all_iff) blast
qed

section \<open>Invariants of the stored portfolios\<close>

text \<open>
  A property of rows that the service's writes establish or keep: a fresh portfolio has it, it
  speaks of the state and the number of runs only, and a cycle keeps it.
\<close>

locale portfolio_invariant =
  fixes P :: "pretest_portfolio \<Rightarrow> bool"
  assumes fresh: "vf_state r = stored_state (DEFAULT_STATE c) \<Longrightarrow> vf_run_count r = 0 \<Longrightarrow> P r"
    and edited: "P r \<Longrightarrow> vf_state r' = vf_state r \<Longrightarrow> vf_run_count r' = vf_run_count r \<Longrightarrow> P r'"
    and cycled: "P pf \<Longrightarrow> P r \<Longrightarrow> (books_ok (vf_state pf) \<longrightarrow> books_ok st) \<Longrightarrow>
      P (r\<lparr>vf_state := stored_state st, vf_run_count := vf_run_count r + 1, vf_last_run_at := Some t\<rparr>)"
begin

definition rows_ok :: "pt_world \<Rightarrow> bool" where
  "rows_ok w \<longleftrightarrow> (\<forall>r\<in>set (pt_rows w). P r)"

lemma evolution: "pretest_evolution (\<lambda>w w'. rows_ok w \<longrightarrow> rows_ok w') untouched"
  by unfold_locales (auto simp: rows_ok_def)

lemma rows_unsaved: "unsaved w w' \<Longrightarrow> rows_ok w \<Longrightarrow> rows_ok w'"
  by (simp add: rows_ok_def unsaved_def)

lemma rows_saved:
  assumes "saved i st w w'" "rows_ok w" "find_row (\<lambda>r. vf_id r = i) (pt_rows w) = Some pf"
    and "books_ok (vf_state pf) \<longrightarrow> books_ok st"
  shows "rows_ok w'"
proof -
  have "P pf" using assms(2,3) by (auto simp: rows_ok_def dest: find_row_Some)
  from cycled [OF this _ assms(4)] assms(1,2) show ?thesis
    by (auto simp: rows_ok_def saved_def set_update_rows)
qed

lemma rows_cycle: "rows_ok w \<Longrightarrow> rows_ok (snd (pretest_runCycle i sp w))"
  using runCycle_outcome [of i w sp]
  by (auto simp: cycle_outcome_def intro: rows_unsaved rows_saved split: sum.splits)

lemma rows_run_all: "rows_ok w \<Longrightarrow> rows_ok (snd (run_all ps w))"
proof (induction ps arbitrary: w)
  case Nil
  then show ?case by (simp add: ret_def)
next
  case (Cons p ps)
  then show ?case
    using rows_cycle [OF Cons.prems, of "vf_id p" None]
    by (auto simp: await_run attempt_run ret_def split: sum.splits)
qed

lemma rows_create: "rows_ok w \<Longrightarrow> rows_ok (snd (pretest_create dto w))"
  by (auto simp: pretest_create_def Let_def await_run base_run q_write_def modify_def ret_def rows_ok_def
      intro: fresh split: sum.splits)

lemma rows_update_portfolio:
  "rows_ok w \<Longrightarrow> (\<And>r. P r \<Longrightarrow> P (f r)) \<Longrightarrow> rows_ok (snd (update_portfolio i f w))"
  by (auto simp: update_portfolio_def await_run q_read_run Let_def throw_def ret_def modify_def rows_ok_def
      set_update_rows split: option.splits sum.splits)

lemma rows_update: "rows_ok w \<Longrightarrow> rows_ok (snd (pretest_update i u w))"
  unfolding pretest_update_def by (rule rows_update_portfolio) (auto intro: edited)

lemma rows_reset: "rows_ok w \<Longrightarrow> rows_ok (snd (pretest_reset i w))"
  using rows_unsaved [OF evolvesD [OF unsaved.ev_findOne], of w i]
  by (auto simp: pretest_reset_def await_run intro!: rows_update_portfolio intro: fresh split: sum.splits)

lemma rows_delete: "rows_ok w \<Longrightarrow> rows_ok (snd (pretest_delete i w))"
  by (auto simp: pretest_delete_def await_run q_read_run Let_def throw_def modify_def rows_ok_def
      split: option.splits)

lemma rows_op: "pretest_op w w' \<Longrightarrow> rows_ok w \<Longrightarrow> rows_ok w'"
proof (induction rule: pretest_op.induct)
  case (op_runAll w)
  then show ?case
    using rows_run_all rows_unsaved [OF evolvesD [OF unsaved.ev_q_read]]
    by (auto simp: runAllActive_def await_run split: sum.splits)
next
  case (op_gate w i)
  have "unsaved w (snd (pretest_gate i w))" by (rule evolvesD [OF unsaved.ev_gate]) (simp add: unsaved_def)
  with op_gate show ?case by (rule rows_unsaved [rotated])
next
  case (op_promote w i c)
  have "unsaved w (snd (promote i c w))"
    by (rule evolvesD [OF unsaved.ev_promote]) (simp_all add: unsaved_def)
  with op_promote show ?case by (rule rows_unsaved [rotated])
next
  case (op_compare w)
  then show ?case using rows_unsaved [OF evolvesD [OF unsaved.ev_compare]] by blast
next
  case (op_navs w)
  then show ?case using rows_unsaved [OF evolvesD [OF unsaved.ev_getNavHistory]] by blast
qed (simp_all add: rows_create rows_update rows_reset rows_delete rows_cycle)

end

interpretation booked: portfolio_invariant "\<lambda>r. books_ok (vf_state r)"
  by unfold_locales (auto simp: books_stored books_default)

text \<open>C35: The books stay consistent. After any operation, with any answers of the model, the plugins
  and the market (quotes that are not numbers included), every stored portfolio has at most one
  position per symbol, its win and loss counts are the closing trades it recorded, and a trade
  carries a realized profit exactly when it is a sale, a close or a cover.\<close>

theorem pretest_books_stay_consistent:
  assumes "pretest_op w w'" "\<forall>r\<in>set (pt_rows w). books_ok (vf_state r)"
  shows "\<forall>r\<in>set (pt_rows w'). books_ok (vf_state r)"
  using booked.rows_op [OF assms(1)] assms(2) by (simp add: booked.rows_ok_def)

end
