(* ===== verification/PretestWitnesses.thy ===== *)
theory PretestWitnesses
  imports PretestGate PretestFloor PretestBooks Samples
begin

text \<open>A pretest portfolio with a short record, a plugin and a model that goes long.\<close>

definition closed_trade :: pt_trade where
  "closed_trade = \<lparr>vt_ts = '''', vt_symbol = ''AAPL'', vt_action = Sell, vt_price = Fin 110,
     vt_quantity = Fin 10, vt_pnl = Some (Fin 100), vt_entry_price = Some (Fin 100)\<rparr>"

definition pretest_state :: pt_state where
  "pretest_state = (DEFAULT_STATE (Fin 10000))\<lparr>vs_equity := Fin 10100, vs_cash := Fin 9100,
     vs_positions := [\<lparr>vp_symbol = ''MSFT'', vp_quantity = Fin 10, vp_avg_price = Fin 100,
       vp_current_price = None, vp_unrealized_pnl = None\<rparr>],
     vs_trades := [closed_trade], vs_win_trades := 1\<rparr>"

definition pretest_row :: pretest_portfolio where
  "pretest_row = \<lparr>vf_id = ''p1'', vf_name = ''one'', vf_description = None,
     vf_initial_capital = Fin 10000, vf_plugin_ids = [''momentum''], vf_plugin_configs = (\<lambda>_. None),
     vf_state = pretest_state, vf_run_count = 1, vf_last_run_at = None, vf_is_active = True,
     vf_created_at = 0\<rparr>"

definition go_long :: "string \<Rightarrow> tool_call" where
  "go_long s = \<lparr>tc_plugin_id = ''decision'', tc_function = ''emit_trade_intent'',
     tc_args = (\<lambda>_. None)(''symbol'' := Some (JStr s), ''action'' := Some (JStr ''long''))\<rparr>"

definition pretest_env :: pt_env where
  "pretest_env = \<lparr>qe_findAll = (\<lambda>_. Inr []), qe_ohlcv = (\<lambda>_ _ _ _ _. Inr None),
     qe_hook = (\<lambda>_ _ _ _. Inr None), qe_sandbox_cycle = (\<lambda>_ _ _. Inr None), qe_memory = (\<lambda>_. Inr ''''),
     qe_turn = (\<lambda>_. ret ('''', [go_long ''AAPL''])), qe_activate = (\<lambda>_ _. None),
     qe_setConfig = (\<lambda>_ _ _. None)\<rparr>"

definition pretest_settings :: "string \<Rightarrow> string option" where
  "pretest_settings = (\<lambda>_. None)(''pretest.gate.min_trades'' := Some ''1'',
     ''pretest.gate.min_sharpe'' := Some ''0'', ''pretest.gate.min_loss_trades'' := Some ''0'',
     ''execution.max_position_pct'' := Some ''1'', ''execution.max_short_notional_pct'' := Some ''1'',
     ''execution.max_daily_loss_pct'' := Some ''1'', ''execution.max_weekly_loss_pct'' := Some ''1'')"

definition pretest_sample :: pt_world where
  "pretest_sample = \<lparr>pt_base = (sample_world [] [])\<lparr>w_config := pretest_settings\<rparr>,
     pt_env = pretest_env, pt_rows = [pretest_row], pt_navs = [], pt_reputation = (\<lambda>_. None),
     pt_audit = [], pt_calls = []\<rparr>"

section \<open>Virtual portfolios\<close>

theorem pretest_reaches_only_by_its_turns_witness:
  "(turn_effect pretest_env)\<^sup>*\<^sup>* (pt_base pretest_sample)
     (pt_base (snd (pretest_runCycle ''p1'' None pretest_sample)))"
proof -
  have "pt_env pretest_sample = pretest_env" by (simp add: pretest_sample_def)
  then show ?thesis
    using pretest_reaches_only_by_its_turns
      [of pretest_sample "snd (pretest_runCycle ''p1'' None pretest_sample)"] op_runCycle by metis
qed

theorem pretest_books_stay_consistent_witness:
  "list_all (\<lambda>r. books_ok (vf_state r)) (pt_rows (snd (pretest_runCycle ''p1'' None pretest_sample)))"
  using pretest_books_stay_consistent [OF op_runCycle, of pretest_sample "''p1''" None]
  by (simp add: pretest_sample_def pretest_row_def pretest_state_def closed_trade_def books_ok_def
      closes_position_def DEFAULT_STATE_def list_all_iff)

text \<open>A target of zero sells the ten shares held.\<close>

lemma sample_quote:
  "quote_last s (pt_base pretest_sample) = (Inr (Fin 100), note_event (EvQuote s) (pt_base pretest_sample))"
  by (simp add: quote_last_def get_quote_def await_run ret_def pretest_sample_def sample_world_def sample_env_def)

lemma sample_rebalance:
  "\<exists>t. fst (buildVolTargetRebalanceTrades pretest_state j0 (\<lambda>_. None) (pt_base pretest_sample)) = Inr [t]"
proof -
  have longs: "filter (\<lambda>p. jgt (vp_quantity p) j0) (vs_positions pretest_state) = vs_positions pretest_state"
    "vs_equity pretest_state = Fin 10100" by code_simp+
  have u: "usable_quote ''MSFT'' (Fin 100) (\<lambda>_. None)" by code_simp
  have n: "jadd j0 (jmul (Fin 10) (Fin 100)) = Fin 1000" "jadd j0 (Fin (- 1000)) = Fin (- 1000)"
    "jmul j0 (Fin 10100) = j0" "jdiv (jmul (Fin 10) (Fin 100)) (Fin 1000) = j1"
    "jmul (Fin (- 1000)) j1 = Fin (- 1000)" "jmin (Fin 10) (jfloor (jdiv (Fin 1000) (Fin 100))) = Fin 10"
    by code_simp+
  show ?thesis
    by (simp add: buildVolTargetRebalanceTrades_def longs)
      (simp add: pretest_state_def await_run attempt_run sample_quote u Let_def ret_def price_of_def n
        rebalance_trades_def oneRebalanceTrade_def map_filter_simps current_ts_def now_def jsub_def
        del: jadd.simps jmul.simps jdiv.simps)
qed

theorem pretest_rebalance_refines_core_witness:
  "\<exists>t. fst (buildVolTargetRebalanceTrades pretest_state j0 (\<lambda>_. None) (pt_base pretest_sample)) = Inr [t] \<and>
     same_holdings (fst (applyTrades pretest_state [t] j0))
       (fst (core_trades (governed_account pretest_state) [t] j0))"
proof -
  obtain t where t: "fst (buildVolTargetRebalanceTrades pretest_state j0 (\<lambda>_. None)
      (pt_base pretest_sample)) = Inr [t]" using sample_rebalance by blast
  have "distinct (map vp_symbol (vs_positions pretest_state))" by code_simp
  with t show ?thesis using pretest_rebalance_refines_core [OF t, of j0] by blast
qed

section \<open>The gate\<close>

lemma sharpe_ratio_short: "length rs < 2 \<Longrightarrow> sharpe_ratio rs = j0"
  by (simp add: sharpe_ratio_def Let_def)

lemma pretest_row_ready: "gate_ready (thresholds_from pretest_settings) pretest_row"
proof -
  have closing: "closing_trades (vs_trades pretest_state) = [closed_trade]" by code_simp
  have "sg_sharpe (portfolio_metrics pretest_row) = j0"
    using closing by (simp add: portfolio_metrics_def pretest_row_def computeSignificance_def
        computeWinLossStats_keeps sharpe_ratio_short)
  moreover have "th_min_trades (thresholds_from pretest_settings) = j1"
    "th_min_sharpe (thresholds_from pretest_settings) = j0"
    "th_min_loss_trades (thresholds_from pretest_settings) = j0"
    "th_max_dd_pct (thresholds_from pretest_settings) = Fin 20" by code_simp+
  moreover have "vs_max_drawdown_pct pretest_state = j0" "vs_benchmark_return_pct pretest_state = None"
    by code_simp+
  moreover have "\<not> jlt (mk_num (rat_of_nat n)) j0" for n
    using mk_num_nonneg [of "rat_of_nat n"] jle_jlt_trans jlt_irrefl by fastforce
  ultimately show ?thesis
    using closing unfolding gate_ready_def evaluateGate_Nil
    by (simp add: portfolio_metrics_def significance_counts pretest_row_def alpha_of_def of_count_def
        mk_num_of_int [of 1, simplified])
qed

section \<open>Without database faults\<close>

definition calm :: "pt_world \<Rightarrow> bool" where
  "calm w \<longleftrightarrow> env_db_fault (w_env (pt_base w)) = (\<lambda>_. None)"

lemma calm_later: "virtual w w' \<Longrightarrow> calm w \<Longrightarrow> calm w'"
  by (simp add: calm_def virtual_def untouched_def)

lemma calm_read: "calm w \<Longrightarrow> fst (q_read f w) = Inr (f (w\<lparr>pt_base := tock (pt_base w)\<rparr>))"
  by (simp add: q_read_run calm_def Let_def)

lemma calm_kv: "env_db_fault (w_env b) = (\<lambda>_. None) \<Longrightarrow> \<exists>v. fst (kv_get k b) = Inr v"
  by (simp add: kv_get_def db_read_def)

lemma calm_kv_all: "env_db_fault (w_env b) = (\<lambda>_. None) \<Longrightarrow> \<exists>m. fst (kv_get_all ks b) = Inr m"
proof (induction ks arbitrary: b)
  case Nil
  then show ?case by (simp add: ret_def)
next
  case (Cons k ks)
  obtain v where v: "fst (kv_get k b) = Inr v" using calm_kv [OF Cons.prems] by blast
  have "w_env (snd (kv_get k b)) = w_env b"
    using evolvesD [OF untouched.ev_reads(1), of b k] by (simp add: untouched_def)
  then obtain m where "fst (kv_get_all ks (snd (kv_get k b))) = Inr m" using Cons by metis
  with v show ?case by (simp add: await_run ret_def)
qed

lemma calm_findOne:
  "calm w \<Longrightarrow> find_row (\<lambda>r. vf_id r = i) (pt_rows w) = Some pf \<Longrightarrow> fst (pretest_findOne i w) = Inr pf"
  by (simp add: pretest_findOne_def await_run calm_read ret_def)

lemma calm_gate:
  assumes "calm w" "find_row (\<lambda>r. vf_id r = i) (pt_rows w) = Some pf"
  shows "\<exists>g. fst (pretest_gate i w) = Inr g"
proof -
  let ?v = "snd (pretest_findOne i w)"
  have "calm ?v" using calm_later [OF evolvesD [OF virtual.ev_findOne] assms(1)] .
  then obtain th where "fst (readGateThresholds ?v) = Inr th"
    using calm_kv_all [of "pt_base ?v" GATE_KEYS]
    by (auto simp: calm_def readGateThresholds_def await_run base_run ret_def)
  moreover have "never_throws (recomputePluginReputations ids)" for ids
    unfolding recomputePluginReputations_def by auto
  ultimately show ?thesis using calm_findOne [OF assms]
    by (auto simp: pretest_gate_def await_run Let_def ret_def never_throws_def split: sum.splits)
qed

lemma activates:
  assumes "ga_ready g" "vf_plugin_ids pf = [p]" "vf_plugin_configs pf p = None" "calm w"
  shows "pt_calls (snd (promote_checked i True pf g w)) = pt_calls w @ [Activate p]"
proof -
  let ?k = "''promotion.require_human_confirm''"
  obtain v where v: "fst (base (kv_get ?k) w) = Inr v"
    using calm_kv [of "pt_base w" ?k] assms(4) by (auto simp: base_run calm_def)
  have k: "pt_calls (snd (base (kv_get ?k) w)) = pt_calls w" by (simp add: base_run)
  have a: "pt_calls (snd (audit_pretest e u)) = pt_calls u" for e u
    using evolvesD [OF quiet.ev_audit_pretest, of u e] by (simp add: quiet_def)
  have "pt_calls (snd (applyPlugins [p] (vf_plugin_configs pf) u)) = pt_calls u @ [Activate p]
      \<and> (\<exists>r. fst (applyPlugins [p] (vf_plugin_configs pf) u) = Inr r)" for u
    using assms(3)
    by (auto simp: apply_plugin_def failure_of_def plugin_activate_def await_run attempt_run modify_def
        ret_def q_ask_def split: option.splits sum.splits)
  then show ?thesis
    using assms(1,2) v k a
    by (fastforce simp: promote_checked_def await_run ret_def split: sum.splits)
qed

lemma sample_promoted: "pt_calls (snd (promote ''p1'' True pretest_sample)) = [Activate ''momentum'']"
proof -
  have calm: "calm pretest_sample"
    by (simp add: calm_def pretest_sample_def sample_world_def sample_env_def)
  have row: "find_row (\<lambda>r. vf_id r = ''p1'') (pt_rows pretest_sample) = Some pretest_row"
    by (simp add: pretest_sample_def pretest_row_def)
  have config: "w_config (pt_base pretest_sample) = pretest_settings" by (simp add: pretest_sample_def)
  let ?v = "snd (pretest_findOne ''p1'' pretest_sample)"
  note f = calm_findOne [OF calm row]
  have v: "calm ?v" using calm_later [OF evolvesD [OF virtual.ev_findOne] calm] .
  have rv: "pt_rows ?v = pt_rows pretest_sample" "w_config (pt_base ?v) = pretest_settings"
    using findOne_result [OF f] config by simp_all
  obtain g where g: "fst (pretest_gate ''p1'' ?v) = Inr g" using calm_gate [OF v] row rv by metis
  then have "ga_ready g" using gate_result [OF g] row rv pretest_row_ready by auto
  moreover have "calm (snd (pretest_gate ''p1'' ?v))"
    using calm_later [OF evolvesD [OF virtual.ev_gate] v] by simp
  moreover have "pt_calls (snd (pretest_gate ''p1'' ?v)) = []"
    using quiet_gate [of ?v "''p1''"] evolvesD [OF quiet.ev_findOne, of pretest_sample "''p1''"]
    by (simp add: quiet_def pretest_sample_def)
  ultimately show ?thesis
    using f g activates [of g pretest_row "''momentum''" "snd (pretest_gate ''p1'' ?v)" "''p1''"]
    by (simp add: promote_def await_run attempt_run ret_def) (simp add: pretest_row_def)
qed

theorem promotion_needs_gate_and_consent_witness:
  "\<exists>pf. find_row (\<lambda>r. vf_id r = ''p1'') (pt_rows pretest_sample) = Some pf \<and>
     gate_ready (thresholds_from (w_config (pt_base pretest_sample))) pf"
proof -
  have "pt_calls (snd (promote ''p1'' True pretest_sample)) \<noteq> pt_calls pretest_sample"
    by (simp add: sample_promoted) (simp add: pretest_sample_def)
  from promotion_needs_gate_and_consent [OF this] show ?thesis by blast
qed

section \<open>The risk floor\<close>

lemma sample_policy_read:
  "readRiskPolicy (pt_base pretest_sample) =
     (Inr (risk_policy_from pretest_settings), (pt_base pretest_sample)\<lparr>w_calls := 7\<rparr>)"
proof -
  have "fst (readRiskPolicy (pt_base pretest_sample)) = Inr (risk_policy_from pretest_settings)"
    using calm_kv_all [of "pt_base pretest_sample" RISK_KEYS]
      readRiskPolicy_result [of "pt_base pretest_sample"]
    by (auto simp: readRiskPolicy_def await_run ret_def pretest_sample_def sample_world_def sample_env_def)
  moreover have "snd (readRiskPolicy (pt_base pretest_sample)) = (pt_base pretest_sample)\<lparr>w_calls := 7\<rparr>"
    by (simp add: readRiskPolicy_def RISK_KEYS_def await_run ret_def kv_get_def db_read_def tock_def
        pretest_sample_def sample_world_def sample_env_def)
  ultimately show ?thesis by (simp add: prod_eq_iff)
qed

lemma sample_floor:
  "case fst (risk_floor ''p1'' ''one'' (risk_policy_from pretest_settings) [go_long ''AAPL''] pretest_state []
      (pretest_sample\<lparr>pt_base := (pt_base pretest_sample)\<lparr>w_calls := 7\<rparr>\<rparr>)) of
     Inr (tcs, _) \<Rightarrow> tcs \<noteq> [] | _ \<Rightarrow> False"
  by code_simp

theorem risk_floor_judges_every_entry_witness:
  "\<exists>st' g. fst (applyKernelRiskFloor ''p1'' ''one'' [go_long ''AAPL''] pretest_state pretest_sample) =
       Inr ([go_long ''AAPL''], st') \<and> same_book pretest_state st' \<and>
     gate_admits (risk_policy_from pretest_settings) pretest_state [] ''AAPL'' g"
proof -
  let ?w = "pretest_sample\<lparr>pt_base := (pt_base pretest_sample)\<lparr>w_calls := 7\<rparr>\<rparr>"
  let ?tcs = "[] @ go_long ''AAPL'' # []"
  obtain tcs st' where r: "fst (risk_floor ''p1'' ''one'' (risk_policy_from pretest_settings)
      [go_long ''AAPL''] pretest_state [] ?w) = Inr (tcs, st')" and "tcs \<noteq> []"
    using sample_floor by (auto simp del: risk_floor.simps split: sum.splits)
  then have tcs: "tcs = [go_long ''AAPL'']" by (auto simp: await_run ret_def split: sum.splits if_splits)
  have run: "fst (applyKernelRiskFloor ''p1'' ''one'' ?tcs pretest_state pretest_sample) =
      Inr ([go_long ''AAPL''], st')"
    using r tcs by (simp add: applyKernelRiskFloor_def await_run [of "base readRiskPolicy"] base_run sample_policy_read
        del: risk_floor.simps)
  have len: "length (vs_positions pretest_state) + length ?tcs \<le> 2 ^ 53"
    by (simp add: pretest_state_def)
  have s: "entry_symbol (go_long ''AAPL'') = Some ''AAPL''"
    by (simp add: entry_symbol_def action_arg_def symbol_arg_def go_long_def toLowerCase_def
        lower_char_def char_of_def of_char_def)
  have c: "w_config (pt_base pretest_sample) = pretest_settings"
    by (simp add: pretest_sample_def)
  obtain g where "gate_admits (risk_policy_from pretest_settings) pretest_state [] ''AAPL'' g"
    and "same_book pretest_state st'"
    using risk_floor_judges_every_entry [OF run len] s c
    by (auto simp: Let_def ret_def split: if_splits)
  with run show ?thesis by auto
qed

end
