(* ===== verification/KernelParser.thy ===== *)
theory KernelParser
  imports JsonText PretestEngine
begin

text \<open>
  \<open>llm/kernel-parser.ts\<close>: the tool calls a language model writes as text. A parse returns the
  calls and, when a block was found that is not a JSON array, the raw text that is audited.
\<close>

section \<open>Extraction\<close>

definition extractTagged :: "string \<Rightarrow> string option" where
  "extractTagged s =
     (case indexOf ''<tool_calls>'' s of
        None \<Rightarrow> None
      | Some i \<Rightarrow>
          (let body = drop (i + length ''<tool_calls>'') s
           in map_option (\<lambda>k. js_trim (take k body)) (indexOf ''</tool_calls>'' body)))"

definition extractBare :: "string \<Rightarrow> string option" where
  "extractBare = bracketed (CHR ''['') (CHR '']'')"

definition first_some :: "'a option \<Rightarrow> 'a option \<Rightarrow> 'a option" where
  "first_some a b = (case a of None \<Rightarrow> b | Some x \<Rightarrow> Some x)"

definition detected_block :: "string \<Rightarrow> string option" where
  "detected_block s = first_some (fenced_json s) (first_some (extractTagged s) (extractBare s))"

section \<open>Normalization\<close>

text \<open>Reading a property of \<open>args\<close>; \<open>undefined\<close> and \<open>null\<close> are the empty object.\<close>

definition args_of :: "json option \<Rightarrow> config" where
  "args_of v = (case v of None \<Rightarrow> (\<lambda>_. None) | Some a \<Rightarrow> (\<lambda>k. field k a))"

definition is_object_value :: "json option \<Rightarrow> bool" where
  "is_object_value v = (case v of None \<Rightarrow> False | Some x \<Rightarrow> is_object x)"

definition split_tool :: "string \<Rightarrow> (string \<times> string) option" where
  "split_tool tool =
     (case indexOf ''__'' tool of
        None \<Rightarrow> None
      | Some i \<Rightarrow>
          if take i tool = [] \<or> drop (i + 2) tool = [] then None
          else Some (take i tool, drop (i + 2) tool))"

definition normalizeEntry :: "json \<Rightarrow> tool_call option" where
  "normalizeEntry entry =
     (if \<not> is_object entry then None
      else case (as_string (field ''plugin_id'' entry), as_string (field ''function'' entry)) of
        (Some p, Some f) \<Rightarrow>
          Some \<lparr>tc_plugin_id = p, tc_function = f, tc_args = args_of (field ''args'' entry)\<rparr>
      | _ \<Rightarrow>
          (case as_string (field ''tool'' entry) of
             None \<Rightarrow> None
           | Some tool \<Rightarrow>
               if \<not> is_object_value (field ''args'' entry) then None
               else map_option (\<lambda>(p, f). \<lparr>tc_plugin_id = p, tc_function = f,
                      tc_args = args_of (field ''args'' entry)\<rparr>) (split_tool tool)))"

section \<open>Parsing\<close>

definition parseToolCalls :: "string \<Rightarrow> tool_call list \<times> string option" where
  "parseToolCalls s =
     (if s = [] then ([], None)
      else case detected_block s of
        None \<Rightarrow> ([], None)
      | Some raw \<Rightarrow>
          (case json_parse raw of
             Some (JArr entries) \<Rightarrow> (List.map_filter normalizeEntry entries, None)
           | _ \<Rightarrow> ([], Some raw)))"

text \<open>Runs of three or more line breaks become two.\<close>

definition break_run :: "string \<Rightarrow> nat option" where
  "break_run s = (let n = length (takeWhile (\<lambda>c. c = newline) s) in if n \<ge> 3 then Some n else None)"

definition stripToolCallBlocks :: "string \<Rightarrow> string" where
  "stripToolCallBlocks s =
     (if s = [] then []
      else js_trim (replaceAll break_run [newline, newline]
             (replaceAll (block_i ''<tool_calls>'' ''</tool_calls>'') [] s)))"

section \<open>Facts\<close>

lemma split_tool_joins: "split_tool tool = Some (p, f) \<Longrightarrow> p @ ''__'' @ f = tool \<and> p \<noteq> [] \<and> f \<noteq> []"
proof -
  assume s: "split_tool tool = Some (p, f)"
  then obtain i where i: "indexOf ''__'' tool = Some i" and pf: "p = take i tool" "f = drop (i + 2) tool"
    "p \<noteq> []" "f \<noteq> []" by (auto simp: split_tool_def split: option.splits if_splits)
  have "take 2 (drop i tool) = ''__''" using indexOf_Some [OF i] by (simp add: starts_take numeral_2_eq_2)
  moreover have "take i tool @ take 2 (drop i tool) @ drop (i + 2) tool = tool"
    by (metis append_take_drop_id drop_drop add.commute)
  ultimately show ?thesis using pf by metis
qed

lemma first_break: "indexOf ''__'' (p @ ''__'' @ f) = Some (length p)"
  if "\<forall>c\<in>set p. c \<noteq> CHR ''_''"
  using that by (induction p) auto

lemma split_tool_reads: "\<forall>c\<in>set p. c \<noteq> CHR ''_'' \<Longrightarrow> p \<noteq> [] \<Longrightarrow> f \<noteq> [] \<Longrightarrow> split_tool (p @ ''__'' @ f) = Some (p, f)"
  using first_break [of p f] by (simp add: split_tool_def)

section \<open>Reading back a block of calls\<close>

text \<open>The two forms in which a model may write a call.\<close>

definition explicit_entry :: "string \<times> string \<times> (string \<times> json) list \<Rightarrow> json" where
  "explicit_entry c = (case c of (p, f, a) \<Rightarrow>
     JObj [(''plugin_id'', JStr p), (''function'', JStr f), (''args'', JObj a)])"

definition compact_entry :: "string \<times> string \<times> (string \<times> json) list \<Rightarrow> json" where
  "compact_entry c = (case c of (p, f, a) \<Rightarrow>
     JObj [(''tool'', JStr (p @ ''__'' @ f)), (''args'', JObj a)])"

definition call_of_entry :: "string \<times> string \<times> (string \<times> json) list \<Rightarrow> tool_call" where
  "call_of_entry c = (case c of (p, f, a) \<Rightarrow>
     \<lparr>tc_plugin_id = p, tc_function = f, tc_args = map_of a\<rparr>)"

definition tagged_reply :: "string \<Rightarrow> string \<Rightarrow> string \<Rightarrow> string" where
  "tagged_reply before body after = before @ ''<tool_calls>'' @ body @ ''</tool_calls>'' @ after"

text \<open>No fenced block, and the first opening and closing tags are those around the body.\<close>

definition plain_reply :: "string \<Rightarrow> string \<Rightarrow> string \<Rightarrow> bool" where
  "plain_reply before body after \<longleftrightarrow>
     fenced_json (tagged_reply before body after) = None \<and>
     indexOf ''<tool_calls>'' (tagged_reply before body after) = Some (length before) \<and>
     indexOf ''</tool_calls>'' (body @ ''</tool_calls>'' @ after) = Some (length body)"

lemma normalize_explicit: "normalizeEntry (explicit_entry c) = Some (call_of_entry c)"
  by (cases c) (auto simp: normalizeEntry_def explicit_entry_def call_of_entry_def args_of_def)

lemma normalize_compact:
  "\<forall>x\<in>set (fst c). x \<noteq> CHR ''_'' \<Longrightarrow> fst c \<noteq> [] \<Longrightarrow> fst (snd c) \<noteq> [] \<Longrightarrow>
   normalizeEntry (compact_entry c) = Some (call_of_entry c)"
  using split_tool_reads [of "fst c" "fst (snd c)"]
  by (cases c)
    (auto simp: normalizeEntry_def compact_entry_def call_of_entry_def args_of_def is_object_value_def)

lemma trim_bracketed: "js_trim (''['' @ s @ '']'') = ''['' @ s @ '']''"
  by (simp add: js_trim_def js_ws_def)

lemma parse_tagged:
  assumes "plain_reply before (stringify (JArr entries)) after" and "readable (JArr entries)"
  shows "parseToolCalls (tagged_reply before (stringify (JArr entries)) after) =
    (List.map_filter normalizeEntry entries, None)"
proof -
  let ?body = "stringify (JArr entries)"
  have opens: "indexOf ''<tool_calls>'' (tagged_reply before ?body after) = Some (length before)"
    and closes: "indexOf ''</tool_calls>'' (?body @ ''</tool_calls>'' @ after) = Some (length ?body)"
    using assms(1) by (simp_all add: plain_reply_def del: stringify.simps)
  have d: "drop (length before + length ''<tool_calls>'') (tagged_reply before ?body after) =
      ?body @ ''</tool_calls>'' @ after" by (simp add: tagged_reply_def)
  have "extractTagged (tagged_reply before ?body after) = Some (js_trim ?body)"
    unfolding extractTagged_def opens option.case Let_def d closes option.map by (simp del: stringify.simps)
  moreover have "js_trim ?body = ?body" using trim_bracketed by simp
  ultimately have "detected_block (tagged_reply before ?body after) = Some ?body"
    using assms(1) by (simp add: detected_block_def plain_reply_def first_some_def)
  then show ?thesis
    using json_parse_stringify [OF assms(2)]
    by (simp add: parseToolCalls_def tagged_reply_def del: stringify.simps)
qed

lemma map_filter_some: "(\<And>x. x \<in> set xs \<Longrightarrow> g (f x) = Some (h x)) \<Longrightarrow> List.map_filter g (map f xs) = map h xs"
  by (induction xs) (simp_all add: List.map_filter_simps)

text \<open>C39: A tagged block of tool calls is read back as it was written. The reply has no fenced block that
  the parser would read (a fence with the word json takes priority over the tags), its first opening
  tag is the one before the block, and the block holds no closing tag, in an argument for instance;
  the numbers among the arguments are finite and read back from their texts, and no object repeats a
  key. Then the calls the reply carries between the tags, each with its plugin, its function and its
  arguments, are the calls the parser returns, in their order and without a parse miss.\<close>

theorem explicit_reply_roundtrip:
  assumes "plain_reply before (stringify (JArr (map explicit_entry cs))) after"
    and "list_all (\<lambda>(p, f, a). readable (JObj a)) cs"
  shows "parseToolCalls (tagged_reply before (stringify (JArr (map explicit_entry cs))) after) =
    (map call_of_entry cs, None)"
proof -
  have "readable (JArr (map explicit_entry cs))"
    using assms(2) by (auto simp: explicit_entry_def list_all_iff)
  then show ?thesis
    using parse_tagged [OF assms(1)] by (simp add: map_filter_some normalize_explicit del: stringify.simps)
qed

end
