(* ===== verification/Sanitize.thy ===== *)
theory Sanitize
  imports TextOps
begin

text \<open>
  \<open>agents/sanitize.util.ts\<close>: the control tokens of a prompt are replaced before a text is stored
  or shown to a model again. A token without variable part does not survive.
\<close>

section \<open>The code\<close>

text \<open>
  Characters as a regular expression with the flag \<open>i\<close> compares them: the letters of ASCII and
  Latin-1 in upper case.
\<close>

definition canonical :: "char \<Rightarrow> char" where
  "canonical c =
     (let n = of_char c :: nat
      in if 97 \<le> n \<and> n \<le> 122 \<or> 224 \<le> n \<and> n \<le> 254 \<and> n \<noteq> 247 then char_of (n - 32) else c)"

fun starts_i :: "string \<Rightarrow> string \<Rightarrow> bool" where
  "starts_i [] s = True"
| "starts_i (p # ps) [] = False"
| "starts_i (p # ps) (c # cs) = (canonical p = canonical c \<and> starts_i ps cs)"

text \<open>A literal; an opening followed by anything up to the first \<open>]\<close>; the shortest block.\<close>

definition literal_at :: "string \<Rightarrow> string \<Rightarrow> nat option" where
  "literal_at p s = (if starts_i p s then Some (length p) else None)"

definition bracket_at :: "string \<Rightarrow> string \<Rightarrow> nat option" where
  "bracket_at p s =
     (if starts_i p s then map_option (\<lambda>k. length p + k + 1) (indexOf '']'' (drop (length p) s)) else None)"

fun position_i :: "string \<Rightarrow> string \<Rightarrow> nat option" where
  "position_i p [] = (if p = [] then Some 0 else None)"
| "position_i p (c # cs) = (if starts_i p (c # cs) then Some 0 else map_option Suc (position_i p cs))"

definition block_at :: "string \<Rightarrow> string \<Rightarrow> string \<Rightarrow> nat option" where
  "block_at a b s =
     (if starts_i a s then
        map_option (\<lambda>k. length a + k + length b) (position_i b (drop (length a) s))
      else None)"

definition SIGNALS_TOKEN :: string where
  "SIGNALS_TOKEN = ''[SE'' @ [CHR 0xD1] @ ''ALES APROBADAS''"

definition CONTROL_TOKENS :: "(string \<Rightarrow> nat option) list" where
  "CONTROL_TOKENS =
     [literal_at ''[DECISION]'', literal_at ''[TOOL SCHEMA]'', bracket_at SIGNALS_TOKEN,
      literal_at ''[EPISODIOS RELEVANTES]'', bracket_at ''[OBSERVACIONES'', literal_at ''[LESSONS]'',
      literal_at ''[PAST EPISODES]'', block_at ''<tool_calls>'' ''</tool_calls>'',
      block_at (fence @ ''json'') fence, block_at fence fence]"

definition sanitizeText :: "string \<Rightarrow> string" where
  "sanitizeText s = foldl (\<lambda>t m. replaceAll m ''[stripped]'' t) s CONTROL_TOKENS"

section \<open>No literal token survives\<close>

definition LITERAL_TOKENS :: "string list" where
  "LITERAL_TOKENS =
     [''[DECISION]'', ''[TOOL SCHEMA]'', ''[EPISODIOS RELEVANTES]'', ''[LESSONS]'', ''[PAST EPISODES]'']"

fun occurs_in :: "string \<Rightarrow> string \<Rightarrow> bool" where
  "occurs_in p [] = (p = [])"
| "occurs_in p (c # cs) = (starts_i p (c # cs) \<or> occurs_in p cs)"

text \<open>A token opens a bracket, has no other, and its next letter is not the one of the replacement.\<close>

definition token :: "string \<Rightarrow> bool" where
  "token p \<longleftrightarrow> (\<exists>b bs. p = CHR ''['' # b # bs \<and> canonical b \<noteq> CHR ''S'' \<and>
     (\<forall>c\<in>set (b # bs). canonical c \<noteq> CHR ''[''))"

lemma canonical_bracket [simp]: "canonical (CHR ''['') = CHR ''[''"
  by (simp add: canonical_def)

lemma occurs_append: "occurs_in p s \<Longrightarrow> p \<noteq> [] \<Longrightarrow> occurs_in p (t @ s)"
  by (induction t) auto

lemma occurs_drop: "occurs_in p (drop k s) \<Longrightarrow> p \<noteq> [] \<Longrightarrow> occurs_in p s"
  using occurs_append [of p "drop k s" "take k s"] by simp

text \<open>A text without bracket at the front of a result was there before.\<close>

lemma starts_before:
  "\<forall>c\<in>set q. canonical c \<noteq> CHR ''['' \<Longrightarrow> starts_i q (replaceAll m (CHR ''['' # r) s) \<Longrightarrow> starts_i q s"
proof (induction q s rule: starts_i.induct)
  case (3 p ps c cs)
  show ?case
  proof (cases "m (c # cs)")
    case None
    then show ?thesis using 3 by simp
  next
    case (Some k)
    then show ?thesis using 3 by simp
  qed
qed auto

lemma canonical_replacement:
  "canonical (CHR ''s'') = CHR ''S''" "canonical (CHR ''t'') = CHR ''T''" "canonical (CHR ''r'') = CHR ''R''"
  "canonical (CHR ''i'') = CHR ''I''" "canonical (CHR ''p'') = CHR ''P''" "canonical (CHR ''e'') = CHR ''E''"
  "canonical (CHR ''d'') = CHR ''D''" "canonical (CHR '']'') = CHR '']''"
  by code_simp+

lemma token_occurs_replaced:
  assumes "token p"
  shows "occurs_in p (''[stripped]'' @ s) \<Longrightarrow> occurs_in p s"
  using assms by (auto simp: token_def canonical_replacement)

text \<open>A replacement makes no token that it does not remove.\<close>

lemma replaceAll_tokens:
  assumes "token p"
  shows "\<forall>k. starts_i p (drop k s) \<longrightarrow> m (drop k s) \<noteq> None \<Longrightarrow>
    \<not> occurs_in p (replaceAll m ''[stripped]'' s)"
proof (induction m "''[stripped]''" s rule: replaceAll.induct)
  case (1 m)
  then show ?case using assms by (auto simp: token_def)
next
  case (2 m c cs)
  show ?case
  proof (cases "m (c # cs)")
    case None
    have "\<not> occurs_in p (replaceAll m ''[stripped]'' cs)"
      using "2.hyps"(1) [OF None] "2.prems" [rule_format, of "Suc k" for k] by simp
    moreover have "\<not> starts_i p (c # cs)" using "2.prems" [rule_format, of 0] None by auto
    then have "\<not> starts_i p (c # replaceAll m ''[stripped]'' cs)"
      using assms starts_before by (auto simp: token_def)
    ultimately show ?thesis using None by simp
  next
    case (Some k)
    have "\<not> occurs_in p (replaceAll m ''[stripped]'' (drop (k - 1) cs))"
      using "2.hyps"(2) [OF Some] "2.prems" [rule_format, of "Suc (j + (k - 1))" for j] by simp
    then show ?thesis using Some token_occurs_replaced [OF assms] by auto
  qed
qed

fun token_text :: "string \<Rightarrow> bool" where
  "token_text (a # b # bs) = (a = CHR ''['' \<and> canonical b \<noteq> CHR ''S'' \<and>
     list_all (\<lambda>c. canonical c \<noteq> CHR ''['') (b # bs))"
| "token_text _ = False"

lemma token_iff: "token p \<longleftrightarrow> token_text p"
  by (cases p rule: token_text.cases) (auto simp: token_def list_all_iff)

lemma tokens_are_tokens: "p \<in> set LITERAL_TOKENS \<Longrightarrow> token p"
proof -
  have "list_all token_text LITERAL_TOKENS" by code_simp
  then show "p \<in> set LITERAL_TOKENS \<Longrightarrow> token p" by (simp add: list_all_iff token_iff)
qed

lemma literal_removed:
  "token p \<Longrightarrow> \<not> occurs_in p (replaceAll (literal_at p) ''[stripped]'' s)"
  by (rule replaceAll_tokens) (simp_all add: literal_at_def)

lemma starts_occurs: "starts_i p (drop k s) \<Longrightarrow> p \<noteq> [] \<Longrightarrow> occurs_in p s"
  by (rule occurs_drop [of p k], cases "drop k s") (auto simp: neq_Nil_conv)

lemma removed_stays:
  "token p \<Longrightarrow> \<not> occurs_in p s \<Longrightarrow> \<not> occurs_in p (replaceAll m ''[stripped]'' s)"
  by (rule replaceAll_tokens) (auto dest: starts_occurs simp: token_def)

lemma foldl_removed:
  "token p \<Longrightarrow> literal_at p \<in> set ms \<or> \<not> occurs_in p s \<Longrightarrow>
   \<not> occurs_in p (foldl (\<lambda>t m. replaceAll m ''[stripped]'' t) s ms)"
proof (induction ms arbitrary: s)
  case (Cons m ms)
  show ?case
  proof (cases "literal_at p \<in> set ms")
    case False
    then have "\<not> occurs_in p (replaceAll m ''[stripped]'' s)"
      using Cons.prems literal_removed removed_stays by auto
    then show ?thesis using Cons by simp
  qed (use Cons in simp)
qed simp

text \<open>C40: No control token survives. Whatever text comes in, from a model, a web page or a tool, none of
  the literal control tokens of the prompt occurs in the sanitized text, in any spelling of case.\<close>

theorem sanitized_has_no_control_token:
  "list_all (\<lambda>p. \<not> occurs_in p (sanitizeText s)) LITERAL_TOKENS"
  unfolding list_all_iff sanitizeText_def
proof
  fix p assume p: "p \<in> set LITERAL_TOKENS"
  have "literal_at p \<in> set CONTROL_TOKENS" using p by (auto simp: LITERAL_TOKENS_def CONTROL_TOKENS_def)
  then show "\<not> occurs_in p (foldl (\<lambda>t m. replaceAll m ''[stripped]'' t) s CONTROL_TOKENS)"
    using foldl_removed tokens_are_tokens [OF p] by blast
qed

end
