(* ===== verification/AgentWorld.thy ===== *)
theory AgentWorld
  imports KernelParser Sanitize PretestCycle TradeIntent
begin

text \<open>
  The world of \<open>agents/agents.service.ts\<close>: the world of the pretests (which contains the one of
  orders and intents), the answers of the language model, the sandbox and the plugin registry, a
  log of audit rows and outside calls, and the arrays a round of tool calls fills. The optional
  services of the constructor are present. The text of the system prompt and of the tool schemas
  is not modelled: a request carries what they are made of.
\<close>

section \<open>Types\<close>

record provider_tool =
  tl_plugin_id :: string
  tl_name :: string
  tl_plugin_type :: "string option"

record active_plugin =
  ap_id :: string
  ap_name :: string
  ap_type :: string
  ap_config :: "(string \<times> json) list"

record debate_role =
  dr_name :: string
  dr_prompt :: "string option"
  dr_block :: bool

datatype opinion = Approve | Reject | Abstain

record stance =
  ds_role :: string
  ds_stance :: opinion
  ds_confidence :: jsnum
  ds_rationale :: string
  ds_block :: bool

record consensus =
  dc_approve :: bool
  dc_auditor_blocked :: bool
  dc_stances :: "stance list"

text \<open>
  A request to the language model: the context, the decision prompt with the tools of the injected
  schema, the rest of the system prompt, the native tools.
\<close>

record llm_request =
  lq_context :: string
  lq_decision :: "(string \<times> provider_tool list) option"
  lq_system :: string
  lq_tools :: "provider_tool list option"

text \<open>An empty list of calls and an absent one are treated alike.\<close>

record llm_response =
  lr_text :: string
  lr_tool_calls :: "tool_call list"

record plugin_answer =
  an_ok :: bool
  an_result :: "json option"
  an_error :: "string option"

record search_answer =
  se_ok :: bool
  se_text :: string
  se_sources :: "json list"

text \<open>A reason is a text of the code, or comes from an exception: its message, or \<open>String(err)\<close>.\<close>

datatype why = Why string | Message exn | AsText exn

record decision =
  de_call :: tool_call
  de_allowed :: bool
  de_reason :: "why option"

datatype tool_result = Result json | PromoteResult promote_result

record sandbox_result =
  sr_plugin_id :: string
  sr_function :: string
  sr_ok :: bool
  sr_result :: "tool_result option"
  sr_error :: "why option"

record signal =
  sl_symbol :: string
  sl_action :: string

text \<open>What a past episode tells, and what a skill contributed to a signal.\<close>

record episode_hit =
  eh_cycle_id :: string
  eh_action_summary :: string
  eh_outcome_pnl :: "jsnum option"
  eh_llm_rationale :: string

record skill_contribution =
  sk_plugin_id :: string
  sk_action :: string
  sk_confidence :: jsnum

datatype verdict = Approved | Blocked | Modified

text \<open>A row of the veto ledger, as a cycle writes it.\<close>

record ledger_row =
  lg_symbol :: string
  lg_source_plugin :: string
  lg_signal_confidence :: "jsnum option"
  lg_proposed_action :: string
  lg_proposed_qty :: jsnum
  lg_verdict :: verdict
  lg_approved_action :: "string option"
  lg_approved_qty :: "jsnum option"
  lg_discipline :: "string option"
  lg_rationale :: "string option"
  lg_ref_price :: "jsnum option"
  lg_regime_tags :: "string option"
  lg_portfolio_drawdown_pct :: "jsnum option"
  lg_context_snapshot :: string

datatype turn_source = Chat | Cycle | Pretest | Reflection

text \<open>Audit rows, without cycle id, and the calls of which the order matters.\<close>

datatype agent_event =
  LlmCalled llm_request
| PluginCalled string string config
| HookCalled string
| LedgerWritten ledger_row
| AlertsRaised "json list"
| EpisodeRecorded "string list" string string string
| SignalsRecorded "(string \<times> skill_contribution list \<times> string) list" string
| Observed string nat
| SignalTracked string string
| WebSearched string
| SkillWritten string string
| ConfigMerged string string "json option"
| LessonPromoted string "string option" "string option"
| Dropped string string string
| ValidationFailed exn
| CallFailed string string exn
| ParseMiss string
| ChatTurn nat
| PretestTurn nat
| PretestCap nat
| VariantCreated string string "string list"
| Compared string string nat
| PromoteRequested string "string option"
| LessonRecorded string
| SearchAudited string bool
| ModelTrained string
| ModelError exn
| ParamTuned string string "json option" "json option" string string
| ParamTuneError exn
| DebateStarted string string
| DebateSkipped exn
| DebateStanceTaken stance
| DebateConsensusReached consensus
| SignalAudited string string string bool
| SearchCap nat nat nat
| CallCap nat nat nat
| ReactIteration nat
| ReactExhausted nat nat
| Divergence "signal list" "signal list" nat nat nat bool
| VetoHookFailed string "string option"
| VetoDecided int
| LedgerFailed exn
| CycleAborted string
| AgentCycleStart
| AgentCycleComplete nat
| AgentCycleFail exn
| SignalsProposed nat
| SignalsAdjusted nat
| NotificationSent json bool

section \<open>The world\<close>

record agent_env =
  ge_complete :: "nat \<Rightarrow> llm_request \<Rightarrow> exn + llm_response"
  ge_panel_timeout :: "nat \<Rightarrow> bool"
  ge_provider_tools :: "nat \<Rightarrow> exn + provider_tool list"
  ge_decision_prompt :: "nat \<Rightarrow> exn + string option"
  ge_active :: "nat \<Rightarrow> exn + active_plugin list"
  ge_by_id :: "nat \<Rightarrow> string \<Rightarrow> exn + active_plugin"
  ge_config_schema :: "nat \<Rightarrow> string \<Rightarrow> exn + string list option"
  ge_validate_field :: "nat \<Rightarrow> string \<Rightarrow> string \<Rightarrow> json option \<Rightarrow> exn + string list"
  ge_merge_config :: "nat \<Rightarrow> string \<Rightarrow> string \<Rightarrow> json option \<Rightarrow> exn option"
  ge_call_plugin :: "nat \<Rightarrow> string \<Rightarrow> string \<Rightarrow> config \<Rightarrow> exn + plugin_answer"
  ge_memory :: "nat \<Rightarrow> exn + string"
  ge_sandbox_cycle :: "nat \<Rightarrow> string list \<Rightarrow> config \<Rightarrow> exn + plugin_answer"
  ge_run_hook :: "nat \<Rightarrow> string \<Rightarrow> config \<Rightarrow> exn + plugin_answer"
  ge_is_pre :: "string \<Rightarrow> bool"
  ge_skill_hash :: "string list \<Rightarrow> string"
  ge_prefetch :: "nat \<Rightarrow> string \<Rightarrow> exn + episode_hit list"
  ge_equity_curve :: "nat \<Rightarrow> exn + jsnum list"
  ge_notify :: "nat \<Rightarrow> json \<Rightarrow> json \<Rightarrow> json option \<Rightarrow> exn + bool"
  ge_store :: "nat \<Rightarrow> exn option"
  ge_search :: "nat \<Rightarrow> string \<Rightarrow> exn + search_answer"
  ge_write_skill :: "nat \<Rightarrow> string \<Rightarrow> string \<Rightarrow> exn + bool \<times> string option"
  ge_training_data :: "nat \<Rightarrow> exn + json list"
  ge_debate_roles :: "nat \<Rightarrow> exn + debate_role list option"
  ge_equity :: "nat \<Rightarrow> exn + jsnum"
  ge_why_text :: "why \<Rightarrow> string"
  ge_promote_text :: "promote_result \<Rightarrow> string"

record agent_world =
  ag_pretest :: pt_world
  ag_env :: agent_env
  ag_log :: "agent_event list"
  ag_decisions :: "decision list"
  ag_results :: "sandbox_result list"
  ag_signals :: "signal list"

type_synonym 'a agent_io = "(agent_world, 'a) io"

section \<open>Primitive effects\<close>

definition in_pretest :: "'a pt_io \<Rightarrow> 'a agent_io" where
  "in_pretest m = (\<lambda>w. case m (ag_pretest w) of (r, p) \<Rightarrow> (r, w\<lparr>ag_pretest := p\<rparr>))"

abbreviation in_app :: "'a app \<Rightarrow> 'a agent_io" where
  "in_app m \<equiv> in_pretest (base m)"

text \<open>A call outside: the number of effects so far is the time of the answer.\<close>

definition ag_ask :: "(agent_env \<Rightarrow> nat \<Rightarrow> exn + 'a) \<Rightarrow> 'a agent_io" where
  "ag_ask f =
     (\<lambda>w. (f (ag_env w) (w_calls (pt_base (ag_pretest w))),
           w\<lparr>ag_pretest := (ag_pretest w)\<lparr>pt_base := tock (pt_base (ag_pretest w))\<rparr>\<rparr>))"

definition ag_note :: "agent_event \<Rightarrow> unit agent_io" where
  "ag_note ev = modify (\<lambda>w. w\<lparr>ag_log := ag_log w @ [ev]\<rparr>)"

text \<open>An audit row: one insertion, which may fail.\<close>

definition ag_audit :: "agent_event \<Rightarrow> unit agent_io" where
  "ag_audit ev = await (in_app (db_read (\<lambda>_. ()))) (\<lambda>_. ag_note ev)"

definition push_decision :: "tool_call \<Rightarrow> bool \<Rightarrow> why option \<Rightarrow> unit agent_io" where
  "push_decision tc allowed reason =
     modify (\<lambda>w. w\<lparr>ag_decisions := ag_decisions w @ [\<lparr>de_call = tc, de_allowed = allowed, de_reason = reason\<rparr>]\<rparr>)"

definition push_result :: "string \<Rightarrow> string \<Rightarrow> bool \<Rightarrow> tool_result option \<Rightarrow> why option \<Rightarrow> unit agent_io" where
  "push_result p f ok r e =
     modify (\<lambda>w. w\<lparr>ag_results := ag_results w @
       [\<lparr>sr_plugin_id = p, sr_function = f, sr_ok = ok, sr_result = r, sr_error = e\<rparr>]\<rparr>)"

definition push_signal :: "string \<Rightarrow> string \<Rightarrow> unit agent_io" where
  "push_signal symb action =
     modify (\<lambda>w. w\<lparr>ag_signals := ag_signals w @ [\<lparr>sl_symbol = symb, sl_action = action\<rparr>]\<rparr>)"

definition complete :: "llm_request \<Rightarrow> llm_response agent_io" where
  "complete q = await (ag_note (LlmCalled q)) (\<lambda>_. ag_ask (\<lambda>e n. ge_complete e n q))"

definition call_plugin :: "string \<Rightarrow> string \<Rightarrow> config \<Rightarrow> plugin_answer agent_io" where
  "call_plugin p f args =
     await (ag_note (PluginCalled p f args)) (\<lambda>_. ag_ask (\<lambda>e n. ge_call_plugin e n p f args))"

text \<open>\<open>try { return value } catch { return fallback }\<close>.\<close>

definition or_else :: "'a agent_io \<Rightarrow> 'a \<Rightarrow> 'a agent_io" where
  "or_else m x = attempt m (\<lambda>_. ret x)"

text \<open>An optional error as a result.\<close>

definition unless_error :: "exn option \<Rightarrow> exn + unit" where
  "unless_error e = (case e of None \<Rightarrow> Inr () | Some x \<Rightarrow> Inl x)"

end
