(* ===== verification/DebatePanel.thy ===== *)
theory DebatePanel
  imports AgentWorld
begin

text \<open>
  \<open>agents/debate.service.ts\<close>: a panel of roles gives its stances on a tool call, and a consensus
  is made of them. The requests of the roles are sent together; here they are answered in order,
  and the timeout is decided when all have been sent.
\<close>

section \<open>Reading a stance\<close>

definition abstainFor :: "string \<Rightarrow> stance" where
  "abstainFor roleName =
     \<lparr>ds_role = roleName, ds_stance = Abstain, ds_confidence = j0, ds_rationale = [], ds_block = False\<rparr>"

definition extractBareObject :: "string \<Rightarrow> string option" where
  "extractBareObject = bracketed (CHR ''{'') (CHR ''}'')"

definition coerceStance :: "string \<Rightarrow> opinion" where
  "coerceStance raw =
     (if raw = ''approve'' then Approve else if raw = ''reject'' then Reject else Abstain)"

definition stance_of :: "string \<Rightarrow> json \<Rightarrow> stance" where
  "stance_of roleName obj =
     \<lparr>ds_role = roleName,
      ds_stance = coerceStance (case as_string (field ''stance'' obj) of Some s \<Rightarrow> s | None \<Rightarrow> []),
      ds_confidence = jmax j0 (jmin j1 (case as_number (field ''confidence'' obj) of Some n \<Rightarrow> n | None \<Rightarrow> j0)),
      ds_rationale = take 500 (sanitizeText (case as_string (field ''rationale'' obj) of Some s \<Rightarrow> s | None \<Rightarrow> [])),
      ds_block = False\<rparr>"

definition parseStance :: "string \<Rightarrow> string \<Rightarrow> stance" where
  "parseStance reply roleName =
     (case first_some (fenced_json reply) (extractBareObject reply) of
        None \<Rightarrow> abstainFor roleName
      | Some rawJson \<Rightarrow>
          if rawJson = [] then abstainFor roleName
          else (case json_parse rawJson of
             Some (JObj ps) \<Rightarrow> stance_of roleName (JObj ps)
           | _ \<Rightarrow> abstainFor roleName))"

section \<open>Consensus\<close>

definition vote :: "stance \<Rightarrow> jsnum" where
  "vote s = jmul (ds_confidence s)
     (case ds_stance s of Approve \<Rightarrow> j1 | Reject \<Rightarrow> jneg j1 | Abstain \<Rightarrow> j0)"

definition score :: "stance list \<Rightarrow> jsnum" where
  "score stances = foldl (\<lambda>a s. jadd a (vote s)) j0 stances"

definition vetoes :: "stance \<Rightarrow> bool" where
  "vetoes s \<longleftrightarrow> ds_block s \<and> ds_stance s = Reject"

definition synthesizeConsensus :: "stance list \<Rightarrow> consensus" where
  "synthesizeConsensus stances =
     (if list_ex vetoes stances
      then \<lparr>dc_approve = False, dc_auditor_blocked = True, dc_stances = stances\<rparr>
      else \<lparr>dc_approve = jgt (score stances) j0, dc_auditor_blocked = False, dc_stances = stances\<rparr>)"

section \<open>The panel\<close>

definition role_request :: "string \<Rightarrow> debate_role \<Rightarrow> llm_request" where
  "role_request summary role =
     \<lparr>lq_context = summary, lq_decision = None,
      lq_system = (case dr_prompt role of Some p \<Rightarrow> p | None \<Rightarrow> []), lq_tools = None\<rparr>"

definition role_stance :: "string \<Rightarrow> debate_role \<Rightarrow> stance agent_io" where
  "role_stance summary role =
     await (or_else (await (complete (role_request summary role)) (\<lambda>res.
              ret (parseStance (lr_text res) (dr_name role))))
            (abstainFor (dr_name role))) (\<lambda>s.
     ret (s\<lparr>ds_block := dr_block role\<rparr>))"

primrec role_stances :: "string \<Rightarrow> debate_role list \<Rightarrow> stance list agent_io" where
  "role_stances summary [] = ret []"
| "role_stances summary (r # rs) =
     await (role_stance summary r) (\<lambda>s. await (role_stances summary rs) (\<lambda>ss. ret (s # ss)))"

definition runPanel :: "string \<Rightarrow> debate_role list \<Rightarrow> consensus agent_io" where
  "runPanel summary roles =
     await (role_stances summary roles) (\<lambda>stances.
     await (ag_ask (\<lambda>e n. Inr (ge_panel_timeout e n))) (\<lambda>late.
     if late then throw (Exn ''Error: panel timeout'') else ret (synthesizeConsensus stances)))"

section \<open>Facts\<close>

text \<open>A stance is in order: its confidence is a fraction and its rationale is bounded and clean.\<close>

definition sound_stance :: "stance \<Rightarrow> bool" where
  "sound_stance s \<longleftrightarrow>
     jge (ds_confidence s) j0 \<and> jle (ds_confidence s) j1 \<and> length (ds_rationale s) \<le> 500"

lemma sound_abstain: "sound_stance (abstainFor r)"
  by (simp add: sound_stance_def abstainFor_def)

lemma sound_block [simp]: "sound_stance (s\<lparr>ds_block := b\<rparr>) = sound_stance s"
  by (simp add: sound_stance_def)

lemma clamped: "is_finite x \<Longrightarrow> jle j0 (jmax j0 (jmin j1 x)) \<and> jle (jmax j0 (jmin j1 x)) j1"
  by (cases x) (auto simp: jmax_def jmin_def)

text \<open>A role that vetoes decides, whatever the others say; without one, only a positive score approves.\<close>

lemma auditor_veto: "list_ex vetoes ss \<Longrightarrow> \<not> dc_approve (synthesizeConsensus ss)"
  by (simp add: synthesizeConsensus_def)

lemma approved_consensus:
  "dc_approve (synthesizeConsensus ss) \<longleftrightarrow> \<not> list_ex vetoes ss \<and> jgt (score ss) j0"
  by (simp add: synthesizeConsensus_def)

end
