(* ===== verification/AgentTools.thy ===== *)
theory AgentTools
  imports DebatePanel
begin

text \<open>
  \<open>agents/agents.service.ts\<close>, the handling of tool calls: validation against the active plugins and
  the registry of kernel tools, the kernel tools themselves, the debate gate, and the dispatch of
  a round of calls under its budgets.
\<close>

section \<open>Constants\<close>

definition MIN_ML_SAMPLES :: nat where "MIN_ML_SAMPLES = 50"
definition MAX_PRETEST_VARIANTS :: nat where "MAX_PRETEST_VARIANTS = 20"
definition MAX_WEB_SEARCH_CALLS_PER_ITERATION :: nat where "MAX_WEB_SEARCH_CALLS_PER_ITERATION = 3"
definition MAX_WEB_SEARCH_CALLS_PER_CYCLE :: nat where "MAX_WEB_SEARCH_CALLS_PER_CYCLE = 5"

definition KERNEL_TOOL_REGISTRY :: "string list" where
  "KERNEL_TOOL_REGISTRY =
     [''write_skill'', ''create_pretest_variant'', ''run_pretest_compare'', ''promote_pretest'',
      ''record_lesson'', ''train_ml_model'', ''tune_plugin_param'', ''web_search'']"

definition KERNEL_ALWAYS_ALLOWED_TOOLS :: "string list" where
  "KERNEL_ALWAYS_ALLOWED_TOOLS = [''web_search'']"

section \<open>Validation\<close>

definition is_kernel :: "tool_call \<Rightarrow> bool" where
  "is_kernel tc \<longleftrightarrow> tc_plugin_id tc = ''kernel''"

definition tool_name :: "tool_call \<Rightarrow> string" where
  "tool_name tc = tc_plugin_id tc @ ''__'' @ tc_function tc"

definition resolveDropReason ::
  "tool_call \<Rightarrow> active_plugin list \<Rightarrow> provider_tool list \<Rightarrow> bool \<Rightarrow> bool \<Rightarrow> string option" where
  "resolveDropReason call activePlugins tools virtual_only allowKernelTools =
     (if is_kernel call then
        (if \<not> List.member KERNEL_TOOL_REGISTRY (tc_function call) then Some ''unknown_kernel_tool''
         else if List.member KERNEL_ALWAYS_ALLOWED_TOOLS (tc_function call) then None
         else if \<not> allowKernelTools then Some ''kernel_source_not_allowed''
         else None)
      else if virtual_only \<and>
        (case find (\<lambda>p. ap_id p = tc_plugin_id call) activePlugins of
           Some p \<Rightarrow> ap_type p = ''provider'' | None \<Rightarrow> False)
      then Some ''virtual_mode_provider_blocked''
      else if \<not> list_ex (\<lambda>p. ap_id p = tc_plugin_id call) activePlugins then
        Some (if list_ex (\<lambda>t. tl_plugin_id t = tc_plugin_id call) tools
              then ''plugin_inactive'' else ''plugin_not_found'')
      else if \<not> list_ex (\<lambda>t. tl_name t = tool_name call) tools then Some ''function_not_declared''
      else None)"

primrec keep_valid ::
  "(tool_call \<Rightarrow> string option) \<Rightarrow> tool_call list \<Rightarrow> tool_call list agent_io" where
  "keep_valid reason_of [] = ret []"
| "keep_valid reason_of (c # cs) =
     (case reason_of c of
        Some reason \<Rightarrow>
          await (ag_audit (Dropped (tc_plugin_id c) (tc_function c) reason)) (\<lambda>_. keep_valid reason_of cs)
      | None \<Rightarrow> await (keep_valid reason_of cs) (\<lambda>valid. ret (c # valid)))"

definition validateToolCalls ::
  "tool_call list \<Rightarrow> provider_tool list \<Rightarrow> active_plugin list option \<Rightarrow> bool \<Rightarrow> turn_source \<Rightarrow>
     tool_call list agent_io" where
  "validateToolCalls calls tools preloaded virtual_only source =
     (if calls = [] then ret []
      else attempt
        (await (case preloaded of Some ps \<Rightarrow> ret ps | None \<Rightarrow> ag_ask ge_active) (\<lambda>activePlugins.
         keep_valid (\<lambda>c. resolveDropReason c activePlugins tools virtual_only (source = Reflection)) calls))
        (\<lambda>err. await (ag_audit (ValidationFailed err)) (\<lambda>_. ret [])))"

section \<open>Kernel tools\<close>

definition refuse_call :: "tool_call \<Rightarrow> string \<Rightarrow> unit agent_io" where
  "refuse_call tc reason =
     await (push_decision tc False (Some (Why reason))) (\<lambda>_.
     push_result ''kernel'' (tc_function tc) False None (Some (Why reason)))"

definition accept_call :: "tool_call \<Rightarrow> json \<Rightarrow> unit agent_io" where
  "accept_call tc result =
     await (push_decision tc True None) (\<lambda>_.
     push_result ''kernel'' (tc_function tc) True (Some (Result result)) None)"

definition string_arg :: "tool_call \<Rightarrow> string \<Rightarrow> string" where
  "string_arg tc k = (case as_string (tc_args tc k) of Some s \<Rightarrow> s | None \<Rightarrow> [])"

text \<open>The members whose value is not \<open>undefined\<close>: what JSON keeps of an object.\<close>

definition object :: "(string \<times> json option) list \<Rightarrow> json" where
  "object ps = JObj (List.map_filter (\<lambda>(k, v). map_option (Pair k) v) ps)"

definition kernelWriteSkill :: "tool_call \<Rightarrow> unit agent_io" where
  "kernelWriteSkill tc =
     (let skill = string_arg tc ''skill''; newBody = string_arg tc ''new_body''
      in await (ag_note (SkillWritten skill newBody)) (\<lambda>_.
         await (ag_ask (\<lambda>e n. ge_write_skill e n skill newBody)) (\<lambda>(ok, reason).
         await (push_decision tc ok (if ok then None else map_option Why reason)) (\<lambda>_.
         push_result ''kernel'' ''write_skill'' ok
           (Some (Result (object [(''ok'', Some (JBool ok)), (''reason'', map_option JStr reason)]))) None))))"

definition variant_configs :: "json option \<Rightarrow> (string \<Rightarrow> config option) option" where
  "variant_configs v =
     (case v of Some (JObj ps) \<Rightarrow> Some (\<lambda>k. map_option (\<lambda>c f. field f c) (map_of ps k)) | _ \<Rightarrow> None)"

definition kernelCreatePretestVariant :: "tool_call \<Rightarrow> unit agent_io" where
  "kernelCreatePretestVariant tc =
     (let name = string_arg tc ''name'';
          plugin_ids = (case as_array (tc_args tc ''plugin_ids'') of
             Some xs \<Rightarrow> List.map_filter (\<lambda>x. as_string (Some x)) xs | None \<Rightarrow> []);
          plugin_configs = variant_configs (tc_args tc ''plugin_configs'')
      in if name = [] \<or> plugin_ids = [] then refuse_call tc ''invalid_variant_args''
         else
           await (in_pretest pretest_findAll) (\<lambda>existing.
           if MAX_PRETEST_VARIANTS \<le> length existing then
             await (ag_audit (PretestCap (length existing))) (\<lambda>_. refuse_call tc ''pretest_cap_reached'')
           else
             await (in_pretest (pretest_create \<lparr>cd_name = name, cd_description = None,
                cd_initial_capital = None, cd_plugin_ids = plugin_ids, cd_plugin_configs = plugin_configs\<rparr>)) (\<lambda>pf.
             await (ag_audit (VariantCreated (vf_id pf) name plugin_ids)) (\<lambda>_.
             accept_call tc (object [(''id'', Some (JStr (vf_id pf))), (''name'', Some (JStr (vf_name pf)))])))))"

definition comparison_json :: "pretest_compare \<Rightarrow> json" where
  "comparison_json cmp =
     object [(''winner_by_return'', Some (JStr (pc_winner_by_return cmp))),
       (''winner_by_risk_adj'', Some (JStr (pc_winner_by_risk_adj cmp))),
       (''portfolios'', Some (JArr (map (\<lambda>r. object [(''name'', Some (JStr (cr_name r))),
          (''return_pct'', Some (JNum (cr_return_pct r))),
          (''gate_status'', Some (JStr (if cr_ready r then ''READY'' else ''NOT_READY'')))])
          (pc_portfolios cmp))))]"

definition kernelRunPretestCompare :: "tool_call \<Rightarrow> unit agent_io" where
  "kernelRunPretestCompare tc =
     await (in_pretest pretest_compare_all) (\<lambda>cmp.
     await (ag_audit (Compared (pc_winner_by_return cmp) (pc_winner_by_risk_adj cmp)
             (length (pc_portfolios cmp)))) (\<lambda>_.
     accept_call tc (comparison_json cmp)))"

definition promote_ok :: "promote_result \<Rightarrow> bool" where
  "promote_ok r = (case r of Applied _ _ \<Rightarrow> True | _ \<Rightarrow> False)"

definition kernelPromotePretest :: "tool_call \<Rightarrow> unit agent_io" where
  "kernelPromotePretest tc =
     (let pretest_id = string_arg tc ''pretest_id''
      in if pretest_id = [] then refuse_call tc ''invalid_promote_args''
         else
           await (ag_audit (PromoteRequested pretest_id (as_string (tc_args tc ''rationale'')))) (\<lambda>_.
           await (attempt (await (in_pretest (promote pretest_id False)) (\<lambda>r. ret (Inr r))) (\<lambda>e. ret (Inl e))) (\<lambda>res.
           case res of
             Inl err \<Rightarrow>
               (let why = (if err = not_found_exception then Why ''not_found'' else AsText err)
                in await (push_decision tc False (Some why)) (\<lambda>_.
                   push_result ''kernel'' (tc_function tc) False None (Some why)))
           | Inr r \<Rightarrow>
               await (push_decision tc (promote_ok r) None) (\<lambda>_.
               push_result ''kernel'' (tc_function tc) (promote_ok r) (Some (PromoteResult r)) None))))"

text \<open>\<open>longTermMemory.promote\<close> catches its own errors.\<close>

definition kernelRecordLesson :: "tool_call \<Rightarrow> unit agent_io" where
  "kernelRecordLesson tc =
     (let lesson = js_trim (string_arg tc ''text'');
          episode_id = as_string (tc_args tc ''episode_id'');
          rationale = as_string (tc_args tc ''rationale'')
      in if lesson = [] then refuse_call tc ''invalid_lesson_args''
         else
           await (ag_note (LessonPromoted (sanitizeText lesson) episode_id (map_option sanitizeText rationale))) (\<lambda>_.
           await (ag_audit (LessonRecorded (take 200 (sanitizeText lesson)))) (\<lambda>_.
           accept_call tc (object [(''text'', Some (JStr lesson)), (''episode_id'', map_option JStr episode_id),
             (''rationale'', map_option JStr rationale)]))))"

definition kernelWebSearch :: "tool_call \<Rightarrow> unit agent_io" where
  "kernelWebSearch tc =
     (let query = js_trim (string_arg tc ''query'')
      in if query = [] then refuse_call tc ''invalid_query''
         else
           await (ag_note (WebSearched query)) (\<lambda>_.
           await (ag_ask (\<lambda>e n. ge_search e n query)) (\<lambda>result.
           await (ag_audit (SearchAudited (take 300 query) (se_ok result))) (\<lambda>_.
           await (push_decision tc True None) (\<lambda>_.
           push_result ''kernel'' (tc_function tc) (se_ok result)
             (Some (Result (object [(''text'', Some (JStr (se_text result))),
               (''sources'', Some (JArr (se_sources result)))]))) None)))))"

end
