(* ===== verification/AgentDispatch.thy ===== *)
theory AgentDispatch
  imports AgentTools
begin

text \<open>
  \<open>agents/agents.service.ts\<close>, continued: training of the signal model and tuning of a plugin
  parameter (two kernel tools that write configuration), the debate gate, and the dispatch of a
  round of calls.
\<close>

section \<open>Training\<close>

text \<open>\<open>res.result ?? {}\<close>, of which only properties are read.\<close>

definition result_field :: "plugin_answer \<Rightarrow> string \<Rightarrow> json option" where
  "result_field res k = Option.bind (an_result res) (field k)"

definition status_or_cold :: "json option \<Rightarrow> string" where
  "status_or_cold v = (case as_string v of Some s \<Rightarrow> s | None \<Rightarrow> ''cold_start'')"

definition store_model :: "plugin_answer \<Rightarrow> string \<Rightarrow> unit agent_io" where
  "store_model res blob =
     await (in_app current_ts) (\<lambda>trained_at.
     await (in_app (kv_set ''ml:model:current'' (stringify (object
        [(''blob_b64'', Some (JStr blob)), (''active_skill_hash'', result_field res ''active_skill_hash''),
         (''feature_names'', result_field res ''feature_names''), (''n_samples'', result_field res ''n_samples''),
         (''trained_at'', Some (JStr trained_at))])))) (\<lambda>_.
     ag_audit (ModelTrained ''trained'')))"

definition train_model :: "tool_call \<Rightarrow> json list \<Rightarrow> unit agent_io" where
  "train_model tc rows =
     await (call_plugin ''ml-feature-extractor'' ''train'' (map_of [(''training_data'', JArr rows)])) (\<lambda>res.
     await (case as_string (result_field res ''model_blob'') of
              Some blob \<Rightarrow>
                if an_ok res \<and> result_field res ''status'' = Some (JStr ''trained'') then store_model res blob
                else ag_audit (ModelTrained (status_or_cold (result_field res ''status'')))
            | None \<Rightarrow> ag_audit (ModelTrained (status_or_cold (result_field res ''status'')))) (\<lambda>_.
     accept_call tc (object [(''status'', Some (JStr (status_or_cold (result_field res ''status''))))])))"

definition kernelTrainMlModel :: "tool_call \<Rightarrow> unit agent_io" where
  "kernelTrainMlModel tc =
     attempt
       (await (ag_ask ge_training_data) (\<lambda>rows.
        if length rows < MIN_ML_SAMPLES then
          await (ag_audit (ModelTrained ''cold_start'')) (\<lambda>_.
          accept_call tc (object [(''status'', Some (JStr ''cold_start'')),
            (''n_samples'', Some (JNum (of_count (int (length rows)))))]))
        else train_model tc rows))
       (\<lambda>e. await (ag_audit (ModelError e)) (\<lambda>_.
            await (push_decision tc False (Some (Why ''ml_train_failed''))) (\<lambda>_.
            push_result ''kernel'' (tc_function tc) False None (Some (AsText e)))))"

section \<open>Tuning\<close>

text \<open>JavaScript's truth of a value.\<close>

fun truthy_json :: "json option \<Rightarrow> bool" where
  "truthy_json None = False"
| "truthy_json (Some JNull) = False"
| "truthy_json (Some (JBool b)) = b"
| "truthy_json (Some (JNum x)) = (x \<noteq> NaN \<and> x \<noteq> j0)"
| "truthy_json (Some (JStr s)) = (s \<noteq> [])"
| "truthy_json (Some _) = True"

record tune_args =
  ta_cycle_id :: string
  ta_plugin_id :: string
  ta_param :: string
  ta_value :: "json option"
  ta_hypothesis :: string
  ta_plugin_config :: "(string \<times> json) list"
  ta_discipline_config :: "(string \<times> json) list"

text \<open>The chain ends at a gate, or with the value before and the id of the journal entry.\<close>

type_synonym tune_result = "string + json option \<times> string"

text \<open>\<open>JSON.parse\<close> of a key, an absent or empty one being an empty array.\<close>

definition parse_error :: exn where
  "parse_error = Exn ''SyntaxError''"

definition read_journal :: "json agent_io" where
  "read_journal =
     await (in_app (kv_get ''param:journal'')) (\<lambda>raw.
     case raw of
       None \<Rightarrow> ret (JArr [])
     | Some s \<Rightarrow>
         if s = [] then ret (JArr [])
         else (case json_parse s of None \<Rightarrow> throw parse_error | Some v \<Rightarrow> ret v))"

definition merge_config :: "string \<Rightarrow> string \<Rightarrow> json option \<Rightarrow> unit agent_io" where
  "merge_config p param v =
     await (ag_note (ConfigMerged p param v)) (\<lambda>_.
     ag_ask (\<lambda>e n. unless_error (ge_merge_config e n p param v)))"

definition succeeds :: "unit agent_io \<Rightarrow> bool agent_io" where
  "succeeds m = or_else (await m (\<lambda>_. ret True)) False"

text \<open>An absent journal makes \<open>JSON.stringify\<close> undefined, which the database refuses.\<close>

definition persist_journal :: "json option \<Rightarrow> bool agent_io" where
  "persist_journal journal =
     (case journal of
        None \<Rightarrow> ret False
      | Some j \<Rightarrow> succeeds (in_app (kv_set ''param:journal'' (stringify j))))"

definition apply_tuning :: "tune_args \<Rightarrow> plugin_answer \<Rightarrow> tune_result agent_io" where
  "apply_tuning a jeRes =
     await (persist_journal (result_field jeRes ''journal'')) (\<lambda>persisted.
     if \<not> persisted then ret (Inl ''journal_persist_failed'')
     else
       await (succeeds (merge_config (ta_plugin_id a) (ta_param a) (ta_value a))) (\<lambda>applyOk.
       if \<not> applyOk then ret (Inl ''apply_failed'')
       else ret (Inr (map_of (ta_plugin_config a) (ta_param a),
         case as_string (result_field jeRes ''entry_id'') of Some s \<Rightarrow> s | None \<Rightarrow> []))))"

definition runTuneChain :: "tune_args \<Rightarrow> tune_result agent_io" where
  "runTuneChain a =
     await read_journal (\<lambda>journal.
     await (call_plugin ''param-discipline'' ''check_lock''
        (map_of [(''plugin_id'', JStr (ta_plugin_id a)), (''journal'', journal),
                 (''config'', JObj (ta_discipline_config a))])) (\<lambda>lockRes.
     if \<not> an_ok lockRes then ret (Inl ''lock_check_failed'')
     else if truthy_json (result_field lockRes ''locked'') then ret (Inl ''param_locked'')
     else
       (let before = map_of (ta_plugin_config a) (ta_param a)
        in await (call_plugin ''param-discipline'' ''journal_entry''
             (map_of [(''plugin_id'', JStr (ta_plugin_id a)),
                (''params_before'', object [(ta_param a, before)]),
                (''params_after'', object [(ta_param a, ta_value a)]),
                (''reason'', JStr (ta_hypothesis a)), (''hypothesis'', JStr (ta_hypothesis a)),
                (''cycle_id'', JStr (ta_cycle_id a)), (''journal'', journal),
                (''config'', JObj (ta_discipline_config a))])) (\<lambda>jeRes.
           if \<not> an_ok jeRes \<or> \<not> truthy_json (result_field jeRes ''ok'') then ret (Inl ''journal_rejected'')
           else apply_tuning a jeRes))))"

text \<open>\<open>param in schema\<close> is also true of the properties every object inherits.\<close>

definition OBJECT_PROPERTIES :: "string list" where
  "OBJECT_PROPERTIES =
     [''constructor'', ''__defineGetter__'', ''__defineSetter__'', ''hasOwnProperty'', ''__lookupGetter__'',
      ''__lookupSetter__'', ''isPrototypeOf'', ''propertyIsEnumerable'', ''toString'', ''valueOf'',
      ''__proto__'', ''toLocaleString'']"

definition in_schema :: "string \<Rightarrow> string list option \<Rightarrow> bool" where
  "in_schema param schema =
     (case schema of None \<Rightarrow> False
      | Some names \<Rightarrow> List.member names param \<or> List.member OBJECT_PROPERTIES param)"

definition tune_checked ::
  "string \<Rightarrow> tool_call \<Rightarrow> string \<Rightarrow> string \<Rightarrow> active_plugin \<Rightarrow> unit agent_io" where
  "tune_checked cycle_id tc plugin_id param plugin =
     await (ag_ask (\<lambda>e n. ge_validate_field e n plugin_id param (tc_args tc ''value''))) (\<lambda>validationErrors.
     if validationErrors \<noteq> [] then refuse_call tc ''invalid_value''
     else
       await (ag_ask ge_active) (\<lambda>activePlugins.
       case find (\<lambda>p. ap_id p = ''param-discipline'') activePlugins of
         None \<Rightarrow> refuse_call tc ''discipline_inactive''
       | Some disciplinePlugin \<Rightarrow>
           await (runTuneChain \<lparr>ta_cycle_id = cycle_id, ta_plugin_id = plugin_id, ta_param = param,
              ta_value = tc_args tc ''value'', ta_hypothesis = string_arg tc ''hypothesis'',
              ta_plugin_config = ap_config plugin,
              ta_discipline_config = ap_config disciplinePlugin\<rparr>) (\<lambda>chainResult.
           case chainResult of
             Inl gateReason \<Rightarrow> refuse_call tc gateReason
           | Inr (before, entry_id) \<Rightarrow>
               await (ag_audit (ParamTuned plugin_id param before (tc_args tc ''value'')
                       (string_arg tc ''hypothesis'') entry_id)) (\<lambda>_.
               accept_call tc (object [(''ok'', Some (JBool True)), (''entry_id'', Some (JStr entry_id))])))))"

definition kernelTunePluginParam :: "string \<Rightarrow> tool_call \<Rightarrow> unit agent_io" where
  "kernelTunePluginParam cycle_id tc =
     (let plugin_id = string_arg tc ''plugin_id''; param = string_arg tc ''param''
      in attempt
        (await (or_else (await (ag_ask (\<lambda>e n. ge_by_id e n plugin_id)) (\<lambda>p. ret (Some p))) None) (\<lambda>found.
         case found of
           None \<Rightarrow> refuse_call tc ''plugin_not_found''
         | Some plugin \<Rightarrow>
             if ap_type plugin \<noteq> ''skill'' then refuse_call tc ''not_a_skill''
             else
               await (ag_ask (\<lambda>e n. ge_config_schema e n plugin_id)) (\<lambda>schema.
               if \<not> in_schema param schema then refuse_call tc ''param_not_in_schema''
               else tune_checked cycle_id tc plugin_id param plugin)))
        (\<lambda>e. await (ag_audit (ParamTuneError e)) (\<lambda>_. refuse_call tc ''tune_error'')))"

section \<open>Kernel dispatch\<close>

text \<open>Names outside the registry have been dropped by the validation.\<close>

definition dispatchKernelTool :: "string \<Rightarrow> tool_call \<Rightarrow> unit agent_io" where
  "dispatchKernelTool cycle_id tc =
     (let f = tc_function tc
      in if f = ''write_skill'' then kernelWriteSkill tc
         else if f = ''create_pretest_variant'' then kernelCreatePretestVariant tc
         else if f = ''run_pretest_compare'' then kernelRunPretestCompare tc
         else if f = ''promote_pretest'' then kernelPromotePretest tc
         else if f = ''record_lesson'' then kernelRecordLesson tc
         else if f = ''train_ml_model'' then kernelTrainMlModel tc
         else if f = ''tune_plugin_param'' then kernelTunePluginParam cycle_id tc
         else if f = ''web_search'' then kernelWebSearch tc
         else push_decision tc False (Some (Why ''unknown_kernel_tool'')))"

end
