(* ===== verification/AgentRound.thy ===== *)
theory AgentRound
  imports AgentDispatch
begin

text \<open>
  \<open>agents/agents.service.ts\<close>, a round of tool calls: what the model may see, the debate gate of a
  high-impact call, the dispatch of one call with its signal and trade intent, and the round
  itself with its two budgets.
\<close>

section \<open>Configuration\<close>

definition readGatingConfig :: "bool agent_io" where
  "readGatingConfig =
     or_else (await (in_app (kv_get ''gating.hide_trades_when_cb_open'')) (\<lambda>raw. ret (kvBool raw True))) True"

definition is_provider_tool :: "provider_tool \<Rightarrow> bool" where
  "is_provider_tool t \<longleftrightarrow> tl_plugin_type t = Some ''provider''"

definition breaker_open :: "bool agent_io" where
  "breaker_open =
     or_else (await (in_app (kv_get ''scheduler:circuit_breaker'')) (\<lambda>raw.
       ret (case raw of None \<Rightarrow> False
            | Some s \<Rightarrow> Option.bind (json_parse s) (field ''state'') = Some (JStr ''open'')))) False"

definition computeVisibleTools :: "provider_tool list \<Rightarrow> bool \<Rightarrow> provider_tool list agent_io" where
  "computeVisibleTools effectiveTools virtual_only =
     (if \<not> list_ex is_provider_tool effectiveTools then ret effectiveTools
      else
        await breaker_open (\<lambda>cbOpen.
        await readGatingConfig (\<lambda>hideTradesWhenCbOpen.
        if (hideTradesWhenCbOpen \<and> cbOpen) \<or> virtual_only
        then ret (filter (\<lambda>t. \<not> is_provider_tool t) effectiveTools)
        else ret effectiveTools)))"

record debate_config =
  db_enabled :: bool
  db_minPct :: jsnum
  db_maxRoles :: nat
  db_fail_block :: bool

definition DEBATE_DEFAULTS :: debate_config where
  "DEBATE_DEFAULTS = \<lparr>db_enabled = False, db_minPct = js (1 / 10), db_maxRoles = 3, db_fail_block = False\<rparr>"

text \<open>\<open>Math.trunc\<close>, and the integer of a clamped number.\<close>

definition jtrunc :: "jsnum \<Rightarrow> jsnum" where
  "jtrunc x = (if jlt x j0 then jceil x else jfloor x)"

fun whole :: "jsnum \<Rightarrow> nat" where
  "whole (Fin r) = nat \<lfloor>r\<rfloor>"
| "whole _ = 0"

definition clamp_count :: "nat \<Rightarrow> nat \<Rightarrow> jsnum \<Rightarrow> nat" where
  "clamp_count limit fallback n =
     (if is_finite n then whole (jmin (of_count (int limit)) (jmax j1 (jtrunc n))) else fallback)"

definition debate_config_from ::
  "string option \<Rightarrow> string option \<Rightarrow> string option \<Rightarrow> string option \<Rightarrow> debate_config" where
  "debate_config_from rawEnabled rawMinPct rawMaxRoles rawFailMode =
     (let parsedPct = kvNum rawMinPct NaN
      in \<lparr>db_enabled = kvBool rawEnabled False,
          db_minPct = (if is_finite parsedPct \<and> jgt parsedPct j0 then parsedPct else db_minPct DEBATE_DEFAULTS),
          db_maxRoles = clamp_count 5 (db_maxRoles DEBATE_DEFAULTS) (kvNum rawMaxRoles NaN),
          db_fail_block = (kvStr rawFailMode = Some ''block'')\<rparr>)"

definition readDebateConfig :: "debate_config agent_io" where
  "readDebateConfig =
     or_else
       (await (in_app (kv_get ''debate.enabled'')) (\<lambda>rawEnabled.
        await (in_app (kv_get ''debate.min_notional_pct'')) (\<lambda>rawMinPct.
        await (in_app (kv_get ''debate.max_roles'')) (\<lambda>rawMaxRoles.
        await (in_app (kv_get ''debate.fail_mode'')) (\<lambda>rawFailMode.
        ret (debate_config_from rawEnabled rawMinPct rawMaxRoles rawFailMode))))))
       DEBATE_DEFAULTS"

section \<open>The debate gate\<close>

definition is_emit_intent :: "tool_call \<Rightarrow> bool" where
  "is_emit_intent tc \<longleftrightarrow> tc_plugin_id tc = ''decision'' \<and> tc_function tc = ''emit_trade_intent''"

definition is_exit :: "tool_call \<Rightarrow> bool" where
  "is_exit tc \<longleftrightarrow> is_emit_intent tc \<and> tc_args tc ''action'' = Some (JStr ''exit'')"

definition is_promote :: "tool_call \<Rightarrow> bool" where
  "is_promote tc \<longleftrightarrow> is_kernel tc \<and> tc_function tc = ''promote_pretest''"

text \<open>\<open>args['qty'] ?? args['quantity']\<close>.\<close>

definition raw_qty :: "tool_call \<Rightarrow> json option" where
  "raw_qty tc =
     (case tc_args tc ''qty'' of
        None \<Rightarrow> tc_args tc ''quantity'' | Some JNull \<Rightarrow> tc_args tc ''quantity'' | Some v \<Rightarrow> Some v)"

definition notional_reaches :: "tool_call \<Rightarrow> jsnum \<Rightarrow> bool agent_io" where
  "notional_reaches tc equityPctThreshold =
     (let qty = json_to_number (raw_qty tc)
      in if \<not> is_finite qty \<or> jle qty j0 then ret False
         else case symbol_arg tc of
           None \<Rightarrow> ret False
         | Some symb \<Rightarrow>
             await (in_app (quote_last symb)) (\<lambda>px.
             await (ag_ask ge_equity) (\<lambda>equity.
             if jle equity j0 \<or> jle px j0 then ret False
             else ret (jge (jmul qty px) (jmul equityPctThreshold equity)))))"

definition isHighImpact :: "tool_call \<Rightarrow> jsnum \<Rightarrow> bool agent_io" where
  "isHighImpact tc equityPctThreshold =
     (if is_exit tc then ret False
      else if is_promote tc then ret True
      else or_else (notional_reaches tc equityPctThreshold) False)"

definition qty_text :: "json option \<Rightarrow> string" where
  "qty_text v = (case v of Some (JStr s) \<Rightarrow> s | Some (JNum x) \<Rightarrow> num_text x | _ \<Rightarrow> [])"

definition buildDebateSummary :: "tool_call \<Rightarrow> string" where
  "buildDebateSummary tc =
     take 300 (''tool:'' @ tc_plugin_id tc @ ''.'' @ tc_function tc @ '' symbol:'' @ string_arg tc ''symbol'' @
       '' action:'' @ string_arg tc ''action'' @ '' qty:'' @ qty_text (raw_qty tc))"

definition audit_consensus :: "tool_call \<Rightarrow> consensus \<Rightarrow> bool agent_io" where
  "audit_consensus tc c =
     await (for_each (\<lambda>s. ag_audit (DebateStanceTaken s)) (dc_stances c)) (\<lambda>_.
     await (ag_audit (DebateConsensusReached c)) (\<lambda>_.
     if dc_approve c then ret False
     else await (push_decision tc False (Some (Why ''debate_rejected''))) (\<lambda>_. ret True)))"

definition debate :: "tool_call \<Rightarrow> debate_config \<Rightarrow> debate_role list \<Rightarrow> bool agent_io" where
  "debate tc cfg roles =
     await (ag_audit (DebateStarted (tc_plugin_id tc) (tc_function tc))) (\<lambda>_.
     await (attempt (await (runPanel (buildDebateSummary tc) (take (db_maxRoles cfg) roles)) (\<lambda>c. ret (Inr c)))
             (\<lambda>e. ret (Inl e))) (\<lambda>outcome.
     case outcome of
       Inl e \<Rightarrow>
         await (ag_audit (DebateSkipped e)) (\<lambda>_.
         if db_fail_block cfg
         then await (push_decision tc False (Some (Why ''debate_failed''))) (\<lambda>_. ret True)
         else ret False)
     | Inr c \<Rightarrow> audit_consensus tc c))"

text \<open>True when the call is dropped.\<close>

definition runDebateGate :: "tool_call \<Rightarrow> bool agent_io" where
  "runDebateGate tc =
     await readDebateConfig (\<lambda>cfg.
     if \<not> db_enabled cfg then ret False
     else
       await (ag_ask ge_debate_roles) (\<lambda>roles.
       case roles of
         None \<Rightarrow> ret False
       | Some rs \<Rightarrow>
           if rs = [] then ret False
           else await (isHighImpact tc (db_minPct cfg)) (\<lambda>high.
             if \<not> high then ret False else debate tc cfg rs)))"

section \<open>One call\<close>

text \<open>A dash beyond Latin-1 is written as the code 0x97, an ellipsis as 0x85.\<close>

definition normalizeIntent :: "string \<Rightarrow> tool_call \<Rightarrow> jsnum \<times> string" where
  "normalizeIntent action tc =
     (let rawConfidence = json_to_number (tc_args tc ''confidence'');
          rationaleArg = string_arg tc ''rationale''
      in if action \<noteq> ''exit'' \<and> action \<noteq> ''hold'' then
           (if is_finite rawConfidence then rawConfidence else j0, rationaleArg)
         else
           (jmax j0 (jmin j1 (if is_finite rawConfidence then rawConfidence else j1)),
            if js_trim rationaleArg \<noteq> [] then rationaleArg
            else if action = ''exit'' then ''position close''
            else ''hold '' @ [CHR 0x97] @ '' no position change''))"

definition recordSignalAndIntent :: "string \<Rightarrow> tool_call \<Rightarrow> bool \<Rightarrow> unit agent_io" where
  "recordSignalAndIntent cycle_id tc ok =
     (case (as_string (tc_args tc ''symbol''), as_string (tc_args tc ''action'')) of
        (Some symb, Some action) \<Rightarrow>
          await (push_signal symb action) (\<lambda>_.
          await (ag_audit (SignalAudited (tc_plugin_id tc) symb action ok)) (\<lambda>_.
          if \<not> (ok \<and> is_emit_intent tc) then ret ()
          else
            (let (confidence, rationale) = normalizeIntent action tc
             in or_else
               (await (in_app (recordIntent \<lparr>dt_cycle_id = Some cycle_id, dt_symbol = symb, dt_action = action,
                  dt_confidence = confidence, dt_rationale = rationale,
                  dt_timeframe = as_string (tc_args tc ''timeframe'')\<rparr>)) (\<lambda>_. ret ())) ())))
      | _ \<Rightarrow> ret ())"

definition dispatch_call :: "string \<Rightarrow> tool_call \<Rightarrow> unit agent_io" where
  "dispatch_call cycle_id tc =
     await (push_decision tc True None) (\<lambda>_.
     await (call_plugin (tc_plugin_id tc) (tc_function tc) (tc_args tc)) (\<lambda>res.
     await (push_result (tc_plugin_id tc) (tc_function tc) (an_ok res) (map_option Result (an_result res))
             (map_option Why (an_error res))) (\<lambda>_.
     recordSignalAndIntent cycle_id tc (an_ok res))))"

definition dispatchOne :: "string \<Rightarrow> tool_call \<Rightarrow> unit agent_io" where
  "dispatchOne cycle_id tc =
     attempt
       (await (runDebateGate tc) (\<lambda>dropped.
        if dropped then ret ()
        else if is_kernel tc then dispatchKernelTool cycle_id tc
        else dispatch_call cycle_id tc))
       (\<lambda>err. await (push_decision tc False (Some (Message err))) (\<lambda>_.
              ag_audit (CallFailed (tc_plugin_id tc) (tc_function tc) err)))"

section \<open>A round of calls\<close>

definition prioritizeExits :: "tool_call list \<Rightarrow> tool_call list" where
  "prioritizeExits toolCalls = filter is_exit toolCalls @ filter (\<lambda>tc. \<not> is_exit tc) toolCalls"

definition isReadOnlyKernelTool :: "tool_call \<Rightarrow> bool" where
  "isReadOnlyKernelTool tc \<longleftrightarrow> is_kernel tc \<and> List.member KERNEL_ALWAYS_ALLOWED_TOOLS (tc_function tc)"

definition read_only_calls :: "nat \<Rightarrow> tool_call list \<Rightarrow> tool_call list" where
  "read_only_calls webSearchBudget toolCalls =
     take (min MAX_WEB_SEARCH_CALLS_PER_ITERATION webSearchBudget) (filter isReadOnlyKernelTool toolCalls)"

definition budgeted_calls :: "tool_call list \<Rightarrow> tool_call list" where
  "budgeted_calls toolCalls = prioritizeExits (filter (\<lambda>tc. \<not> isReadOnlyKernelTool tc) toolCalls)"

record exec_round =
  er_decisions :: "decision list"
  er_results :: "sandbox_result list"
  er_signals :: "signal list"
  er_executed :: nat
  er_searched :: nat

definition audit_cap :: "(nat \<Rightarrow> nat \<Rightarrow> nat \<Rightarrow> agent_event) \<Rightarrow> nat \<Rightarrow> nat \<Rightarrow> nat \<Rightarrow> unit agent_io" where
  "audit_cap ev budget executed dropped =
     (if 0 < dropped then ag_audit (ev budget executed dropped) else ret ())"

definition executeToolCalls :: "string \<Rightarrow> tool_call list \<Rightarrow> nat \<Rightarrow> nat \<Rightarrow> exec_round agent_io" where
  "executeToolCalls cycle_id toolCalls budget webSearchBudget =
     (let allReadOnly = filter isReadOnlyKernelTool toolCalls;
          readOnlyCalls = read_only_calls webSearchBudget toolCalls;
          prioritized = budgeted_calls toolCalls;
          toExecute = take budget prioritized
      in await (modify (\<lambda>w. w\<lparr>ag_decisions := [], ag_results := [], ag_signals := []\<rparr>)) (\<lambda>_.
         await (for_each (dispatchOne cycle_id) readOnlyCalls) (\<lambda>_.
         await (audit_cap SearchCap webSearchBudget (length readOnlyCalls)
                 (length allReadOnly - length readOnlyCalls)) (\<lambda>_.
         await (for_each (dispatchOne cycle_id) toExecute) (\<lambda>_.
         await (audit_cap CallCap budget (length toExecute) (length prioritized - length toExecute)) (\<lambda>_.
         gets (\<lambda>w. \<lparr>er_decisions = ag_decisions w, er_results = ag_results w, er_signals = ag_signals w,
           er_executed = length toExecute, er_searched = length readOnlyCalls\<rparr>)))))))"

end
