(* ===== verification/AgentTurn.thy ===== *)
theory AgentTurn
  imports AgentRound
begin

text \<open>
  \<open>agents/agents.service.ts\<close>, a governed turn: up to \<open>react.max_turns\<close> requests to the language
  model, each followed by the validation and the dispatch of the calls it asked for; the results
  of a round are shown to the next request.
\<close>

section \<open>Budgets and context\<close>

definition REACT_MAX_TURNS_DEFAULT :: nat where "REACT_MAX_TURNS_DEFAULT = 2"
definition REACT_MAX_TOOL_CALLS_DEFAULT :: nat where "REACT_MAX_TOOL_CALLS_DEFAULT = 3"

definition count_from :: "nat \<Rightarrow> nat \<Rightarrow> string option \<Rightarrow> nat" where
  "count_from limit fallback raw =
     (case raw of None \<Rightarrow> fallback | Some s \<Rightarrow> clamp_count limit fallback (js_number s))"

definition resolveMaxTurns :: "nat agent_io" where
  "resolveMaxTurns =
     await (in_app (kv_get ''react.max_turns'')) (\<lambda>raw. ret (count_from 10 REACT_MAX_TURNS_DEFAULT raw))"

definition resolveMaxToolCalls :: "nat agent_io" where
  "resolveMaxToolCalls =
     await (in_app (kv_get ''react.max_tool_calls'')) (\<lambda>raw.
     ret (count_from 20 REACT_MAX_TOOL_CALLS_DEFAULT raw))"

definition last_n :: "nat \<Rightarrow> 'a list \<Rightarrow> 'a list" where
  "last_n n xs = drop (length xs - n) xs"

definition ITER_OBS_CAP :: nat where "ITER_OBS_CAP = 800"
definition ITER_OBS_MAX :: nat where "ITER_OBS_MAX = 3"
definition ITER_TRANSCRIPT_BUDGET :: nat where "ITER_TRANSCRIPT_BUDGET = 3000"

definition OBSERVATIONS_HEADER :: string where
  "OBSERVATIONS_HEADER =
     [newline, newline] @ ''[OBSERVACIONES DE ITERACIONES PREVIAS]'' @ [newline]"

definition composeIterationContext :: "string \<Rightarrow> string list \<Rightarrow> string" where
  "composeIterationContext context0 obs =
     (if obs = [] then context0
      else context0 @ OBSERVATIONS_HEADER @
        take ITER_TRANSCRIPT_BUDGET
          (joined [newline, newline] (map (take ITER_OBS_CAP) (last_n ITER_OBS_MAX obs))))"

section \<open>Observations\<close>

definition why_text :: "agent_env \<Rightarrow> why \<Rightarrow> string" where
  "why_text e r = (case r of Why s \<Rightarrow> s | _ \<Rightarrow> ge_why_text e r)"

definition tool_result_text :: "agent_env \<Rightarrow> tool_result \<Rightarrow> string" where
  "tool_result_text e r = (case r of Result v \<Rightarrow> stringify v | PromoteResult p \<Rightarrow> ge_promote_text e p)"

definition result_text :: "agent_env \<Rightarrow> sandbox_result option \<Rightarrow> string" where
  "result_text e sr =
     (case sr of
        None \<Rightarrow> ''null''
      | Some r \<Rightarrow>
          (case sr_result r of
             Some v \<Rightarrow> take 200 (tool_result_text e v)
           | None \<Rightarrow> ''err:'' @ take 200 (case sr_error r of Some x \<Rightarrow> why_text e x | None \<Rightarrow> ''unknown'')))"

definition ELLIPSIS :: string where
  "ELLIPSIS = ''('' @ [CHR 0x85] @ '') -> ''"

definition tool_line :: "agent_env \<Rightarrow> sandbox_result list \<Rightarrow> decision \<Rightarrow> string" where
  "tool_line e results d =
     (let tc = de_call d;
          call1 = ''  '' @ tc_plugin_id tc @ ''.'' @ tc_function tc @ ELLIPSIS
      in if \<not> de_allowed d
         then call1 @ ''dropped:'' @ (case de_reason d of Some r \<Rightarrow> why_text e r | None \<Rightarrow> ''unknown'')
         else
           (let sr = find (\<lambda>r. sr_plugin_id r = tc_plugin_id tc \<and> sr_function r = tc_function tc) results
            in call1 @ ''ok='' @ (if (case sr of Some r \<Rightarrow> sr_ok r | None \<Rightarrow> False) then ''true'' else ''false'') @
               '' result='' @ result_text e sr))"

definition toObservation ::
  "agent_env \<Rightarrow> nat \<Rightarrow> string \<Rightarrow> decision list \<Rightarrow> sandbox_result list \<Rightarrow> string" where
  "toObservation e iterN reply decisions results =
     (let toolLines = map (tool_line e results) decisions;
          toolBlock = (if toolLines = [] then []
            else [newline] @ ''tools=['' @ [newline] @ joined [newline] toolLines @ [newline] @ '']'')
      in ''ITER '' @ decimal (int iterN) @ '': assistant_text='' @ take 400 reply @ toolBlock)"

section \<open>One iteration\<close>

record turn_input =
  tn_source :: turn_source
  tn_context :: string
  tn_system_prompt :: "string option"
  tn_cycle_id :: string
  tn_active_plugins :: "active_plugin list option"
  tn_virtual_only :: bool
  tn_signals_proposed :: "json list"

record turn_setup =
  su_effective :: "provider_tool list"
  su_visible :: "provider_tool list"
  su_decision_prompt :: "string option"
  su_system :: "string option"

record iteration =
  it_text :: string
  it_tool_calls :: "tool_call list"
  it_round :: exec_round

definition iteration_request :: "turn_setup \<Rightarrow> string \<Rightarrow> llm_request" where
  "iteration_request su context1 =
     \<lparr>lq_context = context1,
      lq_decision = map_option (\<lambda>d. (d, su_visible su)) (su_decision_prompt su),
      lq_system = (case su_system su of Some s \<Rightarrow> s | None \<Rightarrow> []),
      lq_tools = Some (su_effective su)\<rparr>"

text \<open>
  Native calls win; otherwise the text is parsed. The \<open>parse_miss\<close> row is written without waiting;
  a failure of it is an unhandled rejection and does not reach the turn.
\<close>

definition requested_calls :: "llm_response \<Rightarrow> tool_call list agent_io" where
  "requested_calls res =
     (if lr_tool_calls res \<noteq> [] then ret (lr_tool_calls res)
      else case parseToolCalls (lr_text res) of
        (calls, None) \<Rightarrow> ret calls
      | (calls, Some raw) \<Rightarrow>
          await (or_else (ag_audit (ParseMiss (take 500 raw))) ()) (\<lambda>_. ret calls))"

definition audit_turn :: "turn_source \<Rightarrow> nat \<Rightarrow> unit agent_io" where
  "audit_turn source n =
     (case source of Chat \<Rightarrow> ag_audit (ChatTurn n) | Pretest \<Rightarrow> ag_audit (PretestTurn n) | _ \<Rightarrow> ret ())"

definition runSingleIteration ::
  "turn_input \<Rightarrow> turn_setup \<Rightarrow> string \<Rightarrow> nat \<Rightarrow> nat \<Rightarrow> iteration agent_io" where
  "runSingleIteration inp su context1 toolCallBudget webSearchBudget =
     await (complete (iteration_request su context1)) (\<lambda>res.
     await (requested_calls res) (\<lambda>calls.
     await (validateToolCalls calls (su_effective su) (tn_active_plugins inp) (tn_virtual_only inp)
             (tn_source inp)) (\<lambda>validatedCalls.
     await (executeToolCalls (tn_cycle_id inp) validatedCalls toolCallBudget webSearchBudget) (\<lambda>r.
     await (audit_turn (tn_source inp) (length validatedCalls)) (\<lambda>_.
     ret \<lparr>it_text = stripToolCallBlocks (lr_text res), it_tool_calls = validatedCalls, it_round = r\<rparr>)))))"

section \<open>Divergence\<close>

definition toSignalPair :: "json \<Rightarrow> signal option" where
  "toSignalPair raw =
     (case (as_string (field ''symbol'' raw), as_string (field ''action'' raw)) of
        (Some s, Some a) \<Rightarrow> if s = [] \<or> a = [] then None else Some \<lparr>sl_symbol = s, sl_action = a\<rparr>
      | _ \<Rightarrow> None)"

definition signalKey :: "signal \<Rightarrow> string" where
  "signalKey p = toUpperCase (sl_symbol p) @ ''|'' @ toLowerCase (sl_action p)"

definition divergence :: "signal list \<Rightarrow> signal list \<Rightarrow> agent_event" where
  "divergence proposed emitted =
     (let proposedKeys = remdups (map signalKey proposed); emittedKeys = remdups (map signalKey emitted)
      in Divergence proposed emitted
           (tally (\<lambda>k. List.member proposedKeys k) emittedKeys)
           (tally (\<lambda>k. \<not> List.member proposedKeys k) emittedKeys)
           (tally (\<lambda>k. \<not> List.member emittedKeys k) proposedKeys)
           (proposed \<noteq> [] \<and> emitted = []))"

definition auditLlmDivergence :: "turn_source \<Rightarrow> json list \<Rightarrow> signal list \<Rightarrow> unit agent_io" where
  "auditLlmDivergence source rawSignalsProposed llmEmitted =
     (if source \<noteq> Cycle \<and> source \<noteq> Pretest then ret ()
      else or_else (ag_audit (divergence (List.map_filter toSignalPair rawSignalsProposed) llmEmitted)) ())"

section \<open>The turn\<close>

definition kernel_tool :: "string \<Rightarrow> provider_tool" where
  "kernel_tool f = \<lparr>tl_plugin_id = ''kernel'', tl_name = ''kernel__'' @ f, tl_plugin_type = None\<rparr>"

definition kernel_tools :: "turn_source \<Rightarrow> provider_tool list" where
  "kernel_tools source =
     (if source = Reflection
      then map kernel_tool [''web_search'', ''write_skill'', ''create_pretest_variant'', ''run_pretest_compare'',
        ''promote_pretest'', ''record_lesson'', ''train_ml_model'', ''tune_plugin_param'']
      else [kernel_tool ''web_search''])"

definition CHAT_SYSTEM_PROMPT :: string where
  "CHAT_SYSTEM_PROMPT =
     ''Sos el asistente de solo lectura de OpenNeoTrader. Respond'' @ [CHR 0xE9] @
     '' preguntas sobre carteras, decisiones, vetos, evidencia y configuraci'' @ [CHR 0xF3] @
     ''n con respuestas claras y concisas. No oper'' @ [CHR 0xE1] @ ''s ni ejecut'' @ [CHR 0xE1] @
     ''s trades, y NO deb'' @ [CHR 0xE9] @
     ''s emitir bloques <tool_calls> ni llamadas a herramientas en formato JSON. Si no ten'' @
     [CHR 0xE9] @ ''s el dato, decilo sin rodeos. Respond'' @ [CHR 0xE9] @
     '' en el idioma del usuario.''"

definition setup_turn :: "turn_input \<Rightarrow> turn_setup agent_io" where
  "setup_turn inp =
     await (ag_ask ge_provider_tools) (\<lambda>providerTools.
     if tn_source inp = Chat then
       ret \<lparr>su_effective = [], su_visible = [], su_decision_prompt = None,
            su_system = (case tn_system_prompt inp of Some s \<Rightarrow> Some s | None \<Rightarrow> Some CHAT_SYSTEM_PROMPT)\<rparr>
     else
       (let effectiveTools = providerTools @ kernel_tools (tn_source inp)
        in await (computeVisibleTools effectiveTools (tn_virtual_only inp)) (\<lambda>visibleTools.
           await (ag_ask ge_decision_prompt) (\<lambda>decisionPrompt.
           ret \<lparr>su_effective = effectiveTools, su_visible = visibleTools, su_decision_prompt = decisionPrompt,
                su_system = tn_system_prompt inp\<rparr>))))"

text \<open>What the loop has accumulated: the counters, the results, the observations.\<close>

record progress =
  pg_turn :: nat
  pg_executed :: nat
  pg_searched :: nat
  pg_decisions :: "decision list"
  pg_results :: "sandbox_result list"
  pg_signals :: "signal list"
  pg_observations :: "string list"

definition START :: progress where
  "START = \<lparr>pg_turn = 0, pg_executed = 0, pg_searched = 0, pg_decisions = [], pg_results = [],
     pg_signals = [], pg_observations = []\<rparr>"

definition after_iteration :: "iteration \<Rightarrow> progress \<Rightarrow> progress" where
  "after_iteration it pg =
     (let r = it_round it
      in pg\<lparr>pg_turn := Suc (pg_turn pg), pg_executed := pg_executed pg + er_executed r,
           pg_searched := pg_searched pg + er_searched r,
           pg_decisions := pg_decisions pg @ er_decisions r,
           pg_results := pg_results pg @ er_results r, pg_signals := pg_signals pg @ er_signals r\<rparr>)"

definition with_observation :: "agent_env \<Rightarrow> iteration \<Rightarrow> progress \<Rightarrow> progress" where
  "with_observation e it pg =
     pg\<lparr>pg_observations := pg_observations pg @
       [toObservation e (pg_turn pg) (it_text it) (er_decisions (it_round it)) (er_results (it_round it))]\<rparr>"

text \<open>
  \<open>while (turn < maxTurns)\<close>: the first argument is the number of turns that are left. The loop
  stops when no call was valid, when the turns are used up, or when the call budget is.
\<close>

fun react_loop ::
  "nat \<Rightarrow> turn_input \<Rightarrow> turn_setup \<Rightarrow> nat \<Rightarrow> nat \<Rightarrow> progress \<Rightarrow> (iteration option \<times> progress) agent_io" where
  "react_loop 0 inp su maxTurns maxToolCalls pg = ret (None, pg)"
| "react_loop (Suc left) inp su maxTurns maxToolCalls pg =
     await (runSingleIteration inp su (composeIterationContext (tn_context inp) (pg_observations pg))
             (maxToolCalls - pg_executed pg) (MAX_WEB_SEARCH_CALLS_PER_CYCLE - pg_searched pg)) (\<lambda>it.
     let pg1 = after_iteration it pg
     in if it_tool_calls it = [] then ret (Some it, pg1)
        else
          await (gets ag_env) (\<lambda>e.
          let pg2 = with_observation e it pg1
          in await (if 1 < maxTurns then ag_audit (ReactIteration (pg_turn pg2)) else ret ()) (\<lambda>_.
             if maxTurns \<le> pg_turn pg2 then
               await (if 1 < maxTurns then ag_audit (ReactExhausted (pg_turn pg2) maxTurns) else ret ()) (\<lambda>_.
               ret (Some it, pg2))
             else if maxToolCalls \<le> pg_executed pg2 then ret (Some it, pg2)
             else react_loop left inp su maxTurns maxToolCalls pg2)))"

record turn_result =
  tr_text :: string
  tr_tool_calls :: "tool_call list"
  tr_decisions :: "decision list"
  tr_results :: "sandbox_result list"
  tr_signals :: "signal list"
  tr_turns_used :: nat

text \<open>The loop runs at least once, so the last iteration exists.\<close>

definition no_iteration :: exn where
  "no_iteration = Exn ''TypeError''"

definition runGovernedTurn :: "turn_input \<Rightarrow> turn_result agent_io" where
  "runGovernedTurn inp =
     await (setup_turn inp) (\<lambda>su.
     await resolveMaxTurns (\<lambda>maxTurns.
     await resolveMaxToolCalls (\<lambda>maxToolCalls.
     await (react_loop maxTurns inp su maxTurns maxToolCalls START) (\<lambda>(final, pg).
     await (auditLlmDivergence (tn_source inp) (tn_signals_proposed inp) (pg_signals pg)) (\<lambda>_.
     case final of
       None \<Rightarrow> throw no_iteration
     | Some it \<Rightarrow>
         ret \<lparr>tr_text = it_text it, tr_tool_calls = it_tool_calls it, tr_decisions = pg_decisions pg,
              tr_results = pg_results pg, tr_signals = pg_signals pg, tr_turns_used = pg_turn pg\<rparr>)))))"

end
