(* ===== verification/VetoLayer.thy ===== *)
theory VetoLayer
  imports AgentTurn
begin

text \<open>
  \<open>agents/agents.service.ts\<close>, the veto layer of a cycle: the discipline plugins see the proposed
  signals one after the other, and what each signal became is written to the ledger. A context is
  a map from its keys to JSON values; what a hook answers is taken as an object.
\<close>

section \<open>JavaScript\<close>

text \<open>\<open>a ?? b\<close>.\<close>

definition nullish :: "json option \<Rightarrow> json option \<Rightarrow> json option" where
  "nullish a b = (if a = None \<or> a = Some JNull then b else a)"

definition type_error :: exn where "type_error = Exn ''TypeError''"

text \<open>\<open>String(v)\<close>.\<close>

fun json_String :: "json \<Rightarrow> string" where
  "json_String JNull = ''null''"
| "json_String (JBool b) = (if b then ''true'' else ''false'')"
| "json_String (JNum x) = num_text x"
| "json_String (JStr s) = s"
| "json_String (JArr xs) = joined '','' (map (\<lambda>x. if x = JNull then [] else json_String x) xs)"
| "json_String (JObj _) = ''[object Object]''"

text \<open>\<open>find\<close> over values of which a property is read: \<open>null\<close> has none.\<close>

fun find_in :: "(json \<Rightarrow> bool) \<Rightarrow> json list \<Rightarrow> exn + json option" where
  "find_in p [] = Inr None"
| "find_in p (x # xs) = (if x = JNull then Inl type_error else if p x then Inr (Some x) else find_in p xs)"

definition array_or_empty :: "json option \<Rightarrow> json list" where
  "array_or_empty v = (case as_array v of Some xs \<Rightarrow> xs | None \<Rightarrow> [])"

text \<open>The result of a hook as a map, where it counts as one.\<close>

definition hook_object :: "plugin_answer \<Rightarrow> config" where
  "hook_object res = (\<lambda>k. Option.bind (an_result res) (field k))"

text \<open>A row or a record kept outside: storing may fail.\<close>

definition ag_store :: "agent_event \<Rightarrow> unit agent_io" where
  "ag_store ev = await (ag_ask (\<lambda>e n. unless_error (ge_store e n))) (\<lambda>_. ag_note ev)"

definition run_hook :: "string \<Rightarrow> config \<Rightarrow> plugin_answer agent_io" where
  "run_hook p ctx = await (ag_note (HookCalled p)) (\<lambda>_. ag_ask (\<lambda>e n. ge_run_hook e n p ctx))"

section \<open>Alerts\<close>

definition alert_dto :: "string \<Rightarrow> json \<Rightarrow> json" where
  "alert_dto cycle_id a =
     object [(''type'', nullish (field ''type'' a) (Some (JStr ''CUSTOM''))),
       (''severity'', nullish (field ''severity'' a) (Some (JStr ''MEDIUM''))),
       (''symbol'', nullish (field ''symbol'' a) (Some JNull)),
       (''message'', Some (JStr (case as_string (field ''message'' a) of
          Some s \<Rightarrow> s | None \<Rightarrow> ''Alerta sin mensaje''))),
       (''meta'', Some (JObj (filter (\<lambda>(k, _). k \<noteq> ''cycle_id'')
          (case field ''meta'' a of Some (JObj ps) \<Rightarrow> ps | _ \<Rightarrow> []) @ [(''cycle_id'', JStr cycle_id)])))]"

definition persistPluginAlerts :: "config \<Rightarrow> string \<Rightarrow> unit agent_io" where
  "persistPluginAlerts ctx cycle_id =
     (let dtos = map (alert_dto cycle_id) (filter is_object (array_or_empty (ctx ''emit_alerts'')))
      in if dtos = [] then ret () else ag_store (AlertsRaised dtos))"

section \<open>What became of a signal\<close>

definition first_string :: "json option list \<Rightarrow> string" where
  "first_string vs = (case List.map_filter as_string vs of [] \<Rightarrow> [] | s # _ \<Rightarrow> s)"

definition resolveSignalSource :: "json \<Rightarrow> string" where
  "resolveSignalSource sig =
     first_string [field ''_plugin'' sig, field ''plugin_id'' sig, field ''source'' sig]"

definition findVetoMatch :: "json list \<Rightarrow> string \<Rightarrow> string \<Rightarrow> exn + json option \<times> bool" where
  "findVetoMatch approvedList symb sourcePlugin =
     (case find_in (\<lambda>s. field ''symbol'' s = Some (JStr symb) \<and> resolveSignalSource s = sourcePlugin) approvedList of
        Inl e \<Rightarrow> Inl e
      | Inr (Some m) \<Rightarrow> Inr (Some m, True)
      | Inr None \<Rightarrow>
          (case find_in (\<lambda>s. field ''symbol'' s = Some (JStr symb)) approvedList of
             Inl e \<Rightarrow> Inl e
           | Inr m \<Rightarrow> Inr (m, False)))"

definition nested_shares :: "json \<Rightarrow> string \<Rightarrow> json option" where
  "nested_shares sig k = Option.bind (field k sig) (field ''shares'')"

definition extractEffectiveQty :: "json \<Rightarrow> jsnum option" where
  "extractEffectiveQty sig =
     (case List.map_filter as_number
         [nested_shares sig ''fixed'', nested_shares sig ''kelly'', nested_shares sig ''volatility'',
          field ''shares'' sig, field ''qty'' sig] of
        [] \<Rightarrow> None
      | q # _ \<Rightarrow> Some q)"

definition same_known :: "jsnum option \<Rightarrow> jsnum option \<Rightarrow> bool" where
  "same_known p q \<longleftrightarrow> p \<noteq> None \<and> p = q \<and> p \<noteq> Some NaN"

definition resolveVetoVerdict ::
  "string \<Rightarrow> json \<Rightarrow> json option \<Rightarrow> bool \<Rightarrow> verdict \<times> string option \<times> jsnum option" where
  "resolveVetoVerdict proposedAction proposedSignal match matchIsAmbiguous =
     (case match of
        None \<Rightarrow> (Blocked, None, None)
      | Some m \<Rightarrow>
          if field ''action'' m = Some (JStr ''cancelled'') then (Blocked, None, None)
          else
            (let matchAction = (case as_string (field ''action'' m) of Some a \<Rightarrow> a | None \<Rightarrow> proposedAction);
                 matchQty = extractEffectiveQty m
             in if matchIsAmbiguous then (Modified, Some matchAction, matchQty)
                else if matchAction = proposedAction \<and> same_known (extractEffectiveQty proposedSignal) matchQty
                then (Approved, None, None)
                else (Modified, Some matchAction, matchQty)))"

definition signal_symbol :: "json \<Rightarrow> string" where
  "signal_symbol s = (case as_string (field ''symbol'' s) of Some x \<Rightarrow> x | None \<Rightarrow> [])"

definition approved_list :: "config \<Rightarrow> exn + json list" where
  "approved_list vetoCtx =
     (case nullish (vetoCtx ''pending_signals'') (Some (JArr [])) of
        Some (JArr xs) \<Rightarrow> Inr xs
      | _ \<Rightarrow> Inl type_error)"

definition is_ambiguous :: "json list \<Rightarrow> string \<Rightarrow> json option \<times> bool \<Rightarrow> bool" where
  "is_ambiguous originals symb found =
     (\<not> snd found \<and> 1 < tally (\<lambda>s. signal_symbol s = symb) originals \<and>
      (case fst found of None \<Rightarrow> True | Some m \<Rightarrow> resolveSignalSource m = []))"

definition buildVetoDecisionData ::
  "json \<Rightarrow> config \<Rightarrow> string option \<Rightarrow> string option \<Rightarrow> json list \<Rightarrow> exn + ledger_row" where
  "buildVetoDecisionData sig vetoCtx discipline rationale originals =
     (let symb = signal_symbol sig;
          sourcePlugin = resolveSignalSource sig;
          proposedAction = (case as_string (field ''action'' sig) of Some a \<Rightarrow> a | None \<Rightarrow> [])
      in case approved_list vetoCtx of
           Inl e \<Rightarrow> Inl e
         | Inr approvedList \<Rightarrow>
             (case findVetoMatch approvedList symb sourcePlugin of
                Inl e \<Rightarrow> Inl e
              | Inr found \<Rightarrow>
                  (case resolveVetoVerdict proposedAction sig (fst found) (is_ambiguous originals symb found) of
                     (verdict, approvedAction, approvedQty) \<Rightarrow> Inr
                       \<lparr>lg_symbol = symb, lg_source_plugin = sourcePlugin,
                        lg_signal_confidence = as_number (field ''confidence'' sig),
                        lg_proposed_action = proposedAction,
                        lg_proposed_qty = (case as_number (field ''qty'' sig) of Some q \<Rightarrow> q | None \<Rightarrow> j0),
                        lg_verdict = verdict, lg_approved_action = approvedAction, lg_approved_qty = approvedQty,
                        lg_discipline = (if verdict = Approved then None else discipline),
                        lg_rationale = (if verdict = Approved then None else rationale),
                        lg_ref_price = as_number (vetoCtx ''ref_price''),
                        lg_regime_tags = map_option (\<lambda>xs. stringify (JArr xs)) (as_array (vetoCtx ''regime_tags'')),
                        lg_portfolio_drawdown_pct = as_number (vetoCtx ''portfolio_drawdown_pct''),
                        lg_context_snapshot = stringify (object
                          [(''signal'', Some sig),
                           (''match'', Some (case fst found of Some m \<Rightarrow> m | None \<Rightarrow> JNull)),
                           (''market'', Some (object [(''portfolio_value'', vetoCtx ''portfolio_value''),
                              (''positions'', vetoCtx ''positions''), (''portfolio'', vetoCtx ''portfolio'')]))])\<rparr>)))"

section \<open>The ledger\<close>

text \<open>\<open>^\[(.+?)\]\<close>: a text in brackets at the start, without line breaks.\<close>

definition bracket_name :: "string \<Rightarrow> string option" where
  "bracket_name s =
     (case s of
        c # d # body \<Rightarrow>
          if c \<noteq> CHR ''['' then None
          else (case indexOf '']'' body of
             None \<Rightarrow> None
           | Some k \<Rightarrow>
               if list_ex (\<lambda>x. x = newline \<or> x = CHR 0x0D) (d # take k body) then None else Some (d # take k body))
      | _ \<Rightarrow> None)"

definition extractVetoDisciplines :: "string list \<Rightarrow> string option" where
  "extractVetoDisciplines vetoReasons =
     (let names = first_occurrences (List.map_filter bracket_name vetoReasons)
      in if names = [] then None else Some (joined '','' names))"

text \<open>The symbols are counted first: a signal that is \<open>null\<close> ends the cycle there.\<close>

definition persist_decision ::
  "config \<Rightarrow> string option \<Rightarrow> string option \<Rightarrow> json list \<Rightarrow> json \<Rightarrow> unit agent_io" where
  "persist_decision vetoCtx discipline rationale originals sig =
     attempt
       (await (lift_result (buildVetoDecisionData sig vetoCtx discipline rationale originals)) (\<lambda>row.
        ag_store (LedgerWritten row)))
       (\<lambda>e. ag_audit (LedgerFailed e))"

definition persistVetoDecisions :: "json list \<Rightarrow> config \<Rightarrow> string list \<Rightarrow> unit agent_io" where
  "persistVetoDecisions originalSignals vetoCtx vetoReasons =
     (if originalSignals = [] then ret ()
      else if List.member originalSignals JNull then throw type_error
      else for_each
        (persist_decision vetoCtx (extractVetoDisciplines vetoReasons)
          (if vetoReasons = [] then None else Some (joined ''; '' vetoReasons)) originalSignals)
        originalSignals)"

section \<open>The layer\<close>

definition ML_PLUGIN_ID :: string where "ML_PLUGIN_ID = ''ml-feature-extractor''"

definition is_ml :: "active_plugin \<Rightarrow> bool" where
  "is_ml p \<longleftrightarrow> ap_id p = ML_PLUGIN_ID"

definition ml_first :: "active_plugin list \<Rightarrow> active_plugin list" where
  "ml_first ps = filter is_ml ps @ filter (\<lambda>p. \<not> is_ml p) ps"

text \<open>The model that is injected: its blob and the names of its features; none is \<open>{}\<close>.\<close>

type_synonym ml_injection = "(json option \<times> json option) option"

definition inject :: "ml_injection \<Rightarrow> config \<Rightarrow> config" where
  "inject ml ctx =
     (case ml of None \<Rightarrow> ctx
      | Some (blob, names) \<Rightarrow> ctx(''model_blob'' := blob, ''feature_names'' := names))"

record veto_state =
  vl_ctx :: config
  vl_reasons :: "string list"
  vl_degraded :: bool

record veto_summary =
  vy_proposed :: nat
  vy_approved :: nat
  vy_vetoed :: int
  vy_reasons :: "string list"
  vy_disciplines :: "string list"
  vy_degraded :: bool

definition tagged :: "active_plugin \<Rightarrow> string \<Rightarrow> string" where
  "tagged disc r = ''['' @ ap_name disc @ ''] '' @ r"

definition veto_reasons_of :: "config \<Rightarrow> exn + string list" where
  "veto_reasons_of updated =
     (case nullish (updated ''veto_reasons'') (Some (JArr [])) of
        Some (JArr rs) \<Rightarrow> Inr (map json_String rs)
      | _ \<Rightarrow> Inl type_error)"

definition updated_ctx :: "active_plugin \<Rightarrow> config \<Rightarrow> config \<Rightarrow> config" where
  "updated_ctx disc ctx updated =
     (let stripped = (if is_ml disc then updated(''model_blob'' := None, ''feature_names'' := None) else updated)
      in (ctx ++ stripped)(''pending_signals'' :=
            nullish (nullish (updated ''signals'') (updated ''pending_signals'')) (ctx ''pending_signals'')))"

definition failed_reason :: "active_plugin \<Rightarrow> plugin_answer \<Rightarrow> string" where
  "failed_reason disc res =
     tagged disc (''hook failed '' @ [CHR 0x97] @ '' fail-safe: signals dropped ('' @
       (case an_error res of Some e \<Rightarrow> e | None \<Rightarrow> ''undefined'') @ '')'')"

definition discipline_step ::
  "string \<Rightarrow> ml_injection \<Rightarrow> veto_state \<Rightarrow> active_plugin \<Rightarrow> veto_state agent_io" where
  "discipline_step cycle_id ml st disc =
     await (run_hook (ap_id disc) (if is_ml disc then inject ml (vl_ctx st) else vl_ctx st)) (\<lambda>res.
     if an_ok res \<and> truthy_json (an_result res) then
       (let updated = hook_object res
        in await (lift_result (veto_reasons_of updated)) (\<lambda>reasons.
           await (persistPluginAlerts updated cycle_id) (\<lambda>_.
           ret (st\<lparr>vl_ctx := updated_ctx disc (vl_ctx st) updated,
                   vl_reasons := vl_reasons st @ map (tagged disc) reasons\<rparr>))))
     else if \<not> an_ok res then
       await (ag_audit (VetoHookFailed (ap_id disc) (an_error res))) (\<lambda>_.
       ret (st\<lparr>vl_ctx := (vl_ctx st)(''pending_signals'' := Some (JArr [])),
               vl_reasons := vl_reasons st @ [failed_reason disc res], vl_degraded := True\<rparr>))
     else ret st)"

primrec discipline_steps ::
  "string \<Rightarrow> ml_injection \<Rightarrow> veto_state \<Rightarrow> active_plugin list \<Rightarrow> veto_state agent_io" where
  "discipline_steps cycle_id ml st [] = ret st"
| "discipline_steps cycle_id ml st (d # ds) =
     await (discipline_step cycle_id ml st d) (\<lambda>st'. discipline_steps cycle_id ml st' ds)"

definition veto_summary_of :: "json list \<Rightarrow> active_plugin list \<Rightarrow> veto_state \<Rightarrow> veto_summary" where
  "veto_summary_of pendingSignals disciplinePlugins st =
     (let approved = length (array_or_empty (vl_ctx st ''pending_signals''))
      in \<lparr>vy_proposed = length pendingSignals, vy_approved = approved,
          vy_vetoed = int (length pendingSignals) - int approved, vy_reasons = vl_reasons st,
          vy_disciplines = map ap_id disciplinePlugins, vy_degraded = vl_degraded st\<rparr>)"

definition runVetoLayer ::
  "string \<Rightarrow> active_plugin list \<Rightarrow> config \<Rightarrow> json list \<Rightarrow> ml_injection \<Rightarrow> (config \<times> veto_summary) agent_io" where
  "runVetoLayer cycle_id disciplinePlugins hookCtx pendingSignals ml =
     await (discipline_steps cycle_id ml
       \<lparr>vl_ctx = hookCtx(''pending_signals'' := Some (JArr pendingSignals)), vl_reasons = [], vl_degraded = False\<rparr>
       (ml_first disciplinePlugins)) (\<lambda>st.
     let summary = veto_summary_of pendingSignals disciplinePlugins st
     in await (if 0 < vy_vetoed summary then ag_audit (VetoDecided (vy_vetoed summary)) else ret ()) (\<lambda>_.
        await (persistVetoDecisions pendingSignals (vl_ctx st) (vl_reasons st)) (\<lambda>_.
        ret (vl_ctx st, summary))))"

end
