(* ===== verification/AgentCycle.thy ===== *)
theory AgentCycle
  imports VetoLayer
begin

text \<open>
  \<open>agents/agents.service.ts\<close>, an agent cycle: the context the plugins build, the veto layer, the
  extras before the turn, the turn itself, and what is recorded and sent after it.
\<close>

section \<open>Extras\<close>

definition PROTECTED_KEYS :: "string list" where
  "PROTECTED_KEYS = [''pending_signals'', ''credentials'', ''tool_calls'', ''decisions'', ''veto_reasons'']"

definition SKIP_KEYS :: "string list" where
  "SKIP_KEYS = [''notify_intents'', ''cycle_abort'', ''cycle_abort_reason'']"

definition mergeExtraCtx :: "config \<Rightarrow> config \<Rightarrow> config" where
  "mergeExtraCtx ctx extra =
     (\<lambda>k. if List.member PROTECTED_KEYS k \<or> List.member SKIP_KEYS k then ctx k
          else case extra k of
            None \<Rightarrow> ctx k
          | Some v \<Rightarrow>
              if k = ''log'' then
                (case (as_array (ctx ''log''), as_array (Some v)) of
                   (Some old, Some new) \<Rightarrow> Some (JArr (old @ new))
                 | _ \<Rightarrow> Some v)
              else Some v)"

definition NOTIFY_KEY :: string where "NOTIFY_KEY = ''_collected_notify_intents''"

definition logNotifyIntents :: "config \<Rightarrow> config \<Rightarrow> config" where
  "logNotifyIntents extraCtx runningCtx =
     (case as_array (extraCtx ''notify_intents'') of
        None \<Rightarrow> runningCtx
      | Some intents \<Rightarrow>
          if intents = [] then runningCtx
          else runningCtx(NOTIFY_KEY := Some (JArr (array_or_empty (runningCtx NOTIFY_KEY) @ intents))))"

definition extra_object :: "plugin_answer \<Rightarrow> config" where
  "extra_object res = (if an_ok res \<and> truthy_json (an_result res) then hook_object res else (\<lambda>_. None))"

definition extra_step :: "string \<Rightarrow> config \<Rightarrow> active_plugin \<Rightarrow> (config \<times> config) agent_io" where
  "extra_step cycle_id ctx extra =
     await (run_hook (ap_id extra) ctx) (\<lambda>res.
     let extraCtx = extra_object res
     in await (persistPluginAlerts extraCtx cycle_id) (\<lambda>_.
        ret (extraCtx, logNotifyIntents extraCtx (mergeExtraCtx ctx extraCtx))))"

text \<open>\<open>None\<close> when an extra has ended the cycle.\<close>

primrec runPreExtras :: "active_plugin list \<Rightarrow> config \<Rightarrow> string \<Rightarrow> config option agent_io" where
  "runPreExtras [] ctx cycle_id = ret (Some ctx)"
| "runPreExtras (extra # es) ctx cycle_id =
     await (extra_step cycle_id ctx extra) (\<lambda>(extraCtx, ctx').
     if extraCtx ''cycle_abort'' = Some (JBool True)
     then await (ag_audit (CycleAborted (ap_id extra))) (\<lambda>_. ret None)
     else runPreExtras es ctx' cycle_id)"

primrec post_steps :: "active_plugin list \<Rightarrow> config \<Rightarrow> string \<Rightarrow> config agent_io" where
  "post_steps [] ctx cycle_id = ret ctx"
| "post_steps (extra # es) ctx cycle_id =
     await (extra_step cycle_id ctx extra) (\<lambda>(extraCtx, ctx'). post_steps es ctx' cycle_id)"

definition runPostExtras :: "active_plugin list \<Rightarrow> config \<Rightarrow> string \<Rightarrow> config agent_io" where
  "runPostExtras postExtras baseCtx cycle_id =
     (let postCtx = baseCtx(''signals'' := Some (JArr (array_or_empty (baseCtx ''pending_signals''))))
      in await (or_else (await (ag_ask ge_equity_curve) (\<lambda>curve.
             ret (postCtx(''equity_curve'' := Some (JArr (map JNum curve)))))) postCtx) (\<lambda>enriched.
         post_steps postExtras enriched cycle_id))"

section \<open>Notifications\<close>

definition send_notification :: "json \<Rightarrow> unit agent_io" where
  "send_notification item =
     (if item = JNull then throw type_error
      else
        (let channel = (case nullish (field ''channel'' item) (Some (JStr ''telegram'')) of Some c \<Rightarrow> c | None \<Rightarrow> JNull);
             body = (case nullish (field ''text'' item) (Some (JStr [])) of Some b \<Rightarrow> b | None \<Rightarrow> JNull)
         in await (or_else (ag_ask (\<lambda>e n. ge_notify e n channel body (field ''parse_mode'' item))) False) (\<lambda>ok.
            or_else (ag_audit (NotificationSent channel ok)) ())))"

definition persistNotificationIntents :: "config \<Rightarrow> unit agent_io" where
  "persistNotificationIntents ctx = for_each send_notification (array_or_empty (ctx NOTIFY_KEY))"

section \<open>The market\<close>

definition bar_json :: "market_bar \<Rightarrow> json" where
  "bar_json b = object [(''date'', Some (JStr (mb_date b))), (''open'', Some (JNum (mb_open b))),
     (''high'', Some (JNum (mb_high b))), (''low'', Some (JNum (mb_low b))),
     (''close'', Some (JNum (mb_close b))), (''volume'', Some (JNum (mb_volume b)))]"

definition bars_json :: "string list \<Rightarrow> (string \<Rightarrow> market_bar list option) \<Rightarrow> json" where
  "bars_json universe ohlcv =
     JObj (List.map_filter (\<lambda>s. map_option (\<lambda>bs. (s, JArr (map bar_json bs))) (ohlcv s)) (first_occurrences universe))"

definition marketContext :: "(string list \<times> json) agent_io" where
  "marketContext =
     in_pretest
       (await (attempt (await (base (kv_get ''cycle.universe'')) (\<lambda>raw. ret (parse_universe raw)))
                (\<lambda>_. ret DEFAULT_UNIVERSE)) (\<lambda>parsed.
        let universe = take 30 parsed in
        await (kv_text ''cycle.timeframe'' ''1d'') (\<lambda>timeframe.
        await (base (kv_get ''cycle.bars'')) (\<lambda>rawBars.
        await (kv_text ''cycle.data_provider'' ''yahoo-finance-provider'') (\<lambda>provider.
        await (fetch_bars universe provider timeframe (bar_count rawBars) (\<lambda>_. None)) (\<lambda>ohlcv.
        ret (universe, bars_json universe ohlcv)))))))"

definition capital_from :: "string option \<Rightarrow> jsnum" where
  "capital_from raw =
     (let n = (case raw of None \<Rightarrow> j0 | Some s \<Rightarrow> if s = [] then j0 else js_number s)
      in if n = j0 \<or> n = NaN then Fin 10000 else n)"

definition cycle_ctx :: "string \<Rightarrow> string list \<times> json \<Rightarrow> jsnum \<Rightarrow> config" where
  "cycle_ctx cycle_id market capital =
     map_of [(''cycle_id'', JStr cycle_id), (''universe'', JArr (map JStr (fst market))), (''ohlcv'', snd market),
       (''config'', JObj []), (''portfolio'', JObj []), (''portfolio_value'', JNum capital),
       (''positions'', JArr []), (''trade_history'', JArr [])]"

definition hook_ctx :: "config \<Rightarrow> plugin_answer \<Rightarrow> jsnum \<Rightarrow> config" where
  "hook_ctx cycleCtx res capital =
     (let baseCtx = (if nullish (an_result res) None = None then cycleCtx else hook_object res)
      in baseCtx(''portfolio_value'' := Some (JNum capital),
           ''positions'' := nullish (baseCtx ''positions'') (Some (JArr [])),
           ''portfolio'' := nullish (baseCtx ''portfolio'') (Some (JObj [])),
           ''trade_history'' := nullish (baseCtx ''trade_history'') (Some (JArr []))))"

section \<open>Memory\<close>

definition signal_symbols :: "json list \<Rightarrow> exn + string list" where
  "signal_symbols sigs =
     (if List.member sigs JNull then Inl type_error
      else Inr (List.map_filter (\<lambda>s. as_string (field ''symbol'' s)) sigs))"

definition hit_line :: "episode_hit \<Rightarrow> string" where
  "hit_line ep = ''['' @ eh_cycle_id ep @ ''] '' @ eh_action_summary ep @ '' | P&L: '' @
     (case eh_outcome_pnl ep of Some x \<Rightarrow> num_text x | None \<Rightarrow> ''pending'') @ '' | '' @ eh_llm_rationale ep"

definition with_episodes :: "string \<Rightarrow> episode_hit list \<Rightarrow> string" where
  "with_episodes ctx hits =
     (if hits = [] then ctx
      else ctx @ [newline, newline] @
        take 800 (''[EPISODIOS RELEVANTES]'' @ [newline] @ joined [newline] (map hit_line hits)))"

definition ltmPrefetchInject :: "string \<Rightarrow> json list \<Rightarrow> json list \<Rightarrow> string agent_io" where
  "ltmPrefetchInject ctx approvedSignals pendingSignals =
     or_else
       (await (lift_result (signal_symbols approvedSignals)) (\<lambda>a.
        await (lift_result (signal_symbols pendingSignals)) (\<lambda>p.
        let uniqueSymbols = first_occurrences (a @ p)
        in if uniqueSymbols = [] then ret ctx
           else await (ag_ask (\<lambda>e n. ge_prefetch e n (joined '' '' uniqueSymbols))) (\<lambda>hits.
             ret (with_episodes ctx hits)))))
       ctx"

definition ltmRecordEpisode :: "signal list \<Rightarrow> string \<Rightarrow> unit agent_io" where
  "ltmRecordEpisode signalsEmitted llmText =
     (let symbols = map sl_symbol signalsEmitted;
          actionSummary = take 200 (joined '', '' (map (\<lambda>s. toUpperCase (sl_action s) @ '' '' @ sl_symbol s) signalsEmitted));
          llmRationale = take 500 (sanitizeText llmText);
          narrative = sanitizeText (take 1400 (joined '' '' symbols @ '' '' @ joined '' '' symbols @ '' '' @
            actionSummary @ '' '' @ llmRationale))
      in or_else (ag_store (EpisodeRecorded symbols actionSummary llmRationale narrative)) ())"

section \<open>The signal model\<close>

definition skill_ids :: "active_plugin list \<Rightarrow> string list" where
  "skill_ids ps = map ap_id (filter (\<lambda>p. ap_type p = ''skill'') ps)"

definition skillHash :: "active_plugin list \<Rightarrow> string agent_io" where
  "skillHash ps = gets (\<lambda>w. ge_skill_hash (ag_env w) (skill_ids ps))"

definition contribution_of :: "json \<Rightarrow> (string \<times> skill_contribution) option" where
  "contribution_of s =
     (case as_string (field ''symbol'' s) of
        None \<Rightarrow> None
      | Some symb \<Rightarrow>
          if symb = [] then None
          else Some (symb, \<lparr>sk_plugin_id = first_string [field ''plugin_id'' s, field ''source'' s],
            sk_action = (case as_string (field ''action'' s) of Some a \<Rightarrow> a | None \<Rightarrow> []),
            sk_confidence = (case as_number (field ''confidence'' s) of Some c \<Rightarrow> c | None \<Rightarrow> j0)\<rparr>))"

definition ml_records ::
  "json list \<Rightarrow> signal list \<Rightarrow> (string \<times> skill_contribution list \<times> string) list" where
  "ml_records approvedSignals signalsEmitted =
     (let cs = List.map_filter contribution_of approvedSignals;
          actionBySymbol = map_of (rev (map (\<lambda>s. (sl_symbol s, sl_action s)) signalsEmitted))
      in List.map_filter (\<lambda>symb. map_option (\<lambda>a. (symb, map snd (filter (\<lambda>c. fst c = symb) cs), a))
             (actionBySymbol symb)) (first_occurrences (map fst cs)))"

definition mlCaptureSignals :: "json list \<Rightarrow> signal list \<Rightarrow> active_plugin list \<Rightarrow> unit agent_io" where
  "mlCaptureSignals approvedSignals signalsEmitted activePlugins =
     or_else
       (await (skillHash activePlugins) (\<lambda>hash.
        if List.member approvedSignals JNull then throw type_error
        else
          (let records = ml_records approvedSignals signalsEmitted
           in if records = [] then ret () else ag_store (SignalsRecorded records hash)))) ()"

definition model_from :: "string \<Rightarrow> string \<Rightarrow> ml_injection" where
  "model_from raw currentHash =
     (case json_parse raw of
        None \<Rightarrow> None
      | Some parsed \<Rightarrow>
          if field ''active_skill_hash'' parsed = Some (JStr currentHash)
          then Some (field ''blob_b64'' parsed, field ''feature_names'' parsed) else None)"

definition mlResolveModelInjection :: "active_plugin list \<Rightarrow> ml_injection agent_io" where
  "mlResolveModelInjection activePlugins =
     (if \<not> list_ex is_ml activePlugins then ret None
      else or_else
        (await (in_app (kv_get ''ml:model:current'')) (\<lambda>raw.
         await (skillHash activePlugins) (\<lambda>hash.
         ret (case raw of None \<Rightarrow> None | Some s \<Rightarrow> if s = [] then None else model_from s hash)))) None)"

section \<open>The cycle\<close>

record agent_cycle_result =
  ar_text :: string
  ar_decisions :: "decision list"
  ar_results :: "sandbox_result list"
  ar_context_injected :: bool
  ar_veto :: veto_summary
  ar_aborted :: bool

text \<open>\<open>JSON.stringify(v, null, 2)\<close>, at a depth of indentation.\<close>

definition indent :: "nat \<Rightarrow> string" where
  "indent d = newline # replicate (2 * d) CHR 0x20"

fun pretty :: "nat \<Rightarrow> json \<Rightarrow> string" where
  "pretty d (JArr xs) =
     (if xs = [] then ''[]''
      else ''['' @ indent (Suc d) @ joined ('','' @ indent (Suc d)) (map (pretty (Suc d)) xs) @ indent d @ '']'')"
| "pretty d (JObj ps) =
     (if ps = [] then ''{}''
      else ''{'' @ indent (Suc d) @
        joined ('','' @ indent (Suc d)) (map (\<lambda>p. quote_text (fst p) @ '': '' @ pretty (Suc d) (snd p)) ps) @
        indent d @ ''}'')"
| "pretty d v = stringify v"

text \<open>The tail of a cycle, after the turn.\<close>

definition after_turn ::
  "string \<Rightarrow> active_plugin list \<Rightarrow> active_plugin list \<Rightarrow> config \<Rightarrow> json list \<Rightarrow> turn_result \<Rightarrow> unit agent_io" where
  "after_turn cycle_id activePlugins postExtras runningCtx approvedSignals turn =
     await (ltmRecordEpisode (tr_signals turn) (tr_text turn)) (\<lambda>_.
     await (mlCaptureSignals approvedSignals (tr_signals turn) activePlugins) (\<lambda>_.
     await (runPostExtras postExtras runningCtx cycle_id) (\<lambda>postFinalCtx.
     await (persistNotificationIntents postFinalCtx) (\<lambda>_.
     await (ag_store (Observed (take 500 (tr_text turn)) (length (tr_signals turn)))) (\<lambda>_.
     for_each (\<lambda>s. ag_store (SignalTracked (sl_symbol s) (sl_action s))) (tr_signals turn))))))"

definition signal_summary :: "json list \<Rightarrow> string" where
  "signal_summary approvedSignals =
     (if approvedSignals \<noteq> []
      then [newline, newline] @ ''[SE'' @ [CHR 0xD1] @ ''ALES APROBADAS POR LAS DISCIPLINAS]'' @ [newline] @
        pretty 0 (JArr approvedSignals) @ [newline]
      else [newline, newline] @ ''[NO HAY SE'' @ [CHR 0xD1] @ ''ALES APROBADAS EN ESTE CICLO]'' @ [newline])"

definition cycle_turn ::
  "string \<Rightarrow> string option \<Rightarrow> active_plugin list \<Rightarrow> string \<Rightarrow> json list \<Rightarrow> turn_input" where
  "cycle_turn cycle_id systemPrompt activePlugins context1 approvedSignals =
     \<lparr>tn_source = Cycle, tn_context = context1 @ signal_summary approvedSignals,
      tn_system_prompt = systemPrompt, tn_cycle_id = cycle_id, tn_active_plugins = Some activePlugins,
      tn_virtual_only = False, tn_signals_proposed = approvedSignals\<rparr>"

definition extras_before_turn :: "agent_env \<Rightarrow> active_plugin list \<Rightarrow> active_plugin list" where
  "extras_before_turn e ps = filter (\<lambda>p. ap_type p = ''extra'' \<and> ge_is_pre e (ap_id p)) ps"

definition extras_after_turn :: "agent_env \<Rightarrow> active_plugin list \<Rightarrow> active_plugin list" where
  "extras_after_turn e ps = filter (\<lambda>p. ap_type p = ''extra'' \<and> \<not> ge_is_pre e (ap_id p)) ps"

text \<open>From the veto layer on: the extras, the turn and its records.\<close>

definition decide_cycle ::
  "string \<Rightarrow> string option \<Rightarrow> string \<Rightarrow> bool \<Rightarrow> active_plugin list \<Rightarrow> json list \<Rightarrow> config \<Rightarrow> veto_summary \<Rightarrow>
     agent_cycle_result agent_io" where
  "decide_cycle cycle_id systemPrompt enriched injected activePlugins pendingSignals vetoCtx summary =
     await (gets ag_env) (\<lambda>e.
     let initialCtx = vetoCtx(''active_plugin_ids'' := Some (JArr (map (JStr \<circ> ap_id) activePlugins)))
     in await (runPreExtras (extras_before_turn e activePlugins) initialCtx cycle_id) (\<lambda>pre.
        case pre of
          None \<Rightarrow>
            await (persistNotificationIntents initialCtx) (\<lambda>_.
            ret \<lparr>ar_text = [], ar_decisions = [], ar_results = [], ar_context_injected = injected,
                 ar_veto = summary, ar_aborted = True\<rparr>)
        | Some runningCtx \<Rightarrow>
            (let approvedSignals = array_or_empty (runningCtx ''pending_signals'')
             in await (ltmPrefetchInject enriched approvedSignals pendingSignals) (\<lambda>context1.
                await (runGovernedTurn (cycle_turn cycle_id systemPrompt activePlugins context1 approvedSignals)) (\<lambda>turn.
                await (after_turn cycle_id activePlugins (extras_after_turn e activePlugins) runningCtx
                        approvedSignals turn) (\<lambda>_.
                ret \<lparr>ar_text = tr_text turn, ar_decisions = tr_decisions turn, ar_results = tr_results turn,
                     ar_context_injected = injected, ar_veto = summary, ar_aborted = False\<rparr>))))))"

definition enrich :: "string \<Rightarrow> string \<Rightarrow> string" where
  "enrich memContext context0 =
     (if memContext = [] then context0
      else memContext @ [newline, newline] @ ''[CONTEXTO DEL CICLO ACTUAL]'' @ [newline] @ context0)"

definition audit_proposed :: "json list \<Rightarrow> unit agent_io" where
  "audit_proposed pendingSignals =
     (if pendingSignals = [] then ret () else ag_audit (SignalsProposed (length pendingSignals)))"

definition audit_adjusted :: "ml_injection \<Rightarrow> json list \<Rightarrow> unit agent_io" where
  "audit_adjusted ml pendingSignals =
     (if truthy_json (Option.bind ml fst) then ag_audit (SignalsAdjusted (length pendingSignals)) else ret ())"

definition executeAgentCycle :: "string \<Rightarrow> string \<Rightarrow> string option \<Rightarrow> agent_cycle_result agent_io" where
  "executeAgentCycle cycle_id context0 systemPrompt =
     await (ag_ask ge_memory) (\<lambda>memContext.
     await (ag_ask ge_active) (\<lambda>activePlugins.
     await marketContext (\<lambda>market.
     await (in_app (kv_get ''cycle.capital'')) (\<lambda>rawCapital.
     let capital = capital_from rawCapital;
         cycleCtx = cycle_ctx cycle_id market capital
     in await (ag_ask (\<lambda>e n. ge_sandbox_cycle e n (map ap_id activePlugins) cycleCtx)) (\<lambda>hookResult.
        let hookCtx = hook_ctx cycleCtx hookResult capital;
            pendingSignals = array_or_empty (hookCtx ''pending_signals'')
        in await (persistPluginAlerts hookCtx cycle_id) (\<lambda>_.
           await (audit_proposed pendingSignals) (\<lambda>_.
           await (mlResolveModelInjection activePlugins) (\<lambda>ml.
           await (runVetoLayer cycle_id (filter (\<lambda>p. ap_type p = ''discipline'') activePlugins) hookCtx
                   pendingSignals ml) (\<lambda>(vetoCtx, summary).
           await (audit_adjusted ml pendingSignals) (\<lambda>_.
           decide_cycle cycle_id systemPrompt (enrich memContext context0) (memContext \<noteq> []) activePlugins
             pendingSignals vetoCtx summary))))))))))"

definition runAgentCycle :: "string \<Rightarrow> string \<Rightarrow> string option \<Rightarrow> agent_cycle_result agent_io" where
  "runAgentCycle cycle_id context0 systemPrompt =
     await (ag_audit AgentCycleStart) (\<lambda>_.
     attempt
       (await (executeAgentCycle cycle_id context0 systemPrompt) (\<lambda>result.
        await (ag_audit (AgentCycleComplete (tally de_allowed (ar_decisions result)))) (\<lambda>_.
        ret result)))
       (\<lambda>err. await (ag_audit (AgentCycleFail err)) (\<lambda>_. throw err)))"

end
