(* ===== verification/AgentFacts.thy ===== *)
theory AgentFacts
  imports AgentTurn PretestGate Platform
begin

text \<open>
  What holds of tool calls and governed turns: what they may reach and how often, who may change
  configuration, and what becomes of exits, promotions and parameters.
\<close>

section \<open>What every operation of the agent respects\<close>

text \<open>Events that tell of an effect, or announce one; the others are audit rows.\<close>

fun audit_only :: "agent_event \<Rightarrow> bool" where
  "audit_only (LlmCalled _) = False"
| "audit_only (PluginCalled _ _ _) = False"
| "audit_only (HookCalled _) = False"
| "audit_only (LedgerWritten _) = False"
| "audit_only (AlertsRaised _) = False"
| "audit_only (EpisodeRecorded _ _ _ _) = False"
| "audit_only (SignalsRecorded _ _) = False"
| "audit_only (Observed _ _) = False"
| "audit_only (SignalTracked _ _) = False"
| "audit_only (WebSearched _) = False"
| "audit_only (SkillWritten _ _) = False"
| "audit_only (ConfigMerged _ _ _) = False"
| "audit_only (LessonPromoted _ _ _) = False"
| "audit_only (PromoteRequested _ _) = False"
| "audit_only _ = True"

text \<open>
  A relation on worlds of the agent over one on worlds of the pretests, which survives the passing
  of time and audit rows, and the arrays a round fills.
\<close>

locale agent_evolution = evolution T + inner: evolution S
  for T :: "agent_world \<Rightarrow> agent_world \<Rightarrow> bool" and S :: "pt_world \<Rightarrow> pt_world \<Rightarrow> bool" +
  assumes on_arrays: "T w (w\<lparr>ag_decisions := ds\<rparr>)" "T w (w\<lparr>ag_results := rs\<rparr>)" "T w (w\<lparr>ag_signals := ss\<rparr>)"
    and on_audit: "audit_only ev \<Longrightarrow> T w (w\<lparr>ag_log := ag_log w @ [ev]\<rparr>)"
    and on_pretest: "S (ag_pretest w) p \<Longrightarrow> T w (w\<lparr>ag_pretest := p\<rparr>)"
    and on_time: "S p (p\<lparr>pt_base := tock (pt_base p)\<rparr>)"
begin

lemma ev_in_pretest: "evolves S m \<Longrightarrow> evolves T (in_pretest m)"
  by (auto simp: evolves_def in_pretest_def split_beta intro: on_pretest)

lemma ev_ask: "evolves T (ag_ask f)"
  by (simp add: evolves_def ag_ask_def on_pretest on_time)

lemma ev_base_read: "evolves S (base (db_read f))"
  by (auto simp: evolves_def base_def db_read_def split_beta intro: on_time split: option.splits)

lemma ev_kv_get: "evolves T (in_app (kv_get k))"
  unfolding kv_get_def by (intro ev_in_pretest ev_base_read)

lemma ev_note: "audit_only ev \<Longrightarrow> evolves T (ag_note ev)"
  unfolding ag_note_def by (rule evolves_modify) (rule on_audit)

lemma ev_audit_event: "(\<And>w. T w (w\<lparr>ag_log := ag_log w @ [ev]\<rparr>)) \<Longrightarrow> evolves T (ag_audit ev)"
  unfolding ag_audit_def ag_note_def by (intro ev_await ev_in_pretest ev_base_read evolves_modify)

lemma ev_audit: "audit_only ev \<Longrightarrow> evolves T (ag_audit ev)"
  by (rule ev_audit_event) (rule on_audit)

lemma ev_push: "evolves T (push_decision tc a r)" "evolves T (push_result p f ok x e)"
  "evolves T (push_signal s b)"
  unfolding push_decision_def push_result_def push_signal_def
  by (rule evolves_modify, rule on_arrays)+

lemma ev_or_else: "evolves T m \<Longrightarrow> evolves T (or_else m x)"
  unfolding or_else_def by (intro ev_attempt ev_ret)

lemma ev_verdicts: "evolves T (refuse_call tc r)" "evolves T (accept_call tc v)"
  unfolding refuse_call_def accept_call_def by (intro ev_await ev_push)+

lemmas ev_steps = ev_rules ev_ask ev_kv_get ev_push ev_or_else ev_verdicts ev_audit
  evolves_splits

lemma ev_keep_valid: "evolves T (keep_valid f cs)"
proof (induction cs)
  case Nil
  show ?case unfolding keep_valid.simps by (rule ev_ret)
next
  case (Cons c cs)
  show ?case unfolding keep_valid.simps by (intro ev_steps Cons.IH) simp
qed

lemma ev_validate: "evolves T (validateToolCalls cs ts ps v src)"
  unfolding validateToolCalls_def by (intro ev_steps ev_keep_valid) simp

lemma ev_complete:
  "(\<And>w. T w (w\<lparr>ag_log := ag_log w @ [LlmCalled q]\<rparr>)) \<Longrightarrow> evolves T (complete q)"
  unfolding complete_def ag_note_def by (intro ev_steps evolves_modify)

lemma ev_call_plugin:
  "(\<And>w. T w (w\<lparr>ag_log := ag_log w @ [PluginCalled p f a]\<rparr>)) \<Longrightarrow> evolves T (call_plugin p f a)"
  unfolding call_plugin_def ag_note_def by (intro ev_steps evolves_modify)

lemma ev_configuration: "evolves T readDebateConfig" "evolves T readGatingConfig"
  "evolves T breaker_open" "evolves T (computeVisibleTools ts v)" "evolves T resolveMaxTurns"
  "evolves T resolveMaxToolCalls" "evolves T (setup_turn inp)"
proof -
  show a: "evolves T readDebateConfig" unfolding readDebateConfig_def by (intro ev_steps)
  show b: "evolves T readGatingConfig" unfolding readGatingConfig_def by (intro ev_steps)
  show c: "evolves T breaker_open" unfolding breaker_open_def by (intro ev_steps)
  show d: "evolves T (computeVisibleTools ts v)" for ts v
    unfolding computeVisibleTools_def by (intro ev_steps b c)
  show "evolves T resolveMaxTurns" "evolves T resolveMaxToolCalls"
    unfolding resolveMaxTurns_def resolveMaxToolCalls_def by (intro ev_steps)+
  show "evolves T (setup_turn inp)"
    unfolding setup_turn_def Let_def by (intro ev_steps d)
qed

lemma ev_role_stances:
  assumes "\<And>w q. lq_tools q = None \<Longrightarrow> T w (w\<lparr>ag_log := ag_log w @ [LlmCalled q]\<rparr>)"
  shows "evolves T (role_stances s rs)"
proof (induction rs)
  case Nil
  show ?case unfolding role_stances.simps by (rule ev_ret)
next
  case (Cons r rs)
  have "evolves T (complete (role_request s r))"
    by (rule ev_complete) (simp add: assms role_request_def)
  then show ?case unfolding role_stances.simps role_stance_def by (intro ev_steps Cons.IH)
qed

lemma ev_debate_gate:
  assumes "\<And>w q. lq_tools q = None \<Longrightarrow> T w (w\<lparr>ag_log := ag_log w @ [LlmCalled q]\<rparr>)"
    and "\<And>s. evolves S (base (quote_last s))"
  shows "evolves T (runDebateGate tc)"
proof -
  have "evolves T (debate tc cfg rs)" for cfg rs
    unfolding debate_def runPanel_def audit_consensus_def
    by (intro ev_steps ev_role_stances assms) simp_all
  moreover have "evolves T (isHighImpact tc x)" for x
    unfolding isHighImpact_def notional_reaches_def Let_def
    by (intro ev_steps ev_in_pretest assms)
  ultimately show ?thesis
    unfolding runDebateGate_def by (intro ev_steps ev_configuration)
qed

text \<open>The kernel tools, each with the effects it needs.\<close>

lemma ev_promote_tool:
  assumes "\<And>w i r. T w (w\<lparr>ag_log := ag_log w @ [PromoteRequested i r]\<rparr>)" "\<And>i. evolves S (promote i False)"
  shows "evolves T (kernelPromotePretest tc)"
proof -
  have "evolves T (ag_audit (PromoteRequested i r))" for i r by (rule ev_audit_event) (rule assms(1))
  then show ?thesis
    unfolding kernelPromotePretest_def Let_def
    by (intro evolves_if evolves_let ev_await ev_attempt ev_in_pretest assms(2) evolves_case_sum ev_ret ev_push ev_verdicts)
qed

lemma ev_compare_tool: "evolves S pretest_compare_all \<Longrightarrow> evolves T (kernelRunPretestCompare tc)"
  unfolding kernelRunPretestCompare_def by (intro ev_steps ev_in_pretest) simp_all

lemma ev_variant_tool:
  assumes "\<And>d. evolves S (pretest_create d)" "evolves S pretest_findAll"
  shows "evolves T (kernelCreatePretestVariant tc)"
  unfolding kernelCreatePretestVariant_def Let_def by (intro ev_steps ev_in_pretest assms) simp_all

lemma ev_lesson_tool:
  assumes "\<And>w t e r. T w (w\<lparr>ag_log := ag_log w @ [LessonPromoted t e r]\<rparr>)"
  shows "evolves T (kernelRecordLesson tc)"
  unfolding kernelRecordLesson_def Let_def ag_note_def by (intro ev_steps evolves_modify assms) simp

lemma ev_search_tool:
  assumes "\<And>w q. T w (w\<lparr>ag_log := ag_log w @ [WebSearched q]\<rparr>)"
  shows "evolves T (kernelWebSearch tc)"
  unfolding kernelWebSearch_def Let_def ag_note_def by (intro ev_steps evolves_modify assms) simp

lemma ev_skill_tool:
  assumes "\<And>w s b. T w (w\<lparr>ag_log := ag_log w @ [SkillWritten s b]\<rparr>)"
  shows "evolves T (kernelWriteSkill tc)"
  unfolding kernelWriteSkill_def Let_def ag_note_def by (intro ev_steps evolves_modify assms)

lemma ev_train_tool:
  assumes "\<And>w a. T w (w\<lparr>ag_log := ag_log w @ [PluginCalled ''ml-feature-extractor'' ''train'' a]\<rparr>)"
    and "\<And>v. evolves S (base (kv_set ''ml:model:current'' v))" "evolves S (base current_ts)"
  shows "evolves T (kernelTrainMlModel tc)"
  unfolding kernelTrainMlModel_def train_model_def store_model_def
  by (intro ev_steps ev_call_plugin ev_in_pretest assms) simp_all

lemma ev_tune_tool:
  assumes "\<And>w a. T w (w\<lparr>ag_log := ag_log w @ [PluginCalled ''param-discipline'' ''check_lock'' a]\<rparr>)"
    "\<And>w a. T w (w\<lparr>ag_log := ag_log w @ [PluginCalled ''param-discipline'' ''journal_entry'' a]\<rparr>)"
    and "\<And>w p q v. T w (w\<lparr>ag_log := ag_log w @ [ConfigMerged p q v]\<rparr>)"
    and "\<And>v. evolves S (base (kv_set ''param:journal'' v))"
  shows "evolves T (kernelTunePluginParam cy tc)"
proof -
  have "evolves T (runTuneChain a)" for a
    unfolding runTuneChain_def read_journal_def apply_tuning_def persist_journal_def succeeds_def
      merge_config_def ag_note_def Let_def
    by (intro ev_steps ev_call_plugin ev_in_pretest evolves_modify assms)
  then show ?thesis
    unfolding kernelTunePluginParam_def tune_checked_def Let_def by (intro ev_steps) simp_all
qed

lemma ev_for_each_in: "(\<And>x. x \<in> set xs \<Longrightarrow> evolves T (f x)) \<Longrightarrow> evolves T (for_each f xs)"
  by (induction xs) (auto intro: ev_ret ev_await)

lemma ev_dispatch:
  assumes "\<And>w q. lq_tools q = None \<Longrightarrow> T w (w\<lparr>ag_log := ag_log w @ [LlmCalled q]\<rparr>)"
    and "\<And>s. evolves S (base (quote_last s))"
    and "is_kernel tc \<Longrightarrow> evolves T (dispatchKernelTool cy tc)"
    and "\<And>w. \<not> is_kernel tc \<Longrightarrow>
      T w (w\<lparr>ag_log := ag_log w @ [PluginCalled (tc_plugin_id tc) (tc_function tc) (tc_args tc)]\<rparr>)"
    and "\<And>d. \<not> is_kernel tc \<Longrightarrow> evolves S (base (recordIntent d))"
  shows "evolves T (dispatchOne cy tc)"
proof -
  have "evolves T (dispatch_call cy tc)" if "\<not> is_kernel tc"
    unfolding dispatch_call_def recordSignalAndIntent_def Let_def
    by (intro ev_steps ev_call_plugin ev_in_pretest assms that) simp_all
  then show ?thesis
    unfolding dispatchOne_def by (intro ev_steps ev_debate_gate assms) simp_all
qed

lemma ev_execute:
  assumes "\<And>tc. tc \<in> set calls \<Longrightarrow> evolves T (dispatchOne cy tc)"
  shows "evolves T (executeToolCalls cy calls b s)"
proof -
  have r: "evolves T (for_each (dispatchOne cy) (read_only_calls s calls))"
    by (intro ev_for_each_in assms) (auto simp: read_only_calls_def dest: in_set_takeD)
  have e: "evolves T (for_each (dispatchOne cy) (take b (budgeted_calls calls)))"
    by (intro ev_for_each_in assms)
      (auto simp: budgeted_calls_def prioritizeExits_def dest!: in_set_takeD)
  have start: "T w (w\<lparr>ag_decisions := [], ag_results := [], ag_signals := []\<rparr>)" for w
    using trans [OF on_arrays(1) trans [OF on_arrays(2) on_arrays(3)]] .
  show ?thesis
    unfolding executeToolCalls_def audit_cap_def Let_def
    by (intro ev_steps r e evolves_modify start) simp_all
qed

lemma ev_divergence: "evolves T (auditLlmDivergence src ps es)"
  unfolding auditLlmDivergence_def divergence_def Let_def by (intro ev_steps) simp

end

text \<open>The tools a turn validates against: none in a chat, else those of the plugins and the kernel.\<close>

definition known_tools :: "agent_env \<Rightarrow> turn_input \<Rightarrow> provider_tool list \<Rightarrow> bool" where
  "known_tools E inp ts \<longleftrightarrow>
     (if tn_source inp = Chat then ts = []
      else \<exists>n provs. ge_provider_tools E n = Inr provs \<and> ts = provs @ kernel_tools (tn_source inp))"

text \<open>A call that the validation lets through, against plugins that are active then.\<close>

definition let_through :: "agent_env \<Rightarrow> turn_input \<Rightarrow> tool_call \<Rightarrow> bool" where
  "let_through E inp tc \<longleftrightarrow>
     (\<exists>aps ts. (case tn_active_plugins inp of Some ps \<Rightarrow> aps = ps | None \<Rightarrow> \<exists>n. ge_active E n = Inr aps) \<and>
        known_tools E inp ts \<and>
        resolveDropReason tc aps ts (tn_virtual_only inp) (tn_source inp = Reflection) = None)"

lemma keep_valid_result:
  "fst (keep_valid f cs w) = Inr vs \<Longrightarrow> tc \<in> set vs \<Longrightarrow> tc \<in> set cs \<and> f tc = None"
proof (induction cs arbitrary: w vs)
  case (Cons c cs)
  show ?case
  proof (cases "f c")
    case None
    then obtain us where "fst (keep_valid f cs w) = Inr us" "vs = c # us"
      using Cons.prems(1) by (auto simp: await_run ret_def split: sum.splits)
    then show ?thesis using Cons None by auto
  next
    case (Some r)
    then show ?thesis using Cons by (fastforce simp: await_run split: sum.splits)
  qed
qed (simp add: ret_def)

lemma validate_result:
  assumes "fst (validateToolCalls calls ts ps v src w) = Inr cs" and "tc \<in> set cs"
  shows "\<exists>aps. (case ps of Some qs \<Rightarrow> aps = qs | None \<Rightarrow> \<exists>n. ge_active (ag_env w) n = Inr aps) \<and>
    resolveDropReason tc aps ts v (src = Reflection) = None \<and> tc \<in> set calls"
proof -
  define get where "get = (case ps of Some qs \<Rightarrow> ret qs | None \<Rightarrow> ag_ask ge_active)"
  define keep where "keep aps = keep_valid (\<lambda>c. resolveDropReason c aps ts v (src = Reflection)) calls" for aps
  have ne: "calls \<noteq> []" using assms by (auto simp: validateToolCalls_def ret_def)
  obtain aps u where a: "fst (get w) = Inr aps" and k: "fst (keep aps u) = Inr cs"
    using assms ne
    by (auto simp: validateToolCalls_def get_def [symmetric] keep_def [symmetric] attempt_run await_run ret_def
        split: sum.splits)
  have "case ps of Some qs \<Rightarrow> aps = qs | None \<Rightarrow> \<exists>n. ge_active (ag_env w) n = Inr aps"
    using a by (auto simp: get_def ret_def ag_ask_def split: option.splits)
  then show ?thesis using keep_valid_result [OF k [unfolded keep_def] assms(2)] by blast
qed

lemma validated_let_through:
  assumes "known_tools (ag_env w) inp ts"
    and "fst (validateToolCalls calls ts (tn_active_plugins inp) (tn_virtual_only inp) (tn_source inp) w) = Inr cs"
    and "tc \<in> set cs"
  shows "let_through (ag_env w) inp tc"
  using validate_result [OF assms(2,3)] assms(1) unfolding let_through_def by blast

text \<open>
  A governed turn, when the dispatch of every call that a fixed environment lets through is
  respected.
\<close>

locale turn_evolution = agent_evolution T S for T S +
  fixes E :: agent_env and inp :: turn_input
  assumes foreign: "ag_env w \<noteq> E \<Longrightarrow> T w w'"
    and asks: "lq_tools q \<noteq> None \<Longrightarrow> T w (w\<lparr>ag_log := ag_log w @ [LlmCalled q]\<rparr>)"
    and dispatches: "let_through E inp tc \<Longrightarrow> evolves T (dispatchOne (tn_cycle_id inp) tc)"
begin

lemma ev_await_known:
  assumes "evolves T m" "\<And>w x. ag_env w = E \<Longrightarrow> fst (m w) = Inr x \<Longrightarrow> evolves T (f x)"
  shows "evolves T (await m f)"
  unfolding evolves_def
proof
  fix w
  show "T w (snd (await m f w))"
  proof (cases "ag_env w = E")
    case True
    have m: "T w (snd (m w))" using assms(1) by (simp add: evolves_def)
    show ?thesis
    proof (cases "fst (m w)")
      case (Inr x)
      then have "T (snd (m w)) (snd (f x (snd (m w))))"
        using assms(2) [OF True] by (simp add: evolves_def)
      then show ?thesis using Inr trans [OF m] by (simp add: await_run)
    qed (simp add: await_run m)
  qed (rule foreign)
qed

lemma ev_iteration:
  assumes "known_tools E inp (su_effective su)"
  shows "evolves T (runSingleIteration inp su c b s)"
proof -
  have c: "evolves T (complete (iteration_request su c))"
    by (rule ev_complete) (simp add: asks iteration_request_def)
  have r: "evolves T (requested_calls r)" for r
    unfolding requested_calls_def
    by (intro ev_steps) (auto intro!: ev_steps split: option.splits)
  have a: "evolves T (audit_turn src n)" for src n
    unfolding audit_turn_def by (cases src) (auto intro: ev_steps)
  have v: "evolves T (await (validateToolCalls calls (su_effective su) (tn_active_plugins inp)
      (tn_virtual_only inp) (tn_source inp)) (\<lambda>cs.
      await (executeToolCalls (tn_cycle_id inp) cs b s) (\<lambda>r. await (audit_turn (tn_source inp) (length cs)) (\<lambda>_.
      ret \<lparr>it_text = t, it_tool_calls = cs, it_round = r\<rparr>))))" for calls t
    by (intro ev_await_known ev_validate)
      (use assms in \<open>auto intro!: ev_await ev_ret ev_execute a dispatches dest: validated_let_through\<close>)
  show ?thesis
    unfolding runSingleIteration_def by (rule ev_await [OF c], rule ev_await [OF r], rule v)
qed

lemma ev_react_loop:
  assumes "known_tools E inp (su_effective su)"
  shows "evolves T (react_loop left inp su mt mc pg)"
proof (induction left arbitrary: pg)
  case 0
  show ?case unfolding react_loop.simps by (rule ev_ret)
next
  case (Suc left)
  show ?case
    unfolding react_loop.simps Let_def
    by (intro ev_steps ev_iteration assms Suc.IH) simp_all
qed

lemma setup_known: "fst (setup_turn inp w) = Inr su \<Longrightarrow> known_tools (ag_env w) inp (su_effective su)"
  by (auto simp: setup_turn_def known_tools_def await_run ret_def ag_ask_def Let_def split: sum.splits if_splits)

lemma ev_turn: "evolves T (runGovernedTurn inp)"
  unfolding runGovernedTurn_def
  by (rule ev_await_known [OF ev_configuration(7)])
    (auto intro!: ev_steps ev_react_loop ev_configuration ev_divergence dest: setup_known)

end

section \<open>What a turn may reach\<close>

text \<open>Relations during which the environment answers as it does.\<close>

definition during :: "agent_env \<Rightarrow> (agent_world \<Rightarrow> agent_world \<Rightarrow> bool) \<Rightarrow> agent_world \<Rightarrow> agent_world \<Rightarrow> bool" where
  "during E Q w w' \<longleftrightarrow> (ag_env w = E \<longrightarrow> ag_env w' = E \<and> Q w w')"

text \<open>The plugin functions that kernel tools call themselves.\<close>

definition internal_call :: "string \<Rightarrow> string \<Rightarrow> bool" where
  "internal_call p f \<longleftrightarrow>
     List.member [(''ml-feature-extractor'', ''train''), (''param-discipline'', ''check_lock''),
       (''param-discipline'', ''journal_entry'')] (p, f)"

text \<open>
  A plugin function a turn may call for the model: of an active plugin, declared as a tool, not
  of a provider in a virtual turn, and never in a chat.
\<close>

definition authorized_call :: "agent_env \<Rightarrow> turn_input \<Rightarrow> string \<Rightarrow> string \<Rightarrow> bool" where
  "authorized_call E inp p f \<longleftrightarrow>
     tn_source inp \<noteq> Chat \<and> p \<noteq> ''kernel'' \<and>
     (\<exists>aps n provs. (case tn_active_plugins inp of Some ps \<Rightarrow> aps = ps | None \<Rightarrow> \<exists>m. ge_active E m = Inr aps) \<and>
        ge_provider_tools E n = Inr provs \<and>
        list_ex (\<lambda>a. ap_id a = p) aps \<and>
        list_ex (\<lambda>t. tl_name t = p @ ''__'' @ f) (provs @ kernel_tools (tn_source inp)) \<and>
        (tn_virtual_only inp \<longrightarrow> (case find (\<lambda>a. ap_id a = p) aps of Some a \<Rightarrow> ap_type a \<noteq> ''provider'' | None \<Rightarrow> True)))"

fun authorized :: "agent_env \<Rightarrow> turn_input \<Rightarrow> agent_event \<Rightarrow> bool" where
  "authorized E inp (PluginCalled p f a) =
     (authorized_call E inp p f \<or> tn_source inp = Reflection \<and> internal_call p f)"
| "authorized E inp (SkillWritten s b) = (tn_source inp = Reflection)"
| "authorized E inp (ConfigMerged p q v) = (tn_source inp = Reflection)"
| "authorized E inp (LessonPromoted t i r) = (tn_source inp = Reflection)"
| "authorized E inp (PromoteRequested i r) = (tn_source inp = Reflection)"
| "authorized E inp (HookCalled p) = False"
| "authorized E inp (LedgerWritten r) = False"
| "authorized E inp (AlertsRaised xs) = False"
| "authorized E inp (EpisodeRecorded ss a r n) = False"
| "authorized E inp (SignalsRecorded rs h) = False"
| "authorized E inp (Observed t n) = False"
| "authorized E inp (SignalTracked s a) = False"
| "authorized E inp _ = True"

text \<open>Outside a reflection the world of the pretests stays as it is, the shared world apart.\<close>

definition pretests_kept :: "turn_input \<Rightarrow> pt_world \<Rightarrow> pt_world \<Rightarrow> bool" where
  "pretests_kept inp p q \<longleftrightarrow> tn_source inp = Reflection \<or>
     pt_env q = pt_env p \<and> pt_rows q = pt_rows p \<and> pt_navs q = pt_navs p \<and> pt_reputation q = pt_reputation p \<and>
     pt_audit q = pt_audit p \<and> pt_calls q = pt_calls p"

definition allowed_run :: "agent_env \<Rightarrow> turn_input \<Rightarrow> agent_world \<Rightarrow> agent_world \<Rightarrow> bool" where
  "allowed_run E inp w w' \<longleftrightarrow>
     (\<exists>evs. ag_log w' = ag_log w @ evs \<and> list_all (authorized E inp) evs) \<and>
     pretests_kept inp (ag_pretest w) (ag_pretest w')"

lemma allowed_trans: "allowed_run E inp u v \<Longrightarrow> allowed_run E inp v w \<Longrightarrow> allowed_run E inp u w"
  unfolding allowed_run_def pretests_kept_def
  by (elim conjE exE) (auto intro: exI [of _ "_ @ _"])

lemma kept_evolution: "evolution (pretests_kept inp)"
  by unfold_locales (auto simp: pretests_kept_def)

lemma kept_base: "evolves (pretests_kept inp) (base m)"
  by (simp add: evolves_def base_def pretests_kept_def split_beta)

lemma audit_only_authorized: "audit_only ev \<Longrightarrow> authorized E inp ev"
  by (cases ev) simp_all

interpretation allowed: agent_evolution "during E (allowed_run E inp)" "pretests_kept inp" for E inp
proof -
  have "evolution (during E (allowed_run E inp))"
    by unfold_locales (auto simp: during_def allowed_run_def pretests_kept_def intro: allowed_trans)
  then show "agent_evolution (during E (allowed_run E inp)) (pretests_kept inp)"
    using kept_evolution audit_only_authorized
    by (intro agent_evolution.intro agent_evolution_axioms.intro)
      (auto simp: during_def allowed_run_def pretests_kept_def)
qed

lemma allowed_event: "authorized E inp ev \<Longrightarrow> during E (allowed_run E inp) w (w\<lparr>ag_log := ag_log w @ [ev]\<rparr>)"
  by (simp add: during_def allowed_run_def pretests_kept_def)

lemma let_through_kernel:
  "let_through E inp tc \<Longrightarrow> is_kernel tc \<Longrightarrow> tn_source inp \<noteq> Reflection \<Longrightarrow> tc_function tc = ''web_search''"
  by (auto simp: let_through_def resolveDropReason_def KERNEL_ALWAYS_ALLOWED_TOOLS_def split: if_splits)

lemma let_through_plugin:
  assumes "let_through E inp tc" "\<not> is_kernel tc"
  shows "authorized_call E inp (tc_plugin_id tc) (tc_function tc)"
proof -
  obtain aps ts where a: "case tn_active_plugins inp of Some ps \<Rightarrow> aps = ps | None \<Rightarrow> \<exists>n. ge_active E n = Inr aps"
    and ts: "known_tools E inp ts"
    and r: "resolveDropReason tc aps ts (tn_virtual_only inp) (tn_source inp = Reflection) = None"
    using assms(1) by (auto simp: let_through_def)
  have t: "list_ex (\<lambda>t. tl_name t = tool_name tc) ts" "list_ex (\<lambda>a. ap_id a = tc_plugin_id tc) aps"
    "tn_virtual_only inp \<longrightarrow> (case find (\<lambda>a. ap_id a = tc_plugin_id tc) aps of
       Some a \<Rightarrow> ap_type a \<noteq> ''provider'' | None \<Rightarrow> True)"
    using r assms(2) by (auto simp: resolveDropReason_def split: if_splits option.splits)
  have "tn_source inp \<noteq> Chat" using ts t(1) by (auto simp: known_tools_def split: if_splits)
  moreover obtain n provs where "ge_provider_tools E n = Inr provs" "ts = provs @ kernel_tools (tn_source inp)"
    using ts \<open>tn_source inp \<noteq> Chat\<close> by (auto simp: known_tools_def)
  ultimately show ?thesis
    using a t assms(2) unfolding authorized_call_def is_kernel_def tool_name_def by blast
qed

lemma allowed_kernel:
  assumes "let_through E inp tc" "is_kernel tc"
  shows "evolves (during E (allowed_run E inp)) (dispatchKernelTool cy tc)"
proof (cases "tn_source inp = Reflection")
  case True
  have any: "evolves (pretests_kept inp) m" for m :: "'x pt_io"
    using True by (simp add: evolves_def pretests_kept_def)
  note tools = allowed.ev_skill_tool allowed.ev_variant_tool allowed.ev_compare_tool allowed.ev_promote_tool
    allowed.ev_lesson_tool allowed.ev_train_tool allowed.ev_tune_tool allowed.ev_search_tool
  show ?thesis
    unfolding dispatchKernelTool_def Let_def
    by (intro evolves_if tools any allowed_event allowed.ev_push) (simp_all add: True internal_call_def)
next
  case False
  then have "dispatchKernelTool cy tc = kernelWebSearch tc"
    using let_through_kernel [OF assms] by (simp add: dispatchKernelTool_def)
  moreover have "evolves (during E (allowed_run E inp)) (kernelWebSearch tc)"
    by (intro allowed.ev_search_tool allowed_event) simp
  ultimately show ?thesis by simp
qed

interpretation allowed_turn: turn_evolution "during E (allowed_run E inp)" "pretests_kept inp" E inp for E inp
proof
  fix w w' :: agent_world assume "ag_env w \<noteq> E"
  then show "during E (allowed_run E inp) w w'" by (simp add: during_def)
next
  fix q and w :: agent_world
  show "during E (allowed_run E inp) w (w\<lparr>ag_log := ag_log w @ [LlmCalled q]\<rparr>)" by (simp add: allowed_event)
next
  fix tc assume t: "let_through E inp tc"
  show "evolves (during E (allowed_run E inp)) (dispatchOne (tn_cycle_id inp) tc)"
    by (intro allowed.ev_dispatch allowed_event kept_base allowed_kernel [OF t])
      (use let_through_plugin [OF t] in simp_all)
qed

text \<open>C4: A turn reaches only what it is allowed to. Whatever the model answers, every plugin function
  a governed turn calls for it belongs to a plugin that is active then, is declared as a tool, is
  not a provider's in a virtual turn, and none is called in a chat; only a reflection writes
  skills, plugin configuration, lessons, pretest portfolios or live plugins. No hook
  runs, and the turn itself writes neither the veto ledger nor alerts nor memory.\<close>

theorem turn_reaches_only_what_is_allowed:
  "\<exists>evs. ag_log (snd (runGovernedTurn inp w)) = ag_log w @ evs \<and>
     list_all (authorized (ag_env w) inp) evs \<and>
     pretests_kept inp (ag_pretest w) (ag_pretest (snd (runGovernedTurn inp w)))"
  using evolvesD [OF allowed_turn.ev_turn [of "ag_env w" inp], of w] by (simp add: during_def allowed_run_def)

section \<open>Relations that only the pretest world matters to\<close>

text \<open>What the tools and the recording of an intent do to it.\<close>

locale inner_evolution = evolution S for S :: "pt_world \<Rightarrow> pt_world \<Rightarrow> bool" +
  assumes time: "S p (p\<lparr>pt_base := tock (pt_base p)\<rparr>)"
    and quotes: "evolves S (base (quote_last s))"
    and requests: "evolves S (promote i False)"
    and compares: "evolves S pretest_compare_all"
    and creates: "evolves S (pretest_create d)"
    and finds: "evolves S pretest_findAll"
    and stamps: "evolves S (base current_ts)"
    and settings: "evolves S (base (kv_set ''ml:model:current'' v))" "evolves S (base (kv_set ''param:journal'' v))"
    and records: "evolves S (base (recordIntent dto))"
begin

definition inner :: "agent_env \<Rightarrow> agent_world \<Rightarrow> agent_world \<Rightarrow> bool" where
  "inner E = during E (\<lambda>w w'. S (ag_pretest w) (ag_pretest w'))"

lemma inner_agent: "agent_evolution (inner E) S"
proof -
  have e: "evolution (inner E)"
    by unfold_locales (auto simp: inner_def during_def refl intro: trans)
  show ?thesis
    by (intro agent_evolution.intro agent_evolution_axioms.intro e evolution_axioms)
      (auto simp: inner_def during_def refl time)
qed

lemma inner_kernel: "evolves (inner E) (dispatchKernelTool cy tc)"
proof -
  have log: "inner E w (w\<lparr>ag_log := l\<rparr>)" for w l by (simp add: inner_def during_def refl)
  note tools = agent_evolution.ev_skill_tool [OF inner_agent] agent_evolution.ev_variant_tool [OF inner_agent]
    agent_evolution.ev_compare_tool [OF inner_agent] agent_evolution.ev_promote_tool [OF inner_agent]
    agent_evolution.ev_lesson_tool [OF inner_agent] agent_evolution.ev_train_tool [OF inner_agent]
    agent_evolution.ev_tune_tool [OF inner_agent] agent_evolution.ev_search_tool [OF inner_agent]
    agent_evolution.ev_push [OF inner_agent]
  show ?thesis
    unfolding dispatchKernelTool_def Let_def
    by (intro evolves_if tools log requests compares creates finds stamps settings)
qed

lemma inner_turn: "turn_evolution (inner E) S E inp"
proof (intro turn_evolution.intro turn_evolution_axioms.intro inner_agent)
  fix w w' :: agent_world assume "ag_env w \<noteq> E"
  then show "inner E w w'" by (simp add: inner_def during_def)
next
  fix q and w :: agent_world
  show "inner E w (w\<lparr>ag_log := ag_log w @ [LlmCalled q]\<rparr>)" by (simp add: inner_def during_def refl)
next
  fix tc
  show "evolves (inner E) (dispatchOne (tn_cycle_id inp) tc)"
    by (intro agent_evolution.ev_dispatch [OF inner_agent] inner_kernel quotes records)
      (simp_all add: inner_def during_def refl)
qed

lemma turn_inner: "S (ag_pretest w) (ag_pretest (snd (runGovernedTurn inp w)))"
  using evolvesD [OF turn_evolution.ev_turn [OF inner_turn [of "ag_env w" inp]], of w]
  by (simp add: inner_def during_def)

end

section \<open>Promotion by the model\<close>

text \<open>Recording an intent writes no setting but those of the kill switch.\<close>

definition CONFIRM_KEY :: string where "CONFIRM_KEY = ''promotion.require_human_confirm''"

definition confirm_kept :: "world \<Rightarrow> world \<Rightarrow> bool" where
  "confirm_kept w w' \<longleftrightarrow> w_config w' CONFIRM_KEY = w_config w CONFIRM_KEY"

interpretation confirm_kept: world_evolution confirm_kept
  by unfold_locales (auto simp: confirm_kept_def)

lemma confirm_kept_set: "k \<noteq> CONFIRM_KEY \<Longrightarrow> evolves confirm_kept (kv_set k v)"
  unfolding kv_set_def by (rule confirm_kept.ev_db_write) (auto simp: confirm_kept_def)

lemma confirm_kept_halt: "evolves confirm_kept (haltRealExecution reason)"
  unfolding haltRealExecution_def
  by (intro confirm_kept.ev_await confirm_kept_set)
    (simp_all add: CONFIRM_KEY_def REAL_EXECUTION_HALTED_KEY_def REAL_EXECUTION_HALT_REASON_KEY_def)

lemma confirm_kept_frame [simp]:
  "confirm_kept w (w\<lparr>w_orders := t\<rparr>)" "confirm_kept w (w\<lparr>w_intents := i\<rparr>)" "confirm_kept w (w\<lparr>w_audit := au\<rparr>)"
  "confirm_kept w (w\<lparr>w_portfolios := p\<rparr>)" "confirm_kept w (w\<lparr>w_fail_times := ft\<rparr>)" "confirm_kept w (note_event e w)"
  "confirm_kept w (tock w)"
  by (simp_all add: confirm_kept_def)

interpretation confirm_kept: order_submission confirm_kept
  by unfold_locales (auto intro: confirm_kept_halt confirm_kept.ev_order_writes)

interpretation confirm_kept: intent_processing confirm_kept
  by unfold_locales (auto intro: confirm_kept.ev_submit)

definition confirming :: "world \<Rightarrow> bool" where
  "confirming w \<longleftrightarrow> kvBool (w_config w CONFIRM_KEY) True"

definition consent :: "pt_world \<Rightarrow> pt_world \<Rightarrow> bool" where
  "consent p q \<longleftrightarrow> confirm_kept (pt_base p) (pt_base q) \<and>
     (confirming (pt_base p) \<longrightarrow> pt_calls q = pt_calls p)"

lemma consent_base: "evolves confirm_kept m \<Longrightarrow> evolves consent (base m)"
  by (simp add: evolves_def base_def consent_def split_beta)

lemma untouched_confirm: "untouched w w' \<Longrightarrow> confirm_kept w w'"
  by (simp add: untouched_def confirm_kept_def)

lemma consent_promote: "evolves consent (promote i False)"
  unfolding evolves_def
proof
  fix w
  have "untouched (pt_base w) (pt_base (snd (promote i False w)))"
    using evolvesD [OF virtual.ev_promote [OF virtual_frame(3,4)], of w i False] by (simp add: virtual_def)
  then show "consent w (snd (promote i False w))"
    using promotion_calls [of i False w] untouched_confirm
    by (auto simp: consent_def confirming_def CONFIRM_KEY_def)
qed

interpretation consent: evolution consent
  by unfold_locales (auto simp: consent_def confirm_kept_def confirming_def)

lemmas consent_rules = consent_base consent_promote confirm_kept.ev_quote_last confirm_kept_set
  confirm_kept.handling.ev_recordIntent

interpretation consent: pretest_evolution consent untouched
  by unfold_locales (auto simp: consent_def untouched_confirm confirm_kept.refl)

interpretation consent: inner_evolution consent
proof
  show "evolves consent (pretest_create d)" for d
    unfolding pretest_create_def Let_def
    by (intro consent.ev_calls consent.ev_base untouched.ev_uuid untouched.ev_now consent.ev_q_write)
      (simp add: consent_def confirm_kept_def)
  show "consent p (p\<lparr>pt_base := tock (pt_base p)\<rparr>)" for p by (simp add: consent_def)
  show "evolves consent (base current_ts)"
    unfolding current_ts_def by (intro consent_base confirm_kept.ev_pure)
  show "evolves consent (base (kv_set ''ml:model:current'' v))" "evolves consent (base (kv_set ''param:journal'' v))" for v
    by (intro consent_base confirm_kept_set, simp add: CONFIRM_KEY_def)+
qed (intro consent_rules consent.ev_compare consent.ev_findAll)+

text \<open>C6: The model never promotes on its own. Unless the operator has switched confirmation off with
  the literal value, a governed turn of any kind, a reflection with the promotion tool included,
  leaves the plugin service without a request to activate or configure anything.\<close>

theorem model_never_promotes_alone:
  assumes "kvBool (w_config (pt_base (ag_pretest w)) ''promotion.require_human_confirm'') True"
  shows "pt_calls (ag_pretest (snd (runGovernedTurn inp w))) = pt_calls (ag_pretest w)"
  using consent.turn_inner [of w inp] assms
  by (simp add: consent_def confirming_def CONFIRM_KEY_def)

section \<open>A halted platform\<close>

definition halted_inner :: "pt_world \<Rightarrow> pt_world \<Rightarrow> bool" where
  "halted_inner p q \<longleftrightarrow> halted_sends (pt_base p) (pt_base q)"

lemma halted_inner_base: "evolves halted_sends m \<Longrightarrow> evolves halted_inner (base m)"
  by (simp add: evolves_def base_def halted_inner_def split_beta)

lemma untouched_halted: "untouched w w' \<Longrightarrow> halted_sends w w'"
  by (rule halted_sends_quiet)
    (simp_all add: untouched_def stays_halted_def halted_def no_new_placement_def)

lemma halted_set: "k \<noteq> REAL_EXECUTION_HALTED_KEY \<Longrightarrow> evolves halted_sends (kv_set k v)"
proof -
  assume k: "k \<noteq> REAL_EXECUTION_HALTED_KEY"
  have "evolves (\<lambda>w w'. w_env w' = w_env w) (kv_set k v)" by (rule same_env.ev_kv_set) simp
  moreover have "evolves no_new_placement (kv_set k v)" by (rule no_placement.ev_kv_set) simp
  moreover have "evolves stays_halted (kv_set k v)" using k by (intro halting_set) simp
  ultimately show ?thesis unfolding evolves_def by (blast intro: halted_sends_quiet)
qed

interpretation halted_inner: evolution halted_inner
  by unfold_locales (auto simp: halted_inner_def intro: halted_sends.refl halted_sends.trans)

interpretation halted_inner: pretest_evolution halted_inner untouched
  by unfold_locales (auto simp: halted_inner_def untouched_halted halted_sends.refl)

lemma halted_inner_frame: "pt_base q = pt_base p \<Longrightarrow> halted_inner p q"
  by (simp add: halted_inner_def halted_sends.refl)

interpretation halted_inner: inner_evolution halted_inner
proof
  show "evolves halted_inner (pretest_create d)" for d
    unfolding pretest_create_def Let_def
    by (intro halted_inner.ev_calls halted_inner.ev_base untouched.ev_uuid untouched.ev_now
        halted_inner.ev_q_write halted_inner_frame) simp
  show "evolves halted_inner (promote i False)" for i
    by (intro halted_inner.ev_promote halted_inner_frame) simp_all
  show "halted_inner p (p\<lparr>pt_base := tock (pt_base p)\<rparr>)" for p
    by (simp add: halted_inner_def halted_sends.tock)
  show "evolves halted_inner (base current_ts)"
    unfolding current_ts_def by (intro halted_inner_base halted_sends.ev_pure)
  show "evolves halted_inner (base (kv_set ''ml:model:current'' v))"
    "evolves halted_inner (base (kv_set ''param:journal'' v))" for v
    by (intro halted_inner_base halted_set, simp add: REAL_EXECUTION_HALTED_KEY_def)+
qed (intro halted_inner.ev_compare halted_inner.ev_findAll halted_inner_base halted_sends.ev_quote_last
    halted_sends.ev_recordIntent)+

end
