(* ===== verification/CycleFacts.thy ===== *)
theory CycleFacts
  imports AgentCycle AgentFacts
begin

text \<open>
  What holds of an agent cycle: the veto layer fails safe, its ledger tells what became of each
  signal, the extras cannot change what it approved, an aborted cycle decides nothing, and a halted
  platform only closes.
\<close>

section \<open>What every step of a cycle respects\<close>

text \<open>What a cycle calls and records outside its turn.\<close>

fun cycle_record :: "agent_event \<Rightarrow> bool" where
  "cycle_record (HookCalled _) = True"
| "cycle_record (LedgerWritten _) = True"
| "cycle_record (AlertsRaised _) = True"
| "cycle_record (EpisodeRecorded _ _ _ _) = True"
| "cycle_record (SignalsRecorded _ _) = True"
| "cycle_record (Observed _ _) = True"
| "cycle_record (SignalTracked _ _) = True"
| "cycle_record _ = False"

locale cycle_evolution = agent_evolution T S for T S +
  assumes on_record: "cycle_record ev \<Longrightarrow> T w (w\<lparr>ag_log := ag_log w @ [ev]\<rparr>)"
begin

lemma ev_store: "cycle_record ev \<Longrightarrow> evolves T (ag_store ev)"
  unfolding ag_store_def ag_note_def by (intro ev_steps evolves_modify on_record)

lemma ev_hook: "evolves T (run_hook p ctx)"
  unfolding run_hook_def ag_note_def by (intro ev_steps evolves_modify on_record) simp

lemma ev_alerts: "evolves T (persistPluginAlerts ctx cy)"
  unfolding persistPluginAlerts_def Let_def by (intro ev_steps ev_store) simp

lemma ev_persist: "evolves T (persistVetoDecisions sigs ctx rs)"
  unfolding persistVetoDecisions_def persist_decision_def by (intro ev_steps ev_store) simp_all

lemma ev_disciplines: "evolves T (discipline_steps cy ml st ds)"
proof (induction ds arbitrary: st)
  case Nil
  show ?case unfolding discipline_steps.simps by (rule ev_ret)
next
  case (Cons d ds)
  show ?case
    unfolding discipline_steps.simps discipline_step_def Let_def
    by (intro ev_steps ev_hook ev_alerts Cons.IH) simp
qed

lemma ev_veto: "evolves T (runVetoLayer cy ds ctx sigs ml)"
  unfolding runVetoLayer_def Let_def by (intro ev_steps ev_disciplines ev_persist) simp

lemma ev_extra: "evolves T (extra_step cy ctx p)"
  unfolding extra_step_def Let_def by (intro ev_steps ev_hook ev_alerts)

lemma ev_pre: "evolves T (runPreExtras ps ctx cy)"
proof (induction ps arbitrary: ctx)
  case Nil
  show ?case unfolding runPreExtras.simps by (rule ev_ret)
next
  case (Cons p ps)
  show ?case unfolding runPreExtras.simps by (intro ev_steps ev_extra Cons.IH) simp
qed

lemma ev_post: "evolves T (runPostExtras ps ctx cy)"
proof -
  have "evolves T (post_steps ps ctx cy)" for ctx
  proof (induction ps arbitrary: ctx)
    case Nil
    show ?case unfolding post_steps.simps by (rule ev_ret)
  next
    case (Cons p ps)
    show ?case unfolding post_steps.simps by (intro ev_steps ev_extra Cons.IH)
  qed
  then show ?thesis unfolding runPostExtras_def Let_def by (intro ev_steps)
qed

lemma ev_notifications: "evolves T (persistNotificationIntents ctx)"
  unfolding persistNotificationIntents_def send_notification_def Let_def by (intro ev_steps) simp

lemma inner_ask: "evolves S (q_ask f)"
  by (simp add: evolves_def q_ask_def on_time)

lemma inner_bars: "evolves S (fetch_bars ss p t b o1)"
proof (induction ss arbitrary: o1)
  case Nil
  show ?case unfolding fetch_bars.simps by (rule inner.ev_ret)
next
  case (Cons s ss)
  show ?case unfolding fetch_bars.simps by (intro inner.ev_rules inner_ask Cons.IH)
qed

lemma ev_market: "evolves T marketContext"
proof -
  have kv: "evolves S (base (kv_get k))" for k unfolding kv_get_def by (rule ev_base_read)
  show ?thesis
    unfolding marketContext_def Let_def kv_text_def
    by (intro ev_in_pretest inner.ev_rules kv inner_bars)
qed

lemma ev_model: "evolves T (mlResolveModelInjection ps)"
  unfolding mlResolveModelInjection_def skillHash_def by (intro ev_steps)

lemma ev_memory: "evolves T (ltmPrefetchInject c a p)" "evolves T (ltmRecordEpisode es t)"
  "evolves T (mlCaptureSignals sigs es ps)"
  unfolding ltmPrefetchInject_def ltmRecordEpisode_def mlCaptureSignals_def skillHash_def Let_def
  by (intro ev_steps ev_store; simp)+

lemma ev_after_turn: "evolves T (after_turn cy aps ps ctx sigs t)"
  unfolding after_turn_def by (intro ev_steps ev_memory ev_post ev_notifications ev_store) simp_all

lemma ev_cycle_audits: "evolves T (audit_proposed sigs)" "evolves T (audit_adjusted ml sigs)"
  unfolding audit_proposed_def audit_adjusted_def by (intro ev_steps; simp)+

lemma ev_decide:
  assumes "\<And>inp. evolves T (runGovernedTurn inp)"
  shows "evolves T (decide_cycle cy sp en b0 aps sigs ctx vs)"
  unfolding decide_cycle_def Let_def
  by (intro ev_steps ev_pre ev_notifications ev_memory ev_after_turn assms)

lemma ev_cycle:
  assumes "\<And>inp. evolves T (runGovernedTurn inp)"
  shows "evolves T (runAgentCycle cy c sp)"
  unfolding runAgentCycle_def executeAgentCycle_def Let_def
  by (intro ev_steps ev_market ev_alerts ev_cycle_audits ev_model ev_veto ev_decide assms) simp_all

end

section \<open>A halted platform\<close>

context inner_evolution
begin

lemma cycle_inner: "S (ag_pretest w) (ag_pretest (snd (runAgentCycle cy c sp w)))"
proof -
  have "cycle_evolution (inner E) S" for E
    by (intro cycle_evolution.intro inner_agent cycle_evolution_axioms.intro)
      (simp add: inner_def during_def refl)
  then have "evolves (inner (ag_env w)) (runAgentCycle cy c sp)"
    by (rule cycle_evolution.ev_cycle) (rule turn_evolution.ev_turn [OF inner_turn])
  from evolvesD [OF this, of w] show ?thesis by (simp add: inner_def during_def)
qed

end

definition exits_only :: "agent_world \<Rightarrow> agent_world \<Rightarrow> bool" where
  "exits_only w w' \<longleftrightarrow>
     (\<exists>ps. placements (pt_base (ag_pretest w')) = placements (pt_base (ag_pretest w)) @ ps \<and>
        list_all (exit_order (w_env (pt_base (ag_pretest w)))) ps) \<and>
     halted (pt_base (ag_pretest w'))"

text \<open>
  A plugin that is a provider in every list of active plugins the turn may be given. Its functions,
  when the model calls them as tools, go to the sandbox and not through the gateway of orders.
\<close>

definition provider_for :: "agent_env \<Rightarrow> turn_input \<Rightarrow> string \<Rightarrow> bool" where
  "provider_for E inp p \<longleftrightarrow>
     (\<forall>ps. (tn_active_plugins inp = Some ps \<or> tn_active_plugins inp = None \<and> (\<exists>n. ge_active E n = Inr ps)) \<longrightarrow>
        (case find (\<lambda>a. ap_id a = p) ps of Some a \<Rightarrow> ap_type a = ''provider'' | None \<Rightarrow> True))"

lemma virtual_spares_providers:
  assumes "authorized_call E inp p f" "tn_virtual_only inp"
  shows "\<not> provider_for E inp p"
proof
  assume pr: "provider_for E inp p"
  obtain aps where aps: "case tn_active_plugins inp of Some ps \<Rightarrow> aps = ps | None \<Rightarrow> \<exists>m. ge_active E m = Inr aps"
    "list_ex (\<lambda>a. ap_id a = p) aps"
    "case find (\<lambda>a. ap_id a = p) aps of Some a \<Rightarrow> ap_type a \<noteq> ''provider'' | None \<Rightarrow> True"
    using assms unfolding authorized_call_def by blast
  have "case find (\<lambda>a. ap_id a = p) aps of Some a \<Rightarrow> ap_type a = ''provider'' | None \<Rightarrow> True"
    using pr aps(1) unfolding provider_for_def by (auto split: option.splits)
  then show False using aps(2,3) by (auto split: option.splits simp: find_None_iff list_ex_iff)
qed

lemma providers_not_called:
  assumes "tn_virtual_only inp" "tn_source inp \<noteq> Reflection"
  shows "\<exists>evs. ag_log (snd (runGovernedTurn inp w)) = ag_log w @ evs \<and>
     (\<forall>p f a. PluginCalled p f a \<in> set evs \<longrightarrow> \<not> provider_for (ag_env w) inp p)"
proof -
  obtain evs where "ag_log (snd (runGovernedTurn inp w)) = ag_log w @ evs" "list_all (authorized (ag_env w) inp) evs"
    using evolvesD [OF allowed_turn.ev_turn [of "ag_env w" inp], of w] by (auto simp: during_def allowed_run_def)
  then show ?thesis
    using assms virtual_spares_providers by (intro exI [of _ evs]) (force simp: list_all_iff)
qed

text \<open>C5: While the kill switch is on, the agent sends only exits through the order gateway. Whatever the
  model, the plugins, the disciplines and the extras answer, the orders that a governed turn of any
  kind, or a whole agent cycle, sends to a broker through the gateway while real execution is halted are
  exits, market sells of the size of a position the broker itself reports, and the switch is still
  on afterwards. The other way to a broker is a tool of a provider plugin that the model calls directly:
  it does not pass the gateway, and the switch does not stop it in a turn that is not virtual
  (lemma \<open>switch_spares_provider_tools\<close>). A virtual turn, reflections aside, calls no function of a
  plugin that is listed as a provider.\<close>

theorem halted_agent_only_exits:
  assumes "halted (pt_base (ag_pretest w))"
  shows "exits_only w (snd (runGovernedTurn inp w)) \<and> exits_only w (snd (runAgentCycle cy c sp w)) \<and>
    (tn_virtual_only inp \<and> tn_source inp \<noteq> Reflection \<longrightarrow>
       (\<exists>evs. ag_log (snd (runGovernedTurn inp w)) = ag_log w @ evs \<and>
          (\<forall>p f a. PluginCalled p f a \<in> set evs \<longrightarrow> \<not> provider_for (ag_env w) inp p)))"
  using halted_inner.turn_inner [of w inp] halted_inner.cycle_inner [of w cy c sp] assms
    providers_not_called [of inp w]
  by (auto simp: halted_inner_def halted_sends_def exits_only_def)

section \<open>The veto layer\<close>

text \<open>A discipline that never answers: each of its hooks throws or reports a failure.\<close>

definition never_answers :: "agent_env \<Rightarrow> active_plugin \<Rightarrow> bool" where
  "never_answers E d \<longleftrightarrow> (\<forall>n ctx a. ge_run_hook E n (ap_id d) ctx = Inr a \<longrightarrow> \<not> an_ok a)"

definition no_signals :: "config \<Rightarrow> bool" where
  "no_signals ctx \<longleftrightarrow> ctx ''pending_signals'' = Some (JArr [])"

lemma failing_step:
  assumes "never_answers (ag_env w) d" "fst (discipline_step cy ml st d w) = Inr st'"
  shows "no_signals (vl_ctx st') \<and> vl_degraded st'"
proof -
  obtain res where r: "fst (run_hook (ap_id d) (if is_ml d then inject ml (vl_ctx st) else vl_ctx st) w) = Inr res"
    using assms(2) by (auto simp: discipline_step_def await_run split: sum.splits)
  have "\<not> an_ok res"
    using r assms(1) by (auto simp: run_hook_def await_run ag_note_def modify_def ag_ask_def never_answers_def)
  then show ?thesis
    using assms(2) r by (auto simp: discipline_step_def await_run ret_def no_signals_def split: sum.splits)
qed

definition same_agent_env :: "agent_world \<Rightarrow> agent_world \<Rightarrow> bool" where
  "same_agent_env w w' \<longleftrightarrow> ag_env w' = ag_env w"

interpretation same_agent: cycle_evolution same_agent_env "\<lambda>_ _. True"
  by unfold_locales (auto simp: same_agent_env_def)

lemma steps_append:
  "discipline_steps cy ml st (ds @ [d]) =
     await (discipline_steps cy ml st ds) (\<lambda>st'. discipline_step cy ml st' d)"
proof (induction ds arbitrary: st)
  case Nil
  show ?case by (auto simp: fun_eq_iff await_def ret_def split: sum.splits prod.splits)
next
  case (Cons x xs)
  then show ?case by (auto simp: fun_eq_iff await_run split: sum.splits)
qed

lemma failing_last:
  assumes "never_answers (ag_env w) d" "fst (discipline_steps cy ml st (ds @ [d]) w) = Inr st'"
  shows "no_signals (vl_ctx st') \<and> vl_degraded st'"
proof -
  obtain st1 where "fst (discipline_step cy ml st1 d (snd (discipline_steps cy ml st ds w))) = Inr st'"
    using assms(2) by (auto simp: steps_append await_run split: sum.splits)
  moreover have "ag_env (snd (discipline_steps cy ml st ds w)) = ag_env w"
    using evolvesD [OF same_agent.ev_disciplines, of w] by (simp add: same_agent_env_def)
  ultimately show ?thesis using failing_step assms(1) by metis
qed

text \<open>C10: The veto layer fails safe. When the last discipline of the layer never answers, so that
  nothing can bring a signal back after it, the layer, if the cycle goes on at all, approves no
  signal, hands an empty list to the model, and says that it was degraded.\<close>

theorem veto_layer_fails_safe:
  assumes "ml_first ds = ds' @ [d]" "never_answers (ag_env w) d"
    and "fst (runVetoLayer cy ds ctx sigs ml w) = Inr (vetoCtx, summary)"
  shows "array_or_empty (vetoCtx ''pending_signals'') = [] \<and> vy_approved summary = 0 \<and>
    vy_vetoed summary = int (length sigs) \<and> vy_degraded summary"
proof -
  obtain st where st: "fst (discipline_steps cy ml
      \<lparr>vl_ctx = ctx(''pending_signals'' := Some (JArr sigs)), vl_reasons = [], vl_degraded = False\<rparr> (ml_first ds) w) = Inr st"
    and r: "vetoCtx = vl_ctx st" "summary = veto_summary_of sigs ds st"
    using assms(3) by (auto simp: runVetoLayer_def Let_def await_run ret_def split: sum.splits)
  have "no_signals (vl_ctx st) \<and> vl_degraded st"
    using failing_last [OF assms(2)] st assms(1) by simp
  then show ?thesis
    by (simp add: r no_signals_def veto_summary_of_def array_or_empty_def)
qed

lemma find_in_Some: "find_in p xs = Inr (Some m) \<Longrightarrow> m \<in> set xs \<and> p m"
  by (induction p xs rule: find_in.induct) (auto split: if_splits)

lemma find_in_None: "find_in p xs = Inr None \<Longrightarrow> \<forall>x\<in>set xs. \<not> p x"
  by (induction p xs rule: find_in.induct) (auto split: if_splits)

lemma match_Some: "findVetoMatch xs symb src = Inr (Some m, b) \<Longrightarrow> m \<in> set xs \<and> field ''symbol'' m = Some (JStr symb)"
  by (auto simp: findVetoMatch_def dest!: find_in_Some split: sum.splits option.splits)

lemma match_None: "findVetoMatch xs symb src = Inr (None, b) \<Longrightarrow> \<forall>m\<in>set xs. field ''symbol'' m \<noteq> Some (JStr symb)"
  by (auto simp: findVetoMatch_def dest!: find_in_None split: sum.splits option.splits)

lemma approved_list_is: "approved_list ctx = Inr xs \<Longrightarrow> xs = array_or_empty (ctx ''pending_signals'')"
  by (auto simp: approved_list_def array_or_empty_def nullish_def split: option.splits json.splits if_splits)

lemma same_knownD: "same_known p q \<Longrightarrow> p \<noteq> None \<and> q = p"
  by (auto simp: same_known_def)

lemma verdict_approved:
  assumes "resolveVetoVerdict a sig m b = (Approved, x, y)"
  shows "\<exists>k. m = Some k \<and> field ''action'' k \<noteq> Some (JStr ''cancelled'') \<and>
    (as_string (field ''action'' k) = None \<or> as_string (field ''action'' k) = Some a) \<and>
    extractEffectiveQty sig \<noteq> None \<and> extractEffectiveQty k = extractEffectiveQty sig"
  using assms by (auto simp: resolveVetoVerdict_def Let_def dest!: same_knownD split: option.splits if_splits)

lemma verdict_blocked:
  "resolveVetoVerdict a sig m b = (Blocked, x, y) \<Longrightarrow>
   m = None \<or> (\<exists>k. m = Some k \<and> field ''action'' k = Some (JStr ''cancelled''))"
  by (auto simp: resolveVetoVerdict_def Let_def split: option.splits if_splits)

lemma ledger_row:
  assumes "buildVetoDecisionData sig ctx d r originals = Inr row"
  obtains m b x y where "findVetoMatch (array_or_empty (ctx ''pending_signals'')) (lg_symbol row) (resolveSignalSource sig) = Inr (m, b)"
    "resolveVetoVerdict (lg_proposed_action row) sig m (is_ambiguous originals (lg_symbol row) (m, b)) = (lg_verdict row, x, y)"
  using assms
  by (auto simp: buildVetoDecisionData_def Let_def dest!: approved_list_is split: sum.splits prod.splits)

text \<open>C11: The ledger calls a signal approved only when it went through unchanged: the veto layer kept a
  signal for the same symbol, with the same action or none stated, not cancelled, and with the same
  known quantity. A blocked signal has no counterpart left, or a cancelled one.\<close>

theorem ledger_verdicts_are_exact:
  assumes "buildVetoDecisionData sig ctx d r originals = Inr row"
  shows "(lg_verdict row = Approved \<longrightarrow>
      (\<exists>m\<in>set (array_or_empty (ctx ''pending_signals'')).
         field ''symbol'' m = Some (JStr (lg_symbol row)) \<and> field ''action'' m \<noteq> Some (JStr ''cancelled'') \<and>
         (as_string (field ''action'' m) = None \<or> as_string (field ''action'' m) = Some (lg_proposed_action row)) \<and>
         extractEffectiveQty sig \<noteq> None \<and> extractEffectiveQty m = extractEffectiveQty sig)) \<and>
    (lg_verdict row = Blocked \<longrightarrow>
      (\<forall>m\<in>set (array_or_empty (ctx ''pending_signals'')). field ''symbol'' m \<noteq> Some (JStr (lg_symbol row))) \<or>
      (\<exists>m\<in>set (array_or_empty (ctx ''pending_signals'')).
         field ''symbol'' m = Some (JStr (lg_symbol row)) \<and> field ''action'' m = Some (JStr ''cancelled'')))"
proof -
  obtain m b x y where f: "findVetoMatch (array_or_empty (ctx ''pending_signals'')) (lg_symbol row) (resolveSignalSource sig) = Inr (m, b)"
    and v: "resolveVetoVerdict (lg_proposed_action row) sig m (is_ambiguous originals (lg_symbol row) (m, b)) = (lg_verdict row, x, y)"
    using ledger_row [OF assms] by metis
  show ?thesis
  proof (cases m)
    case None
    then show ?thesis using f v match_None [of _ "lg_symbol row"] by (auto simp: resolveVetoVerdict_def)
  next
    case (Some k)
    have k: "k \<in> set (array_or_empty (ctx ''pending_signals''))" "field ''symbol'' k = Some (JStr (lg_symbol row))"
      using match_Some f Some by blast+
    show ?thesis
    proof (intro conjI impI)
      assume "lg_verdict row = Approved"
      then show "\<exists>m\<in>set (array_or_empty (ctx ''pending_signals'')).
         field ''symbol'' m = Some (JStr (lg_symbol row)) \<and> field ''action'' m \<noteq> Some (JStr ''cancelled'') \<and>
         (as_string (field ''action'' m) = None \<or> as_string (field ''action'' m) = Some (lg_proposed_action row)) \<and>
         extractEffectiveQty sig \<noteq> None \<and> extractEffectiveQty m = extractEffectiveQty sig"
        using verdict_approved [of "lg_proposed_action row" sig m] v Some k by (intro bexI [of _ k]) simp_all
    next
      assume "lg_verdict row = Blocked"
      then have "field ''action'' k = Some (JStr ''cancelled'')"
        using verdict_blocked [of "lg_proposed_action row" sig m] v Some by simp
      then show "(\<forall>m\<in>set (array_or_empty (ctx ''pending_signals'')). field ''symbol'' m \<noteq> Some (JStr (lg_symbol row))) \<or>
         (\<exists>m\<in>set (array_or_empty (ctx ''pending_signals'')).
           field ''symbol'' m = Some (JStr (lg_symbol row)) \<and> field ''action'' m = Some (JStr ''cancelled''))"
        using k by blast
    qed
  qed
qed

section \<open>Extras\<close>

lemma merge_protected: "List.member PROTECTED_KEYS k \<Longrightarrow> mergeExtraCtx ctx ex k = ctx k"
  by (simp add: mergeExtraCtx_def)

lemma notify_protected: "List.member PROTECTED_KEYS k \<Longrightarrow> logNotifyIntents ex ctx k = ctx k"
  by (auto simp: logNotifyIntents_def NOTIFY_KEY_def PROTECTED_KEYS_def split: option.splits)

lemma extra_protected:
  "fst (extra_step cy ctx p w) = Inr (ex, ctx') \<Longrightarrow> List.member PROTECTED_KEYS k \<Longrightarrow> ctx' k = ctx k"
  by (auto simp: extra_step_def Let_def await_run ret_def merge_protected notify_protected split: sum.splits)

lemma pre_protected:
  "fst (runPreExtras ps ctx cy w) = Inr (Some ctx') \<Longrightarrow> List.member PROTECTED_KEYS k \<Longrightarrow> ctx' k = ctx k"
proof (induction ps arbitrary: ctx w)
  case (Cons p ps)
  then obtain ex c1 where e: "fst (extra_step cy ctx p w) = Inr (ex, c1)"
    and r: "fst ((if ex ''cycle_abort'' = Some (JBool True)
      then await (ag_audit (CycleAborted (ap_id p))) (\<lambda>_. ret None) else runPreExtras ps c1 cy)
        (snd (extra_step cy ctx p w))) = Inr (Some ctx')"
    by (auto simp: await_run split: sum.splits)
  have "ex ''cycle_abort'' \<noteq> Some (JBool True)" using r by (auto simp: await_run ret_def split: sum.splits)
  then have "ctx' k = c1 k" using r Cons.IH Cons.prems(2) by simp
  then show ?case using extra_protected [OF e Cons.prems(2)] by simp
qed (simp add: ret_def)

text \<open>C12: What the veto layer approved reaches the model as it is. Whatever the extras before the turn
  answer, the signals, the credentials, the calls, the decisions and the reasons in the context
  are, when the turn starts, those the veto layer left.\<close>

theorem extras_cannot_touch_the_signals:
  assumes "fst (runPreExtras ps ctx cy w) = Inr (Some ctx')"
  shows "list_all (\<lambda>k. ctx' k = ctx k) [''pending_signals'', ''credentials'', ''tool_calls'', ''decisions'', ''veto_reasons'']"
  using pre_protected [OF assms] by (simp add: PROTECTED_KEYS_def)

section \<open>Aborted cycles\<close>

text \<open>A relation that holds when the result is an aborted cycle.\<close>

definition when_aborted :: "(agent_world \<Rightarrow> agent_world \<Rightarrow> bool) \<Rightarrow> agent_cycle_result agent_io \<Rightarrow> bool" where
  "when_aborted T m \<longleftrightarrow> (\<forall>w r. fst (m w) = Inr r \<longrightarrow> ar_aborted r \<longrightarrow> T w (snd (m w)))"

context cycle_evolution
begin

lemma aborted_await:
  "evolves T m \<Longrightarrow> (\<And>x. when_aborted T (f x)) \<Longrightarrow> when_aborted T (await m f)"
  unfolding when_aborted_def evolves_def await_run by (auto split: sum.splits intro: trans)

lemma aborted_then:
  assumes "when_aborted T m" "\<And>x. evolves T (g x)"
  shows "when_aborted T (await m (\<lambda>x. await (g x) (\<lambda>_. ret x)))"
  unfolding when_aborted_def
proof (intro allI impI)
  fix w r assume r: "fst (await m (\<lambda>x. await (g x) (\<lambda>_. ret x)) w) = Inr r" "ar_aborted r"
  then have "fst (m w) = Inr r"
    "snd (await m (\<lambda>x. await (g x) (\<lambda>_. ret x)) w) = snd (g r (snd (m w)))"
    by (auto simp: await_run ret_def split: sum.splits)
  then show "T w (snd (await m (\<lambda>x. await (g x) (\<lambda>_. ret x)) w))"
    using assms r(2) trans by (metis evolvesD when_aborted_def)
qed

lemma aborted_let: "(\<And>y. y = x \<Longrightarrow> when_aborted T (f y)) \<Longrightarrow> when_aborted T (let y = x in f y)"
  by simp

lemma aborted_prod: "(\<And>y z. x = (y, z) \<Longrightarrow> when_aborted T (f y z)) \<Longrightarrow> when_aborted T (case x of (y, z) \<Rightarrow> f y z)"
  by (simp split: prod.splits)

lemma aborted_decide: "when_aborted T (decide_cycle cy sp en b0 aps sigs ctx vs)"
proof -
  have never: "when_aborted T (case x of None \<Rightarrow> await (persistNotificationIntents c0) (\<lambda>_. ret r)
      | Some run1 \<Rightarrow>
            (let approvedSignals = array_or_empty (run1 ''pending_signals'')
             in await (ltmPrefetchInject en approvedSignals sigs) (\<lambda>context1.
                await (runGovernedTurn (cycle_turn cy sp aps context1 approvedSignals)) (\<lambda>turn.
                await (after_turn cy aps ps run1 approvedSignals turn) (\<lambda>_.
                ret \<lparr>ar_text = tr_text turn, ar_decisions = tr_decisions turn, ar_results = tr_results turn,
                     ar_context_injected = b0, ar_veto = vs, ar_aborted = False\<rparr>)))))" for x c0 r ps
  proof (cases x)
    case None
    have "evolves T (await (persistNotificationIntents c0) (\<lambda>_. ret r))" by (intro ev_steps ev_notifications)
    then show ?thesis using None by (simp add: when_aborted_def evolves_def)
  next
    case (Some run1)
    then show ?thesis by (auto simp: when_aborted_def Let_def await_run ret_def split: sum.splits)
  qed
  show ?thesis
    unfolding decide_cycle_def Let_def by (intro aborted_await ev_steps ev_pre never [unfolded Let_def])
qed

lemma aborted_cycle: "when_aborted T (runAgentCycle cy c sp)"
proof -
  have e: "when_aborted T (executeAgentCycle cy c sp)"
    unfolding executeAgentCycle_def Let_def
    by (intro aborted_await aborted_prod ev_steps ev_market ev_alerts ev_cycle_audits ev_model ev_veto aborted_decide)
  have "when_aborted T (await (executeAgentCycle cy c sp) (\<lambda>result.
        await (ag_audit (AgentCycleComplete (tally de_allowed (ar_decisions result)))) (\<lambda>_. ret result)))"
    by (rule aborted_then [OF e]) (simp_all add: ev_audit)
  then have "when_aborted T (attempt (await (executeAgentCycle cy c sp) (\<lambda>result.
        await (ag_audit (AgentCycleComplete (tally de_allowed (ar_decisions result)))) (\<lambda>_. ret result)))
       (\<lambda>err. await (ag_audit (AgentCycleFail err)) (\<lambda>_. throw err)))"
    by (auto simp: when_aborted_def attempt_run await_run throw_def split: sum.splits)
  then show ?thesis unfolding runAgentCycle_def by (intro aborted_await ev_audit) simp_all
qed

end

text \<open>Nothing is asked of the model or of a plugin for it, and no table of the platform changes.\<close>

definition undecided :: "agent_world \<Rightarrow> agent_world \<Rightarrow> bool" where
  "undecided w w' \<longleftrightarrow>
     (\<exists>evs. ag_log w' = ag_log w @ evs \<and> list_all (\<lambda>ev. audit_only ev \<or> cycle_record ev) evs) \<and>
     untouched (pt_base (ag_pretest w)) (pt_base (ag_pretest w')) \<and>
     pt_rows (ag_pretest w') = pt_rows (ag_pretest w) \<and> pt_calls (ag_pretest w') = pt_calls (ag_pretest w)"

definition undecided_inner :: "pt_world \<Rightarrow> pt_world \<Rightarrow> bool" where
  "undecided_inner p q \<longleftrightarrow> untouched (pt_base p) (pt_base q) \<and> pt_rows q = pt_rows p \<and> pt_calls q = pt_calls p"

lemma undecided_trans: "undecided u v \<Longrightarrow> undecided v w \<Longrightarrow> undecided u w"
  unfolding undecided_def by (elim conjE exE) (auto intro: exI [of _ "_ @ _"] untouched.trans)

interpretation undecided: cycle_evolution undecided undecided_inner
  by unfold_locales
    (auto simp: undecided_def undecided_inner_def untouched.refl untouched.tock
       intro: undecided_trans [unfolded undecided_def] untouched.trans)

text \<open>C13: An aborted cycle decides nothing. When an extra ends a cycle before its turn, the model has
  not been asked, no plugin function has been called for it, and settings, intents, orders,
  positions, portfolios and pretests are as they were; the cycle leaves audit rows, the veto ledger
  and alerts.\<close>

theorem aborted_cycle_decides_nothing:
  assumes "fst (runAgentCycle cy c sp w) = Inr r" "ar_aborted r"
  shows "undecided w (snd (runAgentCycle cy c sp w))"
  using undecided.aborted_cycle [of cy c sp] assms by (simp add: when_aborted_def)

end
