(* ===== verification/AgentBudget.thy ===== *)
theory AgentBudget
  imports AgentFacts
begin

text \<open>
  The budgets of a governed turn: how many requests to the model, searches, actions and trade
  intents a turn can make, whatever the model answers.
\<close>

lemma left_over:
  assumes "e \<le> s" "f \<le> (a::nat)"
  shows "q * l + p * (s - e) + c * (a - f) = q * Suc l + p * s + c * a - (q + (p * e + c * f))"
proof -
  obtain k m where "s = e + k" "a = f + m" using assms by (metis le_add_diff_inverse)
  then show ?thesis by (simp add: algebra_simps)
qed

text \<open>A clamped count is at most its limit, which is a number that JavaScript can write.\<close>

lemma whole_jmin: "whole (jmin (Fin (of_nat n)) y) \<le> n"
  by (cases y) (auto simp: jmin_def nat_le_iff floor_le_iff)

lemma clamp_count_bound:
  "of_count (int n) = Fin (of_nat n) \<Longrightarrow> fallback \<le> n \<Longrightarrow> clamp_count n fallback x \<le> n"
  by (simp add: clamp_count_def whole_jmin)

lemma limits: "of_count (int 5) = Fin (of_nat 5)" "of_count (int 10) = Fin (of_nat 10)"
  "of_count (int 20) = Fin (of_nat 20)"
  by code_simp+

lemma turns_bound: "count_from 10 REACT_MAX_TURNS_DEFAULT raw \<le> 10"
  by (auto simp: count_from_def REACT_MAX_TURNS_DEFAULT_def intro: clamp_count_bound [OF limits(2)] split: option.splits)

lemma calls_bound: "count_from 20 REACT_MAX_TOOL_CALLS_DEFAULT raw \<le> 20"
  by (auto simp: count_from_def REACT_MAX_TOOL_CALLS_DEFAULT_def intro: clamp_count_bound [OF limits(3)] split: option.splits)

lemma roles_bound: "fst (readDebateConfig w) = Inr cfg \<Longrightarrow> db_maxRoles cfg \<le> 5"
  by (auto simp: readDebateConfig_def or_else_def attempt_run await_run ret_def DEBATE_DEFAULTS_def
      debate_config_from_def Let_def intro!: clamp_count_bound [OF limits(1)] split: sum.splits)

section \<open>Costs\<close>

text \<open>A measure of the world grows by at most the given amount.\<close>

definition costs :: "(agent_world \<Rightarrow> nat) \<Rightarrow> nat \<Rightarrow> 'a agent_io \<Rightarrow> bool" where
  "costs \<mu> n m \<longleftrightarrow> (\<forall>w. \<mu> (snd (m w)) \<le> \<mu> w + n)"

abbreviation free :: "(agent_world \<Rightarrow> nat) \<Rightarrow> 'a agent_io \<Rightarrow> bool" where
  "free \<mu> \<equiv> evolves (\<lambda>w w'. \<mu> w' \<le> \<mu> w)"

lemma costsD: "costs \<mu> n m \<Longrightarrow> \<mu> (snd (m w)) \<le> \<mu> w + n"
  by (simp add: costs_def)

lemma freeD: "free \<mu> m \<Longrightarrow> \<mu> (snd (m w)) \<le> \<mu> w"
  by (simp add: evolves_def)

lemma costs_free: "free \<mu> m \<Longrightarrow> costs \<mu> n m"
  by (simp add: costs_def evolves_def add_increasing2)

lemma costs_more: "costs \<mu> n m \<Longrightarrow> n \<le> k \<Longrightarrow> costs \<mu> k m"
  unfolding costs_def by (meson add_left_mono order_trans)

lemma costs_await: "costs \<mu> n m \<Longrightarrow> (\<And>x. costs \<mu> k (f x)) \<Longrightarrow> costs \<mu> (n + k) (await m f)"
  unfolding costs_def await_run
  by (auto split: sum.splits) (smt (verit, best) add.assoc add_le_mono1 add_leE le_add1 order_trans)+

lemma costs_first: "costs \<mu> n m \<Longrightarrow> (\<And>x. free \<mu> (f x)) \<Longrightarrow> costs \<mu> n (await m f)"
  using costs_await [of \<mu> n m 0 f] costs_free by fastforce

lemma costs_then: "free \<mu> m \<Longrightarrow> (\<And>x. costs \<mu> n (f x)) \<Longrightarrow> costs \<mu> n (await m f)"
  using costs_await [of \<mu> 0 m n f] costs_free by fastforce

lemma costs_known:
  "free \<mu> m \<Longrightarrow> (\<And>w x. fst (m w) = Inr x \<Longrightarrow> costs \<mu> n (f x)) \<Longrightarrow> costs \<mu> n (await m f)"
  unfolding costs_def evolves_def await_run
  by (auto split: sum.splits) (meson add_le_mono1 order_trans trans_le_add1)+

lemma costs_at:
  assumes "free \<mu> m"
    and "\<And>x. fst (m w) = Inr x \<Longrightarrow> \<mu> (snd (f x (snd (m w)))) \<le> \<mu> (snd (m w)) + n"
  shows "\<mu> (snd (await m f w)) \<le> \<mu> w + n"
  using freeD [OF assms(1), of w] assms(2) by (fastforce simp: await_run split: sum.splits)

lemma costs_attempt: "costs \<mu> n m \<Longrightarrow> (\<And>e. free \<mu> (h e)) \<Longrightarrow> costs \<mu> n (attempt m h)"
  unfolding costs_def attempt_run evolves_def
  by (auto split: sum.splits intro: order_trans)

lemma costs_if: "(c \<Longrightarrow> costs \<mu> n a) \<Longrightarrow> (\<not> c \<Longrightarrow> costs \<mu> n b) \<Longrightarrow> costs \<mu> n (if c then a else b)"
  by simp

lemma costs_case_sum:
  "(\<And>y. x = Inl y \<Longrightarrow> costs \<mu> n (a y)) \<Longrightarrow> (\<And>y. x = Inr y \<Longrightarrow> costs \<mu> n (b y)) \<Longrightarrow>
   costs \<mu> n (case x of Inl y \<Rightarrow> a y | Inr y \<Rightarrow> b y)"
  by (simp split: sum.splits)

lemma costs_case_option:
  "(x = None \<Longrightarrow> costs \<mu> n a) \<Longrightarrow> (\<And>y. x = Some y \<Longrightarrow> costs \<mu> n (b y)) \<Longrightarrow>
   costs \<mu> n (case x of None \<Rightarrow> a | Some y \<Rightarrow> b y)"
  by (simp split: option.splits)

lemma costs_let: "(\<And>y. y = x \<Longrightarrow> costs \<mu> n (f y)) \<Longrightarrow> costs \<mu> n (let y = x in f y)"
  by simp

lemma costs_for_each: "(\<And>x. x \<in> set xs \<Longrightarrow> costs \<mu> n (f x)) \<Longrightarrow> costs \<mu> (n * length xs) (for_each f xs)"
proof (induction xs)
  case Nil
  show ?case by (simp add: costs_def ret_def)
next
  case (Cons x xs)
  have "costs \<mu> (n + n * length xs) (await (f x) (\<lambda>_. for_each f xs))"
    by (rule costs_await, rule Cons.prems, simp, rule Cons.IH, rule Cons.prems, simp)
  then show ?case by simp
qed

lemma costs_modify: "(\<And>w. \<mu> (f w) \<le> \<mu> w + n) \<Longrightarrow> costs \<mu> n (modify f)"
  by (simp add: costs_def modify_def)

section \<open>The budgets of a turn\<close>

text \<open>
  A weight of events, with a price for a request of the turn, for one of a debating role, for a
  search and for an action; audit rows, and the plugin calls that kernel tools make themselves,
  are free. The measure is the weight of the log.
\<close>

definition weigh :: "(agent_event \<Rightarrow> nat) \<Rightarrow> agent_world \<Rightarrow> nat" where
  "weigh wt w = sum_list (map wt (ag_log w))"

lemma weigh_log: "weigh wt (w\<lparr>ag_log := ag_log w @ [ev]\<rparr>) = weigh wt w + wt ev"
  by (simp add: weigh_def)

definition settings :: "agent_world \<Rightarrow> string \<Rightarrow> string option" where
  "settings w = w_config (pt_base (ag_pretest w))"

definition max_turns :: "agent_world \<Rightarrow> nat" where
  "max_turns w = count_from 10 REACT_MAX_TURNS_DEFAULT (settings w ''react.max_turns'')"

definition max_calls :: "agent_world \<Rightarrow> nat" where
  "max_calls w = count_from 20 REACT_MAX_TOOL_CALLS_DEFAULT (settings w ''react.max_tool_calls'')"

interpretation settled: agent_evolution "\<lambda>w w'. settings w' = settings w"
    "\<lambda>p q. w_config (pt_base q) = w_config (pt_base p)"
  by unfold_locales (auto simp: settings_def)

lemma settings_after:
  "settings (snd (setup_turn inp w)) = settings w" "settings (snd (resolveMaxTurns w)) = settings w"
  using settled.ev_configuration(5,7) by (simp_all add: evolves_def)

lemma turns_read: "fst (resolveMaxTurns w) = Inr n \<Longrightarrow> n = max_turns w"
  by (auto simp: resolveMaxTurns_def max_turns_def settings_def await_run ret_def in_pretest_def base_def
      kv_get_def db_read_def split_beta split: sum.splits option.splits)

lemma calls_read: "fst (resolveMaxToolCalls w) = Inr n \<Longrightarrow> n = max_calls w"
  by (auto simp: resolveMaxToolCalls_def max_calls_def settings_def await_run ret_def in_pretest_def base_def
      kv_get_def db_read_def split_beta split: sum.splits option.splits)

lemma counts_after: "max_calls (snd (resolveMaxTurns (snd (setup_turn inp w)))) = max_calls w"
  "max_turns (snd (setup_turn inp w)) = max_turns w"
  by (simp_all add: max_calls_def max_turns_def settings_after)

locale meter =
  fixes wt :: "agent_event \<Rightarrow> nat" and request role search act :: nat
  assumes audit_free: "audit_only ev \<Longrightarrow> wt ev = 0"
    and internal_free: "internal_call p f \<Longrightarrow> wt (PluginCalled p f a) = 0"
    and request_price: "lq_tools q \<noteq> None \<Longrightarrow> wt (LlmCalled q) \<le> request"
    and role_price: "lq_tools q = None \<Longrightarrow> wt (LlmCalled q) \<le> role"
    and search_price: "wt (WebSearched t) \<le> search"
    and act_prices: "wt (PluginCalled p f a) \<le> act" "wt (SkillWritten s b) \<le> act" "wt (ConfigMerged p f v) \<le> act"
      "wt (LessonPromoted t e r) \<le> act" "wt (PromoteRequested t r) \<le> act"
begin

abbreviation \<mu> :: "agent_world \<Rightarrow> nat" where "\<mu> \<equiv> weigh wt"

lemma metered: "agent_evolution (\<lambda>w w'. \<mu> w' \<le> \<mu> w) (\<lambda>_ _. True)"
  by unfold_locales (auto simp: weigh_def audit_free)

lemmas free_configuration = agent_evolution.ev_configuration [OF metered]

lemmas frees = agent_evolution.ev_steps [OF metered] agent_evolution.ev_in_pretest [OF metered]
  agent_evolution.ev_configuration [OF metered]

lemma any_inner: "evolves (\<lambda>_ _. True) m"
  by (simp add: evolves_def)

lemma costs_event: "wt ev \<le> n \<Longrightarrow> costs \<mu> n (ag_note ev)"
  unfolding ag_note_def by (rule costs_modify) (simp add: weigh_log)

lemma costs_audit: "wt ev \<le> n \<Longrightarrow> costs \<mu> n (ag_audit ev)"
  unfolding ag_audit_def by (rule costs_then) (simp_all add: frees any_inner costs_event)

lemma costs_complete: "wt (LlmCalled q) \<le> n \<Longrightarrow> costs \<mu> n (complete q)"
  unfolding complete_def by (rule costs_first [OF costs_event]) (simp_all add: frees)

lemma costs_plugin: "wt (PluginCalled p f a) \<le> n \<Longrightarrow> costs \<mu> n (call_plugin p f a)"
  unfolding call_plugin_def by (rule costs_first [OF costs_event]) (simp_all add: frees)

lemma free_plugin: "internal_call p f \<Longrightarrow> free \<mu> (call_plugin p f a)"
  using costs_plugin [of p f a 0] internal_free [of p f a] by (simp add: costs_def evolves_def)

lemma costs_or_else: "costs \<mu> n m \<Longrightarrow> costs \<mu> n (or_else m x)"
  unfolding or_else_def by (rule costs_attempt) (simp_all add: frees)

text \<open>The debate gate asks each of at most five roles once.\<close>

lemma role_stances_cost: "costs \<mu> (role * length rs) (role_stances s rs)"
proof (induction rs)
  case Nil
  show ?case by (simp add: costs_free frees)
next
  case (Cons r rs)
  have "costs \<mu> role (role_stance s r)"
    unfolding role_stance_def
    by (intro costs_first costs_or_else costs_complete frees) (simp_all add: role_price role_request_def)
  then have "costs \<mu> (role + role * length rs)
      (await (role_stance s r) (\<lambda>s1. await (role_stances s rs) (\<lambda>ss. ret (s1 # ss))))"
    by (rule costs_await) (intro costs_first [OF Cons.IH] frees)
  then show ?case by simp
qed

lemma panel_cost: "costs \<mu> (role * length rs) (runPanel s rs)"
  unfolding runPanel_def
  by (rule costs_first [OF role_stances_cost]) (intro frees)

lemma free_consensus: "free \<mu> (audit_consensus tc c)"
  unfolding audit_consensus_def by (intro frees) simp_all

lemma debate_cost: "costs \<mu> (role * db_maxRoles cfg) (debate tc cfg rs)"
proof -
  have p: "costs \<mu> (role * db_maxRoles cfg) (runPanel s (take (db_maxRoles cfg) rs))" for s
    by (rule costs_more [OF panel_cost]) simp
  show ?thesis
    unfolding debate_def
    by (rule costs_then, intro frees, simp, rule costs_first)
      (intro costs_attempt costs_first [OF p] frees free_consensus, simp_all add: frees free_consensus split: sum.splits)
qed

lemma free_notional: "free \<mu> (or_else (notional_reaches tc p) False)"
  unfolding notional_reaches_def Let_def by (intro frees evolves_splits any_inner)

lemma gate_cost: "costs \<mu> (5 * role) (runDebateGate tc)"
proof -
  have d: "costs \<mu> (5 * role) (debate tc cfg rs)" if "db_maxRoles cfg \<le> 5" for cfg rs
    using that by (intro costs_more [OF debate_cost]) simp
  have h: "free \<mu> (isHighImpact tc p)" for p
    unfolding isHighImpact_def by (intro frees evolves_splits free_notional)
  show ?thesis
    unfolding runDebateGate_def
    by (rule costs_known [OF free_configuration(1)])
      (auto intro!: costs_then costs_if costs_case_option d h frees costs_free [OF frees(1)] dest: roles_bound)
qed

text \<open>A kernel tool is a search or one action; the calls that tuning and training make are their own.\<close>

lemma search_cost: "costs \<mu> search (kernelWebSearch tc)"
proof -
  have s: "costs \<mu> search (await (ag_note (WebSearched t)) (\<lambda>_.
      await (ag_ask (\<lambda>e n. ge_search e n t)) (\<lambda>result.
      await (ag_audit (SearchAudited (take 300 t) (se_ok result))) (\<lambda>_.
      await (push_decision tc True None) (\<lambda>_.
      push_result ''kernel'' (tc_function tc) (se_ok result)
        (Some (Result (object [(''text'', Some (JStr (se_text result))),
               (''sources'', Some (JArr (se_sources result)))]))) None)))))" for t
    by (intro costs_first [OF costs_event] search_price frees) simp_all
  show ?thesis
    unfolding kernelWebSearch_def Let_def
    by (intro costs_if s costs_free [OF agent_evolution.ev_verdicts(1) [OF metered]])
qed

lemma tune_cost: "costs \<mu> act (kernelTunePluginParam cy tc)"
proof -
  have m: "costs \<mu> act (succeeds (merge_config p q v))" for p q v
    unfolding succeeds_def merge_config_def
    by (intro costs_or_else costs_first costs_event act_prices frees)
  have j: "free \<mu> read_journal" "free \<mu> (persist_journal x)" for x
    unfolding read_journal_def persist_journal_def succeeds_def by (intro frees evolves_splits any_inner)+
  have "costs \<mu> act (apply_tuning a r)" for a r
    unfolding apply_tuning_def
    by (intro costs_then [OF j(2)] costs_if costs_first [OF m] frees costs_free [OF frees(1)])
  then have c: "costs \<mu> act (runTuneChain a)" for a
    unfolding runTuneChain_def Let_def
    by (intro costs_then [OF j(1)] costs_then [OF free_plugin] costs_if costs_free [OF frees(1)])
      (simp_all add: internal_call_def)
  note v = costs_free [OF agent_evolution.ev_verdicts(1) [OF metered]]
  have a: "costs \<mu> act (await (runTuneChain a) (\<lambda>chainResult.
           case chainResult of
             Inl gateReason \<Rightarrow> refuse_call tc gateReason
           | Inr (before, entry_id) \<Rightarrow>
               await (ag_audit (ParamTuned plugin_id param before val hyp entry_id)) (\<lambda>_.
               accept_call tc (object [(''ok'', Some (JBool True)), (''entry_id'', Some (JStr entry_id))]))))"
    for a plugin_id param val hyp
    by (intro costs_first [OF c] frees evolves_splits) simp_all
  show ?thesis
    unfolding kernelTunePluginParam_def tune_checked_def Let_def
    by (intro costs_attempt costs_then costs_if costs_case_option a v frees evolves_splits) simp_all
qed

lemma tool_cost: "\<not> isReadOnlyKernelTool tc \<Longrightarrow> is_kernel tc \<Longrightarrow> costs \<mu> act (dispatchKernelTool cy tc)"
proof -
  assume tc: "\<not> isReadOnlyKernelTool tc" "is_kernel tc"
  have f: "tc_function tc \<noteq> ''web_search''"
    using tc by (auto simp: isReadOnlyKernelTool_def KERNEL_ALWAYS_ALLOWED_TOOLS_def)
  have w: "costs \<mu> act (kernelWriteSkill tc)"
    unfolding kernelWriteSkill_def Let_def
    by (intro costs_first [OF costs_event] act_prices frees evolves_splits)
  have p: "costs \<mu> act (kernelPromotePretest tc)"
    unfolding kernelPromotePretest_def Let_def
    by (intro costs_if costs_first [OF costs_audit] act_prices frees evolves_splits any_inner
        costs_free [OF agent_evolution.ev_verdicts(1) [OF metered]])
  have l: "costs \<mu> act (kernelRecordLesson tc)"
    unfolding kernelRecordLesson_def Let_def
    by (intro costs_if costs_first [OF costs_event] act_prices frees evolves_splits any_inner
        costs_free [OF agent_evolution.ev_verdicts(1) [OF metered]]) simp_all
  have v: "free \<mu> (kernelCreatePretestVariant tc)" "free \<mu> (kernelRunPretestCompare tc)"
    by (intro agent_evolution.ev_variant_tool [OF metered] agent_evolution.ev_compare_tool [OF metered] any_inner)+
  have t: "free \<mu> (kernelTrainMlModel tc)"
    by (intro agent_evolution.ev_train_tool [OF metered] any_inner)
      (simp add: weigh_log internal_free internal_call_def)
  show ?thesis
    unfolding dispatchKernelTool_def Let_def
    by (intro costs_if w p l tune_cost costs_free [OF v(1)] costs_free [OF v(2)] costs_free [OF t]
        costs_free [OF agent_evolution.ev_push(1) [OF metered]])
      (simp add: f)
qed

lemma plugin_cost: "costs \<mu> act (dispatch_call cy tc)"
proof -
  have r: "free \<mu> (recordSignalAndIntent c tc ok)" for c ok
    unfolding recordSignalAndIntent_def Let_def
    by (intro frees evolves_splits any_inner) simp_all
  show ?thesis
    unfolding dispatch_call_def
    by (intro costs_then [OF agent_evolution.ev_push(1) [OF metered]] costs_first [OF costs_plugin] act_prices frees r)
qed

lemma dispatch_cost:
  "costs \<mu> (5 * role + (if isReadOnlyKernelTool tc then search else act)) (dispatchOne cy tc)"
proof -
  have k: "dispatchKernelTool cy tc = kernelWebSearch tc" if "isReadOnlyKernelTool tc"
    using that by (simp add: isReadOnlyKernelTool_def KERNEL_ALWAYS_ALLOWED_TOOLS_def dispatchKernelTool_def)
  have "costs \<mu> (if isReadOnlyKernelTool tc then search else act)
      (if dropped then ret () else if is_kernel tc then dispatchKernelTool cy tc else dispatch_call cy tc)" for dropped
    using search_cost [of tc] tool_cost [of tc cy] plugin_cost [of cy tc]
    by (auto simp: k costs_free frees isReadOnlyKernelTool_def)
  note c = costs_await [OF gate_cost this]
  show ?thesis
    unfolding dispatchOne_def by (intro costs_attempt c frees) simp
qed

abbreviation search1 :: nat where "search1 \<equiv> 5 * role + search"
abbreviation act1 :: nat where "act1 \<equiv> 5 * role + act"

lemma round_cost:
  "costs \<mu> (search1 * length (read_only_calls s cs) + act1 * length (take b (budgeted_calls cs)))
     (executeToolCalls cy cs b s)"
proof -
  have r: "costs \<mu> (search1 * length (read_only_calls s cs)) (for_each (dispatchOne cy) (read_only_calls s cs))"
  proof (rule costs_for_each)
    fix tc assume "tc \<in> set (read_only_calls s cs)"
    then have "isReadOnlyKernelTool tc" by (auto simp: read_only_calls_def dest: in_set_takeD)
    then show "costs \<mu> search1 (dispatchOne cy tc)" using dispatch_cost [of tc cy] by simp
  qed
  have e: "costs \<mu> (act1 * length (take b (budgeted_calls cs))) (for_each (dispatchOne cy) (take b (budgeted_calls cs)))"
  proof (rule costs_for_each)
    fix tc assume "tc \<in> set (take b (budgeted_calls cs))"
    then have "\<not> isReadOnlyKernelTool tc"
      by (auto simp: budgeted_calls_def prioritizeExits_def dest!: in_set_takeD)
    then show "costs \<mu> act1 (dispatchOne cy tc)" using dispatch_cost [of tc cy] by simp
  qed
  have a: "free \<mu> (audit_cap ev x y z)" if "\<And>x y z. audit_only (ev x y z)" for ev x y z
    unfolding audit_cap_def using that by (intro frees)
  have start: "free \<mu> (modify (\<lambda>w. w\<lparr>ag_decisions := [], ag_results := [], ag_signals := []\<rparr>))"
    by (rule evolves_modify) (simp add: weigh_def)
  show ?thesis
    unfolding executeToolCalls_def Let_def
    by (rule costs_then [OF start], rule costs_await [OF r], rule costs_then [OF a], simp,
        rule costs_first [OF e]) (intro frees a, simp)
qed

lemma round_result:
  "fst (executeToolCalls cy cs b s w) = Inr r \<Longrightarrow>
   er_executed r = length (take b (budgeted_calls cs)) \<and> er_searched r = length (read_only_calls s cs)"
  by (auto simp: executeToolCalls_def Let_def await_run gets_def split: sum.splits)

lemma round_sizes: "length (read_only_calls s cs) \<le> s" "length (take b (budgeted_calls cs)) \<le> b"
  by (simp_all add: read_only_calls_def)

text \<open>What a step that returns has spent, beside its bound when it fails.\<close>

definition spends :: "nat \<Rightarrow> ('x \<Rightarrow> nat) \<Rightarrow> 'x agent_io \<Rightarrow> bool" where
  "spends n g m \<longleftrightarrow> costs \<mu> n m \<and>
     (\<forall>w x. fst (m w) = Inr x \<longrightarrow> g x \<le> n \<and> \<mu> (snd (m w)) \<le> \<mu> w + g x)"

lemma spends_free_first: "free \<mu> m \<Longrightarrow> (\<And>x. spends n g (f x)) \<Longrightarrow> spends n g (await m f)"
  unfolding spends_def
proof (intro conjI allI impI)
  assume m: "free \<mu> m" and f: "\<And>x. costs \<mu> n (f x) \<and>
     (\<forall>w y. fst (f x w) = Inr y \<longrightarrow> g y \<le> n \<and> \<mu> (snd (f x w)) \<le> \<mu> w + g y)"
  show "costs \<mu> n (await m f)" using costs_then [OF m] f by blast
  fix w y assume "fst (await m f w) = Inr y"
  then obtain x where "fst (f x (snd (m w))) = Inr y" "snd (await m f w) = snd (f x (snd (m w)))"
    by (auto simp: await_run split: sum.splits)
  then show "g y \<le> n" "\<mu> (snd (await m f w)) \<le> \<mu> w + g y"
    using f [of x] freeD [OF m, of w] by fastforce+
qed

lemma spends_free_rest:
  "spends n g m \<Longrightarrow> (\<And>x. free \<mu> (f x)) \<Longrightarrow> (\<And>x w y. fst (f x w) = Inr y \<Longrightarrow> h y = g x) \<Longrightarrow>
   spends n h (await m f)"
  unfolding spends_def
proof (intro conjI allI impI)
  assume m: "costs \<mu> n m \<and> (\<forall>w x. fst (m w) = Inr x \<longrightarrow> g x \<le> n \<and> \<mu> (snd (m w)) \<le> \<mu> w + g x)"
    and f: "\<And>x. free \<mu> (f x)" and h: "\<And>x w y. fst (f x w) = Inr y \<Longrightarrow> h y = g x"
  show "costs \<mu> n (await m f)" using costs_first f m by blast
  fix w y assume "fst (await m f w) = Inr y"
  then obtain x where "fst (m w) = Inr x" "fst (f x (snd (m w))) = Inr y"
      "snd (await m f w) = snd (f x (snd (m w)))"
    by (auto simp: await_run split: sum.splits)
  then show "h y \<le> n" "\<mu> (snd (await m f w)) \<le> \<mu> w + h y"
    using m h [of x "snd (m w)" y] freeD [OF f, of x "snd (m w)"] by fastforce+
qed

lemma spends_more: "costs \<mu> k m \<Longrightarrow> (\<And>x. spends n g (f x)) \<Longrightarrow> spends (k + n) (\<lambda>x. k + g x) (await m f)"
  unfolding spends_def
proof (intro conjI allI impI)
  assume m: "costs \<mu> k m" and f: "\<And>x. costs \<mu> n (f x) \<and>
     (\<forall>w y. fst (f x w) = Inr y \<longrightarrow> g y \<le> n \<and> \<mu> (snd (f x w)) \<le> \<mu> w + g y)"
  show "costs \<mu> (k + n) (await m f)" using costs_await [OF m] f by blast
  fix w y assume "fst (await m f w) = Inr y"
  then obtain x where "fst (f x (snd (m w))) = Inr y" "snd (await m f w) = snd (f x (snd (m w)))"
    by (auto simp: await_run split: sum.splits)
  then show "k + g y \<le> k + n" "\<mu> (snd (await m f w)) \<le> \<mu> w + (k + g y)"
    using f [of x] costsD [OF m, of w] by fastforce+
qed

lemma round_spends:
  "spends (search1 * s + act1 * b) (\<lambda>r. search1 * er_searched r + act1 * er_executed r)
     (executeToolCalls cy cs b s)"
proof -
  have le: "search1 * length (read_only_calls s cs) + act1 * length (take b (budgeted_calls cs))
      \<le> search1 * s + act1 * b"
    by (intro add_mono mult_le_mono2 round_sizes)
  show ?thesis
    unfolding spends_def using le costs_more [OF round_cost le] costsD [OF round_cost]
    by (auto dest!: round_result simp del: length_take) (metis length_take)?
qed

lemma costs_spends:
  assumes "spends n g m" "n \<le> N"
    and "\<And>w x. fst (m w) = Inr x \<Longrightarrow> g x \<le> N \<and> costs \<mu> (N - g x) (f x)"
  shows "costs \<mu> N (await m f)"
  unfolding costs_def
proof
  fix w
  show "\<mu> (snd (await m f w)) \<le> \<mu> w + N"
  proof (cases "fst (m w)")
    case (Inl e)
    then show ?thesis
      using assms(1,2) costsD [of \<mu> n m w] by (fastforce simp: spends_def await_run)
  next
    case (Inr x)
    have "\<mu> (snd (m w)) \<le> \<mu> w + g x" using assms(1) Inr by (simp add: spends_def)
    moreover have "\<mu> (snd (f x (snd (m w)))) \<le> \<mu> (snd (m w)) + (N - g x)" "g x \<le> N"
      using assms(3) [OF Inr] unfolding costs_def by blast+
    ultimately show ?thesis using Inr by (simp add: await_run)
  qed
qed

definition price :: "exec_round \<Rightarrow> nat" where
  "price r = request + (search1 * er_searched r + act1 * er_executed r)"

lemma iteration_spends:
  "spends (request + (search1 * s + act1 * b)) (\<lambda>it. price (it_round it)) (runSingleIteration inp su c b s)"
proof -
  have c: "costs \<mu> request (complete (iteration_request su c))"
    by (rule costs_complete) (simp add: request_price iteration_request_def)
  have q: "free \<mu> (requested_calls r)" for r
    unfolding requested_calls_def by (intro frees evolves_splits) (auto intro!: frees split: option.splits)
  have a: "free \<mu> (audit_turn src n)" for src n
    unfolding audit_turn_def by (cases src) (auto intro: frees)
  note v = agent_evolution.ev_validate [OF metered]
  show ?thesis
    unfolding runSingleIteration_def price_def
    by (intro spends_more [OF c] spends_free_first [OF q] spends_free_first [OF v]
        spends_free_rest [OF round_spends] frees a)
      (auto simp: await_run ret_def split: sum.splits)
qed

lemma iteration_bounds:
  "fst (runSingleIteration inp su c b s w) = Inr it \<Longrightarrow>
   er_searched (it_round it) \<le> s \<and> er_executed (it_round it) \<le> b"
  using round_sizes
  by (fastforce simp: runSingleIteration_def await_run ret_def dest: round_result split: sum.splits
      simp del: length_take)

lemma loop_cost:
  "costs \<mu> (request * left + search1 * (MAX_WEB_SEARCH_CALLS_PER_CYCLE - pg_searched pg) +
     act1 * (mc - pg_executed pg)) (react_loop left inp su mt mc pg)"
proof (induction left arbitrary: pg)
  case 0
  show ?case by (simp add: costs_free frees)
next
  case (Suc left)
  let ?S = "MAX_WEB_SEARCH_CALLS_PER_CYCLE - pg_searched pg" and ?A = "mc - pg_executed pg"
  show ?case
    unfolding react_loop.simps Let_def
  proof (rule costs_spends [OF iteration_spends], goal_cases)
    case 1
    show ?case by (simp add: add.assoc)
  next
    case (2 w it)
    define r where "r = it_round it"
    have b: "er_searched r \<le> ?S" "er_executed r \<le> ?A" using iteration_bounds [OF 2] by (simp_all add: r_def)
    have p: "search1 * er_searched r \<le> search1 * ?S" "act1 * er_executed r \<le> act1 * ?A"
      using b by (simp_all only: mult_le_mono2)
    have left: "request * left + search1 * (?S - er_searched r) + act1 * (?A - er_executed r) =
        request * Suc left + search1 * ?S + act1 * ?A - price r"
      unfolding price_def by (rule left_over [OF b])
    have "costs \<mu> (request * left + search1 * (?S - er_searched r) + act1 * (?A - er_executed r))
        (react_loop left inp su mt mc (with_observation e it (after_iteration it pg)))" for e
      using Suc.IH [of "with_observation e it (after_iteration it pg)"]
      by (simp add: with_observation_def after_iteration_def Let_def r_def)
    note next_turn = this
    have f: "free \<mu> (if c then ag_audit (ReactIteration n) else ret ())"
      "free \<mu> (if c then ag_audit (ReactExhausted n k) else ret ())" for c n k
      by (intro frees evolves_if, simp)+
    have "price r \<le> request * Suc left + search1 * ?S + act1 * ?A"
      using p unfolding price_def mult_Suc_right by linarith
    then show ?case
      unfolding r_def [symmetric] left [symmetric]
      by (intro conjI costs_if costs_then [OF frees(3)] costs_then [OF f(1)] next_turn costs_free [OF frees(1)])
        (auto intro!: costs_free frees f)
  qed
qed

text \<open>A turn, within the counts that are configured at its start.\<close>

lemma turn_cost:
  "\<mu> (snd (runGovernedTurn inp w)) \<le>
     \<mu> w + (request * max_turns w + search1 * MAX_WEB_SEARCH_CALLS_PER_CYCLE + act1 * max_calls w)"
proof -
  let ?N = "\<lambda>mt mc. request * mt + search1 * MAX_WEB_SEARCH_CALLS_PER_CYCLE + act1 * mc"
  note d = agent_evolution.ev_divergence [OF metered]
  have l: "costs \<mu> (?N mt mc) (await (react_loop mt inp su mt mc START) (\<lambda>(final, pg).
     await (auditLlmDivergence (tn_source inp) (tn_signals_proposed inp) (pg_signals pg)) (\<lambda>_.
     case final of
       None \<Rightarrow> throw no_iteration
     | Some it \<Rightarrow>
         ret \<lparr>tr_text = it_text it, tr_tool_calls = it_tool_calls it, tr_decisions = pg_decisions pg,
              tr_results = pg_results pg, tr_signals = pg_signals pg, tr_turns_used = pg_turn pg\<rparr>)))" for mt mc su
    using loop_cost [of mt START mc inp su mt]
    by (intro costs_first frees d evolves_splits) (simp add: START_def)
  show ?thesis
    unfolding runGovernedTurn_def
  proof (rule costs_at, rule free_configuration)
    fix su assume su: "fst (setup_turn inp w) = Inr su"
    let ?w = "snd (setup_turn inp w)"
    show "\<mu> (snd (await resolveMaxTurns (\<lambda>maxTurns. await resolveMaxToolCalls (\<lambda>maxToolCalls.
        await (react_loop maxTurns inp su maxTurns maxToolCalls START) (\<lambda>(final, pg).
         await (auditLlmDivergence (tn_source inp) (tn_signals_proposed inp) (pg_signals pg)) (\<lambda>_.
         case final of
           None \<Rightarrow> throw no_iteration
         | Some it \<Rightarrow>
             ret \<lparr>tr_text = it_text it, tr_tool_calls = it_tool_calls it, tr_decisions = pg_decisions pg,
                  tr_results = pg_results pg, tr_signals = pg_signals pg, tr_turns_used = pg_turn pg\<rparr>)))) ?w))
      \<le> \<mu> ?w + ?N (max_turns w) (max_calls w)"
      by (rule costs_at, rule free_configuration, rule costs_at, rule free_configuration)
        (auto simp: counts_after dest!: turns_read calls_read intro: costsD [OF l])
  qed
qed

end

section \<open>The meters\<close>

fun turn_request :: "agent_event \<Rightarrow> bool" where
  "turn_request (LlmCalled q) = (lq_tools q \<noteq> None)"
| "turn_request _ = False"

fun role_asked :: "agent_event \<Rightarrow> bool" where
  "role_asked (LlmCalled q) = (lq_tools q = None)"
| "role_asked _ = False"

fun searched :: "agent_event \<Rightarrow> bool" where
  "searched (WebSearched q) = True"
| "searched _ = False"

text \<open>
  Calls of plugin functions, and writes of skills, configuration, lessons and promotions; not the
  calls that the tools of training and tuning make.
\<close>

fun action :: "agent_event \<Rightarrow> bool" where
  "action (PluginCalled p f a) = (\<not> internal_call p f)"
| "action (SkillWritten s b) = True"
| "action (ConfigMerged p f v) = True"
| "action (LessonPromoted t e r) = True"
| "action (PromoteRequested t r) = True"
| "action _ = False"

definition counting :: "(agent_event \<Rightarrow> bool) \<Rightarrow> agent_event \<Rightarrow> nat" where
  "counting p ev = (if p ev then 1 else 0)"

lemma weigh_tally: "weigh (counting p) w = tally p (ag_log w)"
proof -
  have "sum_list (map (counting p) xs) = tally p xs" for xs
    by (induction xs) (auto simp: counting_def)
  then show ?thesis by (simp add: weigh_def)
qed

lemma audit_only_quiet:
  "audit_only ev \<Longrightarrow> \<not> turn_request ev \<and> \<not> role_asked ev \<and> \<not> searched ev \<and> \<not> action ev"
  by (cases ev) simp_all

interpretation turn_meter: meter "counting turn_request" 1 0 0 0
  by unfold_locales (auto simp: counting_def audit_only_quiet)

interpretation role_meter: meter "counting role_asked" 0 1 0 0
  by unfold_locales (auto simp: counting_def audit_only_quiet)

interpretation search_meter: meter "counting searched" 0 0 1 0
  by unfold_locales (auto simp: counting_def audit_only_quiet)

interpretation action_meter: meter "counting action" 0 0 0 1
  by unfold_locales (auto simp: counting_def audit_only_quiet)

text \<open>C7: A governed turn stays in its budget, whatever the model and the outside world answer. It asks
  the model at most as often as is configured, never more than ten times; it runs at most five
  searches and as many actions as are configured, never more than twenty; the debating roles are
  asked at most five times for each of these calls.\<close>

theorem governed_turn_stays_in_budget:
  "\<exists>evs. ag_log (snd (runGovernedTurn inp w)) = ag_log w @ evs \<and>
     tally turn_request evs \<le> max_turns w \<and> max_turns w \<le> 10 \<and>
     tally searched evs \<le> 5 \<and>
     tally action evs \<le> max_calls w \<and> max_calls w \<le> 20 \<and>
     tally role_asked evs \<le> 5 * (5 + max_calls w)"
proof -
  obtain evs where log: "ag_log (snd (runGovernedTurn inp w)) = ag_log w @ evs"
    using evolvesD [OF allowed_turn.ev_turn [of "ag_env w" inp], of w] by (auto simp: during_def allowed_run_def)
  show ?thesis
    using turn_meter.turn_cost [of inp w] role_meter.turn_cost [of inp w] search_meter.turn_cost [of inp w]
      action_meter.turn_cost [of inp w]
    by (intro exI [of _ evs])
      (simp add: weigh_tally log MAX_WEB_SEARCH_CALLS_PER_CYCLE_def max_turns_def max_calls_def turns_bound calls_bound)
qed

end
