(* ===== verification/AgentFlow.thy ===== *)
theory AgentFlow
  imports AgentBudget Samples "HOL-Library.Sublist"
begin

text \<open>
  Single calls and rounds: what becomes of exits, of entries during a pretest, of a promotion a
  role of the panel objects to, and what a later request sees of an earlier round.
\<close>

section \<open>Exits\<close>

lemma exit_plugin: "is_exit tc \<Longrightarrow> \<not> is_kernel tc"
  by (auto simp: is_exit_def is_emit_intent_def is_kernel_def)

lemma budget_split:
  "take b (budgeted_calls cs) =
     take b (filter is_exit cs) @
     take (b - tally is_exit cs) (filter (\<lambda>tc. \<not> is_exit tc \<and> \<not> isReadOnlyKernelTool tc) cs)"
proof -
  have e: "is_exit tc \<Longrightarrow> \<not> isReadOnlyKernelTool tc" for tc
    using exit_plugin by (auto simp: isReadOnlyKernelTool_def)
  have "filter is_exit (filter (\<lambda>tc. \<not> isReadOnlyKernelTool tc) cs) = filter is_exit cs"
    by (auto simp: e intro: filter_cong)
  moreover have "filter (\<lambda>tc. \<not> is_exit tc) (filter (\<lambda>tc. \<not> isReadOnlyKernelTool tc) cs) =
      filter (\<lambda>tc. \<not> is_exit tc \<and> \<not> isReadOnlyKernelTool tc) cs"
    by (simp add: conj_commute)
  ultimately show ?thesis by (simp add: budgeted_calls_def prioritizeExits_def)
qed

text \<open>The plugin functions called, as the log tells them, and what tells of an attempt at a call.\<close>

fun call_made :: "agent_event \<Rightarrow> (string \<times> string \<times> config) option" where
  "call_made (PluginCalled p f a) = Some (p, f, a)"
| "call_made _ = None"

definition calls_made :: "agent_event list \<Rightarrow> (string \<times> string \<times> config) list" where
  "calls_made evs = List.map_filter call_made evs"

definition key_of :: "tool_call \<Rightarrow> string \<times> string \<times> config" where
  "key_of tc = (tc_plugin_id tc, tc_function tc, tc_args tc)"

definition attempted :: "tool_call \<Rightarrow> agent_event \<Rightarrow> bool" where
  "attempted tc ev \<longleftrightarrow> call_made ev = Some (key_of tc) \<or>
     (\<exists>err. ev = CallFailed (tc_plugin_id tc) (tc_function tc) err)"

lemma calls_made_append [simp]: "calls_made (xs @ ys) = calls_made xs @ calls_made ys"
  by (simp add: calls_made_def List.map_filter_def)

lemma calls_made_Nil [simp]: "calls_made [] = []"
  by (simp add: calls_made_def map_filter_simps)

lemma calls_made_Cons [simp]:
  "calls_made (ev # evs) = (case call_made ev of None \<Rightarrow> calls_made evs | Some k \<Rightarrow> k # calls_made evs)"
  by (simp add: calls_made_def map_filter_simps split: option.splits)

text \<open>The log grows by calls of a given set, and those kernel tools make themselves.\<close>

definition calls_within :: "(string \<times> string \<times> config) set \<Rightarrow> agent_world \<Rightarrow> agent_world \<Rightarrow> bool" where
  "calls_within K w w' \<longleftrightarrow> (\<exists>evs. ag_log w' = ag_log w @ evs \<and>
     (\<forall>(p, f, a)\<in>set (calls_made evs). (p, f, a) \<in> K \<or> internal_call p f))"

definition no_calls :: "agent_world \<Rightarrow> agent_world \<Rightarrow> bool" where
  "no_calls w w' \<longleftrightarrow> (\<exists>evs. ag_log w' = ag_log w @ evs \<and> calls_made evs = [])"

lemma call_made_audit: "audit_only ev \<Longrightarrow> call_made ev = None"
  by (cases ev) simp_all

lemma no_calls_event: "call_made ev = None \<Longrightarrow> no_calls w (w\<lparr>ag_log := ag_log w @ [ev]\<rparr>)"
  by (simp add: no_calls_def)

interpretation no_calls: agent_evolution no_calls "\<lambda>_ _. True"
proof
  show "no_calls u w" if "no_calls u v" "no_calls v w" for u v w
    using that unfolding no_calls_def by (elim exE conjE) (auto intro: exI [of _ "_ @ _"])
  show "no_calls w (w\<lparr>ag_log := ag_log w @ [ev]\<rparr>)" if "audit_only ev" for ev w
    using call_made_audit [OF that] by (rule no_calls_event)
qed (simp_all add: no_calls_def)

lemma within_event:
  "(\<And>p f a. call_made ev = Some (p, f, a) \<Longrightarrow> (p, f, a) \<in> K \<or> internal_call p f) \<Longrightarrow>
   calls_within K w (w\<lparr>ag_log := ag_log w @ [ev]\<rparr>)"
  by (auto simp: calls_within_def split: option.splits)

interpretation within: agent_evolution "calls_within K" "\<lambda>_ _. True" for K
proof
  show "calls_within K u w" if "calls_within K u v" "calls_within K v w" for u v w
    using that unfolding calls_within_def by (elim exE conjE) (auto intro: exI [of _ "_ @ _"])
  show "calls_within K w (w\<lparr>ag_log := ag_log w @ [ev]\<rparr>)" if "audit_only ev" for ev w
    using call_made_audit [OF that] by (intro within_event) simp
qed (simp_all add: calls_within_def)

lemma unconstrained: "evolves (\<lambda>_ _. True) m"
  by (simp add: evolves_def)

lemma within_dispatch:
  assumes "is_kernel tc \<or> key_of tc \<in> K"
  shows "evolves (calls_within K) (dispatchOne cy tc)"
proof -
  note tools = within.ev_skill_tool within.ev_variant_tool within.ev_compare_tool within.ev_promote_tool
    within.ev_lesson_tool within.ev_train_tool within.ev_tune_tool within.ev_search_tool within.ev_push
  have kernel: "evolves (calls_within K) (dispatchKernelTool cy tc)"
    unfolding dispatchKernelTool_def Let_def
    by (intro evolves_if tools unconstrained within_event) (auto simp: internal_call_def)
  show ?thesis
    by (rule within.ev_dispatch [OF _ unconstrained kernel _ unconstrained])
      (use assms in \<open>auto intro!: within_event simp: key_of_def\<close>)
qed

lemma no_calls_dispatch: "isReadOnlyKernelTool tc \<Longrightarrow> evolves no_calls (dispatchOne cy tc)"
proof -
  assume r: "isReadOnlyKernelTool tc"
  then have k: "is_kernel tc" "tc_function tc = ''web_search''"
    by (simp_all add: isReadOnlyKernelTool_def KERNEL_ALWAYS_ALLOWED_TOOLS_def)
  have "evolves no_calls (dispatchKernelTool cy tc)"
    using k(2) by (simp add: dispatchKernelTool_def no_calls.ev_search_tool no_calls_event)
  then show ?thesis
    using k(1) by (intro no_calls.ev_dispatch unconstrained) (simp_all add: no_calls_event)
qed

text \<open>The gate lets an exit through, after reading its configuration.\<close>

lemma exit_not_high: "is_exit tc \<Longrightarrow> isHighImpact tc p = ret False"
  by (simp add: isHighImpact_def)

lemma exit_gate: "is_exit tc \<Longrightarrow> fst (runDebateGate tc w) = Inr x \<Longrightarrow> \<not> x"
  by (auto simp: runDebateGate_def exit_not_high await_run ret_def split: sum.splits if_splits option.splits)

text \<open>What the dispatch of an exit leaves in the log: at most its call, and when it returns, an attempt.\<close>

definition tried :: "tool_call list \<Rightarrow> agent_world \<Rightarrow> exn + unit \<Rightarrow> agent_world \<Rightarrow> bool" where
  "tried tcs w r w' \<longleftrightarrow> (\<exists>evs. ag_log w' = ag_log w @ evs \<and> subseq (calls_made evs) (map key_of tcs) \<and>
     (r = Inr () \<longrightarrow> list_all (\<lambda>tc. list_ex (attempted tc) evs) tcs))"

lemma call_and_after:
  assumes "\<not> is_kernel tc"
  shows "\<exists>evs. ag_log (snd (dispatch_call cy tc w)) = ag_log w @ evs \<and> calls_made evs = [key_of tc]"
proof -
  let ?v = "w\<lparr>ag_decisions := ag_decisions w @ [\<lparr>de_call = tc, de_allowed = True, de_reason = None\<rparr>]\<rparr>"
  let ?u = "?v\<lparr>ag_log := ag_log ?v @ [PluginCalled (tc_plugin_id tc) (tc_function tc) (tc_args tc)]\<rparr>"
  let ?m = "await (ag_ask (\<lambda>e n. ge_call_plugin e n (tc_plugin_id tc) (tc_function tc) (tc_args tc))) (\<lambda>res.
     await (push_result (tc_plugin_id tc) (tc_function tc) (an_ok res) (map_option Result (an_result res))
             (map_option Why (an_error res))) (\<lambda>_.
     recordSignalAndIntent cy tc (an_ok res)))"
  have run: "dispatch_call cy tc w = ?m ?u"
    by (simp add: dispatch_call_def call_plugin_def push_decision_def ag_note_def await_run modify_def
        split: sum.splits)
  have "evolves no_calls ?m"
    unfolding recordSignalAndIntent_def Let_def
    by (intro no_calls.ev_steps no_calls.ev_in_pretest unconstrained) simp_all
  from evolvesD [OF this, of ?u] obtain evs where "ag_log (snd (?m ?u)) = ag_log ?u @ evs" "calls_made evs = []"
    by (auto simp: no_calls_def)
  then show ?thesis unfolding run
    by (intro exI [of _ "PluginCalled (tc_plugin_id tc) (tc_function tc) (tc_args tc) # evs"]) (simp add: key_of_def)
qed

lemma no_calls_gate: "evolves no_calls (runDebateGate tc)"
  by (rule no_calls.ev_debate_gate) (simp_all add: no_calls_event unconstrained)

lemma no_calls_handler:
  "evolves no_calls (await (push_decision tc False (Some (Message err)))
     (\<lambda>_. ag_audit (CallFailed (tc_plugin_id tc) (tc_function tc) err)))"
  by (intro no_calls.ev_steps) simp

lemma handler_tells:
  assumes "fst (await (push_decision tc False (Some (Message err)))
     (\<lambda>_. ag_audit (CallFailed (tc_plugin_id tc) (tc_function tc) err)) w) = Inr ()"
  shows "ag_log (snd (await (push_decision tc False (Some (Message err)))
     (\<lambda>_. ag_audit (CallFailed (tc_plugin_id tc) (tc_function tc) err)) w)) =
     ag_log w @ [CallFailed (tc_plugin_id tc) (tc_function tc) err]"
  using assms
  by (auto simp: await_run push_decision_def modify_def ag_audit_def in_pretest_def base_def db_read_def
      ag_note_def split_beta split: sum.splits option.splits)

lemma exit_tried:
  assumes "is_exit tc"
  shows "tried [tc] w (fst (dispatchOne cy tc w)) (snd (dispatchOne cy tc w))"
proof -
  let ?body = "await (runDebateGate tc) (\<lambda>dropped. if dropped then ret ()
    else if is_kernel tc then dispatchKernelTool cy tc else dispatch_call cy tc)"
  let ?h = "\<lambda>err. await (push_decision tc False (Some (Message err)))
     (\<lambda>_. ag_audit (CallFailed (tc_plugin_id tc) (tc_function tc) err))"
  have nk: "\<not> is_kernel tc" by (rule exit_plugin [OF assms])
  obtain g where g: "ag_log (snd (runDebateGate tc w)) = ag_log w @ g" "calls_made g = []"
    using evolvesD [OF no_calls_gate [of tc], of w] by (auto simp: no_calls_def)
  have body: "\<exists>evs. ag_log (snd (?body w)) = ag_log w @ evs \<and>
      (calls_made evs = [] \<and> (\<exists>e. fst (?body w) = Inl e) \<or> calls_made evs = [key_of tc])"
  proof (cases "fst (runDebateGate tc w)")
    case (Inl e)
    then show ?thesis using g by (intro exI [of _ g]) (simp add: await_run)
  next
    case (Inr x)
    then have run: "?body w = dispatch_call cy tc (snd (runDebateGate tc w))"
      using exit_gate [OF assms Inr] nk by (simp add: await_run)
    obtain evs where "ag_log (snd (?body w)) = ag_log (snd (runDebateGate tc w)) @ evs" "calls_made evs = [key_of tc]"
      unfolding run using call_and_after [OF nk, of cy "snd (runDebateGate tc w)"] by blast
    then show ?thesis using g by (intro exI [of _ "g @ evs"]) simp
  qed
  have here: "list_ex (attempted tc) evs" if "calls_made evs = [key_of tc]" for evs
    using that by (induction evs) (auto simp: attempted_def split: option.splits)
  from body obtain evs where evs: "ag_log (snd (?body w)) = ag_log w @ evs"
    "calls_made evs = [] \<and> (\<exists>e. fst (?body w) = Inl e) \<or> calls_made evs = [key_of tc]" by blast
  show ?thesis
  proof (cases "fst (?body w)")
    case (Inr x)
    then have "dispatchOne cy tc w = ?body w" by (simp add: dispatchOne_def attempt_run prod_eq_iff)
    then show ?thesis
      unfolding tried_def using evs Inr here by (intro exI [of _ evs]) auto
  next
    case (Inl e)
    then have run: "dispatchOne cy tc w = ?h e (snd (?body w))" by (simp add: dispatchOne_def attempt_run)
    obtain h where h: "ag_log (snd (?h e (snd (?body w)))) = ag_log (snd (?body w)) @ h" "calls_made h = []"
      using evolvesD [OF no_calls_handler [of tc e], of "snd (?body w)"] by (auto simp: no_calls_def)
    have told: "list_ex (attempted tc) h" if "fst (?h e (snd (?body w))) = Inr ()"
      using handler_tells [OF that] h(1) by (auto simp: attempted_def)
    show ?thesis
      unfolding tried_def run using evs h told by (intro exI [of _ "evs @ h"]) auto
  qed
qed

lemma exits_tried:
  "list_all is_exit tcs \<Longrightarrow>
   tried tcs w (fst (for_each (dispatchOne cy) tcs w)) (snd (for_each (dispatchOne cy) tcs w))"
proof (induction tcs arbitrary: w)
  case Nil
  then show ?case by (simp add: tried_def ret_def)
next
  case (Cons tc tcs)
  let ?v = "snd (dispatchOne cy tc w)"
  obtain evs where evs: "ag_log ?v = ag_log w @ evs" "subseq (calls_made evs) [key_of tc]"
    "fst (dispatchOne cy tc w) = Inr () \<longrightarrow> list_ex (attempted tc) evs"
    using exit_tried [of tc w cy] Cons.prems by (auto simp: tried_def)
  show ?case
  proof (cases "fst (dispatchOne cy tc w)")
    case (Inl e)
    have "subseq (calls_made evs) (key_of tc # map key_of tcs)"
      using subseq_order.trans [OF evs(2), of "[key_of tc] @ map key_of tcs"] by (simp add: subseq_singleton_left)
    with Inl evs show ?thesis by (auto simp: tried_def await_run)
  next
    case (Inr x)
    obtain fvs where fvs: "ag_log (snd (for_each (dispatchOne cy) tcs ?v)) = ag_log ?v @ fvs"
      "subseq (calls_made fvs) (map key_of tcs)"
      "fst (for_each (dispatchOne cy) tcs ?v) = Inr () \<longrightarrow> list_all (\<lambda>tc. list_ex (attempted tc) fvs) tcs"
      using Cons.IH [of ?v] Cons.prems by (auto simp: tried_def)
    have "subseq (calls_made evs @ calls_made fvs) ([key_of tc] @ map key_of tcs)"
      by (rule list_emb_append_mono [OF evs(2) fvs(2)])
    then show ?thesis
      using Inr evs fvs unfolding tried_def
      by (intro exI [of _ "evs @ fvs"]) (auto simp: await_run list_all_iff)
  qed
qed

text \<open>A round in three phases: searches, exits, the other calls.\<close>

definition other_calls :: "nat \<Rightarrow> tool_call list \<Rightarrow> tool_call list" where
  "other_calls b cs =
     take (b - tally is_exit cs) (filter (\<lambda>tc. \<not> is_exit tc \<and> \<not> isReadOnlyKernelTool tc) cs)"

lemma for_each_append: "for_each f (xs @ ys) = await (for_each f xs) (\<lambda>_. for_each f ys)"
  by (induction xs) (simp_all add: await_assoc)

lemma no_calls_for_each: "(\<And>x. x \<in> set xs \<Longrightarrow> evolves no_calls (f x)) \<Longrightarrow> evolves no_calls (for_each f xs)"
  by (rule no_calls.ev_for_each_in)

lemma no_calls_cap: "(\<And>x y z. audit_only (ev x y z)) \<Longrightarrow> evolves no_calls (audit_cap ev a b c)"
  unfolding audit_cap_def by (intro no_calls.ev_steps)

text \<open>C8: Exits come first. A round under a budget of b calls searches without calling any plugin, then
  dispatches the exits the model asked for, in their order and as far as the budget reaches, and only
  then, in what the exits leave of the budget, other calls: the plugin functions called in the second
  phase are those of these exits, and when the round returns each of the exits has been called or
  its failure recorded; the third phase calls functions only for the remaining calls (and those kernel
  tools need), and it is empty when the exits use the budget up.\<close>

theorem exits_are_dispatched_first:
  "\<exists>xs ys zs. ag_log (snd (executeToolCalls cy cs b s w)) = ag_log w @ xs @ ys @ zs \<and>
     calls_made xs = [] \<and>
     subseq (calls_made ys) (map key_of (take b (filter is_exit cs))) \<and>
     (\<forall>(p, f, a)\<in>set (calls_made zs). (p, f, a) \<in> key_of ` set (other_calls b cs) \<or> internal_call p f) \<and>
     (b \<le> tally is_exit cs \<longrightarrow> calls_made zs = []) \<and>
     (\<forall>r. fst (executeToolCalls cy cs b s w) = Inr r \<longrightarrow>
        list_all (\<lambda>tc. list_ex (attempted tc) ys) (take b (filter is_exit cs)))"
proof -
  let ?exits = "take b (filter is_exit cs)" and ?others = "other_calls b cs"
  let ?first = "await (modify (\<lambda>w. w\<lparr>ag_decisions := [], ag_results := [], ag_signals := []\<rparr>)) (\<lambda>_.
     await (for_each (dispatchOne cy) (read_only_calls s cs)) (\<lambda>_.
     audit_cap SearchCap s (length (read_only_calls s cs))
       (length (filter isReadOnlyKernelTool cs) - length (read_only_calls s cs))))"
  let ?E = "for_each (dispatchOne cy) ?exits" and ?O = "for_each (dispatchOne cy) ?others"
  let ?cap = "audit_cap CallCap b (length (take b (budgeted_calls cs)))
     (length (budgeted_calls cs) - length (take b (budgeted_calls cs)))"
  let ?last = "\<lambda>_. await ?cap (\<lambda>_. gets (\<lambda>w. \<lparr>er_decisions = ag_decisions w, er_results = ag_results w,
     er_signals = ag_signals w, er_executed = length (take b (budgeted_calls cs)),
     er_searched = length (read_only_calls s cs)\<rparr>))"
  have prog: "executeToolCalls cy cs b s = await ?first (\<lambda>_. await ?E (\<lambda>_. await ?O ?last))"
    by (simp add: executeToolCalls_def Let_def await_assoc budget_split for_each_append other_calls_def del: length_take)
  have searches: "evolves no_calls (for_each (dispatchOne cy) (read_only_calls s cs))"
    by (intro no_calls_for_each no_calls_dispatch) (auto simp: read_only_calls_def dest: in_set_takeD)
  then have "evolves no_calls ?first"
    by (intro no_calls.ev_await searches no_calls.ev_ret evolves_modify no_calls_cap) (simp_all add: no_calls_def)
  then obtain xs where xs: "ag_log (snd (?first w)) = ag_log w @ xs" "calls_made xs = []"
    by (auto simp: evolves_def no_calls_def)
  show ?thesis
  proof (cases "fst (?first w)")
    case (Inl e)
    then show ?thesis using xs by (intro exI [of _ xs] exI [of _ "[]"]) (simp add: prog await_run)
  next
    case (Inr u)
    let ?w1 = "snd (?first w)"
    have "list_all is_exit ?exits" by (auto simp: list_all_iff dest: in_set_takeD)
    then obtain ys where ys: "ag_log (snd (?E ?w1)) = ag_log ?w1 @ ys" "subseq (calls_made ys) (map key_of ?exits)"
      "fst (?E ?w1) = Inr () \<longrightarrow> list_all (\<lambda>tc. list_ex (attempted tc) ys) ?exits"
      using exits_tried [of ?exits ?w1 cy] by (auto simp: tried_def)
    show ?thesis
    proof (cases "fst (?E ?w1)")
      case (Inl e)
      then show ?thesis using Inr xs ys
        by (intro exI [of _ xs] exI [of _ ys] exI [of _ "[]"]) (simp add: prog await_run)
    next
      case (Inr v)
      let ?w2 = "snd (?E ?w1)" and ?P = "await ?O ?last"
      have run: "executeToolCalls cy cs b s w = ?P ?w2"
        using \<open>fst (?first w) = Inr u\<close> Inr by (simp add: prog await_run)
      have others: "evolves (calls_within (key_of ` set ?others)) ?O"
        by (intro within.ev_for_each_in within_dispatch) simp
      have cap: "evolves (calls_within K) ?cap" for K
        unfolding audit_cap_def by (intro within.ev_steps) simp
      have later: "evolves (calls_within (key_of ` set ?others)) ?P"
        by (intro within.ev_await others cap within.ev_gets)
      obtain zs where zs: "ag_log (snd (?P ?w2)) = ag_log ?w2 @ zs"
        "\<forall>(p, f, a)\<in>set (calls_made zs). (p, f, a) \<in> key_of ` set ?others \<or> internal_call p f"
        using evolvesD [OF later, of ?w2] unfolding calls_within_def by blast
      have none: "calls_made zs = []" if "b \<le> tally is_exit cs"
      proof -
        have "?others = []" using that by (simp add: other_calls_def)
        then have "evolves no_calls ?O" by (simp add: no_calls.ev_ret)
        then have "evolves no_calls ?P" by (intro no_calls.ev_await no_calls_cap no_calls.ev_gets) simp_all
        from evolvesD [OF this, of ?w2] obtain ws where ws: "ag_log (snd (?P ?w2)) = ag_log ?w2 @ ws" "calls_made ws = []"
          unfolding no_calls_def by blast
        have "zs = ws" using trans [OF zs(1) [symmetric] ws(1)] by (simp only: same_append_eq)
        then show ?thesis using ws(2) by (simp only:)
      qed
      have "ag_log (snd (?P ?w2)) = ag_log w @ xs @ ys @ zs" using xs(1) ys(1) zs(1) by simp
      moreover have "list_all (\<lambda>tc. list_ex (attempted tc) ys) ?exits" using ys(3) Inr by simp
      ultimately show ?thesis unfolding run using xs(2) ys(2) zs(2) none by blast
    qed
  qed
qed

text \<open>What the intent of an exit or a hold carries is accepted when it is recorded.\<close>

lemma unit_interval: "is_finite x \<Longrightarrow> is_finite (jmax j0 (jmin j1 x))"
  by (cases x) (auto simp: jmax_def jmin_def)

lemma clamped_unit: "is_finite x \<Longrightarrow> \<exists>r. jmax j0 (jmin j1 x) = Fin r \<and> 0 \<le> r \<and> r \<le> 1"
  by (cases x) (auto simp: jmax_def jmin_def)

lemma exit_confidence:
  assumes "normalizeIntent ''exit'' tc = (c, r)"
  shows "is_finite c \<and> \<not> jlt c j0 \<and> \<not> jgt c j1 \<and> r \<noteq> []"
proof -
  let ?n = "json_to_number (tc_args tc ''confidence'')"
  define x where "x = (if is_finite ?n then ?n else j1)"
  have "is_finite x" by (simp add: x_def)
  then obtain q where "jmax j0 (jmin j1 x) = Fin q" "0 \<le> q" "q \<le> 1" using clamped_unit by blast
  moreover have "c = jmax j0 (jmin j1 x)" "r \<noteq> []"
    using assms by (auto simp: normalizeIntent_def Let_def js_trim_def x_def split: if_splits)
  ultimately show ?thesis by simp
qed

end
