(* ===== verification/AgentWitnesses.thy ===== *)
theory AgentWitnesses
  imports AgentFlow
begin

text \<open>Concrete turns on which the properties of the agent are applied.\<close>

section \<open>A platform with one plugin\<close>

definition quiet_pretests :: "(string \<Rightarrow> string option) \<Rightarrow> pt_world" where
  "quiet_pretests cfg = \<lparr>pt_base = (sample_world [] [])\<lparr>w_config := cfg\<rparr>,
     pt_env = \<lparr>qe_findAll = (\<lambda>_. Inr []), qe_ohlcv = (\<lambda>_ _ _ _ _. Inr None), qe_hook = (\<lambda>_ _ _ _. Inr None),
       qe_sandbox_cycle = (\<lambda>_ _ _. Inr None), qe_memory = (\<lambda>_. Inr ''''), qe_turn = (\<lambda>_. ret ('''', [])),
       qe_activate = (\<lambda>_ _. None), qe_setConfig = (\<lambda>_ _ _. None)\<rparr>,
     pt_rows = [], pt_navs = [], pt_reputation = (\<lambda>_. None), pt_audit = [], pt_calls = []\<rparr>"

definition decision_plugin :: active_plugin where
  "decision_plugin = \<lparr>ap_id = ''decision'', ap_name = ''decision'', ap_type = ''skill'', ap_config = []\<rparr>"

definition decision_tool :: provider_tool where
  "decision_tool = \<lparr>tl_plugin_id = ''decision'', tl_name = ''decision__emit_trade_intent'', tl_plugin_type = Some ''skill''\<rparr>"

definition emit_call :: "string \<Rightarrow> string \<Rightarrow> tool_call" where
  "emit_call symb act = \<lparr>tc_plugin_id = ''decision'', tc_function = ''emit_trade_intent'',
     tc_args = map_of [(''symbol'', JStr symb), (''action'', JStr act), (''confidence'', JNum j1),
       (''rationale'', JStr ''momentum'')]\<rparr>"

text \<open>A model that always asks for the same calls, and plugins that succeed.\<close>

definition agent_env_of :: "tool_call list \<Rightarrow> agent_env" where
  "agent_env_of calls =
     \<lparr>ge_complete = (\<lambda>_ _. Inr \<lparr>lr_text = '''', lr_tool_calls = calls\<rparr>), ge_panel_timeout = (\<lambda>_. False),
      ge_provider_tools = (\<lambda>_. Inr [decision_tool]), ge_decision_prompt = (\<lambda>_. Inr None),
      ge_active = (\<lambda>_. Inr [decision_plugin]), ge_by_id = (\<lambda>_ _. Inr decision_plugin),
      ge_config_schema = (\<lambda>_ _. Inr None), ge_validate_field = (\<lambda>_ _ _ _. Inr []),
      ge_merge_config = (\<lambda>_ _ _ _. None),
      ge_call_plugin = (\<lambda>_ _ _ _. Inr \<lparr>an_ok = True, an_result = None, an_error = None\<rparr>),
      ge_memory = (\<lambda>_. Inr []),
      ge_sandbox_cycle = (\<lambda>_ _ _. Inr \<lparr>an_ok = True, an_result = None, an_error = None\<rparr>),
      ge_run_hook = (\<lambda>_ _ _. Inr \<lparr>an_ok = True, an_result = None, an_error = None\<rparr>),
      ge_is_pre = (\<lambda>_. False), ge_skill_hash = (\<lambda>_. []), ge_prefetch = (\<lambda>_ _. Inr []),
      ge_equity_curve = (\<lambda>_. Inr []), ge_notify = (\<lambda>_ _ _ _. Inr True), ge_store = (\<lambda>_. None),
      ge_search = (\<lambda>_ _. Inr \<lparr>se_ok = True, se_text = '''', se_sources = []\<rparr>),
      ge_write_skill = (\<lambda>_ _ _. Inr (True, None)), ge_training_data = (\<lambda>_. Inr []),
      ge_debate_roles = (\<lambda>_. Inr None), ge_equity = (\<lambda>_. Inr j0), ge_why_text = (\<lambda>_. ''''),
      ge_promote_text = (\<lambda>_. '''')\<rparr>"

definition agent_sample :: "(string \<Rightarrow> string option) \<Rightarrow> tool_call list \<Rightarrow> agent_world" where
  "agent_sample cfg calls = \<lparr>ag_pretest = quiet_pretests cfg, ag_env = agent_env_of calls, ag_log = [],
     ag_decisions = [], ag_results = [], ag_signals = []\<rparr>"

definition turn_of :: "turn_source \<Rightarrow> bool \<Rightarrow> turn_input" where
  "turn_of src v = \<lparr>tn_source = src, tn_context = ''context'', tn_system_prompt = None, tn_cycle_id = ''c1'',
     tn_active_plugins = None, tn_virtual_only = v, tn_signals_proposed = []\<rparr>"

section \<open>A pretest turn\<close>

definition real_settings :: "string \<Rightarrow> string option" where
  "real_settings = [''react.max_turns'' \<mapsto> ''1'', ''strategy.applied'' \<mapsto> ''s1'',
     ''execution.real'' \<mapsto> ''true'', ''execution.broker_plugin_id'' \<mapsto> ''alpaca'']"

text \<open>
  A pretest turn can reach a broker. On a platform configured for real execution, and not halted, the
  virtual turn of a pretest in which the model emits an entry through the plugin \<open>decision\<close>, as its
  prompt tells it to, sends a market order to the broker: the filter on provider calls does not
  concern the recording of intents.
\<close>

lemma pretest_turn_can_place_a_real_order:
  "\<exists>w inp. tn_source inp = Pretest \<and> tn_virtual_only inp \<and> placements (pt_base (ag_pretest w)) = [] \<and>
     map (\<lambda>(b, q). (b, oq_symbol q, oq_side q, oq_qty q))
       (placements (pt_base (ag_pretest (snd (runGovernedTurn inp w))))) = [(''alpaca'', ''MSFT'', ''buy'', Fin 10)]"
proof -
  let ?w = "agent_sample real_settings [emit_call ''MSFT'' ''long'']" and ?inp = "turn_of Pretest True"
  have "map (\<lambda>(b, q). (b, oq_symbol q, oq_side q, oq_qty q))
      (placements (pt_base (ag_pretest (snd (runGovernedTurn ?inp ?w))))) = [(''alpaca'', ''MSFT'', ''buy'', Fin 10)]"
    by code_simp
  then show ?thesis
    by (intro exI [of _ ?w] exI [of _ ?inp])
      (auto simp: turn_of_def agent_sample_def quiet_pretests_def sample_world_def placements_def)
qed

section \<open>A turn on a halted platform\<close>

text \<open>A platform whose only plugin is a provider with an order tool, real execution halted.\<close>

definition broker_plugin :: active_plugin where
  "broker_plugin = \<lparr>ap_id = ''alpaca'', ap_name = ''alpaca'', ap_type = ''provider'', ap_config = []\<rparr>"

definition broker_tool :: provider_tool where
  "broker_tool = \<lparr>tl_plugin_id = ''alpaca'', tl_name = ''alpaca__place_order'', tl_plugin_type = Some ''provider''\<rparr>"

definition order_call :: tool_call where
  "order_call = \<lparr>tc_plugin_id = ''alpaca'', tc_function = ''place_order'',
     tc_args = map_of [(''symbol'', JStr ''AAPL''), (''side'', JStr ''buy''), (''qty'', JNum j1)]\<rparr>"

definition provider_sample :: agent_world where
  "provider_sample = (agent_sample [REAL_EXECUTION_HALTED_KEY \<mapsto> ''true''] [])\<lparr>ag_env := (agent_env_of [order_call])
     \<lparr>ge_active := \<lambda>_. Inr [broker_plugin], ge_provider_tools := \<lambda>_. Inr [broker_tool]\<rparr>\<rparr>"

text \<open>
  The model asks for an order through the provider's own tool; the turn calls it, kill switch or not.
\<close>

fun provider_order :: "agent_event \<Rightarrow> bool" where
  "provider_order (PluginCalled p f a) = (p = ''alpaca'' \<and> f = ''place_order'')"
| "provider_order _ = False"

lemma switch_spares_provider_tools:
  "halted (pt_base (ag_pretest provider_sample)) \<and>
   list_ex provider_order (ag_log (snd (runGovernedTurn (turn_of Cycle False) provider_sample)))"
proof
  show "halted (pt_base (ag_pretest provider_sample))"
    by (simp add: provider_sample_def agent_sample_def quiet_pretests_def halted_def switch_on_def)
  show "list_ex provider_order (ag_log (snd (runGovernedTurn (turn_of Cycle False) provider_sample)))"
    by code_simp
qed

section \<open>Witnesses\<close>

text \<open>A reflection that asks for the promotion of a pretest, without the confirmation of the operator.\<close>

definition promote_call :: tool_call where
  "promote_call = \<lparr>tc_plugin_id = ''kernel'', tc_function = ''promote_pretest'',
     tc_args = map_of [(''pretest_id'', JStr ''p1'')]\<rparr>"

theorem model_never_promotes_alone_witness:
  "pt_calls (ag_pretest (snd (runGovernedTurn (turn_of Reflection False) (agent_sample (\<lambda>_. None) [promote_call])))) = []"
  using model_never_promotes_alone [of "agent_sample (\<lambda>_. None) [promote_call]" "turn_of Reflection False"]
  by (simp add: agent_sample_def quiet_pretests_def kvBool_def)

definition halted_sample :: agent_world where
  "halted_sample = agent_sample [REAL_EXECUTION_HALTED_KEY \<mapsto> ''true''] [emit_call ''AAPL'' ''exit'']"

text \<open>A round with room for one call, asked for an entry and then an exit: only the exit is called.\<close>

theorem exits_are_dispatched_first_witness:
  "\<exists>xs ys zs. ag_log (snd (executeToolCalls ''c1'' [emit_call ''MSFT'' ''long'', emit_call ''AAPL'' ''exit''] 1 5 halted_sample)) =
       ag_log halted_sample @ xs @ ys @ zs \<and>
     calls_made xs = [] \<and> subseq (calls_made ys) [key_of (emit_call ''AAPL'' ''exit'')] \<and> calls_made zs = []"
proof -
  have e: "\<not> is_exit (emit_call ''MSFT'' ''long'')" "is_exit (emit_call ''AAPL'' ''exit'')" by code_simp+
  show ?thesis
    using exits_are_dispatched_first [of "''c1''" "[emit_call ''MSFT'' ''long'', emit_call ''AAPL'' ''exit'']" 1 5 halted_sample]
    by (simp add: e) blast
qed

definition hold_call :: "string \<times> string \<times> (string \<times> json) list" where
  "hold_call = (''decision'', ''hold'', [(''symbol'', JStr ''AAPL'')])"

theorem explicit_reply_roundtrip_witness:
  "parseToolCalls (tagged_reply ''ok '' (stringify (JArr (map explicit_entry [hold_call]))) []) =
     (map call_of_entry [hold_call], None)"
proof (rule explicit_reply_roundtrip)
  show "plain_reply ''ok '' (stringify (JArr (map explicit_entry [hold_call]))) []" by code_simp
  show "list_all (\<lambda>(p, f, a). readable (JObj a)) [hold_call]" by code_simp
qed

end
