(* ===== verification/PretestTurn.thy ===== *)
theory PretestTurn
  imports AgentFacts PretestFacts
begin

text \<open>
  The pretest service and the agent together: the turn that a pretest cycle asks the agent for, as
  the agent runs it, in the place of the turn the pretest service leaves open.
\<close>

section \<open>The turn of a pretest\<close>

text \<open>
  The input of the turn. Its context, the memory, the name and the capital of the portfolio, its
  signals and the task, is text that \<open>render\<close> makes of the request. The identifier of the turn is new.
\<close>

definition pretest_turn_input :: "(turn_request \<Rightarrow> string) \<Rightarrow> string \<Rightarrow> turn_request \<Rightarrow> turn_input" where
  "pretest_turn_input render cid q =
     \<lparr>tn_source = Pretest, tn_context = render q, tn_system_prompt = None, tn_cycle_id = cid,
      tn_active_plugins = None, tn_virtual_only = True, tn_signals_proposed = tq_signals q\<rparr>"

text \<open>
  The turn on the shared world, the agent's own world around it: the answers \<open>ge\<close> of model and
  plugins, the pretest service \<open>p\<close> with its tables, and no decision taken yet. The cycle uses the text
  and the calls of the result.
\<close>

definition governed_pretest_turn ::
  "agent_env \<Rightarrow> (turn_request \<Rightarrow> string) \<Rightarrow> pt_world \<Rightarrow> turn_request \<Rightarrow> (string \<times> tool_call list) app" where
  "governed_pretest_turn ge render p q =
     await fresh_uuid (\<lambda>cid b.
       case runGovernedTurn (pretest_turn_input render cid q)
           \<lparr>ag_pretest = p\<lparr>pt_base := b\<rparr>, ag_env = ge, ag_log = [], ag_decisions = [], ag_results = [], ag_signals = []\<rparr>
       of (r, a) \<Rightarrow> (map_sum id (\<lambda>t. (tr_text t, tr_tool_calls t)) r, pt_base (ag_pretest a)))"

text \<open>The turn leaves the tables of the pretest service alone, as a pretest cycle expects.\<close>

lemma pretest_turn_keeps_tables:
  assumes "tn_source inp = Pretest"
  shows "\<exists>b. ag_pretest (snd (runGovernedTurn inp w)) = (ag_pretest w)\<lparr>pt_base := b\<rparr>"
proof -
  have "pretests_kept inp (ag_pretest w) (ag_pretest (snd (runGovernedTurn inp w)))"
    using evolvesD [OF allowed_turn.ev_turn [of "ag_env w" inp], of w] by (simp add: during_def allowed_run_def)
  then show ?thesis
    using assms by (intro exI [of _ "pt_base (ag_pretest (snd (runGovernedTurn inp w)))"])
      (simp add: pretests_kept_def)
qed

lemma halted_pretest_turn: "halted_sends b (snd (governed_pretest_turn ge render p q b))"
proof -
  have inner: "halted_sends b (pt_base (ag_pretest (snd (runGovernedTurn inp
      \<lparr>ag_pretest = p\<lparr>pt_base := b\<rparr>, ag_env = ge, ag_log = [], ag_decisions = [], ag_results = [], ag_signals = []\<rparr>))))"
    for inp b
    using halted_inner.turn_inner [of "\<lparr>ag_pretest = p\<lparr>pt_base := b\<rparr>, ag_env = ge, ag_log = [], ag_decisions = [],
      ag_results = [], ag_signals = []\<rparr>" inp] by (simp add: halted_inner_def)
  have "evolves halted_sends (governed_pretest_turn ge render p q)"
    unfolding governed_pretest_turn_def
    by (intro halted_sends.ev_await)
      (auto simp: evolves_def inner split_beta fresh_uuid_def halted_sends.tock)
  from evolvesD [OF this] show ?thesis .
qed

section \<open>A halted platform\<close>

text \<open>C9: While the kill switch is on, pretests only close. The pretest service takes its turns from the
  agent, as the program wires them, whatever the model, the plugins and the sandbox answer: then any
  operation of the service, a cycle or a run over all portfolios included, leaves the switch on, and
  the orders it sends through the gateway, if any, are exits, market sells of the size of a position
  the broker itself reports.\<close>

theorem halted_pretest_only_exits:
  assumes "pretest_op w w'" and "halted (pt_base w)"
    and "\<forall>q b. \<exists>p. qe_turn (pt_env w) q b = governed_pretest_turn ge render p q b"
  shows "halted (pt_base w') \<and>
    (\<exists>ps. placements (pt_base w') = placements (pt_base w) @ ps \<and>
       list_all (exit_order (w_env (pt_base w))) ps)"
proof -
  have step: "halted_sends b b'" if "turn_effect (pt_env w) b b'" for b b'
    using that assms(3) halted_pretest_turn [of b ge render] unfolding turn_effect_def
    by (metis untouched_halted)
  have "(turn_effect (pt_env w))\<^sup>*\<^sup>* (pt_base w) (pt_base w')"
    using op_by_turns [OF assms(1)] by (simp add: by_turns_def)
  then have "halted_sends (pt_base w) (pt_base w')"
    by (induction rule: rtranclp_induct) (auto intro: halted_sends.refl halted_sends.trans step)
  then show ?thesis using assms(2) by (auto simp: halted_sends_def)
qed

end
