(* ===== verification/CycleWitnesses.thy ===== *)
theory CycleWitnesses
  imports CycleFacts AgentWitnesses PretestTurn PretestWitnesses
begin

text \<open>Concrete cycles on which the properties of agent cycles are applied.\<close>

section \<open>Plugins\<close>

definition plugin_of :: "string \<Rightarrow> string \<Rightarrow> active_plugin" where
  "plugin_of i t = \<lparr>ap_id = i, ap_name = i, ap_type = t, ap_config = []\<rparr>"

definition hooked :: "active_plugin list \<Rightarrow> plugin_answer \<Rightarrow> agent_world" where
  "hooked ps a = (agent_sample (\<lambda>_. None) [])\<lparr>ag_env := (agent_env_of [])
     \<lparr>ge_active := \<lambda>_. Inr ps, ge_run_hook := \<lambda>_ _ _. Inr a, ge_is_pre := \<lambda>_. True\<rparr>\<rparr>"

definition answer :: "(string \<times> json) list \<Rightarrow> plugin_answer" where
  "answer ps = \<lparr>an_ok = True, an_result = Some (JObj ps), an_error = None\<rparr>"

definition failure :: plugin_answer where
  "failure = \<lparr>an_ok = False, an_result = None, an_error = Some ''timeout''\<rparr>"

definition proposal :: json where
  "proposal = JObj [(''symbol'', JStr ''AAPL''), (''action'', JStr ''long''), (''qty'', JNum j1)]"

section \<open>Witnesses\<close>

theorem halted_agent_only_exits_witness:
  "exits_only halted_sample (snd (runGovernedTurn (turn_of Pretest True) halted_sample)) \<and>
   exits_only halted_sample (snd (runAgentCycle ''c1'' ''go'' None halted_sample)) \<and>
   (\<exists>evs. ag_log (snd (runGovernedTurn (turn_of Pretest True) halted_sample)) = ag_log halted_sample @ evs \<and>
      (\<forall>p f a. PluginCalled p f a \<in> set evs \<longrightarrow> \<not> provider_for (ag_env halted_sample) (turn_of Pretest True) p))"
proof -
  have h: "halted (pt_base (ag_pretest halted_sample))"
    by (simp add: halted_sample_def agent_sample_def quiet_pretests_def halted_def switch_on_def)
  have v: "tn_virtual_only (turn_of Pretest True)" "tn_source (turn_of Pretest True) \<noteq> Reflection"
    by (simp_all add: turn_of_def)
  show ?thesis
    using halted_agent_only_exits [OF h, of "turn_of Pretest True" "''c1''" "''go''" None] v by blast
qed

text \<open>A portfolio of a halted platform, and a model that answers with an exit.\<close>

definition halted_pretests :: pt_world where
  "halted_pretests = pretest_sample\<lparr>pt_base := (sample_world [] [])\<lparr>w_config := [REAL_EXECUTION_HALTED_KEY \<mapsto> ''true'']\<rparr>,
     pt_env := pretest_env\<lparr>qe_turn := governed_pretest_turn (agent_env_of [emit_call ''AAPL'' ''exit'']) (\<lambda>_. '''')
       pretest_sample\<rparr>\<rparr>"

theorem halted_pretest_only_exits_witness:
  "halted (pt_base (snd (pretest_runCycle ''p1'' None halted_pretests))) \<and>
   (\<exists>ps. placements (pt_base (snd (pretest_runCycle ''p1'' None halted_pretests))) = placements (pt_base halted_pretests) @ ps \<and>
      list_all (exit_order (w_env (pt_base halted_pretests))) ps)"
proof (rule halted_pretest_only_exits)
  show "pretest_op halted_pretests (snd (pretest_runCycle ''p1'' None halted_pretests))" by (rule op_runCycle)
  show "halted (pt_base halted_pretests)" by (simp add: halted_pretests_def halted_def switch_on_def)
  show "\<forall>q b. \<exists>p. qe_turn (pt_env halted_pretests) q b =
      governed_pretest_turn (agent_env_of [emit_call ''AAPL'' ''exit'']) (\<lambda>_. '''') p q b"
    by (auto simp: halted_pretests_def)
qed

theorem veto_layer_fails_safe_witness:
  "\<exists>vetoCtx summary.
     fst (runVetoLayer ''c1'' [plugin_of ''risk'' ''discipline''] (\<lambda>_. None) [proposal] None (hooked [] failure)) =
       Inr (vetoCtx, summary) \<and> array_or_empty (vetoCtx ''pending_signals'') = [] \<and> vy_degraded summary"
proof -
  let ?d = "plugin_of ''risk'' ''discipline''" and ?w = "hooked [] failure"
  have "case fst (runVetoLayer ''c1'' [?d] (\<lambda>_. None) [proposal] None ?w) of Inr _ \<Rightarrow> True | Inl _ \<Rightarrow> False"
    by code_simp
  then obtain vetoCtx summary where r: "fst (runVetoLayer ''c1'' [?d] (\<lambda>_. None) [proposal] None ?w) = Inr (vetoCtx, summary)"
    by (cases "fst (runVetoLayer ''c1'' [?d] (\<lambda>_. None) [proposal] None ?w)") auto
  have "ml_first [?d] = [] @ [?d]" by (simp add: ml_first_def is_ml_def plugin_of_def ML_PLUGIN_ID_def)
  moreover have "never_answers (ag_env ?w) ?d" by (simp add: never_answers_def hooked_def failure_def)
  ultimately show ?thesis using veto_layer_fails_safe [OF _ _ r] r by blast
qed

theorem ledger_verdicts_are_exact_witness:
  "\<exists>row. buildVetoDecisionData proposal [''pending_signals'' \<mapsto> JArr [proposal]] None None [proposal] = Inr row \<and>
     (\<exists>m\<in>set [proposal]. field ''symbol'' m = Some (JStr (lg_symbol row)))"
proof -
  let ?b = "buildVetoDecisionData proposal [''pending_signals'' \<mapsto> JArr [proposal]] None None [proposal]"
  have a: "case ?b of Inr row \<Rightarrow> lg_verdict row = Approved | Inl _ \<Rightarrow> False" by code_simp
  then obtain row where b: "?b = Inr row" by (cases ?b) auto
  then have "lg_verdict row = Approved" using a by simp
  then show ?thesis using ledger_verdicts_are_exact [OF b] b by (auto simp: array_or_empty_def)
qed

theorem extras_cannot_touch_the_signals_witness:
  "\<exists>ctx'. fst (runPreExtras [plugin_of ''x'' ''extra''] [''pending_signals'' \<mapsto> JArr [proposal]] ''c1''
       (hooked [] (answer [(''pending_signals'', JArr [])]))) = Inr (Some ctx') \<and>
     ctx' ''pending_signals'' = Some (JArr [proposal])"
proof -
  let ?r = "fst (runPreExtras [plugin_of ''x'' ''extra''] [''pending_signals'' \<mapsto> JArr [proposal]] ''c1''
       (hooked [] (answer [(''pending_signals'', JArr [])])))"
  have "case ?r of Inr (Some _) \<Rightarrow> True | _ \<Rightarrow> False" by code_simp
  then obtain ctx' where r: "?r = Inr (Some ctx')" by (auto split: sum.splits option.splits)
  then show ?thesis using extras_cannot_touch_the_signals [OF r] by simp
qed

definition aborting :: agent_world where
  "aborting = hooked [plugin_of ''x'' ''extra''] (answer [(''cycle_abort'', JBool True)])"

theorem aborted_cycle_decides_nothing_witness:
  "undecided aborting (snd (runAgentCycle ''c1'' ''go'' None aborting))"
proof -
  have a: "case fst (runAgentCycle ''c1'' ''go'' None aborting) of Inr r \<Rightarrow> ar_aborted r | Inl _ \<Rightarrow> False"
    by code_simp
  then obtain r where r: "fst (runAgentCycle ''c1'' ''go'' None aborting) = Inr r"
    by (cases "fst (runAgentCycle ''c1'' ''go'' None aborting)") auto
  then have "ar_aborted r" using a by simp
  with r show ?thesis by (rule aborted_cycle_decides_nothing)
qed

end
