(* ===== verification/Spec2Isabelle.thy ===== *)
theory Spec2Isabelle
  imports Witnesses VetoWitnesses SchedulerWitnesses PretestWitnesses CycleWitnesses
begin

text \<open>
  OpenNeoTrader: a verification library for the trading core of \<open>src/apps/api/src\<close>.

  The program. A NestJS server lets a language model, the plugins it drives and an operator
  decide trades, and executes them on a simulated (paper) account or with a real broker. A
  decision becomes a trade intent; an approved intent is executed by the governed execution
  core on the paper account, or passes a list of gates and becomes a real order. Real orders
  are brought to an end by a reconciliation loop that polls the broker. A kill switch in the
  key-value table stops new real-money entries. Schedulers start agent cycles and pretest runs,
  and an analyzer marks the decisions the veto layer took to what the market did afterwards.

  Foundations. \<open>Prelude\<close>: tables as lists of rows. \<open>JsNumber\<close>: binary64 with rounding, infinities
  and NaN (signed zeros are one zero), the comparison and rounding functions the code uses.
  \<open>JsDate\<close>: time values, \<open>toISOString\<close> and the ISO branch of \<open>Date.parse\<close>, with their round trip;
  the other formats of \<open>Date.parse\<close> are a parameter. \<open>Json\<close>, \<open>JsMath\<close>: parsed JSON with the casts the
  code makes, text functions (upper and lower case of ASCII letters only), a correctly rounded
  square root. \<open>Effects\<close>: asynchronous functions as state
  transformers with exceptions, the loops and handlers, and the locale \<open>evolution\<close>: a reflexive
  and transitive relation respected by primitive steps is respected by every program.

  Components, each with the definitions in the order of the code:
  - \<open>KvUtil\<close>, \<open>BrokerStatus\<close>: \<open>common/kv.util.ts\<close> (\<open>unwrapKv\<close>, \<open>kvNum\<close>, \<open>kvBool\<close>, \<open>kvStr\<close>),
    \<open>common/broker-status.util.ts\<close> (\<open>normalizeBrokerStatus\<close>, the open and terminal statuses).
  - \<open>World\<close>, \<open>WorldState\<close>, \<open>WorldFacts\<close>, \<open>OrderTable\<close>: the tables of \<open>prisma/schema.prisma\<close> the
    services share, with unique indexes; primitive reads and writes, each of which may fail; the
    locales \<open>timed_evolution\<close>, \<open>world_evolution\<close> and \<open>row_evolution\<close>.
  - \<open>HaltSwitch\<close>: \<open>common/real-execution-halt.util.ts\<close>.
  - \<open>GovernedExec\<close>, \<open>GovernedFacts\<close>: \<open>execution/governed-paper-execution.service.ts\<close> and
    \<open>governed-account-state.ts\<close>: mark to market, breakers, entry gate, ceilings, fills.
  - \<open>RealOrder\<close>, \<open>RealOrderFacts\<close>: \<open>real-order/real-order.service.ts\<close>: \<open>submit\<close>, the placement and
    its failures, \<open>recoverInflight\<close>.
  - \<open>Reconciliation\<close>, \<open>ReconciliationFacts\<close>: \<open>real-reconciliation/real-broker-reconciliation.service.ts\<close>:
    \<open>applyBrokerOrder\<close>, the sweeps, the breaker, the portfolio cache, drift and adoption, the tick.
  - \<open>TradeIntent\<close>, \<open>TradeIntentFacts\<close>: \<open>trade-intent/trade-intent.service.ts\<close>: policy, gates, paper
    and real execution, recording, approval.
  - \<open>StrategyStore\<close>: \<open>strategy/strategy.service.ts\<close> and the configuration store of
    \<open>panel/panel.service.ts\<close>, which write arbitrary keys of the key-value table.
  - \<open>Platform\<close>: these services together. \<open>platform_step\<close> runs one operation to its end, with any
    answers from outside; \<open>restart\<close> loses what is only in memory.
  - \<open>VetoAnalyzer\<close>, \<open>VetoFacts\<close>, \<open>VetoReports\<close>: \<open>veto-analyzer/veto-analyzer.service.ts\<close>.
  - \<open>CycleExecutor\<close>, \<open>CycleScheduler\<close>, \<open>SchedulerFacts\<close>: \<open>cycle/cycle-executor.service.ts\<close> and
    \<open>scheduler/cycle-scheduler.service.ts\<close>. A started cycle is a job; the environment says before
    which later effect it ends.
  - \<open>PretestScheduler\<close>: \<open>pretest-scheduler/pretest-scheduler.service.ts\<close>.
  - \<open>PretestEngine\<close>, \<open>PretestService\<close>, \<open>PretestCycle\<close>: \<open>pretest/pretest.service.ts\<close>: the trading engine;
    portfolios, significance gate and reputation; promotion, risk floor and the cycle. Facts in
    \<open>PretestFacts\<close> (locales \<open>quoting\<close>, \<open>pretest_evolution\<close>), \<open>PretestGate\<close>, \<open>PretestFloor\<close> and
    \<open>PretestBooks\<close> (locale \<open>portfolio_invariant\<close>). The governed turn of a cycle is an operation on the shared
    world that the service leaves open; \<open>PretestTurn\<close> puts the agent's turn in its place.
  - \<open>TextOps\<close>, \<open>JsonText\<close>: text searches as regular expressions make them, \<open>JSON.parse\<close> and
    \<open>JSON.stringify\<close> with their round trip. \<open>KernelParser\<close>: \<open>llm/kernel-parser.ts\<close>. \<open>Sanitize\<close>:
    \<open>agents/sanitize.util.ts\<close>.
  - \<open>AgentWorld\<close>, \<open>DebatePanel\<close>, \<open>AgentTools\<close>, \<open>AgentDispatch\<close>, \<open>AgentRound\<close>, \<open>AgentTurn\<close>:
    \<open>agents/agents.service.ts\<close> and \<open>debate.service.ts\<close>, a governed turn: requests to the model,
    validation, kernel tools, debate gate, dispatch, budgets. Facts in \<open>AgentFacts\<close> (locales
    \<open>agent_evolution\<close>, \<open>turn_evolution\<close>, \<open>inner_evolution\<close>), \<open>AgentBudget\<close> (locale \<open>meter\<close>, a price
    for each kind of event) and \<open>AgentFlow\<close>.
  - \<open>VetoLayer\<close>, \<open>AgentCycle\<close>: the rest of an agent cycle: the disciplines and the ledger, the
    extras, market context, memory, alerts and notifications. Facts in \<open>CycleFacts\<close> (locale
    \<open>cycle_evolution\<close>).
  \<open>Samples\<close> and the theories named \<open>Witnesses\<close> apply each property with a
  hypothesis at a concrete state.

  The environment. What brokers, market data, the database (a fault per access), the clock, the
  agents and the plugins answer is a field of the world's environment, a function of the number of
  accesses made so far, on which nothing is assumed except where a theorem says so (a broker that
  answers, a store without faults, a clock within the range of dates).

  What the lemmas show. Safety over every reachable state (\<open>Platform\<close>): four operations
  clear the kill switch (the operator's, and three that write the key without asking), nothing but
  exits is sent through the gateway while it is set, each order sent has its committed row. Functional behaviour of entry, exit, submission, recovery and of both sides
  of a reconciled order. Bounds, signs and conservation of money of the paper fills. Accounting,
  convergence and absence of lookahead of the counterfactual backfill, and the two reports against
  sums over the ledger. Pretests: what they do to the real side is what their governed turns do, on a
  halted platform only exits; each entry passes the risk floor on the account the entries before it
  left; promotion needs the gate and a consent, their rebalance refines the core's, a cycle stores all
  or nothing and keeps the books. Mutual exclusion, due times, breaker and cadence of the schedulers.
  Governed turns: what a turn may reach, whatever the model answers, its budgets, exits first, no
  promotion without the operator, only exits through the gateway while halted; the parser reads back
  what is written. Two lemmas on concrete turns show what the code lets through: a pretest turn can
  send a live order, and the kill switch does not stop a provider's own order tool. Cycles: the veto layer fails safe, its
  ledger is exact, extras cannot touch the signals, an aborted cycle decides nothing.

  Bounds and fuel. The fast poll and the pagination of recovery recurse on the number of attempts
  or rows, which the code bounds; the loop of a turn on the turns left; \<open>json_parse\<close> takes the length
  of the text as fuel, which a round trip shows to suffice. \<open>MAX_TIME\<close> is the range of JavaScript
  dates.

  Atomicity. An operation runs to its end before the next one, except for started cycles. Two
  overlapping timer ticks of the reconciliation loop are therefore not modelled. Exceptions keep
  the writes made before them. The texts of exceptions and notes are shortened or constructors;
  log lines, and audit rows written without awaiting them, are left out. A fast poll also runs
  when the last write to the intent fails. Quotes a pretest requests together are answered in the
  order of its positions; the reputations a gate recomputes in the background are computed before
  it answers. A stored number that is not finite (\<open>null\<close> in JSON) is the 0 it acts as in arithmetic,
  although a method called on it would fail, so no property states that stored amounts are finite; a
  symbol that is not a string counts as absent, where the program casts it.

  Not modelled: HTTP controllers and module wiring, the text of prompts and calls to language models,
  the assembly of the prompt of a reflection, plugin installation and the sandbox, authentication, notification, backup, the web panel, the plugin
  store, and the Python plugins: input and output around the decisions modelled here.
\<close>

end
